(* ===== verification/Prelude.thy ===== *)
theory Prelude
  imports Main "HOL-Library.Word"
begin

text \<open>
  Shared vocabulary of the development: the Go values every component uses (error values and
  their chains, 64-bit durations, decimal printing, formatted messages), the state monad with
  panics in which the stateful code is written, and the weakest-precondition calculus with which
  its properties are proved.

  A stateful Go function is a value of type \<open>('s, 'a) go\<close>: it takes the state and returns its result
  with the new state, or \<open>None\<close> when it panics. The two collections \<open>go_simps\<close> and \<open>wp_simps\<close> carry
  the proofs: the first unfolds a program at a state, the second pushes a postcondition through it.
\<close>

named_theorems go_simps "unfolding of monadic programs"
named_theorems wp_simps "weakest-precondition rules"

section \<open>Machine integers and time\<close>

text \<open>
  A \<^verbatim>\<open>time.Duration\<close> is an \<^verbatim>\<open>int64\<close> count of nanoseconds. Arithmetic on it wraps around
  (\<open>wrap64\<close>), while \<^verbatim>\<open>Time.Sub\<close> and \<^verbatim>\<open>time.Since\<close> saturate (\<open>sat64\<close>). An instant is a number of
  nanoseconds since the epoch.
\<close>

type_synonym duration = int
type_synonym instant = int

definition wrap64 :: "int \<Rightarrow> int" where
  "wrap64 x = signed_take_bit 63 x"

definition max_int64 :: int where
  "max_int64 = 2 ^ 63 - 1"

definition min_int64 :: int where
  "min_int64 = - (2 ^ 63)"

definition sat64 :: "int \<Rightarrow> int" where
  "sat64 x = max min_int64 (min max_int64 x)"

definition time_Sub :: "instant \<Rightarrow> instant \<Rightarrow> duration" where
  "time_Sub t u = sat64 (t - u)"

abbreviation Second :: duration where
  "Second \<equiv> 1000000000"

abbreviation Minute :: duration where
  "Minute \<equiv> 60000000000"

section \<open>Decimal printing\<close>

fun dec_nat :: "nat \<Rightarrow> string" where
  "dec_nat n = (if n < 10 then [char_of (48 + n)] else dec_nat (n div 10) @ [char_of (48 + n mod 10)])"

declare dec_nat.simps [simp del]

text \<open>\<^verbatim>\<open>strconv.Itoa\<close>.\<close>

definition Itoa :: "int \<Rightarrow> string" where
  "Itoa i = (if i < 0 then ''-'' @ dec_nat (nat (- i)) else dec_nat (nat i))"

text \<open>\<^verbatim>\<open>Duration.String\<close>: the largest units first, the fraction without trailing zeros.\<close>

definition frac_digits :: "nat \<Rightarrow> nat \<Rightarrow> string" where
  "frac_digits prec v =
     (let digits = dec_nat (v mod 10 ^ prec);
          padded = replicate (prec - length digits) (CHR ''0'') @ digits;
          kept = rev (dropWhile (\<lambda>c. c = CHR ''0'') (rev padded))
      in if kept = [] then '''' else ''.'' @ kept)"

definition abs_duration_string :: "nat \<Rightarrow> string" where
  "abs_duration_string u =
     (if u = 0 then ''0s''
      else if u < 1000 then dec_nat u @ ''ns''
      else if u < 1000000 then
        dec_nat (u div 1000) @ frac_digits 3 u @ [char_of (194::nat), char_of (181::nat)] @ ''s''
      else if u < 1000000000 then dec_nat (u div 1000000) @ frac_digits 6 u @ ''ms''
      else
        (let s = u div 1000000000; m = s div 60; h = m div 60
         in (if h > 0 then dec_nat h @ ''h'' else '''')
            @ (if m > 0 then dec_nat (m mod 60) @ ''m'' else '''')
            @ dec_nat (s mod 60) @ frac_digits 9 u @ ''s''))"

definition Duration_String :: "duration \<Rightarrow> string" where
  "Duration_String d =
     (if d < 0 then ''-'' @ abs_duration_string (nat (- d)) else abs_duration_string (nat d))"

section \<open>Error values\<close>

text \<open>
  Go errors are values that may wrap another error; \<^verbatim>\<open>errors.As\<close> walks the chain to the first value
  of the wanted type. \<open>Errorf f as\<close> is \<^verbatim>\<open>fmt.Errorf\<close> without \<^verbatim>\<open>%w\<close> (and every error of which only
  the text matters), \<open>Wrapf f as e\<close> is \<^verbatim>\<open>fmt.Errorf\<close> whose last verb is \<^verbatim>\<open>%w\<close>. The typed errors are
  those the code distinguishes: its own \<^verbatim>\<open>RateLimitError\<close>, \<^verbatim>\<open>NotFoundError\<close>, \<^verbatim>\<open>MethodNotAllowedError\<close>,
  \<^verbatim>\<open>ManagerNotFoundError\<close> and \<^verbatim>\<open>NoRemoteSecretError\<close>, and the status errors of the Kubernetes API and of gRPC.
\<close>

datatype gerror =
    Errorf string "string list"
  | Wrapf string "string list" gerror
  | RateLimitError duration
  | NotFoundError string string
  | MethodNotAllowedError string string
  | ManagerNotFoundError string string
  | NoRemoteSecretError string
  | APIStatusError string string
  | GRPCStatusError nat string

text \<open>Formatting: the verb \<^verbatim>\<open>%q\<close> quotes its argument, every other verb prints it.\<close>

definition hex_digit :: "nat \<Rightarrow> char" where
  "hex_digit d = char_of (if d < 10 then 48 + d else 87 + d)"

definition quote_char :: "char \<Rightarrow> string" where
  "quote_char c =
     (let n = (of_char c :: nat) in
      if n = 34 \<or> n = 92 then [char_of (92::nat), c]
      else if n = 7 then [char_of (92::nat), CHR ''a'']
      else if n = 8 then [char_of (92::nat), CHR ''b'']
      else if n = 9 then [char_of (92::nat), CHR ''t'']
      else if n = 10 then [char_of (92::nat), CHR ''n'']
      else if n = 11 then [char_of (92::nat), CHR ''v'']
      else if n = 12 then [char_of (92::nat), CHR ''f'']
      else if n = 13 then [char_of (92::nat), CHR ''r'']
      else if n < 32 \<or> n = 127 then
        [char_of (92::nat), CHR ''x'', hex_digit (n div 16), hex_digit (n mod 16)]
      else [c])"

definition go_quote :: "string \<Rightarrow> string" where
  "go_quote s = [char_of (34::nat)] @ concat (map quote_char s) @ [char_of (34::nat)]"

fun sprintf :: "string \<Rightarrow> string list \<Rightarrow> string" where
  "sprintf [] args = []"
| "sprintf [c] args = [c]"
| "sprintf (c # v # cs) args =
     (case args of
        [] \<Rightarrow> c # sprintf (v # cs) []
      | a # as \<Rightarrow>
          (if c = CHR ''%'' then (if v = CHR ''q'' then go_quote a else a) @ sprintf cs as
           else c # sprintf (v # cs) (a # as)))"

fun Error :: "gerror \<Rightarrow> string" where
  "Error (Errorf f as) = sprintf f as"
| "Error (Wrapf f as e) = sprintf f (as @ [Error e])"
| "Error (RateLimitError d) = sprintf ''rate limit active, retry after %v'' [Duration_String d]"
| "Error (NotFoundError r u) = sprintf ''resource not found: %s'' [r]"
| "Error (MethodNotAllowedError p u) = sprintf ''method not allowed: %s'' [p]"
| "Error (ManagerNotFoundError n t) = sprintf ''%s manager %q not found'' [t, n]"
| "Error (NoRemoteSecretError n) = sprintf ''no remote kubeconfig secret found in namespace %q'' [n]"
| "Error (APIStatusError r m) = m"
| "Error (GRPCStatusError c m) = m"

text \<open>\<^verbatim>\<open>errors.As\<close>: the first error of the chain that satisfies the type test.\<close>

fun errors_As :: "(gerror \<Rightarrow> bool) \<Rightarrow> gerror \<Rightarrow> gerror option" where
  "errors_As p (Wrapf f as e) = (if p (Wrapf f as e) then Some (Wrapf f as e) else errors_As p e)"
| "errors_As p e = (if p e then Some e else None)"

fun is_NotFoundError :: "gerror \<Rightarrow> bool" where
  "is_NotFoundError (NotFoundError r u) = True"
| "is_NotFoundError e = False"

fun is_MethodNotAllowedError :: "gerror \<Rightarrow> bool" where
  "is_MethodNotAllowedError (MethodNotAllowedError p u) = True"
| "is_MethodNotAllowedError e = False"

fun is_RateLimitError :: "gerror \<Rightarrow> bool" where
  "is_RateLimitError (RateLimitError d) = True"
| "is_RateLimitError e = False"

fun is_ManagerNotFoundError :: "gerror \<Rightarrow> bool" where
  "is_ManagerNotFoundError (ManagerNotFoundError n t) = True"
| "is_ManagerNotFoundError e = False"

text \<open>\<^verbatim>\<open>strconv.Atoi\<close>: an optional sign and decimal digits, within 64 bits.\<close>

definition digit_val :: "char \<Rightarrow> int" where
  "digit_val c = int (of_char c) - 48"

definition is_digit :: "char \<Rightarrow> bool" where
  "is_digit c \<longleftrightarrow> 0 \<le> digit_val c \<and> digit_val c \<le> 9"

definition Atoi :: "string \<Rightarrow> gerror + int" where
  "Atoi s =
     (let neg = (take 1 s = ''-''); ds = (if take 1 s = ''-'' \<or> take 1 s = ''+'' then drop 1 s else s);
          n = foldl (\<lambda>a c. 10 * a + digit_val c) 0 ds; v = (if neg then - n else n) in
      if ds = [] \<or> \<not> list_all is_digit ds then Inl (Errorf ''strconv.Atoi: parsing %q: invalid syntax'' [s])
      else if v < min_int64 \<or> v > max_int64 then Inl (Errorf ''strconv.Atoi: parsing %q: value out of range'' [s])
      else Inr v)"

section \<open>The monad of stateful Go code\<close>

type_synonym ('s, 'a) go = "'s \<Rightarrow> ('a \<times> 's) option"

definition ret :: "'a \<Rightarrow> ('s, 'a) go" where
  "ret x = (\<lambda>s. Some (x, s))"

definition bnd :: "('s, 'a) go \<Rightarrow> ('a \<Rightarrow> ('s, 'b) go) \<Rightarrow> ('s, 'b) go" where
  "bnd m f = (\<lambda>s. case m s of None \<Rightarrow> None | Some (x, s') \<Rightarrow> f x s')"

definition panic :: "('s, 'a) go" where
  "panic = (\<lambda>s. None)"

definition gets :: "('s \<Rightarrow> 'a) \<Rightarrow> ('s, 'a) go" where
  "gets f = (\<lambda>s. Some (f s, s))"

definition modify :: "('s \<Rightarrow> 's) \<Rightarrow> ('s, unit) go" where
  "modify f = (\<lambda>s. Some ((), f s))"

text \<open>
  Reconcilers work on the object they hold in memory and on the world outside the process (API
  servers, the automation platform, the clock). \<open>on_world\<close> runs an action of the world alone, and
  \<open>must\<close> continues after a call that returned no error.
\<close>

definition on_world :: "('w, 'a) go \<Rightarrow> ('r \<times> 'w, 'a) go" where
  "on_world m = (\<lambda>(r, w). case m w of None \<Rightarrow> None | Some (x, w') \<Rightarrow> Some (x, (r, w')))"

definition get_res :: "('r \<times> 'w, 'r) go" where
  "get_res = (\<lambda>(r, w). Some (r, (r, w)))"

definition put_res :: "'r \<Rightarrow> ('r \<times> 'w, unit) go" where
  "put_res r = (\<lambda>(_, w). Some ((), (r, w)))"

definition mod_res :: "('r \<Rightarrow> 'r) \<Rightarrow> ('r \<times> 'w, unit) go" where
  "mod_res f = (\<lambda>(r, w). Some ((), (f r, w)))"

text \<open>For properties of the order of calls: an action that appends an event to a log when it returns, and one that does not.\<close>

definition logged :: "('a \<Rightarrow> 'e) \<Rightarrow> ('w, 'a) go \<Rightarrow> ('e list \<times> 'w, 'a) go" where
  "logged f m = (\<lambda>(log, w). case m w of None \<Rightarrow> None | Some (x, w') \<Rightarrow> Some (x, (log @ [f x], w')))"

definition unlogged :: "('w, 'a) go \<Rightarrow> ('e list \<times> 'w, 'a) go" where
  "unlogged m = on_world m"

text \<open>\<open>ghost m m'\<close>: the program \<open>m\<close> on the logging world does what \<open>m'\<close> does on the world.\<close>

definition ghost :: "('e list \<times> 'w, 'a) go \<Rightarrow> ('w, 'a) go \<Rightarrow> bool" where
  "ghost m m' \<longleftrightarrow> (\<forall>log w. map_option (\<lambda>(x, s). (x, snd s)) (m (log, w)) = m' w)"

section \<open>Results of a reconciliation\<close>

record ctrl_result =
  RequeueAfter :: duration

abbreviation no_requeue :: ctrl_result where
  "no_requeue \<equiv> \<lparr>RequeueAfter = 0\<rparr>"

abbreviation requeue_after :: "duration \<Rightarrow> ctrl_result" where
  "requeue_after d \<equiv> \<lparr>RequeueAfter = d\<rparr>"

type_synonym outcome = "ctrl_result \<times> gerror option"

section \<open>Weakest preconditions\<close>

text \<open>
  \<open>wp m Q s\<close>: from \<open>s\<close>, \<open>m\<close> returns (does not panic) and its result and final state satisfy \<open>Q\<close>.
  \<open>wlp m Q s\<close>: if \<open>m\<close> returns, its result and final state satisfy \<open>Q\<close>.
\<close>

definition wp :: "('s, 'a) go \<Rightarrow> ('a \<Rightarrow> 's \<Rightarrow> bool) \<Rightarrow> 's \<Rightarrow> bool" where
  "wp m Q s = (case m s of None \<Rightarrow> False | Some (x, s') \<Rightarrow> Q x s')"

definition wlp :: "('s, 'a) go \<Rightarrow> ('a \<Rightarrow> 's \<Rightarrow> bool) \<Rightarrow> 's \<Rightarrow> bool" where
  "wlp m Q s = (case m s of None \<Rightarrow> True | Some (x, s') \<Rightarrow> Q x s')"

section \<open>Lemmas\<close>

lemma ret_apply [go_simps]: "ret x s = Some (x, s)"
  by (simp add: ret_def)

lemma bnd_apply [go_simps]: "bnd m f s = (case m s of None \<Rightarrow> None | Some (x, s') \<Rightarrow> f x s')"
  by (simp add: bnd_def)

lemma bnd_cong_at: "(\<And>x s'. m s = Some (x, s') \<Longrightarrow> f x s' = g x s') \<Longrightarrow> bnd m f s = bnd m g s"
  by (simp add: bnd_def split: option.split)

lemma panic_apply [go_simps]: "panic s = None"
  by (simp add: panic_def)

lemma gets_apply [go_simps]: "gets f s = Some (f s, s)"
  by (simp add: gets_def)

lemma modify_apply [go_simps]: "modify f s = Some ((), f s)"
  by (simp add: modify_def)

lemma on_world_apply [go_simps]:
  "on_world m (r, w) = (case m w of None \<Rightarrow> None | Some (x, w') \<Rightarrow> Some (x, (r, w')))"
  by (simp add: on_world_def)

lemma get_res_apply [go_simps]: "get_res (r, w) = Some (r, (r, w))"
  by (simp add: get_res_def)

lemma put_res_apply [go_simps]: "put_res r (r', w) = Some ((), (r, w))"
  by (simp add: put_res_def)

lemma mod_res_apply [go_simps]: "mod_res f (r, w) = Some ((), (f r, w))"
  by (simp add: mod_res_def)

lemma wp_ret [wp_simps]: "wp (ret x) Q = Q x"
  by (simp add: fun_eq_iff wp_def ret_def)

lemma wp_bnd [wp_simps]: "wp (bnd m f) Q = wp m (\<lambda>x. wp (f x) Q)"
  by (simp add: fun_eq_iff wp_def bnd_def split: option.splits prod.splits)

lemma wp_panic [wp_simps]: "wp panic Q = (\<lambda>s. False)"
  by (simp add: fun_eq_iff wp_def panic_def)

lemma wp_gets [wp_simps]: "wp (gets f) Q = (\<lambda>s. Q (f s) s)"
  by (simp add: fun_eq_iff wp_def gets_def)

lemma wp_modify [wp_simps]: "wp (modify f) Q = (\<lambda>s. Q () (f s))"
  by (simp add: fun_eq_iff wp_def modify_def)

lemma wp_on_world [wp_simps]: "wp (on_world m) Q = (\<lambda>(r, w). wp m (\<lambda>x w'. Q x (r, w')) w)"
  by (simp add: fun_eq_iff wp_def on_world_def split: option.splits prod.splits)

lemma wp_get_res [wp_simps]: "wp get_res Q = (\<lambda>(r, w). Q r (r, w))"
  by (simp add: fun_eq_iff wp_def get_res_def)

lemma wp_put_res [wp_simps]: "wp (put_res r) Q = (\<lambda>(r', w). Q () (r, w))"
  by (simp add: fun_eq_iff wp_def put_res_def)

lemma wp_mod_res [wp_simps]: "wp (mod_res f) Q = (\<lambda>(r, w). Q () (f r, w))"
  by (simp add: fun_eq_iff wp_def mod_res_def)

lemma wlp_ret [wp_simps]: "wlp (ret x) Q = Q x"
  by (simp add: fun_eq_iff wlp_def ret_def)

lemma wlp_bnd [wp_simps]: "wlp (bnd m f) Q = wlp m (\<lambda>x. wlp (f x) Q)"
  by (simp add: fun_eq_iff wlp_def bnd_def split: option.splits prod.splits)

lemma wlp_panic [wp_simps]: "wlp panic Q = (\<lambda>s. True)"
  by (simp add: fun_eq_iff wlp_def panic_def)

lemma wlp_gets [wp_simps]: "wlp (gets f) Q = (\<lambda>s. Q (f s) s)"
  by (simp add: fun_eq_iff wlp_def gets_def)

lemma wlp_modify [wp_simps]: "wlp (modify f) Q = (\<lambda>s. Q () (f s))"
  by (simp add: fun_eq_iff wlp_def modify_def)

lemma wlp_on_world [wp_simps]: "wlp (on_world m) Q = (\<lambda>(r, w). wlp m (\<lambda>x w'. Q x (r, w')) w)"
  by (simp add: fun_eq_iff wlp_def on_world_def split: option.splits prod.splits)

lemma wlp_get_res [wp_simps]: "wlp get_res Q = (\<lambda>(r, w). Q r (r, w))"
  by (simp add: fun_eq_iff wlp_def get_res_def)

lemma wlp_put_res [wp_simps]: "wlp (put_res r) Q = (\<lambda>(r', w). Q () (r, w))"
  by (simp add: fun_eq_iff wlp_def put_res_def)

lemma wlp_mod_res [wp_simps]: "wlp (mod_res f) Q = (\<lambda>(r, w). Q () (f r, w))"
  by (simp add: fun_eq_iff wlp_def mod_res_def)

lemma wlp_logged [wp_simps]:
  "wlp (logged f m) Q = (\<lambda>(log, w). wlp m (\<lambda>x w'. Q x (log @ [f x], w')) w)"
  by (simp add: fun_eq_iff wlp_def logged_def split: option.splits prod.splits)

lemma wlp_unlogged [wp_simps]: "wlp (unlogged m) Q = (\<lambda>(log, w). wlp m (\<lambda>x w'. Q x (log, w')) w)"
  by (simp add: unlogged_def wlp_on_world)

lemma ghostD:
  assumes "ghost m m'" and "m' w = Some (x, w')"
  shows "\<exists>log'. m (log, w) = Some (x, (log', w'))"
proof -
  have "map_option (\<lambda>(x, s). (x, snd s)) (m (log, w)) = Some (x, w')" using assms by (simp add: ghost_def)
  then show ?thesis by (cases "m (log, w)") auto
qed

lemma ghost_ret [simp]: "ghost (ret x) (ret x)"
  by (simp add: ghost_def ret_def)

lemma ghost_bnd: "ghost m m' \<Longrightarrow> (\<And>x. ghost (f x) (f' x)) \<Longrightarrow> ghost (bnd m f) (bnd m' f')"
  unfolding ghost_def bnd_def
  by (intro allI) (erule_tac x = log in allE, erule_tac x = w in allE, auto split: option.splits)

lemma ghost_logged [simp]: "ghost (logged f m) m" "ghost (unlogged m) m"
  by (auto simp: ghost_def logged_def unlogged_def on_world_def split: option.split)

lemma wlp_all: "(\<And>x s'. Q x s') \<Longrightarrow> wlp m Q s"
  by (simp add: wlp_def split: option.split)

lemma wp_mono: "wp m Q s \<Longrightarrow> (\<And>x s'. Q x s' \<Longrightarrow> R x s') \<Longrightarrow> wp m R s"
  by (auto simp: wp_def split: option.splits)

lemma wlp_mono: "wlp m Q s \<Longrightarrow> (\<And>x s'. Q x s' \<Longrightarrow> R x s') \<Longrightarrow> wlp m R s"
  by (auto simp: wlp_def split: option.splits)

lemma wlp_bnd_inv:
  "wlp m (\<lambda>_. I) s \<Longrightarrow> (\<And>x s'. I s' \<Longrightarrow> wlp (f x) Q s') \<Longrightarrow> wlp (bnd m f) Q s"
  by (auto simp: wp_simps intro: wlp_mono)

lemma wp_conj: "wp m Q s \<Longrightarrow> wlp m R s \<Longrightarrow> wp m (\<lambda>x s'. Q x s' \<and> R x s') s"
  by (auto simp: wp_def wlp_def split: option.splits)

lemma wlp_conj: "wlp m Q s \<Longrightarrow> wlp m R s \<Longrightarrow> wlp m (\<lambda>x s'. Q x s' \<and> R x s') s"
  by (auto simp: wlp_def split: option.splits)

lemma wp_imp_wlp: "wp m Q s \<Longrightarrow> wlp m Q s"
  by (auto simp: wp_def wlp_def split: option.splits)

lemma wlpD: "wlp m Q s \<Longrightarrow> m s = Some (x, s') \<Longrightarrow> Q x s'"
  by (simp add: wlp_def)

lemma wlpI: "(\<And>x s'. m s = Some (x, s') \<Longrightarrow> Q x s') \<Longrightarrow> wlp m Q s"
  by (auto simp: wlp_def split: option.splits)

lemma wpD: "wp m Q s \<Longrightarrow> \<exists>x s'. m s = Some (x, s') \<and> Q x s'"
  by (auto simp: wp_def split: option.splits)

lemma wlp_True [simp]: "wlp m (\<lambda>x s. True) s"
  by (auto simp: wlp_def split: option.splits)

subsection \<open>Integers\<close>

lemma sat64_id: "min_int64 \<le> x \<Longrightarrow> x \<le> max_int64 \<Longrightarrow> sat64 x = x"
  by (simp add: sat64_def)

lemma sat64_mono: "x \<le> y \<Longrightarrow> sat64 x \<le> sat64 y"
  by (auto simp: sat64_def)

lemma sat64_pos_iff: "0 < sat64 x \<longleftrightarrow> 0 < x"
  by (auto simp: sat64_def max_int64_def min_int64_def)

lemma sat64_le_iff: "c < max_int64 \<Longrightarrow> min_int64 \<le> c \<Longrightarrow> sat64 x \<le> c \<longleftrightarrow> x \<le> c"
  by (auto simp: sat64_def)

lemma sat64_bounds: "min_int64 \<le> sat64 x \<and> sat64 x \<le> max_int64"
  by (auto simp: sat64_def max_int64_def min_int64_def)

lemma wrap64_id: "min_int64 \<le> x \<Longrightarrow> x \<le> max_int64 \<Longrightarrow> wrap64 x = x"
  by (simp add: wrap64_def min_int64_def max_int64_def signed_take_bit_int_eq_self)

lemma dec_nat_nonempty: "dec_nat n \<noteq> []"
  by (subst dec_nat.simps) simp

lemma Itoa_nonempty: "Itoa i \<noteq> []"
  by (simp add: Itoa_def dec_nat_nonempty)

lemma errors_As_sat: "errors_As p e = Some e' \<Longrightarrow> p e'"
  by (induction p e rule: errors_As.induct) (auto split: if_splits)

end
