(* ===== verification/Jobs.thy ===== *)
theory Jobs
  imports Prelude
begin

text \<open>
  The job history kept in the status of every provisioned resource
  (\<^verbatim>\<open>api/v1alpha1/job_types.go\<close>, \<^verbatim>\<open>pkg/provisioning/job_helpers.go\<close>): the job records and the
  functions that search, update, extend and trim the history. A Go pointer into the slice is the
  index of the element where the code writes through it (\<open>FindJobByID\<close>), and the element itself
  where it only reads (\<open>FindLatestJobByType\<close>).

  The lemmas say what the history functions guarantee: which job is the latest one, that appending
  keeps the newest jobs within the limit, that an update touches one job and no identifier, and how
  a history ordered by time with pairwise distinct identifiers (\<open>history_ok\<close>) stays so.
\<close>

section \<open>Data\<close>

datatype JobType = JobTypeProvision | JobTypeDeprovision

datatype JobState =
    JobStatePending
  | JobStateWaiting
  | JobStateRunning
  | JobStateSucceeded
  | JobStateFailed
  | JobStateCanceled
  | JobStateUnknown

definition IsTerminal :: "JobState \<Rightarrow> bool" where
  "IsTerminal s \<longleftrightarrow> s = JobStateSucceeded \<or> s = JobStateFailed \<or> s = JobStateCanceled"

definition IsSuccessful :: "JobState \<Rightarrow> bool" where
  "IsSuccessful s \<longleftrightarrow> s = JobStateSucceeded"

record JobStatus =
  JobID :: string
  JobType :: JobType
  Timestamp :: instant
  JobState :: JobState
  Message :: string
  BlockDeletionOnFailure :: bool
  ConfigVersion :: string

section \<open>Operations\<close>

fun find_index_by_id :: "nat \<Rightarrow> JobStatus list \<Rightarrow> string \<Rightarrow> nat option" where
  "find_index_by_id i [] jobID = None"
| "find_index_by_id i (j # jobs) jobID =
     (if JobID j = jobID then Some i else find_index_by_id (Suc i) jobs jobID)"

definition FindJobByID :: "JobStatus list \<Rightarrow> string \<Rightarrow> nat option" where
  "FindJobByID jobs jobID = find_index_by_id 0 jobs jobID"

definition UpdateJob :: "JobStatus list \<Rightarrow> JobStatus \<Rightarrow> JobStatus list \<times> bool" where
  "UpdateJob jobs updatedJob =
     (case FindJobByID jobs (JobID updatedJob) of
        None \<Rightarrow> (jobs, False)
      | Some i \<Rightarrow> (jobs[i := updatedJob], True))"

text \<open>Slicing below zero panics; the result is \<open>None\<close>.\<close>

definition AppendJob :: "JobStatus list \<Rightarrow> JobStatus \<Rightarrow> int \<Rightarrow> JobStatus list option" where
  "AppendJob jobs newJob maxHistory =
     (let jobs' = jobs @ [newJob] in
      if int (length jobs') > maxHistory then
        (if maxHistory < 0 then None else Some (drop (length jobs' - nat maxHistory) jobs'))
      else Some jobs')"

definition NeedsProvisionJob :: "JobStatus option \<Rightarrow> bool" where
  "NeedsProvisionJob latestJob =
     (case latestJob of
        None \<Rightarrow> True
      | Some j \<Rightarrow>
          if JobID j = '''' then True
          else if \<not> IsTerminal (JobState j) then False
          else \<not> IsSuccessful (JobState j))"

fun latest_by_type :: "JobType \<Rightarrow> JobStatus option \<Rightarrow> JobStatus list \<Rightarrow> JobStatus option" where
  "latest_by_type t latest [] = latest"
| "latest_by_type t latest (j # jobs) =
     latest_by_type t
       (if JobType j = t
        then (case latest of
                None \<Rightarrow> Some j
              | Some l \<Rightarrow> if Timestamp j > Timestamp l then Some j else latest)
        else latest)
       jobs"

definition FindLatestJobByType :: "JobStatus list \<Rightarrow> JobType \<Rightarrow> JobStatus option" where
  "FindLatestJobByType jobs t = latest_by_type t None jobs"

definition HasJobID :: "JobStatus option \<Rightarrow> bool" where
  "HasJobID job = (case job of None \<Rightarrow> False | Some j \<Rightarrow> JobID j \<noteq> '''')"

section \<open>Specification of a history\<close>

text \<open>
  What the operator keeps true of a history: it is bounded, the identifiers are non-empty and
  pairwise distinct, timestamps strictly increase along the list and lie in the past, and only the
  newest job of each type may still be running.
\<close>

definition older_terminal :: "JobType \<Rightarrow> JobStatus list \<Rightarrow> bool" where
  "older_terminal t jobs \<longleftrightarrow>
     sorted_wrt (\<lambda>a b. JobType a = t \<and> JobType b = t \<longrightarrow> IsTerminal (JobState a)) jobs"

definition history_ok :: "int \<Rightarrow> instant \<Rightarrow> JobStatus list \<Rightarrow> bool" where
  "history_ok maxHistory now jobs \<longleftrightarrow>
     int (length jobs) \<le> maxHistory \<and>
     distinct (map JobID jobs) \<and>
     '''' \<notin> set (map JobID jobs) \<and>
     sorted_wrt (\<lambda>a b. Timestamp a < Timestamp b) jobs \<and>
     (\<forall>j \<in> set jobs. Timestamp j \<le> now) \<and>
     older_terminal JobTypeProvision jobs \<and>
     older_terminal JobTypeDeprovision jobs"

definition running_jobs :: "JobType \<Rightarrow> JobStatus list \<Rightarrow> JobStatus list" where
  "running_jobs t jobs = filter (\<lambda>j. JobType j = t \<and> \<not> IsTerminal (JobState j)) jobs"

definition is_latest :: "JobStatus list \<Rightarrow> JobType \<Rightarrow> JobStatus \<Rightarrow> bool" where
  "is_latest jobs t l \<longleftrightarrow>
     (\<exists>xs ys. jobs = xs @ [l] @ ys \<and> JobType l = t \<and>
        (\<forall>k \<in> set xs. JobType k = t \<longrightarrow> Timestamp k < Timestamp l) \<and>
        (\<forall>k \<in> set ys. JobType k = t \<longrightarrow> Timestamp k \<le> Timestamp l))"

text \<open>A job with the fields that matter, for concrete histories.\<close>

definition sample_job :: "string \<Rightarrow> JobType \<Rightarrow> instant \<Rightarrow> JobState \<Rightarrow> string \<Rightarrow> JobStatus" where
  "sample_job x t at st v = \<lparr>JobID = x, JobType = t, Timestamp = at, JobState = st, Message = '''',
     BlockDeletionOnFailure = (t = JobTypeDeprovision), ConfigVersion = v\<rparr>"

section \<open>Lemmas\<close>

lemma find_index_by_id_Some:
  "find_index_by_id i jobs x = Some k \<Longrightarrow>
     i \<le> k \<and> k - i < length jobs \<and> JobID (jobs ! (k - i)) = x \<and>
     (\<forall>m < k - i. JobID (jobs ! m) \<noteq> x)"
proof (induction i jobs x rule: find_index_by_id.induct)
  case (2 i j jobs jobID)
  show ?case
  proof (cases "JobID j = jobID")
    case False
    with "2.prems" have rec: "find_index_by_id (Suc i) jobs jobID = Some k" by simp
    note ih = "2.IH" [OF False rec]
    then obtain d where d: "k = Suc i + d" by (metis le_Suc_ex)
    with ih False show ?thesis by (auto simp: nth_Cons split: nat.splits)
  qed (use "2.prems" in auto)
qed simp

lemma find_index_by_id_None:
  "find_index_by_id i jobs x = None \<longleftrightarrow> x \<notin> set (map JobID jobs)"
  by (induction i jobs x rule: find_index_by_id.induct) auto

lemma FindJobByID_Some:
  "FindJobByID jobs x = Some k \<Longrightarrow>
     k < length jobs \<and> JobID (jobs ! k) = x \<and> (\<forall>m < k. JobID (jobs ! m) \<noteq> x)"
  using find_index_by_id_Some [of 0 jobs x k] by (simp add: FindJobByID_def)

lemma FindJobByID_None: "FindJobByID jobs x = None \<longleftrightarrow> x \<notin> set (map JobID jobs)"
  by (simp add: FindJobByID_def find_index_by_id_None)

lemma FindJobByID_distinct:
  assumes "distinct (map JobID jobs)" and "k < length jobs"
  shows "FindJobByID jobs (JobID (jobs ! k)) = Some k"
proof -
  from assms(2) have "JobID (jobs ! k) \<in> set (map JobID jobs)" by simp
  then obtain m where m: "FindJobByID jobs (JobID (jobs ! k)) = Some m"
    by (metis FindJobByID_None option.exhaust)
  note s = FindJobByID_Some [OF this]
  then have "map JobID jobs ! m = map JobID jobs ! k" and "m < length jobs"
    using assms(2) by auto
  with assms have "m = k"
    by (metis length_map nth_eq_iff_index_eq)
  with m show ?thesis by simp
qed

lemma length_UpdateJob [simp]: "length (fst (UpdateJob jobs u)) = length jobs"
  by (simp add: UpdateJob_def split: option.splits)

lemma UpdateJob_ids [simp]: "map JobID (fst (UpdateJob jobs u)) = map JobID jobs"
  by (auto simp: UpdateJob_def list_eq_iff_nth_eq nth_list_update
        dest!: FindJobByID_Some split: option.splits)

lemma UpdateJob_found: "snd (UpdateJob jobs u) \<longleftrightarrow> JobID u \<in> set (map JobID jobs)"
  using FindJobByID_None [of jobs "JobID u"] by (auto simp: UpdateJob_def split: option.splits)

lemma UpdateJob_at:
  assumes "distinct (map JobID jobs)" and "k < length jobs" and "JobID u = JobID (jobs ! k)"
  shows "fst (UpdateJob jobs u) = jobs[k := u]"
  using FindJobByID_distinct [OF assms(1,2)] assms(3) by (simp add: UpdateJob_def)

lemma AppendJob_total: "0 \<le> maxHistory \<Longrightarrow> \<exists>js. AppendJob jobs j maxHistory = Some js"
  by (auto simp: AppendJob_def Let_def)

lemma AppendJob_snoc:
  assumes "AppendJob jobs j maxHistory = Some js" and "0 < maxHistory"
  shows "\<exists>n. js = drop n jobs @ [j] \<and> int (length js) \<le> maxHistory"
proof (cases "int (length jobs) + 1 > maxHistory")
  case True
  with assms have "js = drop (Suc (length jobs) - nat maxHistory) (jobs @ [j])"
    by (auto simp: AppendJob_def Let_def)
  moreover have "Suc (length jobs) - nat maxHistory \<le> length jobs" using assms(2) by linarith
  ultimately have "js = drop (Suc (length jobs) - nat maxHistory) jobs @ [j]" by simp
  then show ?thesis using assms(2) True by (intro exI conjI) auto
next
  case False
  with assms show ?thesis
    by (intro exI [of _ 0]) (auto simp: AppendJob_def Let_def)
qed

subsection \<open>The latest job\<close>

lemma latest_by_type_Some_acc: "\<exists>l. latest_by_type t (Some a) jobs = Some l"
  by (induction jobs arbitrary: a) auto

lemma latest_by_type_None:
  "latest_by_type t None jobs = None \<longleftrightarrow> (\<forall>j \<in> set jobs. JobType j \<noteq> t)"
proof (induction jobs)
  case (Cons j jobs)
  then show ?case using latest_by_type_Some_acc [of t j jobs] by auto
qed simp

lemma FindLatestJobByType_None:
  "FindLatestJobByType jobs t = None \<longleftrightarrow> (\<forall>j \<in> set jobs. JobType j \<noteq> t)"
  by (simp add: FindLatestJobByType_def latest_by_type_None)

lemma latest_by_type_acc_max:
  "latest_by_type t (Some a) jobs = Some l \<Longrightarrow>
     (l = a \<or> l \<in> set jobs \<and> JobType l = t) \<and> Timestamp a \<le> Timestamp l \<and>
     (\<forall>j \<in> set jobs. JobType j = t \<longrightarrow> Timestamp j \<le> Timestamp l)"
  by (induction jobs arbitrary: a) (force split: if_splits)+

lemma FindLatestJobByType_Some:
  assumes "FindLatestJobByType jobs t = Some l"
  shows "l \<in> set jobs \<and> JobType l = t \<and> (\<forall>j \<in> set jobs. JobType j = t \<longrightarrow> Timestamp j \<le> Timestamp l)"
  using assms unfolding FindLatestJobByType_def
proof (induction jobs)
  case (Cons j jobs)
  then show ?case
    by (cases "JobType j = t") (auto dest!: latest_by_type_acc_max)
qed simp

lemma latest_by_type_append:
  "latest_by_type t acc (xs @ ys) = latest_by_type t (latest_by_type t acc xs) ys"
  by (induction xs arbitrary: acc) auto

lemma FindLatestJobByType_snoc:
  "FindLatestJobByType (jobs @ [j]) t =
     (if JobType j = t
      then (case FindLatestJobByType jobs t of
              None \<Rightarrow> Some j
            | Some l \<Rightarrow> if Timestamp j > Timestamp l then Some j else Some l)
      else FindLatestJobByType jobs t)"
  by (simp add: FindLatestJobByType_def latest_by_type_append split: option.splits)

lemma FindLatestJobByType_newest:
  assumes "JobType j = t" and "\<forall>k \<in> set jobs. Timestamp k < Timestamp j"
  shows "FindLatestJobByType (jobs @ [j]) t = Some j"
  using assms by (auto simp: FindLatestJobByType_snoc dest!: FindLatestJobByType_Some split: option.splits)

subsection \<open>Histories\<close>

lemma sorted_wrt_drop: "sorted_wrt P xs \<Longrightarrow> sorted_wrt P (drop n xs)"
  by (metis append_take_drop_id sorted_wrt_append)

lemma older_terminal_drop: "older_terminal t jobs \<Longrightarrow> older_terminal t (drop n jobs)"
  by (simp add: older_terminal_def sorted_wrt_drop)

lemma sorted_wrt_list_update_cong:
  assumes "sorted_wrt P xs" and "k < length xs"
    and "\<And>a. P a (xs ! k) \<Longrightarrow> P a u" and "\<And>b. b \<in> set xs \<Longrightarrow> P (xs ! k) b \<Longrightarrow> P u b"
  shows "sorted_wrt P (xs[k := u])"
  using assms by (auto simp: sorted_wrt_iff_nth_less nth_list_update)

text \<open>
  The latest job of a history ordered by time is the last one of its type: changing the state of
  that job cannot make an older job appear to be running.
\<close>

lemma older_terminal_update:
  assumes ord: "sorted_wrt (\<lambda>a b. Timestamp a < Timestamp b) jobs" and old: "older_terminal t' jobs"
    and k: "k < length jobs" and latest: "FindLatestJobByType jobs t = Some (jobs ! k)"
    and u: "JobType u = JobType (jobs ! k)"
  shows "older_terminal t' (jobs[k := u])"
proof -
  have lt: "JobType (jobs ! k) = t" using FindLatestJobByType_Some [OF latest] by simp
  have last_k: "JobType (jobs ! m) \<noteq> t" if "k < m" "m < length jobs" for m
  proof
    assume "JobType (jobs ! m) = t"
    with that have "Timestamp (jobs ! m) \<le> Timestamp (jobs ! k)"
      using FindLatestJobByType_Some [OF latest] by simp
    moreover have "Timestamp (jobs ! k) < Timestamp (jobs ! m)"
      using ord that by (simp add: sorted_wrt_iff_nth_less)
    ultimately show False by simp
  qed
  show ?thesis
    using old k u lt last_k
    unfolding older_terminal_def sorted_wrt_iff_nth_less
    by (auto simp: nth_list_update)
qed

lemma history_ok_update:
  assumes ok: "history_ok maxHistory now jobs" and latest: "FindLatestJobByType jobs t = Some l"
    and u: "JobID u = JobID l" "JobType u = JobType l" "Timestamp u = Timestamp l"
  shows "history_ok maxHistory now (fst (UpdateJob jobs u))"
proof -
  obtain k where k: "k < length jobs" "jobs ! k = l"
    using FindLatestJobByType_Some [OF latest] by (metis in_set_conv_nth)
  have eq: "fst (UpdateJob jobs u) = jobs[k := u]"
    using ok k u by (intro UpdateJob_at) (auto simp: history_ok_def)
  have ids: "map JobID (jobs[k := u]) = map JobID jobs"
    using k u by (metis list_update_id map_update nth_map)
  have "sorted_wrt (\<lambda>a b. Timestamp a < Timestamp b) (jobs[k := u])"
    using ok k u by (intro sorted_wrt_list_update_cong) (auto simp: history_ok_def)
  moreover have "\<forall>j \<in> set (jobs[k := u]). Timestamp j \<le> now"
    using ok k u by (auto simp: history_ok_def dest!: set_update_subset_insert [THEN subsetD])
  moreover have "older_terminal t' (jobs[k := u])" if "older_terminal t' jobs" for t'
    using ok k u latest that by (intro older_terminal_update [where t = t]) (auto simp: history_ok_def)
  ultimately show ?thesis
    using ok by (simp only: eq history_ok_def ids) simp
qed

lemma older_terminal_snoc:
  "older_terminal t (jobs @ [j]) \<longleftrightarrow>
     older_terminal t jobs \<and>
     (\<forall>a \<in> set jobs. JobType a = t \<and> JobType j = t \<longrightarrow> IsTerminal (JobState a))"
  by (simp add: older_terminal_def sorted_wrt_append)

lemma older_terminal_all:
  assumes "sorted_wrt (\<lambda>a b. Timestamp a < Timestamp b) jobs" and "older_terminal t jobs"
    and "\<forall>l. FindLatestJobByType jobs t = Some l \<longrightarrow> IsTerminal (JobState l)"
    and "a \<in> set jobs" and "JobType a = t"
  shows "IsTerminal (JobState a)"
proof -
  obtain l where l: "FindLatestJobByType jobs t = Some l"
    using assms(4,5) FindLatestJobByType_None [of jobs t] by fastforce
  note lm = FindLatestJobByType_Some [OF l]
  obtain i k where ik: "i < length jobs" "jobs ! i = a" "k < length jobs" "jobs ! k = l"
    using assms(4) lm by (metis in_set_conv_nth)
  consider "i = k" | "i < k" | "k < i" by linarith
  then show ?thesis
  proof cases
    case 1
    with ik assms(3) l show ?thesis by auto
  next
    case 2
    with ik assms(2,5) lm show ?thesis by (auto simp: older_terminal_def sorted_wrt_iff_nth_less)
  next
    case 3
    with ik assms(1) have "Timestamp l < Timestamp a" by (auto simp: sorted_wrt_iff_nth_less)
    with lm assms(4,5) show ?thesis by force
  qed
qed

lemma history_ok_append:
  assumes ok: "history_ok maxHistory now jobs" and app: "AppendJob jobs j maxHistory = Some js"
    and pos: "0 < maxHistory" and new: "JobID j \<noteq> ''''" "JobID j \<notin> set (map JobID jobs)"
    and later: "now < Timestamp j" "Timestamp j \<le> now'"
    and fin: "\<forall>l. FindLatestJobByType jobs (JobType j) = Some l \<longrightarrow> IsTerminal (JobState l)"
  shows "history_ok maxHistory now' js"
proof -
  obtain n where js: "js = drop n jobs @ [j]" and len: "int (length js) \<le> maxHistory"
    using AppendJob_snoc [OF app pos] by blast
  have sub: "set (drop n jobs) \<subseteq> set jobs" by (rule set_drop_subset)
  have ord: "sorted_wrt (\<lambda>a b. Timestamp a < Timestamp b) jobs" using ok by (simp add: history_ok_def)
  have before: "Timestamp a < Timestamp j" if "a \<in> set jobs" for a
    using ok later(1) that by (force simp: history_ok_def)
  have old: "older_terminal t js" if "older_terminal t jobs" for t
    unfolding js older_terminal_snoc
  proof (intro conjI ballI impI)
    show "older_terminal t (drop n jobs)" using that by (rule older_terminal_drop)
    fix a
    assume a: "a \<in> set (drop n jobs)" and ty: "JobType a = t \<and> JobType j = t"
    with fin have "\<forall>l. FindLatestJobByType jobs t = Some l \<longrightarrow> IsTerminal (JobState l)" by simp
    then show "IsTerminal (JobState a)"
      by (rule older_terminal_all [OF ord that]) (use a ty sub in auto)
  qed
  have dist: "distinct (map JobID (drop n jobs))"
    using ok by (metis distinct_drop drop_map history_ok_def)
  have ids: "set (map JobID (drop n jobs)) \<subseteq> set (map JobID jobs)" using sub by auto
  have "distinct (map JobID js) \<and> '''' \<notin> set (map JobID js)"
    using ok dist ids new by (auto simp: js history_ok_def)
  moreover have "sorted_wrt (\<lambda>a b. Timestamp a < Timestamp b) js"
    using sorted_wrt_drop [OF ord] before sub by (auto simp: js sorted_wrt_append)
  moreover have "\<forall>a \<in> set js. Timestamp a \<le> now'"
    using before later sub by (fastforce simp: js)
  ultimately show ?thesis using len old ok by (simp add: history_ok_def)
qed

lemma history_ok_clock: "history_ok maxHistory now jobs \<Longrightarrow> now \<le> now' \<Longrightarrow> history_ok maxHistory now' jobs"
  by (force simp: history_ok_def)

lemma older_terminal_running: "older_terminal t jobs \<Longrightarrow> length (running_jobs t jobs) \<le> 1"
proof (induction jobs)
  case (Cons j jobs)
  show ?case
  proof (cases "JobType j = t \<and> \<not> IsTerminal (JobState j)")
    case True
    with Cons.prems have "running_jobs t jobs = []"
      by (auto simp: older_terminal_def running_jobs_def filter_empty_conv)
    with True show ?thesis by (simp add: running_jobs_def)
  next
    case False
    then have "running_jobs t (j # jobs) = running_jobs t jobs" by (auto simp: running_jobs_def)
    with Cons show ?thesis by (simp add: older_terminal_def)
  qed
qed (simp add: running_jobs_def)

lemma FindLatestJobByType_unique:
  assumes "sorted_wrt (\<lambda>a b. Timestamp a < Timestamp b) jobs" and "l \<in> set jobs" and "JobType l = t"
    and "\<forall>j \<in> set jobs. JobType j = t \<longrightarrow> Timestamp j \<le> Timestamp l"
  shows "FindLatestJobByType jobs t = Some l"
proof -
  obtain l' where l': "FindLatestJobByType jobs t = Some l'"
    using assms(2,3) FindLatestJobByType_None [of jobs t] by fastforce
  note m = FindLatestJobByType_Some [OF l']
  have eq: "Timestamp l' = Timestamp l" using m assms by (metis antisym)
  obtain i k where ik: "i < length jobs" "jobs ! i = l" "k < length jobs" "jobs ! k = l'"
    using m assms(2) by (metis in_set_conv_nth)
  have "i = k"
    using ik eq assms(1) by (metis nat_neq_iff order_less_irrefl sorted_wrt_iff_nth_less)
  with ik l' show ?thesis by simp
qed

lemma FindLatestJobByType_update:
  assumes ok: "history_ok maxHistory now jobs" and latest: "FindLatestJobByType jobs t = Some l"
    and u: "JobID u = JobID l" "JobType u = JobType l" "Timestamp u = Timestamp l"
  shows "FindLatestJobByType (fst (UpdateJob jobs u)) t = Some u"
proof -
  note lm = FindLatestJobByType_Some [OF latest]
  obtain k where k: "k < length jobs" "jobs ! k = l" using lm by (metis in_set_conv_nth)
  have eq: "fst (UpdateJob jobs u) = jobs[k := u]"
    using ok k u by (intro UpdateJob_at) (auto simp: history_ok_def)
  have "sorted_wrt (\<lambda>a b. Timestamp a < Timestamp b) (fst (UpdateJob jobs u))"
    using history_ok_update [OF ok latest u] by (simp add: history_ok_def)
  then show ?thesis
    unfolding eq using lm k u set_update_subset_insert [of jobs k u]
    by (intro FindLatestJobByType_unique) (auto simp: set_update_memI)
qed

lemma set_UpdateJob_subset: "set (fst (UpdateJob jobs u)) \<subseteq> insert u (set jobs)"
  using set_update_subset_insert by (fastforce simp: UpdateJob_def split: option.splits)

lemma set_AppendJob_subset:
  "AppendJob jobs j maxHistory = Some js \<Longrightarrow> set js \<subseteq> insert j (set jobs)"
  using set_drop_subset [of _ "jobs @ [j]"]
  by (fastforce simp: AppendJob_def Let_def split: if_splits)

lemma is_latest_snoc:
  "is_latest (jobs @ [j]) t l \<longleftrightarrow>
     (is_latest jobs t l \<and> (JobType j = t \<longrightarrow> Timestamp j \<le> Timestamp l)) \<or>
     (j = l \<and> JobType l = t \<and> (\<forall>k \<in> set jobs. JobType k = t \<longrightarrow> Timestamp k < Timestamp l))"
    (is "?L \<longleftrightarrow> ?A \<or> ?B")
proof
  assume ?L
  then obtain xs ys where e: "jobs @ [j] = xs @ [l] @ ys" and p: "JobType l = t"
    "\<forall>k \<in> set xs. JobType k = t \<longrightarrow> Timestamp k < Timestamp l"
    "\<forall>k \<in> set ys. JobType k = t \<longrightarrow> Timestamp k \<le> Timestamp l" by (auto simp: is_latest_def)
  show "?A \<or> ?B"
  proof (cases ys rule: rev_cases)
    case (snoc zs z)
    with e have "jobs = xs @ [l] @ zs" "z = j" by auto
    with p snoc show ?thesis by (intro disjI1) (auto simp: is_latest_def)
  qed (use e p in auto)
next
  assume "?A \<or> ?B"
  then show ?L
  proof
    assume ?A
    then obtain xs ys where "jobs = xs @ [l] @ ys" "JobType l = t"
      "\<forall>k \<in> set xs. JobType k = t \<longrightarrow> Timestamp k < Timestamp l"
      "\<forall>k \<in> set (ys @ [j]). JobType k = t \<longrightarrow> Timestamp k \<le> Timestamp l" by (auto simp: is_latest_def)
    then show ?L unfolding is_latest_def by (intro exI [of _ xs] exI [of _ "ys @ [j]"]) simp
  next
    assume ?B
    then show ?L unfolding is_latest_def by (intro exI [of _ jobs] exI [of _ "[]"]) simp
  qed
qed

lemma FindLatestJobByType_is_latest: "FindLatestJobByType jobs t = Some l \<longleftrightarrow> is_latest jobs t l"
proof (induction jobs rule: rev_induct)
  case Nil
  then show ?case by (simp add: FindLatestJobByType_def is_latest_def)
next
  case (snoc j jobs)
  show ?case
    unfolding is_latest_snoc snoc.IH [symmetric] FindLatestJobByType_snoc
    using FindLatestJobByType_None [of jobs t] FindLatestJobByType_Some [of jobs t]
    by (cases "FindLatestJobByType jobs t") (auto simp: not_less)
qed

section \<open>Properties\<close>

text \<open>
  C26: with a positive bound \<open>AppendJob\<close> never fails, keeps the newest jobs in their order with the new
  job at the end, and drops exactly as many of the oldest as the bound requires.
\<close>

theorem AppendJob_keeps_newest:
  assumes "0 < maxHistory"
  shows "\<exists>js n. AppendJob jobs j maxHistory = Some js \<and> js = drop n jobs @ [j] \<and>
     int (length js) = min (int (length jobs) + 1) maxHistory"
proof (cases "int (length jobs) + 1 > maxHistory")
  case True
  then have "Suc (length jobs) - nat maxHistory \<le> length jobs" using assms by linarith
  with True assms show ?thesis
    by (intro exI [of _ "drop (Suc (length jobs) - nat maxHistory) jobs @ [j]"]
         exI [of _ "Suc (length jobs) - nat maxHistory"]) (auto simp: AppendJob_def Let_def)
next
  case False
  then show ?thesis
    by (intro exI [of _ "jobs @ [j]"] exI [of _ 0]) (auto simp: AppendJob_def Let_def)
qed

theorem AppendJob_keeps_newest_witness:
  "\<exists>js n. AppendJob [sample_job ''1'' JobTypeProvision 1 JobStateFailed ''v'', sample_job ''2'' JobTypeProvision 2 JobStateFailed ''v'']
       (sample_job ''3'' JobTypeProvision 3 JobStatePending ''v'') 2 = Some js \<and>
     js = drop n [sample_job ''1'' JobTypeProvision 1 JobStateFailed ''v'', sample_job ''2'' JobTypeProvision 2 JobStateFailed ''v''] @
       [sample_job ''3'' JobTypeProvision 3 JobStatePending ''v''] \<and> int (length js) = 2"
  using AppendJob_keeps_newest [of 2
      "[sample_job ''1'' JobTypeProvision 1 JobStateFailed ''v'', sample_job ''2'' JobTypeProvision 2 JobStateFailed ''v'']"
      "sample_job ''3'' JobTypeProvision 3 JobStatePending ''v''"] by simp

text \<open>
  \<open>FindLatestJobByType\<close> returns a job exactly when it is of the type asked for, no other job of that
  type is newer, and no earlier entry of the history is as new.
\<close>

theorem FindLatestJobByType_exact:
  "FindLatestJobByType jobs t = Some l \<longleftrightarrow>
     (\<exists>xs ys. jobs = xs @ [l] @ ys \<and> JobType l = t \<and>
        (\<forall>k \<in> set xs. JobType k = t \<longrightarrow> Timestamp k < Timestamp l) \<and>
        (\<forall>k \<in> set ys. JobType k = t \<longrightarrow> Timestamp k \<le> Timestamp l))"
  unfolding FindLatestJobByType_is_latest by (rule is_latest_def)

theorem FindLatestJobByType_exact_witness:
  "FindLatestJobByType
     [sample_job ''1'' JobTypeProvision 1 JobStateFailed ''v'', sample_job ''2'' JobTypeProvision 5 JobStateFailed ''v'',
      sample_job ''3'' JobTypeDeprovision 9 JobStateFailed ''v''] JobTypeProvision =
   Some (sample_job ''2'' JobTypeProvision 5 JobStateFailed ''v'')"
  unfolding FindLatestJobByType_exact
  by (intro exI [of _ "[sample_job ''1'' JobTypeProvision 1 JobStateFailed ''v'']"]
       exI [of _ "[sample_job ''3'' JobTypeDeprovision 9 JobStateFailed ''v'']"]) (simp add: sample_job_def)

text \<open>
  On a history with pairwise distinct identifiers \<open>UpdateJob\<close> replaces exactly the job with the given
  identifier, leaves every other job as it is and where it is, and reports whether there was one.
\<close>

theorem UpdateJob_pointwise:
  assumes "distinct (map JobID jobs)"
  shows "UpdateJob jobs u =
     (map (\<lambda>j. if JobID j = JobID u then u else j) jobs, \<exists>j \<in> set jobs. JobID j = JobID u)"
proof (cases "FindJobByID jobs (JobID u)")
  case None
  then have "\<forall>j \<in> set jobs. JobID j \<noteq> JobID u"
    unfolding FindJobByID_None set_map by (metis imageI)
  with None show ?thesis by (simp add: UpdateJob_def map_idI)
next
  case (Some k)
  note s = FindJobByID_Some [OF Some]
  have "JobID (jobs ! i) = JobID u \<longleftrightarrow> i = k" if "i < length jobs" for i
    using s that assms by (metis length_map nth_eq_iff_index_eq nth_map)
  then have "jobs[k := u] = map (\<lambda>j. if JobID j = JobID u then u else j) jobs"
    by (intro nth_equalityI) (auto simp: nth_list_update)
  moreover have "\<exists>j \<in> set jobs. JobID j = JobID u" using s by (metis nth_mem)
  ultimately show ?thesis using Some by (simp add: UpdateJob_def)
qed

theorem UpdateJob_pointwise_witness:
  "UpdateJob [sample_job ''1'' JobTypeProvision 1 JobStateFailed ''v'', sample_job ''2'' JobTypeProvision 2 JobStateRunning ''v'']
     (sample_job ''2'' JobTypeProvision 2 JobStateSucceeded ''v'') =
   ([sample_job ''1'' JobTypeProvision 1 JobStateFailed ''v'', sample_job ''2'' JobTypeProvision 2 JobStateSucceeded ''v''], True)"
  using UpdateJob_pointwise [of
      "[sample_job ''1'' JobTypeProvision 1 JobStateFailed ''v'', sample_job ''2'' JobTypeProvision 2 JobStateRunning ''v'']"
      "sample_job ''2'' JobTypeProvision 2 JobStateSucceeded ''v''"] by (simp add: sample_job_def)

end
