(* ===== verification/Provision_Helpers.thy ===== *)
theory Provision_Helpers
  imports Jobs
begin

text \<open>
  Retry delays (\<^verbatim>\<open>pkg/provisioning/provision_helpers.go\<close>) and the rate-limit error of
  \<^verbatim>\<open>pkg/provisioning/errors.go\<close>: the actions of the provisioning lifecycle, the exponential backoff
  computed from the gap between the last two failed jobs, with the 64-bit arithmetic of
  \<^verbatim>\<open>time.Duration\<close> written out, and the decision between waiting and retrying.

  The lemmas bound the delay, relate it to the gap exactly, and show the sequence of delays of a job
  that keeps failing: it doubles from two minutes up to the cap of thirty minutes.
\<close>

section \<open>Definitions\<close>

datatype Action = Skip | Trigger | Poll | Requeue | Backoff

fun Action_String :: "Action \<Rightarrow> string" where
  "Action_String Skip = ''Skip''"
| "Action_String Trigger = ''Trigger''"
| "Action_String Poll = ''Poll''"
| "Action_String Requeue = ''Requeue''"
| "Action_String Backoff = ''Backoff''"

definition BackoffBaseDelay :: duration where
  "BackoffBaseDelay = 2 * Minute"

definition BackoffMaxDelay :: duration where
  "BackoffMaxDelay = 30 * Minute"

definition AsRateLimitError :: "gerror \<Rightarrow> duration option" where
  "AsRateLimitError e =
     (case errors_As is_RateLimitError e of Some (RateLimitError d) \<Rightarrow> Some d | _ \<Rightarrow> None)"

text \<open>The loop over the history from its end: the last and the one before it, if any.\<close>

fun last_two_failed ::
  "(JobStatus \<Rightarrow> bool) \<Rightarrow> JobStatus option \<Rightarrow> JobStatus list \<Rightarrow> JobStatus option \<times> JobStatus option"
where
  "last_two_failed match latest [] = (latest, None)"
| "last_two_failed match latest (j # js) =
     (if JobState j \<noteq> JobStateFailed \<or> \<not> match j then last_two_failed match latest js
      else (case latest of
              None \<Rightarrow> last_two_failed match (Some j) js
            | Some l \<Rightarrow> (Some l, Some j)))"

definition next_delay :: "duration \<Rightarrow> duration" where
  "next_delay gap =
     (if gap \<le> 0 then BackoffBaseDelay
      else
        (let nextDelay = wrap64 (gap * 2) in
         if nextDelay < BackoffBaseDelay then BackoffBaseDelay
         else if nextDelay > BackoffMaxDelay then BackoffMaxDelay
         else nextDelay))"

definition computeBackoffFromFailedJobs :: "JobStatus list \<Rightarrow> (JobStatus \<Rightarrow> bool) \<Rightarrow> duration" where
  "computeBackoffFromFailedJobs jobs match =
     (case last_two_failed match None (rev jobs) of
        (Some latest, Some prev) \<Rightarrow> next_delay (time_Sub (Timestamp latest) (Timestamp prev))
      | _ \<Rightarrow> BackoffBaseDelay)"

definition ComputeBackoffFromJobs :: "JobStatus list \<Rightarrow> string \<Rightarrow> duration" where
  "ComputeBackoffFromJobs jobs configVersion =
     computeBackoffFromFailedJobs jobs
       (\<lambda>j. JobType j = JobTypeProvision \<and> ConfigVersion j = configVersion)"

definition ComputeDeprovisionBackoff :: "JobStatus list \<Rightarrow> duration" where
  "ComputeDeprovisionBackoff jobs =
     computeBackoffFromFailedJobs jobs (\<lambda>j. JobType j = JobTypeDeprovision)"

text \<open>
  \<^verbatim>\<open>HandleBackoff\<close>: \<open>jobs\<close> is the history \<^verbatim>\<open>*provState.Jobs\<close> at the call, \<open>now\<close> reads the clock.
\<close>

definition HandleBackoff ::
  "('s \<Rightarrow> instant) \<Rightarrow> JobStatus list \<Rightarrow> string \<Rightarrow> JobStatus \<Rightarrow> ('s, outcome) go \<Rightarrow> ('s, outcome) go"
where
  "HandleBackoff now jobs desired latestJob triggerFn =
     (let backoff = ComputeBackoffFromJobs jobs desired in
      bnd (gets now) (\<lambda>t.
        let elapsed = time_Sub t (Timestamp latestJob) in
        if elapsed \<ge> backoff then triggerFn
        else ret (requeue_after (wrap64 (backoff - elapsed)), None)))"

section \<open>Specification\<close>

text \<open>The delay after \<open>n\<close> consecutive failures when every retry waits exactly its delay.\<close>

fun backoff_schedule :: "nat \<Rightarrow> duration" where
  "backoff_schedule 0 = BackoffBaseDelay"
| "backoff_schedule (Suc n) = next_delay (backoff_schedule n)"

definition failed_run :: "(JobStatus \<Rightarrow> bool) \<Rightarrow> JobStatus list \<Rightarrow> bool" where
  "failed_run match jobs \<longleftrightarrow> (\<forall>j \<in> set jobs. JobState j = JobStateFailed \<and> match j)"

text \<open>
  A job that fails again and again, each retry started as soon as the delay of its predecessors allows
  and failing at once.
\<close>

fun failing_history :: "string \<Rightarrow> instant \<Rightarrow> nat \<Rightarrow> JobStatus list" where
  "failing_history v t0 0 = [sample_job ''0'' JobTypeProvision t0 JobStateFailed v]"
| "failing_history v t0 (Suc n) =
     (let h = failing_history v t0 n in
      h @ [sample_job (Itoa (int (Suc n))) JobTypeProvision
             (Timestamp (last h) + ComputeBackoffFromJobs h v) JobStateFailed v])"

section \<open>Lemmas\<close>

lemmas backoff_consts = BackoffBaseDelay_def BackoffMaxDelay_def

lemma AsRateLimitError_wrap [simp]: "AsRateLimitError (Wrapf f as e) = AsRateLimitError e"
  by (simp add: AsRateLimitError_def)

lemma next_delay_bounds: "BackoffBaseDelay \<le> next_delay g \<and> next_delay g \<le> BackoffMaxDelay"
  by (auto simp: next_delay_def Let_def backoff_consts)

lemma next_delay_exact:
  assumes "0 < g" and "g \<le> max_int64 div 2"
  shows "next_delay g = max BackoffBaseDelay (min BackoffMaxDelay (2 * g))"
proof -
  have "wrap64 (g * 2) = g * 2"
    using assms by (intro wrap64_id) (auto simp: min_int64_def max_int64_def)
  then show ?thesis using assms(1) by (auto simp: next_delay_def Let_def backoff_consts)
qed

lemma computeBackoff_bounds:
  "BackoffBaseDelay \<le> computeBackoffFromFailedJobs jobs match \<and>
   computeBackoffFromFailedJobs jobs match \<le> BackoffMaxDelay"
  using next_delay_bounds
  by (auto simp: computeBackoffFromFailedJobs_def backoff_consts split: option.splits prod.splits)

lemma last_two_failed_skip:
  assumes "\<forall>j \<in> set xs. JobState j \<noteq> JobStateFailed \<or> \<not> match j"
  shows "last_two_failed match l (xs @ ys) = last_two_failed match l ys"
  using assms by (induction xs) auto

lemma last_two_failed_none:
  "\<forall>j \<in> set xs. JobState j \<noteq> JobStateFailed \<or> \<not> match j \<Longrightarrow> last_two_failed match l xs = (l, None)"
  using last_two_failed_skip [of xs match l "[]"] by simp

text \<open>Only the last two failed matching jobs matter, whatever stands around them.\<close>

lemma computeBackoff_last_two:
  assumes jobs: "jobs = xs @ [p] @ ys @ [l] @ zs"
    and p: "JobState p = JobStateFailed" "match p" and l: "JobState l = JobStateFailed" "match l"
    and skip: "\<forall>j \<in> set ys \<union> set zs. JobState j \<noteq> JobStateFailed \<or> \<not> match j"
  shows "computeBackoffFromFailedJobs jobs match = next_delay (time_Sub (Timestamp l) (Timestamp p))"
proof -
  have "rev jobs = rev zs @ (l # rev ys @ (p # rev xs))" using jobs by simp
  then have "last_two_failed match None (rev jobs) = (Some l, Some p)"
    using p l skip by (simp add: last_two_failed_skip)
  then show ?thesis by (simp add: computeBackoffFromFailedJobs_def)
qed

lemma computeBackoff_single:
  assumes jobs: "jobs = xs @ [l] @ zs" and l: "JobState l = JobStateFailed" "match l"
    and skip: "\<forall>j \<in> set xs \<union> set zs. JobState j \<noteq> JobStateFailed \<or> \<not> match j"
  shows "computeBackoffFromFailedJobs jobs match = BackoffBaseDelay"
proof -
  have "rev jobs = rev zs @ (l # rev xs)" using jobs by simp
  then have "last_two_failed match None (rev jobs) = (Some l, None)"
    using l skip by (simp add: last_two_failed_skip last_two_failed_none)
  then show ?thesis by (simp add: computeBackoffFromFailedJobs_def)
qed

lemma next_delay_clamped:
  "BackoffBaseDelay \<le> g \<Longrightarrow> g \<le> BackoffMaxDelay \<Longrightarrow> next_delay g = min BackoffMaxDelay (2 * g)"
  using next_delay_exact [of g] by (auto simp: backoff_consts max_int64_def)

lemma backoff_schedule_bounds:
  "BackoffBaseDelay \<le> backoff_schedule n \<and> backoff_schedule n \<le> BackoffMaxDelay"
proof (cases n)
  case 0
  then show ?thesis by (simp add: backoff_consts)
qed (simp add: next_delay_bounds)

lemma min_double: "(0::int) \<le> m \<Longrightarrow> min m (2 * min m x) = min m (2 * x)"
  by (simp add: min_def)

lemma backoff_schedule_closed: "backoff_schedule n = min BackoffMaxDelay (2 ^ n * BackoffBaseDelay)"
proof (induction n)
  case 0
  then show ?case by (simp add: backoff_consts)
next
  case (Suc n)
  have base: "BackoffBaseDelay \<le> backoff_schedule n" and cap: "backoff_schedule n \<le> BackoffMaxDelay"
    using backoff_schedule_bounds [of n] by blast+
  have "backoff_schedule (Suc n) = min BackoffMaxDelay (2 * backoff_schedule n)"
    using next_delay_clamped [OF base cap] by simp
  also have "\<dots> = min BackoffMaxDelay (2 ^ Suc n * BackoffBaseDelay)"
  proof -
    have "0 \<le> BackoffMaxDelay" by (simp add: BackoffMaxDelay_def)
    from min_double [OF this, of "2 ^ n * BackoffBaseDelay"] show ?thesis
      by (simp only: Suc.IH power_Suc mult.assoc)
  qed
  finally show ?case .
qed

lemma time_Sub_small: "\<bar>t - u\<bar> \<le> max_int64 \<Longrightarrow> time_Sub t u = t - u"
  by (simp add: time_Sub_def sat64_def min_int64_def max_int64_def)

lemma failing_history_snoc:
  "\<exists>xs l. failing_history v t0 n = xs @ [l] \<and> JobState l = JobStateFailed \<and>
     JobType l = JobTypeProvision \<and> ConfigVersion l = v"
  by (cases n) (simp_all add: Let_def sample_job_def)

lemma failing_history_backoff: "ComputeBackoffFromJobs (failing_history v t0 n) v = backoff_schedule n"
proof (induction n)
  case 0
  then show ?case
    by (simp add: ComputeBackoffFromJobs_def computeBackoff_single [of _ "[]" _ "[]"] sample_job_def)
next
  case (Suc n)
  obtain xs l where h: "failing_history v t0 n = xs @ [l]" "JobState l = JobStateFailed"
    "JobType l = JobTypeProvision" "ConfigVersion l = v" using failing_history_snoc by blast
  let ?new = "sample_job (Itoa (int (Suc n))) JobTypeProvision (Timestamp l + backoff_schedule n) JobStateFailed v"
  have "failing_history v t0 (Suc n) = xs @ [l] @ [] @ [?new] @ []" by (simp add: Let_def h Suc.IH [unfolded h])
  then have "ComputeBackoffFromJobs (failing_history v t0 (Suc n)) v =
      next_delay (time_Sub (Timestamp ?new) (Timestamp l))"
    unfolding ComputeBackoffFromJobs_def
    by (rule computeBackoff_last_two) (simp_all add: h sample_job_def)
  also have "time_Sub (Timestamp ?new) (Timestamp l) = backoff_schedule n"
    using backoff_schedule_bounds [of n]
    by (subst time_Sub_small) (auto simp: sample_job_def backoff_consts max_int64_def)
  finally show ?case by simp
qed

section \<open>Properties\<close>

text \<open>
  C25: after two failures of the same configuration the next delay is twice the time between them, at
  least two and at most thirty minutes. Only the last two failed provisioning jobs of that
  configuration count, whatever other jobs stand before, between or after them. This is said of a second failure that
  is later than the first by at most half the largest duration, about 146 years: beyond that, doubling the time between
  them overflows 64 bits.
\<close>

theorem backoff_doubles:
  assumes "jobs = xs @ [p] @ ys @ [l] @ zs"
    and "JobState p = JobStateFailed" "JobType p = JobTypeProvision" "ConfigVersion p = v"
    and "JobState l = JobStateFailed" "JobType l = JobTypeProvision" "ConfigVersion l = v"
    and "\<forall>j \<in> set ys \<union> set zs. JobState j \<noteq> JobStateFailed \<or> JobType j \<noteq> JobTypeProvision \<or> ConfigVersion j \<noteq> v"
    and "Timestamp p < Timestamp l" and "Timestamp l - Timestamp p \<le> max_int64 div 2"
  shows "ComputeBackoffFromJobs jobs v =
     max BackoffBaseDelay (min BackoffMaxDelay (2 * (Timestamp l - Timestamp p)))"
proof -
  have "ComputeBackoffFromJobs jobs v = next_delay (time_Sub (Timestamp l) (Timestamp p))"
    unfolding ComputeBackoffFromJobs_def by (rule computeBackoff_last_two [OF assms(1)]) (use assms in auto)
  moreover have "time_Sub (Timestamp l) (Timestamp p) = Timestamp l - Timestamp p"
    using assms(9,10) by (intro time_Sub_small) (simp add: max_int64_def)
  ultimately show ?thesis using assms(9,10) by (simp add: next_delay_exact)
qed

theorem backoff_doubles_witness:
  "ComputeBackoffFromJobs
     [sample_job ''1'' JobTypeProvision 0 JobStateFailed ''v'', sample_job ''2'' JobTypeProvision (3 * Minute) JobStateFailed ''v'',
      sample_job ''3'' JobTypeProvision (4 * Minute) JobStateFailed ''w''] ''v'' = 6 * Minute"
  by (subst backoff_doubles [where xs = "[]" and ys = "[]" and p = "sample_job ''1'' JobTypeProvision 0 JobStateFailed ''v''"
        and l = "sample_job ''2'' JobTypeProvision (3 * Minute) JobStateFailed ''v''"
        and zs = "[sample_job ''3'' JobTypeProvision (4 * Minute) JobStateFailed ''w'']"])
    (simp_all add: sample_job_def max_int64_def backoff_consts)

text \<open>
  The delay of a configuration that keeps failing grows as two minutes times the powers of two
  until the cap of thirty minutes is reached, and stays there.
\<close>

theorem retry_delays:
  "ComputeBackoffFromJobs (failing_history v t0 n) v = min BackoffMaxDelay (2 ^ n * BackoffBaseDelay)"
  by (simp add: failing_history_backoff backoff_schedule_closed)

text \<open>
  \<open>HandleBackoff\<close> runs the trigger exactly when the delay since the latest job is over; before that
  it changes nothing and asks to be called again at the very moment the delay ends.
\<close>

theorem HandleBackoff_due:
  assumes "Timestamp l \<le> now s" and "now s - Timestamp l \<le> max_int64"
  shows "HandleBackoff now jobs v l triggerFn s =
     (let due = Timestamp l + ComputeBackoffFromJobs jobs v in
      if due \<le> now s then triggerFn s else Some ((requeue_after (due - now s), None), s))"
proof -
  have e: "time_Sub (now s) (Timestamp l) = now s - Timestamp l"
    using assms by (intro time_Sub_small) simp
  have b: "0 \<le> ComputeBackoffFromJobs jobs v" "ComputeBackoffFromJobs jobs v \<le> 30 * Minute"
    using computeBackoff_bounds [of jobs "\<lambda>j. JobType j = JobTypeProvision \<and> ConfigVersion j = v"]
    by (auto simp: ComputeBackoffFromJobs_def backoff_consts)
  then have "wrap64 (ComputeBackoffFromJobs jobs v - (now s - Timestamp l)) =
      ComputeBackoffFromJobs jobs v - (now s - Timestamp l)"
    using assms by (intro wrap64_id) (auto simp: min_int64_def max_int64_def)
  then show ?thesis by (simp add: HandleBackoff_def Let_def go_simps e algebra_simps)
qed

theorem HandleBackoff_due_witness:
  "HandleBackoff id [sample_job ''1'' JobTypeProvision 0 JobStateFailed ''v''] ''v''
       (sample_job ''1'' JobTypeProvision 0 JobStateFailed ''v'') panic Minute =
     Some ((requeue_after Minute, None), Minute) \<and>
   HandleBackoff id [sample_job ''1'' JobTypeProvision 0 JobStateFailed ''v''] ''v''
       (sample_job ''1'' JobTypeProvision 0 JobStateFailed ''v'') panic (2 * Minute) = None"
proof -
  have "ComputeBackoffFromJobs [sample_job ''1'' JobTypeProvision 0 JobStateFailed ''v''] ''v'' = 2 * Minute"
    using failing_history_backoff [of "''v''" 0 0]
    by (simp add: ComputeBackoffFromJobs_def computeBackoffFromFailedJobs_def sample_job_def backoff_consts)
  then show ?thesis
    using HandleBackoff_due [of "sample_job ''1'' JobTypeProvision 0 JobStateFailed ''v''" id Minute]
      HandleBackoff_due [of "sample_job ''1'' JobTypeProvision 0 JobStateFailed ''v''" id "2 * Minute"]
    by (simp add: sample_job_def max_int64_def go_simps)
qed

end
