(* ===== verification/Provision_Lifecycle.thy ===== *)
theory Provision_Lifecycle
  imports Provision_Helpers
begin

text \<open>
  The provisioning and deprovisioning lifecycle shared by all controllers
  (\<^verbatim>\<open>pkg/provisioning/provision_lifecycle.go\<close>) over the provider interface of
  \<^verbatim>\<open>pkg/provisioning/provider.go\<close>.

  The state of a lifecycle function is the pair of the resource in memory and the world. The pointer
  \<^verbatim>\<open>*[]JobStatus\<close> into the resource is a pair of access functions (\<open>JobsRef\<close>), the provider is a
  record of world-changing functions, and the clock is read from the world, so that a call of the
  provider may let time pass. Callbacks are programs on the same state. Logging is left out.
\<close>

section \<open>The provider interface\<close>

record ProvisionResult =
  pr_JobID :: string
  pr_InitialState :: JobState
  pr_Message :: string

datatype DeprovisionAction =
    DeprovisionTriggered
  | DeprovisionWaiting
  | DeprovisionSkipped
  | OtherDeprovisionAction string

record ProvisionStatus =
  ps_JobID :: string
  ps_State :: JobState
  ps_Message :: string
  ps_Progress :: int
  ps_StartTime :: instant
  ps_EndTime :: instant
  ps_ReconciledVersion :: string
  ps_ErrorDetails :: string

record DeprovisionResult =
  dr_Action :: DeprovisionAction
  dr_JobID :: string
  dr_BlockDeletionOnFailure :: bool
  dr_ProvisionJobStatus :: "ProvisionStatus option"

record ('r, 'w) ProvisioningProvider =
  TriggerProvision :: "'r \<Rightarrow> ('w, gerror + ProvisionResult) go"
  GetProvisionStatus :: "'r \<Rightarrow> string \<Rightarrow> ('w, gerror + ProvisionStatus) go"
  TriggerDeprovision :: "'r \<Rightarrow> JobStatus list \<Rightarrow> ('w, gerror + DeprovisionResult) go"
  GetDeprovisionStatus :: "'r \<Rightarrow> string \<Rightarrow> ('w, gerror + ProvisionStatus) go"

definition MessageWithDetails :: "ProvisionStatus \<Rightarrow> string" where
  "MessageWithDetails s =
     (if ps_ErrorDetails s \<noteq> '''' then sprintf ''%s: %s'' [ps_Message s, ps_ErrorDetails s]
      else ps_Message s)"

section \<open>Provisioning\<close>

record 'r JobsRef =
  Jobs_get :: "'r \<Rightarrow> JobStatus list"
  Jobs_set :: "JobStatus list \<Rightarrow> 'r \<Rightarrow> 'r"

record 'r State =
  State_Jobs :: "'r JobsRef"
  State_DesiredConfigVersion :: string

definition read_jobs :: "'r JobsRef \<Rightarrow> ('r \<times> 'w, JobStatus list) go" where
  "read_jobs ref = bnd get_res (\<lambda>r. ret (Jobs_get ref r))"

definition write_jobs :: "'r JobsRef \<Rightarrow> JobStatus list \<Rightarrow> ('r \<times> 'w, unit) go" where
  "write_jobs ref jobs = mod_res (Jobs_set ref jobs)"

definition update_job :: "'r JobsRef \<Rightarrow> JobStatus \<Rightarrow> ('r \<times> 'w, unit) go" where
  "update_job ref u = bnd (read_jobs ref) (\<lambda>jobs. write_jobs ref (fst (UpdateJob jobs u)))"

definition read_clock :: "('w \<Rightarrow> instant) \<Rightarrow> ('r \<times> 'w, instant) go" where
  "read_clock now = gets (\<lambda>(r, w). now w)"

definition EvaluateAction ::
  "'r State \<Rightarrow> ('r \<times> 'w, bool) go \<Rightarrow> ('r \<times> 'w, Action \<times> JobStatus option) go"
where
  "EvaluateAction provState checkAPIServer =
     bnd (read_jobs (State_Jobs provState)) (\<lambda>jobs.
       let latestJob = FindLatestJobByType jobs JobTypeProvision;
           trigger = bnd checkAPIServer (\<lambda>running.
             if running then ret (Requeue, None) else ret (Trigger, latestJob))
       in if \<not> HasJobID latestJob then trigger
          else (case latestJob of
                  None \<Rightarrow> trigger
                | Some j \<Rightarrow>
                    if \<not> IsTerminal (JobState j) then ret (Poll, latestJob)
                    else if ConfigVersion j = State_DesiredConfigVersion provState then
                      (if JobState j = JobStateSucceeded then ret (Skip, latestJob)
                       else ret (Backoff, latestJob))
                    else if ConfigVersion j = '''' \<and> JobState j = JobStateSucceeded then
                      ret (Skip, latestJob)
                    else trigger))"

definition CheckAPIServerForNonTerminalProvisionJob ::
  "('w, gerror + 'o) go \<Rightarrow> ('o \<Rightarrow> JobStatus list) \<Rightarrow> ('w, bool) go"
where
  "CheckAPIServerForNonTerminalProvisionJob apiReader_Get extract =
     bnd apiReader_Get (\<lambda>res.
       case res of
         Inl err \<Rightarrow> ret False
       | Inr fresh \<Rightarrow>
           (case FindLatestJobByType (extract fresh) JobTypeProvision of
              None \<Rightarrow> ret False
            | Some freshJob \<Rightarrow> ret (JobID freshJob \<noteq> '''' \<and> \<not> IsTerminal (JobState freshJob))))"

definition provision_job :: "string \<Rightarrow> ProvisionResult \<Rightarrow> instant \<Rightarrow> JobStatus" where
  "provision_job desired result t =
     \<lparr>JobID = pr_JobID result, JobType = JobTypeProvision, Timestamp = t,
      JobState = pr_InitialState result, Message = pr_Message result,
      BlockDeletionOnFailure = False, ConfigVersion = desired\<rparr>"

definition TriggerJob ::
  "('w \<Rightarrow> instant) \<Rightarrow> ('r, 'w) ProvisioningProvider \<Rightarrow> 'r State \<Rightarrow> int \<Rightarrow> duration \<Rightarrow>
   ('r \<times> 'w, outcome) go"
where
  "TriggerJob now provider provState maxHistory pollInterval =
     bnd get_res (\<lambda>resource.
     bnd (on_world (TriggerProvision provider resource)) (\<lambda>res.
       case res of
         Inl err \<Rightarrow>
           (case AsRateLimitError err of
              Some retryAfter \<Rightarrow> ret (requeue_after retryAfter, None)
            | None \<Rightarrow> ret (no_requeue, Some (Wrapf ''failed to trigger provision: %w'' [] err)))
       | Inr result \<Rightarrow>
           bnd (read_clock now) (\<lambda>t.
           bnd (read_jobs (State_Jobs provState)) (\<lambda>jobs.
             case AppendJob jobs (provision_job (State_DesiredConfigVersion provState) result t)
                    maxHistory of
               None \<Rightarrow> panic
             | Some jobs' \<Rightarrow>
                 bnd (write_jobs (State_Jobs provState) jobs') (\<lambda>_.
                   case FindLatestJobByType jobs' JobTypeProvision of
                     None \<Rightarrow> panic
                   | Some latestJob \<Rightarrow> ret (requeue_after pollInterval, None))))))"

record ('r, 'w) PollCallbacks =
  OnFailed :: "(string \<Rightarrow> ('r \<times> 'w, unit) go) option"
  OnSuccess :: "(ProvisionStatus \<Rightarrow> ('r \<times> 'w, unit) go) option"

definition call_opt :: "('a \<Rightarrow> ('s, unit) go) option \<Rightarrow> 'a \<Rightarrow> ('s, unit) go" where
  "call_opt f x = (case f of None \<Rightarrow> ret () | Some g \<Rightarrow> g x)"

definition PollJob ::
  "('r, 'w) ProvisioningProvider \<Rightarrow> 'r State \<Rightarrow> JobStatus \<Rightarrow> duration \<Rightarrow>
   ('r, 'w) PollCallbacks option \<Rightarrow> ('r \<times> 'w, outcome) go"
where
  "PollJob provider provState latestJob pollInterval callbacks =
     bnd get_res (\<lambda>resource.
     bnd (on_world (GetProvisionStatus provider resource (JobID latestJob))) (\<lambda>res.
       case res of
         Inl err \<Rightarrow>
           bnd (update_job (State_Jobs provState)
                  (latestJob\<lparr>Message := sprintf ''Failed to get job status: %v'' [Error err]\<rparr>)) (\<lambda>_.
           ret (requeue_after pollInterval, None))
       | Inr status \<Rightarrow>
           bnd (if ps_State status \<noteq> JobState latestJob \<or> ps_Message status \<noteq> Message latestJob then
                  bnd (update_job (State_Jobs provState)
                         (latestJob\<lparr>JobState := ps_State status,
                                    Message := MessageWithDetails status\<rparr>)) (\<lambda>_.
                  if ps_State status = JobStateFailed then
                    (case callbacks of
                       None \<Rightarrow> ret ()
                     | Some cb \<Rightarrow> call_opt (OnFailed cb) (MessageWithDetails status))
                  else ret ())
                else ret ()) (\<lambda>_.
           if \<not> IsTerminal (ps_State status) then ret (requeue_after pollInterval, None)
           else
             bnd (if IsSuccessful (ps_State status) then
                    (case callbacks of None \<Rightarrow> ret () | Some cb \<Rightarrow> call_opt (OnSuccess cb) status)
                  else ret ()) (\<lambda>_.
             ret (no_requeue, None)))))"

definition trigger_and_flush ::
  "('w \<Rightarrow> instant) \<Rightarrow> ('r, 'w) ProvisioningProvider \<Rightarrow> 'r State \<Rightarrow> int \<Rightarrow> duration \<Rightarrow>
   ('r \<times> 'w, gerror option) go option \<Rightarrow> ('r \<times> 'w, outcome) go"
where
  "trigger_and_flush now provider provState maxHistory pollInterval statusFlush =
     bnd (read_jobs (State_Jobs provState)) (\<lambda>before.
       let prevJobID = (case FindLatestJobByType before JobTypeProvision of
                          None \<Rightarrow> '''' | Some prevJob \<Rightarrow> JobID prevJob) in
       bnd (TriggerJob now provider provState maxHistory pollInterval) (\<lambda>(res, err).
         case err of
           Some e \<Rightarrow> ret (res, Some e)
         | None \<Rightarrow>
             bnd (read_jobs (State_Jobs provState)) (\<lambda>after.
               case (statusFlush, FindLatestJobByType after JobTypeProvision) of
                 (Some flush, Some newJob) \<Rightarrow>
                   if JobID newJob \<noteq> prevJobID then bnd flush (\<lambda>flushErr. ret (res, None))
                   else ret (res, None)
               | _ \<Rightarrow> ret (res, None))))"

definition RunProvisioningLifecycle ::
  "('w \<Rightarrow> instant) \<Rightarrow> ('r, 'w) ProvisioningProvider \<Rightarrow> 'r State \<Rightarrow> int \<Rightarrow> duration \<Rightarrow>
   ('r, 'w) PollCallbacks option \<Rightarrow> ('r \<times> 'w, bool) go \<Rightarrow>
   ('r \<times> 'w, gerror option) go option \<Rightarrow> ('r \<times> 'w, outcome) go"
where
  "RunProvisioningLifecycle now provider provState maxHistory pollInterval callbacks
     checkAPIServer statusFlush =
     bnd (EvaluateAction provState checkAPIServer) (\<lambda>(action, latestJob).
       let trigger =
         trigger_and_flush now provider provState maxHistory pollInterval statusFlush in
       case action of
         Skip \<Rightarrow> ret (no_requeue, None)
       | Trigger \<Rightarrow> trigger
       | Requeue \<Rightarrow> ret (requeue_after pollInterval, None)
       | Backoff \<Rightarrow>
           (case latestJob of
              None \<Rightarrow> panic
            | Some j \<Rightarrow>
                bnd (read_jobs (State_Jobs provState)) (\<lambda>jobs.
                HandleBackoff (\<lambda>(r, w). now w) jobs (State_DesiredConfigVersion provState) j trigger))
       | Poll \<Rightarrow>
           (case latestJob of
              None \<Rightarrow> panic
            | Some j \<Rightarrow> PollJob provider provState j pollInterval callbacks))"

definition IsConfigApplied :: "JobStatus list \<Rightarrow> string \<Rightarrow> bool" where
  "IsConfigApplied jobs desiredConfigVersion =
     (case FindLatestJobByType jobs JobTypeProvision of
        None \<Rightarrow> False
      | Some l \<Rightarrow>
          if JobState l = JobStateSucceeded \<and> ConfigVersion l = desiredConfigVersion then True
          else JobState l = JobStateSucceeded \<and> ConfigVersion l = '''')"

section \<open>Deprovisioning\<close>

definition updateProvisionJobFromDeprovisionResult ::
  "'r JobsRef \<Rightarrow> DeprovisionResult \<Rightarrow> ('r \<times> 'w, unit) go"
where
  "updateProvisionJobFromDeprovisionResult ref result =
     (case dr_ProvisionJobStatus result of
        None \<Rightarrow> ret ()
      | Some status \<Rightarrow>
          bnd (read_jobs ref) (\<lambda>jobs.
            case FindLatestJobByType jobs JobTypeProvision of
              None \<Rightarrow> ret ()
            | Some latestProvisionJob \<Rightarrow>
                update_job ref
                  (latestProvisionJob\<lparr>JobState := ps_State status,
                                      Message := MessageWithDetails status\<rparr>)))"

definition DeprovisionAction_String :: "DeprovisionAction \<Rightarrow> string" where
  "DeprovisionAction_String a =
     (case a of
        DeprovisionTriggered \<Rightarrow> ''triggered''
      | DeprovisionWaiting \<Rightarrow> ''waiting''
      | DeprovisionSkipped \<Rightarrow> ''skipped''
      | OtherDeprovisionAction s \<Rightarrow> s)"

definition deprovision_job :: "DeprovisionResult \<Rightarrow> instant \<Rightarrow> JobStatus" where
  "deprovision_job result t =
     \<lparr>JobID = dr_JobID result, JobType = JobTypeDeprovision, Timestamp = t,
      JobState = JobStatePending, Message = ''Deprovision job triggered'',
      BlockDeletionOnFailure = dr_BlockDeletionOnFailure result, ConfigVersion = ''''\<rparr>"

definition TriggerDeprovisionJob ::
  "('w \<Rightarrow> instant) \<Rightarrow> ('r, 'w) ProvisioningProvider \<Rightarrow> 'r JobsRef \<Rightarrow> int \<Rightarrow> duration \<Rightarrow>
   ('r \<times> 'w, outcome) go"
where
  "TriggerDeprovisionJob now provider ref maxHistory pollInterval =
     bnd get_res (\<lambda>resource.
     bnd (on_world (TriggerDeprovision provider resource (Jobs_get ref resource))) (\<lambda>res.
       case res of
         Inl err \<Rightarrow>
           (case AsRateLimitError err of
              Some retryAfter \<Rightarrow> ret (requeue_after retryAfter, None)
            | None \<Rightarrow> ret (no_requeue, Some (Wrapf ''failed to trigger deprovision: %w'' [] err)))
       | Inr result \<Rightarrow>
           (case dr_Action result of
              DeprovisionSkipped \<Rightarrow> ret (no_requeue, None)
            | DeprovisionWaiting \<Rightarrow>
                bnd (updateProvisionJobFromDeprovisionResult ref result) (\<lambda>_.
                ret (requeue_after pollInterval, None))
            | DeprovisionTriggered \<Rightarrow>
                bnd (updateProvisionJobFromDeprovisionResult ref result) (\<lambda>_.
                bnd (read_clock now) (\<lambda>t.
                bnd (read_jobs ref) (\<lambda>jobs.
                  case AppendJob jobs (deprovision_job result t) maxHistory of
                    None \<Rightarrow> panic
                  | Some jobs' \<Rightarrow>
                      bnd (write_jobs ref jobs') (\<lambda>_. ret (requeue_after pollInterval, None)))))
            | OtherDeprovisionAction s \<Rightarrow>
                ret (no_requeue,
                     Some (Errorf ''unknown deprovision action: %v''
                             [DeprovisionAction_String (OtherDeprovisionAction s)])))))"

type_synonym deprov_outcome = "ctrl_result \<times> bool \<times> gerror option"

definition handleDeprovisionBackoff ::
  "('w \<Rightarrow> instant) \<Rightarrow> ('r, 'w) ProvisioningProvider \<Rightarrow> 'r JobsRef \<Rightarrow> JobStatus \<Rightarrow> int \<Rightarrow> duration \<Rightarrow>
   ('r \<times> 'w, deprov_outcome) go"
where
  "handleDeprovisionBackoff now provider ref latestJob maxHistory pollInterval =
     bnd (read_jobs ref) (\<lambda>jobs.
       let backoff = ComputeDeprovisionBackoff jobs in
       bnd (read_clock now) (\<lambda>t.
         let elapsed = time_Sub t (Timestamp latestJob) in
         if elapsed \<ge> backoff then
           bnd (TriggerDeprovisionJob now provider ref maxHistory pollInterval) (\<lambda>(result, err).
           ret (result, False, err))
         else ret (requeue_after (wrap64 (backoff - elapsed)), False, None)))"

definition PollDeprovisionJob ::
  "('w \<Rightarrow> instant) \<Rightarrow> ('r, 'w) ProvisioningProvider \<Rightarrow> 'r JobsRef \<Rightarrow> JobStatus \<Rightarrow> int \<Rightarrow> duration \<Rightarrow>
   ('r \<times> 'w, deprov_outcome) go"
where
  "PollDeprovisionJob now provider ref latestJob maxHistory pollInterval =
     (let retry = handleDeprovisionBackoff now provider ref latestJob maxHistory pollInterval in
      if IsTerminal (JobState latestJob) then
        (if \<not> IsSuccessful (JobState latestJob) \<and> BlockDeletionOnFailure latestJob then retry
         else ret (no_requeue, True, None))
      else
        bnd get_res (\<lambda>resource.
        bnd (on_world (GetDeprovisionStatus provider resource (JobID latestJob))) (\<lambda>res.
          case res of
            Inl err \<Rightarrow>
              bnd (update_job ref
                     (latestJob\<lparr>Message := sprintf ''Failed to get deprovision status: %v'' [Error err]\<rparr>)) (\<lambda>_.
              ret (requeue_after pollInterval, False, None))
          | Inr status \<Rightarrow>
              bnd (if ps_State status \<noteq> JobState latestJob \<or> ps_Message status \<noteq> Message latestJob then
                     update_job ref
                       (latestJob\<lparr>JobState := ps_State status, Message := MessageWithDetails status\<rparr>)
                   else ret ()) (\<lambda>_.
              if \<not> IsTerminal (ps_State status) then ret (requeue_after pollInterval, False, None)
              else if \<not> IsSuccessful (ps_State status) \<and> BlockDeletionOnFailure latestJob then retry
              else ret (no_requeue, True, None)))))"

definition RunDeprovisioningLifecycle ::
  "('w \<Rightarrow> instant) \<Rightarrow> ('r, 'w) ProvisioningProvider \<Rightarrow> 'r JobsRef \<Rightarrow> int \<Rightarrow> duration \<Rightarrow>
   ('r \<times> 'w, deprov_outcome) go"
where
  "RunDeprovisioningLifecycle now provider ref maxHistory pollInterval =
     bnd (read_jobs ref) (\<lambda>jobs.
       case FindLatestJobByType jobs JobTypeDeprovision of
         None \<Rightarrow>
           bnd (TriggerDeprovisionJob now provider ref maxHistory pollInterval) (\<lambda>(result, err).
           ret (result, False, err))
       | Some latestJob \<Rightarrow>
           if \<not> HasJobID (Some latestJob) then
             bnd (TriggerDeprovisionJob now provider ref maxHistory pollInterval) (\<lambda>(result, err).
             ret (result, False, err))
           else PollDeprovisionJob now provider ref latestJob maxHistory pollInterval)"

end
