(* ===== verification/Lifecycle_Laws.thy ===== *)
theory Lifecycle_Laws
  imports Provision_Lifecycle
begin

text \<open>
  Laws of the lifecycle of \<^verbatim>\<open>pkg/provisioning/provision_lifecycle.go\<close>: the system invariant that ties
  a resource's job history to the world (clock and identifiers issued so far), what is assumed of a
  provider and of the callbacks, the decision table of \<^verbatim>\<open>EvaluateAction\<close>, and, in the locale
  \<open>jobs_ref\<close>, the preservation of the invariant by every lifecycle function.
\<close>

section \<open>Assumptions on the surroundings\<close>

text \<open>
  How the laws look at a world: its clock, the job identifiers handed out so far, the deletions a
  controller has let go (an object by its namespace and name, and the time its deletion was requested),
  an invariant of the world that everything outside the lifecycle keeps, and whether the provider is
  expected to block deletions when deprovisioning fails.
\<close>

record 'w world_view =
  wv_now :: "'w \<Rightarrow> instant"
  wv_issued :: "'w \<Rightarrow> string set"
  wv_released :: "'w \<Rightarrow> ((string \<times> string) \<times> instant) set"
  wv_inv :: "'w \<Rightarrow> bool"
  wv_strict :: bool

definition advances :: "('w, 'm) world_view_scheme \<Rightarrow> 'w \<Rightarrow> 'w \<Rightarrow> bool" where
  "advances V w w' \<longleftrightarrow>
     wv_now V w \<le> wv_now V w' \<and> wv_issued V w \<subseteq> wv_issued V w' \<and>
     wv_released V w \<subseteq> wv_released V w' \<and> (wv_inv V w \<longrightarrow> wv_inv V w')"

definition starts_job :: "('w, 'm) world_view_scheme \<Rightarrow> string \<Rightarrow> 'w \<Rightarrow> 'w \<Rightarrow> bool" where
  "starts_job V x w w' \<longleftrightarrow>
     x \<noteq> '''' \<and> x \<notin> wv_issued V w \<and> x \<in> wv_issued V w' \<and> wv_now V w < wv_now V w'"

text \<open>A blocking history lets no failed deprovisioning pass.\<close>

definition all_blocking :: "JobStatus list \<Rightarrow> bool" where
  "all_blocking jobs \<longleftrightarrow> (\<forall>j \<in> set jobs. JobType j = JobTypeDeprovision \<longrightarrow> BlockDeletionOnFailure j)"

definition system_ok ::
  "int \<Rightarrow> 'r JobsRef \<Rightarrow> ('w, 'm) world_view_scheme \<Rightarrow> 'r \<times> 'w \<Rightarrow> bool"
where
  "system_ok maxHistory ref V s \<longleftrightarrow>
     history_ok maxHistory (wv_now V (snd s)) (Jobs_get ref (fst s)) \<and>
     set (map JobID (Jobs_get ref (fst s))) \<subseteq> wv_issued V (snd s) \<and>
     wv_inv V (snd s) \<and>
     (wv_strict V \<longrightarrow> all_blocking (Jobs_get ref (fst s)))"

text \<open>
  A program is quiet when, run where the invariant holds, it changes no job history, does not turn the
  clock back, forgets no identifier and keeps the invariant of the world. A provider is honest when it
  behaves so too, a job it reports as started carries a new, non-empty identifier and took some time to
  start, and deprovisioning jobs block deletion where that is expected.
\<close>

definition quiet ::
  "int \<Rightarrow> 'r JobsRef \<Rightarrow> ('w, 'm) world_view_scheme \<Rightarrow> ('r \<times> 'w, 'a) go \<Rightarrow> bool"
where
  "quiet maxHistory ref V m \<longleftrightarrow>
     (\<forall>r w. system_ok maxHistory ref V (r, w) \<longrightarrow>
        wlp m (\<lambda>_ (r', w'). Jobs_get ref r' = Jobs_get ref r \<and> advances V w w') (r, w))"

definition quiet_callbacks ::
  "int \<Rightarrow> 'r JobsRef \<Rightarrow> ('w, 'm) world_view_scheme \<Rightarrow> ('r, 'w) PollCallbacks option \<Rightarrow> bool"
where
  "quiet_callbacks maxHistory ref V callbacks \<longleftrightarrow>
     (\<forall>cb. callbacks = Some cb \<longrightarrow>
        (\<forall>f x. OnFailed cb = Some f \<longrightarrow> quiet maxHistory ref V (f x)) \<and>
        (\<forall>f x. OnSuccess cb = Some f \<longrightarrow> quiet maxHistory ref V (f x)))"

definition honest :: "('w, 'm) world_view_scheme \<Rightarrow> ('r, 'w) ProvisioningProvider \<Rightarrow> bool" where
  "honest V provider \<longleftrightarrow>
     (\<forall>r w. wlp (TriggerProvision provider r) (\<lambda>res w'. advances V w w' \<and>
        (\<forall>p. res = Inr p \<longrightarrow> starts_job V (pr_JobID p) w w')) w) \<and>
     (\<forall>r x w. wlp (GetProvisionStatus provider r x) (\<lambda>_ w'. advances V w w') w) \<and>
     (\<forall>r js w. wlp (TriggerDeprovision provider r js) (\<lambda>res w'. advances V w w' \<and>
        (\<forall>d. res = Inr d \<longrightarrow> dr_Action d = DeprovisionTriggered \<longrightarrow>
           starts_job V (dr_JobID d) w w' \<and> (wv_strict V \<longrightarrow> dr_BlockDeletionOnFailure d))) w) \<and>
     (\<forall>r x w. wlp (GetDeprovisionStatus provider r x) (\<lambda>_ w'. advances V w w') w)"

text \<open>
  Deprovisioning is finished when the newest deprovisioning job has ended, successfully unless it was
  allowed to fail. \<open>deprov_post\<close> is what a step of the deprovisioning lifecycle guarantees.
  \<open>waits_post\<close>: a step that neither finished nor failed asks to be called again.
\<close>

definition deprovisioned :: "JobStatus list \<Rightarrow> bool" where
  "deprovisioned jobs \<longleftrightarrow>
     (case FindLatestJobByType jobs JobTypeDeprovision of
        None \<Rightarrow> False
      | Some l \<Rightarrow> IsTerminal (JobState l) \<and> (IsSuccessful (JobState l) \<or> \<not> BlockDeletionOnFailure l))"

definition deprov_post ::
  "int \<Rightarrow> 'r JobsRef \<Rightarrow> ('w, 'm) world_view_scheme \<Rightarrow> deprov_outcome \<Rightarrow> 'r \<times> 'w \<Rightarrow> bool"
where
  "deprov_post maxHistory ref V out s \<longleftrightarrow>
     (case out of (res, finished, err) \<Rightarrow>
        system_ok maxHistory ref V s \<and>
        (finished \<longrightarrow> err = None \<and> res = no_requeue \<and> deprovisioned (Jobs_get ref (fst s))))"

definition waits_post :: "'r JobsRef \<Rightarrow> deprov_outcome \<Rightarrow> 'r \<times> 'w \<Rightarrow> bool" where
  "waits_post ref out s \<longleftrightarrow>
     (case out of (res, finished, err) \<Rightarrow>
        all_blocking (Jobs_get ref (fst s)) \<and> (err = None \<longrightarrow> finished \<or> 0 < RequeueAfter res))"

text \<open>The action as a function of the history alone; \<open>None\<close> stands for the branch that asks the API server.\<close>

definition planned_action :: "JobStatus list \<Rightarrow> string \<Rightarrow> Action option" where
  "planned_action jobs desired =
     (case FindLatestJobByType jobs JobTypeProvision of
        None \<Rightarrow> None
      | Some j \<Rightarrow>
          if JobID j = '''' then None
          else if \<not> IsTerminal (JobState j) then Some Poll
          else if ConfigVersion j = desired then
            (if JobState j = JobStateSucceeded then Some Skip else Some Backoff)
          else if ConfigVersion j = '''' \<and> JobState j = JobStateSucceeded then Some Skip
          else None)"

text \<open>A program that never panics.\<close>

definition returns :: "('s, 'a) go \<Rightarrow> bool" where
  "returns m \<longleftrightarrow> (\<forall>s. m s \<noteq> None)"

definition callbacks_return :: "('r, 'w) PollCallbacks option \<Rightarrow> bool" where
  "callbacks_return callbacks \<longleftrightarrow>
     (\<forall>cb. callbacks = Some cb \<longrightarrow>
        (\<forall>f x. OnFailed cb = Some f \<longrightarrow> returns (f x)) \<and> (\<forall>f x. OnSuccess cb = Some f \<longrightarrow> returns (f x)))"

section \<open>Jobs behind a pointer\<close>

lemma wlp_read_jobs [wp_simps]: "wlp (read_jobs ref) Q = (\<lambda>(r, w). Q (Jobs_get ref r) (r, w))"
  by (simp add: fun_eq_iff read_jobs_def wp_simps)

lemma wp_read_jobs [wp_simps]: "wp (read_jobs ref) Q = (\<lambda>(r, w). Q (Jobs_get ref r) (r, w))"
  by (simp add: fun_eq_iff read_jobs_def wp_simps)

lemma wlp_write_jobs [wp_simps]: "wlp (write_jobs ref js) Q = (\<lambda>(r, w). Q () (Jobs_set ref js r, w))"
  by (simp add: fun_eq_iff write_jobs_def wp_simps)

lemma wp_write_jobs [wp_simps]: "wp (write_jobs ref js) Q = (\<lambda>(r, w). Q () (Jobs_set ref js r, w))"
  by (simp add: fun_eq_iff write_jobs_def wp_simps)

lemma wlp_update_job [wp_simps]:
  "wlp (update_job ref u) Q = (\<lambda>(r, w). Q () (Jobs_set ref (fst (UpdateJob (Jobs_get ref r) u)) r, w))"
  by (simp add: fun_eq_iff update_job_def wp_simps)

lemma wp_update_job [wp_simps]:
  "wp (update_job ref u) Q = (\<lambda>(r, w). Q () (Jobs_set ref (fst (UpdateJob (Jobs_get ref r) u)) r, w))"
  by (simp add: fun_eq_iff update_job_def wp_simps)

lemma wlp_read_clock [wp_simps]: "wlp (read_clock now) Q = (\<lambda>(r, w). Q (now w) (r, w))"
  by (simp add: fun_eq_iff read_clock_def wp_simps)

lemma wp_read_clock [wp_simps]: "wp (read_clock now) Q = (\<lambda>(r, w). Q (now w) (r, w))"
  by (simp add: fun_eq_iff read_clock_def wp_simps)

lemma advances_refl [simp]: "advances V w w"
  by (simp add: advances_def)

lemma advances_trans: "advances V a b \<Longrightarrow> advances V b c \<Longrightarrow> advances V a c"
  by (auto simp: advances_def)

lemma quiet_ret [simp]: "quiet mh ref V (ret x)"
  by (simp add: quiet_def wp_simps)

lemma all_blocking_update:
  "all_blocking jobs \<Longrightarrow> JobType u = JobTypeDeprovision \<longrightarrow> BlockDeletionOnFailure u \<Longrightarrow>
     all_blocking (fst (UpdateJob jobs u))"
  using set_UpdateJob_subset [of jobs u] by (auto simp: all_blocking_def)

lemma all_blocking_append:
  "all_blocking jobs \<Longrightarrow> AppendJob jobs j n = Some js \<Longrightarrow>
     JobType j = JobTypeDeprovision \<longrightarrow> BlockDeletionOnFailure j \<Longrightarrow> all_blocking js"
  using set_AppendJob_subset [of jobs j n js] by (auto simp: all_blocking_def)

lemma system_ok_frame:
  assumes "system_ok mh ref V (r, w)" and "Jobs_get ref r' = Jobs_get ref r"
    and "advances V w w'"
  shows "system_ok mh ref V (r', w')"
  using assms history_ok_clock by (auto simp: system_ok_def advances_def)

lemma system_ok_latest_id:
  assumes "system_ok mh ref V (r, w)" and "FindLatestJobByType (Jobs_get ref r) t = Some l"
  shows "JobID l \<noteq> ''''"
proof -
  have "JobID l \<in> set (map JobID (Jobs_get ref r))" using FindLatestJobByType_Some [OF assms(2)] by simp
  moreover have "'''' \<notin> set (map JobID (Jobs_get ref r))"
    using assms(1) by (simp add: system_ok_def history_ok_def)
  ultimately show ?thesis by metis
qed

lemma quietD:
  assumes "quiet mh ref V m" and "system_ok mh ref V (r, w)"
  shows "wlp m (\<lambda>_. system_ok mh ref V) (r, w)"
proof -
  have h: "wlp m (\<lambda>_ (r', w'). Jobs_get ref r' = Jobs_get ref r \<and> advances V w w') (r, w)"
    using assms unfolding quiet_def by blast
  show ?thesis
proof (rule wlp_mono [OF h])
  fix x s'
  assume "case s' of (r', w') \<Rightarrow> Jobs_get ref r' = Jobs_get ref r \<and> advances V w w'"
  then show "system_ok mh ref V s'"
    using assms(2) by (cases s') (auto intro: system_ok_frame)
qed
qed

lemma honestD:
  assumes "honest V provider"
  shows
    "wlp (TriggerProvision provider r) (\<lambda>res w'. advances V w w' \<and>
        (\<forall>p. res = Inr p \<longrightarrow> starts_job V (pr_JobID p) w w')) w"
    "wlp (GetProvisionStatus provider r x) (\<lambda>_ w'. advances V w w') w"
    "wlp (TriggerDeprovision provider r js) (\<lambda>res w'. advances V w w' \<and>
        (\<forall>d. res = Inr d \<longrightarrow> dr_Action d = DeprovisionTriggered \<longrightarrow>
           starts_job V (dr_JobID d) w w' \<and> (wv_strict V \<longrightarrow> dr_BlockDeletionOnFailure d))) w"
    "wlp (GetDeprovisionStatus provider r x) (\<lambda>_ w'. advances V w w') w"
  using assms by (simp_all add: honest_def)

section \<open>The decision of EvaluateAction\<close>

lemma EvaluateAction_planned:
  "EvaluateAction st chk (r, w) =
     (let jobs = Jobs_get (State_Jobs st) r; latest = FindLatestJobByType jobs JobTypeProvision in
      case planned_action jobs (State_DesiredConfigVersion st) of
        Some a \<Rightarrow> Some ((a, latest), (r, w))
      | None \<Rightarrow>
          (case chk (r, w) of
             None \<Rightarrow> None
           | Some (running, s') \<Rightarrow>
               Some ((if running then (Requeue, None) else (Trigger, latest)), s')))"
  by (auto simp: EvaluateAction_def planned_action_def read_jobs_def HasJobID_def Let_def go_simps
        split: option.splits if_splits)

lemma planned_action_Skip: 
  "planned_action jobs desired = Some Skip \<longleftrightarrow>
     HasJobID (FindLatestJobByType jobs JobTypeProvision) \<and> IsConfigApplied jobs desired"
  by (auto simp: planned_action_def IsConfigApplied_def HasJobID_def IsTerminal_def split: option.splits)

lemma planned_action_None:
  "planned_action jobs desired = None \<Longrightarrow> FindLatestJobByType jobs JobTypeProvision = Some l \<Longrightarrow>
     JobID l = '''' \<or> IsTerminal (JobState l)"
  by (auto simp: planned_action_def split: option.splits if_splits)

lemma planned_action_latest:
  "planned_action jobs desired = Some a \<Longrightarrow> \<exists>l. FindLatestJobByType jobs JobTypeProvision = Some l"
  by (auto simp: planned_action_def split: option.splits)

section \<open>Preservation of the invariant\<close>

locale jobs_ref =
  fixes ref :: "'r JobsRef"
  assumes get_set [simp]: "Jobs_get ref (Jobs_set ref js r) = js"
begin

lemma update_latest_ok:
  assumes "system_ok mh ref V (r, w)" and "FindLatestJobByType (Jobs_get ref r) t = Some l"
    and "JobID u = JobID l" "JobType u = JobType l" "Timestamp u = Timestamp l"
    and "BlockDeletionOnFailure u = BlockDeletionOnFailure l" and "advances V w w'"
  shows "system_ok mh ref V (Jobs_set ref (fst (UpdateJob (Jobs_get ref r) u)) r, w')"
proof -
  have "history_ok mh (wv_now V w) (fst (UpdateJob (Jobs_get ref r) u))"
    using assms by (intro history_ok_update) (auto simp: system_ok_def)
  then have "history_ok mh (wv_now V w') (fst (UpdateJob (Jobs_get ref r) u))"
    using assms(7) by (auto simp: advances_def intro: history_ok_clock)
  moreover have "set (map JobID (fst (UpdateJob (Jobs_get ref r) u))) \<subseteq> wv_issued V w'"
    unfolding UpdateJob_ids using assms(1,7) by (auto simp: system_ok_def advances_def)
  moreover have "wv_strict V \<longrightarrow> all_blocking (fst (UpdateJob (Jobs_get ref r) u))"
    using assms FindLatestJobByType_Some [OF assms(2)]
    by (intro impI all_blocking_update) (auto simp: system_ok_def all_blocking_def)
  ultimately show ?thesis using assms(1,7) by (simp add: system_ok_def advances_def)
qed

lemma append_ok:
  assumes ok: "system_ok mh ref V (r, w)" and "0 < mh"
    and app: "AppendJob (Jobs_get ref r) j mh = Some js" and st: "starts_job V (JobID j) w w'"
    and adv: "advances V w w'" and t: "Timestamp j = wv_now V w'"
    and fin: "\<forall>l. FindLatestJobByType (Jobs_get ref r) (JobType j) = Some l \<longrightarrow> IsTerminal (JobState l)"
    and block: "wv_strict V \<longrightarrow> JobType j = JobTypeDeprovision \<longrightarrow> BlockDeletionOnFailure j"
  shows "system_ok mh ref V (Jobs_set ref js r, w')"
proof -
  have "JobID j \<notin> set (map JobID (Jobs_get ref r))"
    using ok st unfolding system_ok_def starts_job_def by auto
  then have "history_ok mh (wv_now V w') js"
    using ok st t
    by (intro history_ok_append [OF _ app \<open>0 < mh\<close> _ _ _ _ fin, where now = "wv_now V w"])
      (simp_all add: system_ok_def starts_job_def)
  moreover have "set (map JobID js) \<subseteq> set (map JobID (Jobs_get ref r)) \<union> {JobID j}"
  proof -
    obtain n where "js = drop n (Jobs_get ref r) @ [j]" using AppendJob_snoc [OF app \<open>0 < mh\<close>] by blast
    then show ?thesis using set_drop_subset [of n "Jobs_get ref r"] by auto
  qed
  moreover have "set (map JobID (Jobs_get ref r)) \<union> {JobID j} \<subseteq> wv_issued V w'"
    using ok st adv unfolding system_ok_def starts_job_def advances_def by auto
  moreover have "wv_strict V \<longrightarrow> all_blocking js"
    using ok app block by (auto simp: system_ok_def intro: all_blocking_append)
  moreover have "wv_inv V w'" using ok adv by (simp add: system_ok_def advances_def)
  ultimately show ?thesis unfolding system_ok_def fst_conv snd_conv get_set by blast
qed

lemma TriggerJob_ok:
  assumes ok: "system_ok mh ref V (r, w)" and "0 < mh" and "honest V provider"
    and st: "State_Jobs st = ref"
    and fin: "\<forall>l. FindLatestJobByType (Jobs_get ref r) JobTypeProvision = Some l \<longrightarrow> IsTerminal (JobState l)"
  shows "wlp (TriggerJob (wv_now V) provider st mh poll) (\<lambda>_. system_ok mh ref V) (r, w)"
  unfolding TriggerJob_def st wp_simps prod.case
proof (rule wlp_mono [OF honestD(1) [OF assms(3)]], goal_cases)
  case (1 res w')
  then have adv: "advances V w w'"
    and job: "\<And>p. res = Inr p \<Longrightarrow> starts_job V (pr_JobID p) w w'" by auto
  have frame: "system_ok mh ref V (r, w')"
    using ok adv by (rule system_ok_frame [OF _ refl])
  show ?case
    using frame job append_ok [OF ok \<open>0 < mh\<close> _ _ adv] fin
    by (auto simp: wp_simps provision_job_def split: sum.splits option.splits)
qed

lemma PollJob_ok:
  assumes ok: "system_ok mh ref V (r, w)" and "honest V provider"
    and st: "State_Jobs st = ref" and cb: "quiet_callbacks mh ref V callbacks"
    and l: "FindLatestJobByType (Jobs_get ref r) JobTypeProvision = Some l"
  shows "wlp (PollJob provider st l poll callbacks) (\<lambda>_. system_ok mh ref V) (r, w)"
proof -
  note upd = update_latest_ok [OF ok l]
  have fail: "wlp (call_opt (OnFailed c) m) (\<lambda>_. system_ok mh ref V) (r', w')"
    if "callbacks = Some c" "system_ok mh ref V (r', w')" for c m r' w'
    using cb that by (auto simp: call_opt_def quiet_callbacks_def wp_simps intro: quietD split: option.splits)
  have succ: "wlp (call_opt (OnSuccess c) p) (\<lambda>_. system_ok mh ref V) (r', w')"
    if "callbacks = Some c" "system_ok mh ref V (r', w')" for c p r' w'
    using cb that by (auto simp: call_opt_def quiet_callbacks_def wp_simps intro: quietD split: option.splits)
  have succ': "wlp (if IsSuccessful x then (case callbacks of None \<Rightarrow> ret () | Some c \<Rightarrow> call_opt (OnSuccess c) p)
      else ret ()) (\<lambda>_. system_ok mh ref V) s" if "system_ok mh ref V s" for x p s
    using that by (cases s) (auto simp: wp_simps succ split: option.splits)
  show ?thesis
    unfolding PollJob_def st wp_simps prod.case
  proof (rule wlp_mono [OF honestD(2) [OF assms(2)]], goal_cases)
    case (1 res w')
    then have adv: "advances V w w'" .
    have frame: "system_ok mh ref V (r, w')"
      using ok adv by (rule system_ok_frame [OF _ refl])
    note upd' = upd [OF _ _ _ _ adv]
    show ?case
    proof (cases res)
      case (Inl err)
      then show ?thesis by (simp add: wp_simps upd')
    next
      case (Inr p)
      have change: "wlp (if c then bnd (update_job ref (l\<lparr>JobState := x, Message := m\<rparr>)) (\<lambda>_.
            if x = JobStateFailed
            then (case callbacks of None \<Rightarrow> ret () | Some c \<Rightarrow> call_opt (OnFailed c) m)
            else ret ()) else ret ()) (\<lambda>_. system_ok mh ref V) (r, w')" for c x m
        using frame upd' fail by (auto simp: wp_simps split: option.splits)
      have finish: "wlp (if \<not> IsTerminal (ps_State p) then ret (requeue_after poll, None)
          else bnd (if IsSuccessful (ps_State p)
                 then (case callbacks of None \<Rightarrow> ret () | Some c \<Rightarrow> call_opt (OnSuccess c) p)
                 else ret ()) (\<lambda>_. ret (no_requeue, None))) (\<lambda>_. system_ok mh ref V) s"
        if "system_ok mh ref V s" for s
        using succ' [OF that, of "ps_State p" p] that by (auto simp: wp_simps)
      show ?thesis
        unfolding Inr sum.case by (rule wlp_bnd_inv [OF change]) (rule finish)
    qed
  qed
qed

lemma trigger_and_flush_ok:
  assumes "system_ok mh ref V (r, w)" and "0 < mh" and "honest V provider"
    and "State_Jobs st = ref" and flush: "\<forall>m. statusFlush = Some m \<longrightarrow> quiet mh ref V m"
    and "\<forall>l. FindLatestJobByType (Jobs_get ref r) JobTypeProvision = Some l \<longrightarrow> IsTerminal (JobState l)"
  shows "wlp (trigger_and_flush (wv_now V) provider st mh poll statusFlush) (\<lambda>_. system_ok mh ref V) (r, w)"
proof -
  note trig = TriggerJob_ok [OF assms(1-4,6), of poll]
  have fl: "wlp m (\<lambda>_. system_ok mh ref V) (r', w')"
    if "statusFlush = Some m" "system_ok mh ref V (r', w')" for m r' w'
    using flush that by (blast intro: quietD)
  show ?thesis
    unfolding trigger_and_flush_def assms(4) Let_def wlp_bnd [of "read_jobs ref"] wlp_read_jobs prod.case
    by (rule wlp_bnd_inv [OF trig]) (auto simp: wp_simps fl split: prod.split option.split)
qed

lemma wlp_EvaluateAction:
  "wlp (EvaluateAction st chk) Q (r, w) =
     (let jobs = Jobs_get (State_Jobs st) r; latest = FindLatestJobByType jobs JobTypeProvision in
      case planned_action jobs (State_DesiredConfigVersion st) of
        Some a \<Rightarrow> Q (a, latest) (r, w)
      | None \<Rightarrow> wlp chk (\<lambda>running. Q (if running then (Requeue, None) else (Trigger, latest))) (r, w))"
  by (simp add: wlp_def EvaluateAction_planned Let_def split: option.splits prod.splits)

lemma RunProvisioningLifecycle_ok:
  assumes ok: "system_ok mh ref V (r, w)" and pos: "0 < mh" and hon: "honest V provider"
    and st: "State_Jobs st = ref" and cb: "quiet_callbacks mh ref V callbacks"
    and chk: "quiet mh ref V checkAPIServer"
    and flush: "\<forall>m. statusFlush = Some m \<longrightarrow> quiet mh ref V m"
  shows "wlp (RunProvisioningLifecycle (wv_now V) provider st mh poll callbacks checkAPIServer statusFlush)
           (\<lambda>_. system_ok mh ref V) (r, w)"
proof -
  let ?jobs = "Jobs_get ref r"
  let ?latest = "FindLatestJobByType ?jobs JobTypeProvision"
  have trig: "wlp (trigger_and_flush (wv_now V) provider st mh poll statusFlush) (\<lambda>_. system_ok mh ref V) (r', w')"
    if "system_ok mh ref V (r', w')" "Jobs_get ref r' = ?jobs"
      and "\<forall>l. ?latest = Some l \<longrightarrow> IsTerminal (JobState l)" for r' w'
    using that by (intro trigger_and_flush_ok [OF _ pos hon st flush]) auto
  show ?thesis
  proof (cases "planned_action ?jobs (State_DesiredConfigVersion st)")
    case None
    have fin: "\<forall>l. ?latest = Some l \<longrightarrow> IsTerminal (JobState l)"
      using planned_action_None [OF None] system_ok_latest_id [OF ok] by blast
    have "wlp checkAPIServer (\<lambda>_ (r', w'). Jobs_get ref r' = ?jobs \<and> advances V w w') (r, w)"
      using chk ok unfolding quiet_def by blast
    then have "wlp checkAPIServer (\<lambda>_ (r', w'). system_ok mh ref V (r', w') \<and> Jobs_get ref r' = ?jobs) (r, w)"
      by (rule wlp_mono) (auto intro: system_ok_frame [OF ok])
    then show ?thesis
      unfolding RunProvisioningLifecycle_def wlp_bnd wlp_EvaluateAction st None Let_def option.case
      by (rule wlp_mono) (auto simp: wlp_ret trig [OF _ _ fin])
  next
    case (Some a)
    then obtain l where l: "?latest = Some l" by (auto dest: planned_action_latest)
    have "a = Backoff \<Longrightarrow> IsTerminal (JobState l)"
      using Some l by (auto simp: planned_action_def split: if_splits)
    then have "a = Backoff \<Longrightarrow> wlp (HandleBackoff (\<lambda>(r, w). wv_now V w) ?jobs (State_DesiredConfigVersion st) l
         (trigger_and_flush (wv_now V) provider st mh poll statusFlush)) (\<lambda>_. system_ok mh ref V) (r, w)"
      using ok l trig [OF ok refl] by (auto simp: HandleBackoff_def Let_def wp_simps)
    moreover have "a \<noteq> Trigger \<and> a \<noteq> Requeue"
      using Some by (auto simp: planned_action_def split: option.splits if_splits)
    ultimately show ?thesis
      using ok PollJob_ok [OF ok hon st cb l, of poll] Some l
      unfolding RunProvisioningLifecycle_def wlp_bnd wlp_EvaluateAction st
      by (cases a) (auto simp: wp_simps Let_def)
  qed
qed

subsection \<open>Deprovisioning\<close>

lemma updateProvisionJob_ok:
  assumes "system_ok mh ref V (r, w)"
  shows "wlp (updateProvisionJobFromDeprovisionResult ref d)
    (\<lambda>_ (r', w'). w' = w \<and> system_ok mh ref V (r', w) \<and>
       (\<forall>j \<in> set (Jobs_get ref r'). JobType j = JobTypeDeprovision \<longrightarrow> j \<in> set (Jobs_get ref r))) (r, w)"
proof -
  have "system_ok mh ref V (Jobs_set ref (fst (UpdateJob (Jobs_get ref r) u)) r, w) \<and>
      (\<forall>j \<in> set (fst (UpdateJob (Jobs_get ref r) u)). JobType j = JobTypeDeprovision \<longrightarrow> j \<in> set (Jobs_get ref r))"
    if l: "FindLatestJobByType (Jobs_get ref r) JobTypeProvision = Some l"
      and u: "u = l\<lparr>JobState := x, Message := m\<rparr>" for l u x m
    using update_latest_ok [OF assms l, of u w] set_UpdateJob_subset [of "Jobs_get ref r" u]
      FindLatestJobByType_Some [OF l] by (auto simp: u)
  with assms show ?thesis
    by (auto simp: updateProvisionJobFromDeprovisionResult_def wp_simps split: option.split)
qed

lemma TriggerDeprovisionJob_ok:
  assumes ok: "system_ok mh ref V (r, w)" and pos: "0 < mh" and hon: "honest V provider"
    and fin: "\<forall>l. FindLatestJobByType (Jobs_get ref r) JobTypeDeprovision = Some l \<longrightarrow> IsTerminal (JobState l)"
  shows "wlp (TriggerDeprovisionJob (wv_now V) provider ref mh poll) (\<lambda>_. system_ok mh ref V) (r, w)"
  unfolding TriggerDeprovisionJob_def wp_simps prod.case
proof (rule wlp_mono [OF honestD(3) [OF hon]], goal_cases)
  case (1 res w')
  then have adv: "advances V w w'"
    and job: "\<And>d. res = Inr d \<Longrightarrow> dr_Action d = DeprovisionTriggered \<Longrightarrow>
      starts_job V (dr_JobID d) w w' \<and> (wv_strict V \<longrightarrow> dr_BlockDeletionOnFailure d)"
    by auto
  have frame: "system_ok mh ref V (r, w')" using ok adv by (rule system_ok_frame [OF _ refl])
  have all: "IsTerminal (JobState j)" if "j \<in> set (Jobs_get ref r)" "JobType j = JobTypeDeprovision" for j
    using ok fin that
    by (intro older_terminal_all [of "Jobs_get ref r" JobTypeDeprovision]) (auto simp: system_ok_def history_ok_def)
  have upd_w': "wlp (updateProvisionJobFromDeprovisionResult ref d) (\<lambda>_. system_ok mh ref V) (r, w')" for d
    by (rule wlp_mono [OF updateProvisionJob_ok [OF frame]]) auto
  have upd: "wlp (updateProvisionJobFromDeprovisionResult ref d) (\<lambda>_ (r1, w1). w1 = w' \<and>
      system_ok mh ref V (r1, w) \<and>
      (\<forall>l. FindLatestJobByType (Jobs_get ref r1) JobTypeDeprovision = Some l \<longrightarrow> IsTerminal (JobState l))) (r, w')" for d
    using updateProvisionJob_ok [OF ok, of d] all
    by (auto simp: updateProvisionJobFromDeprovisionResult_def wp_simps dest!: FindLatestJobByType_Some split: option.splits)
  show ?case
  proof (cases res)
    case (Inr d)
    have "wlp (bnd (updateProvisionJobFromDeprovisionResult ref d) (\<lambda>_. bnd (read_clock (wv_now V)) (\<lambda>t.
        bnd (read_jobs ref) (\<lambda>jobs. case AppendJob jobs (deprovision_job d t) mh of None \<Rightarrow> panic
          | Some jobs' \<Rightarrow> bnd (write_jobs ref jobs') (\<lambda>_. ret (requeue_after poll, None))))))
        (\<lambda>_. system_ok mh ref V) (r, w')"
      if "dr_Action d = DeprovisionTriggered"
      unfolding wlp_bnd [of "updateProvisionJobFromDeprovisionResult ref d"]
      by (rule wlp_mono [OF upd])
        (use job [OF Inr that] append_ok [OF _ pos _ _ adv] in
           \<open>auto simp: wp_simps deprovision_job_def split: option.split\<close>)
    with Inr frame upd_w' show ?thesis
      by (auto simp: wlp_ret wlp_bnd [of "updateProvisionJobFromDeprovisionResult ref d"] split: DeprovisionAction.split)
  qed (use frame in \<open>auto simp: wp_simps split: option.split\<close>)
qed

lemma trigger_deprovision_post:
  assumes "system_ok mh ref V (r, w)" and "0 < mh" and "honest V provider"
    and "\<forall>l. FindLatestJobByType (Jobs_get ref r) JobTypeDeprovision = Some l \<longrightarrow> IsTerminal (JobState l)"
  shows "wlp (bnd (TriggerDeprovisionJob (wv_now V) provider ref mh poll) (\<lambda>(res, err). ret (res, False, err)))
           (deprov_post mh ref V) (r, w)"
  by (rule wlp_bnd_inv [OF TriggerDeprovisionJob_ok [OF assms]])
    (auto simp: wp_simps deprov_post_def split: prod.split)

lemma handleDeprovisionBackoff_ok:
  assumes ok: "system_ok mh ref V (r, w)" and "0 < mh" and "honest V provider"
    and "\<forall>l. FindLatestJobByType (Jobs_get ref r) JobTypeDeprovision = Some l \<longrightarrow> IsTerminal (JobState l)"
  shows "wlp (handleDeprovisionBackoff (wv_now V) provider ref l mh poll) (deprov_post mh ref V) (r, w)"
  using ok trigger_deprovision_post [OF assms, of poll]
  unfolding handleDeprovisionBackoff_def Let_def wlp_bnd [of "read_jobs ref"] wlp_bnd [of "read_clock (wv_now V)"]
  by (auto simp: wlp_read_jobs wlp_read_clock wlp_ret Let_def deprov_post_def)

lemma PollDeprovisionJob_ok:
  assumes ok: "system_ok mh ref V (r, w)" and pos: "0 < mh" and hon: "honest V provider"
    and l: "FindLatestJobByType (Jobs_get ref r) JobTypeDeprovision = Some l"
  shows "wlp (PollDeprovisionJob (wv_now V) provider ref l mh poll) (deprov_post mh ref V) (r, w)"
proof (cases "IsTerminal (JobState l)")
  case True
  with ok handleDeprovisionBackoff_ok [OF ok pos hon, of l poll] l show ?thesis
    by (auto simp: PollDeprovisionJob_def Let_def wp_simps deprov_post_def deprovisioned_def)
next
  case False
  have hist: "history_ok mh (wv_now V w) (Jobs_get ref r)" using ok by (simp add: system_ok_def)
  have upd: "system_ok mh ref V (Jobs_set ref (fst (UpdateJob (Jobs_get ref r) u)) r, w') \<and>
      FindLatestJobByType (fst (UpdateJob (Jobs_get ref r) u)) JobTypeDeprovision = Some u"
    if "u = l\<lparr>JobState := x, Message := m\<rparr>" "advances V w w'" for u x m w'
    using update_latest_ok [OF ok l, of u w'] FindLatestJobByType_update [OF hist l, of u] that by simp
  have upd_msg: "system_ok mh ref V (Jobs_set ref (fst (UpdateJob (Jobs_get ref r) (l\<lparr>Message := m\<rparr>))) r, w')"
    if "advances V w w'" for m w'
    using update_latest_ok [OF ok l, of "l\<lparr>Message := m\<rparr>" w'] that by simp
  have retry: "wlp (handleDeprovisionBackoff (wv_now V) provider ref l mh poll) (deprov_post mh ref V) (r', w')"
    if "system_ok mh ref V (r', w')" "IsTerminal x"
      "FindLatestJobByType (Jobs_get ref r') JobTypeDeprovision = Some (l\<lparr>JobState := x, Message := m\<rparr>)" for r' w' x m
    using that by (intro handleDeprovisionBackoff_ok pos hon) auto
  show ?thesis
    unfolding PollDeprovisionJob_def Let_def using False
  proof (simp only: if_False, unfold wp_simps prod.case, intro wlp_mono [OF honestD(4) [OF hon]], goal_cases)
    case (1 res w')
    then have adv: "advances V w w'" by simp
    have frame: "system_ok mh ref V (r, w')" using ok adv by (rule system_ok_frame [OF _ refl])
    from frame upd [OF refl adv] upd_msg [OF adv] False show ?case
      by (auto simp: wp_simps deprov_post_def deprovisioned_def split: sum.split intro: retry)
  qed
qed

lemma RunDeprovisioningLifecycle_ok:
  assumes ok: "system_ok mh ref V (r, w)" and pos: "0 < mh" and hon: "honest V provider"
  shows "wlp (RunDeprovisioningLifecycle (wv_now V) provider ref mh poll) (deprov_post mh ref V) (r, w)"
proof (cases "FindLatestJobByType (Jobs_get ref r) JobTypeDeprovision")
  case None
  then show ?thesis
    using trigger_deprovision_post [OF ok pos hon, of poll]
    by (simp add: RunDeprovisioningLifecycle_def wlp_bnd [of "read_jobs ref"] wlp_read_jobs)
next
  case (Some l)
  then show ?thesis
    using PollDeprovisionJob_ok [OF ok pos hon Some] system_ok_latest_id [OF ok Some]
    by (simp add: RunDeprovisioningLifecycle_def wlp_bnd [of "read_jobs ref"] wlp_read_jobs HasJobID_def)
qed

end

section \<open>Providers that insist on a successful deprovisioning\<close>

text \<open>
  The contract of a provider that never skips deprovisioning, never asks to wait because of a rate
  limit, and wants deletion blocked when its job fails. Its clients: a deletion is never let through
  early, because every unfinished step asks for another reconciliation.
\<close>

locale blocking_deprovisioning = jobs_ref ref for ref :: "'r JobsRef" +
  fixes provider :: "('r, 'w) ProvisioningProvider"
  assumes insists: "wlp (TriggerDeprovision provider r js)
    (\<lambda>res w'. (\<forall>e. res = Inl e \<longrightarrow> AsRateLimitError e = None) \<and>
       (\<forall>d. res = Inr d \<longrightarrow> dr_Action d \<noteq> DeprovisionSkipped \<and> dr_BlockDeletionOnFailure d)) w"
begin

lemma updateProvisionJob_blocking:
  assumes "all_blocking (Jobs_get ref r)"
  shows "wlp (updateProvisionJobFromDeprovisionResult ref d) (\<lambda>_ s. all_blocking (Jobs_get ref (fst s))) (r, w)"
  using assms all_blocking_update
  by (auto simp: updateProvisionJobFromDeprovisionResult_def wp_simps dest: FindLatestJobByType_Some split: option.split)

lemma TriggerDeprovisionJob_waits:
  assumes block: "all_blocking (Jobs_get ref r)" and poll: "0 < poll"
  shows "wlp (bnd (TriggerDeprovisionJob now provider ref mh poll) (\<lambda>(res, err). ret (res, False, err)))
           (waits_post ref) (r, w)"
proof -
  have app: "all_blocking js" if "all_blocking jobs" "AppendJob jobs (deprovision_job d t) mh = Some js"
    "dr_BlockDeletionOnFailure d" for jobs js d t
    using set_AppendJob_subset [OF that(2)] that(1,3) by (auto simp: all_blocking_def deprovision_job_def)
  have fin: "wlp (bnd (read_clock now) (\<lambda>t. bnd (read_jobs ref) (\<lambda>jobs.
        case AppendJob jobs (deprovision_job d t) mh of None \<Rightarrow> panic
        | Some jobs' \<Rightarrow> bnd (write_jobs ref jobs') (\<lambda>_. ret (requeue_after poll, None)))))
      (\<lambda>(res, err). waits_post ref (res, False, err)) s"
    if "all_blocking (Jobs_get ref (fst s))" "dr_BlockDeletionOnFailure d" for d s
    using app that poll by (cases s) (auto simp: wp_simps waits_post_def split: option.split)
  have out: "wlp (TriggerDeprovisionJob now provider ref mh poll) (\<lambda>(res, err). waits_post ref (res, False, err)) (r, w)"
    unfolding TriggerDeprovisionJob_def wlp_bnd [of get_res] wlp_bnd [of "on_world _"] wlp_get_res wlp_on_world prod.case
  proof (rule wlp_mono [OF insists], goal_cases)
    case (1 res w')
    have waiting: "wlp (updateProvisionJobFromDeprovisionResult ref d)
        (\<lambda>_ s. waits_post ref (requeue_after poll, False, None) s) (r, w')" for d
      by (rule wlp_mono [OF updateProvisionJob_blocking [OF block]]) (simp add: waits_post_def poll)
    have started: "wlp (updateProvisionJobFromDeprovisionResult ref d)
        (\<lambda>_. wlp (bnd (read_clock now) (\<lambda>t. bnd (read_jobs ref) (\<lambda>jobs.
          case AppendJob jobs (deprovision_job d t) mh of None \<Rightarrow> panic
          | Some jobs' \<Rightarrow> bnd (write_jobs ref jobs') (\<lambda>_. ret (requeue_after poll, None)))))
        (\<lambda>(res, err). waits_post ref (res, False, err))) (r, w')" if "dr_BlockDeletionOnFailure d" for d
      by (rule wlp_mono [OF updateProvisionJob_blocking [OF block]]) (rule fin [OF _ that])
    have failed: "waits_post ref (no_requeue, False, Some e) (r, w')" for e
      using block by (simp add: waits_post_def)
    from 1 waiting started failed show ?case
      by (auto simp: wlp_ret wlp_bnd [of "updateProvisionJobFromDeprovisionResult ref _"]
            split: sum.split option.split DeprovisionAction.split)
  qed
  show ?thesis
    unfolding wlp_bnd by (rule wlp_mono [OF out]) (auto simp: wlp_ret)
qed

lemma backoff_remaining_pos:
  assumes "Timestamp l \<le> t" and "time_Sub t (Timestamp l) < computeBackoffFromFailedJobs jobs m"
  shows "0 < wrap64 (computeBackoffFromFailedJobs jobs m - time_Sub t (Timestamp l))"
proof -
  have "0 \<le> time_Sub t (Timestamp l)"
    using assms(1) by (simp add: time_Sub_def sat64_def max_int64_def min_int64_def)
  moreover have "computeBackoffFromFailedJobs jobs m \<le> 30 * Minute"
    using computeBackoff_bounds [of jobs m] by (simp add: BackoffMaxDelay_def)
  ultimately have "wrap64 (computeBackoffFromFailedJobs jobs m - time_Sub t (Timestamp l)) =
      computeBackoffFromFailedJobs jobs m - time_Sub t (Timestamp l)"
    using assms(2) by (intro wrap64_id) (auto simp: min_int64_def max_int64_def)
  with assms(2) show ?thesis by simp
qed

lemma handleDeprovisionBackoff_waits:
  assumes "all_blocking (Jobs_get ref r)" and "0 < poll" and "Timestamp l \<le> now w"
  shows "wlp (handleDeprovisionBackoff now provider ref l mh poll) (waits_post ref) (r, w)"
  using TriggerDeprovisionJob_waits [OF assms(1,2)] assms(1) backoff_remaining_pos [OF assms(3)]
  unfolding handleDeprovisionBackoff_def Let_def wlp_bnd [of "read_jobs ref"] wlp_bnd [of "read_clock now"]
    ComputeDeprovisionBackoff_def
  by (auto simp: wlp_read_jobs wlp_read_clock wlp_ret waits_post_def)

lemma RunDeprovisioningLifecycle_waits:
  assumes past: "\<forall>j \<in> set (Jobs_get ref r). Timestamp j \<le> now w" and block: "all_blocking (Jobs_get ref r)"
    and poll: "0 < poll" and clock: "\<And>r x w. wlp (GetDeprovisionStatus provider r x) (\<lambda>_ w'. now w \<le> now w') w"
  shows "wlp (RunDeprovisioningLifecycle now provider ref mh poll) (waits_post ref) (r, w)"
proof (cases "FindLatestJobByType (Jobs_get ref r) JobTypeDeprovision")
  case None
  with TriggerDeprovisionJob_waits [OF block poll] show ?thesis
    by (simp add: RunDeprovisioningLifecycle_def wlp_bnd [of "read_jobs ref"] wlp_read_jobs)
next
  case (Some l)
  note lm = FindLatestJobByType_Some [OF Some]
  have ts: "Timestamp l \<le> now w" using past lm by auto
  have bl: "BlockDeletionOnFailure l" using block lm by (auto simp: all_blocking_def)
  have upd: "all_blocking (fst (UpdateJob (Jobs_get ref r) u))"
    if "BlockDeletionOnFailure u = BlockDeletionOnFailure l" for u
    using that bl by (intro all_blocking_update [OF block]) simp
  have "wlp (PollDeprovisionJob now provider ref l mh poll) (waits_post ref) (r, w)"
  proof (cases "IsTerminal (JobState l)")
    case True
    with handleDeprovisionBackoff_waits [where now = now, OF block poll ts] block show ?thesis
      by (auto simp: PollDeprovisionJob_def Let_def wlp_ret waits_post_def)
  next
    case False
    then show ?thesis
      unfolding PollDeprovisionJob_def Let_def
    proof (simp only: if_False, unfold wp_simps prod.case, intro wlp_mono [OF clock], goal_cases)
      case (1 res w')
      then have "Timestamp l \<le> now w'" using ts by simp
      note retry = handleDeprovisionBackoff_waits [where now = now, OF _ poll this]
      show ?case
        using block poll upd retry by (auto simp: wp_simps waits_post_def split: sum.split)
    qed
  qed
  with Some TriggerDeprovisionJob_waits [OF block poll] show ?thesis
    by (simp add: RunDeprovisioningLifecycle_def wlp_bnd [of "read_jobs ref"] wlp_read_jobs)
qed

end

section \<open>Calls that return\<close>

text \<open>
  A program returns when it does not panic. Where the libraries, the provider and the callbacks return
  and the bound on the history is positive, so do the lifecycle functions.
\<close>

lemma wp_total: "wp m (\<lambda>_ _. True) s \<longleftrightarrow> m s \<noteq> None"
  by (simp add: wp_def split: option.splits)

lemma returns_wp: "returns m \<Longrightarrow> (\<And>x s'. Q x s') \<Longrightarrow> wp m Q s"
  by (auto simp: returns_def wp_def split: option.split)

lemma returns_iff: "returns m \<longleftrightarrow> (\<forall>s. wp m (\<lambda>_ _. True) s)"
  by (simp add: returns_def wp_total)

lemma returnsD: "returns m \<Longrightarrow> \<exists>x s'. m s = Some (x, s')"
  unfolding returns_def by (metis not_Some_eq surj_pair)

lemma returns_ret [simp]: "returns (ret x)"
  by (simp add: returns_def ret_def)

lemma returns_bnd [intro]: "returns m \<Longrightarrow> (\<And>x. returns (f x)) \<Longrightarrow> returns (bnd m f)"
  by (auto simp: returns_def bnd_def split: option.splits)

lemma returns_basic [simp]:
  "returns get_res" "returns (read_jobs ref)" "returns (write_jobs ref js)" "returns (update_job ref u)"
  "returns (read_clock now)" "returns (gets g)"
  by (auto simp: returns_iff wp_simps)

lemma returns_on_world [simp]: "returns m \<Longrightarrow> returns (on_world m)"
  by (auto simp: returns_def on_world_def split: option.splits)

lemma AppendJob_latest:
  assumes "AppendJob jobs j maxHistory = Some js" and "0 < maxHistory"
  shows "FindLatestJobByType js (JobType j) \<noteq> None"
  using AppendJob_snoc [OF assms] by (auto simp: FindLatestJobByType_None)

lemma returns_append:
  assumes "0 < maxHistory" and "\<And>js. FindLatestJobByType js (JobType j) \<noteq> None \<Longrightarrow> returns (f js)"
  shows "returns (case AppendJob jobs j maxHistory of None \<Rightarrow> panic | Some js \<Rightarrow> f js)"
  using AppendJob_total [of maxHistory jobs j] AppendJob_latest [of jobs j maxHistory] assms by auto

lemma TriggerJob_returns:
  assumes "0 < maxHistory" and "\<And>x. returns (TriggerProvision provider x)"
  shows "returns (TriggerJob now provider st maxHistory poll)"
  unfolding TriggerJob_def
  by (rule returns_bnd, simp, rule returns_bnd, simp add: assms(2))
    (auto simp: provision_job_def split: sum.split option.split
       intro!: returns_append [OF assms(1)] returns_bnd)

lemma PollJob_returns:
  assumes "\<And>x y. returns (GetProvisionStatus provider x y)" and "callbacks_return callbacks"
  shows "returns (PollJob provider st l poll callbacks)"
proof -
  have "returns (case callbacks of None \<Rightarrow> ret () | Some cb \<Rightarrow> call_opt (OnFailed cb) m)"
    and "returns (case callbacks of None \<Rightarrow> ret () | Some cb \<Rightarrow> call_opt (OnSuccess cb) p)" for m p
    using assms(2) by (simp_all add: callbacks_return_def call_opt_def split: option.split)
  then show ?thesis
    unfolding PollJob_def
    by (intro returns_bnd) (simp_all add: assms(1) returns_bnd split: sum.split)
qed

lemma trigger_and_flush_returns:
  assumes "0 < maxHistory" and "\<And>x. returns (TriggerProvision provider x)"
    and "\<And>m. statusFlush = Some m \<Longrightarrow> returns m"
  shows "returns (trigger_and_flush now provider st maxHistory poll statusFlush)"
  unfolding trigger_and_flush_def Let_def
  by (rule returns_bnd, simp, rule returns_bnd, rule TriggerJob_returns [OF assms(1,2)])
    (auto split: prod.split option.split intro!: returns_bnd assms(3))

lemma TriggerDeprovisionJob_returns:
  assumes "0 < maxHistory" and "\<And>x js. returns (TriggerDeprovision provider x js)"
  shows "returns (TriggerDeprovisionJob now provider ref maxHistory poll)"
proof -
  have upd: "returns (updateProvisionJobFromDeprovisionResult ref d)" for d
    by (auto simp: updateProvisionJobFromDeprovisionResult_def split: option.split intro!: returns_bnd)
  show ?thesis
    unfolding TriggerDeprovisionJob_def
    by (rule returns_bnd, simp, rule returns_bnd, simp add: assms(2))
      (auto split: sum.split option.split DeprovisionAction.split
         intro!: returns_append [OF assms(1)] returns_bnd upd)
qed

lemma handleDeprovisionBackoff_returns:
  assumes "0 < maxHistory" and "\<And>x js. returns (TriggerDeprovision provider x js)"
  shows "returns (handleDeprovisionBackoff now provider ref l maxHistory poll)"
  unfolding handleDeprovisionBackoff_def Let_def
  by (auto intro!: returns_bnd TriggerDeprovisionJob_returns assms split: prod.split)

end
