(* ===== verification/Config_Version.thy ===== *)
theory Config_Version
  imports Prelude
begin

text \<open>
  The configuration version of a resource (\<^verbatim>\<open>ComputeDesiredConfigVersion\<close> of
  \<^verbatim>\<open>pkg/provisioning/provision_lifecycle.go\<close>): the JSON text of the spec, as \<^verbatim>\<open>encoding/json\<close> prints
  it, hashed with 64-bit FNV-1a and written as sixteen hexadecimal digits. JSON values are a
  datatype whose objects keep the order of their fields; strings are byte strings holding UTF-8.

  The lemmas: the version always has sixteen digits, so it is never the empty version of a legacy
  job, and texts that differ in one byte have different versions.
\<close>

unbundle bit_operations_syntax

section \<open>JSON\<close>

datatype json =
    JNull
  | JBool bool
  | JNum int
  | JFrac string
  | JStr string
  | JArr "json list"
  | JObj "(string \<times> json) list"

definition json_u00 :: "nat \<Rightarrow> string" where
  "json_u00 n = [char_of (92::nat)] @ ''u00'' @ [hex_digit (n div 16), hex_digit (n mod 16)]"

text \<open>The escapes of \<^verbatim>\<open>json.Marshal\<close>, with HTML escaping on, as it is by default.\<close>

definition json_escape_char :: "char \<Rightarrow> string" where
  "json_escape_char c =
     (let n = (of_char c :: nat) in
      if n = 34 \<or> n = 92 then [char_of (92::nat), c]
      else if n = 8 then [char_of (92::nat), CHR ''b'']
      else if n = 9 then [char_of (92::nat), CHR ''t'']
      else if n = 10 then [char_of (92::nat), CHR ''n'']
      else if n = 12 then [char_of (92::nat), CHR ''f'']
      else if n = 13 then [char_of (92::nat), CHR ''r'']
      else if n < 32 \<or> n = 60 \<or> n = 62 \<or> n = 38 then json_u00 n
      else [c])"

fun json_escape :: "string \<Rightarrow> string" where
  "json_escape (a # b # c # s) =
     (if (of_char a :: nat) = 226 \<and> (of_char b :: nat) = 128 \<and> (of_char c :: nat) = 168 then
        [char_of (92::nat)] @ ''u2028'' @ json_escape s
      else if (of_char a :: nat) = 226 \<and> (of_char b :: nat) = 128 \<and> (of_char c :: nat) = 169 then
        [char_of (92::nat)] @ ''u2029'' @ json_escape s
      else json_escape_char a @ json_escape (b # c # s))"
| "json_escape (a # s) = json_escape_char a @ json_escape s"
| "json_escape [] = []"

definition json_string :: "string \<Rightarrow> string" where
  "json_string s = [char_of (34::nat)] @ json_escape s @ [char_of (34::nat)]"

fun join_with :: "string \<Rightarrow> string list \<Rightarrow> string" where
  "join_with sep [] = []"
| "join_with sep [x] = x"
| "join_with sep (x # y # xs) = x @ sep @ join_with sep (y # xs)"

fun json_Marshal :: "json \<Rightarrow> string" where
  "json_Marshal JNull = ''null''"
| "json_Marshal (JBool b) = (if b then ''true'' else ''false'')"
| "json_Marshal (JNum i) = Itoa i"
| "json_Marshal (JFrac s) = s"
| "json_Marshal (JStr s) = json_string s"
| "json_Marshal (JArr js) = ''['' @ join_with '','' (map json_Marshal js) @ '']''"
| "json_Marshal (JObj kvs) =
     ''{'' @ join_with '','' (map (\<lambda>(k, v). json_string k @ '':'' @ json_Marshal v) kvs) @ ''}''"

text \<open>Fields of a struct: \<open>omitempty\<close> leaves out empty strings, empty slices and nil pointers.\<close>

definition field :: "string \<Rightarrow> json \<Rightarrow> (string \<times> json) list" where
  "field k v = [(k, v)]"

definition omitempty_string :: "string \<Rightarrow> string \<Rightarrow> (string \<times> json) list" where
  "omitempty_string k s = (if s = '''' then [] else [(k, JStr s)])"

definition omitempty_ptr :: "string \<Rightarrow> json option \<Rightarrow> (string \<times> json) list" where
  "omitempty_ptr k p = (case p of None \<Rightarrow> [] | Some v \<Rightarrow> [(k, v)])"

definition omitempty_list :: "string \<Rightarrow> json list \<Rightarrow> (string \<times> json) list" where
  "omitempty_list k xs = (if xs = [] then [] else [(k, JArr xs)])"

section \<open>The hash\<close>

type_synonym byte = "8 word"

definition string_bytes :: "string \<Rightarrow> byte list" where
  "string_bytes s = map (\<lambda>c. word_of_nat (of_char c)) s"

definition fnv_offset64 :: "64 word" where
  "fnv_offset64 = 14695981039346656037"

definition fnv_prime64 :: "64 word" where
  "fnv_prime64 = 1099511628211"

definition fnv_step :: "64 word \<Rightarrow> byte \<Rightarrow> 64 word" where
  "fnv_step h b = (h XOR ucast b) * fnv_prime64"

definition fnv64a :: "byte list \<Rightarrow> 64 word" where
  "fnv64a bs = foldl fnv_step fnv_offset64 bs"

text \<open>\<^verbatim>\<open>Sum(nil)\<close>: the hash as eight bytes, the most significant first.\<close>

definition fnv_sum :: "64 word \<Rightarrow> byte list" where
  "fnv_sum h = map (\<lambda>i. ucast (drop_bit (8 * i) h)) [7, 6, 5, 4, 3, 2, 1, 0]"

definition hex_EncodeToString :: "byte list \<Rightarrow> string" where
  "hex_EncodeToString bs = concat (map (\<lambda>b. [hex_digit (unat b div 16), hex_digit (unat b mod 16)]) bs)"

text \<open>The argument is what \<^verbatim>\<open>json.Marshal\<close> returns for the spec.\<close>

definition ComputeDesiredConfigVersion :: "gerror + string \<Rightarrow> gerror + string" where
  "ComputeDesiredConfigVersion specJSON =
     (case specJSON of
        Inl err \<Rightarrow> Inl (Wrapf ''failed to marshal spec to JSON: %w'' [] err)
      | Inr text \<Rightarrow> Inr (hex_EncodeToString (fnv_sum (fnv64a (string_bytes text)))))"

section \<open>Lemmas\<close>

lemma length_concat_pairs: "length (concat (map (\<lambda>b. [f b, g b]) bs)) = 2 * length bs"
  by (induction bs) auto

lemma length_version: "ComputeDesiredConfigVersion j = Inr v \<Longrightarrow> length v = 16"
  by (auto simp: ComputeDesiredConfigVersion_def hex_EncodeToString_def fnv_sum_def split: sum.splits)

lemma version_nonempty: "ComputeDesiredConfigVersion j = Inr v \<Longrightarrow> v \<noteq> ''''"
  by (drule length_version) auto

lemma fnv_prime64_inverse: "fnv_prime64 * 14886173955864302971 = 1"
  by (simp add: fnv_prime64_def)

lemma fnv_prime64_mult_inj: "a * fnv_prime64 = b * fnv_prime64 \<Longrightarrow> a = b"
proof -
  assume "a * fnv_prime64 = b * fnv_prime64"
  then have "a * fnv_prime64 * 14886173955864302971 = b * fnv_prime64 * 14886173955864302971"
    by (rule arg_cong)
  then show "a = b" by (simp only: mult.assoc fnv_prime64_inverse mult_1_right)
qed

lemma xor_cancel_right: "(a :: 64 word) XOR x = b XOR x \<Longrightarrow> a = b"
proof -
  assume "a XOR x = b XOR x"
  then have "(a XOR x) XOR x = (b XOR x) XOR x" by (rule arg_cong)
  then show "a = b" by (simp only: xor.assoc xor_self_eq xor.right_neutral)
qed

lemma fnv_step_inj_hash: "fnv_step h b = fnv_step h' b \<Longrightarrow> h = h'"
  unfolding fnv_step_def by (drule fnv_prime64_mult_inj) (rule xor_cancel_right)

lemma fnv_step_inj_byte:
  assumes "fnv_step h b = fnv_step h b'"
  shows "b = b'"
proof -
  have "h XOR ucast b = h XOR (ucast b' :: 64 word)"
    using assms unfolding fnv_step_def by (rule fnv_prime64_mult_inj)
  then have "(ucast b :: 64 word) = ucast b'"
    by (simp only: xor.commute [of h]) (rule xor_cancel_right)
  then have eq: "bit (ucast b :: 64 word) n = bit (ucast b' :: 64 word) n" for n by simp
  show ?thesis
  proof (rule bit_word_eqI)
    fix n
    assume "n < LENGTH(8)"
    then show "bit b n = bit b' n" using eq [of n] by (simp add: bit_ucast_iff)
  qed
qed

lemma foldl_fnv_inj: "foldl fnv_step h bs = foldl fnv_step h' bs \<Longrightarrow> h = h'"
proof (induction bs arbitrary: h h')
  case (Cons b bs)
  then have "fnv_step h b = fnv_step h' b" by simp
  then show ?case by (rule fnv_step_inj_hash)
qed simp

lemma fnv64a_one_byte: "fnv64a (xs @ [b] @ ys) = fnv64a (xs @ [b'] @ ys) \<longleftrightarrow> b = b'"
  by (auto simp: fnv64a_def dest!: foldl_fnv_inj fnv_step_inj_byte)

lemma hex_digit_inj: "d < 16 \<Longrightarrow> e < 16 \<Longrightarrow> hex_digit d = hex_digit e \<Longrightarrow> d = e"
  by (auto simp: hex_digit_def take_bit_nat_eq_self dest!: arg_cong [where f = "of_char :: char \<Rightarrow> nat"]
        split: if_splits)

lemma hex_byte_inj:
  fixes b b' :: byte
  assumes "hex_digit (unat b div 16) = hex_digit (unat b' div 16)"
    and "hex_digit (unat b mod 16) = hex_digit (unat b' mod 16)"
  shows "b = b'"
proof -
  have "unat b < 2 ^ LENGTH(8)" "unat b' < 2 ^ LENGTH(8)" by (rule unsigned_less)+
  then have "unat b < 256" "unat b' < 256" by simp_all
  then have "unat b div 16 = unat b' div 16" and "unat b mod 16 = unat b' mod 16"
    using assms hex_digit_inj [of "unat b div 16" "unat b' div 16"]
      hex_digit_inj [of "unat b mod 16" "unat b' mod 16"] by auto
  then have "unat b = unat b'" by (metis div_mult_mod_eq)
  then show ?thesis by (rule unsigned_word_eqI)
qed

lemma hex_EncodeToString_inj: "hex_EncodeToString bs = hex_EncodeToString bs' \<Longrightarrow> bs = bs'"
proof (induction bs arbitrary: bs')
  case Nil
  then show ?case by (cases bs') (auto simp: hex_EncodeToString_def)
next
  case (Cons b bs)
  then obtain c cs where "bs' = c # cs" by (cases bs') (auto simp: hex_EncodeToString_def)
  with Cons show ?case by (auto simp: hex_EncodeToString_def intro: hex_byte_inj)
qed

lemma fnv_sum_inj:
  assumes "fnv_sum h = fnv_sum h'"
  shows "h = h'"
proof (rule bit_word_eqI)
  fix n
  assume "n < LENGTH(64)"
  then have n: "n < 64" by simp
  have "(ucast (drop_bit (8 * i) h) :: byte) = ucast (drop_bit (8 * i) h')"
    if "i \<in> set [7, 6, 5, 4, 3, 2, 1, 0]" for i :: nat
    using assms that by (auto simp: fnv_sum_def)
  moreover have "n div 8 \<in> set [7, 6, 5, 4, 3, 2, 1, 0]"
  proof -
    have "n div 8 < 8" using n by arith
    then have "n div 8 = 7 \<or> n div 8 = 6 \<or> n div 8 = 5 \<or> n div 8 = 4 \<or> n div 8 = 3 \<or>
        n div 8 = 2 \<or> n div 8 = 1 \<or> n div 8 = 0" by linarith
    then show ?thesis by (simp only: set_simps insert_iff empty_iff simp_thms)
  qed
  ultimately have "bit (ucast (drop_bit (8 * (n div 8)) h) :: byte) (n mod 8) =
      bit (ucast (drop_bit (8 * (n div 8)) h') :: byte) (n mod 8)" by metis
  then show "bit h n = bit h' n"
  proof -
    have m: "n mod 8 < LENGTH(8)" by simp
    assume "bit (ucast (drop_bit (8 * (n div 8)) h) :: byte) (n mod 8) =
      bit (ucast (drop_bit (8 * (n div 8)) h') :: byte) (n mod 8)"
    with m show ?thesis
      unfolding bit_ucast_iff bit_drop_bit_eq comp_def mult_div_mod_eq by blast
  qed
qed

lemma version_text_inj:
  assumes "fnv64a (string_bytes s) \<noteq> fnv64a (string_bytes t)"
  shows "ComputeDesiredConfigVersion (Inr s) \<noteq> ComputeDesiredConfigVersion (Inr t)"
  using assms hex_EncodeToString_inj fnv_sum_inj by (fastforce simp: ComputeDesiredConfigVersion_def)

lemma word_of_char_inj: "(word_of_nat (of_char c) :: byte) = word_of_nat (of_char d) \<longleftrightarrow> c = d"
proof
  assume "(word_of_nat (of_char c) :: byte) = word_of_nat (of_char d)"
  then have "unat (word_of_nat (of_char c) :: byte) = unat (word_of_nat (of_char d) :: byte)" by simp
  then have "(of_char c :: nat) mod 256 = of_char d mod 256" by (simp add: unat_of_nat)
  then show "c = d" by (simp add: of_char_mod_256)
qed simp

lemma hex_digit_range: "d < 16 \<Longrightarrow> hex_digit d \<in> set ''0123456789abcdef''"
proof -
  have "\<forall>d \<in> set [0..<16]. hex_digit d \<in> set ''0123456789abcdef''" by code_simp
  moreover assume "d < 16"
  ultimately show ?thesis by auto
qed

lemma set_hex_EncodeToString: "set (hex_EncodeToString bs) \<subseteq> set ''0123456789abcdef''"
proof -
  have "hex_digit (unat b div 16) \<in> set ''0123456789abcdef'' \<and> hex_digit (unat b mod 16) \<in> set ''0123456789abcdef''"
    for b :: byte
  proof -
    have "unat b < 2 ^ LENGTH(8)" by (rule unsigned_less)
    then show ?thesis by (intro conjI hex_digit_range) simp_all
  qed
  then show ?thesis unfolding hex_EncodeToString_def by auto
qed

section \<open>Properties\<close>

text \<open>
  The version of a spec that can be serialized is a text of sixteen lower-case hexadecimal digits,
  in particular never the empty text that stands for an unknown version in a job.
\<close>

theorem version_format:
  "\<exists>v. ComputeDesiredConfigVersion (Inr s) = Inr v \<and> length v = 16 \<and> set v \<subseteq> set ''0123456789abcdef''"
  using length_version [of "Inr s"] set_hex_EncodeToString
  by (simp add: ComputeDesiredConfigVersion_def)

text \<open>
  A spec whose serialized form differs in a single byte gets another version.
\<close>

theorem version_detects_byte_change:
  "ComputeDesiredConfigVersion (Inr (xs @ [c] @ ys)) = ComputeDesiredConfigVersion (Inr (xs @ [d] @ ys)) \<longleftrightarrow> c = d"
proof
  assume eq: "ComputeDesiredConfigVersion (Inr (xs @ [c] @ ys)) = ComputeDesiredConfigVersion (Inr (xs @ [d] @ ys))"
  have "fnv64a (string_bytes (xs @ [c] @ ys)) = fnv64a (string_bytes (xs @ [d] @ ys))"
    using eq version_text_inj by blast
  then show "c = d"
    using fnv64a_one_byte [of "string_bytes xs" "word_of_nat (of_char c)" "string_bytes ys" "word_of_nat (of_char d)"]
    by (simp add: string_bytes_def word_of_char_inj)
qed simp

end
