(* ===== verification/Kube.thy ===== *)
theory Kube
  imports Lifecycle_Laws Config_Version
begin

text \<open>
  What the reconcilers of \<^verbatim>\<open>internal/controller\<close> share. The data: object metadata, conditions, phases and
  the common part of the networking kinds' status (\<^verbatim>\<open>api/v1alpha1\<close>). The libraries they call, which
  are parameters: the helpers of controller-runtime, apimachinery and client-go (\<open>k8s\<close>) and the typed
  clients of the API server (\<open>kclient\<close>). The code that every networking controller repeats word for
  word: the frame of \<^verbatim>\<open>Reconcile\<close>, \<^verbatim>\<open>updateStatusWithRetry\<close>, \<^verbatim>\<open>handleDeprovisioning\<close>, the beginning of
  \<^verbatim>\<open>handleDelete\<close>, the call of the provisioning lifecycle and the defaults of the constructors.

  The state of a handler is the object it holds in memory together with the world. A client's
  \<^verbatim>\<open>Update\<close> writes the server's answer into the object it was given; on an error the object stays.
\<close>

section \<open>Objects\<close>

type_synonym ObjectKey = "string \<times> string"

record ObjectMeta =
  Name :: string
  Namespace :: string
  Labels :: "string \<rightharpoonup> string"
  Annotations :: "string \<rightharpoonup> string"
  Finalizers :: "string list"
  DeletionTimestamp :: "instant option"

record Condition =
  cond_Type :: string
  cond_Status :: string
  cond_Reason :: string
  cond_Message :: string
  cond_LastTransitionTime :: "instant option"

text \<open>\<^verbatim>\<open>PhaseUnset\<close> is the empty string; the constructors in the second line are phases of compute instances only.\<close>

datatype Phase = PhaseUnset | PhaseProgressing | PhaseFailed | PhaseReady | PhaseDeleting
  | PhaseStarting | PhaseRunning | PhaseStopping | PhaseStopped | PhasePaused

record net_status =
  Phase :: Phase
  DesiredConfigVersion :: string
  ProvisioningJobs :: "JobStatus list"
  Conditions :: "Condition list"

record ('sp, 'st) resource =
  Meta :: ObjectMeta
  Spec :: 'sp
  Status :: 'st

type_synonym ('sp, 'm) net_resource = "('sp, 'm net_status_scheme) resource"

definition ObjectKeyFromObject :: "('sp, 'st) resource \<Rightarrow> ObjectKey" where
  "ObjectKeyFromObject obj = (Namespace (Meta obj), Name (Meta obj))"

text \<open>Reading a Go map of strings: a missing key gives the empty string.\<close>

definition lookup_string :: "(string \<rightharpoonup> string) \<Rightarrow> string \<Rightarrow> string" where
  "lookup_string m k = (case m k of None \<Rightarrow> '''' | Some v \<Rightarrow> v)"

definition set_annotation :: "string \<Rightarrow> string \<Rightarrow> ('sp, 'st) resource \<Rightarrow> ('sp, 'st) resource" where
  "set_annotation k v obj =
     obj\<lparr>Meta := (Meta obj)\<lparr>Annotations := (Annotations (Meta obj))(k \<mapsto> v)\<rparr>\<rparr>"

definition set_finalizers :: "string list \<Rightarrow> ('sp, 'st) resource \<Rightarrow> ('sp, 'st) resource" where
  "set_finalizers fs obj = obj\<lparr>Meta := (Meta obj)\<lparr>Finalizers := fs\<rparr>\<rparr>"

definition map_status :: "('st \<Rightarrow> 'st) \<Rightarrow> ('sp, 'st) resource \<Rightarrow> ('sp, 'st) resource" where
  "map_status f obj = obj\<lparr>Status := f (Status obj)\<rparr>"

definition set_phase :: "Phase \<Rightarrow> ('sp, 'm) net_resource \<Rightarrow> ('sp, 'm) net_resource" where
  "set_phase p = map_status (\<lambda>st. st\<lparr>Phase := p\<rparr>)"

text \<open>The pointer \<^verbatim>\<open>&obj.Status.ProvisioningJobs\<close>.\<close>

definition status_jobs :: "('sp, 'm) net_resource JobsRef" where
  "status_jobs =
     \<lparr>Jobs_get = (\<lambda>obj. ProvisioningJobs (Status obj)),
      Jobs_set = (\<lambda>js. map_status (\<lambda>st. st\<lparr>ProvisioningJobs := js\<rparr>))\<rparr>"

section \<open>Constants\<close>

definition osacManagementStateAnnotation :: string where
  "osacManagementStateAnnotation = ''osac.openshift.io/management-state''"

definition ManagementStateUnmanaged :: string where
  "ManagementStateUnmanaged = ''unmanaged''"

definition ManagementStateManual :: string where
  "ManagementStateManual = ''manual''"

definition osacImplementationStrategyAnnotation :: string where
  "osacImplementationStrategyAnnotation = ''osac.openshift.io/implementation-strategy''"

definition osacExternalIPPoolNameAnnotation :: string where
  "osacExternalIPPoolNameAnnotation = ''osac.openshift.io/externalippool-name''"

definition osacVirtualNetworkIDLabel :: string where
  "osacVirtualNetworkIDLabel = ''osac.openshift.io/virtualnetwork-uuid''"

definition defaultPreconditionRequeueInterval :: duration where
  "defaultPreconditionRequeueInterval = 10 * Second"

definition DefaultStatusPollInterval :: duration where
  "DefaultStatusPollInterval = 30 * Second"

definition DefaultMaxJobHistory :: int where
  "DefaultMaxJobHistory = 10"

section \<open>Libraries\<close>

record 'w k8s =
  AddFinalizer :: "string list \<Rightarrow> string \<Rightarrow> string list \<times> bool"
  RemoveFinalizer :: "string list \<Rightarrow> string \<Rightarrow> string list \<times> bool"
  ContainsFinalizer :: "string list \<Rightarrow> string \<Rightarrow> bool"
  IgnoreNotFound :: "gerror \<Rightarrow> gerror option"
  IsNotFound :: "gerror \<Rightarrow> bool"
  SetStatusCondition :: "instant \<Rightarrow> Condition list \<Rightarrow> Condition \<Rightarrow> Condition list"
  FindStatusCondition :: "Condition list \<Rightarrow> string \<Rightarrow> Condition option"
  IsStatusConditionTrue :: "Condition list \<Rightarrow> string \<Rightarrow> bool"
  IsStatusConditionFalse :: "Condition list \<Rightarrow> string \<Rightarrow> bool"
  RetryOnConflict :: "('w, gerror option) go \<Rightarrow> ('w, gerror option) go"
  k8s_now :: "'w \<Rightarrow> instant"

record ('sp, 'st, 'w) kclient =
  Get :: "ObjectKey \<Rightarrow> ('w, gerror + ('sp, 'st) resource) go"
  APIReader_Get :: "ObjectKey \<Rightarrow> ('w, gerror + ('sp, 'st) resource) go"
  Update :: "('sp, 'st) resource \<Rightarrow> ('w, gerror + ('sp, 'st) resource) go"
  Status_Update :: "('sp, 'st) resource \<Rightarrow> ('w, gerror option) go"
  DeepEqual :: "'st \<Rightarrow> 'st \<Rightarrow> bool"

text \<open>The fields all networking reconcilers have.\<close>

record ('sp, 'st, 'w) Reconciler =
  Lib :: "'w k8s"
  Client :: "('sp, 'st, 'w) kclient"
  ProvisioningProvider :: "(('sp, 'st) resource, 'w) ProvisioningProvider option"
  StatusPollInterval :: duration
  MaxJobHistory :: int

section \<open>Code shared by the networking controllers\<close>

text \<open>
  The constructors refuse a nil manager and replace intervals and history bounds that are not
  positive; the manager stands for the clients it hands out.
\<close>

definition default_poll :: "duration \<Rightarrow> duration" where
  "default_poll statusPollInterval =
     (if statusPollInterval \<le> 0 then DefaultStatusPollInterval else statusPollInterval)"

definition default_history :: "int \<Rightarrow> int" where
  "default_history maxJobHistory =
     (if maxJobHistory \<le> 0 then DefaultMaxJobHistory else maxJobHistory)"

definition NewReconciler ::
  "('w k8s \<times> ('sp, 'st, 'w) kclient) option \<Rightarrow> (('sp, 'st) resource, 'w) ProvisioningProvider option \<Rightarrow>
   duration \<Rightarrow> int \<Rightarrow> ('sp, 'st, 'w) Reconciler option"
where
  "NewReconciler mgr provisioningProvider statusPollInterval maxJobHistory =
     (case mgr of
        None \<Rightarrow> None
      | Some (lib, client) \<Rightarrow>
          Some \<lparr>Lib = lib, Client = client, ProvisioningProvider = provisioningProvider,
                StatusPollInterval = default_poll statusPollInterval,
                MaxJobHistory = default_history maxJobHistory\<rparr>)"

definition NetworkingNamespacePredicate :: "string \<Rightarrow> ('sp, 'st) resource \<Rightarrow> bool" where
  "NetworkingNamespacePredicate namespace obj \<longleftrightarrow> Namespace (Meta obj) = namespace"

text \<open>
  The client of the cluster the resources live on; the multicluster manager's \<^verbatim>\<open>GetCluster\<close> is a parameter
  and hands out that client.
\<close>

definition getTargetClient :: "('w, gerror + 'c) go \<Rightarrow> ('w, gerror + 'c) go" where
  "getTargetClient mgr_GetCluster =
     bnd mgr_GetCluster (\<lambda>res.
       case res of
         Inl err \<Rightarrow> ret (Inl err)
       | Inr cluster \<Rightarrow> ret (Inr cluster))"

text \<open>\<^verbatim>\<open>r.Update(ctx, obj)\<close> and \<^verbatim>\<open>r.Get(ctx, client.ObjectKeyFromObject(obj), obj)\<close> on the object in memory.\<close>

definition update_object :: "('sp, 'st, 'w, 'x) Reconciler_scheme \<Rightarrow> (('sp, 'st) resource \<times> 'w, gerror option) go" where
  "update_object r =
     bnd get_res (\<lambda>obj.
     bnd (on_world (Update (Client r) obj)) (\<lambda>res.
       case res of
         Inl err \<Rightarrow> ret (Some err)
       | Inr obj' \<Rightarrow> bnd (put_res obj') (\<lambda>_. ret None)))"

definition refetch_object :: "('sp, 'st, 'w, 'x) Reconciler_scheme \<Rightarrow> (('sp, 'st) resource \<times> 'w, gerror option) go" where
  "refetch_object r =
     bnd get_res (\<lambda>obj.
     bnd (on_world (Get (Client r) (ObjectKeyFromObject obj))) (\<lambda>res.
       case res of
         Inl err \<Rightarrow> ret (Some err)
       | Inr obj' \<Rightarrow> bnd (put_res obj') (\<lambda>_. ret None)))"

definition updateStatusWithRetry ::
  "('sp, 'st, 'w, 'x) Reconciler_scheme \<Rightarrow> ObjectKey \<Rightarrow> 'st \<Rightarrow> ('w, gerror option) go"
where
  "updateStatusWithRetry r key newStatus =
     RetryOnConflict (Lib r)
       (bnd (Get (Client r) key) (\<lambda>res.
          case res of
            Inl err \<Rightarrow> ret (Some err)
          | Inr latest \<Rightarrow> Status_Update (Client r) (latest\<lparr>Status := newStatus\<rparr>)))"

text \<open>The object a reconciliation works on lives as long as the call.\<close>

definition with_object :: "'o \<Rightarrow> ('o \<times> 'w, 'a) go \<Rightarrow> ('w, 'a \<times> 'o) go" where
  "with_object obj m =
     (\<lambda>w. case m (obj, w) of None \<Rightarrow> None | Some (x, (obj', w')) \<Rightarrow> Some ((x, obj'), w'))"

definition reconcile_frame ::
  "('sp, 'st, 'w, 'x) Reconciler_scheme \<Rightarrow> (('sp, 'st) resource \<times> 'w, outcome) go \<Rightarrow>
   (('sp, 'st) resource \<times> 'w, outcome) go \<Rightarrow> (('sp, 'st) resource \<Rightarrow> ('w, gerror option) go) \<Rightarrow>
   ObjectKey \<Rightarrow> ('w, outcome) go"
where
  "reconcile_frame r handleUpdate handleDelete writeStatus key =
     bnd (Get (Client r) key) (\<lambda>got.
       case got of
         Inl err \<Rightarrow> ret (no_requeue, IgnoreNotFound (Lib r) err)
       | Inr obj \<Rightarrow>
           if DeletionTimestamp (Meta obj) = None \<and>
              Annotations (Meta obj) osacManagementStateAnnotation = Some ManagementStateUnmanaged
           then ret (no_requeue, None)
           else
             bnd (with_object obj
                    (if DeletionTimestamp (Meta obj) = None then handleUpdate else handleDelete))
               (\<lambda>((res, err), obj').
                  if \<not> DeepEqual (Client r) (Status obj') (Status obj) then
                    bnd (writeStatus obj') (\<lambda>updateErr.
                      case updateErr of
                        Some e \<Rightarrow> ret (res, Some e)
                      | None \<Rightarrow> ret (res, err))
                  else ret (res, err)))"

definition setReadyConditionFailed :: "'w k8s \<Rightarrow> instant \<Rightarrow> string \<Rightarrow> Condition list \<Rightarrow> Condition list" where
  "setReadyConditionFailed lib t message conditions =
     SetStatusCondition lib t conditions
       \<lparr>cond_Type = ''Ready'', cond_Status = ''False'', cond_Reason = ''ProvisioningFailed'',
        cond_Message = message, cond_LastTransitionTime = None\<rparr>"

definition setReadyConditionTrue :: "'w k8s \<Rightarrow> instant \<Rightarrow> Condition list \<Rightarrow> Condition list" where
  "setReadyConditionTrue lib t conditions =
     SetStatusCondition lib t conditions
       \<lparr>cond_Type = ''Ready'', cond_Status = ''True'', cond_Reason = ''AsExpected'',
        cond_Message = '''', cond_LastTransitionTime = None\<rparr>"

text \<open>The condition \<^verbatim>\<open>ConfigurationApplied\<close>, stamped with the current time.\<close>

definition configurationApplied :: "instant \<Rightarrow> Condition" where
  "configurationApplied t =
     \<lparr>cond_Type = ''ConfigurationApplied'', cond_Status = ''True'', cond_Reason = ''ConfigurationApplied'',
      cond_Message = ''Controller has processed the current spec'', cond_LastTransitionTime = Some t\<rparr>"

definition map_conditions ::
  "(Condition list \<Rightarrow> Condition list) \<Rightarrow> ('sp, 'm) net_resource \<Rightarrow> ('sp, 'm) net_resource"
where
  "map_conditions f = map_status (\<lambda>st. st\<lparr>Conditions := f (Conditions st)\<rparr>)"

text \<open>The loop of the status patches that sets every computed condition on the latest object.\<close>

definition merge_conditions :: "'w k8s \<Rightarrow> instant \<Rightarrow> Condition list \<Rightarrow> Condition list \<Rightarrow> Condition list" where
  "merge_conditions lib t computed latest = foldl (SetStatusCondition lib t) latest computed"

text \<open>The callbacks of Subnet, VirtualNetwork, SecurityGroup, NATGateway and ExternalIPPool.\<close>

definition phase_callbacks :: "'w k8s \<Rightarrow> (('sp, 'm) net_resource, 'w) PollCallbacks" where
  "phase_callbacks lib =
     \<lparr>OnFailed = Some (\<lambda>message.
        bnd (read_clock (k8s_now lib)) (\<lambda>t.
        bnd (mod_res (set_phase PhaseFailed)) (\<lambda>_.
        mod_res (map_conditions (setReadyConditionFailed lib t message))))),
      OnSuccess = Some (\<lambda>status.
        bnd (read_clock (k8s_now lib)) (\<lambda>t.
        bnd (mod_res (set_phase PhaseReady)) (\<lambda>_.
        mod_res (map_conditions (setReadyConditionTrue lib t)))))\<rparr>"

definition run_provisioning ::
  "('sp, 'm net_status_scheme, 'w, 'x) Reconciler_scheme \<Rightarrow> (('sp, 'm) net_resource, 'w) PollCallbacks \<Rightarrow>
   (('sp, 'm) net_resource \<Rightarrow> ('w, gerror option) go) \<Rightarrow> (('sp, 'm) net_resource \<times> 'w, outcome) go"
where
  "run_provisioning r callbacks writeStatus =
     (case ProvisioningProvider r of
        None \<Rightarrow> ret (no_requeue, None)
      | Some provider \<Rightarrow>
          bnd get_res (\<lambda>obj.
            RunProvisioningLifecycle (k8s_now (Lib r)) provider
              \<lparr>State_Jobs = status_jobs, State_DesiredConfigVersion = DesiredConfigVersion (Status obj)\<rparr>
              (MaxJobHistory r) (StatusPollInterval r) (Some callbacks)
              (bnd get_res (\<lambda>cur. on_world
                 (CheckAPIServerForNonTerminalProvisionJob
                    (APIReader_Get (Client r) (ObjectKeyFromObject cur))
                    (\<lambda>fresh. ProvisioningJobs (Status fresh)))))
              (Some (bnd get_res (\<lambda>cur. on_world (writeStatus cur))))))"

definition handleDeprovisioning ::
  "('sp, 'm net_status_scheme, 'w, 'x) Reconciler_scheme \<Rightarrow> (('sp, 'm) net_resource \<times> 'w, outcome) go"
where
  "handleDeprovisioning r =
     (case ProvisioningProvider r of
        None \<Rightarrow> ret (no_requeue, None)
      | Some provider \<Rightarrow>
          bnd (RunDeprovisioningLifecycle (k8s_now (Lib r)) provider status_jobs
                 (MaxJobHistory r) (StatusPollInterval r)) (\<lambda>(result, finished, err).
          if err \<noteq> None \<or> \<not> finished then ret (result, err) else ret (no_requeue, None)))"

text \<open>A nil interface value: calling any of its methods panics.\<close>

definition nil_provider :: "('r, 'w) ProvisioningProvider" where
  "nil_provider =
     \<lparr>TriggerProvision = (\<lambda>_. panic), GetProvisionStatus = (\<lambda>_ _. panic),
      TriggerDeprovision = (\<lambda>_ _. panic), GetDeprovisionStatus = (\<lambda>_ _. panic)\<rparr>"

definition manually_managed :: "('sp, 'st) resource \<Rightarrow> bool" where
  "manually_managed instance \<longleftrightarrow>
     Annotations (Meta instance) osacManagementStateAnnotation = Some ManagementStateManual"

text \<open>
  \<^verbatim>\<open>handleDelete\<close> up to the point where deprovisioning is over; \<open>release\<close> is the rest of it, which
  removes the finalizer.
\<close>

definition delete_frame ::
  "('sp, 'm net_status_scheme, 'w, 'x) Reconciler_scheme \<Rightarrow> string \<Rightarrow>
   (('sp, 'm) net_resource \<times> 'w, outcome) go \<Rightarrow> (('sp, 'm) net_resource \<times> 'w, outcome) go"
where
  "delete_frame r finalizer release =
     bnd (mod_res (set_phase PhaseDeleting)) (\<lambda>_.
     bnd get_res (\<lambda>obj.
       if \<not> ContainsFinalizer (Lib r) (Finalizers (Meta obj)) finalizer then ret (no_requeue, None)
       else
         bnd (handleDeprovisioning r) (\<lambda>(result, err).
           if err \<noteq> None then ret (result, err)
           else if RequeueAfter result > 0 then ret (result, None)
           else release)))"

text \<open>Subnet, VirtualNetwork and NATGateway write the object only if the finalizer was there.\<close>

definition release_if_present ::
  "('sp, 'st, 'w, 'x) Reconciler_scheme \<Rightarrow> string \<Rightarrow> (('sp, 'st) resource \<times> 'w, outcome) go"
where
  "release_if_present r finalizer =
     bnd get_res (\<lambda>obj.
       case RemoveFinalizer (Lib r) (Finalizers (Meta obj)) finalizer of
         (fs, changed) \<Rightarrow>
           bnd (put_res (set_finalizers fs obj)) (\<lambda>_.
             if changed then
               bnd (update_object r) (\<lambda>e. ret (no_requeue, e))
             else ret (no_requeue, None)))"

text \<open>SecurityGroup, ExternalIPPool, ExternalIP and ExternalIPAttachment write it in any case.\<close>

definition release_always ::
  "('sp, 'st, 'w, 'x) Reconciler_scheme \<Rightarrow> string \<Rightarrow> (('sp, 'st) resource \<times> 'w, outcome) go"
where
  "release_always r finalizer =
     bnd get_res (\<lambda>obj.
     bnd (put_res (set_finalizers (fst (RemoveFinalizer (Lib r) (Finalizers (Meta obj)) finalizer)) obj)) (\<lambda>_.
     bnd (update_object r) (\<lambda>e. ret (no_requeue, e))))"

text \<open>
  \<open>add_finalizer r f refetch cont\<close>: the beginning of \<^verbatim>\<open>handleUpdate\<close>. The finalizer is added and, if that
  changed the object, the object is written, and read again in the controllers that do so.
\<close>

definition add_finalizer ::
  "('sp, 'st, 'w, 'x) Reconciler_scheme \<Rightarrow> string \<Rightarrow> bool \<Rightarrow> (('sp, 'st) resource \<times> 'w, outcome) go \<Rightarrow>
   (('sp, 'st) resource \<times> 'w, outcome) go"
where
  "add_finalizer r finalizer refetch cont =
     bnd get_res (\<lambda>obj.
       case AddFinalizer (Lib r) (Finalizers (Meta obj)) finalizer of
         (fs, changed) \<Rightarrow>
           bnd (put_res (set_finalizers fs obj)) (\<lambda>_.
             if changed then
               bnd (update_object r) (\<lambda>e.
                 case e of
                   Some err \<Rightarrow> ret (no_requeue, Some err)
                 | None \<Rightarrow>
                     if refetch then
                       bnd (refetch_object r) (\<lambda>e'.
                         case e' of
                           Some err \<Rightarrow> ret (no_requeue, Some err)
                         | None \<Rightarrow> cont)
                     else cont)
             else cont))"

definition phase_progressing_if_unset :: "(('sp, 'm) net_resource \<times> 'w, unit) go" where
  "phase_progressing_if_unset =
     mod_res (\<lambda>obj. if Phase (Status obj) = PhaseUnset then set_phase PhaseProgressing obj else obj)"

definition phase_progressing_if_changed :: "(('sp, 'm) net_resource \<times> 'w, unit) go" where
  "phase_progressing_if_changed =
     mod_res (\<lambda>obj.
       if Phase (Status obj) = PhaseUnset \<or>
          (Phase (Status obj) = PhaseReady \<and>
           \<not> IsConfigApplied (ProvisioningJobs (Status obj)) (DesiredConfigVersion (Status obj)))
       then set_phase PhaseProgressing obj else obj)"

definition set_desired_version :: "string \<Rightarrow> (('sp, 'm) net_resource \<times> 'w, unit) go" where
  "set_desired_version v = mod_res (map_status (\<lambda>st. st\<lparr>DesiredConfigVersion := v\<rparr>))"

text \<open>
  The implementation strategy is written into an annotation for the playbooks; writing the object
  leads to the next reconciliation, so the handler ends there.
\<close>

definition annotate ::
  "('sp, 'st, 'w, 'x) Reconciler_scheme \<Rightarrow> string \<Rightarrow> string \<Rightarrow> (('sp, 'st) resource \<times> 'w, outcome) go"
where
  "annotate r k v =
     bnd (mod_res (set_annotation k v)) (\<lambda>_.
     bnd (update_object r) (\<lambda>e. ret (no_requeue, e)))"

definition versioned_struct :: "(string \<times> json) list \<Rightarrow> string \<Rightarrow> json" where
  "versioned_struct spec strategy =
     JObj (field ''Spec'' (JObj spec) @ field ''ImplementationStrategy'' (JStr strategy))"

text \<open>A library that behaves as documented, for concrete runs.\<close>

definition sample_lib :: "('w \<Rightarrow> instant) \<Rightarrow> 'w k8s" where
  "sample_lib now =
     \<lparr>AddFinalizer = (\<lambda>fs f. if f \<in> set fs then (fs, False) else (fs @ [f], True)),
      RemoveFinalizer = (\<lambda>fs f. (filter (\<lambda>x. x \<noteq> f) fs, f \<in> set fs)),
      ContainsFinalizer = (\<lambda>fs f. f \<in> set fs),
      IgnoreNotFound = (\<lambda>e. if e = APIStatusError ''NotFound'' '''' then None else Some e),
      IsNotFound = (\<lambda>e. e = APIStatusError ''NotFound'' ''''),
      SetStatusCondition = (\<lambda>t cs c. if \<exists>c' \<in> set cs. cond_Type c' = cond_Type c
        then map (\<lambda>c'. if cond_Type c' = cond_Type c then c else c') cs else cs @ [c]),
      FindStatusCondition = (\<lambda>cs t. find (\<lambda>c. cond_Type c = t) cs),
      IsStatusConditionTrue = (\<lambda>cs t. \<exists>c \<in> set cs. cond_Type c = t \<and> cond_Status c = ''True''),
      IsStatusConditionFalse = (\<lambda>cs t. \<exists>c \<in> set cs. cond_Type c = t \<and> cond_Status c = ''False''),
      RetryOnConflict = (\<lambda>m. m), k8s_now = now\<rparr>"

end
