(* ===== verification/Reconcile_Laws.thy ===== *)
theory Reconcile_Laws
  imports Kube
begin

text \<open>
  Laws of the code the networking controllers share (\<^verbatim>\<open>internal/controller\<close>). What is assumed of the
  libraries and of the API server is the predicate \<open>api_laws\<close>; what a controller needs to run is
  \<open>controlled\<close>. The locale \<open>networking_controller\<close> is the contract of a controller's two handlers; from
  it follows that a reconciliation keeps every invariant of the world that is kept by writing well-formed
  statuses and by writing objects that may be released. The contract is interpreted for every kind.

  An object may be written (\<open>releasable\<close>) when it is not being deleted, still carries the controller's
  finalizer, is settled (its newest deprovisioning job succeeded or nothing was ever provisioned), or its
  deletion was let go before. So the only writes that let a deletion go are those of settled objects.
\<close>

section \<open>What is assumed\<close>

definition succeeded_deprovision :: "JobStatus list \<Rightarrow> bool" where
  "succeeded_deprovision jobs \<longleftrightarrow>
     (case FindLatestJobByType jobs JobTypeDeprovision of
        None \<Rightarrow> False
      | Some l \<Rightarrow> JobState l = JobStateSucceeded)"

definition settled :: "JobStatus list \<Rightarrow> bool" where
  "settled jobs \<longleftrightarrow> succeeded_deprovision jobs \<or> FindLatestJobByType jobs JobTypeProvision = None"

definition releasable :: "'w world_view \<Rightarrow> string \<Rightarrow> ('sp, 'm) net_resource \<times> 'w \<Rightarrow> bool" where
  "releasable V finalizer s \<longleftrightarrow>
     finalizer \<in> set (Finalizers (Meta (fst s))) \<or> settled (ProvisioningJobs (Status (fst s))) \<or>
     (case DeletionTimestamp (Meta (fst s)) of
        None \<Rightarrow> True
      | Some d \<Rightarrow> (ObjectKeyFromObject (fst s), d) \<in> wv_released V (snd s))"

definition finalizer_laws :: "'w k8s \<Rightarrow> bool" where
  "finalizer_laws lib \<longleftrightarrow>
     (\<forall>fs f. AddFinalizer lib fs f = (if f \<in> set fs then (fs, False) else (fs @ [f], True))) \<and>
     (\<forall>fs f. RemoveFinalizer lib fs f = (filter (\<lambda>x. x \<noteq> f) fs, f \<in> set fs)) \<and>
     (\<forall>fs f. ContainsFinalizer lib fs f \<longleftrightarrow> f \<in> set fs)"

text \<open>
  \<^verbatim>\<open>RetryOnConflict\<close> runs its argument a number of times, sleeping in between: what every run advances,
  the whole advances.
\<close>

definition retry_law :: "'w k8s \<Rightarrow> 'w world_view \<Rightarrow> bool" where
  "retry_law lib V \<longleftrightarrow>
     (\<forall>m P. (\<forall>w w'. P w \<longrightarrow> advances V w w' \<longrightarrow> P w') \<longrightarrow>
        (\<forall>w. P w \<longrightarrow> wlp m (\<lambda>_. advances V w) w) \<longrightarrow>
        (\<forall>w. P w \<longrightarrow> wlp (RetryOnConflict lib m) (\<lambda>_. advances V w) w))"

definition managed ::
  "int \<Rightarrow> 'w world_view \<Rightarrow> string \<Rightarrow> ('sp, 'm) net_resource \<times> 'w \<Rightarrow> bool"
where
  "managed mh V finalizer s \<longleftrightarrow> system_ok mh status_jobs V s \<and> releasable V finalizer s"

definition reads_managed ::
  "int \<Rightarrow> 'w world_view \<Rightarrow> string \<Rightarrow> ('w, gerror + ('sp, 'm) net_resource) go \<Rightarrow> bool"
where
  "reads_managed mh V finalizer m \<longleftrightarrow>
     (\<forall>w. wv_inv V w \<longrightarrow>
        wlp m (\<lambda>res w'. advances V w w' \<and> (\<forall>obj. res = Inr obj \<longrightarrow> managed mh V finalizer (obj, w'))) w)"

definition api_laws ::
  "int \<Rightarrow> 'w k8s \<Rightarrow> ('sp, 'm net_status_scheme, 'w) kclient \<Rightarrow> 'w world_view \<Rightarrow> string \<Rightarrow> bool"
where
  "api_laws mh lib client V finalizer \<longleftrightarrow>
     (\<forall>key. reads_managed mh V finalizer (Get client key)) \<and>
     (\<forall>key. reads_managed mh V finalizer (APIReader_Get client key)) \<and>
     (\<forall>obj w. managed mh V finalizer (obj, w) \<longrightarrow>
        wlp (Update client obj) (\<lambda>res w'. advances V w w' \<and>
          (\<forall>obj'. res = Inr obj' \<longrightarrow> managed mh V finalizer (obj', w'))) w) \<and>
     (\<forall>obj w. system_ok mh status_jobs V (obj, w) \<longrightarrow>
        wlp (Status_Update client obj) (\<lambda>_. advances V w) w)"

definition controlled ::
  "('sp, 'm net_status_scheme, 'w, 'x) Reconciler_scheme \<Rightarrow> 'w world_view \<Rightarrow> string \<Rightarrow> bool"
where
  "controlled r V finalizer \<longleftrightarrow>
     0 < MaxJobHistory r \<and> 0 < StatusPollInterval r \<and>
     k8s_now (Lib r) = wv_now V \<and> wv_strict V \<and>
     finalizer_laws (Lib r) \<and> retry_law (Lib r) V \<and>
     api_laws (MaxJobHistory r) (Lib r) (Client r) V finalizer \<and>
     (\<exists>p. ProvisioningProvider r = Some p \<and> honest V p \<and> blocking_deprovisioning status_jobs p)"

text \<open>A library call that only advances the world.\<close>

definition steady :: "'w world_view \<Rightarrow> ('w, 'a) go \<Rightarrow> bool" where
  "steady V m \<longleftrightarrow> (\<forall>w. wv_inv V w \<longrightarrow> wlp m (\<lambda>_. advances V w) w)"

section \<open>The history behind the status\<close>

interpretation sj: jobs_ref "status_jobs :: ('sp, 'm) net_resource JobsRef"
  by unfold_locales (simp add: status_jobs_def map_status_def)

lemma status_jobs_get [simp]: "Jobs_get status_jobs obj = ProvisioningJobs (Status obj)"
  by (simp add: status_jobs_def)

lemma jobs_of_edits [simp]:
  "ProvisioningJobs (Status (set_annotation k v obj)) = ProvisioningJobs (Status obj)"
  "ProvisioningJobs (Status (set_finalizers fs obj)) = ProvisioningJobs (Status obj)"
  "ProvisioningJobs (Status (set_phase p obj)) = ProvisioningJobs (Status obj)"
  "ProvisioningJobs (Status (map_conditions g obj)) = ProvisioningJobs (Status obj)"
  by (simp_all add: set_annotation_def set_finalizers_def set_phase_def map_status_def map_conditions_def)

lemma meta_of_edits [simp]:
  "Meta (set_phase p obj) = Meta obj" "Meta (map_conditions g obj) = Meta obj" "Meta (map_status h obj) = Meta obj"
  "DeletionTimestamp (Meta (set_annotation k v obj)) = DeletionTimestamp (Meta obj)"
  "Finalizers (Meta (set_annotation k v obj)) = Finalizers (Meta obj)"
  "DeletionTimestamp (Meta (set_finalizers fs obj)) = DeletionTimestamp (Meta obj)"
  "Finalizers (Meta (set_finalizers fs obj)) = fs"
  by (simp_all add: set_annotation_def set_finalizers_def set_phase_def map_status_def map_conditions_def)

lemma key_of_edits [simp]:
  "ObjectKeyFromObject (set_phase p obj) = ObjectKeyFromObject obj"
  "ObjectKeyFromObject (map_conditions g obj) = ObjectKeyFromObject obj"
  "ObjectKeyFromObject (map_status h obj) = ObjectKeyFromObject obj"
  "ObjectKeyFromObject (set_annotation k v obj) = ObjectKeyFromObject obj"
  "ObjectKeyFromObject (set_finalizers fs obj) = ObjectKeyFromObject obj"
  by (simp_all add: ObjectKeyFromObject_def set_annotation_def set_finalizers_def set_phase_def map_status_def map_conditions_def)

lemma system_ok_jobs:
  "ProvisioningJobs (Status obj') = ProvisioningJobs (Status obj) \<Longrightarrow>
     system_ok mh status_jobs V (obj', w) = system_ok mh status_jobs V (obj, w)"
  by (simp add: system_ok_def)

lemma managed_same:
  assumes "managed mh V f (obj, w)" and "ProvisioningJobs (Status obj') = ProvisioningJobs (Status obj)"
    and "DeletionTimestamp (Meta obj') = DeletionTimestamp (Meta obj)"
    and "ObjectKeyFromObject obj' = ObjectKeyFromObject obj"
    and "f \<in> set (Finalizers (Meta obj)) \<longrightarrow> f \<in> set (Finalizers (Meta obj'))"
  shows "managed mh V f (obj', w)"
  using assms by (auto simp: managed_def releasable_def system_ok_jobs [OF assms(2)] split: option.splits)

lemma managed_advance: "managed mh V f (obj, w) \<Longrightarrow> advances V w w' \<Longrightarrow> managed mh V f (obj, w')"
  by (auto simp: managed_def releasable_def advances_def intro: system_ok_frame [OF _ refl] split: option.splits)

lemma system_ok_advance:
  "system_ok mh ref V (obj, w) \<Longrightarrow> advances V w w' \<Longrightarrow> system_ok mh ref V (obj, w')"
  by (rule system_ok_frame [OF _ refl])

section \<open>Calls of the API\<close>

lemma api_lawsD:
  assumes "api_laws mh lib client V f"
  shows "reads_managed mh V f (Get client key)" and "reads_managed mh V f (APIReader_Get client key)"
    and "managed mh V f (obj, w) \<Longrightarrow> wlp (Update client obj) (\<lambda>res w'. advances V w w' \<and>
          (\<forall>obj'. res = Inr obj' \<longrightarrow> managed mh V f (obj', w'))) w"
    and "system_ok mh status_jobs V (obj, w) \<Longrightarrow> wlp (Status_Update client obj) (\<lambda>_. advances V w) w"
  using assms unfolding api_laws_def by blast+

lemma controlledD:
  assumes "controlled r V f"
  shows "0 < MaxJobHistory r" "0 < StatusPollInterval r" "k8s_now (Lib r) = wv_now V" "wv_strict V"
    "finalizer_laws (Lib r)" "retry_law (Lib r) V"
    "api_laws (MaxJobHistory r) (Lib r) (Client r) V f"
  using assms unfolding controlled_def by blast+

lemma controlled_provider:
  assumes "controlled r V f"
  obtains p where "ProvisioningProvider r = Some p" "honest V p" "blocking_deprovisioning status_jobs p"
  using assms unfolding controlled_def by blast

lemma retry_lawD:
  assumes "retry_law lib V" and "\<And>w w'. P w \<Longrightarrow> advances V w w' \<Longrightarrow> P w'"
    and "\<And>w. P w \<Longrightarrow> wlp m (\<lambda>_. advances V w) w" and "P w"
  shows "wlp (RetryOnConflict lib m) (\<lambda>_. advances V w) w"
  using assms unfolding retry_law_def by blast

lemma managedD: "managed mh V f (obj, w) \<Longrightarrow> system_ok mh status_jobs V (obj, w) \<and> wv_inv V w"
  by (simp add: managed_def system_ok_def)

lemma reads_managedD:
  "reads_managed mh V f m \<Longrightarrow> wv_inv V w \<Longrightarrow>
     wlp m (\<lambda>res w'. advances V w w' \<and> (\<forall>obj. res = Inr obj \<longrightarrow> managed mh V f (obj, w'))) w"
  by (simp add: reads_managed_def)

lemma reads_steady: "reads_managed mh V f m \<Longrightarrow> steady V m"
  unfolding steady_def by (blast intro: wlp_mono dest: reads_managedD)

lemma update_object_ok:
  assumes "api_laws mh (Lib r) (Client r) V f" and "managed mh V f (obj, w)"
  shows "wlp (update_object r) (\<lambda>_. managed mh V f) (obj, w)"
proof -
  have "wlp (Update (Client r) obj) (\<lambda>res w'. advances V w w' \<and>
      (\<forall>obj'. res = Inr obj' \<longrightarrow> managed mh V f (obj', w'))) w"
    using api_lawsD(3) [OF assms] .
  then show ?thesis
    unfolding update_object_def wp_simps prod.case
    by (rule wlp_mono) (auto simp: wp_simps managed_advance [OF assms(2)] split: sum.split)
qed

lemma refetch_object_ok:
  assumes "api_laws mh (Lib r) (Client r) V f" and "managed mh V f (obj, w)"
  shows "wlp (refetch_object r) (\<lambda>_. managed mh V f) (obj, w)"
proof -
  have "wlp (Get (Client r) (ObjectKeyFromObject obj)) (\<lambda>res w'. advances V w w' \<and>
      (\<forall>obj'. res = Inr obj' \<longrightarrow> managed mh V f (obj', w'))) w"
    using reads_managedD [OF api_lawsD(1) [OF assms(1)]] managedD [OF assms(2)] by blast
  then show ?thesis
    unfolding refetch_object_def wp_simps prod.case
    by (rule wlp_mono) (auto simp: wp_simps managed_advance [OF assms(2)] split: sum.split)
qed

text \<open>Writing a status back: the object read may be any, only the history written matters.\<close>

lemma status_write_steady:
  assumes "retry_law lib V" and get: "steady V get" and ok: "system_ok mh status_jobs V (obj, w)"
    and writes: "\<And>obj w. system_ok mh status_jobs V (obj, w) \<Longrightarrow> wlp (Status_Update client obj) (\<lambda>_. advances V w) w"
  shows "wlp (RetryOnConflict lib (bnd get (\<lambda>res. case res of Inl err \<Rightarrow> ret (Some err)
     | Inr latest \<Rightarrow> Status_Update client (latest\<lparr>Status := Status obj\<rparr>)))) (\<lambda>_. advances V w) w"
proof -
  let ?P = "\<lambda>w. system_ok mh status_jobs V (obj, w)"
  have "wlp (bnd get (\<lambda>res. case res of Inl err \<Rightarrow> ret (Some err)
     | Inr latest \<Rightarrow> Status_Update client (latest\<lparr>Status := Status obj\<rparr>))) (\<lambda>_. advances V w) w"
    if "?P w" for w
  proof -
    have "wv_inv V w" using that by (simp add: system_ok_def)
    then have "wlp get (\<lambda>res w'. advances V w w') w" using get by (simp add: steady_def)
    then show ?thesis
      unfolding wlp_bnd
    proof (rule wlp_mono, goal_cases)
      case (1 res w')
      then have "?P w'" using that by (blast intro: system_ok_advance)
      then have "wlp (Status_Update client (latest\<lparr>Status := Status obj\<rparr>)) (\<lambda>_. advances V w) w'" for latest
        using 1
        by (intro wlp_mono [OF writes [of "latest\<lparr>Status := Status obj\<rparr>" w']])
          (simp_all add: system_ok_jobs [of "latest\<lparr>Status := Status obj\<rparr>" obj] advances_trans)
      with 1 show ?case by (auto simp: wlp_ret split: sum.split)
    qed
  qed
  then show ?thesis
    by (intro retry_lawD [OF assms(1), of ?P]) (simp_all add: ok system_ok_advance)
qed

lemma status_write_ok:
  assumes "retry_law lib V" and "api_laws mh lib client V f"
    and "reads_managed mh V f get" and "system_ok mh status_jobs V (obj, w)"
  shows "wlp (RetryOnConflict lib (bnd get (\<lambda>res. case res of Inl err \<Rightarrow> ret (Some err)
     | Inr latest \<Rightarrow> Status_Update client (latest\<lparr>Status := Status obj\<rparr>)))) (\<lambda>_. advances V w) w"
  using status_write_steady [OF assms(1) reads_steady [OF assms(3)] assms(4) api_lawsD(4) [OF assms(2)]] .

lemma updateStatusWithRetry_ok:
  assumes "controlled r V f" and "system_ok (MaxJobHistory r) status_jobs V (obj, w)"
  shows "wlp (updateStatusWithRetry r key (Status obj)) (\<lambda>_. advances V w) w"
  unfolding updateStatusWithRetry_def
  using assms controlledD [OF assms(1)] api_lawsD(1) [OF controlledD(7) [OF assms(1)]]
  by (intro status_write_ok [where f = f]) auto

section \<open>Deletion\<close>

lemma deprovisioned_blocking: "deprovisioned jobs \<Longrightarrow> all_blocking jobs \<Longrightarrow> succeeded_deprovision jobs"
  by (auto simp: deprovisioned_def succeeded_deprovision_def all_blocking_def IsSuccessful_def IsTerminal_def
      dest: FindLatestJobByType_Some split: option.splits)

text \<open>A deprovisioning step that lets the deletion go on has left a succeeded deprovisioning job.\<close>

lemma handleDeprovisioning_ends:
  assumes mh: "0 < MaxJobHistory r" and poll: "0 < StatusPollInterval r" and now: "k8s_now (Lib r) = wv_now V"
    and strict: "wv_strict V"
    and p: "ProvisioningProvider r = Some p" "honest V p" "blocking_deprovisioning status_jobs p"
    and ok: "system_ok (MaxJobHistory r) status_jobs V (obj, w)"
  shows "wlp (handleDeprovisioning r) (\<lambda>(res, err) s. system_ok (MaxJobHistory r) status_jobs V s \<and>
     (err = None \<longrightarrow> RequeueAfter res \<le> 0 \<longrightarrow> succeeded_deprovision (ProvisioningJobs (Status (fst s))))) (obj, w)"
proof -
  have block: "all_blocking (Jobs_get status_jobs obj)"
    and past: "\<forall>j \<in> set (Jobs_get status_jobs obj). Timestamp j \<le> wv_now V w"
    using ok strict by (auto simp: system_ok_def history_ok_def)
  have clock: "wlp (GetDeprovisionStatus p x y) (\<lambda>_ w'. wv_now V w \<le> wv_now V w') w" for x y w
    by (rule wlp_mono [OF honestD(4) [OF p(2)]]) (simp add: advances_def)
  have "wlp (RunDeprovisioningLifecycle (wv_now V) p status_jobs (MaxJobHistory r) (StatusPollInterval r))
      (\<lambda>out s. deprov_post (MaxJobHistory r) status_jobs V out s \<and> waits_post status_jobs out s) (obj, w)"
    using sj.RunDeprovisioningLifecycle_ok [OF ok mh p(2)]
      blocking_deprovisioning.RunDeprovisioningLifecycle_waits [OF p(3) past block poll clock]
    by (intro wlp_conj)
  then show ?thesis
    unfolding handleDeprovisioning_def p(1) option.case wlp_bnd now
    by (rule wlp_mono)
      (auto simp: wlp_ret deprov_post_def waits_post_def intro: deprovisioned_blocking split: prod.splits)
qed

lemma handleDeprovisioning_ok:
  assumes c: "controlled r V f" and ok: "system_ok (MaxJobHistory r) status_jobs V (obj, w)"
  shows "wlp (handleDeprovisioning r) (\<lambda>(res, err) s. system_ok (MaxJobHistory r) status_jobs V s \<and>
     (err = None \<longrightarrow> RequeueAfter res \<le> 0 \<longrightarrow> succeeded_deprovision (ProvisioningJobs (Status (fst s))))) (obj, w)"
  using controlled_provider [OF c] handleDeprovisioning_ends [OF controlledD(1-4) [OF c] _ _ _ ok] by metis

lemma delete_frame_ok:
  assumes c: "controlled r V f" and ok: "system_ok (MaxJobHistory r) status_jobs V (obj, w)"
    and release: "\<And>s. system_ok (MaxJobHistory r) status_jobs V s \<Longrightarrow>
      succeeded_deprovision (ProvisioningJobs (Status (fst s))) \<Longrightarrow>
      wlp release (\<lambda>_. system_ok (MaxJobHistory r) status_jobs V) s"
  shows "wlp (delete_frame r f release) (\<lambda>_. system_ok (MaxJobHistory r) status_jobs V) (obj, w)"
proof -
  have ok': "system_ok (MaxJobHistory r) status_jobs V (set_phase PhaseDeleting obj, w)"
    using ok by (simp add: system_ok_def)
  note deprov = handleDeprovisioning_ok [OF c ok']
  have "wlp (bnd (handleDeprovisioning r) (\<lambda>(result, err). if err \<noteq> None then ret (result, err)
      else if RequeueAfter result > 0 then ret (result, None) else release))
    (\<lambda>_. system_ok (MaxJobHistory r) status_jobs V) (set_phase PhaseDeleting obj, w)"
    unfolding wlp_bnd by (rule wlp_mono [OF deprov]) (auto simp: wlp_ret intro!: release)
  then show ?thesis
    using ok' by (simp add: delete_frame_def wlp_bnd [of "mod_res _"] wlp_bnd [of get_res] wlp_mod_res wlp_get_res wlp_ret)
qed

lemma managed_settled:
  "system_ok mh status_jobs V (obj, w) \<Longrightarrow> succeeded_deprovision (ProvisioningJobs (Status obj)) \<Longrightarrow>
     managed mh V f (set_finalizers fs obj, w)"
  by (simp add: managed_def releasable_def settled_def system_ok_def)

lemma release_ok:
  assumes "controlled r V f" and "system_ok (MaxJobHistory r) status_jobs V s"
    and "succeeded_deprovision (ProvisioningJobs (Status (fst s)))"
  shows "wlp (release_if_present r f) (\<lambda>_. system_ok (MaxJobHistory r) status_jobs V) s"
    and "wlp (release_always r f) (\<lambda>_. system_ok (MaxJobHistory r) status_jobs V) s"
proof -
  obtain obj w where s: "s = (obj, w)" by (cases s)
  note ok = assms(2) [unfolded s]
  have upd: "wlp (update_object r) (\<lambda>_. system_ok (MaxJobHistory r) status_jobs V) (set_finalizers fs obj, w)" for fs
    using assms(3) managed_settled [OF ok, of f fs] controlledD(7) [OF assms(1)]
    by (intro wlp_mono [OF update_object_ok]) (auto simp: s managed_def)
  have same: "system_ok (MaxJobHistory r) status_jobs V (set_finalizers fs obj, w)" for fs
    using ok by (simp add: system_ok_def)
  show "wlp (release_if_present r f) (\<lambda>_. system_ok (MaxJobHistory r) status_jobs V) s"
    using upd same unfolding release_if_present_def s
    by (auto simp: wlp_get_res wlp_put_res wlp_bnd wlp_ret split: prod.split)
  show "wlp (release_always r f) (\<lambda>_. system_ok (MaxJobHistory r) status_jobs V) s"
    using upd unfolding release_always_def s by (simp add: wlp_get_res wlp_put_res wlp_bnd wlp_ret)
qed

section \<open>Update\<close>

lemma add_finalizer_ok:
  assumes c: "controlled r V f" and ok: "managed (MaxJobHistory r) V f (obj, w)"
    and cont: "\<And>s. managed (MaxJobHistory r) V f s \<Longrightarrow> wlp cont Q s"
    and err: "\<And>s e. managed (MaxJobHistory r) V f s \<Longrightarrow> Q (no_requeue, Some e) s"
  shows "wlp (add_finalizer r f refetch cont) Q (obj, w)"
proof -
  note D = controlledD [OF c]
  let ?obj = "set_finalizers (fst (AddFinalizer (Lib r) (Finalizers (Meta obj)) f)) obj"
  have m: "managed (MaxJobHistory r) V f (?obj, w)"
    using D(5) by (intro managed_same [OF ok]) (auto simp: finalizer_laws_def)
  have again: "wlp (bnd (refetch_object r) (\<lambda>e'. case e' of Some err \<Rightarrow> ret (no_requeue, Some err) | None \<Rightarrow> cont)) Q s"
    if "managed (MaxJobHistory r) V f s" for s
    using refetch_object_ok [OF D(7)] that
    by (cases s, intro wlp_bnd_inv [where I = "managed (MaxJobHistory r) V f"])
      (auto simp: wlp_ret cont err split: option.split)
  have "wlp (bnd (update_object r) (\<lambda>e. case e of Some err \<Rightarrow> ret (no_requeue, Some err)
     | None \<Rightarrow> if refetch then bnd (refetch_object r) (\<lambda>e'. case e' of Some err \<Rightarrow> ret (no_requeue, Some err) | None \<Rightarrow> cont)
               else cont)) Q (?obj, w)"
    by (rule wlp_bnd_inv [OF update_object_ok [OF D(7) m]]) (auto simp: wlp_ret cont err again split: option.split)
  then show ?thesis
    using cont [OF m] unfolding add_finalizer_def wlp_bnd [of get_res] wlp_get_res prod.case
    by (cases "AddFinalizer (Lib r) (Finalizers (Meta obj)) f")
      (simp only: fst_conv prod.case wlp_bnd [of "put_res _"] wlp_put_res split: if_split, blast)
qed

lemma quiet_steady:
  assumes "\<And>obj. steady V (m obj)"
  shows "quiet mh ref V (bnd get_res (\<lambda>cur. on_world (m cur)))"
  using assms by (auto simp: quiet_def wp_simps steady_def system_ok_def intro!: wlp_mono [of "m _"])

lemma CheckAPIServer_steady:
  assumes "steady V get"
  shows "steady V (CheckAPIServerForNonTerminalProvisionJob get ex)"
  unfolding steady_def CheckAPIServerForNonTerminalProvisionJob_def wlp_bnd
proof (intro allI impI, goal_cases)
  case (1 w)
  then have "wlp get (\<lambda>_. advances V w) w" using assms by (simp add: steady_def)
  then show ?case by (rule wlp_mono) (simp add: wlp_ret split: sum.split option.split)
qed

lemma phase_callbacks_quiet: "quiet_callbacks mh status_jobs V (Some (phase_callbacks lib))"
  by (auto simp: quiet_callbacks_def phase_callbacks_def quiet_def wp_simps)

lemma run_provisioning_keeps:
  assumes mh: "0 < MaxJobHistory r" and now: "k8s_now (Lib r) = wv_now V"
    and p: "\<And>p. ProvisioningProvider r = Some p \<Longrightarrow> honest V p"
    and reader: "\<And>key. steady V (APIReader_Get (Client r) key)"
    and ok: "system_ok (MaxJobHistory r) status_jobs V (obj, w)"
    and cb: "quiet_callbacks (MaxJobHistory r) status_jobs V (Some callbacks)"
    and writes: "\<And>obj w. system_ok (MaxJobHistory r) status_jobs V (obj, w) \<Longrightarrow>
      wlp (writeStatus obj) (\<lambda>_. advances V w) w"
  shows "wlp (run_provisioning r callbacks writeStatus) (\<lambda>_. system_ok (MaxJobHistory r) status_jobs V) (obj, w)"
proof (cases "ProvisioningProvider r")
  case None
  with ok show ?thesis by (simp add: run_provisioning_def wlp_ret)
next
  case (Some q)
  have flush: "quiet (MaxJobHistory r) status_jobs V (bnd get_res (\<lambda>cur. on_world (writeStatus cur)))"
    by (auto simp: quiet_def wp_simps intro: wlp_mono [OF writes])
  have chk: "quiet (MaxJobHistory r) status_jobs V (bnd get_res (\<lambda>cur. on_world
      (CheckAPIServerForNonTerminalProvisionJob (APIReader_Get (Client r) (ObjectKeyFromObject cur))
         (\<lambda>fresh. ProvisioningJobs (Status fresh)))))"
    by (intro quiet_steady CheckAPIServer_steady reader)
  show ?thesis
    unfolding run_provisioning_def Some option.case wlp_bnd [of get_res] wlp_get_res prod.case now
    using flush by (intro sj.RunProvisioningLifecycle_ok [OF ok mh p [OF Some] _ cb chk]) auto
qed

lemma run_provisioning_ok:
  assumes c: "controlled r V f" and ok: "system_ok (MaxJobHistory r) status_jobs V (obj, w)"
    and cb: "quiet_callbacks (MaxJobHistory r) status_jobs V (Some callbacks)"
    and writes: "\<And>obj w. system_ok (MaxJobHistory r) status_jobs V (obj, w) \<Longrightarrow>
      wlp (writeStatus obj) (\<lambda>_. advances V w) w"
  shows "wlp (run_provisioning r callbacks writeStatus) (\<lambda>_. system_ok (MaxJobHistory r) status_jobs V) (obj, w)"
proof -
  obtain q where q: "ProvisioningProvider r = Some q" "honest V q"
    using controlled_provider [OF c] by metis
  note D = controlledD [OF c]
  show ?thesis
    using q by (intro run_provisioning_keeps [OF D(1,3) _ reads_steady [OF api_lawsD(2) [OF D(7)]] ok cb writes]) auto
qed

lemma annotate_ok:
  assumes "controlled r V f" and "managed (MaxJobHistory r) V f (obj, w)"
  shows "wlp (annotate r k v) (\<lambda>_. managed (MaxJobHistory r) V f) (obj, w)"
  using update_object_ok [OF controlledD(7) [OF assms(1)] managed_same [OF assms(2), of "set_annotation k v obj"]]
  by (simp add: annotate_def wlp_bnd wlp_mod_res wlp_ret)

lemma managed_system_ok: "managed mh V f s \<Longrightarrow> system_ok mh status_jobs V s"
  by (simp add: managed_def)

lemma wlp_phase_edits [wp_simps]:
  "wlp phase_progressing_if_unset Q = (\<lambda>(obj, w).
     Q () (if Phase (Status obj) = PhaseUnset then set_phase PhaseProgressing obj else obj, w))"
  "wlp (set_desired_version v) Q = (\<lambda>(obj, w).
     Q () (map_status (\<lambda>st. st\<lparr>DesiredConfigVersion := v\<rparr>) obj, w))"
  "wlp phase_progressing_if_changed Q = (\<lambda>(obj, w).
     Q () (if Phase (Status obj) = PhaseUnset \<or> (Phase (Status obj) = PhaseReady \<and>
           \<not> IsConfigApplied (ProvisioningJobs (Status obj)) (DesiredConfigVersion (Status obj)))
       then set_phase PhaseProgressing obj else obj, w))"
  by (simp_all add: phase_progressing_if_unset_def set_desired_version_def phase_progressing_if_changed_def wlp_mod_res)

text \<open>
  The last part of every \<^verbatim>\<open>handleUpdate\<close>, from the annotation on. Edits of the status outside the history
  do not matter to the invariant.
\<close>

lemma system_ok_edits:
  assumes "system_ok mh status_jobs V (obj, w)"
  shows "system_ok mh status_jobs V (set_phase p obj, w)"
    and "system_ok mh status_jobs V (map_conditions g obj, w)"
    and "system_ok mh status_jobs V (map_status (\<lambda>st. st\<lparr>DesiredConfigVersion := v\<rparr>) obj, w)"
  using assms by (simp_all add: system_ok_def map_status_def)

lemma managed_phase: "managed mh V f (obj, w) \<Longrightarrow> managed mh V f (set_phase p obj, w)"
  by (auto intro: managed_same)

lemma versioned_rest_ok:
  assumes c: "controlled r V f" and m: "managed (MaxJobHistory r) V f (obj, w)"
    and rest: "\<And>x. version = Inr x \<Longrightarrow>
      wlp (rest x) (\<lambda>_. system_ok (MaxJobHistory r) status_jobs V) (obj, w)"
  shows "wlp (if b then annotate r k v else case version of
        Inl err \<Rightarrow> ret (no_requeue, Some (Wrapf t [] err)) | Inr desiredVersion \<Rightarrow> rest desiredVersion)
      (\<lambda>_. system_ok (MaxJobHistory r) status_jobs V) (obj, w)"
proof -
  have "wlp (annotate r k v) (\<lambda>_. system_ok (MaxJobHistory r) status_jobs V) (obj, w)"
    by (rule wlp_mono [OF annotate_ok [OF c m]]) (rule managed_system_ok)
  then show ?thesis
    using managed_system_ok [OF m] rest by (simp add: wlp_ret split: sum.split)
qed

lemma versioned_tail_ok:
  assumes c: "controlled r V f" and m: "managed (MaxJobHistory r) V f (obj, w)"
    and prov: "\<And>s. system_ok (MaxJobHistory r) status_jobs V s \<Longrightarrow>
      wlp provision (\<lambda>_. system_ok (MaxJobHistory r) status_jobs V) s"
  shows "wlp (if b then annotate r k v else case version of
        Inl err \<Rightarrow> ret (no_requeue, Some (Wrapf x [] err))
      | Inr desiredVersion \<Rightarrow> bnd (set_desired_version desiredVersion) (\<lambda>_.
          bnd phase_progressing_if_changed (\<lambda>_. provision)))
      (\<lambda>_. system_ok (MaxJobHistory r) status_jobs V) (obj, w)"
  using managed_system_ok [OF m]
  by (intro versioned_rest_ok [OF c m])
    (auto simp: wlp_bnd wlp_phase_edits intro!: prov system_ok_edits(1,3))

lemma phase_provisioning_ok:
  assumes "controlled r V f" and "system_ok (MaxJobHistory r) status_jobs V s"
  shows "wlp (run_provisioning r (phase_callbacks (Lib r))
      (\<lambda>obj. updateStatusWithRetry r (ObjectKeyFromObject obj) (Status obj)))
     (\<lambda>_. system_ok (MaxJobHistory r) status_jobs V) s"
  using assms run_provisioning_ok [OF assms(1) _ phase_callbacks_quiet updateStatusWithRetry_ok [OF assms(1)]]
  by (cases s) simp

lemma begin_update_ok:
  assumes c: "controlled r V f" and m: "managed (MaxJobHistory r) V f (obj, w)"
    and cont: "\<And>obj w. managed (MaxJobHistory r) V f (obj, w) \<Longrightarrow>
      wlp (k obj) (\<lambda>_. system_ok (MaxJobHistory r) status_jobs V) (obj, w)"
  shows "wlp (add_finalizer r f refetch (bnd phase_progressing_if_unset (\<lambda>_. bnd get_res k)))
     (\<lambda>_. system_ok (MaxJobHistory r) status_jobs V) (obj, w)"
  by (rule add_finalizer_ok [OF c m])
    (auto simp: wlp_bnd wlp_phase_edits wlp_get_res managed_system_ok managed_phase intro!: cont)

lemma begin_edit_ok:
  assumes c: "controlled r V f" and m: "managed (MaxJobHistory r) V f (obj, w)"
    and edit: "\<And>obj w. managed (MaxJobHistory r) V f (obj, w) \<Longrightarrow> managed (MaxJobHistory r) V f (g obj, w)"
    and cont: "\<And>obj w. managed (MaxJobHistory r) V f (obj, w) \<Longrightarrow>
      wlp (k obj) (\<lambda>_. system_ok (MaxJobHistory r) status_jobs V) (obj, w)"
  shows "wlp (add_finalizer r f refetch (bnd (mod_res g) (\<lambda>_. bnd get_res k)))
     (\<lambda>_. system_ok (MaxJobHistory r) status_jobs V) (obj, w)"
  by (rule add_finalizer_ok [OF c m])
    (auto simp: wlp_bnd wlp_mod_res wlp_get_res managed_system_ok intro!: cont edit)

lemma wlp_versionI:
  "(\<And>err. wlp (a err) Q s) \<Longrightarrow> (\<And>v. wlp (b v) Q s) \<Longrightarrow> wlp (case x of Inl err \<Rightarrow> a err | Inr v \<Rightarrow> b v) Q s"
  by (simp split: sum.split)

lemma steady_on_world:
  assumes "steady V m" and "managed mh V f (obj, w)"
    and "\<And>x w'. managed mh V f (obj, w') \<Longrightarrow> wlp (k x) Q (obj, w')"
  shows "wlp (bnd (on_world m) k) Q (obj, w)"
  unfolding wlp_bnd wlp_on_world prod.case
proof (rule wlp_mono)
  show "wlp m (\<lambda>_. advances V w) w" using assms(1) managedD [OF assms(2)] by (simp add: steady_def)
  show "advances V w w' \<Longrightarrow> wlp (k x) Q (obj, w')" for x w'
    by (intro assms(3) managed_advance [OF assms(2)])
qed

text \<open>Programs made of steady calls are steady.\<close>

lemma steady_ret [simp]: "steady V (ret x)"
  by (simp add: steady_def wlp_ret)

lemma steady_bnd:
  assumes "steady V m" and "\<And>x. steady V (k x)"
  shows "steady V (bnd m k)"
  unfolding steady_def wlp_bnd
proof (intro allI impI, goal_cases)
  case (1 w)
  have "wlp m (\<lambda>_. advances V w) w" using assms(1) 1 by (simp add: steady_def)
  then show ?case
  proof (rule wlp_mono)
    fix x w' assume a: "advances V w w'"
    then have "wlp (k x) (\<lambda>_. advances V w') w'" using assms(2) 1 by (simp add: steady_def advances_def)
    then show "wlp (k x) (\<lambda>_. advances V w) w'" by (rule wlp_mono) (rule advances_trans [OF a])
  qed
qed

lemma steady_retry:
  assumes "retry_law lib V" and "steady V m"
  shows "steady V (RetryOnConflict lib m)"
  unfolding steady_def
  by (intro allI impI retry_lawD [OF assms(1), of "wv_inv V"])
    (use assms(2) in \<open>simp_all add: steady_def advances_def\<close>)

lemma wlp_first_itemI:
  "(\<And>err. wlp (a err) Q s) \<Longrightarrow> wlp b Q s \<Longrightarrow> (\<And>y. wlp (c y) Q s) \<Longrightarrow>
     wlp (case x of Inl err \<Rightarrow> a err | Inr [] \<Rightarrow> b | Inr (y # ys) \<Rightarrow> c y) Q s"
  by (simp split: sum.split list.split)

lemma wlp_ifI: "(b \<Longrightarrow> wlp m Q s) \<Longrightarrow> (\<not> b \<Longrightarrow> wlp n Q s) \<Longrightarrow> wlp (if b then m else n) Q s"
  by simp

section \<open>The whole reconciliation\<close>

locale networking_controller =
  fixes r :: "('sp, 'm net_status_scheme, 'w, 'x) Reconciler_scheme"
    and finalizer :: string
    and extra :: "'w world_view \<Rightarrow> bool"
    and handleUpdate :: "(('sp, 'm) net_resource \<times> 'w, outcome) go"
    and handleDelete :: "(('sp, 'm) net_resource \<times> 'w, outcome) go"
    and writeStatus :: "ObjectKey \<Rightarrow> ('sp, 'm) net_resource \<Rightarrow> ('w, gerror option) go"
  assumes update_law: "controlled r V finalizer \<Longrightarrow> extra V \<Longrightarrow> managed (MaxJobHistory r) V finalizer (obj, w) \<Longrightarrow>
      wlp handleUpdate (\<lambda>_. system_ok (MaxJobHistory r) status_jobs V) (obj, w)"
    and delete_law: "controlled r V finalizer \<Longrightarrow> extra V \<Longrightarrow> system_ok (MaxJobHistory r) status_jobs V (obj, w) \<Longrightarrow>
      wlp handleDelete (\<lambda>_. system_ok (MaxJobHistory r) status_jobs V) (obj, w)"
    and write_law: "controlled r V finalizer \<Longrightarrow> system_ok (MaxJobHistory r) status_jobs V (obj, w) \<Longrightarrow>
      wlp (writeStatus key obj) (\<lambda>_. advances V w) w"
begin

lemma handlers_ok:
  assumes "controlled r V finalizer" and "extra V" and "managed (MaxJobHistory r) V finalizer (obj, w)"
  shows "wlp (if DeletionTimestamp (Meta obj) = None then handleUpdate else handleDelete)
     (\<lambda>_. system_ok (MaxJobHistory r) status_jobs V) (obj, w)"
  using update_law [OF assms] delete_law [OF assms(1,2)] assms(3) by (simp add: managed_def)

lemma Reconcile_keeps_invariant:
  assumes c: "controlled r V finalizer" and x: "extra V" and inv: "wv_inv V w"
  shows "wlp (reconcile_frame r handleUpdate handleDelete (writeStatus key) key) (\<lambda>_. wv_inv V) w"
proof -
  note D = controlledD [OF c]
  have body: "wlp (bnd (with_object obj (if DeletionTimestamp (Meta obj) = None then handleUpdate else handleDelete))
       (\<lambda>((res, err), obj'). if \<not> DeepEqual (Client r) (Status obj') (Status obj) then
          bnd (writeStatus key obj') (\<lambda>updateErr. case updateErr of Some e \<Rightarrow> ret (res, Some e) | None \<Rightarrow> ret (res, err))
        else ret (res, err))) (\<lambda>_. wv_inv V) w'"
    if "managed (MaxJobHistory r) V finalizer (obj, w')" for obj w'
  proof -
    have wr: "wlp (bnd (writeStatus key obj') (\<lambda>updateErr. case updateErr of Some e \<Rightarrow> ret (res, Some e) | None \<Rightarrow> ret (res, err)))
        (\<lambda>_. wv_inv V) w''" if "system_ok (MaxJobHistory r) status_jobs V (obj', w'')" for obj' w'' res err
      unfolding wlp_bnd using that
      by (intro wlp_mono [OF write_law [OF c that]])
        (auto simp: wlp_ret advances_def system_ok_def split: option.split)
    have "wlp (with_object obj (if DeletionTimestamp (Meta obj) = None then handleUpdate else handleDelete))
        (\<lambda>(out, obj') w''. system_ok (MaxJobHistory r) status_jobs V (obj', w'')) w'"
      using handlers_ok [OF c x that] by (auto simp: wlp_def with_object_def split: option.splits prod.splits)
    then show ?thesis
      unfolding wlp_bnd [of "with_object _ _"]
      by (rule wlp_mono) (auto simp: wlp_ret wr system_ok_def split: prod.splits)
  qed
  show ?thesis
    unfolding reconcile_frame_def wlp_bnd [of "Get _ _"]
    by (rule wlp_mono [OF reads_managedD [OF api_lawsD(1) [OF D(7)] inv]])
      (use inv in \<open>auto simp: wlp_ret advances_def body split: sum.split\<close>)
qed

end

end
