(* ===== verification/Lifecycle_Properties.thy ===== *)
theory Lifecycle_Properties
  imports Reconcile_Laws
begin

text \<open>
  The properties of the lifecycle functions: what is decided when, that a configuration that is applied
  is left alone, that nothing is started while a job runs, that calls return, and that a job history
  stays well-formed with at most one running job of each type.

  The sample provider at the beginning numbers the jobs it starts and is used to show that the
  hypotheses can be met.
\<close>

section \<open>A sample provider\<close>

definition job_name :: "nat \<Rightarrow> string" where
  "job_name n = replicate n (CHR ''x'')"

text \<open>\<open>count\<close> reads the number of jobs started so far from the world, \<open>bump\<close> counts one more.\<close>

definition sample_provider :: "('w \<Rightarrow> nat) \<Rightarrow> ('w \<Rightarrow> 'w) \<Rightarrow> JobState \<Rightarrow> ('r, 'w) ProvisioningProvider" where
  "sample_provider count bump st =
     (let status = (\<lambda>r x w. Some (Inr \<lparr>ps_JobID = x, ps_State = st, ps_Message = '''', ps_Progress = 0,
            ps_StartTime = 0, ps_EndTime = 0, ps_ReconciledVersion = '''', ps_ErrorDetails = ''''\<rparr>, w)) in
      \<lparr>TriggerProvision = (\<lambda>r w. Some (Inr \<lparr>pr_JobID = job_name (Suc (count w)),
         pr_InitialState = JobStatePending, pr_Message = ''''\<rparr>, bump w)),
       GetProvisionStatus = status,
       TriggerDeprovision = (\<lambda>r js w. Some (Inr \<lparr>dr_Action = DeprovisionTriggered,
         dr_JobID = job_name (Suc (count w)), dr_BlockDeletionOnFailure = True,
         dr_ProvisionJobStatus = None\<rparr>, bump w)),
       GetDeprovisionStatus = status\<rparr>)"

definition sample_view :: "('w \<Rightarrow> nat) \<Rightarrow> ('w \<Rightarrow> ((string \<times> string) \<times> instant) set) \<Rightarrow> ('w \<Rightarrow> bool) \<Rightarrow> 'w world_view" where
  "sample_view count released winv =
     \<lparr>wv_now = (\<lambda>w. int (count w) * Second), wv_issued = (\<lambda>w. job_name ` {n. n \<le> count w}), wv_released = released,
      wv_inv = winv, wv_strict = True\<rparr>"

definition list_ref :: "JobStatus list JobsRef" where
  "list_ref = \<lparr>Jobs_get = (\<lambda>js. js), Jobs_set = (\<lambda>js _. js)\<rparr>"

definition list_state :: "string \<Rightarrow> JobStatus list State" where
  "list_state v = \<lparr>State_Jobs = list_ref, State_DesiredConfigVersion = v\<rparr>"

text \<open>An object of a kind with an empty spec.\<close>

definition sample_obj :: "instant option \<Rightarrow> string list \<Rightarrow> JobStatus list \<Rightarrow> (unit, unit) net_resource" where
  "sample_obj deleted fs js =
     \<lparr>Meta = \<lparr>Name = ''n'', Namespace = ''ns'', Labels = Map.empty, Annotations = Map.empty,
        Finalizers = fs, DeletionTimestamp = deleted\<rparr>,
      Spec = (),
      Status = \<lparr>Phase = PhaseReady, DesiredConfigVersion = ''v'', ProvisioningJobs = js, Conditions = []\<rparr>\<rparr>"

definition sample_history :: "JobState \<Rightarrow> JobStatus list" where
  "sample_history st =
     [sample_job (job_name 1) JobTypeProvision (1 * Second) JobStateSucceeded ''v'',
      sample_job (job_name 2) JobTypeDeprovision (2 * Second) st '''']"

lemma job_name_inj [simp]: "job_name m = job_name n \<longleftrightarrow> m = n"
  by (auto simp: job_name_def dest: arg_cong [where f = length])

lemma job_name_empty [simp]: "job_name n = '''' \<longleftrightarrow> n = 0" "'''' = job_name n \<longleftrightarrow> n = 0"
  by (auto simp: job_name_def)

lemma job_name_mem [simp]: "job_name n \<in> job_name ` A \<longleftrightarrow> n \<in> A"
  by auto

lemma sample_honest:
  assumes "\<And>w. count (bump w) = Suc (count w)" and "\<And>w. winv w \<Longrightarrow> winv (bump w)" and "\<And>w. released (bump w) = released w"
  shows "honest (sample_view count released winv) (sample_provider count bump st)"
  using assms
  by (auto simp: honest_def sample_provider_def sample_view_def wlp_def advances_def starts_job_def Let_def)

lemma sample_blocking:
  assumes "jobs_ref ref"
  shows "blocking_deprovisioning ref (sample_provider count bump st)"
  by (intro blocking_deprovisioning.intro blocking_deprovisioning_axioms.intro assms)
    (simp add: sample_provider_def wlp_def Let_def)

lemma sample_returns [simp]:
  "returns (TriggerProvision (sample_provider count bump st) r)"
  "returns (GetProvisionStatus (sample_provider count bump st) r x)"
  "returns (TriggerDeprovision (sample_provider count bump st) r js)"
  "returns (GetDeprovisionStatus (sample_provider count bump st) r x)"
  by (simp_all add: returns_def sample_provider_def Let_def)

lemma list_ref_simps [simp]:
  "Jobs_get list_ref js = js" "Jobs_set list_ref js' js = js'"
  "State_Jobs (list_state v) = list_ref" "State_DesiredConfigVersion (list_state v) = v"
  by (simp_all add: list_ref_def list_state_def)

interpretation lr: jobs_ref list_ref
  by unfold_locales simp

lemmas sample_simps = sample_job_def IsTerminal_def HasJobID_def FindLatestJobByType_def

lemma EvaluateAction_cases:
  assumes "EvaluateAction st chk (r, w) = Some ((a, j), s')"
    and "jobs = Jobs_get (State_Jobs st) r" and "latest = FindLatestJobByType jobs JobTypeProvision"
  shows "a = Skip \<longleftrightarrow> HasJobID latest \<and> IsConfigApplied jobs (State_DesiredConfigVersion st)"
    and "a = Poll \<longleftrightarrow> (\<exists>l. latest = Some l \<and> JobID l \<noteq> '''' \<and> \<not> IsTerminal (JobState l))"
    and "a = Backoff \<longleftrightarrow> (\<exists>l. latest = Some l \<and> JobID l \<noteq> '''' \<and> IsTerminal (JobState l) \<and>
       JobState l \<noteq> JobStateSucceeded \<and> ConfigVersion l = State_DesiredConfigVersion st)"
    and "a \<in> {Skip, Poll, Backoff} \<longrightarrow> j = latest \<and> s' = (r, w)"
    and "a = Trigger \<longrightarrow> chk (r, w) = Some (False, s') \<and> j = latest"
    and "a = Requeue \<longrightarrow> chk (r, w) = Some (True, s') \<and> j = None"
  using assms
  by (auto simp: EvaluateAction_planned planned_action_def IsConfigApplied_def HasJobID_def IsTerminal_def Let_def
        split: option.splits if_splits prod.splits)

section \<open>Properties\<close>

text \<open>
  C22: the decision of \<open>EvaluateAction\<close>. It skips exactly when the latest provisioning job has an identifier
  and the desired configuration is applied, polls exactly when that job is still running, and backs off
  exactly when that job ended without success on the desired configuration; in these cases the API
  server is not asked and nothing changes. Otherwise the API server is asked, and a job is triggered
  exactly when the server knows of no running one.
\<close>

theorem EvaluateAction_decides:
  assumes "EvaluateAction st chk (r, w) = Some ((a, j), s')"
    and "jobs = Jobs_get (State_Jobs st) r" and "latest = FindLatestJobByType jobs JobTypeProvision"
  shows "(a = Skip \<longleftrightarrow> HasJobID latest \<and> IsConfigApplied jobs (State_DesiredConfigVersion st)) \<and>
     (a = Poll \<longleftrightarrow> (\<exists>l. latest = Some l \<and> JobID l \<noteq> '''' \<and> \<not> IsTerminal (JobState l))) \<and>
     (a = Backoff \<longleftrightarrow> (\<exists>l. latest = Some l \<and> JobID l \<noteq> '''' \<and> IsTerminal (JobState l) \<and>
       JobState l \<noteq> JobStateSucceeded \<and> ConfigVersion l = State_DesiredConfigVersion st)) \<and>
     (a \<in> {Skip, Poll, Backoff} \<longrightarrow> j = latest \<and> s' = (r, w)) \<and>
     (a = Trigger \<longrightarrow> chk (r, w) = Some (False, s') \<and> j = latest) \<and>
     (a = Requeue \<longrightarrow> chk (r, w) = Some (True, s') \<and> j = None)"
  using EvaluateAction_cases [OF assms] by blast

theorem EvaluateAction_decides_witness:
  "EvaluateAction (list_state ''v'') panic ([sample_job ''1'' JobTypeProvision 1 JobStateRunning ''v''], ()) =
     Some ((Poll, Some (sample_job ''1'' JobTypeProvision 1 JobStateRunning ''v'')),
       ([sample_job ''1'' JobTypeProvision 1 JobStateRunning ''v''], ())) \<and>
   (\<exists>l. Some (sample_job ''1'' JobTypeProvision 1 JobStateRunning ''v'') = Some l \<and> JobID l \<noteq> '''' \<and>
      \<not> IsTerminal (JobState l))"
proof -
  have e: "EvaluateAction (list_state ''v'') panic ([sample_job ''1'' JobTypeProvision 1 JobStateRunning ''v''], ()) =
     Some ((Poll, Some (sample_job ''1'' JobTypeProvision 1 JobStateRunning ''v'')),
       ([sample_job ''1'' JobTypeProvision 1 JobStateRunning ''v''], ()))"
    by (simp add: EvaluateAction_planned planned_action_def sample_simps)
  with EvaluateAction_decides [OF e refl refl] show ?thesis by (simp add: sample_simps)
qed

text \<open>
  Reconciling a configuration that is applied changes nothing and calls nothing: the lifecycle
  returns at once with an empty result, whatever the provider, the callbacks and the API server are.
\<close>

theorem applied_configuration_left_alone:
  assumes "FindLatestJobByType (Jobs_get (State_Jobs st) r) JobTypeProvision = Some l" and "JobID l \<noteq> ''''"
    and "IsConfigApplied (Jobs_get (State_Jobs st) r) (State_DesiredConfigVersion st)"
  shows "RunProvisioningLifecycle now provider st mh poll callbacks chk statusFlush (r, w) =
     Some ((no_requeue, None), (r, w))"
  using assms planned_action_Skip [of "Jobs_get (State_Jobs st) r" "State_DesiredConfigVersion st"]
  by (simp add: RunProvisioningLifecycle_def EvaluateAction_planned HasJobID_def Let_def go_simps)

theorem applied_configuration_left_alone_witness:
  "RunProvisioningLifecycle int (sample_provider id Suc JobStateRunning) (list_state ''v'') 10 Minute None panic None
     ([sample_job ''1'' JobTypeProvision 1 JobStateSucceeded ''v''], 7) =
   Some ((no_requeue, None), ([sample_job ''1'' JobTypeProvision 1 JobStateSucceeded ''v''], 7))"
  by (rule applied_configuration_left_alone [of _ _ "sample_job ''1'' JobTypeProvision 1 JobStateSucceeded ''v''"])
    (simp_all add: sample_simps IsConfigApplied_def)

text \<open>
  C23: while the latest provisioning job runs, the lifecycle starts nothing: its behaviour does not depend on
  how the provider triggers jobs, on the API server check, on the status flush or on the bound of the
  history; it only polls. The entry of the job has to have an identifier: the code treats an entry without one as no
  job.
\<close>

theorem no_second_job_while_running:
  assumes "FindLatestJobByType (Jobs_get (State_Jobs st) r) JobTypeProvision = Some l"
    and "JobID l \<noteq> ''''" and "\<not> IsTerminal (JobState l)"
  shows "RunProvisioningLifecycle now provider st mh poll callbacks chk flush (r, w) =
     RunProvisioningLifecycle now (provider\<lparr>TriggerProvision := f, TriggerDeprovision := g\<rparr>) st mh' poll callbacks
       chk' flush' (r, w)"
  using assms
  by (simp add: RunProvisioningLifecycle_def EvaluateAction_planned planned_action_def Let_def go_simps PollJob_def)

theorem no_second_job_while_running_witness:
  "RunProvisioningLifecycle int (sample_provider id Suc JobStateRunning) (list_state ''w'') 10 Minute None panic None
     ([sample_job ''1'' JobTypeProvision 1 JobStateRunning ''v''], 7) =
   RunProvisioningLifecycle int ((sample_provider id Suc JobStateRunning)
       \<lparr>TriggerProvision := (\<lambda>r. panic), TriggerDeprovision := (\<lambda>r js. panic)\<rparr>) (list_state ''w'') 0 Minute None panic None
     ([sample_job ''1'' JobTypeProvision 1 JobStateRunning ''v''], 7)"
  by (rule no_second_job_while_running [of _ _ "sample_job ''1'' JobTypeProvision 1 JobStateRunning ''v''"])
    (simp_all add: sample_simps)

text \<open>
  Every branch of \<open>TriggerJob\<close>. A rate limit is not an error: the job is tried again after the time
  given. Any other failure is reported with its cause and leaves the resource as it was. A started job
  is recorded as the newest one, with the desired configuration and the time after the call.
\<close>

theorem TriggerJob_branches:
  assumes "TriggerProvision provider r w = Some (res, w')" and "0 < mh"
  shows "TriggerJob now provider st mh poll (r, w) =
     (case res of
        Inl err \<Rightarrow>
          (case AsRateLimitError err of
             Some d \<Rightarrow> Some ((requeue_after d, None), (r, w'))
           | None \<Rightarrow> Some ((no_requeue, Some (Wrapf ''failed to trigger provision: %w'' [] err)), (r, w')))
      | Inr p \<Rightarrow>
          Some ((requeue_after poll, None),
            (Jobs_set (State_Jobs st)
               (drop (Suc (length (Jobs_get (State_Jobs st) r)) - nat mh) (Jobs_get (State_Jobs st) r) @
                [\<lparr>JobID = pr_JobID p, JobType = JobTypeProvision, Timestamp = now w',
                  JobState = pr_InitialState p, Message = pr_Message p, BlockDeletionOnFailure = False,
                  ConfigVersion = State_DesiredConfigVersion st\<rparr>]) r, w')))"
proof (cases res)
  case (Inl err)
  with assms(1) show ?thesis by (simp add: TriggerJob_def go_simps split: option.split)
next
  case (Inr p)
  let ?jobs = "Jobs_get (State_Jobs st) r"
  let ?j = "provision_job (State_DesiredConfigVersion st) p (now w')"
  have app: "AppendJob ?jobs ?j mh = Some (drop (Suc (length ?jobs) - nat mh) ?jobs @ [?j])"
    using assms(2) by (auto simp: AppendJob_def Let_def)
  have "FindLatestJobByType (drop (Suc (length ?jobs) - nat mh) ?jobs @ [?j]) JobTypeProvision \<noteq> None"
    using AppendJob_latest [OF app assms(2)] by (simp add: provision_job_def)
  with Inr assms(1) app show ?thesis
    by (auto simp: TriggerJob_def go_simps read_jobs_def write_jobs_def read_clock_def provision_job_def)
qed

theorem TriggerJob_branches_witness:
  "TriggerJob int (sample_provider id Suc JobStateRunning) (list_state ''w'') 1 Minute
     ([sample_job ''1'' JobTypeProvision 1 JobStateFailed ''v''], 2) =
   Some ((requeue_after Minute, None), ([\<lparr>JobID = job_name 3, JobType = JobTypeProvision, Timestamp = 3,
      JobState = JobStatePending, Message = '''', BlockDeletionOnFailure = False, ConfigVersion = ''w''\<rparr>], 3))"
proof -
  have "TriggerProvision (sample_provider id Suc JobStateRunning) [sample_job ''1'' JobTypeProvision 1 JobStateFailed ''v''] 2 =
    Some (Inr \<lparr>pr_JobID = job_name 3, pr_InitialState = JobStatePending, pr_Message = ''''\<rparr>, 3)"
    by (simp add: sample_provider_def Let_def numeral_3_eq_3)
  from TriggerJob_branches [OF this, of 1 int "list_state ''w''" Minute] show ?thesis by simp
qed

text \<open>
  C24: one call of the provisioning lifecycle always returns, given a positive history bound, a provider,
  callbacks, a server check and a status flush that return: no branch dereferences a missing job.
\<close>

theorem RunProvisioningLifecycle_returns:
  assumes "0 < mh" and "\<And>x. returns (TriggerProvision provider x)" and "\<And>x y. returns (GetProvisionStatus provider x y)"
    and "callbacks_return callbacks" and "returns chk" and "\<And>m. statusFlush = Some m \<Longrightarrow> returns m"
  shows "\<exists>out s'. RunProvisioningLifecycle now provider st mh poll callbacks chk statusFlush s = Some (out, s')"
proof -
  note trig = trigger_and_flush_returns [OF assms(1,2,6), where now = now and st = st and poll = poll]
  note polled = PollJob_returns [OF assms(3,4), where st = st and poll = poll]
  have retry: "returns (HandleBackoff n jobs v l (trigger_and_flush now provider st mh poll statusFlush))" for n jobs v l
    unfolding HandleBackoff_def Let_def by (rule returns_bnd) (simp_all add: trig)
  obtain r w where s: "s = (r, w)" by (cases s)
  obtain a j s1 where e: "EvaluateAction st chk (r, w) = Some ((a, j), s1)"
  proof -
    have "chk (r, w) \<noteq> None" using assms(5) by (simp add: returns_def)
    then show ?thesis using that by (force simp: EvaluateAction_planned Let_def split: option.splits prod.splits)
  qed
  have "a \<in> {Poll, Backoff} \<Longrightarrow> j \<noteq> None"
    using EvaluateAction_cases [OF e refl refl] by auto
  then have "returns (case a of Skip \<Rightarrow> ret (no_requeue, None)
      | Trigger \<Rightarrow> trigger_and_flush now provider st mh poll statusFlush
      | Requeue \<Rightarrow> ret (requeue_after poll, None)
      | Backoff \<Rightarrow> (case j of None \<Rightarrow> panic | Some l \<Rightarrow> bnd (read_jobs (State_Jobs st)) (\<lambda>jobs.
          HandleBackoff (\<lambda>(r, w). now w) jobs (State_DesiredConfigVersion st) l
            (trigger_and_flush now provider st mh poll statusFlush)))
      | Poll \<Rightarrow> (case j of None \<Rightarrow> panic | Some l \<Rightarrow> PollJob provider st l poll callbacks))"
    using trig polled retry by (cases a) (auto intro!: returns_bnd)
  then show ?thesis
    unfolding s RunProvisioningLifecycle_def bnd_apply e Let_def option.case prod.case by (rule returnsD)
qed

theorem RunProvisioningLifecycle_returns_witness:
  "\<exists>out s'. RunProvisioningLifecycle int (sample_provider id Suc JobStateRunning) (list_state ''v'') 10 Minute None
     (ret False) None ([], 0) = Some (out, s')"
  by (rule RunProvisioningLifecycle_returns) (simp_all add: callbacks_return_def)

text \<open>
  One call of the deprovisioning lifecycle always returns, given a positive history bound and a
  provider that returns.
\<close>

theorem RunDeprovisioningLifecycle_returns:
  assumes "0 < mh" and "\<And>x js. returns (TriggerDeprovision provider x js)"
    and "\<And>x y. returns (GetDeprovisionStatus provider x y)"
  shows "\<exists>out s'. RunDeprovisioningLifecycle now provider ref mh poll s = Some (out, s')"
proof -
  note trig = TriggerDeprovisionJob_returns [OF assms(1,2), where now = now and ref = ref and poll = poll]
  note retry = handleDeprovisionBackoff_returns [OF assms(1,2), where now = now and ref = ref and poll = poll]
  have "returns (PollDeprovisionJob now provider ref l mh poll)" for l
    unfolding PollDeprovisionJob_def Let_def
    by (auto simp: assms(3) retry split: sum.split intro!: returns_bnd)
  then have "returns (RunDeprovisioningLifecycle now provider ref mh poll)"
    unfolding RunDeprovisioningLifecycle_def
    by (auto simp: trig split: option.split prod.split intro!: returns_bnd)
  then show ?thesis by (rule returnsD)
qed

theorem RunDeprovisioningLifecycle_returns_witness:
  "\<exists>out s'. RunDeprovisioningLifecycle int (sample_provider id Suc JobStateRunning) list_ref 10 Minute ([], 0) =
     Some (out, s')"
  by (rule RunDeprovisioningLifecycle_returns) simp_all

lemma sample_history_ok:
  "2 \<le> mh \<Longrightarrow> 2 \<le> n \<Longrightarrow> system_ok mh status_jobs (sample_view id (\<lambda>_. {}) (\<lambda>_. True)) (sample_obj d fs (sample_history st), n)"
  by (auto simp: system_ok_def history_ok_def sample_view_def sample_obj_def sample_history_def sample_job_def
      older_terminal_def all_blocking_def)

text \<open>
  C18: the provisioning lifecycle keeps the history of a resource well-formed: bounded, with distinct
  non-empty identifiers the provider issued, in the order of time, and never more than one running job
  of each type. The provider may do anything an honest provider does; the clock, the set of issued
  identifiers and the invariant of the world are those of the view \<open>V\<close>.
\<close>

theorem provisioning_keeps_history:
  assumes "system_ok mh status_jobs V (obj, w)" and "0 < mh" and "honest V provider"
    and "quiet_callbacks mh status_jobs V callbacks" and "quiet mh status_jobs V checkAPIServer"
    and "\<forall>m. statusFlush = Some m \<longrightarrow> quiet mh status_jobs V m"
    and "RunProvisioningLifecycle (wv_now V) provider
       \<lparr>State_Jobs = status_jobs, State_DesiredConfigVersion = v\<rparr> mh poll callbacks checkAPIServer statusFlush (obj, w) =
       Some (out, (obj', w'))"
  shows "system_ok mh status_jobs V (obj', w') \<and>
     length (running_jobs t (ProvisioningJobs (Status obj'))) \<le> 1"
proof -
  have ok: "system_ok mh status_jobs V (obj', w')"
    using wlpD [OF sj.RunProvisioningLifecycle_ok [OF assms(1-3) _ assms(4-6)] assms(7)] by simp
  moreover have "older_terminal t (ProvisioningJobs (Status obj'))"
    using ok by (cases t) (simp_all add: system_ok_def history_ok_def)
  ultimately show ?thesis by (blast intro: older_terminal_running)
qed

theorem provisioning_keeps_history_witness:
  "\<exists>out obj' w'. RunProvisioningLifecycle (wv_now (sample_view id (\<lambda>_. {}) (\<lambda>_. True))) (sample_provider id Suc JobStateRunning)
       \<lparr>State_Jobs = status_jobs, State_DesiredConfigVersion = ''w''\<rparr> 10 Minute None (ret False) None
       (sample_obj None [] (sample_history JobStateFailed), 2) = Some (out, (obj', w')) \<and>
     ProvisioningJobs (Status obj') = sample_history JobStateFailed @
       [\<lparr>JobID = job_name 3, JobType = JobTypeProvision, Timestamp = 3 * Second, JobState = JobStatePending,
         Message = '''', BlockDeletionOnFailure = False, ConfigVersion = ''w''\<rparr>] \<and>
     system_ok 10 status_jobs (sample_view id (\<lambda>_. {}) (\<lambda>_. True)) (obj', w') \<and>
     length (running_jobs JobTypeProvision (ProvisioningJobs (Status obj'))) \<le> 1"
proof -
  obtain out obj' w' where run: "RunProvisioningLifecycle (wv_now (sample_view id (\<lambda>_. {}) (\<lambda>_. True)))
       (sample_provider id Suc JobStateRunning) \<lparr>State_Jobs = status_jobs, State_DesiredConfigVersion = ''w''\<rparr>
       10 Minute None (ret False) None (sample_obj None [] (sample_history JobStateFailed), 2) = Some (out, (obj', w'))"
    and jobs: "ProvisioningJobs (Status obj') = sample_history JobStateFailed @
       [\<lparr>JobID = job_name 3, JobType = JobTypeProvision, Timestamp = 3 * Second, JobState = JobStatePending,
         Message = '''', BlockDeletionOnFailure = False, ConfigVersion = ''w''\<rparr>]"
    by (simp add: RunProvisioningLifecycle_def EvaluateAction_planned planned_action_def trigger_and_flush_def
        TriggerJob_def go_simps read_jobs_def write_jobs_def read_clock_def sample_provider_def sample_view_def
        sample_obj_def sample_history_def sample_job_def IsTerminal_def FindLatestJobByType_def AppendJob_def
        provision_job_def status_jobs_def map_status_def Let_def job_name_def numeral_3_eq_3 numeral_2_eq_2)
  have "system_ok 10 status_jobs (sample_view id (\<lambda>_. {}) (\<lambda>_. True)) (obj', w') \<and>
     length (running_jobs JobTypeProvision (ProvisioningJobs (Status obj'))) \<le> 1"
    by (rule provisioning_keeps_history [OF sample_history_ok _ sample_honest _ _ _ run])
      (simp_all add: quiet_callbacks_def)
  with run jobs show ?thesis by blast
qed

text \<open>
  C19: when the deprovisioning lifecycle reports that it is done, the newest deprovisioning job of the
  resource has ended, successfully unless it was allowed to fail; the result asks for nothing more and
  carries no error, and the history is still well-formed.
\<close>

theorem deprovisioning_done_means_deprovisioned:
  assumes "system_ok mh status_jobs V (obj, w)" and "0 < mh" and "honest V provider"
    and "RunDeprovisioningLifecycle (wv_now V) provider status_jobs mh poll (obj, w) = Some ((res, True, err), (obj', w'))"
  shows "err = None \<and> res = no_requeue \<and> system_ok mh status_jobs V (obj', w') \<and>
     (\<exists>l. FindLatestJobByType (ProvisioningJobs (Status obj')) JobTypeDeprovision = Some l \<and>
        (JobState l = JobStateSucceeded \<or> IsTerminal (JobState l) \<and> \<not> BlockDeletionOnFailure l))"
  using wlpD [OF sj.RunDeprovisioningLifecycle_ok [OF assms(1-3)] assms(4)]
  by (auto simp: deprov_post_def deprovisioned_def IsSuccessful_def split: option.splits)

theorem deprovisioning_done_means_deprovisioned_witness:
  "RunDeprovisioningLifecycle (wv_now (sample_view id (\<lambda>_. {}) (\<lambda>_. True))) (sample_provider id Suc JobStateSucceeded) status_jobs 10 Minute
       (sample_obj None [] (sample_history JobStateRunning), 2) =
     Some ((no_requeue, True, None), (sample_obj None [] (sample_history JobStateSucceeded), 2)) \<and>
   (\<exists>l. FindLatestJobByType (ProvisioningJobs (Status (sample_obj None [] (sample_history JobStateSucceeded)))) JobTypeDeprovision = Some l \<and>
        (JobState l = JobStateSucceeded \<or> IsTerminal (JobState l) \<and> \<not> BlockDeletionOnFailure l))"
proof -
  have run: "RunDeprovisioningLifecycle (wv_now (sample_view id (\<lambda>_. {}) (\<lambda>_. True))) (sample_provider id Suc JobStateSucceeded) status_jobs 10 Minute
       (sample_obj None [] (sample_history JobStateRunning), 2) =
     Some ((no_requeue, True, None), (sample_obj None [] (sample_history JobStateSucceeded), 2))"
    by (simp add: RunDeprovisioningLifecycle_def PollDeprovisionJob_def
        go_simps read_jobs_def write_jobs_def update_job_def UpdateJob_def FindJobByID_def sample_provider_def
        sample_obj_def sample_history_def sample_job_def IsTerminal_def IsSuccessful_def FindLatestJobByType_def
        HasJobID_def MessageWithDetails_def status_jobs_def map_status_def Let_def job_name_def numeral_2_eq_2)
  show ?thesis
    using deprovisioning_done_means_deprovisioned [OF sample_history_ok _ sample_honest run] run by simp
qed

end
