(* ===== verification/Networks.thy ===== *)
theory Networks
  imports Reconcile_Laws
begin

text \<open>
  The controllers of VirtualNetwork, Subnet, SecurityGroup and NATGateway
  (\<^verbatim>\<open>internal/controller/virtualnetwork_controller.go\<close>, \<^verbatim>\<open>subnet_controller.go\<close>,
  \<^verbatim>\<open>securitygroup_controller.go\<close>, \<^verbatim>\<open>natgateway_controller.go\<close> and their types under
  \<^verbatim>\<open>api/v1alpha1\<close>). Each has its spec and status, the JSON form of its spec, its constructor and its
  handlers; the parts the four share are in the theory on the API. Each is an instance of the contract
  \<open>networking_controller\<close>.
\<close>

section \<open>VirtualNetwork\<close>

record VirtualNetworkSpec =
  vn_Region :: string
  vn_IPv4CIDR :: string
  vn_IPv6CIDR :: string
  vn_NetworkClass :: string
  vn_ImplementationStrategy :: string

record VirtualNetworkStatus = net_status +
  vn_BackendNetworkID :: string

type_synonym VirtualNetwork = "(VirtualNetworkSpec, VirtualNetworkStatus) resource"
type_synonym 'w VirtualNetworkReconciler = "(VirtualNetworkSpec, VirtualNetworkStatus, 'w) Reconciler"

definition VirtualNetworkSpec_JSON :: "VirtualNetworkSpec \<Rightarrow> (string \<times> json) list" where
  "VirtualNetworkSpec_JSON spec =
     field ''region'' (JStr (vn_Region spec)) @
     omitempty_string ''ipv4Cidr'' (vn_IPv4CIDR spec) @
     omitempty_string ''ipv6Cidr'' (vn_IPv6CIDR spec) @
     omitempty_string ''networkClass'' (vn_NetworkClass spec) @
     omitempty_string ''implementationStrategy'' (vn_ImplementationStrategy spec)"

definition osacVirtualNetworkFinalizer :: string where
  "osacVirtualNetworkFinalizer = ''osac.openshift.io/virtualnetwork-finalizer''"

definition NewVirtualNetworkReconciler ::
  "('w k8s \<times> (VirtualNetworkSpec, VirtualNetworkStatus, 'w) kclient) option \<Rightarrow>
   (VirtualNetwork, 'w) ProvisioningProvider option \<Rightarrow> duration \<Rightarrow> int \<Rightarrow>
   'w VirtualNetworkReconciler option"
where
  "NewVirtualNetworkReconciler = NewReconciler"

definition VirtualNetwork_writeStatus ::
  "'w VirtualNetworkReconciler \<Rightarrow> VirtualNetwork \<Rightarrow> ('w, gerror option) go"
where
  "VirtualNetwork_writeStatus r vnet = updateStatusWithRetry r (ObjectKeyFromObject vnet) (Status vnet)"

definition VirtualNetwork_handleProvisioning ::
  "'w VirtualNetworkReconciler \<Rightarrow> (VirtualNetwork \<times> 'w, outcome) go"
where
  "VirtualNetwork_handleProvisioning r =
     run_provisioning r (phase_callbacks (Lib r)) (VirtualNetwork_writeStatus r)"

definition VirtualNetwork_handleUpdate ::
  "'w VirtualNetworkReconciler \<Rightarrow> (VirtualNetwork \<times> 'w, outcome) go"
where
  "VirtualNetwork_handleUpdate r =
     add_finalizer r osacVirtualNetworkFinalizer False
       (bnd phase_progressing_if_unset (\<lambda>_.
        bnd get_res (\<lambda>vnet.
          let strategy = vn_ImplementationStrategy (Spec vnet) in
          if strategy = '''' then ret (requeue_after defaultPreconditionRequeueInterval, None)
          else if lookup_string (Annotations (Meta vnet)) osacImplementationStrategyAnnotation \<noteq> strategy then
            annotate r osacImplementationStrategyAnnotation strategy
          else
            (case ComputeDesiredConfigVersion (Inr (json_Marshal (JObj (VirtualNetworkSpec_JSON (Spec vnet))))) of
               Inl err \<Rightarrow>
                 ret (no_requeue, Some (Wrapf ''failed to compute desired config version: %w'' [] err))
             | Inr desiredVersion \<Rightarrow>
                 bnd (set_desired_version desiredVersion) (\<lambda>_.
                 bnd phase_progressing_if_changed (\<lambda>_.
                 VirtualNetwork_handleProvisioning r))))))"

definition VirtualNetwork_handleDelete ::
  "'w VirtualNetworkReconciler \<Rightarrow> (VirtualNetwork \<times> 'w, outcome) go"
where
  "VirtualNetwork_handleDelete r =
     delete_frame r osacVirtualNetworkFinalizer (release_if_present r osacVirtualNetworkFinalizer)"

definition VirtualNetwork_Reconcile ::
  "'w VirtualNetworkReconciler \<Rightarrow> ObjectKey \<Rightarrow> ('w, outcome) go"
where
  "VirtualNetwork_Reconcile r key =
     reconcile_frame r (VirtualNetwork_handleUpdate r) (VirtualNetwork_handleDelete r)
       (VirtualNetwork_writeStatus r) key"

section \<open>Subnet\<close>

record SubnetSpec =
  sn_VirtualNetwork :: string
  sn_IPv4CIDR :: string
  sn_IPv6CIDR :: string

record SubnetStatus = net_status +
  sn_BackendNetworkID :: string

type_synonym Subnet = "(SubnetSpec, SubnetStatus) resource"

record 'w SubnetReconciler = "(SubnetSpec, SubnetStatus, 'w) Reconciler" +
  sn_List_VirtualNetworks :: "string \<Rightarrow> string \<times> string \<Rightarrow> ('w, gerror + VirtualNetwork list) go"

definition SubnetSpec_JSON :: "SubnetSpec \<Rightarrow> (string \<times> json) list" where
  "SubnetSpec_JSON spec =
     field ''virtualNetwork'' (JStr (sn_VirtualNetwork spec)) @
     omitempty_string ''ipv4Cidr'' (sn_IPv4CIDR spec) @
     omitempty_string ''ipv6Cidr'' (sn_IPv6CIDR spec)"

definition osacSubnetFinalizer :: string where
  "osacSubnetFinalizer = ''osac.openshift.io/subnet-finalizer''"

definition NewSubnetReconciler ::
  "('w k8s \<times> (SubnetSpec, SubnetStatus, 'w) kclient) option \<Rightarrow>
   (string \<Rightarrow> string \<times> string \<Rightarrow> ('w, gerror + VirtualNetwork list) go) \<Rightarrow>
   (Subnet, 'w) ProvisioningProvider option \<Rightarrow> duration \<Rightarrow> int \<Rightarrow> 'w SubnetReconciler option"
where
  "NewSubnetReconciler mgr list provisioningProvider statusPollInterval maxJobHistory =
     (case mgr of
        None \<Rightarrow> None
      | Some (lib, client) \<Rightarrow>
          Some \<lparr>Lib = lib, Client = client, ProvisioningProvider = provisioningProvider,
                StatusPollInterval = default_poll statusPollInterval,
                MaxJobHistory = default_history maxJobHistory, sn_List_VirtualNetworks = list\<rparr>)"

definition Subnet_writeStatus :: "'w SubnetReconciler \<Rightarrow> Subnet \<Rightarrow> ('w, gerror option) go" where
  "Subnet_writeStatus r subnet = updateStatusWithRetry r (ObjectKeyFromObject subnet) (Status subnet)"

definition Subnet_handleProvisioning :: "'w SubnetReconciler \<Rightarrow> (Subnet \<times> 'w, outcome) go" where
  "Subnet_handleProvisioning r = run_provisioning r (phase_callbacks (Lib r)) (Subnet_writeStatus r)"

definition Subnet_handleUpdate :: "'w SubnetReconciler \<Rightarrow> (Subnet \<times> 'w, outcome) go" where
  "Subnet_handleUpdate r =
     add_finalizer r osacSubnetFinalizer False
       (bnd phase_progressing_if_unset (\<lambda>_.
        bnd get_res (\<lambda>subnet.
        bnd (on_world (sn_List_VirtualNetworks r (Namespace (Meta subnet))
               (osacVirtualNetworkIDLabel, sn_VirtualNetwork (Spec subnet)))) (\<lambda>vnetList.
          case vnetList of
            Inl err \<Rightarrow> ret (no_requeue, Some err)
          | Inr [] \<Rightarrow> ret (requeue_after defaultPreconditionRequeueInterval, None)
          | Inr (vnet # _) \<Rightarrow>
              (let strategy = vn_ImplementationStrategy (Spec vnet) in
               if strategy = '''' then ret (requeue_after defaultPreconditionRequeueInterval, None)
               else if lookup_string (Annotations (Meta subnet)) osacImplementationStrategyAnnotation \<noteq> strategy then
                 annotate r osacImplementationStrategyAnnotation strategy
               else
                 (case ComputeDesiredConfigVersion
                         (Inr (json_Marshal (versioned_struct (SubnetSpec_JSON (Spec subnet)) strategy))) of
                    Inl err \<Rightarrow>
                      ret (no_requeue, Some (Wrapf ''failed to compute desired config version: %w'' [] err))
                  | Inr desiredVersion \<Rightarrow>
                      bnd (set_desired_version desiredVersion) (\<lambda>_.
                      bnd phase_progressing_if_changed (\<lambda>_.
                      Subnet_handleProvisioning r))))))))"

definition Subnet_handleDelete :: "'w SubnetReconciler \<Rightarrow> (Subnet \<times> 'w, outcome) go" where
  "Subnet_handleDelete r = delete_frame r osacSubnetFinalizer (release_if_present r osacSubnetFinalizer)"

definition Subnet_Reconcile :: "'w SubnetReconciler \<Rightarrow> ObjectKey \<Rightarrow> ('w, outcome) go" where
  "Subnet_Reconcile r key =
     reconcile_frame r (Subnet_handleUpdate r) (Subnet_handleDelete r) (Subnet_writeStatus r) key"

section \<open>SecurityGroup\<close>

record SecurityRule =
  Protocol :: string
  PortFrom :: "int option"
  PortTo :: "int option"
  SourceCIDR :: string
  DestinationCIDR :: string

record SecurityGroupSpec =
  sg_VirtualNetwork :: string
  sg_ImplementationStrategy :: string
  IngressRules :: "SecurityRule list"
  EgressRules :: "SecurityRule list"

record SecurityGroupStatus = net_status +
  BackendSecurityGroupID :: string

type_synonym SecurityGroup = "(SecurityGroupSpec, SecurityGroupStatus) resource"
type_synonym 'w SecurityGroupReconciler = "(SecurityGroupSpec, SecurityGroupStatus, 'w) Reconciler"

definition SecurityRule_JSON :: "SecurityRule \<Rightarrow> json" where
  "SecurityRule_JSON rule =
     JObj (field ''protocol'' (JStr (Protocol rule)) @
           omitempty_ptr ''portFrom'' (map_option JNum (PortFrom rule)) @
           omitempty_ptr ''portTo'' (map_option JNum (PortTo rule)) @
           omitempty_string ''sourceCidr'' (SourceCIDR rule) @
           omitempty_string ''destinationCidr'' (DestinationCIDR rule))"

definition SecurityGroupSpec_JSON :: "SecurityGroupSpec \<Rightarrow> (string \<times> json) list" where
  "SecurityGroupSpec_JSON spec =
     field ''virtualNetwork'' (JStr (sg_VirtualNetwork spec)) @
     omitempty_string ''implementationStrategy'' (sg_ImplementationStrategy spec) @
     omitempty_list ''ingressRules'' (map SecurityRule_JSON (IngressRules spec)) @
     omitempty_list ''egressRules'' (map SecurityRule_JSON (EgressRules spec))"

definition osacSecurityGroupFinalizer :: string where
  "osacSecurityGroupFinalizer = ''osac.openshift.io/securitygroup-finalizer''"

definition defaultSecurityGroupImplementationStrategy :: string where
  "defaultSecurityGroupImplementationStrategy = ''network_policy''"

definition NewSecurityGroupReconciler ::
  "('w k8s \<times> (SecurityGroupSpec, SecurityGroupStatus, 'w) kclient) option \<Rightarrow>
   (SecurityGroup, 'w) ProvisioningProvider option \<Rightarrow> duration \<Rightarrow> int \<Rightarrow>
   'w SecurityGroupReconciler option"
where
  "NewSecurityGroupReconciler = NewReconciler"

definition SecurityGroup_writeStatus ::
  "'w SecurityGroupReconciler \<Rightarrow> SecurityGroup \<Rightarrow> ('w, gerror option) go"
where
  "SecurityGroup_writeStatus r sg = updateStatusWithRetry r (ObjectKeyFromObject sg) (Status sg)"

definition SecurityGroup_handleProvisioning ::
  "'w SecurityGroupReconciler \<Rightarrow> (SecurityGroup \<times> 'w, outcome) go"
where
  "SecurityGroup_handleProvisioning r =
     run_provisioning r (phase_callbacks (Lib r)) (SecurityGroup_writeStatus r)"

definition SecurityGroup_handleUpdate ::
  "'w SecurityGroupReconciler \<Rightarrow> (SecurityGroup \<times> 'w, outcome) go"
where
  "SecurityGroup_handleUpdate r =
     add_finalizer r osacSecurityGroupFinalizer True
       (bnd phase_progressing_if_unset (\<lambda>_.
        bnd get_res (\<lambda>sg.
          let strategy = (if sg_ImplementationStrategy (Spec sg) = ''''
                          then defaultSecurityGroupImplementationStrategy
                          else sg_ImplementationStrategy (Spec sg)) in
          if lookup_string (Annotations (Meta sg)) osacImplementationStrategyAnnotation \<noteq> strategy then
            annotate r osacImplementationStrategyAnnotation strategy
          else
            (case ComputeDesiredConfigVersion
                    (Inr (json_Marshal (versioned_struct (SecurityGroupSpec_JSON (Spec sg)) strategy))) of
               Inl err \<Rightarrow>
                 ret (no_requeue, Some (Wrapf ''failed to compute desired config version: %w'' [] err))
             | Inr desiredVersion \<Rightarrow>
                 bnd (set_desired_version desiredVersion) (\<lambda>_.
                 bnd phase_progressing_if_changed (\<lambda>_.
                 SecurityGroup_handleProvisioning r))))))"

definition SecurityGroup_handleDelete ::
  "'w SecurityGroupReconciler \<Rightarrow> (SecurityGroup \<times> 'w, outcome) go"
where
  "SecurityGroup_handleDelete r =
     delete_frame r osacSecurityGroupFinalizer (release_always r osacSecurityGroupFinalizer)"

definition SecurityGroup_Reconcile ::
  "'w SecurityGroupReconciler \<Rightarrow> ObjectKey \<Rightarrow> ('w, outcome) go"
where
  "SecurityGroup_Reconcile r key =
     reconcile_frame r (SecurityGroup_handleUpdate r) (SecurityGroup_handleDelete r)
       (SecurityGroup_writeStatus r) key"

section \<open>NATGateway\<close>

record NATGatewaySpec =
  ng_VirtualNetwork :: string
  ng_ExternalIP :: string

type_synonym NATGatewayStatus = net_status
type_synonym NATGateway = "(NATGatewaySpec, NATGatewayStatus) resource"

record 'w NATGatewayReconciler = "(NATGatewaySpec, NATGatewayStatus, 'w) Reconciler" +
  ng_List_VirtualNetworks :: "string \<Rightarrow> string \<times> string \<Rightarrow> ('w, gerror + VirtualNetwork list) go"

definition NATGatewaySpec_JSON :: "NATGatewaySpec \<Rightarrow> (string \<times> json) list" where
  "NATGatewaySpec_JSON spec =
     field ''virtualNetwork'' (JStr (ng_VirtualNetwork spec)) @
     field ''externalIP'' (JStr (ng_ExternalIP spec))"

definition osacNATGatewayFinalizer :: string where
  "osacNATGatewayFinalizer = ''osac.openshift.io/natgateway-finalizer''"

definition NewNATGatewayReconciler ::
  "('w k8s \<times> (NATGatewaySpec, NATGatewayStatus, 'w) kclient) option \<Rightarrow>
   (string \<Rightarrow> string \<times> string \<Rightarrow> ('w, gerror + VirtualNetwork list) go) \<Rightarrow>
   (NATGateway, 'w) ProvisioningProvider option \<Rightarrow> duration \<Rightarrow> int \<Rightarrow> 'w NATGatewayReconciler option"
where
  "NewNATGatewayReconciler mgr list provisioningProvider statusPollInterval maxJobHistory =
     (case mgr of
        None \<Rightarrow> None
      | Some (lib, client) \<Rightarrow>
          Some \<lparr>Lib = lib, Client = client, ProvisioningProvider = provisioningProvider,
                StatusPollInterval = default_poll statusPollInterval,
                MaxJobHistory = default_history maxJobHistory, ng_List_VirtualNetworks = list\<rparr>)"

definition NATGateway_writeStatus :: "'w NATGatewayReconciler \<Rightarrow> NATGateway \<Rightarrow> ('w, gerror option) go" where
  "NATGateway_writeStatus r natgw = updateStatusWithRetry r (ObjectKeyFromObject natgw) (Status natgw)"

definition NATGateway_handleProvisioning :: "'w NATGatewayReconciler \<Rightarrow> (NATGateway \<times> 'w, outcome) go" where
  "NATGateway_handleProvisioning r =
     run_provisioning r (phase_callbacks (Lib r)) (NATGateway_writeStatus r)"

definition NATGateway_handleUpdate :: "'w NATGatewayReconciler \<Rightarrow> (NATGateway \<times> 'w, outcome) go" where
  "NATGateway_handleUpdate r =
     add_finalizer r osacNATGatewayFinalizer False
       (bnd phase_progressing_if_unset (\<lambda>_.
        bnd get_res (\<lambda>natgw.
        bnd (on_world (ng_List_VirtualNetworks r (Namespace (Meta natgw))
               (osacVirtualNetworkIDLabel, ng_VirtualNetwork (Spec natgw)))) (\<lambda>vnetList.
          case vnetList of
            Inl err \<Rightarrow> ret (no_requeue, Some err)
          | Inr [] \<Rightarrow> ret (requeue_after defaultPreconditionRequeueInterval, None)
          | Inr (vnet # _) \<Rightarrow>
              (let strategy = vn_ImplementationStrategy (Spec vnet) in
               if strategy = '''' then ret (requeue_after defaultPreconditionRequeueInterval, None)
               else if lookup_string (Annotations (Meta natgw)) osacImplementationStrategyAnnotation \<noteq> strategy then
                 annotate r osacImplementationStrategyAnnotation strategy
               else
                 (case ComputeDesiredConfigVersion
                         (Inr (json_Marshal (versioned_struct (NATGatewaySpec_JSON (Spec natgw)) strategy))) of
                    Inl err \<Rightarrow>
                      ret (no_requeue, Some (Wrapf ''failed to compute desired config version: %w'' [] err))
                  | Inr desiredVersion \<Rightarrow>
                      bnd (set_desired_version desiredVersion) (\<lambda>_.
                      bnd phase_progressing_if_changed (\<lambda>_.
                      NATGateway_handleProvisioning r))))))))"

definition NATGateway_handleDelete :: "'w NATGatewayReconciler \<Rightarrow> (NATGateway \<times> 'w, outcome) go" where
  "NATGateway_handleDelete r =
     delete_frame r osacNATGatewayFinalizer (release_if_present r osacNATGatewayFinalizer)"

definition NATGateway_Reconcile :: "'w NATGatewayReconciler \<Rightarrow> ObjectKey \<Rightarrow> ('w, outcome) go" where
  "NATGateway_Reconcile r key =
     reconcile_frame r (NATGateway_handleUpdate r) (NATGateway_handleDelete r) (NATGateway_writeStatus r) key"

section \<open>The contract\<close>

text \<open>Listing the parents of an object only advances the world.\<close>

definition lists_steady :: "'w world_view \<Rightarrow> (string \<Rightarrow> string \<times> string \<Rightarrow> ('w, 'a) go) \<Rightarrow> bool" where
  "lists_steady V list \<longleftrightarrow> (\<forall>ns l. steady V (list ns l))"

lemma lists_steadyD: "lists_steady V list \<Longrightarrow> steady V (list ns l)"
  unfolding lists_steady_def by blast

interpretation vn: networking_controller r osacVirtualNetworkFinalizer "\<lambda>V. True"
  "VirtualNetwork_handleUpdate r" "VirtualNetwork_handleDelete r" "\<lambda>key. VirtualNetwork_writeStatus r"
  for r :: "'w VirtualNetworkReconciler"
proof (unfold_locales, goal_cases)
  case (1 V obj w)
  have prov: "wlp (VirtualNetwork_handleProvisioning r) (\<lambda>_. system_ok (MaxJobHistory r) status_jobs V) s"
    if "system_ok (MaxJobHistory r) status_jobs V s" for s
    using phase_provisioning_ok [OF 1(1) that]
    by (simp add: VirtualNetwork_handleProvisioning_def VirtualNetwork_writeStatus_def [abs_def])
  show ?case
    unfolding VirtualNetwork_handleUpdate_def Let_def
    by (rule begin_update_ok [OF 1(1,3)], rule wlp_ifI)
      (simp add: wlp_ret managed_system_ok, rule versioned_tail_ok [OF 1(1) _ prov])
qed (simp_all add: VirtualNetwork_handleDelete_def VirtualNetwork_writeStatus_def delete_frame_ok release_ok
      updateStatusWithRetry_ok)

interpretation sg: networking_controller r osacSecurityGroupFinalizer "\<lambda>V. True"
  "SecurityGroup_handleUpdate r" "SecurityGroup_handleDelete r" "\<lambda>key. SecurityGroup_writeStatus r"
  for r :: "'w SecurityGroupReconciler"
proof (unfold_locales, goal_cases)
  case (1 V obj w)
  have prov: "wlp (SecurityGroup_handleProvisioning r) (\<lambda>_. system_ok (MaxJobHistory r) status_jobs V) s"
    if "system_ok (MaxJobHistory r) status_jobs V s" for s
    using phase_provisioning_ok [OF 1(1) that]
    by (simp add: SecurityGroup_handleProvisioning_def SecurityGroup_writeStatus_def [abs_def])
  show ?case
    unfolding SecurityGroup_handleUpdate_def Let_def
    by (rule begin_update_ok [OF 1(1,3)]) (rule versioned_tail_ok [OF 1(1) _ prov])
qed (simp_all add: SecurityGroup_handleDelete_def SecurityGroup_writeStatus_def delete_frame_ok release_ok
      updateStatusWithRetry_ok)

interpretation sn: networking_controller r osacSubnetFinalizer "\<lambda>V. lists_steady V (sn_List_VirtualNetworks r)"
  "Subnet_handleUpdate r" "Subnet_handleDelete r" "\<lambda>key. Subnet_writeStatus r"
  for r :: "'w SubnetReconciler"
proof (unfold_locales, goal_cases)
  case (1 V obj w)
  have prov: "wlp (Subnet_handleProvisioning r) (\<lambda>_. system_ok (MaxJobHistory r) status_jobs V) s"
    if "system_ok (MaxJobHistory r) status_jobs V s" for s
    using phase_provisioning_ok [OF 1(1) that]
    by (simp add: Subnet_handleProvisioning_def Subnet_writeStatus_def [abs_def])
  have "steady V (sn_List_VirtualNetworks r ns l)" for ns l using 1(2) by (rule lists_steadyD)
  note step = steady_on_world [OF this]
  show ?case
    unfolding Subnet_handleUpdate_def Let_def
    by (rule begin_update_ok [OF 1(1,3)], erule step, intro wlp_first_itemI wlp_ifI [where b = "_ = ''''"])
      (simp_all add: wlp_ret managed_system_ok versioned_tail_ok [OF 1(1) _ prov] split del: if_split)
qed (simp_all add: Subnet_handleDelete_def Subnet_writeStatus_def delete_frame_ok release_ok
      updateStatusWithRetry_ok)

interpretation ng: networking_controller r osacNATGatewayFinalizer "\<lambda>V. lists_steady V (ng_List_VirtualNetworks r)"
  "NATGateway_handleUpdate r" "NATGateway_handleDelete r" "\<lambda>key. NATGateway_writeStatus r"
  for r :: "'w NATGatewayReconciler"
proof (unfold_locales, goal_cases)
  case (1 V obj w)
  have prov: "wlp (NATGateway_handleProvisioning r) (\<lambda>_. system_ok (MaxJobHistory r) status_jobs V) s"
    if "system_ok (MaxJobHistory r) status_jobs V s" for s
    using phase_provisioning_ok [OF 1(1) that]
    by (simp add: NATGateway_handleProvisioning_def NATGateway_writeStatus_def [abs_def])
  note step = steady_on_world [OF lists_steadyD [OF 1(2)]]
  show ?case
    unfolding NATGateway_handleUpdate_def Let_def
    by (rule begin_update_ok [OF 1(1,3)], erule step, intro wlp_first_itemI wlp_ifI [where b = "_ = ''''"])
      (simp_all add: wlp_ret managed_system_ok versioned_tail_ok [OF 1(1) _ prov] split del: if_split)
qed (simp_all add: NATGateway_handleDelete_def NATGateway_writeStatus_def delete_frame_ok release_ok
      updateStatusWithRetry_ok)

end
