(* ===== verification/External_IPs.thy ===== *)
theory External_IPs
  imports Networks
begin

text \<open>
  The controllers of ExternalIPPool and ExternalIP
  (\<^verbatim>\<open>internal/controller/externalippool_controller.go\<close>, \<^verbatim>\<open>externalip_controller.go\<close> and their types
  under \<^verbatim>\<open>api/v1alpha1\<close>). An ExternalIP inherits its strategy from its pool and learns its address from
  a LoadBalancer Service of the target cluster, whose client is a parameter. Both controllers are
  instances of the contract \<open>networking_controller\<close>; an ExternalIP becomes ready only with an address.
\<close>

section \<open>ExternalIPPool\<close>

record ExternalIPPoolSpec =
  CIDRs :: "string list"
  IPFamily :: string
  pool_ImplementationStrategy :: string

record ExternalIPPoolStatus = net_status +
  Total :: int
  Allocated :: int
  Available :: int

type_synonym ExternalIPPool = "(ExternalIPPoolSpec, ExternalIPPoolStatus) resource"
type_synonym 'w ExternalIPPoolReconciler = "(ExternalIPPoolSpec, ExternalIPPoolStatus, 'w) Reconciler"

definition ExternalIPPoolSpec_JSON :: "ExternalIPPoolSpec \<Rightarrow> (string \<times> json) list" where
  "ExternalIPPoolSpec_JSON spec =
     field ''cidrs'' (JArr (map JStr (CIDRs spec))) @
     field ''ipFamily'' (JStr (IPFamily spec)) @
     omitempty_string ''implementationStrategy'' (pool_ImplementationStrategy spec)"

definition osacExternalIPPoolFinalizer :: string where
  "osacExternalIPPoolFinalizer = ''osac.openshift.io/externalippool-finalizer''"

definition defaultExternalIPPoolImplementationStrategy :: string where
  "defaultExternalIPPoolImplementationStrategy = ''metallb-l2''"

definition pool_strategy :: "ExternalIPPool \<Rightarrow> string" where
  "pool_strategy pool =
     (if pool_ImplementationStrategy (Spec pool) = '''' then defaultExternalIPPoolImplementationStrategy
      else pool_ImplementationStrategy (Spec pool))"

definition NewExternalIPPoolReconciler ::
  "('w k8s \<times> (ExternalIPPoolSpec, ExternalIPPoolStatus, 'w) kclient) option \<Rightarrow>
   (ExternalIPPool, 'w) ProvisioningProvider option \<Rightarrow> duration \<Rightarrow> int \<Rightarrow>
   'w ExternalIPPoolReconciler option"
where
  "NewExternalIPPoolReconciler = NewReconciler"

definition ExternalIPPool_writeStatus ::
  "'w ExternalIPPoolReconciler \<Rightarrow> ExternalIPPool \<Rightarrow> ('w, gerror option) go"
where
  "ExternalIPPool_writeStatus r pool = updateStatusWithRetry r (ObjectKeyFromObject pool) (Status pool)"

definition ExternalIPPool_handleProvisioning ::
  "'w ExternalIPPoolReconciler \<Rightarrow> (ExternalIPPool \<times> 'w, outcome) go"
where
  "ExternalIPPool_handleProvisioning r =
     run_provisioning r (phase_callbacks (Lib r)) (ExternalIPPool_writeStatus r)"

text \<open>Setting the condition \<^verbatim>\<open>ConfigurationApplied\<close>, stamped with the current time.\<close>

definition set_configuration_applied :: "'w k8s \<Rightarrow> (('sp, 'm) net_resource \<times> 'w, unit) go" where
  "set_configuration_applied lib =
     bnd (read_clock (k8s_now lib)) (\<lambda>t.
     mod_res (map_conditions (\<lambda>cs. SetStatusCondition lib t cs (configurationApplied t))))"

definition ExternalIPPool_handleUpdate ::
  "'w ExternalIPPoolReconciler \<Rightarrow> (ExternalIPPool \<times> 'w, outcome) go"
where
  "ExternalIPPool_handleUpdate r =
     add_finalizer r osacExternalIPPoolFinalizer True
       (bnd phase_progressing_if_unset (\<lambda>_.
        bnd get_res (\<lambda>pool.
          let strategy = pool_strategy pool in
          if lookup_string (Annotations (Meta pool)) osacImplementationStrategyAnnotation \<noteq> strategy then
            annotate r osacImplementationStrategyAnnotation strategy
          else
            (case ComputeDesiredConfigVersion
                    (Inr (json_Marshal (versioned_struct (ExternalIPPoolSpec_JSON (Spec pool)) strategy))) of
               Inl err \<Rightarrow>
                 ret (no_requeue, Some (Wrapf ''failed to compute desired config version: %w'' [] err))
             | Inr desiredVersion \<Rightarrow>
                 bnd (set_desired_version desiredVersion) (\<lambda>_.
                 bnd (set_configuration_applied (Lib r)) (\<lambda>_.
                 bnd phase_progressing_if_changed (\<lambda>_.
                 ExternalIPPool_handleProvisioning r)))))))"

definition ExternalIPPool_handleDelete ::
  "'w ExternalIPPoolReconciler \<Rightarrow> (ExternalIPPool \<times> 'w, outcome) go"
where
  "ExternalIPPool_handleDelete r =
     delete_frame r osacExternalIPPoolFinalizer (release_always r osacExternalIPPoolFinalizer)"

definition ExternalIPPool_Reconcile ::
  "'w ExternalIPPoolReconciler \<Rightarrow> ObjectKey \<Rightarrow> ('w, outcome) go"
where
  "ExternalIPPool_Reconcile r key =
     reconcile_frame r (ExternalIPPool_handleUpdate r) (ExternalIPPool_handleDelete r)
       (ExternalIPPool_writeStatus r) key"

section \<open>ExternalIP\<close>

record ExternalIPSpec =
  Pool :: string

datatype ExternalIPState = StateUnset | StatePending | StateAllocated | StateFailed

record ExternalIPStatus = net_status +
  Address :: string
  eip_State :: ExternalIPState
  Attached :: bool

type_synonym ExternalIP = "(ExternalIPSpec, ExternalIPStatus) resource"

text \<open>The ingress addresses of a LoadBalancer Service.\<close>

record Service =
  Ingress_IPs :: "string list"

type_synonym 'w service_client = "ObjectKey \<Rightarrow> ('w, gerror + Service) go"

record 'w ExternalIPReconciler = "(ExternalIPSpec, ExternalIPStatus, 'w) Reconciler" +
  List_ExternalIPPools :: "string \<Rightarrow> string \<times> string \<Rightarrow> ('w, gerror + ExternalIPPool list) go"
  GetCluster :: "('w, gerror + 'w service_client) go"

definition ExternalIPSpec_JSON :: "ExternalIPSpec \<Rightarrow> (string \<times> json) list" where
  "ExternalIPSpec_JSON spec = field ''pool'' (JStr (Pool spec))"

definition osacExternalIPFinalizer :: string where
  "osacExternalIPFinalizer = ''osac.openshift.io/externalip-finalizer''"

definition osacExternalIPIDLabel :: string where
  "osacExternalIPIDLabel = ''osac.openshift.io/externalip-uuid''"

definition osacExternalIPPoolIDLabel :: string where
  "osacExternalIPPoolIDLabel = ''osac.openshift.io/externalippool-uuid''"

definition externalIPServiceNamePrefix :: string where
  "externalIPServiceNamePrefix = ''osac-eip-''"

definition externalIPDefaultMetalLBNamespace :: string where
  "externalIPDefaultMetalLBNamespace = ''metallb-system''"

definition NewExternalIPReconciler ::
  "('w k8s \<times> (ExternalIPSpec, ExternalIPStatus, 'w) kclient) option \<Rightarrow>
   (string \<Rightarrow> string \<times> string \<Rightarrow> ('w, gerror + ExternalIPPool list) go) \<Rightarrow>
   ('w, gerror + 'w service_client) go \<Rightarrow>
   (ExternalIP, 'w) ProvisioningProvider option \<Rightarrow> duration \<Rightarrow> int \<Rightarrow> 'w ExternalIPReconciler option"
where
  "NewExternalIPReconciler mgr list cluster provisioningProvider statusPollInterval maxJobHistory =
     (case mgr of
        None \<Rightarrow> None
      | Some (lib, client) \<Rightarrow>
          Some \<lparr>Lib = lib, Client = client, ProvisioningProvider = provisioningProvider,
                StatusPollInterval = default_poll statusPollInterval,
                MaxJobHistory = default_history maxJobHistory, List_ExternalIPPools = list,
                GetCluster = cluster\<rparr>)"

definition getExternalIPAddress :: "'w service_client \<Rightarrow> string \<Rightarrow> ('w, string) go" where
  "getExternalIPAddress targetClient externalIPName =
     bnd (targetClient (externalIPDefaultMetalLBNamespace, externalIPServiceNamePrefix @ externalIPName)) (\<lambda>res.
       case res of
         Inl err \<Rightarrow> ret ''''
       | Inr svc \<Rightarrow>
           (case Ingress_IPs svc of
              [] \<Rightarrow> ret ''''
            | ip # _ \<Rightarrow> if ip = '''' then ret '''' else ret ip))"

text \<open>Unlike the other controllers this one reads the object past the cache, and by the request's key.\<close>

definition ExternalIP_updateStatusWithRetry ::
  "'w ExternalIPReconciler \<Rightarrow> ObjectKey \<Rightarrow> ExternalIPStatus \<Rightarrow> ('w, gerror option) go"
where
  "ExternalIP_updateStatusWithRetry r key computed =
     RetryOnConflict (Lib r)
       (bnd (APIReader_Get (Client r) key) (\<lambda>res.
          case res of
            Inl err \<Rightarrow> ret (Some err)
          | Inr latest \<Rightarrow> Status_Update (Client r) (latest\<lparr>Status := computed\<rparr>)))"

definition set_State :: "ExternalIPState \<Rightarrow> ExternalIP \<Rightarrow> ExternalIP" where
  "set_State x = map_status (\<lambda>st. st\<lparr>eip_State := x\<rparr>)"

definition set_Address :: "string \<Rightarrow> ExternalIP \<Rightarrow> ExternalIP" where
  "set_Address a = map_status (\<lambda>st. st\<lparr>Address := a\<rparr>)"

definition populateAddressIfMissing :: "'w ExternalIPReconciler \<Rightarrow> (ExternalIP \<times> 'w, unit) go" where
  "populateAddressIfMissing r =
     bnd get_res (\<lambda>externalIP.
       if eip_State (Status externalIP) \<noteq> StateAllocated \<or> Address (Status externalIP) \<noteq> '''' then ret ()
       else
         bnd (on_world (getTargetClient (GetCluster r))) (\<lambda>res.
           case res of
             Inl err \<Rightarrow> ret ()
           | Inr targetClient \<Rightarrow>
               bnd (on_world (getExternalIPAddress targetClient (Name (Meta externalIP)))) (\<lambda>ipAddress.
                 if ipAddress \<noteq> '''' then
                   bnd (mod_res (set_Address ipAddress)) (\<lambda>_. mod_res (set_phase PhaseReady))
                 else ret ())))"

text \<open>The address lookup of \<^verbatim>\<open>OnSuccess\<close>.\<close>

definition allocate_address :: "'w ExternalIPReconciler \<Rightarrow> (ExternalIP \<times> 'w, unit) go" where
  "allocate_address r =
     bnd get_res (\<lambda>externalIP.
       if Address (Status externalIP) = '''' then
         bnd (on_world (getTargetClient (GetCluster r))) (\<lambda>res.
           case res of
             Inl err \<Rightarrow> ret ()
           | Inr targetClient \<Rightarrow>
               bnd (on_world (getExternalIPAddress targetClient (Name (Meta externalIP)))) (\<lambda>ip.
                 if ip \<noteq> '''' then mod_res (set_Address ip) else ret ()))
       else ret ())"

definition ExternalIP_callbacks :: "'w ExternalIPReconciler \<Rightarrow> (ExternalIP, 'w) PollCallbacks" where
  "ExternalIP_callbacks r =
     \<lparr>OnFailed = Some (\<lambda>message.
        bnd (read_clock (k8s_now (Lib r))) (\<lambda>t.
        bnd (mod_res (set_phase PhaseFailed)) (\<lambda>_.
        bnd (mod_res (set_State StateFailed)) (\<lambda>_.
        mod_res (map_conditions (setReadyConditionFailed (Lib r) t message)))))),
      OnSuccess = Some (\<lambda>status.
        bnd (mod_res (set_State StateAllocated)) (\<lambda>_.
        bnd (allocate_address r) (\<lambda>_.
        bnd (mod_res (\<lambda>obj. if Address (Status obj) \<noteq> '''' then set_phase PhaseReady obj else obj)) (\<lambda>_.
        bnd (read_clock (k8s_now (Lib r))) (\<lambda>t.
        mod_res (map_conditions (setReadyConditionTrue (Lib r) t)))))))\<rparr>"

definition ExternalIP_handleProvisioning :: "'w ExternalIPReconciler \<Rightarrow> (ExternalIP \<times> 'w, outcome) go" where
  "ExternalIP_handleProvisioning r =
     run_provisioning r (ExternalIP_callbacks r)
       (\<lambda>externalIP. ExternalIP_updateStatusWithRetry r (ObjectKeyFromObject externalIP) (Status externalIP))"

definition ExternalIP_handleUpdate :: "'w ExternalIPReconciler \<Rightarrow> (ExternalIP \<times> 'w, outcome) go" where
  "ExternalIP_handleUpdate r =
     add_finalizer r osacExternalIPFinalizer True
       (bnd (mod_res (\<lambda>obj. if Phase (Status obj) = PhaseUnset
               then set_State StatePending (set_phase PhaseProgressing obj) else obj)) (\<lambda>_.
        bnd get_res (\<lambda>externalIP.
        bnd (on_world (List_ExternalIPPools r (Namespace (Meta externalIP))
               (osacExternalIPPoolIDLabel, Pool (Spec externalIP)))) (\<lambda>poolList.
          case poolList of
            Inl err \<Rightarrow> ret (no_requeue, Some err)
          | Inr [] \<Rightarrow> ret (requeue_after defaultPreconditionRequeueInterval, None)
          | Inr (pool # _) \<Rightarrow>
              (let strategy = pool_strategy pool;
                   annotations = Annotations (Meta externalIP);
                   strategyDiffers =
                     lookup_string annotations osacImplementationStrategyAnnotation \<noteq> strategy;
                   nameDiffers =
                     lookup_string annotations osacExternalIPPoolNameAnnotation \<noteq> Name (Meta pool) in
               if strategyDiffers \<or> nameDiffers then
                 bnd (if strategyDiffers
                      then mod_res (set_annotation osacImplementationStrategyAnnotation strategy)
                      else ret ()) (\<lambda>_.
                 bnd (if nameDiffers
                      then mod_res (set_annotation osacExternalIPPoolNameAnnotation (Name (Meta pool)))
                      else ret ()) (\<lambda>_.
                 bnd (update_object r) (\<lambda>e. ret (no_requeue, e))))
               else
                 (case ComputeDesiredConfigVersion
                         (Inr (json_Marshal (versioned_struct (ExternalIPSpec_JSON (Spec externalIP)) strategy))) of
                    Inl err \<Rightarrow>
                      ret (no_requeue, Some (Wrapf ''failed to compute desired config version: %w'' [] err))
                  | Inr desiredVersion \<Rightarrow>
                      bnd (set_desired_version desiredVersion) (\<lambda>_.
                      bnd (set_configuration_applied (Lib r)) (\<lambda>_.
                      bnd (mod_res (\<lambda>obj.
                             if Phase (Status obj) = PhaseUnset \<or>
                                (Phase (Status obj) = PhaseReady \<and>
                                 \<not> IsConfigApplied (ProvisioningJobs (Status obj)) (DesiredConfigVersion (Status obj)))
                             then (let obj' = set_phase PhaseProgressing obj in
                                   if eip_State (Status obj') = StateUnset then set_State StatePending obj' else obj')
                             else obj)) (\<lambda>_.
                      bnd (populateAddressIfMissing r) (\<lambda>_.
                      bnd (ExternalIP_handleProvisioning r) (\<lambda>(result, err).
                        if err \<noteq> None \<or> RequeueAfter result > 0 then ret (result, err)
                        else
                          bnd get_res (\<lambda>obj.
                            if eip_State (Status obj) = StateAllocated \<and> Address (Status obj) = ''''
                            then ret (requeue_after (StatusPollInterval r), None)
                            else ret (result, None)))))))))))))"

definition ExternalIP_handleDelete :: "'w ExternalIPReconciler \<Rightarrow> (ExternalIP \<times> 'w, outcome) go" where
  "ExternalIP_handleDelete r =
     delete_frame r osacExternalIPFinalizer (release_always r osacExternalIPFinalizer)"

definition ExternalIP_Reconcile :: "'w ExternalIPReconciler \<Rightarrow> ObjectKey \<Rightarrow> ('w, outcome) go" where
  "ExternalIP_Reconcile r key =
     reconcile_frame r (ExternalIP_handleUpdate r) (ExternalIP_handleDelete r)
       (\<lambda>externalIP. ExternalIP_updateStatusWithRetry r key (Status externalIP)) key"

section \<open>The contract\<close>

lemma wlp_set_configuration_applied [wp_simps]:
  "wlp (set_configuration_applied lib) Q = (\<lambda>(obj, w).
     Q () (map_conditions (\<lambda>cs. SetStatusCondition lib (k8s_now lib w) cs (configurationApplied (k8s_now lib w))) obj, w))"
  by (simp add: fun_eq_iff set_configuration_applied_def wlp_bnd wlp_read_clock wlp_mod_res)

interpretation pool: networking_controller r osacExternalIPPoolFinalizer "\<lambda>V. True"
  "ExternalIPPool_handleUpdate r" "ExternalIPPool_handleDelete r" "\<lambda>key. ExternalIPPool_writeStatus r"
  for r :: "'w ExternalIPPoolReconciler"
proof (unfold_locales, goal_cases)
  case (1 V obj w)
  have prov: "wlp (ExternalIPPool_handleProvisioning r) (\<lambda>_. system_ok (MaxJobHistory r) status_jobs V) s"
    if "system_ok (MaxJobHistory r) status_jobs V s" for s
    using phase_provisioning_ok [OF 1(1) that]
    by (simp add: ExternalIPPool_handleProvisioning_def ExternalIPPool_writeStatus_def [abs_def])
  show ?case
    unfolding ExternalIPPool_handleUpdate_def Let_def
    by (rule begin_update_ok [OF 1(1,3)], rule versioned_rest_ok [OF 1(1)])
      (auto simp: wlp_bnd wlp_phase_edits wlp_set_configuration_applied managed_system_ok
         intro!: prov system_ok_edits)
qed (simp_all add: ExternalIPPool_handleDelete_def ExternalIPPool_writeStatus_def delete_frame_ok release_ok
      updateStatusWithRetry_ok)

lemma key_of_external_ip [simp]:
  "ObjectKeyFromObject (set_State x obj) = ObjectKeyFromObject obj"
  "ObjectKeyFromObject (set_Address a obj) = ObjectKeyFromObject obj"
  by (simp_all add: set_State_def set_Address_def)

text \<open>Reaching the target cluster and reading a Service there only advances the world.\<close>

definition cluster_steady :: "'w world_view \<Rightarrow> 'w ExternalIPReconciler \<Rightarrow> bool" where
  "cluster_steady V r \<longleftrightarrow>
     (\<forall>w. wv_inv V w \<longrightarrow> wlp (GetCluster r) (\<lambda>res w'. advances V w w' \<and>
        (\<forall>cl. res = Inr cl \<longrightarrow> (\<forall>key. steady V (cl key)))) w)"

lemma getExternalIPAddress_steady:
  fixes cl :: "'w service_client"
  assumes "\<forall>key. steady V (cl key)"
  shows "steady V (getExternalIPAddress cl n)"
  unfolding steady_def getExternalIPAddress_def wlp_bnd
proof (intro allI impI, goal_cases)
  case (1 w)
  then have "wlp (cl (externalIPDefaultMetalLBNamespace, externalIPServiceNamePrefix @ n)) (\<lambda>_. advances V w) w"
    using assms unfolding steady_def by blast
  then show ?case by (rule wlp_mono) (simp add: wlp_ret split: sum.split list.split)
qed

lemma address_lookup_ok:
  fixes V :: "'w world_view"
  assumes "cluster_steady V r" and "wv_inv V w"
    and k: "\<And>ip w'. advances V w w' \<Longrightarrow> wlp (k ip) Q (obj, w')"
    and none: "\<And>w'. advances V w w' \<Longrightarrow> Q () (obj, w')"
  shows "wlp (bnd (on_world (getTargetClient (GetCluster r))) (\<lambda>res. case res of Inl err \<Rightarrow> ret ()
     | Inr cl \<Rightarrow> bnd (on_world (getExternalIPAddress cl n)) k)) Q (obj, w)"
  unfolding getTargetClient_def wlp_bnd [of "on_world _"] wlp_on_world prod.case wlp_bnd [of "GetCluster r"]
proof (rule wlp_mono)
  show "wlp (GetCluster r) (\<lambda>res w'. advances V w w' \<and>
        (\<forall>cl. res = Inr cl \<longrightarrow> (\<forall>key. steady V (cl key)))) w"
    using assms(1,2) by (simp add: cluster_steady_def)
  fix res :: "gerror + 'w service_client" and w'
  assume a: "advances V w w' \<and> (\<forall>cl. res = Inr cl \<longrightarrow> (\<forall>key. steady V (cl key)))"
  then have look: "wlp (getExternalIPAddress cl n) (\<lambda>_. advances V w') w'" if "res = Inr cl" for cl
    using getExternalIPAddress_steady that assms(2) unfolding steady_def advances_def by blast
  have "wlp (getExternalIPAddress cl n) (\<lambda>ip w''. wlp (k ip) Q (obj, w'')) w'" if "res = Inr cl" for cl
    by (rule wlp_mono [OF look [OF that]]) (use a in \<open>blast intro: k advances_trans\<close>)
  then show "wlp (case res of Inl err \<Rightarrow> ret (Inl err) | Inr cluster \<Rightarrow> ret (Inr cluster))
      (\<lambda>res w'. wlp (case res of Inl err \<Rightarrow> ret ()
         | Inr cl \<Rightarrow> bnd (on_world (getExternalIPAddress cl n)) k) Q (obj, w')) w'"
    using a none by (simp add: wlp_ret wlp_bnd wlp_on_world split: sum.split)
qed

lemma eip_edits [simp]:
  "ProvisioningJobs (Status (set_State x obj)) = ProvisioningJobs (Status obj)"
  "ProvisioningJobs (Status (set_Address a obj)) = ProvisioningJobs (Status obj)"
  "Meta (set_State x obj) = Meta obj" "Meta (set_Address a obj) = Meta obj"
  by (simp_all add: set_State_def set_Address_def map_status_def)

lemma allocate_address_ok:
  assumes "cluster_steady V r" and "wv_inv V w"
  shows "wlp (allocate_address r) (\<lambda>_ (obj', w').
     ProvisioningJobs (Status obj') = ProvisioningJobs (Status obj) \<and> advances V w w') (obj, w)"
  unfolding allocate_address_def wlp_bnd [of get_res] wlp_get_res prod.case
  by (auto simp: wlp_ret wlp_mod_res intro!: address_lookup_ok [OF assms])

lemma ExternalIP_callbacks_quiet:
  assumes "cluster_steady V r"
  shows "quiet_callbacks mh status_jobs V (Some (ExternalIP_callbacks r))"
  by (auto simp: quiet_callbacks_def ExternalIP_callbacks_def quiet_def wlp_bnd wlp_read_clock wlp_mod_res
      system_ok_def intro!: wlp_mono [OF allocate_address_ok [OF assms]])

lemma populateAddressIfMissing_ok:
  assumes "cluster_steady V r" and "system_ok mh status_jobs V (obj, w)"
  shows "wlp (populateAddressIfMissing r) (\<lambda>_. system_ok mh status_jobs V) (obj, w)"
proof -
  have "wv_inv V w" using assms(2) by (simp add: system_ok_def)
  moreover have "system_ok mh status_jobs V (obj', w')"
    if "advances V w w'" "ProvisioningJobs (Status obj') = ProvisioningJobs (Status obj)"
    for obj' :: ExternalIP and w'
    using system_ok_frame [OF assms(2), of obj' w'] that by simp
  ultimately show ?thesis
    using assms(2) unfolding populateAddressIfMissing_def wlp_bnd [of get_res] wlp_get_res prod.case
    by (auto simp: wlp_ret wlp_bnd [of "mod_res _"] wlp_mod_res intro!: address_lookup_ok [OF assms(1)])
qed

lemma ExternalIP_writeStatus_ok:
  assumes "controlled r V f" and "system_ok (MaxJobHistory r) status_jobs V (obj, w)"
  shows "wlp (ExternalIP_updateStatusWithRetry r key (Status obj)) (\<lambda>_. advances V w) w"
  unfolding ExternalIP_updateStatusWithRetry_def
  using assms controlledD [OF assms(1)] api_lawsD(2) [OF controlledD(7) [OF assms(1)]]
  by (intro status_write_ok [where f = f]) auto

lemma ExternalIP_handleProvisioning_ok:
  assumes "controlled r V f" and "cluster_steady V r" and "system_ok (MaxJobHistory r) status_jobs V s"
  shows "wlp (ExternalIP_handleProvisioning r) (\<lambda>_. system_ok (MaxJobHistory r) status_jobs V) s"
  using assms run_provisioning_ok [OF assms(1) _ ExternalIP_callbacks_quiet [OF assms(2)] ExternalIP_writeStatus_ok [OF assms(1)]]
  by (cases s) (simp add: ExternalIP_handleProvisioning_def)

text \<open>The last part of \<^verbatim>\<open>handleUpdate\<close>: looking for the address, provisioning, asking again.\<close>

lemma allocate_tail_ok:
  assumes c: "controlled r V f" and cl: "cluster_steady V r" and ok: "system_ok (MaxJobHistory r) status_jobs V s"
  shows "wlp (bnd (populateAddressIfMissing r) (\<lambda>_. bnd (ExternalIP_handleProvisioning r) (\<lambda>(result, err).
       if err \<noteq> None \<or> RequeueAfter result > 0 then ret (result, err)
       else bnd get_res (\<lambda>obj. if eip_State (Status obj) = StateAllocated \<and> Address (Status obj) = ''''
          then ret (requeue_after (StatusPollInterval r), None) else ret (result, None)))))
     (\<lambda>_. system_ok (MaxJobHistory r) status_jobs V) s"
proof -
  have "wlp (populateAddressIfMissing r) (\<lambda>_. system_ok (MaxJobHistory r) status_jobs V) s"
    using populateAddressIfMissing_ok [OF cl] ok by (cases s) simp
  moreover have "wlp (bnd (ExternalIP_handleProvisioning r) (\<lambda>(result, err).
       if err \<noteq> None \<or> RequeueAfter result > 0 then ret (result, err)
       else bnd get_res (\<lambda>obj. if eip_State (Status obj) = StateAllocated \<and> Address (Status obj) = ''''
          then ret (requeue_after (StatusPollInterval r), None) else ret (result, None))))
     (\<lambda>_. system_ok (MaxJobHistory r) status_jobs V) s'"
    if "system_ok (MaxJobHistory r) status_jobs V s'" for s'
    by (rule wlp_bnd_inv [OF ExternalIP_handleProvisioning_ok [OF c cl that]])
      (auto simp: wlp_ret wlp_bnd wlp_get_res split: prod.split)
  ultimately show ?thesis by (rule wlp_bnd_inv)
qed

interpretation eip: networking_controller r osacExternalIPFinalizer
  "\<lambda>V. lists_steady V (List_ExternalIPPools r) \<and> cluster_steady V r"
  "ExternalIP_handleUpdate r" "ExternalIP_handleDelete r"
  "\<lambda>key externalIP. ExternalIP_updateStatusWithRetry r key (Status externalIP)"
  for r :: "'w ExternalIPReconciler"
proof (unfold_locales, goal_cases)
  case (1 V obj w)
  note c = 1(1)
  have cl: "cluster_steady V r" and li: "lists_steady V (List_ExternalIPPools r)" using 1(2) by auto
  have tail: "wlp (bnd (set_desired_version v) (\<lambda>_. bnd (set_configuration_applied (Lib r)) (\<lambda>_.
      bnd (mod_res g) (\<lambda>_. bnd (populateAddressIfMissing r) (\<lambda>_. bnd (ExternalIP_handleProvisioning r) (\<lambda>(result, err).
       if err \<noteq> None \<or> RequeueAfter result > 0 then ret (result, err)
       else bnd get_res (\<lambda>obj. if eip_State (Status obj) = StateAllocated \<and> Address (Status obj) = ''''
          then ret (requeue_after (StatusPollInterval r), None) else ret (result, None))))))))
     (\<lambda>_. system_ok (MaxJobHistory r) status_jobs V) (obj, w)"
    if "managed (MaxJobHistory r) V osacExternalIPFinalizer (obj, w)"
      "\<And>obj. ProvisioningJobs (Status (g obj)) = ProvisioningJobs (Status obj)" for v g obj w
    using that managed_system_ok [OF that(1)]
    unfolding wlp_bnd [of "set_desired_version _"] wlp_bnd [of "set_configuration_applied _"]
        wlp_bnd [of "mod_res _"] wlp_phase_edits wlp_set_configuration_applied wlp_mod_res prod.case
    by (intro allocate_tail_ok [OF c cl]) (simp add: system_ok_def map_status_def)
  have stamp: "wlp (bnd (if p then mod_res (set_annotation k x) else ret ()) (\<lambda>_.
      bnd (if q then mod_res (set_annotation k' x') else ret ()) (\<lambda>_. bnd (update_object r) (\<lambda>e. ret (no_requeue, e)))))
     (\<lambda>_. system_ok (MaxJobHistory r) status_jobs V) (obj, w)"
    if "managed (MaxJobHistory r) V osacExternalIPFinalizer (obj, w)" for p q k x k' x' obj w
    using that by (auto simp: wlp_bnd wlp_mod_res wlp_ret managed_system_ok
        intro!: wlp_mono [OF update_object_ok [OF controlledD(7) [OF c]]] intro: managed_same)
  show ?case
    unfolding ExternalIP_handleUpdate_def Let_def
  proof (rule begin_edit_ok [OF c 1(3)], goal_cases)
    case (1 obj w)
    then show ?case by (rule managed_same) auto
  next
    case (2 obj w)
    show ?case
      by (rule steady_on_world [OF lists_steadyD [OF li] 2], intro wlp_first_itemI wlp_ifI wlp_versionI)
        (simp_all only: wlp_ret managed_system_ok stamp, rule tail, auto)
  qed
qed (simp_all add: ExternalIP_handleDelete_def delete_frame_ok release_ok ExternalIP_writeStatus_ok)

end
