(* ===== verification/Cluster_Types.thy ===== *)
theory Cluster_Types
  imports Kube
begin

text \<open>
  The resource ClusterOrder (\<^verbatim>\<open>api/v1alpha1/clusterorder_types.go\<close>) with the accessors of its cluster reference
  (\<^verbatim>\<open>clusterorder_clusterreference.go\<close>) and of its conditions (\<^verbatim>\<open>clusterorder_conditions.go\<close>). Three controllers
  work on it: its own, the storage controller and the one of the external IP attachments.
\<close>

record NodeRequest =
  ResourceClass :: string
  NumberOfNodes :: int

record ClusterNetworkSpec =
  PodCIDR :: string
  ServiceCIDR :: string

record ClusterOrderSpec =
  co_TemplateID :: string
  TemplateParameters :: string
  spec_NodeRequests :: "NodeRequest list"
  PullSecret :: string
  SSHPublicKey :: string
  ReleaseImage :: string
  Network :: "ClusterNetworkSpec option"

record ClusterOrderClusterReferenceType =
  ref_Namespace :: string
  HostedClusterName :: string
  ServiceAccountName :: string
  RoleBindingName :: string

record ClusterOrderStatus = net_status +
  ClusterReference :: "ClusterOrderClusterReferenceType option"
  status_NodeRequests :: "NodeRequest list"
  ClusterStorageJobs :: "JobStatus list"
  ApiEndpoint :: string
  IngressEndpoint :: string

type_synonym 'os cluster_order = "('os, ClusterOrderStatus) resource"
type_synonym ClusterOrder = "ClusterOrderSpec cluster_order"

definition defaultClusterOrderNamespace :: string where
  "defaultClusterOrderNamespace = ''osac-orders''"

section \<open>JSON form of the spec\<close>

definition NodeRequest_JSON :: "NodeRequest \<Rightarrow> json" where
  "NodeRequest_JSON n =
     JObj (field ''resourceClass'' (JStr (ResourceClass n)) @ field ''numberOfNodes'' (JNum (NumberOfNodes n)))"

definition ClusterNetworkSpec_JSON :: "ClusterNetworkSpec \<Rightarrow> json" where
  "ClusterNetworkSpec_JSON n =
     JObj (omitempty_string ''podCIDR'' (PodCIDR n) @ omitempty_string ''serviceCIDR'' (ServiceCIDR n))"

definition ClusterOrderSpec_JSON :: "ClusterOrderSpec \<Rightarrow> json" where
  "ClusterOrderSpec_JSON spec =
     JObj (omitempty_string ''templateID'' (co_TemplateID spec) @
       omitempty_string ''templateParameters'' (TemplateParameters spec) @
       omitempty_list ''nodeRequests'' (map NodeRequest_JSON (spec_NodeRequests spec)) @
       omitempty_string ''pullSecret'' (PullSecret spec) @
       omitempty_string ''sshPublicKey'' (SSHPublicKey spec) @
       omitempty_string ''releaseImage'' (ReleaseImage spec) @
       omitempty_ptr ''network'' (map_option ClusterNetworkSpec_JSON (Network spec)))"

section \<open>Cluster reference\<close>

definition empty_reference :: ClusterOrderClusterReferenceType where
  "empty_reference = \<lparr>ref_Namespace = '''', HostedClusterName = '''', ServiceAccountName = '''', RoleBindingName = ''''\<rparr>"

definition EnsureClusterReference :: "'os cluster_order \<Rightarrow> 'os cluster_order" where
  "EnsureClusterReference = map_status (\<lambda>st. case ClusterReference st of
     None \<Rightarrow> st\<lparr>ClusterReference := Some empty_reference\<rparr> | Some _ \<Rightarrow> st)"

definition map_reference ::
  "(ClusterOrderClusterReferenceType \<Rightarrow> ClusterOrderClusterReferenceType) \<Rightarrow> 'os cluster_order \<Rightarrow> 'os cluster_order"
where
  "map_reference f co =
     map_status (\<lambda>st. st\<lparr>ClusterReference := map_option f (ClusterReference st)\<rparr>) (EnsureClusterReference co)"

definition SetClusterReferenceNamespace :: "string \<Rightarrow> 'os cluster_order \<Rightarrow> 'os cluster_order" where
  "SetClusterReferenceNamespace n = map_reference (\<lambda>ref. ref\<lparr>ref_Namespace := n\<rparr>)"

definition SetClusterReferenceServiceAccountName :: "string \<Rightarrow> 'os cluster_order \<Rightarrow> 'os cluster_order" where
  "SetClusterReferenceServiceAccountName n = map_reference (\<lambda>ref. ref\<lparr>ServiceAccountName := n\<rparr>)"

definition SetClusterReferenceRoleBindingName :: "string \<Rightarrow> 'os cluster_order \<Rightarrow> 'os cluster_order" where
  "SetClusterReferenceRoleBindingName n = map_reference (\<lambda>ref. ref\<lparr>RoleBindingName := n\<rparr>)"

definition SetClusterReferenceHostedClusterName :: "string \<Rightarrow> 'os cluster_order \<Rightarrow> 'os cluster_order" where
  "SetClusterReferenceHostedClusterName n = map_reference (\<lambda>ref. ref\<lparr>HostedClusterName := n\<rparr>)"

definition from_reference :: "(ClusterOrderClusterReferenceType \<Rightarrow> string) \<Rightarrow> 'os cluster_order \<Rightarrow> string" where
  "from_reference f co = (case ClusterReference (Status co) of None \<Rightarrow> '''' | Some ref \<Rightarrow> f ref)"

definition GetClusterReferenceNamespace :: "'os cluster_order \<Rightarrow> string" where
  "GetClusterReferenceNamespace = from_reference ref_Namespace"

definition GetClusterReferenceServiceAccountName :: "'os cluster_order \<Rightarrow> string" where
  "GetClusterReferenceServiceAccountName = from_reference ServiceAccountName"

definition GetClusterReferenceRoleBindingName :: "'os cluster_order \<Rightarrow> string" where
  "GetClusterReferenceRoleBindingName = from_reference RoleBindingName"

definition GetClusterReferenceHostedClusterName :: "'os cluster_order \<Rightarrow> string" where
  "GetClusterReferenceHostedClusterName = from_reference HostedClusterName"

section \<open>Conditions\<close>

text \<open>The arguments come in this order: type, status, message, reason.\<close>

definition ClusterOrder_SetStatusCondition ::
  "'w k8s \<Rightarrow> instant \<Rightarrow> string \<Rightarrow> string \<Rightarrow> string \<Rightarrow> string \<Rightarrow> 'os cluster_order \<Rightarrow> 'os cluster_order"
where
  "ClusterOrder_SetStatusCondition lib t conditionType status message reason =
     map_conditions (\<lambda>cs. SetStatusCondition lib t cs
       \<lparr>cond_Type = conditionType, cond_Status = status, cond_Reason = reason,
        cond_Message = message, cond_LastTransitionTime = None\<rparr>)"

definition ClusterOrder_IsStatusConditionTrue :: "'w k8s \<Rightarrow> 'os cluster_order \<Rightarrow> string \<Rightarrow> bool" where
  "ClusterOrder_IsStatusConditionTrue lib co conditionType = IsStatusConditionTrue lib (Conditions (Status co)) conditionType"

definition set_order_condition ::
  "'w k8s \<Rightarrow> string \<Rightarrow> string \<Rightarrow> string \<Rightarrow> string \<Rightarrow> ('os cluster_order \<times> 'w, unit) go"
where
  "set_order_condition lib conditionType status message reason =
     bnd (read_clock (k8s_now lib)) (\<lambda>t.
     mod_res (ClusterOrder_SetStatusCondition lib t conditionType status message reason))"

definition storage_jobs :: "'os cluster_order JobsRef" where
  "storage_jobs =
     \<lparr>Jobs_get = (\<lambda>obj. ClusterStorageJobs (Status obj)),
      Jobs_set = (\<lambda>js. map_status (\<lambda>st. st\<lparr>ClusterStorageJobs := js\<rparr>))\<rparr>"

section \<open>Round trips of the reference\<close>

lemma reference_roundtrip [simp]:
  "GetClusterReferenceNamespace (SetClusterReferenceNamespace n co) = n"
  "GetClusterReferenceServiceAccountName (SetClusterReferenceServiceAccountName n co) = n"
  "GetClusterReferenceRoleBindingName (SetClusterReferenceRoleBindingName n co) = n"
  "GetClusterReferenceHostedClusterName (SetClusterReferenceHostedClusterName n co) = n"
  by (simp_all add: GetClusterReferenceNamespace_def SetClusterReferenceNamespace_def
      GetClusterReferenceServiceAccountName_def SetClusterReferenceServiceAccountName_def
      GetClusterReferenceRoleBindingName_def SetClusterReferenceRoleBindingName_def
      GetClusterReferenceHostedClusterName_def SetClusterReferenceHostedClusterName_def
      from_reference_def map_reference_def EnsureClusterReference_def map_status_def split: option.split)

lemma reference_independent [simp]:
  "GetClusterReferenceNamespace (SetClusterReferenceServiceAccountName n co) = GetClusterReferenceNamespace co"
  "GetClusterReferenceNamespace (SetClusterReferenceRoleBindingName n co) = GetClusterReferenceNamespace co"
  "GetClusterReferenceNamespace (SetClusterReferenceHostedClusterName n co) = GetClusterReferenceNamespace co"
  "GetClusterReferenceServiceAccountName (SetClusterReferenceNamespace n co) = GetClusterReferenceServiceAccountName co"
  "GetClusterReferenceServiceAccountName (SetClusterReferenceRoleBindingName n co) = GetClusterReferenceServiceAccountName co"
  by (simp_all add: GetClusterReferenceNamespace_def SetClusterReferenceNamespace_def
      GetClusterReferenceServiceAccountName_def SetClusterReferenceServiceAccountName_def
      SetClusterReferenceRoleBindingName_def SetClusterReferenceHostedClusterName_def
      from_reference_def map_reference_def EnsureClusterReference_def map_status_def empty_reference_def split: option.split)

lemma storage_jobs_get [simp]: "Jobs_get storage_jobs co = ClusterStorageJobs (Status co)"
  by (simp add: storage_jobs_def)

interpretation storage_jobs: jobs_ref storage_jobs
  by unfold_locales (simp add: storage_jobs_def map_status_def)

end
