(* ===== verification/Compute_Types.thy ===== *)
theory Compute_Types
  imports Kube
begin

text \<open>
  The resource ComputeInstance (\<^verbatim>\<open>api/v1alpha1/computeinstance_types.go\<close>) with the accessors of its references and
  addresses (\<^verbatim>\<open>computeinstance_virtualmachinereference.go\<close>) and of its conditions (\<^verbatim>\<open>computeinstance_conditions.go\<close>). Three
  controllers work on it: its own, the one of the external IP attachments and the feedback controller.
\<close>

section \<open>Names\<close>

definition defaultComputeInstanceNamespace :: string where
  "defaultComputeInstanceNamespace = ''osac-computeinstance''"

section \<open>Times as text\<close>

text \<open>
  \<^verbatim>\<open>UTC().Format(time.RFC3339)\<close> of an instant, which counts nanoseconds from 1970. The calendar date of a day is computed
  in eras of 400 years that begin on the first of March.
\<close>

definition pad :: "nat \<Rightarrow> int \<Rightarrow> string" where
  "pad n i = (let digits = dec_nat (nat \<bar>i\<bar>) in
     (if i < 0 then ''-'' else '''') @ replicate (n - length digits) (CHR ''0'') @ digits)"

definition civil_from_days :: "int \<Rightarrow> int \<times> int \<times> int" where
  "civil_from_days days =
     (let z = days + 719468; era = z div 146097; doe = z mod 146097;
          yoe = (doe - doe div 1460 + doe div 36524 - doe div 146096) div 365;
          doy = doe - (365 * yoe + yoe div 4 - yoe div 100); mp = (5 * doy + 2) div 153;
          d = doy - (153 * mp + 2) div 5 + 1; m = (if mp < 10 then mp + 3 else mp - 9);
          y = yoe + era * 400 + (if m \<le> 2 then 1 else 0) in (y, m, d))"

definition format_RFC3339 :: "instant \<Rightarrow> string" where
  "format_RFC3339 t =
     (let s = t div Second; days = s div 86400; r = s mod 86400 in
      case civil_from_days days of (y, m, d) \<Rightarrow>
        pad 4 y @ ''-'' @ pad 2 m @ ''-'' @ pad 2 d @ ''T'' @
        pad 2 (r div 3600) @ '':'' @ pad 2 (r mod 3600 div 60) @ '':'' @ pad 2 (r mod 60) @ ''Z'')"

section \<open>Spec\<close>

record ImageSpec =
  SourceType :: string
  SourceRef :: string

record DiskSpec =
  SizeGiB :: int

record NetworkAttachment =
  SubnetRef :: string
  SecurityGroupRefs :: "string list"

record ComputeInstanceSpec =
  ci_TemplateID :: string
  ci_TemplateParameters :: string
  ci_Image :: ImageSpec
  ci_GuestOSFamily :: string
  ci_Cores :: int
  ci_MemoryGiB :: int
  ci_BootDisk :: DiskSpec
  ci_AdditionalDisks :: "DiskSpec list"
  ci_RunStrategy :: string
  ci_UserDataSecretRef :: "string option"
  ci_SSHKey :: string
  ci_NetworkAttachments :: "NetworkAttachment list"
  ci_RestartRequestedAt :: "instant option"

definition PrimarySubnetRef :: "ComputeInstanceSpec \<Rightarrow> string" where
  "PrimarySubnetRef s = (case ci_NetworkAttachments s of [] \<Rightarrow> '''' | a # _ \<Rightarrow> SubnetRef a)"

definition ImageSpec_JSON :: "ImageSpec \<Rightarrow> json" where
  "ImageSpec_JSON i = JObj (field ''sourceType'' (JStr (SourceType i)) @ field ''sourceRef'' (JStr (SourceRef i)))"

definition DiskSpec_JSON :: "DiskSpec \<Rightarrow> json" where
  "DiskSpec_JSON d = JObj (field ''sizeGiB'' (JNum (SizeGiB d)))"

definition NetworkAttachment_JSON :: "NetworkAttachment \<Rightarrow> json" where
  "NetworkAttachment_JSON a =
     JObj (field ''subnetRef'' (JStr (SubnetRef a)) @ omitempty_list ''securityGroupRefs'' (map JStr (SecurityGroupRefs a)))"

definition ComputeInstanceSpec_JSON :: "ComputeInstanceSpec \<Rightarrow> json" where
  "ComputeInstanceSpec_JSON spec =
     JObj (field ''templateID'' (JStr (ci_TemplateID spec)) @
       omitempty_string ''templateParameters'' (ci_TemplateParameters spec) @
       field ''image'' (ImageSpec_JSON (ci_Image spec)) @
       omitempty_string ''guestOSFamily'' (ci_GuestOSFamily spec) @
       field ''cores'' (JNum (ci_Cores spec)) @
       field ''memoryGiB'' (JNum (ci_MemoryGiB spec)) @
       field ''bootDisk'' (DiskSpec_JSON (ci_BootDisk spec)) @
       omitempty_list ''additionalDisks'' (map DiskSpec_JSON (ci_AdditionalDisks spec)) @
       field ''runStrategy'' (JStr (ci_RunStrategy spec)) @
       omitempty_ptr ''userDataSecretRef'' (map_option (\<lambda>n. JObj (omitempty_string ''name'' n)) (ci_UserDataSecretRef spec)) @
       omitempty_string ''sshKey'' (ci_SSHKey spec) @
       omitempty_list ''networkAttachments'' (map NetworkAttachment_JSON (ci_NetworkAttachments spec)) @
       omitempty_ptr ''restartRequestedAt'' (map_option (\<lambda>t. JStr (format_RFC3339 t)) (ci_RestartRequestedAt spec)))"

section \<open>Status\<close>

record VirtualMachineReferenceType =
  vm_Namespace :: string
  KubeVirtVirtualMachineName :: string

record TenantReferenceType =
  tr_Name :: string
  tr_Namespace :: string

record ComputeInstanceStatus = net_status +
  VirtualMachineReference :: "VirtualMachineReferenceType option"
  TenantReference :: "TenantReferenceType option"
  LastRestartedAt :: "instant option"
  IPAddress :: string
  ExternalIPAddress :: string

type_synonym 'cs compute_instance = "('cs, ComputeInstanceStatus) resource"
type_synonym ComputeInstance = "ComputeInstanceSpec compute_instance"

definition EnsureVirtualMachineReference :: "'cs compute_instance \<Rightarrow> 'cs compute_instance" where
  "EnsureVirtualMachineReference = map_status (\<lambda>st. case VirtualMachineReference st of
     None \<Rightarrow> st\<lparr>VirtualMachineReference := Some \<lparr>vm_Namespace = '''', KubeVirtVirtualMachineName = ''''\<rparr>\<rparr> | Some _ \<Rightarrow> st)"

definition SetVirtualMachineReferenceNamespace :: "string \<Rightarrow> 'cs compute_instance \<Rightarrow> 'cs compute_instance" where
  "SetVirtualMachineReferenceNamespace n ci = map_status (\<lambda>st. st\<lparr>VirtualMachineReference :=
     map_option (\<lambda>ref. ref\<lparr>vm_Namespace := n\<rparr>) (VirtualMachineReference st)\<rparr>) (EnsureVirtualMachineReference ci)"

definition SetVirtualMachineReferenceKubeVirtVirtualMachineName :: "string \<Rightarrow> 'cs compute_instance \<Rightarrow> 'cs compute_instance" where
  "SetVirtualMachineReferenceKubeVirtVirtualMachineName n ci = map_status (\<lambda>st. st\<lparr>VirtualMachineReference :=
     map_option (\<lambda>ref. ref\<lparr>KubeVirtVirtualMachineName := n\<rparr>) (VirtualMachineReference st)\<rparr>) (EnsureVirtualMachineReference ci)"

definition EnsureTenantReference :: "'cs compute_instance \<Rightarrow> 'cs compute_instance" where
  "EnsureTenantReference = map_status (\<lambda>st. case TenantReference st of
     None \<Rightarrow> st\<lparr>TenantReference := Some \<lparr>tr_Name = '''', tr_Namespace = ''''\<rparr>\<rparr> | Some _ \<Rightarrow> st)"

definition SetTenantReferenceName :: "string \<Rightarrow> 'cs compute_instance \<Rightarrow> 'cs compute_instance" where
  "SetTenantReferenceName n ci = map_status (\<lambda>st. st\<lparr>TenantReference :=
     map_option (\<lambda>ref. ref\<lparr>tr_Name := n\<rparr>) (TenantReference st)\<rparr>) (EnsureTenantReference ci)"

definition SetTenantReferenceNamespace :: "string \<Rightarrow> 'cs compute_instance \<Rightarrow> 'cs compute_instance" where
  "SetTenantReferenceNamespace n ci = map_status (\<lambda>st. st\<lparr>TenantReference :=
     map_option (\<lambda>ref. ref\<lparr>tr_Namespace := n\<rparr>) (TenantReference st)\<rparr>) (EnsureTenantReference ci)"

definition SetIPAddress :: "string \<Rightarrow> 'cs compute_instance \<Rightarrow> 'cs compute_instance" where
  "SetIPAddress ip = map_status (\<lambda>st. st\<lparr>IPAddress := ip\<rparr>)"

definition GetExternalIPAddress :: "'cs compute_instance \<Rightarrow> string" where
  "GetExternalIPAddress ci = ExternalIPAddress (Status ci)"

definition SetExternalIPAddress :: "string \<Rightarrow> 'cs compute_instance \<Rightarrow> 'cs compute_instance" where
  "SetExternalIPAddress ip = map_status (\<lambda>st. st\<lparr>ExternalIPAddress := ip\<rparr>)"

definition ComputeInstance_SetStatusCondition ::
  "'w k8s \<Rightarrow> instant \<Rightarrow> string \<Rightarrow> string \<Rightarrow> string \<Rightarrow> string \<Rightarrow> 'cs compute_instance \<Rightarrow> 'cs compute_instance"
where
  "ComputeInstance_SetStatusCondition lib t conditionType status message reason =
     map_conditions (\<lambda>cs. SetStatusCondition lib t cs
       \<lparr>cond_Type = conditionType, cond_Status = status, cond_Reason = reason,
        cond_Message = message, cond_LastTransitionTime = None\<rparr>)"

definition ComputeInstance_GetStatusCondition :: "'cs compute_instance \<Rightarrow> string \<Rightarrow> Condition option" where
  "ComputeInstance_GetStatusCondition ci conditionType = find (\<lambda>c. cond_Type c = conditionType) (Conditions (Status ci))"

definition ComputeInstance_IsStatusConditionTrue :: "'cs compute_instance \<Rightarrow> string \<Rightarrow> bool" where
  "ComputeInstance_IsStatusConditionTrue ci conditionType \<longleftrightarrow>
     (case ComputeInstance_GetStatusCondition ci conditionType of None \<Rightarrow> False | Some c \<Rightarrow> cond_Status c = ''True'')"

definition ComputeInstance_IsStatusConditionFalse :: "'cs compute_instance \<Rightarrow> string \<Rightarrow> bool" where
  "ComputeInstance_IsStatusConditionFalse ci conditionType \<longleftrightarrow>
     (case ComputeInstance_GetStatusCondition ci conditionType of None \<Rightarrow> False | Some c \<Rightarrow> cond_Status c = ''False'')"

definition ComputeInstance_IsStatusConditionUnknown :: "'cs compute_instance \<Rightarrow> string \<Rightarrow> bool" where
  "ComputeInstance_IsStatusConditionUnknown ci conditionType \<longleftrightarrow>
     (case ComputeInstance_GetStatusCondition ci conditionType of None \<Rightarrow> True | Some c \<Rightarrow> cond_Status c = ''Unknown'')"

definition set_ci_condition ::
  "'w k8s \<Rightarrow> string \<Rightarrow> string \<Rightarrow> string \<Rightarrow> string \<Rightarrow> ('cs compute_instance \<times> 'w, unit) go"
where
  "set_ci_condition lib conditionType status message reason =
     bnd (read_clock (k8s_now lib)) (\<lambda>t.
     mod_res (ComputeInstance_SetStatusCondition lib t conditionType status message reason))"

end
