(* ===== verification/Attachments.thy ===== *)
theory Attachments
  imports External_IPs Cluster_Types Compute_Types
begin

text \<open>
  The controller of ExternalIPAttachment (\<^verbatim>\<open>internal/controller/externalipattachment_controller.go\<close>). An
  attachment binds an ExternalIP to a ComputeInstance or to an endpoint of a ClusterOrder; the target
  carries a detach finalizer for as long as attachments refer to it. The specs of the targets, which this
  controller does not read, are type parameters.

  The variable \<^verbatim>\<open>provisionErr\<close> that the success callback assigns is a second component of the object the
  lifecycle works on (\<open>provider_on\<close>, \<open>jobs_on_fst\<close>, \<open>with_local\<close>).
\<close>

section \<open>Types\<close>

datatype TargetEndpoint = EndpointAPI | EndpointIngress | OtherEndpoint string

record ExternalIPAttachmentSpec =
  att_ExternalIP :: string
  att_ComputeInstance :: "string option"
  att_Cluster :: "string option"
  att_TargetEndpoint :: "TargetEndpoint option"

type_synonym ExternalIPAttachmentStatus = net_status
type_synonym ExternalIPAttachment = "(ExternalIPAttachmentSpec, ExternalIPAttachmentStatus) resource"

definition TargetEndpoint_String :: "TargetEndpoint \<Rightarrow> string" where
  "TargetEndpoint_String e =
     (case e of EndpointAPI \<Rightarrow> ''API'' | EndpointIngress \<Rightarrow> ''Ingress'' | OtherEndpoint s \<Rightarrow> s)"

definition ExternalIPAttachmentSpec_JSON :: "ExternalIPAttachmentSpec \<Rightarrow> (string \<times> json) list" where
  "ExternalIPAttachmentSpec_JSON spec =
     field ''externalIP'' (JStr (att_ExternalIP spec)) @
     omitempty_ptr ''computeInstance'' (map_option JStr (att_ComputeInstance spec)) @
     omitempty_ptr ''cluster'' (map_option JStr (att_Cluster spec)) @
     omitempty_ptr ''targetEndpoint'' (map_option (\<lambda>e. JStr (TargetEndpoint_String e)) (att_TargetEndpoint spec))"

record ('cs, 'os, 'w) ExternalIPAttachmentReconciler =
  "(ExternalIPAttachmentSpec, ExternalIPAttachmentStatus, 'w) Reconciler" +
  att_Delete :: "ExternalIPAttachment \<Rightarrow> ('w, gerror option) go"
  att_List :: "string \<Rightarrow> ('w, gerror + ExternalIPAttachment list) go"
  att_ExternalIPs :: "(ExternalIPSpec, ExternalIPStatus, 'w) kclient"
  att_List_ExternalIPs :: "string \<Rightarrow> string \<times> string \<Rightarrow> ('w, gerror + ExternalIP list) go"
  att_List_ExternalIPPools :: "string \<Rightarrow> string \<times> string \<Rightarrow> ('w, gerror + ExternalIPPool list) go"
  att_ComputeInstances :: "('cs, ComputeInstanceStatus, 'w) kclient"
  att_List_ComputeInstances :: "string \<Rightarrow> string \<times> string \<Rightarrow> ('w, gerror + 'cs compute_instance list) go"
  att_ClusterOrders :: "('os, ClusterOrderStatus, 'w) kclient"
  att_List_ClusterOrders :: "string \<Rightarrow> string \<times> string \<Rightarrow> ('w, gerror + 'os cluster_order list) go"
  att_NetworkingNamespace :: string
  ComputeInstanceNamespace :: string
  ClusterOrderNamespace :: string

section \<open>Constants\<close>

definition osacExternalIPAttachmentFinalizer :: string where
  "osacExternalIPAttachmentFinalizer = ''osac.openshift.io/externalipattachment-finalizer''"

definition osacComputeInstanceIDLabel :: string where
  "osacComputeInstanceIDLabel = ''osac.openshift.io/computeinstance-uuid''"

definition osacClusterOrderIDLabel :: string where
  "osacClusterOrderIDLabel = ''osac.openshift.io/clusterorder-uuid''"

definition osacExternalIPDetachFinalizer :: string where
  "osacExternalIPDetachFinalizer = ''osac.openshift.io/externalip-detach''"

definition osacExternalIPNameAnnotation :: string where
  "osacExternalIPNameAnnotation = ''osac.openshift.io/externalip-name''"

definition osacExternalIPTargetNamespaceAnnotation :: string where
  "osacExternalIPTargetNamespaceAnnotation = ''osac.openshift.io/externalip-target-namespace''"

definition osacExternalIPTargetIPAnnotation :: string where
  "osacExternalIPTargetIPAnnotation = ''osac.openshift.io/target-ip''"

text \<open>The constructor, applied to the clients the manager hands out (\<open>None\<close> for a nil manager).\<close>

definition NewExternalIPAttachmentReconciler ::
  "('cs, 'os, 'w) ExternalIPAttachmentReconciler option \<Rightarrow> string \<Rightarrow> string \<Rightarrow> string \<Rightarrow>
   (ExternalIPAttachment, 'w) ProvisioningProvider option \<Rightarrow> duration \<Rightarrow> int \<Rightarrow>
   ('cs, 'os, 'w) ExternalIPAttachmentReconciler option"
where
  "NewExternalIPAttachmentReconciler mgr networkingNamespace computeInstanceNamespace
     clusterOrderNamespace provisioningProvider statusPollInterval maxJobHistory =
     map_option (\<lambda>clients. clients
       \<lparr>ProvisioningProvider := provisioningProvider,
        StatusPollInterval := default_poll statusPollInterval,
        MaxJobHistory := default_history maxJobHistory,
        att_NetworkingNamespace := networkingNamespace,
        ComputeInstanceNamespace :=
          (if computeInstanceNamespace = '''' then defaultComputeInstanceNamespace else computeInstanceNamespace),
        ClusterOrderNamespace :=
          (if clusterOrderNamespace = '''' then defaultClusterOrderNamespace else clusterOrderNamespace)\<rparr>) mgr"

section \<open>Resolving the target\<close>

definition resolveClusterEndpoint :: "'os cluster_order \<Rightarrow> ExternalIPAttachment \<Rightarrow> string" where
  "resolveClusterEndpoint co attachment =
     (case att_TargetEndpoint (Spec attachment) of
        None \<Rightarrow> ''''
      | Some EndpointAPI \<Rightarrow> ApiEndpoint (Status co)
      | Some EndpointIngress \<Rightarrow> IngressEndpoint (Status co)
      | Some (OtherEndpoint _) \<Rightarrow> '''')"

text \<open>Adding the detach finalizer to a target in memory, and writing it if that changed it.\<close>

definition add_detach_finalizer ::
  "'w k8s \<Rightarrow> ('sp, 'st, 'w) kclient \<Rightarrow> ('sp, 'st) resource \<Rightarrow> ('w, gerror + ('sp, 'st) resource) go"
where
  "add_detach_finalizer lib client target =
     (case AddFinalizer lib (Finalizers (Meta target)) osacExternalIPDetachFinalizer of
        (fs, changed) \<Rightarrow>
          if changed then Update client (set_finalizers fs target)
          else ret (Inr (set_finalizers fs target)))"

definition resolveComputeInstance ::
  "('cs, 'os, 'w) ExternalIPAttachmentReconciler \<Rightarrow> ExternalIPAttachment \<Rightarrow>
   ('w, 'cs compute_instance option \<times> outcome) go"
where
  "resolveComputeInstance r attachment =
     (case att_ComputeInstance (Spec attachment) of
        None \<Rightarrow> ret (None, no_requeue, None)
      | Some ciUUID \<Rightarrow>
          bnd (att_List_ComputeInstances r (ComputeInstanceNamespace r) (osacComputeInstanceIDLabel, ciUUID)) (\<lambda>ciList.
            case ciList of
              Inl err \<Rightarrow> ret (None, no_requeue, Some err)
            | Inr [] \<Rightarrow> ret (None, requeue_after defaultPreconditionRequeueInterval, None)
            | Inr (ci # _) \<Rightarrow>
                if DeletionTimestamp (Meta ci) \<noteq> None then
                  bnd (att_Delete r attachment) (\<lambda>e.
                    case e of
                      Some err \<Rightarrow> ret (None, no_requeue, IgnoreNotFound (Lib r) err)
                    | None \<Rightarrow> ret (None, requeue_after Second, None))
                else if VirtualMachineReference (Status ci) = None then
                  ret (None, requeue_after defaultPreconditionRequeueInterval, None)
                else
                  bnd (add_detach_finalizer (Lib r) (att_ComputeInstances r) ci) (\<lambda>res.
                    case res of
                      Inl err \<Rightarrow> ret (None, no_requeue, Some err)
                    | Inr ci' \<Rightarrow> ret (Some ci', no_requeue, None))))"

definition resolveClusterOrder ::
  "('cs, 'os, 'w) ExternalIPAttachmentReconciler \<Rightarrow> ExternalIPAttachment \<Rightarrow>
   ('w, 'os cluster_order option \<times> outcome) go"
where
  "resolveClusterOrder r attachment =
     (case att_Cluster (Spec attachment) of
        None \<Rightarrow> ret (None, no_requeue, None)
      | Some coUUID \<Rightarrow>
          bnd (att_List_ClusterOrders r (ClusterOrderNamespace r) (osacClusterOrderIDLabel, coUUID)) (\<lambda>coList.
            case coList of
              Inl err \<Rightarrow> ret (None, no_requeue, Some err)
            | Inr [] \<Rightarrow> ret (None, requeue_after defaultPreconditionRequeueInterval, None)
            | Inr (co # _) \<Rightarrow>
                if DeletionTimestamp (Meta co) \<noteq> None then
                  bnd (att_Delete r attachment) (\<lambda>e.
                    case e of
                      Some err \<Rightarrow> ret (None, no_requeue, IgnoreNotFound (Lib r) err)
                    | None \<Rightarrow> ret (None, requeue_after Second, None))
                else if resolveClusterEndpoint co attachment = '''' then
                  ret (None, requeue_after defaultPreconditionRequeueInterval, None)
                else
                  bnd (add_detach_finalizer (Lib r) (att_ClusterOrders r) co) (\<lambda>res.
                    case res of
                      Inl err \<Rightarrow> ret (None, no_requeue, Some err)
                    | Inr co' \<Rightarrow> ret (Some co', no_requeue, None))))"

section \<open>Provisioning\<close>

definition onProvisionSuccess ::
  "('cs, 'os, 'w) ExternalIPAttachmentReconciler \<Rightarrow> ExternalIP \<Rightarrow> 'cs compute_instance option \<Rightarrow>
   ('w, gerror option) go"
where
  "onProvisionSuccess r externalIP ci =
     bnd (RetryOnConflict (Lib r)
            (bnd (Get (att_ExternalIPs r) (ObjectKeyFromObject externalIP)) (\<lambda>res.
               case res of
                 Inl err \<Rightarrow> ret (Some err)
               | Inr fresh \<Rightarrow>
                   if Attached (Status fresh) then ret None
                   else Status_Update (att_ExternalIPs r) (map_status (\<lambda>st. st\<lparr>Attached := True\<rparr>) fresh)))) (\<lambda>e.
       case e of
         Some err \<Rightarrow> ret (Some (Wrapf ''failed to set ExternalIP status.attached=true: %w'' [] err))
       | None \<Rightarrow>
           (case ci of
              None \<Rightarrow> ret None
            | Some c \<Rightarrow>
                bnd (Get (att_ExternalIPs r) (ObjectKeyFromObject externalIP)) (\<lambda>got.
                  case got of
                    Inl err \<Rightarrow> ret (Some (Wrapf ''failed to fetch ExternalIP for address lookup: %w'' [] err))
                  | Inr freshEIP \<Rightarrow>
                      if Address (Status freshEIP) = '''' then ret None
                      else
                        bnd (RetryOnConflict (Lib r)
                               (bnd (Get (att_ComputeInstances r) (ObjectKeyFromObject c)) (\<lambda>res.
                                  case res of
                                    Inl err \<Rightarrow> ret (Some err)
                                  | Inr fresh \<Rightarrow>
                                      if GetExternalIPAddress fresh = Address (Status freshEIP) then ret None
                                      else Status_Update (att_ComputeInstances r)
                                             (SetExternalIPAddress (Address (Status freshEIP)) fresh)))) (\<lambda>e'.
                          case e' of
                            Some err \<Rightarrow> ret (Some (Wrapf ''failed to set ComputeInstance externalIPAddress: %w'' [] err))
                          | None \<Rightarrow> ret None))))"

definition Attachment_writeStatus ::
  "('cs, 'os, 'w) ExternalIPAttachmentReconciler \<Rightarrow> ExternalIPAttachment \<Rightarrow> ('w, gerror option) go"
where
  "Attachment_writeStatus r attachment =
     updateStatusWithRetry r (ObjectKeyFromObject attachment) (Status attachment)"

text \<open>The object of the lifecycle together with the variable \<^verbatim>\<open>provisionErr\<close>.\<close>

definition provider_on :: "('b \<Rightarrow> 'a) \<Rightarrow> ('a, 'w) ProvisioningProvider \<Rightarrow> ('b, 'w) ProvisioningProvider" where
  "provider_on f p =
     \<lparr>TriggerProvision = (\<lambda>x. TriggerProvision p (f x)),
      GetProvisionStatus = (\<lambda>x. GetProvisionStatus p (f x)),
      TriggerDeprovision = (\<lambda>x. TriggerDeprovision p (f x)),
      GetDeprovisionStatus = (\<lambda>x. GetDeprovisionStatus p (f x))\<rparr>"

definition jobs_on_fst :: "'a JobsRef \<Rightarrow> ('a \<times> 'b) JobsRef" where
  "jobs_on_fst ref =
     \<lparr>Jobs_get = (\<lambda>(x, y). Jobs_get ref x), Jobs_set = (\<lambda>js (x, y). (Jobs_set ref js x, y))\<rparr>"

definition with_local :: "'v \<Rightarrow> (('o \<times> 'v) \<times> 'w, 'a) go \<Rightarrow> ('o \<times> 'w, 'a \<times> 'v) go" where
  "with_local v m =
     (\<lambda>(obj, w). case m ((obj, v), w) of
        None \<Rightarrow> None
      | Some (x, ((obj', v'), w')) \<Rightarrow> Some ((x, v'), (obj', w')))"

definition Attachment_callbacks ::
  "('cs, 'os, 'w) ExternalIPAttachmentReconciler \<Rightarrow> ExternalIP \<Rightarrow> 'cs compute_instance option \<Rightarrow>
   (ExternalIPAttachment \<times> gerror option, 'w) PollCallbacks"
where
  "Attachment_callbacks r externalIP ci =
     \<lparr>OnFailed = Some (\<lambda>message.
        bnd (read_clock (k8s_now (Lib r))) (\<lambda>t.
        bnd (mod_res (map_prod (set_phase PhaseFailed) id)) (\<lambda>_.
        mod_res (map_prod (map_conditions (setReadyConditionFailed (Lib r) t message)) id)))),
      OnSuccess = Some (\<lambda>status.
        bnd (mod_res (map_prod (set_phase PhaseReady) id)) (\<lambda>_.
        bnd (on_world (onProvisionSuccess r externalIP ci)) (\<lambda>provisionErr.
        bnd (mod_res (\<lambda>(obj, _). (obj, provisionErr))) (\<lambda>_.
        bnd (read_clock (k8s_now (Lib r))) (\<lambda>t.
        mod_res (map_prod (map_conditions (setReadyConditionTrue (Lib r) t)) id))))))\<rparr>"

definition Attachment_handleProvisioning ::
  "('cs, 'os, 'w) ExternalIPAttachmentReconciler \<Rightarrow> ExternalIP \<Rightarrow> 'cs compute_instance option \<Rightarrow>
   (ExternalIPAttachment \<times> 'w, outcome) go"
where
  "Attachment_handleProvisioning r externalIP ci =
     (case ProvisioningProvider r of
        None \<Rightarrow> ret (no_requeue, None)
      | Some provider \<Rightarrow>
          bnd get_res (\<lambda>attachment.
          bnd (with_local None
                 (RunProvisioningLifecycle (k8s_now (Lib r)) (provider_on fst provider)
                    \<lparr>State_Jobs = jobs_on_fst status_jobs,
                     State_DesiredConfigVersion = DesiredConfigVersion (Status attachment)\<rparr>
                    (MaxJobHistory r) (StatusPollInterval r) (Some (Attachment_callbacks r externalIP ci))
                    (bnd get_res (\<lambda>cur. on_world
                       (CheckAPIServerForNonTerminalProvisionJob
                          (APIReader_Get (Client r) (ObjectKeyFromObject (fst cur)))
                          (\<lambda>fresh. ProvisioningJobs (Status fresh)))))
                    (Some (bnd get_res (\<lambda>cur. on_world (Attachment_writeStatus r (fst cur)))))))
            (\<lambda>((result, err), provisionErr).
               if err \<noteq> None then ret (result, err)
               else if provisionErr \<noteq> None then ret (no_requeue, provisionErr)
               else ret (result, None))))"

text \<open>One step of the synchronisation of the annotations; the flag is \<^verbatim>\<open>needsUpdate\<close>.\<close>

definition sync_annotation ::
  "string \<times> string \<Rightarrow> ('sp, 'st) resource \<times> bool \<Rightarrow> ('sp, 'st) resource \<times> bool"
where
  "sync_annotation kv st =
     (if lookup_string (Annotations (Meta (fst st))) (fst kv) \<noteq> snd kv
      then (set_annotation (fst kv) (snd kv) (fst st), True) else st)"

definition wanted_annotations ::
  "string \<Rightarrow> ExternalIPPool \<Rightarrow> ExternalIP \<Rightarrow> 'cs compute_instance option \<Rightarrow> 'os cluster_order option \<Rightarrow>
   ExternalIPAttachment \<Rightarrow> (string \<times> string) list"
where
  "wanted_annotations strategy pool externalIP ci co attachment =
     [(osacImplementationStrategyAnnotation, strategy),
      (osacExternalIPPoolNameAnnotation, Name (Meta pool)),
      (osacExternalIPNameAnnotation, Name (Meta externalIP))] @
     (case ci of
        None \<Rightarrow> []
      | Some c \<Rightarrow>
          (case VirtualMachineReference (Status c) of
             None \<Rightarrow> []
           | Some vm \<Rightarrow> [(osacExternalIPTargetNamespaceAnnotation, vm_Namespace vm)])) @
     (case co of
        None \<Rightarrow> []
      | Some c \<Rightarrow>
          (let targetIP = resolveClusterEndpoint c attachment in
           if targetIP \<noteq> '''' then [(osacExternalIPTargetIPAnnotation, targetIP)] else []))"

definition attachment_struct :: "ExternalIPAttachmentSpec \<Rightarrow> string \<Rightarrow> string \<Rightarrow> json" where
  "attachment_struct spec strategy targetIP =
     JObj (field ''Spec'' (JObj (ExternalIPAttachmentSpec_JSON spec)) @
           field ''ImplementationStrategy'' (JStr strategy) @ field ''TargetIP'' (JStr targetIP))"

definition Attachment_provision ::
  "('cs, 'os, 'w) ExternalIPAttachmentReconciler \<Rightarrow> ExternalIP \<Rightarrow> 'cs compute_instance option \<Rightarrow> string \<Rightarrow>
   (ExternalIPAttachment \<times> 'w, outcome) go"
where
  "Attachment_provision r externalIP ci strategy =
     bnd get_res (\<lambda>attachment.
       case ComputeDesiredConfigVersion (Inr (json_Marshal (attachment_struct (Spec attachment) strategy
              (lookup_string (Annotations (Meta attachment)) osacExternalIPTargetIPAnnotation)))) of
         Inl err \<Rightarrow> ret (no_requeue, Some (Wrapf ''failed to compute desired config version: %w'' [] err))
       | Inr desiredVersion \<Rightarrow>
           bnd (set_desired_version desiredVersion) (\<lambda>_.
           bnd (set_configuration_applied (Lib r)) (\<lambda>_.
           bnd phase_progressing_if_changed (\<lambda>_.
           Attachment_handleProvisioning r externalIP ci))))"

definition Attachment_sync ::
  "('cs, 'os, 'w) ExternalIPAttachmentReconciler \<Rightarrow> ExternalIP \<Rightarrow> ExternalIPPool \<Rightarrow>
   (ExternalIPAttachment \<times> 'w, outcome) go"
where
  "Attachment_sync r externalIP pool =
     bnd get_res (\<lambda>attachment.
     bnd (on_world (resolveComputeInstance r attachment)) (\<lambda>(ci, result, err).
       if err \<noteq> None \<or> RequeueAfter result > 0 then ret (result, err)
       else
         bnd (on_world (resolveClusterOrder r attachment)) (\<lambda>(co, result, err).
           if err \<noteq> None \<or> RequeueAfter result > 0 then ret (result, err)
           else
             (let strategy = pool_strategy pool in
              case fold sync_annotation (wanted_annotations strategy pool externalIP ci co attachment)
                     (attachment, False) of
                (attachment', needsUpdate) \<Rightarrow>
                  bnd (put_res attachment') (\<lambda>_.
                    if needsUpdate then
                      bnd (update_object r) (\<lambda>e.
                        case e of
                          Some err \<Rightarrow> ret (no_requeue, Some err)
                        | None \<Rightarrow> ret (requeue_after Second, None))
                    else Attachment_provision r externalIP ci strategy)))))"

definition Attachment_handleUpdate ::
  "('cs, 'os, 'w) ExternalIPAttachmentReconciler \<Rightarrow> (ExternalIPAttachment \<times> 'w, outcome) go"
where
  "Attachment_handleUpdate r =
     add_finalizer r osacExternalIPAttachmentFinalizer True
       (bnd phase_progressing_if_unset (\<lambda>_.
        bnd get_res (\<lambda>attachment.
        bnd (on_world (att_List_ExternalIPs r (Namespace (Meta attachment))
               (osacExternalIPIDLabel, att_ExternalIP (Spec attachment)))) (\<lambda>externalIPList.
          case externalIPList of
            Inl err \<Rightarrow> ret (no_requeue, Some err)
          | Inr [] \<Rightarrow> ret (requeue_after defaultPreconditionRequeueInterval, None)
          | Inr (externalIP # _) \<Rightarrow>
              bnd (on_world (att_List_ExternalIPPools r (Namespace (Meta attachment))
                     (osacExternalIPPoolIDLabel, Pool (Spec externalIP)))) (\<lambda>poolList.
                case poolList of
                  Inl err \<Rightarrow> ret (no_requeue, Some err)
                | Inr [] \<Rightarrow> ret (requeue_after defaultPreconditionRequeueInterval, None)
                | Inr (pool # _) \<Rightarrow> Attachment_sync r externalIP pool)))))"

section \<open>Deprovisioning\<close>

text \<open>
  The detach finalizer of a target: kept while another attachment refers to it, otherwise removed from
  the object found by its label.
\<close>

definition still_referenced ::
  "(ExternalIPAttachmentSpec \<Rightarrow> string option) \<Rightarrow> string \<Rightarrow> string \<Rightarrow> ExternalIPAttachment list \<Rightarrow> bool"
where
  "still_referenced target uuid excludeAttachment attachments \<longleftrightarrow>
     (\<exists>a \<in> set attachments. Name (Meta a) \<noteq> excludeAttachment \<and> target (Spec a) = Some uuid)"

definition remove_detach_finalizer ::
  "'w k8s \<Rightarrow> ('sp, 'st, 'w) kclient \<Rightarrow> ('w, gerror + ('sp, 'st) resource list) go \<Rightarrow> ('w, gerror option) go"
where
  "remove_detach_finalizer lib client list =
     bnd list (\<lambda>res.
       case res of
         Inl err \<Rightarrow> ret (Some err)
       | Inr [] \<Rightarrow> ret None
       | Inr (target # _) \<Rightarrow>
           (case RemoveFinalizer lib (Finalizers (Meta target)) osacExternalIPDetachFinalizer of
              (fs, changed) \<Rightarrow>
                if changed then
                  bnd (Update client (set_finalizers fs target)) (\<lambda>res'.
                    case res' of Inl err \<Rightarrow> ret (Some err) | Inr _ \<Rightarrow> ret None)
                else ret None))"

definition removeCIDetachFinalizerIfUnreferenced ::
  "('cs, 'os, 'w) ExternalIPAttachmentReconciler \<Rightarrow> string \<Rightarrow> string \<Rightarrow> ('w, gerror option) go"
where
  "removeCIDetachFinalizerIfUnreferenced r ciUUID excludeAttachment =
     bnd (att_List r (att_NetworkingNamespace r)) (\<lambda>res.
       case res of
         Inl err \<Rightarrow> ret (Some err)
       | Inr attachments \<Rightarrow>
           if still_referenced att_ComputeInstance ciUUID excludeAttachment attachments then ret None
           else RetryOnConflict (Lib r)
                  (remove_detach_finalizer (Lib r) (att_ComputeInstances r)
                     (att_List_ComputeInstances r (ComputeInstanceNamespace r)
                        (osacComputeInstanceIDLabel, ciUUID))))"

definition maybeRemoveCODetachFinalizer ::
  "('cs, 'os, 'w) ExternalIPAttachmentReconciler \<Rightarrow> string \<Rightarrow> string \<Rightarrow> ('w, gerror option) go"
where
  "maybeRemoveCODetachFinalizer r coUUID excludeAttachment =
     bnd (att_List r (att_NetworkingNamespace r)) (\<lambda>res.
       case res of
         Inl err \<Rightarrow> ret (Some err)
       | Inr attachments \<Rightarrow>
           if still_referenced att_Cluster coUUID excludeAttachment attachments then ret None
           else RetryOnConflict (Lib r)
                  (remove_detach_finalizer (Lib r) (att_ClusterOrders r)
                     (att_List_ClusterOrders r (ClusterOrderNamespace r)
                        (osacClusterOrderIDLabel, coUUID))))"

definition clearAttached ::
  "('cs, 'os, 'w) ExternalIPAttachmentReconciler \<Rightarrow> ExternalIPAttachment \<Rightarrow> ('w, gerror option) go"
where
  "clearAttached r attachment =
     RetryOnConflict (Lib r)
       (bnd (att_List_ExternalIPs r (Namespace (Meta attachment))
               (osacExternalIPIDLabel, att_ExternalIP (Spec attachment))) (\<lambda>res.
          case res of
            Inl err \<Rightarrow> ret (Some err)
          | Inr [] \<Rightarrow> ret None
          | Inr (externalIP # _) \<Rightarrow>
              if \<not> Attached (Status externalIP) then ret None
              else Status_Update (att_ExternalIPs r) (map_status (\<lambda>st. st\<lparr>Attached := False\<rparr>) externalIP)))"

definition clearExternalIPAddress ::
  "('cs, 'os, 'w) ExternalIPAttachmentReconciler \<Rightarrow> string \<Rightarrow> ('w, gerror option) go"
where
  "clearExternalIPAddress r ciUUID =
     RetryOnConflict (Lib r)
       (bnd (att_List_ComputeInstances r (ComputeInstanceNamespace r) (osacComputeInstanceIDLabel, ciUUID)) (\<lambda>res.
          case res of
            Inl err \<Rightarrow> ret (Some err)
          | Inr [] \<Rightarrow> ret None
          | Inr (ci # _) \<Rightarrow>
              if GetExternalIPAddress ci = '''' then ret None
              else Status_Update (att_ComputeInstances r) (SetExternalIPAddress '''' ci)))"

text \<open>\<open>check_then m f k\<close>: return the wrapped error of \<open>m\<close>, or go on with \<open>k\<close>.\<close>

definition check_then ::
  "('w, gerror option) go \<Rightarrow> string \<Rightarrow> ('w, gerror option) go \<Rightarrow> ('w, gerror option) go"
where
  "check_then m f k = bnd m (\<lambda>e. case e of Some err \<Rightarrow> ret (Some (Wrapf f [] err)) | None \<Rightarrow> k)"

definition onDeprovisionSuccess ::
  "('cs, 'os, 'w) ExternalIPAttachmentReconciler \<Rightarrow> ExternalIPAttachment \<Rightarrow> ('w, gerror option) go"
where
  "onDeprovisionSuccess r attachment =
     (let removeCO =
        (case att_Cluster (Spec attachment) of
           None \<Rightarrow> ret None
         | Some coUUID \<Rightarrow>
             check_then (maybeRemoveCODetachFinalizer r coUUID (Name (Meta attachment)))
               ''failed to remove ClusterOrder detach finalizer: %w'' (ret None)) in
      check_then (clearAttached r attachment) ''failed to clear ExternalIP status.attached: %w''
        (case att_ComputeInstance (Spec attachment) of
           None \<Rightarrow> removeCO
         | Some ciUUID \<Rightarrow>
             check_then (clearExternalIPAddress r ciUUID) ''failed to clear ComputeInstance externalIPAddress: %w''
               (check_then (removeCIDetachFinalizerIfUnreferenced r ciUUID (Name (Meta attachment)))
                  ''failed to remove CI detach finalizer: %w'' removeCO)))"

definition Attachment_handleDelete ::
  "('cs, 'os, 'w) ExternalIPAttachmentReconciler \<Rightarrow> (ExternalIPAttachment \<times> 'w, outcome) go"
where
  "Attachment_handleDelete r =
     delete_frame r osacExternalIPAttachmentFinalizer
       (bnd get_res (\<lambda>attachment.
        bnd (on_world (onDeprovisionSuccess r attachment)) (\<lambda>e.
          case e of
            Some err \<Rightarrow> ret (no_requeue, Some err)
          | None \<Rightarrow> release_always r osacExternalIPAttachmentFinalizer)))"

definition Attachment_Reconcile ::
  "('cs, 'os, 'w) ExternalIPAttachmentReconciler \<Rightarrow> ObjectKey \<Rightarrow> ('w, outcome) go"
where
  "Attachment_Reconcile r key =
     reconcile_frame r (Attachment_handleUpdate r) (Attachment_handleDelete r) (Attachment_writeStatus r) key"

section \<open>Watches\<close>

definition mapClusterOrderToExternalIPAttachments ::
  "('cs, 'os, 'w) ExternalIPAttachmentReconciler \<Rightarrow> 'os cluster_order \<Rightarrow> ('w, ObjectKey list) go"
where
  "mapClusterOrderToExternalIPAttachments r obj =
     (case Labels (Meta obj) osacClusterOrderIDLabel of
        None \<Rightarrow> ret []
      | Some coUUID \<Rightarrow>
          bnd (att_List r (att_NetworkingNamespace r)) (\<lambda>res.
            case res of
              Inl err \<Rightarrow> ret []
            | Inr attachments \<Rightarrow>
                ret (map ObjectKeyFromObject (filter (\<lambda>a. att_Cluster (Spec a) = Some coUUID) attachments))))"

definition mapComputeInstanceToExternalIPAttachments ::
  "('cs, 'os, 'w) ExternalIPAttachmentReconciler \<Rightarrow> 'cs compute_instance \<Rightarrow> ('w, ObjectKey list) go"
where
  "mapComputeInstanceToExternalIPAttachments r obj =
     (case Labels (Meta obj) osacComputeInstanceIDLabel of
        None \<Rightarrow> ret []
      | Some ciUUID \<Rightarrow>
          bnd (att_List r (att_NetworkingNamespace r)) (\<lambda>res.
            case res of
              Inl err \<Rightarrow> ret []
            | Inr attachments \<Rightarrow>
                ret (map ObjectKeyFromObject (filter (\<lambda>a. att_ComputeInstance (Spec a) = Some ciUUID) attachments))))"

section \<open>The contract\<close>

text \<open>All calls about other kinds of objects only advance the world.\<close>

definition client_steady :: "'w world_view \<Rightarrow> ('sp, 'st, 'w) kclient \<Rightarrow> bool" where
  "client_steady V client \<longleftrightarrow>
     (\<forall>key. steady V (Get client key)) \<and> (\<forall>obj. steady V (Update client obj)) \<and>
     (\<forall>obj. steady V (Status_Update client obj))"

definition attachment_steady :: "('cs, 'os, 'w) ExternalIPAttachmentReconciler \<Rightarrow> 'w world_view \<Rightarrow> bool" where
  "attachment_steady r V \<longleftrightarrow>
     retry_law (Lib r) V \<and> (\<forall>a. steady V (att_Delete r a)) \<and> (\<forall>ns. steady V (att_List r ns)) \<and>
     client_steady V (att_ExternalIPs r) \<and> client_steady V (att_ComputeInstances r) \<and>
     client_steady V (att_ClusterOrders r) \<and>
     lists_steady V (att_List_ExternalIPs r) \<and> lists_steady V (att_List_ExternalIPPools r) \<and>
     lists_steady V (att_List_ComputeInstances r) \<and> lists_steady V (att_List_ClusterOrders r)"

lemma client_steadyD:
  "client_steady V client \<Longrightarrow> steady V (Get client key)"
  "client_steady V client \<Longrightarrow> steady V (Update client obj)"
  "client_steady V client \<Longrightarrow> steady V (Status_Update client obj)"
  unfolding client_steady_def by blast+

lemma attachment_steadyD:
  assumes "attachment_steady r V"
  shows "retry_law (Lib r) V" "steady V (att_Delete r a)" "steady V (att_List r ns)"
    "client_steady V (att_ExternalIPs r)" "client_steady V (att_ComputeInstances r)"
    "client_steady V (att_ClusterOrders r)"
    "steady V (att_List_ExternalIPs r ns l)" "steady V (att_List_ExternalIPPools r ns l)"
    "steady V (att_List_ComputeInstances r ns l)" "steady V (att_List_ClusterOrders r ns l)"
  using assms unfolding attachment_steady_def lists_steady_def by blast+

lemma add_detach_finalizer_steady: "client_steady V client \<Longrightarrow> steady V (add_detach_finalizer lib client x)"
  by (auto simp: add_detach_finalizer_def client_steadyD split: prod.split)

lemma resolve_steady:
  assumes "attachment_steady r V"
  shows "steady V (resolveComputeInstance r a)" and "steady V (resolveClusterOrder r a)"
  unfolding resolveComputeInstance_def resolveClusterOrder_def
  by (auto simp: attachment_steadyD [OF assms] split: option.split sum.split list.split
      intro!: steady_bnd add_detach_finalizer_steady)

lemma onProvisionSuccess_steady:
  assumes "attachment_steady r V"
  shows "steady V (onProvisionSuccess r x ci)"
  unfolding onProvisionSuccess_def
  by (auto simp: attachment_steadyD [OF assms] client_steadyD split: option.split sum.split
      intro!: steady_bnd steady_retry client_steadyD)

lemma remove_detach_finalizer_steady:
  "client_steady V client \<Longrightarrow> steady V list \<Longrightarrow> steady V (remove_detach_finalizer lib client list)"
  by (auto simp: remove_detach_finalizer_def client_steadyD split: sum.split list.split prod.split intro!: steady_bnd)

lemma onDeprovisionSuccess_steady:
  assumes "attachment_steady r V"
  shows "steady V (onDeprovisionSuccess r a)"
proof -
  note D = attachment_steadyD [OF assms]
  have chk: "steady V (check_then m f k)" if "steady V m" "steady V k" for m f k
    using that by (auto simp: check_then_def split: option.split intro!: steady_bnd)
  have "steady V (clearAttached r a)"
    by (auto simp: clearAttached_def D client_steadyD split: sum.split list.split intro!: steady_bnd steady_retry)
  moreover have "steady V (clearExternalIPAddress r u)" for u
    by (auto simp: clearExternalIPAddress_def D client_steadyD split: sum.split list.split intro!: steady_bnd steady_retry)
  moreover have "steady V (removeCIDetachFinalizerIfUnreferenced r u n)"
    and "steady V (maybeRemoveCODetachFinalizer r u n)" for u n
    by (auto simp: removeCIDetachFinalizerIfUnreferenced_def maybeRemoveCODetachFinalizer_def D
        split: sum.split intro!: steady_bnd steady_retry remove_detach_finalizer_steady)
  ultimately show ?thesis
    by (auto simp: onDeprovisionSuccess_def Let_def split: option.split intro!: chk)
qed

text \<open>The lifecycle on an object with a local variable beside it.\<close>

interpretation loc: jobs_ref "jobs_on_fst status_jobs :: (('sp, 'm) net_resource \<times> 'v) JobsRef"
  by unfold_locales (auto simp: jobs_on_fst_def status_jobs_def map_status_def split: prod.split)

lemma jobs_on_fst_get [simp]: "Jobs_get (jobs_on_fst ref) s = Jobs_get ref (fst s)"
  by (simp add: jobs_on_fst_def split: prod.split)

lemma system_ok_on_fst: "system_ok mh (jobs_on_fst ref) V ((x, y), w) = system_ok mh ref V (x, w)"
  by (simp add: system_ok_def)

lemma honest_on: "honest V p \<Longrightarrow> honest V (provider_on f p)"
  by (simp add: honest_def provider_on_def)

lemma wlp_with_local:
  "wlp (with_local v m) Q (obj, w) = wlp m (\<lambda>x ((obj', v'), w'). Q (x, v') (obj', w')) ((obj, v), w)"
  by (simp add: wlp_def with_local_def split: option.splits prod.splits)

lemma Attachment_callbacks_quiet:
  assumes "attachment_steady r V"
  shows "quiet_callbacks mh (jobs_on_fst status_jobs) V (Some (Attachment_callbacks r x ci))"
proof -
  have "wlp (onProvisionSuccess r x ci) (\<lambda>_. advances V w) w" if "wv_inv V w" for w
    using onProvisionSuccess_steady [OF assms] that by (simp add: steady_def)
  then show ?thesis
    by (auto simp: quiet_callbacks_def Attachment_callbacks_def quiet_def wlp_bnd wlp_read_clock wlp_mod_res
        wlp_on_world system_ok_def intro: wlp_mono)
qed

lemma Attachment_handleProvisioning_ok:
  assumes c: "controlled r V f" and att: "attachment_steady r V"
    and ok: "system_ok (MaxJobHistory r) status_jobs V s"
  shows "wlp (Attachment_handleProvisioning r x ci) (\<lambda>_. system_ok (MaxJobHistory r) status_jobs V) s"
proof -
  obtain p where p: "ProvisioningProvider r = Some p" "honest V p"
    using controlled_provider [OF c] by metis
  obtain obj w where s: "s = (obj, w)" by (cases s)
  note D = controlledD [OF c]
  let ?flush = "bnd get_res (\<lambda>cur. on_world (Attachment_writeStatus r (fst cur)))"
  let ?chk = "bnd get_res (\<lambda>cur. on_world (CheckAPIServerForNonTerminalProvisionJob
      (APIReader_Get (Client r) (ObjectKeyFromObject (fst cur))) (\<lambda>fresh. ProvisioningJobs (Status fresh))))"
  have flush: "quiet (MaxJobHistory r) (jobs_on_fst status_jobs) V ?flush"
    by (auto simp: quiet_def wlp_bnd wlp_get_res wlp_on_world Attachment_writeStatus_def system_ok_on_fst
        intro: wlp_mono [OF updateStatusWithRetry_ok [OF c]])
  have chk: "quiet (MaxJobHistory r) (jobs_on_fst status_jobs) V ?chk"
    by (intro quiet_steady CheckAPIServer_steady reads_steady [OF api_lawsD(2) [OF D(7)]])
  have run: "wlp (RunProvisioningLifecycle (wv_now V) (provider_on fst p)
      \<lparr>State_Jobs = jobs_on_fst status_jobs, State_DesiredConfigVersion = DesiredConfigVersion (Status obj)\<rparr>
      (MaxJobHistory r) (StatusPollInterval r) (Some (Attachment_callbacks r x ci)) ?chk (Some ?flush))
     (\<lambda>_. system_ok (MaxJobHistory r) (jobs_on_fst status_jobs) V) ((obj, None), w)"
    using ok flush
    by (intro loc.RunProvisioningLifecycle_ok [OF _ D(1) honest_on [OF p(2)] _ Attachment_callbacks_quiet [OF att] chk])
      (simp_all add: system_ok_on_fst s)
  show ?thesis
    unfolding Attachment_handleProvisioning_def p(1) option.case s wlp_bnd [of get_res] wlp_get_res prod.case
      wlp_bnd [of "with_local _ _"] wlp_with_local D(3)
    by (rule wlp_mono [OF run]) (auto simp: wlp_ret system_ok_on_fst split: prod.split)
qed

lemma sync_annotations_keep:
  "ProvisioningJobs (Status (fst (fold sync_annotation kvs st))) = ProvisioningJobs (Status (fst st)) \<and>
   DeletionTimestamp (Meta (fst (fold sync_annotation kvs st))) = DeletionTimestamp (Meta (fst st)) \<and>
   Finalizers (Meta (fst (fold sync_annotation kvs st))) = Finalizers (Meta (fst st)) \<and>
   ObjectKeyFromObject (fst (fold sync_annotation kvs st)) = ObjectKeyFromObject (fst st)"
  by (induction kvs arbitrary: st) (auto simp: sync_annotation_def)

lemma Attachment_provision_ok:
  assumes "controlled r V f" and "attachment_steady r V" and "system_ok (MaxJobHistory r) status_jobs V s"
  shows "wlp (Attachment_provision r x ci strategy) (\<lambda>_. system_ok (MaxJobHistory r) status_jobs V) s"
  using assms(3) unfolding Attachment_provision_def
  by (cases s, simp add: wlp_bnd [of get_res] wlp_get_res)
    (auto simp: wlp_ret wlp_bnd [of "set_desired_version _"] wlp_bnd [of "set_configuration_applied _"]
       wlp_bnd [of phase_progressing_if_changed] wlp_phase_edits wlp_set_configuration_applied
       intro!: wlp_versionI Attachment_handleProvisioning_ok [OF assms(1,2)] system_ok_edits)

lemma Attachment_sync_ok:
  assumes c: "controlled r V f" and att: "attachment_steady r V" and m: "managed (MaxJobHistory r) V f (obj, w)"
  shows "wlp (Attachment_sync r x pool) (\<lambda>_. system_ok (MaxJobHistory r) status_jobs V) (obj, w)"
proof -
  let ?ok = "\<lambda>_. system_ok (MaxJobHistory r) status_jobs V"
  have fin: "wlp (case fold sync_annotation kvs (obj, False) of (obj', needsUpdate) \<Rightarrow>
      bnd (put_res obj') (\<lambda>_. if needsUpdate then bnd (update_object r) (\<lambda>e. case e of
          Some err \<Rightarrow> ret (no_requeue, Some err) | None \<Rightarrow> ret (requeue_after Second, None))
        else Attachment_provision r x ci strategy)) ?ok (obj, w')"
    if m': "managed (MaxJobHistory r) V f (obj, w')" for kvs ci strategy w'
  proof -
    obtain obj' u where st: "fold sync_annotation kvs (obj, False) = (obj', u)" by fastforce
    have m'': "managed (MaxJobHistory r) V f (obj', w')"
      using sync_annotations_keep [of kvs "(obj, False)"] by (intro managed_same [OF m']) (simp_all add: st)
    have "wlp (bnd (update_object r) (\<lambda>e. case e of Some err \<Rightarrow> ret (no_requeue, Some err)
        | None \<Rightarrow> ret (requeue_after Second, None))) ?ok (obj', w')"
      by (rule wlp_bnd_inv [OF update_object_ok [OF controlledD(7) [OF c] m'']])
        (auto simp: wlp_ret managed_system_ok split: option.split)
    then show ?thesis
      using Attachment_provision_ok [OF c att managed_system_ok [OF m'']]
      unfolding st by (simp only: prod.case wlp_bnd [of "put_res _"] wlp_put_res split: if_split) blast
  qed
  show ?thesis
    unfolding Attachment_sync_def Let_def wlp_bnd [of get_res] wlp_get_res prod.case
  proof (rule steady_on_world [OF resolve_steady(1) [OF att] m], unfold split_paired_all prod.case, rule wlp_ifI, goal_cases)
    case (2 ci result err w')
    show ?case
      by (rule steady_on_world [OF resolve_steady(2) [OF att] 2(1)], unfold split_paired_all prod.case, rule wlp_ifI)
        (simp_all only: wlp_ret managed_system_ok fin)
  qed (simp add: wlp_ret managed_system_ok)
qed

interpretation att: networking_controller r osacExternalIPAttachmentFinalizer "attachment_steady r"
  "Attachment_handleUpdate r" "Attachment_handleDelete r" "\<lambda>key. Attachment_writeStatus r"
  for r :: "('cs, 'os, 'w) ExternalIPAttachmentReconciler"
proof (unfold_locales, goal_cases)
  case (1 V obj w)
  note D = attachment_steadyD [OF 1(2)]
  show ?case
    unfolding Attachment_handleUpdate_def
  proof (rule begin_update_ok [OF 1(1,3)], erule steady_on_world [OF D(7)], intro wlp_first_itemI, goal_cases)
    case (3 obj w x w' externalIP)
    show ?case
      by (rule steady_on_world [OF D(8) 3], intro wlp_first_itemI)
        (simp_all add: wlp_ret managed_system_ok Attachment_sync_ok [OF 1(1,2)])
  qed (simp_all add: wlp_ret managed_system_ok)
next
  case (2 V obj w)
  have "wlp (bnd get_res (\<lambda>attachment. bnd (on_world (onDeprovisionSuccess r attachment)) (\<lambda>e. case e of
      Some err \<Rightarrow> ret (no_requeue, Some err) | None \<Rightarrow> release_always r osacExternalIPAttachmentFinalizer)))
     (\<lambda>_. system_ok (MaxJobHistory r) status_jobs V) s"
    if ok: "system_ok (MaxJobHistory r) status_jobs V s"
      and dep: "succeeded_deprovision (ProvisioningJobs (Status (fst s)))" for s
  proof -
    obtain obj w where s: "s = (obj, w)" by (cases s)
    have "managed (MaxJobHistory r) V osacExternalIPAttachmentFinalizer (set_finalizers (Finalizers (Meta obj)) obj, w)"
      using ok dep by (intro managed_settled) (simp_all add: s)
    then have m: "managed (MaxJobHistory r) V osacExternalIPAttachmentFinalizer (obj, w)"
      by (rule managed_same) simp_all
    show ?thesis
      unfolding s wlp_bnd [of get_res] wlp_get_res prod.case
      by (rule steady_on_world [OF onDeprovisionSuccess_steady [OF 2(2)] m])
        (use dep in \<open>auto simp: wlp_ret managed_system_ok s split: option.split intro!: release_ok(2) [OF 2(1)]\<close>)
  qed
  then show ?case
    unfolding Attachment_handleDelete_def by (rule delete_frame_ok [OF 2(1,3)])
qed (simp add: Attachment_writeStatus_def updateStatusWithRetry_ok)

lemma bnd_cong_wlp: "wlp m P s \<Longrightarrow> (\<And>x s'. P x s' \<Longrightarrow> f x s' = g x s') \<Longrightarrow> bnd m f s = bnd m g s"
  by (auto simp: wlp_def bnd_def split: option.splits)

lemma removeCI_referenced:
  assumes "\<And>w. wlp (att_List r (att_NetworkingNamespace r))
      (\<lambda>res w'. \<forall>as. res = Inr as \<longrightarrow> still_referenced att_ComputeInstance ciUUID n as) w"
  shows "removeCIDetachFinalizerIfUnreferenced r ciUUID n w =
     bnd (att_List r (att_NetworkingNamespace r)) (\<lambda>res. ret (case res of Inl err \<Rightarrow> Some err | Inr as \<Rightarrow> None)) w"
  unfolding removeCIDetachFinalizerIfUnreferenced_def
  by (rule bnd_cong_wlp [OF assms]) (auto split: sum.split)

section \<open>Properties\<close>

text \<open>
  C37: a compute instance keeps its detach finalizer while another attachment refers to it. As long as the
  listings of attachments show one, the clean-up after the deprovisioning of an attachment does not write
  the instance: its behaviour does not depend on what such a write would do.
\<close>

theorem detach_finalizer_kept_while_referenced:
  assumes "att_ComputeInstance (Spec a) = Some ciUUID"
    and "\<And>w. wlp (att_List r (att_NetworkingNamespace r)) (\<lambda>res w'. \<forall>as. res = Inr as \<longrightarrow>
       (\<exists>b \<in> set as. Name (Meta b) \<noteq> Name (Meta a) \<and> att_ComputeInstance (Spec b) = Some ciUUID)) w"
  shows "onDeprovisionSuccess r a =
     onDeprovisionSuccess (r\<lparr>att_ComputeInstances := (att_ComputeInstances r)\<lparr>Update := u\<rparr>\<rparr>) a"
proof -
  let ?r = "r\<lparr>att_ComputeInstances := (att_ComputeInstances r)\<lparr>Update := u\<rparr>\<rparr>"
  have "removeCIDetachFinalizerIfUnreferenced r ciUUID (Name (Meta a)) w =
      removeCIDetachFinalizerIfUnreferenced ?r ciUUID (Name (Meta a)) w" for w
    using assms(2) removeCI_referenced [of r ciUUID "Name (Meta a)" w] removeCI_referenced [of ?r ciUUID "Name (Meta a)" w]
    by (simp add: still_referenced_def)
  then have "removeCIDetachFinalizerIfUnreferenced r ciUUID (Name (Meta a)) =
      removeCIDetachFinalizerIfUnreferenced ?r ciUUID (Name (Meta a))" by (rule ext)
  moreover have "clearAttached ?r a = clearAttached r a" "clearExternalIPAddress ?r ciUUID = clearExternalIPAddress r ciUUID"
    "maybeRemoveCODetachFinalizer ?r = maybeRemoveCODetachFinalizer r"
    by (simp_all add: clearAttached_def clearExternalIPAddress_def maybeRemoveCODetachFinalizer_def fun_eq_iff
        cong del: sum.case_cong_weak list.case_cong_weak if_weak_cong)
  ultimately show ?thesis
    using assms(1) by (simp add: onDeprovisionSuccess_def cong del: option.case_cong_weak)
qed

text \<open>An attachment to a compute instance, and a namespace with two of them.\<close>

definition sample_attachment :: "string \<Rightarrow> ExternalIPAttachment" where
  "sample_attachment n =
     \<lparr>Meta = \<lparr>Name = n, Namespace = ''ns'', Labels = Map.empty, Annotations = Map.empty, Finalizers = [],
        DeletionTimestamp = None\<rparr>,
      Spec = \<lparr>att_ExternalIP = ''ip'', att_ComputeInstance = Some ''ci'', att_Cluster = None, att_TargetEndpoint = None\<rparr>,
      Status = \<lparr>Phase = PhaseReady, DesiredConfigVersion = '''', ProvisioningJobs = [], Conditions = []\<rparr>\<rparr>"

definition empty_client :: "('sp, 'st, 'w) kclient" where
  "empty_client =
     \<lparr>Get = (\<lambda>key w. Some (Inl (APIStatusError ''NotFound'' ''''), w)),
      APIReader_Get = (\<lambda>key w. Some (Inl (APIStatusError ''NotFound'' ''''), w)),
      Update = (\<lambda>obj w. Some (Inl (APIStatusError ''NotFound'' ''''), w)),
      Status_Update = (\<lambda>obj w. Some (Some (APIStatusError ''NotFound'' ''''), w)), DeepEqual = (=)\<rparr>"

text \<open>A reconciler that sees nothing but the given attachments.\<close>

definition sample_attachments ::
  "'w k8s \<Rightarrow> (ExternalIPAttachmentSpec, ExternalIPAttachmentStatus, 'w) kclient \<Rightarrow>
   (ExternalIPAttachment, 'w) ProvisioningProvider option \<Rightarrow> ExternalIPAttachment list \<Rightarrow>
   (unit, unit, 'w) ExternalIPAttachmentReconciler"
where
  "sample_attachments lib client p as =
     \<lparr>Lib = lib, Client = client, ProvisioningProvider = p, StatusPollInterval = Minute, MaxJobHistory = 10,
      att_Delete = (\<lambda>a w. Some (None, w)), att_List = (\<lambda>ns w. Some (Inr as, w)),
      att_ExternalIPs = empty_client, att_List_ExternalIPs = (\<lambda>ns l w. Some (Inr [], w)),
      att_List_ExternalIPPools = (\<lambda>ns l w. Some (Inr [], w)), att_ComputeInstances = empty_client,
      att_List_ComputeInstances = (\<lambda>ns l w. Some (Inr [], w)), att_ClusterOrders = empty_client,
      att_List_ClusterOrders = (\<lambda>ns l w. Some (Inr [], w)), att_NetworkingNamespace = ''ns'',
      ComputeInstanceNamespace = ''ci'', ClusterOrderNamespace = ''co''\<rparr>"

theorem detach_finalizer_kept_while_referenced_witness:
  "onDeprovisionSuccess (sample_attachments (sample_lib int) empty_client None [sample_attachment ''a'', sample_attachment ''b''])
     (sample_attachment ''a'') =
   onDeprovisionSuccess ((sample_attachments (sample_lib int) empty_client None [sample_attachment ''a'', sample_attachment ''b''])
     \<lparr>att_ComputeInstances := empty_client\<lparr>Update := (\<lambda>obj. panic)\<rparr>\<rparr>) (sample_attachment ''a'')"
proof -
  let ?r = "sample_attachments (sample_lib int) empty_client None [sample_attachment ''a'', sample_attachment ''b'']"
  have "att_ComputeInstances ?r = empty_client" by (simp add: sample_attachments_def)
  then show ?thesis
    using detach_finalizer_kept_while_referenced [of "sample_attachment ''a''" "''ci''" ?r "\<lambda>obj. panic"]
    by (simp add: sample_attachment_def sample_attachments_def wlp_def)
qed

end
