(* ===== verification/Sample_World.thy ===== *)
theory Sample_World
  imports Lifecycle_Properties Attachments
begin

text \<open>
  A world for concrete runs: an API server with one kind of object, which keeps the status apart from
  the rest of an object, refuses writes based on an outdated deletion timestamp and new finalizers on an
  object being deleted, and drops an object whose last finalizer is gone. It records which deletions were
  let go and the history the controller knew at that time. It satisfies what the controllers assume, for
  every kind of object and every finalizer (\<open>sample_controlled\<close>).
\<close>

record ('sp, 'm) cluster =
  store :: "ObjectKey \<rightharpoonup> ('sp, 'm) net_resource"
  started :: nat
  let_go :: "((string \<times> string) \<times> instant) list"
  last_known :: "JobStatus list list"

definition bump :: "('sp, 'm) cluster \<Rightarrow> ('sp, 'm) cluster" where
  "bump w = w\<lparr>started := Suc (started w)\<rparr>"

definition server_Get ::
  "ObjectKey \<Rightarrow> (('sp, 'm) cluster, gerror + ('sp, 'm) net_resource) go"
where
  "server_Get key w =
     Some (case store w key of None \<Rightarrow> Inl (APIStatusError ''NotFound'' '''') | Some obj \<Rightarrow> Inr obj, w)"

text \<open>The write \<open>obj\<close> gives up the finalizer \<open>f\<close> of the stored object \<open>old\<close>.\<close>

definition gives_up :: "string \<Rightarrow> ('sp, 'm) net_resource \<Rightarrow> ('sp, 'm) net_resource \<Rightarrow> bool" where
  "gives_up f old obj \<longleftrightarrow>
     DeletionTimestamp (Meta obj) \<noteq> None \<and> f \<in> set (Finalizers (Meta old)) \<and> f \<notin> set (Finalizers (Meta obj))"

definition note_release ::
  "string \<Rightarrow> ('sp, 'm) net_resource \<Rightarrow> ('sp, 'm) net_resource \<Rightarrow> ('sp, 'm) cluster \<Rightarrow> ('sp, 'm) cluster"
where
  "note_release f old obj w =
     (if gives_up f old obj
      then w\<lparr>let_go := (ObjectKeyFromObject obj, the (DeletionTimestamp (Meta obj))) # let_go w,
             last_known := ProvisioningJobs (Status obj) # last_known w\<rparr>
      else w)"

definition server_Update ::
  "string \<Rightarrow> ('sp, 'm) net_resource \<Rightarrow> (('sp, 'm) cluster, gerror + ('sp, 'm) net_resource) go"
where
  "server_Update f obj w =
     (case store w (ObjectKeyFromObject obj) of
        None \<Rightarrow> Some (Inl (APIStatusError ''NotFound'' ''''), w)
      | Some old \<Rightarrow>
          if DeletionTimestamp (Meta obj) \<noteq> DeletionTimestamp (Meta old) then
            Some (Inl (APIStatusError ''Conflict'' ''''), w)
          else if DeletionTimestamp (Meta obj) \<noteq> None \<and> \<not> set (Finalizers (Meta obj)) \<subseteq> set (Finalizers (Meta old)) then
            Some (Inl (APIStatusError ''Forbidden'' ''''), w)
          else
            (let obj' = obj\<lparr>Status := Status old\<rparr>; w' = note_release f old obj w in
             Some (Inr obj', w'\<lparr>store := (store w')(ObjectKeyFromObject obj :=
               (if DeletionTimestamp (Meta obj) \<noteq> None \<and> Finalizers (Meta obj) = [] then None else Some obj'))\<rparr>)))"

definition server_Status_Update :: "('sp, 'm) net_resource \<Rightarrow> (('sp, 'm) cluster, gerror option) go" where
  "server_Status_Update obj w =
     (case store w (ObjectKeyFromObject obj) of
        None \<Rightarrow> Some (Some (APIStatusError ''NotFound'' ''''), w)
      | Some old \<Rightarrow>
          Some (None, w\<lparr>store := (store w)(ObjectKeyFromObject obj \<mapsto> old\<lparr>Status := Status obj\<rparr>)\<rparr>))"

definition server_client :: "string \<Rightarrow> ('sp, 'm net_status_scheme, ('sp, 'm) cluster) kclient" where
  "server_client f =
     \<lparr>Get = server_Get, APIReader_Get = server_Get, Update = server_Update f,
      Status_Update = server_Status_Update, DeepEqual = (=)\<rparr>"

definition stored_ok :: "int \<Rightarrow> string \<Rightarrow> ('sp, 'm) cluster \<Rightarrow> ObjectKey \<Rightarrow> ('sp, 'm) net_resource \<Rightarrow> bool" where
  "stored_ok mh f w key obj \<longleftrightarrow>
     ObjectKeyFromObject obj = key \<and>
     history_ok mh (int (started w) * Second) (ProvisioningJobs (Status obj)) \<and>
     set (map JobID (ProvisioningJobs (Status obj))) \<subseteq> job_name ` {n. n \<le> started w} \<and>
     all_blocking (ProvisioningJobs (Status obj)) \<and>
     (\<forall>d. DeletionTimestamp (Meta obj) = Some d \<longrightarrow>
        (f \<in> set (Finalizers (Meta obj)) \<longleftrightarrow> (key, d) \<notin> set (let_go w)))"

text \<open>
  The invariant: what is stored is well-formed, an object being deleted has lost the finalizer exactly
  when its deletion was let go, and whenever a deletion was let go the object was settled.
\<close>

definition cluster_ok :: "int \<Rightarrow> string \<Rightarrow> ('sp, 'm) cluster \<Rightarrow> bool" where
  "cluster_ok mh f w \<longleftrightarrow>
     (\<forall>key obj. store w key = Some obj \<longrightarrow> stored_ok mh f w key obj) \<and> (\<forall>js \<in> set (last_known w). settled js)"

definition cluster_view :: "int \<Rightarrow> string \<Rightarrow> ('sp, 'm) cluster world_view" where
  "cluster_view mh f = sample_view started (\<lambda>w. set (let_go w)) (cluster_ok mh f)"

definition sample_reconciler ::
  "string \<Rightarrow> JobState \<Rightarrow> ('sp, 'm net_status_scheme, ('sp, 'm) cluster) Reconciler"
where
  "sample_reconciler f st =
     \<lparr>Lib = sample_lib (\<lambda>w. int (started w) * Second), Client = server_client f,
      ProvisioningProvider = Some (sample_provider started bump st),
      StatusPollInterval = Minute, MaxJobHistory = 10\<rparr>"

section \<open>The server behaves as assumed\<close>

lemma cluster_view_simps [simp]:
  "wv_now (cluster_view mh f) = (\<lambda>w. int (started w) * Second)"
  "wv_issued (cluster_view mh f) = (\<lambda>w. job_name ` {n. n \<le> started w})"
  "wv_released (cluster_view mh f) = (\<lambda>w. set (let_go w))"
  "wv_inv (cluster_view mh f) = cluster_ok mh f" "wv_strict (cluster_view mh f)"
  by (simp_all add: cluster_view_def sample_view_def)

lemma cluster_okD: "cluster_ok mh f w \<Longrightarrow> store w key = Some obj \<Longrightarrow> stored_ok mh f w key obj"
  by (cases key) (simp add: cluster_ok_def)

lemma stored_managed:
  "cluster_ok mh f w \<Longrightarrow> store w key = Some obj \<Longrightarrow> managed mh (cluster_view mh f) f (obj, w)"
  by (frule (1) cluster_okD) (auto simp: managed_def system_ok_def releasable_def stored_ok_def split: option.split)

lemma server_reads: "reads_managed mh (cluster_view mh f) f (server_Get key)"
  by (auto simp: reads_managed_def wlp_def server_Get_def stored_managed split: option.split)

lemma cluster_ok_bump: "cluster_ok mh f w \<Longrightarrow> cluster_ok mh f (bump w)"
proof -
  assume ok: "cluster_ok mh f w"
  have "stored_ok mh f (bump w) key obj" if "store w key = Some obj" for key obj
  proof -
    have s: "stored_ok mh f w key obj" using ok that by (rule cluster_okD)
    then have "history_ok mh (int (started (bump w)) * Second) (ProvisioningJobs (Status obj))"
      by (auto simp: stored_ok_def bump_def intro: history_ok_clock)
    with s show ?thesis by (auto simp: stored_ok_def bump_def dest!: subsetD)
  qed
  with ok show ?thesis by (simp add: cluster_ok_def bump_def)
qed

lemma sample_honest_cluster: "honest (cluster_view mh f) (sample_provider started bump st)"
  unfolding cluster_view_def by (rule sample_honest) (simp_all add: cluster_ok_bump, simp_all add: bump_def)

lemma stored_ok_edit:
  assumes "stored_ok mh f w key old"
    and "ObjectKeyFromObject obj = key" "DeletionTimestamp (Meta obj) = DeletionTimestamp (Meta old)"
    and "ProvisioningJobs (Status obj) = ProvisioningJobs (Status old)" and "started w' = started w"
    and "\<And>d. DeletionTimestamp (Meta obj) = Some d \<Longrightarrow>
      f \<in> set (Finalizers (Meta obj)) \<longleftrightarrow> (key, d) \<notin> set (let_go w')"
  shows "stored_ok mh f w' key obj"
  using assms by (simp add: stored_ok_def)

lemma server_Update_ok:
  assumes m: "managed mh (cluster_view mh f) f (obj, w)"
  shows "wlp (server_Update f obj) (\<lambda>res w'. advances (cluster_view mh f) w w' \<and>
     (\<forall>obj'. res = Inr obj' \<longrightarrow> managed mh (cluster_view mh f) f (obj', w'))) w"
proof (rule wlpI)
  fix res w'
  assume run: "server_Update f obj w = Some (res, w')"
  let ?k = "ObjectKeyFromObject obj" and ?d = "DeletionTimestamp (Meta obj)" and ?fs = "Finalizers (Meta obj)"
  have ok: "cluster_ok mh f w" using m by (simp add: managed_def system_ok_def)
  show "advances (cluster_view mh f) w w' \<and> (\<forall>obj'. res = Inr obj' \<longrightarrow> managed mh (cluster_view mh f) f (obj', w'))"
  proof (cases res)
    case (Inl e)
    with run show ?thesis by (auto simp: server_Update_def Let_def split: option.splits if_splits)
  next
    case (Inr obj')
    with run obtain old where old: "store w ?k = Some old" and d: "?d = DeletionTimestamp (Meta old)"
      and fs: "?d \<noteq> None \<Longrightarrow> set ?fs \<subseteq> set (Finalizers (Meta old))" and obj': "obj' = obj\<lparr>Status := Status old\<rparr>"
      and w': "w' = (note_release f old obj w)\<lparr>store := (store w)(?k :=
        (if ?d \<noteq> None \<and> ?fs = [] then None else Some obj'))\<rparr>"
      by (auto simp: server_Update_def Let_def note_release_def split: option.splits if_splits)
    have so: "stored_ok mh f w ?k old" using ok old by (rule cluster_okD)
    have st: "started w' = started w" by (simp add: w' note_release_def)
    have lg: "set (let_go w') = (if gives_up f old obj then insert (?k, the ?d) (set (let_go w)) else set (let_go w))"
      by (simp add: w' note_release_def)
    have given: "f \<in> set ?fs \<longleftrightarrow> (?k, t) \<notin> set (let_go w')" if "?d = Some t" for t
      using so that d fs by (auto simp: lg gives_up_def stored_ok_def)
    have new: "stored_ok mh f w' ?k obj'"
      using given d by (intro stored_ok_edit [OF so _ _ _ st]) (simp_all add: obj' ObjectKeyFromObject_def)
    have rest: "stored_ok mh f w' key x" if "store w key = Some x" "key \<noteq> ?k" for key x
      using cluster_okD [OF ok that(1)] that(2) st by (auto simp: stored_ok_def lg)
    have settled: "settled (ProvisioningJobs (Status obj))" if "gives_up f old obj"
      using m that so d by (auto simp: managed_def releasable_def gives_up_def stored_ok_def)
    have "cluster_ok mh f w'"
      unfolding cluster_ok_def
    proof (intro conjI allI impI)
      fix key x assume "store w' key = Some x"
      with new rest show "stored_ok mh f w' key x" by (auto simp: w' split: if_splits)
    next
      show "\<forall>js \<in> set (last_known w'). settled js"
        using ok settled by (auto simp: w' note_release_def cluster_ok_def)
    qed
    moreover from this new have "managed mh (cluster_view mh f) f (obj', w')"
      by (auto simp: managed_def system_ok_def releasable_def stored_ok_def split: option.split)
    ultimately show ?thesis by (simp add: Inr advances_def st lg subset_insertI)
  qed
qed

lemma server_Status_Update_ok:
  assumes "system_ok mh status_jobs (cluster_view mh f) (obj, w)"
  shows "wlp (server_Status_Update obj) (\<lambda>_. advances (cluster_view mh f) w) w"
proof (cases "store w (ObjectKeyFromObject obj)")
  case (Some old)
  have ok: "cluster_ok mh f w" using assms by (simp add: system_ok_def)
  let ?w = "w\<lparr>store := (store w)(ObjectKeyFromObject obj \<mapsto> old\<lparr>Status := Status obj\<rparr>)\<rparr>"
  have "stored_ok mh f ?w (ObjectKeyFromObject obj) (old\<lparr>Status := Status obj\<rparr>)"
    using assms cluster_okD [OF ok Some] by (simp add: stored_ok_def system_ok_def ObjectKeyFromObject_def)
  moreover have "stored_ok mh f ?w key x" if "store w key = Some x" for key x
    using cluster_okD [OF ok that] by (simp add: stored_ok_def)
  ultimately have "cluster_ok mh f ?w"
    using ok unfolding cluster_ok_def by (auto split: if_splits)
  with Some show ?thesis by (simp add: wlp_def server_Status_Update_def advances_def)
qed (simp add: wlp_def server_Status_Update_def)

lemma server_api_laws: "api_laws mh lib (server_client f) (cluster_view mh f) f"
  unfolding api_laws_def server_client_def kclient.simps
  using server_reads server_Update_ok server_Status_Update_ok by blast

lemma sample_lib_laws:
  "finalizer_laws (sample_lib now)" "retry_law (sample_lib now) V"
  by (simp_all add: finalizer_laws_def sample_lib_def retry_law_def)

lemma sample_controlled:
  assumes "Lib r = sample_lib (\<lambda>w. int (started w) * Second)" and "Client r = server_client f"
    and "ProvisioningProvider r = Some (sample_provider started bump st)"
    and "StatusPollInterval r = Minute" and "MaxJobHistory r = 10"
  shows "controlled r (cluster_view 10 f) f"
  unfolding controlled_def assms
  using server_api_laws sample_lib_laws sample_honest_cluster sample_blocking [OF sj.jobs_ref_axioms]
  by (auto simp: sample_lib_def)

end
