(* ===== verification/Networking_Properties.thy ===== *)
theory Networking_Properties
  imports Sample_World
begin

text \<open>
  The properties of the networking controllers as wholes: what one call of \<^verbatim>\<open>Reconcile\<close> of each kind may do
  to the world, from the contract \<open>networking_controller\<close>. The concrete runs at the beginning delete one
  object of each kind on the sample server and show that the hypotheses can be met.
\<close>

section \<open>Concrete worlds\<close>

definition sample_world :: "('sp, 'm) net_resource \<Rightarrow> ('sp, 'm) cluster" where
  "sample_world obj = \<lparr>store = [ObjectKeyFromObject obj \<mapsto> obj], started = 2, let_go = [], last_known = []\<rparr>"

definition sample_meta :: "string \<Rightarrow> ObjectMeta" where
  "sample_meta finalizer = \<lparr>Name = ''n'', Namespace = ''ns'', Labels = Map.empty, Annotations = Map.empty,
     Finalizers = [finalizer], DeletionTimestamp = Some 5\<rparr>"

text \<open>A history whose deprovisioning job is still running.\<close>

abbreviation deleting_jobs :: "JobStatus list" where
  "deleting_jobs \<equiv> sample_history JobStateRunning"

definition deleting :: "string \<Rightarrow> 'sp \<Rightarrow> 'm \<Rightarrow> ('sp, 'm) net_resource" where
  "deleting finalizer spec rest = \<lparr>Meta = sample_meta finalizer, Spec = spec,
     Status = \<lparr>Phase = PhaseReady, DesiredConfigVersion = ''v'', ProvisioningJobs = deleting_jobs, Conditions = [], \<dots> = rest\<rparr>\<rparr>"

text \<open>The world after a deletion that was carried through.\<close>

definition released_world :: "('sp, 'm) cluster" where
  "released_world = \<lparr>store = Map.empty, started = 2, let_go = [((''ns'', ''n''), 5)],
     last_known = [sample_history JobStateSucceeded]\<rparr>"

lemma deleting_simps [simp]:
  "Meta (deleting f sp m) = sample_meta f" "ProvisioningJobs (Status (deleting f sp m)) = deleting_jobs"
  by (simp_all add: deleting_def)

lemma sample_world_ok: "wv_inv (cluster_view 10 f) (sample_world (deleting f sp m))"
  by (auto simp: cluster_ok_def stored_ok_def sample_world_def sample_meta_def sample_history_def sample_job_def
      history_ok_def older_terminal_def all_blocking_def IsTerminal_def ObjectKeyFromObject_def split: if_splits)

lemma sample_deprovisioning:
  assumes "ProvisioningJobs (Status obj) = deleting_jobs"
  shows "RunDeprovisioningLifecycle now (sample_provider started bump JobStateSucceeded) status_jobs 10 Minute (obj, w) =
     Some ((no_requeue, True, None),
       (map_status (\<lambda>st. st\<lparr>ProvisioningJobs := sample_history JobStateSucceeded\<rparr>) obj, w))"
  using assms
  by (simp add: RunDeprovisioningLifecycle_def PollDeprovisionJob_def
        go_simps read_jobs_def write_jobs_def update_job_def UpdateJob_def FindJobByID_def sample_provider_def
        sample_history_def sample_job_def IsTerminal_def IsSuccessful_def FindLatestJobByType_def
        HasJobID_def MessageWithDetails_def status_jobs_def Let_def job_name_def numeral_2_eq_2)

definition runs_on_sample :: "string \<Rightarrow> ('sp, 'm net_status_scheme, ('sp, 'm) cluster, 'x) Reconciler_scheme \<Rightarrow> bool" where
  "runs_on_sample f r \<longleftrightarrow>
     Lib r = sample_lib (\<lambda>w. int (started w) * Second) \<and> Client r = server_client f \<and>
     ProvisioningProvider r = Some (sample_provider started bump JobStateSucceeded) \<and>
     StatusPollInterval r = Minute \<and> MaxJobHistory r = 10"

lemma runs_controlled: "runs_on_sample f r \<Longrightarrow> controlled r (cluster_view 10 f) f"
  unfolding runs_on_sample_def by (intro sample_controlled) auto

lemma sample_releases:
  assumes "runs_on_sample f r"
  shows "f \<in> set (Finalizers (Meta obj)) \<Longrightarrow> release_if_present r f (obj, w) = release_always r f (obj, w)"
    and "delete_frame r f release (deleting f sp m, w) =
      release (map_status (\<lambda>st. st\<lparr>ProvisioningJobs := sample_history JobStateSucceeded\<rparr>)
        (set_phase PhaseDeleting (deleting f sp m)), w)"
  using assms
  by (simp_all add: runs_on_sample_def release_if_present_def release_always_def delete_frame_def go_simps
      handleDeprovisioning_def sample_deprovisioning sample_lib_def sample_meta_def)

lemma sample_deletion:
  assumes "runs_on_sample f r"
    and "hdel (deleting f sp m, sample_world (deleting f sp m)) =
      release_always r f (map_status (\<lambda>st. st\<lparr>ProvisioningJobs := sample_history JobStateSucceeded\<rparr>)
        (set_phase PhaseDeleting (deleting f sp m)), sample_world (deleting f sp m))"
  shows "reconcile_frame r hu hdel ws (''ns'', ''n'') (sample_world (deleting f sp m)) =
     Some ((no_requeue, None), released_world)"
  using assms
  by (simp add: runs_on_sample_def reconcile_frame_def server_client_def server_Get_def
      sample_world_def deleting_def sample_meta_def ObjectKeyFromObject_def with_object_def released_world_def
      release_always_def set_phase_def map_status_def sample_lib_def
      go_simps set_finalizers_def update_object_def server_Update_def note_release_def gives_up_def)

definition sample_Subnet :: "(SubnetSpec, \<lparr>sn_BackendNetworkID :: string\<rparr>) cluster SubnetReconciler" where
  "sample_Subnet = \<lparr>Lib = sample_lib (\<lambda>w. int (started w) * Second), Client = server_client osacSubnetFinalizer,
     ProvisioningProvider = Some (sample_provider started bump JobStateSucceeded), StatusPollInterval = Minute,
     MaxJobHistory = 10, sn_List_VirtualNetworks = (\<lambda>ns l w. Some (Inr [], w))\<rparr>"

lemma sample_Subnet_runs: "runs_on_sample osacSubnetFinalizer sample_Subnet"
  by (simp add: runs_on_sample_def sample_Subnet_def)

lemma sample_Subnet_steady: "lists_steady (cluster_view mh f) (sn_List_VirtualNetworks sample_Subnet)"
  by (simp add: lists_steady_def steady_def wlp_def sample_Subnet_def)

definition sample_VirtualNetwork :: "(VirtualNetworkSpec, \<lparr>vn_BackendNetworkID :: string\<rparr>) cluster VirtualNetworkReconciler" where
  "sample_VirtualNetwork = \<lparr>Lib = sample_lib (\<lambda>w. int (started w) * Second), Client = server_client osacVirtualNetworkFinalizer,
     ProvisioningProvider = Some (sample_provider started bump JobStateSucceeded), StatusPollInterval = Minute,
     MaxJobHistory = 10\<rparr>"

lemma sample_VirtualNetwork_runs: "runs_on_sample osacVirtualNetworkFinalizer sample_VirtualNetwork"
  by (simp add: runs_on_sample_def sample_VirtualNetwork_def)

definition sample_SecurityGroup :: "(SecurityGroupSpec, \<lparr>BackendSecurityGroupID :: string\<rparr>) cluster SecurityGroupReconciler" where
  "sample_SecurityGroup = \<lparr>Lib = sample_lib (\<lambda>w. int (started w) * Second), Client = server_client osacSecurityGroupFinalizer,
     ProvisioningProvider = Some (sample_provider started bump JobStateSucceeded), StatusPollInterval = Minute,
     MaxJobHistory = 10\<rparr>"

lemma sample_SecurityGroup_runs: "runs_on_sample osacSecurityGroupFinalizer sample_SecurityGroup"
  by (simp add: runs_on_sample_def sample_SecurityGroup_def)

definition sample_NATGateway :: "(NATGatewaySpec, unit) cluster NATGatewayReconciler" where
  "sample_NATGateway = \<lparr>Lib = sample_lib (\<lambda>w. int (started w) * Second), Client = server_client osacNATGatewayFinalizer,
     ProvisioningProvider = Some (sample_provider started bump JobStateSucceeded), StatusPollInterval = Minute,
     MaxJobHistory = 10, ng_List_VirtualNetworks = (\<lambda>ns l w. Some (Inr [], w))\<rparr>"

lemma sample_NATGateway_runs: "runs_on_sample osacNATGatewayFinalizer sample_NATGateway"
  by (simp add: runs_on_sample_def sample_NATGateway_def)

lemma sample_NATGateway_steady: "lists_steady (cluster_view mh f) (ng_List_VirtualNetworks sample_NATGateway)"
  by (simp add: lists_steady_def steady_def wlp_def sample_NATGateway_def)

definition sample_ExternalIPPool :: "(ExternalIPPoolSpec, \<lparr>Total :: int, Allocated :: int, Available :: int\<rparr>) cluster ExternalIPPoolReconciler" where
  "sample_ExternalIPPool = \<lparr>Lib = sample_lib (\<lambda>w. int (started w) * Second), Client = server_client osacExternalIPPoolFinalizer,
     ProvisioningProvider = Some (sample_provider started bump JobStateSucceeded), StatusPollInterval = Minute,
     MaxJobHistory = 10\<rparr>"

lemma sample_ExternalIPPool_runs: "runs_on_sample osacExternalIPPoolFinalizer sample_ExternalIPPool"
  by (simp add: runs_on_sample_def sample_ExternalIPPool_def)

definition sample_ExternalIP :: "(ExternalIPSpec, \<lparr>Address :: string, eip_State :: ExternalIPState, Attached :: bool\<rparr>) cluster ExternalIPReconciler" where
  "sample_ExternalIP = \<lparr>Lib = sample_lib (\<lambda>w. int (started w) * Second), Client = server_client osacExternalIPFinalizer,
     ProvisioningProvider = Some (sample_provider started bump JobStateSucceeded), StatusPollInterval = Minute,
     MaxJobHistory = 10, List_ExternalIPPools = (\<lambda>ns l w. Some (Inr [], w)), GetCluster = (\<lambda>w. Some (Inl (APIStatusError ''NotFound'' ''''), w))\<rparr>"

lemma sample_ExternalIP_runs: "runs_on_sample osacExternalIPFinalizer sample_ExternalIP"
  by (simp add: runs_on_sample_def sample_ExternalIP_def)

lemma sample_ExternalIP_steady: "lists_steady (cluster_view mh f) (List_ExternalIPPools sample_ExternalIP)"
  by (simp add: lists_steady_def steady_def wlp_def sample_ExternalIP_def)

lemma sample_ExternalIP_steady2: "cluster_steady (cluster_view mh f) sample_ExternalIP"
  by (simp add: cluster_steady_def wlp_def sample_ExternalIP_def)

section \<open>Properties\<close>

text \<open>
  C1: a call of \<^verbatim>\<open>SubnetReconciler.Reconcile\<close> keeps every invariant of the world that is kept by writing
  well-formed statuses and by writing objects that may be written, under the conditions below. An object may be
  written if it carries the finalizer of the controller, or its newest deprovisioning job succeeded, or its history
  records no provisioning job, or it was let go before. So under these conditions no write gives up the finalizer of
  a subnet being deleted before its deprovisioning succeeded, unless the history records no
  provisioning job. The conditions (\<open>controlled\<close>) are: a provider is configured, it issues fresh
  identifiers and every deprovisioning job it starts blocks the deletion if it fails, it never answers a
  deprovisioning request by skipping it nor by a rate limit; the poll interval and the history bound
  are positive; and the API server and controller-runtime behave as documented (finalizer helpers, retries on
  conflict, reads of what was written).
\<close>

theorem Subnet_keeps_world:
  assumes "controlled r V osacSubnetFinalizer" and "lists_steady V (sn_List_VirtualNetworks r)" and "wv_inv V w"
    and "Subnet_Reconcile r key w = Some (out, w')"
  shows "wv_inv V w'"
  using wlpD [OF sn.Reconcile_keeps_invariant [OF assms(1) assms(2) assms(3)]] assms(4)
  unfolding Subnet_Reconcile_def by blast

theorem Subnet_keeps_world_witness:
  "Subnet_Reconcile sample_Subnet (''ns'', ''n'')
       (sample_world (deleting osacSubnetFinalizer
          \<lparr>sn_VirtualNetwork = ''vn'', sn_IPv4CIDR = ''10.0.0.0/24'', sn_IPv6CIDR = ''''\<rparr> \<lparr>sn_BackendNetworkID = ''''\<rparr>)) =
     Some ((no_requeue, None), released_world) \<and>
   cluster_ok 10 osacSubnetFinalizer (released_world :: (SubnetSpec, \<lparr>sn_BackendNetworkID :: string\<rparr>) cluster)"
proof -
  have run: "Subnet_Reconcile sample_Subnet (''ns'', ''n'')
       (sample_world (deleting osacSubnetFinalizer
          \<lparr>sn_VirtualNetwork = ''vn'', sn_IPv4CIDR = ''10.0.0.0/24'', sn_IPv6CIDR = ''''\<rparr> \<lparr>sn_BackendNetworkID = ''''\<rparr>)) =
     Some ((no_requeue, None), released_world)"
    unfolding Subnet_Reconcile_def
    by (rule sample_deletion [OF sample_Subnet_runs])
      (simp add: Subnet_handleDelete_def sample_releases [OF sample_Subnet_runs] sample_meta_def)
  have "wv_inv (cluster_view 10 osacSubnetFinalizer) (released_world :: (SubnetSpec, \<lparr>sn_BackendNetworkID :: string\<rparr>) cluster)"
    by (rule Subnet_keeps_world [OF runs_controlled [OF sample_Subnet_runs] sample_Subnet_steady sample_world_ok run])
  with run show ?thesis by simp
qed

text \<open>
  A call of \<^verbatim>\<open>VirtualNetworkReconciler.Reconcile\<close> keeps every invariant of the world that is kept by writing
  well-formed statuses and by writing objects that may be written, under the conditions of \<open>controlled\<close> named for
  the subnets: no write gives up the finalizer of a virtual network being deleted before its deprovisioning succeeded,
  unless its history records no provisioning job.
\<close>

theorem VirtualNetwork_keeps_world:
  assumes "controlled r V osacVirtualNetworkFinalizer" and "wv_inv V w"
    and "VirtualNetwork_Reconcile r key w = Some (out, w')"
  shows "wv_inv V w'"
  using wlpD [OF vn.Reconcile_keeps_invariant [OF assms(1) TrueI assms(2)]] assms(3)
  unfolding VirtualNetwork_Reconcile_def by blast

theorem VirtualNetwork_keeps_world_witness:
  "VirtualNetwork_Reconcile sample_VirtualNetwork (''ns'', ''n'')
       (sample_world (deleting osacVirtualNetworkFinalizer
          \<lparr>vn_Region = ''eu'', vn_IPv4CIDR = ''10.0.0.0/16'', vn_IPv6CIDR = '''', vn_NetworkClass = ''nc'', vn_ImplementationStrategy = ''s''\<rparr> \<lparr>vn_BackendNetworkID = ''''\<rparr>)) =
     Some ((no_requeue, None), released_world) \<and>
   cluster_ok 10 osacVirtualNetworkFinalizer (released_world :: (VirtualNetworkSpec, \<lparr>vn_BackendNetworkID :: string\<rparr>) cluster)"
proof -
  have run: "VirtualNetwork_Reconcile sample_VirtualNetwork (''ns'', ''n'')
       (sample_world (deleting osacVirtualNetworkFinalizer
          \<lparr>vn_Region = ''eu'', vn_IPv4CIDR = ''10.0.0.0/16'', vn_IPv6CIDR = '''', vn_NetworkClass = ''nc'', vn_ImplementationStrategy = ''s''\<rparr> \<lparr>vn_BackendNetworkID = ''''\<rparr>)) =
     Some ((no_requeue, None), released_world)"
    unfolding VirtualNetwork_Reconcile_def
    by (rule sample_deletion [OF sample_VirtualNetwork_runs])
      (simp add: VirtualNetwork_handleDelete_def sample_releases [OF sample_VirtualNetwork_runs] sample_meta_def)
  have "wv_inv (cluster_view 10 osacVirtualNetworkFinalizer) (released_world :: (VirtualNetworkSpec, \<lparr>vn_BackendNetworkID :: string\<rparr>) cluster)"
    by (rule VirtualNetwork_keeps_world [OF runs_controlled [OF sample_VirtualNetwork_runs] sample_world_ok run])
  with run show ?thesis by simp
qed

text \<open>
  A call of \<^verbatim>\<open>SecurityGroupReconciler.Reconcile\<close> keeps every invariant of the world that is kept by writing
  well-formed statuses and by writing objects that may be written, under the conditions of \<open>controlled\<close> named for
  the subnets: no write gives up the finalizer of a security group being deleted before its deprovisioning succeeded,
  unless its history records no provisioning job.
\<close>

theorem SecurityGroup_keeps_world:
  assumes "controlled r V osacSecurityGroupFinalizer" and "wv_inv V w"
    and "SecurityGroup_Reconcile r key w = Some (out, w')"
  shows "wv_inv V w'"
  using wlpD [OF sg.Reconcile_keeps_invariant [OF assms(1) TrueI assms(2)]] assms(3)
  unfolding SecurityGroup_Reconcile_def by blast

theorem SecurityGroup_keeps_world_witness:
  "SecurityGroup_Reconcile sample_SecurityGroup (''ns'', ''n'')
       (sample_world (deleting osacSecurityGroupFinalizer
          \<lparr>sg_VirtualNetwork = ''vn'', sg_ImplementationStrategy = '''', IngressRules = [], EgressRules = []\<rparr> \<lparr>BackendSecurityGroupID = ''''\<rparr>)) =
     Some ((no_requeue, None), released_world) \<and>
   cluster_ok 10 osacSecurityGroupFinalizer (released_world :: (SecurityGroupSpec, \<lparr>BackendSecurityGroupID :: string\<rparr>) cluster)"
proof -
  have run: "SecurityGroup_Reconcile sample_SecurityGroup (''ns'', ''n'')
       (sample_world (deleting osacSecurityGroupFinalizer
          \<lparr>sg_VirtualNetwork = ''vn'', sg_ImplementationStrategy = '''', IngressRules = [], EgressRules = []\<rparr> \<lparr>BackendSecurityGroupID = ''''\<rparr>)) =
     Some ((no_requeue, None), released_world)"
    unfolding SecurityGroup_Reconcile_def
    by (rule sample_deletion [OF sample_SecurityGroup_runs])
      (simp add: SecurityGroup_handleDelete_def sample_releases [OF sample_SecurityGroup_runs] sample_meta_def)
  have "wv_inv (cluster_view 10 osacSecurityGroupFinalizer) (released_world :: (SecurityGroupSpec, \<lparr>BackendSecurityGroupID :: string\<rparr>) cluster)"
    by (rule SecurityGroup_keeps_world [OF runs_controlled [OF sample_SecurityGroup_runs] sample_world_ok run])
  with run show ?thesis by simp
qed

text \<open>
  A call of \<^verbatim>\<open>NATGatewayReconciler.Reconcile\<close> keeps every invariant of the world that is kept by writing
  well-formed statuses and by writing objects that may be written, under the conditions of \<open>controlled\<close> named for
  the subnets: no write gives up the finalizer of a NAT gateway being deleted before its deprovisioning succeeded,
  unless its history records no provisioning job.
\<close>

theorem NATGateway_keeps_world:
  assumes "controlled r V osacNATGatewayFinalizer" and "lists_steady V (ng_List_VirtualNetworks r)" and "wv_inv V w"
    and "NATGateway_Reconcile r key w = Some (out, w')"
  shows "wv_inv V w'"
  using wlpD [OF ng.Reconcile_keeps_invariant [OF assms(1) assms(2) assms(3)]] assms(4)
  unfolding NATGateway_Reconcile_def by blast

theorem NATGateway_keeps_world_witness:
  "NATGateway_Reconcile sample_NATGateway (''ns'', ''n'')
       (sample_world (deleting osacNATGatewayFinalizer
          \<lparr>ng_VirtualNetwork = ''vn'', ng_ExternalIP = ''ip''\<rparr> ())) =
     Some ((no_requeue, None), released_world) \<and>
   cluster_ok 10 osacNATGatewayFinalizer (released_world :: (NATGatewaySpec, unit) cluster)"
proof -
  have run: "NATGateway_Reconcile sample_NATGateway (''ns'', ''n'')
       (sample_world (deleting osacNATGatewayFinalizer
          \<lparr>ng_VirtualNetwork = ''vn'', ng_ExternalIP = ''ip''\<rparr> ())) =
     Some ((no_requeue, None), released_world)"
    unfolding NATGateway_Reconcile_def
    by (rule sample_deletion [OF sample_NATGateway_runs])
      (simp add: NATGateway_handleDelete_def sample_releases [OF sample_NATGateway_runs] sample_meta_def)
  have "wv_inv (cluster_view 10 osacNATGatewayFinalizer) (released_world :: (NATGatewaySpec, unit) cluster)"
    by (rule NATGateway_keeps_world [OF runs_controlled [OF sample_NATGateway_runs] sample_NATGateway_steady sample_world_ok run])
  with run show ?thesis by simp
qed

text \<open>
  A call of \<^verbatim>\<open>ExternalIPPoolReconciler.Reconcile\<close> keeps every invariant of the world that is kept by writing
  well-formed statuses and by writing objects that may be written, under the conditions of \<open>controlled\<close> named for
  the subnets: no write gives up the finalizer of an external IP pool being deleted before its deprovisioning succeeded,
  unless its history records no provisioning job.
\<close>

theorem ExternalIPPool_keeps_world:
  assumes "controlled r V osacExternalIPPoolFinalizer" and "wv_inv V w"
    and "ExternalIPPool_Reconcile r key w = Some (out, w')"
  shows "wv_inv V w'"
  using wlpD [OF pool.Reconcile_keeps_invariant [OF assms(1) TrueI assms(2)]] assms(3)
  unfolding ExternalIPPool_Reconcile_def by blast

theorem ExternalIPPool_keeps_world_witness:
  "ExternalIPPool_Reconcile sample_ExternalIPPool (''ns'', ''n'')
       (sample_world (deleting osacExternalIPPoolFinalizer
          \<lparr>CIDRs = [''192.0.2.0/24''], IPFamily = ''IPv4'', pool_ImplementationStrategy = ''''\<rparr> \<lparr>Total = 0, Allocated = 0, Available = 0\<rparr>)) =
     Some ((no_requeue, None), released_world) \<and>
   cluster_ok 10 osacExternalIPPoolFinalizer (released_world :: (ExternalIPPoolSpec, \<lparr>Total :: int, Allocated :: int, Available :: int\<rparr>) cluster)"
proof -
  have run: "ExternalIPPool_Reconcile sample_ExternalIPPool (''ns'', ''n'')
       (sample_world (deleting osacExternalIPPoolFinalizer
          \<lparr>CIDRs = [''192.0.2.0/24''], IPFamily = ''IPv4'', pool_ImplementationStrategy = ''''\<rparr> \<lparr>Total = 0, Allocated = 0, Available = 0\<rparr>)) =
     Some ((no_requeue, None), released_world)"
    unfolding ExternalIPPool_Reconcile_def
    by (rule sample_deletion [OF sample_ExternalIPPool_runs])
      (simp add: ExternalIPPool_handleDelete_def sample_releases [OF sample_ExternalIPPool_runs] sample_meta_def)
  have "wv_inv (cluster_view 10 osacExternalIPPoolFinalizer) (released_world :: (ExternalIPPoolSpec, \<lparr>Total :: int, Allocated :: int, Available :: int\<rparr>) cluster)"
    by (rule ExternalIPPool_keeps_world [OF runs_controlled [OF sample_ExternalIPPool_runs] sample_world_ok run])
  with run show ?thesis by simp
qed

text \<open>
  A call of \<^verbatim>\<open>ExternalIPReconciler.Reconcile\<close> keeps every invariant of the world that is kept by writing
  well-formed statuses and by writing objects that may be written, under the conditions of \<open>controlled\<close> named for
  the subnets: no write gives up the finalizer of an external IP being deleted before its deprovisioning succeeded,
  unless its history records no provisioning job.
\<close>

theorem ExternalIP_keeps_world:
  assumes "controlled r V osacExternalIPFinalizer" and "lists_steady V (List_ExternalIPPools r)" and "cluster_steady V r" and "wv_inv V w"
    and "ExternalIP_Reconcile r key w = Some (out, w')"
  shows "wv_inv V w'"
  using wlpD [OF eip.Reconcile_keeps_invariant [OF assms(1) conjI [OF assms(2) assms(3)] assms(4)]] assms(5)
  unfolding ExternalIP_Reconcile_def by blast

theorem ExternalIP_keeps_world_witness:
  "ExternalIP_Reconcile sample_ExternalIP (''ns'', ''n'')
       (sample_world (deleting osacExternalIPFinalizer
          \<lparr>Pool = ''p''\<rparr> \<lparr>Address = ''192.0.2.1'', eip_State = StateAllocated, Attached = False\<rparr>)) =
     Some ((no_requeue, None), released_world) \<and>
   cluster_ok 10 osacExternalIPFinalizer (released_world :: (ExternalIPSpec, \<lparr>Address :: string, eip_State :: ExternalIPState, Attached :: bool\<rparr>) cluster)"
proof -
  have run: "ExternalIP_Reconcile sample_ExternalIP (''ns'', ''n'')
       (sample_world (deleting osacExternalIPFinalizer
          \<lparr>Pool = ''p''\<rparr> \<lparr>Address = ''192.0.2.1'', eip_State = StateAllocated, Attached = False\<rparr>)) =
     Some ((no_requeue, None), released_world)"
    unfolding ExternalIP_Reconcile_def
    by (rule sample_deletion [OF sample_ExternalIP_runs])
      (simp add: ExternalIP_handleDelete_def sample_releases [OF sample_ExternalIP_runs] sample_meta_def)
  have "wv_inv (cluster_view 10 osacExternalIPFinalizer) (released_world :: (ExternalIPSpec, \<lparr>Address :: string, eip_State :: ExternalIPState, Attached :: bool\<rparr>) cluster)"
    by (rule ExternalIP_keeps_world [OF runs_controlled [OF sample_ExternalIP_runs] sample_ExternalIP_steady sample_ExternalIP_steady2 sample_world_ok run])
  with run show ?thesis by simp
qed

text \<open>A reconciler of attachments on the sample server, which sees no object of another kind.\<close>

definition sample_Attachment ::
  "(unit, unit, (ExternalIPAttachmentSpec, unit) cluster) ExternalIPAttachmentReconciler"
where
  "sample_Attachment =
     sample_attachments (sample_lib (\<lambda>w. int (started w) * Second)) (server_client osacExternalIPAttachmentFinalizer)
       (Some (sample_provider started bump JobStateSucceeded)) []"

lemma sample_Attachment_runs: "runs_on_sample osacExternalIPAttachmentFinalizer sample_Attachment"
  by (simp add: runs_on_sample_def sample_Attachment_def sample_attachments_def)

lemma empty_client_steady: "client_steady V empty_client"
  by (simp add: client_steady_def empty_client_def steady_def wlp_def)

lemma sample_Attachment_steady: "attachment_steady sample_Attachment V"
  unfolding attachment_steady_def lists_steady_def steady_def
  by (simp add: sample_Attachment_def sample_attachments_def empty_client_steady sample_lib_laws wlp_def)

lemma sample_Attachment_cleanup: "onDeprovisionSuccess sample_Attachment a w = Some (None, w)"
  by (simp add: onDeprovisionSuccess_def check_then_def clearAttached_def clearExternalIPAddress_def
      removeCIDetachFinalizerIfUnreferenced_def maybeRemoveCODetachFinalizer_def remove_detach_finalizer_def
      still_referenced_def sample_Attachment_def sample_attachments_def sample_lib_def go_simps Let_def split: option.split)

text \<open>
  C2: a call of \<^verbatim>\<open>ExternalIPAttachmentReconciler.Reconcile\<close> keeps every invariant of the world that is kept by writing
  well-formed statuses and by writing objects that may be written,
  and by the calls about the external IPs, compute instances and cluster orders it touches, under the conditions below. An object may be
  written if it carries the finalizer of the controller, or its newest deprovisioning job succeeded, or its history
  records no provisioning job, or it was let go before. So under these conditions no write gives up the finalizer of
  an attachment being deleted before its deprovisioning succeeded, unless the history records no
  provisioning job. The conditions (\<open>controlled\<close>) are: a provider is configured, it issues fresh
  identifiers and every deprovisioning job it starts blocks the deletion if it fails, it never answers a
  deprovisioning request by skipping it nor by a rate limit; the poll interval and the history bound
  are positive; and the API server and controller-runtime behave as documented (finalizer helpers, retries on
  conflict, reads of what was written).
\<close>

theorem Attachment_keeps_world:
  assumes "controlled r V osacExternalIPAttachmentFinalizer" and "attachment_steady r V" and "wv_inv V w"
    and "Attachment_Reconcile r key w = Some (out, w')"
  shows "wv_inv V w'"
  using wlpD [OF att.Reconcile_keeps_invariant [OF assms(1-3)]] assms(4)
  unfolding Attachment_Reconcile_def by blast

theorem Attachment_keeps_world_witness:
  "Attachment_Reconcile sample_Attachment (''ns'', ''n'')
       (sample_world (deleting osacExternalIPAttachmentFinalizer (Spec (sample_attachment ''a'')) ())) =
     Some ((no_requeue, None), released_world) \<and>
   cluster_ok 10 osacExternalIPAttachmentFinalizer (released_world :: (ExternalIPAttachmentSpec, unit) cluster)"
proof -
  have run: "Attachment_Reconcile sample_Attachment (''ns'', ''n'')
       (sample_world (deleting osacExternalIPAttachmentFinalizer (Spec (sample_attachment ''a'')) ())) =
     Some ((no_requeue, None), released_world)"
    unfolding Attachment_Reconcile_def
    by (rule sample_deletion [OF sample_Attachment_runs])
      (simp add: Attachment_handleDelete_def sample_releases [OF sample_Attachment_runs] go_simps sample_Attachment_cleanup)
  have "wv_inv (cluster_view 10 osacExternalIPAttachmentFinalizer) (released_world :: (ExternalIPAttachmentSpec, unit) cluster)"
    by (rule Attachment_keeps_world [OF runs_controlled [OF sample_Attachment_runs] sample_Attachment_steady sample_world_ok run])
  with run show ?thesis by simp
qed

end
