(* ===== verification/Aap_Client.thy ===== *)
theory Aap_Client
  imports Config_Version
begin

text \<open>
  The REST client of the Ansible Automation Platform (\<^verbatim>\<open>pkg/aap/client.go\<close>). The HTTP transport is a
  parameter: it takes the method, the URL, the authorization header and the payload, and reports one
  of the four outcomes the code distinguishes. A response carries its body as text and as what
  \<^verbatim>\<open>encoding/json\<close> reads from that text. The client's own state is its template cache, the first
  component of the state of its operations; the second is the world the transport works on.

  The lemmas: how status codes become errors, that the cache holds templates of known type only and
  is coherent with lookups, and that a template that has gone is looked up afresh.
\<close>

section \<open>Transport\<close>

datatype http_outcome =
    RequestInvalid string
  | SendFailed string
  | ReadFailed string
  | Response int string "string + json"

type_synonym 'h transport = "string \<Rightarrow> string \<Rightarrow> string \<Rightarrow> json option \<Rightarrow> 'h \<Rightarrow> http_outcome \<times> 'h"

text \<open>\<open>parse_time\<close> is what \<^verbatim>\<open>time.Time.UnmarshalJSON\<close> makes of an RFC 3339 text.\<close>

record 'h Client =
  baseURL :: string
  token :: string
  httpClient :: "'h transport"
  parse_time :: "string \<Rightarrow> string + instant"

section \<open>Decoding of responses\<close>

text \<open>
  \<^verbatim>\<open>json.Unmarshal\<close> into a struct: fields are matched without regard to case, \<open>null\<close> leaves a field as
  it is, unknown fields are ignored, a value of the wrong type is an error.
\<close>

definition lower_char :: "char \<Rightarrow> char" where
  "lower_char c = (let n = (of_char c :: nat) in if 65 \<le> n \<and> n \<le> 90 then char_of (n + 32) else c)"

definition key_matches :: "string \<Rightarrow> string \<Rightarrow> bool" where
  "key_matches k f \<longleftrightarrow> map lower_char k = map lower_char f"

definition dec_int :: "json \<Rightarrow> int \<Rightarrow> string + int" where
  "dec_int j old =
     (case j of
        JNull \<Rightarrow> Inr old
      | JNum n \<Rightarrow> if min_int64 \<le> n \<and> n \<le> max_int64 then Inr n else Inl ''json: cannot unmarshal number''
      | _ \<Rightarrow> Inl ''json: cannot unmarshal value into int'')"

definition dec_string :: "json \<Rightarrow> string \<Rightarrow> string + string" where
  "dec_string j old =
     (case j of
        JNull \<Rightarrow> Inr old
      | JStr s \<Rightarrow> Inr s
      | _ \<Rightarrow> Inl ''json: cannot unmarshal value into string'')"

definition dec_bool :: "json \<Rightarrow> bool \<Rightarrow> string + bool" where
  "dec_bool j old =
     (case j of
        JNull \<Rightarrow> Inr old
      | JBool b \<Rightarrow> Inr b
      | _ \<Rightarrow> Inl ''json: cannot unmarshal value into bool'')"

definition dec_time :: "(string \<Rightarrow> string + instant) \<Rightarrow> json \<Rightarrow> instant \<Rightarrow> string + instant" where
  "dec_time parse j old =
     (case j of
        JNull \<Rightarrow> Inr old
      | JStr s \<Rightarrow> parse s
      | _ \<Rightarrow> Inl ''Time.UnmarshalJSON: input is not a JSON string'')"

fun dec_fields ::
  "(string \<Rightarrow> json \<Rightarrow> 'a \<Rightarrow> string + 'a) \<Rightarrow> (string \<times> json) list \<Rightarrow> 'a \<Rightarrow> string + 'a"
where
  "dec_fields f [] x = Inr x"
| "dec_fields f ((k, v) # kvs) x =
     (case f k v x of Inl e \<Rightarrow> Inl e | Inr x' \<Rightarrow> dec_fields f kvs x')"

definition dec_struct :: "(string \<Rightarrow> json \<Rightarrow> 'a \<Rightarrow> string + 'a) \<Rightarrow> 'a \<Rightarrow> json \<Rightarrow> string + 'a" where
  "dec_struct f zero j =
     (case j of
        JObj kvs \<Rightarrow> dec_fields f kvs zero
      | JNull \<Rightarrow> Inr zero
      | _ \<Rightarrow> Inl ''json: cannot unmarshal value into struct'')"

fun dec_list :: "(json \<Rightarrow> string + 'a) \<Rightarrow> json list \<Rightarrow> string + 'a list" where
  "dec_list f [] = Inr []"
| "dec_list f (j # js) =
     (case f j of
        Inl e \<Rightarrow> Inl e
      | Inr x \<Rightarrow> (case dec_list f js of Inl e \<Rightarrow> Inl e | Inr xs \<Rightarrow> Inr (x # xs)))"

section \<open>Data\<close>

datatype TemplateType = TemplateTypeJob | TemplateTypeWorkflow | TemplateTypeNone

definition TemplateType_String :: "TemplateType \<Rightarrow> string" where
  "TemplateType_String t =
     (case t of
        TemplateTypeJob \<Rightarrow> ''job_template''
      | TemplateTypeWorkflow \<Rightarrow> ''workflow_job_template''
      | TemplateTypeNone \<Rightarrow> '''')"

record Template =
  Template_ID :: int
  Template_Name :: string
  Template_Type :: TemplateType

record LaunchRequest =
  TemplateID :: int
  TemplateName :: string
  ExtraVars :: json

text \<open>The zero \<^verbatim>\<open>time.Time\<close> is the first instant of the year 1.\<close>

definition zero_time :: instant where
  "zero_time = - 62135596800 * Second"

record Job =
  Job_ID :: int
  Job_Status :: string
  Job_Started :: instant
  Job_Finished :: instant
  Job_ExtraVars :: string
  Job_ResultTraceback :: string

record TemplateList =
  tl_Count :: int
  tl_Results :: "Template list"

definition decode_launch :: "json \<Rightarrow> string + int" where
  "decode_launch = dec_struct (\<lambda>k v x. if key_matches k ''id'' then dec_int v x else Inr x) 0"

definition decode_can_cancel :: "json \<Rightarrow> string + bool" where
  "decode_can_cancel =
     dec_struct (\<lambda>k v x. if key_matches k ''can_cancel'' then dec_bool v x else Inr x) False"

definition decode_Template :: "json \<Rightarrow> string + Template" where
  "decode_Template =
     dec_struct (\<lambda>k v x.
       if key_matches k ''id'' then map_sum id (\<lambda>i. x\<lparr>Template_ID := i\<rparr>) (dec_int v (Template_ID x))
       else if key_matches k ''name'' then
         map_sum id (\<lambda>s. x\<lparr>Template_Name := s\<rparr>) (dec_string v (Template_Name x))
       else Inr x)
     \<lparr>Template_ID = 0, Template_Name = '''', Template_Type = TemplateTypeNone\<rparr>"

definition decode_TemplateList :: "json \<Rightarrow> string + TemplateList" where
  "decode_TemplateList =
     dec_struct (\<lambda>k v x.
       if key_matches k ''count'' then map_sum id (\<lambda>i. x\<lparr>tl_Count := i\<rparr>) (dec_int v (tl_Count x))
       else if key_matches k ''results'' then
         (case v of
            JNull \<Rightarrow> Inr (x\<lparr>tl_Results := []\<rparr>)
          | JArr js \<Rightarrow> map_sum id (\<lambda>ts. x\<lparr>tl_Results := ts\<rparr>) (dec_list decode_Template js)
          | _ \<Rightarrow> Inl ''json: cannot unmarshal value into slice'')
       else Inr x)
     \<lparr>tl_Count = 0, tl_Results = []\<rparr>"

definition decode_Job :: "(string \<Rightarrow> string + instant) \<Rightarrow> json \<Rightarrow> string + Job" where
  "decode_Job parse =
     dec_struct (\<lambda>k v x.
       if key_matches k ''id'' then map_sum id (\<lambda>i. x\<lparr>Job_ID := i\<rparr>) (dec_int v (Job_ID x))
       else if key_matches k ''status'' then
         map_sum id (\<lambda>s. x\<lparr>Job_Status := s\<rparr>) (dec_string v (Job_Status x))
       else if key_matches k ''started'' then
         map_sum id (\<lambda>t. x\<lparr>Job_Started := t\<rparr>) (dec_time parse v (Job_Started x))
       else if key_matches k ''finished'' then
         map_sum id (\<lambda>t. x\<lparr>Job_Finished := t\<rparr>) (dec_time parse v (Job_Finished x))
       else if key_matches k ''extra_vars'' then
         map_sum id (\<lambda>s. x\<lparr>Job_ExtraVars := s\<rparr>) (dec_string v (Job_ExtraVars x))
       else if key_matches k ''result_traceback'' then
         map_sum id (\<lambda>s. x\<lparr>Job_ResultTraceback := s\<rparr>) (dec_string v (Job_ResultTraceback x))
       else Inr x)
     \<lparr>Job_ID = 0, Job_Status = '''', Job_Started = zero_time, Job_Finished = zero_time,
      Job_ExtraVars = '''', Job_ResultTraceback = ''''\<rparr>"

section \<open>Operations\<close>

type_synonym template_cache = "string \<rightharpoonup> Template"

definition APIVersion :: string where
  "APIVersion = ''v2''"

definition JobTemplatesEndpoint :: string where
  "JobTemplatesEndpoint = ''job_templates''"

definition WorkflowJobTemplatesEndpoint :: string where
  "WorkflowJobTemplatesEndpoint = ''workflow_job_templates''"

definition doRequest ::
  "'h Client \<Rightarrow> string \<Rightarrow> string \<Rightarrow> json option \<Rightarrow> ('h, gerror + (string + json)) go"
where
  "doRequest c method url payload =
     (\<lambda>h. case httpClient c method url (sprintf ''Bearer %s'' [token c]) payload h of
        (out, h') \<Rightarrow>
          Some ((case out of
            RequestInvalid m \<Rightarrow> Inl (Wrapf ''failed to create request: %w'' [] (Errorf m []))
          | SendFailed m \<Rightarrow> Inl (Wrapf ''failed to send request: %w'' [] (Errorf m []))
          | ReadFailed m \<Rightarrow> Inl (Wrapf ''failed to read response body: %w'' [] (Errorf m []))
          | Response code text body \<Rightarrow>
              if code < 200 \<or> code \<ge> 300 then
                (if code = 404 then Inl (NotFoundError url url)
                 else if code = 405 then Inl (MethodNotAllowedError (sprintf ''%s %s'' [method, url]) url)
                 else Inl (Errorf ''received non-success status code %d: %s'' [Itoa code, text]))
              else Inr body), h'))"

definition decode_body :: "(json \<Rightarrow> string + 'a) \<Rightarrow> string + json \<Rightarrow> string + 'a" where
  "decode_body f body = (case body of Inl e \<Rightarrow> Inl e | Inr j \<Rightarrow> f j)"

definition invalidateTemplateCache :: "string \<Rightarrow> (template_cache \<times> 'h, unit) go" where
  "invalidateTemplateCache templateName = mod_res (\<lambda>cache. cache(templateName := None))"

definition ClearTemplateCache :: "(template_cache \<times> 'h, unit) go" where
  "ClearTemplateCache = mod_res (\<lambda>cache. Map.empty)"

definition doTemplateRequest ::
  "'h Client \<Rightarrow> string \<Rightarrow> string \<Rightarrow> json option \<Rightarrow> string \<Rightarrow>
   (template_cache \<times> 'h, gerror + (string + json)) go"
where
  "doTemplateRequest c method url payload templateName =
     bnd (on_world (doRequest c method url payload)) (\<lambda>resp.
       case resp of
         Inl err \<Rightarrow>
           bnd (if errors_As is_NotFoundError err \<noteq> None then invalidateTemplateCache templateName
                else ret ()) (\<lambda>_.
           ret (Inl err))
       | Inr body \<Rightarrow> ret (Inr body))"

definition launch_url :: "'h Client \<Rightarrow> string \<Rightarrow> LaunchRequest \<Rightarrow> string" where
  "launch_url c endpoint req =
     (let identifier = (if TemplateID req > 0 then Itoa (TemplateID req) else TemplateName req)
      in sprintf ''%s/%s/%s/%s/launch/'' [baseURL c, APIVersion, endpoint, identifier])"

definition LaunchJobTemplate ::
  "'h Client \<Rightarrow> LaunchRequest \<Rightarrow> (template_cache \<times> 'h, gerror + int) go"
where
  "LaunchJobTemplate c req =
     bnd (doTemplateRequest c ''POST'' (launch_url c JobTemplatesEndpoint req)
            (Some (JObj [(''extra_vars'', ExtraVars req)])) (TemplateName req)) (\<lambda>resp.
       case resp of
         Inl err \<Rightarrow> ret (Inl (Wrapf ''failed to launch job template: %w'' [] err))
       | Inr body \<Rightarrow>
           (case decode_body decode_launch body of
              Inl e \<Rightarrow> ret (Inl (Wrapf ''failed to parse launch response: %w'' [] (Errorf e [])))
            | Inr jobID \<Rightarrow> ret (Inr jobID)))"

definition LaunchWorkflowTemplate ::
  "'h Client \<Rightarrow> LaunchRequest \<Rightarrow> (template_cache \<times> 'h, gerror + int) go"
where
  "LaunchWorkflowTemplate c req =
     bnd (doTemplateRequest c ''POST'' (launch_url c WorkflowJobTemplatesEndpoint req)
            (Some (JObj [(''extra_vars'', ExtraVars req)])) (TemplateName req)) (\<lambda>resp.
       case resp of
         Inl err \<Rightarrow> ret (Inl (Wrapf ''failed to launch workflow template: %w'' [] err))
       | Inr body \<Rightarrow>
           (case decode_body decode_launch body of
              Inl e \<Rightarrow> ret (Inl (Wrapf ''failed to parse launch response: %w'' [] (Errorf e [])))
            | Inr jobID \<Rightarrow> ret (Inr jobID)))"

definition GetJob :: "'h Client \<Rightarrow> string \<Rightarrow> (template_cache \<times> 'h, gerror + Job) go" where
  "GetJob c jobID =
     bnd (on_world (doRequest c ''GET'' (sprintf ''%s/%s/jobs/%s/'' [baseURL c, APIVersion, jobID]) None)) (\<lambda>resp.
       case resp of
         Inl err \<Rightarrow> ret (Inl (Wrapf ''failed to get job: %w'' [] err))
       | Inr body \<Rightarrow>
           (case decode_body (decode_Job (parse_time c)) body of
              Inl e \<Rightarrow> ret (Inl (Wrapf ''failed to parse job response: %w'' [] (Errorf e [])))
            | Inr job \<Rightarrow> ret (Inr job)))"

definition CanCancelJob :: "'h Client \<Rightarrow> string \<Rightarrow> (template_cache \<times> 'h, gerror + bool) go" where
  "CanCancelJob c jobID =
     bnd (on_world (doRequest c ''GET'' (sprintf ''%s/%s/jobs/%s/cancel/'' [baseURL c, APIVersion, jobID]) None)) (\<lambda>resp.
       case resp of
         Inl err \<Rightarrow> ret (Inl (Wrapf ''failed to check if job can be canceled: %w'' [] err))
       | Inr body \<Rightarrow>
           (case decode_body decode_can_cancel body of
              Inl e \<Rightarrow> ret (Inl (Wrapf ''failed to parse can_cancel response: %w'' [] (Errorf e [])))
            | Inr b \<Rightarrow> ret (Inr b)))"

definition CancelJob :: "'h Client \<Rightarrow> string \<Rightarrow> (template_cache \<times> 'h, gerror option) go" where
  "CancelJob c jobID =
     bnd (on_world (doRequest c ''POST'' (sprintf ''%s/%s/jobs/%s/cancel/'' [baseURL c, APIVersion, jobID]) None)) (\<lambda>resp.
       case resp of
         Inl err \<Rightarrow> ret (Some (Wrapf ''failed to cancel job: %w'' [] err))
       | Inr body \<Rightarrow> ret None)"

text \<open>Indexing an empty result list panics.\<close>

definition getTemplateFromEndpoint ::
  "'h Client \<Rightarrow> string \<Rightarrow> string \<Rightarrow> TemplateType \<Rightarrow> ('h, gerror + Template) go"
where
  "getTemplateFromEndpoint c templateEndpoint templateName templateType =
     bnd (doRequest c ''GET''
            (sprintf ''%s/%s/%s/?name=%s'' [baseURL c, APIVersion, templateEndpoint, templateName]) None) (\<lambda>resp.
       case resp of
         Inl err \<Rightarrow> ret (Inl err)
       | Inr body \<Rightarrow>
           (case decode_body decode_TemplateList body of
              Inl e \<Rightarrow> ret (Inl (Wrapf ''failed to parse template lookup response: %w'' [] (Errorf e [])))
            | Inr result \<Rightarrow>
                if tl_Count result = 0 then ret (Inl (Errorf ''template %s not found'' [templateName]))
                else (case tl_Results result of
                        [] \<Rightarrow> panic
                      | template # _ \<Rightarrow> ret (Inr (template\<lparr>Template_Type := templateType\<rparr>)))))"

definition GetTemplateByName :: "'h Client \<Rightarrow> string \<Rightarrow> ('h, gerror + Template) go" where
  "GetTemplateByName c templateName =
     bnd (getTemplateFromEndpoint c JobTemplatesEndpoint templateName TemplateTypeJob) (\<lambda>res.
       case res of
         Inr template \<Rightarrow> ret (Inr template)
       | Inl _ \<Rightarrow>
           bnd (getTemplateFromEndpoint c WorkflowJobTemplatesEndpoint templateName TemplateTypeWorkflow) (\<lambda>res'.
             case res' of
               Inr template \<Rightarrow> ret (Inr template)
             | Inl _ \<Rightarrow>
                 ret (Inl (Errorf ''template %s not found as %s or %s''
                             [templateName, JobTemplatesEndpoint, WorkflowJobTemplatesEndpoint]))))"

definition GetTemplate :: "'h Client \<Rightarrow> string \<Rightarrow> (template_cache \<times> 'h, gerror + Template) go" where
  "GetTemplate c templateName =
     bnd get_res (\<lambda>cache.
       case cache templateName of
         Some cached \<Rightarrow> ret (Inr cached)
       | None \<Rightarrow>
           bnd (on_world (GetTemplateByName c templateName)) (\<lambda>res.
             case res of
               Inl err \<Rightarrow> ret (Inl err)
             | Inr template \<Rightarrow>
                 bnd (mod_res (\<lambda>cache. cache(templateName \<mapsto> template))) (\<lambda>_. ret (Inr template))))"

section \<open>Specification\<close>

text \<open>A client whose server always gives the same answer.\<close>

definition answering :: "http_outcome \<Rightarrow> unit Client" where
  "answering out =
     \<lparr>baseURL = ''http://aap'', token = ''t'', httpClient = (\<lambda>method url auth payload h. (out, h)),
      parse_time = (\<lambda>s. Inl ''bad time'')\<rparr>"

definition bearer :: "'h Client \<Rightarrow> string" where
  "bearer c = sprintf ''Bearer %s'' [token c]"

text \<open>Every template in the cache has one of the two types the endpoints stand for.\<close>

definition cache_ok :: "template_cache \<Rightarrow> bool" where
  "cache_ok cache \<longleftrightarrow> (\<forall>n t. cache n = Some t \<longrightarrow> Template_Type t \<noteq> TemplateTypeNone)"

fun untyped_error :: "gerror \<Rightarrow> bool" where
  "untyped_error (Wrapf f as e) = untyped_error e"
| "untyped_error (RateLimitError d) = False"
| "untyped_error (ManagerNotFoundError n t) = False"
| "untyped_error (APIStatusError r m) = False"
| "untyped_error (GRPCStatusError c m) = False"
| "untyped_error e = True"

section \<open>Lemmas\<close>

lemma untyped_no_rate_limit: "untyped_error e \<Longrightarrow> errors_As is_RateLimitError e = None"
  by (induction e rule: untyped_error.induct) auto

lemma doRequest_errors:
  "wlp (doRequest c m u p) (\<lambda>res h'. \<forall>e. res = Inl e \<longrightarrow> untyped_error e) h"
  by (auto simp: wlp_def doRequest_def split: prod.splits http_outcome.splits if_splits)

lemma doRequest_total: "\<exists>res h'. doRequest c m u p h = Some (res, h')"
  by (simp add: doRequest_def split: prod.splits)

lemma getTemplateFromEndpoint_type:
  "wlp (getTemplateFromEndpoint c ep n t) (\<lambda>res h'. \<forall>x. res = Inr x \<longrightarrow> Template_Type x = t) h"
  unfolding getTemplateFromEndpoint_def wlp_bnd
  by (rule wlp_mono [OF doRequest_errors]) (auto simp: wp_simps split: sum.split list.split)

lemma GetTemplateByName_type:
  "wlp (GetTemplateByName c n)
     (\<lambda>res h'. (\<forall>x. res = Inr x \<longrightarrow> Template_Type x \<noteq> TemplateTypeNone) \<and> (\<forall>e. res = Inl e \<longrightarrow> untyped_error e)) h"
  unfolding GetTemplateByName_def wlp_bnd
  by (rule wlp_mono [OF getTemplateFromEndpoint_type])
    (auto simp: wlp_ret wlp_bnd split: sum.split intro!: wlp_mono [OF getTemplateFromEndpoint_type])

lemma GetTemplate_ok:
  assumes "cache_ok cache"
  shows "wlp (GetTemplate c n) (\<lambda>res (cache', h').
     cache_ok cache' \<and> (\<forall>x. res = Inr x \<longrightarrow> Template_Type x \<noteq> TemplateTypeNone \<and> cache' n = Some x) \<and>
     (\<forall>e. res = Inl e \<longrightarrow> untyped_error e \<and> cache' = cache)) (cache, h)"
proof (cases "cache n")
  case None
  then show ?thesis
    using assms unfolding GetTemplate_def wlp_bnd wlp_get_res prod.case
    by (simp add: wp_simps, intro wlp_mono [OF GetTemplateByName_type])
      (auto simp: wp_simps cache_ok_def split: sum.split)
next
  case (Some t)
  with assms show ?thesis by (auto simp: GetTemplate_def wp_simps cache_ok_def)
qed

lemma doTemplateRequest_ok:
  assumes "cache_ok cache"
  shows "wlp (doTemplateRequest c m u p n) (\<lambda>res (cache', h').
     cache_ok cache' \<and> (\<forall>e. res = Inl e \<longrightarrow> untyped_error e)) (cache, h)"
  using assms unfolding doTemplateRequest_def wlp_bnd wlp_on_world prod.case
  by (intro wlp_mono [OF doRequest_errors])
    (auto simp: wp_simps invalidateTemplateCache_def cache_ok_def split: sum.split)

lemma Launch_ok:
  assumes "cache_ok cache"
  shows "wlp (LaunchJobTemplate c req) (\<lambda>res (cache', h').
       cache_ok cache' \<and> (\<forall>e. res = Inl e \<longrightarrow> untyped_error e)) (cache, h)"
    and "wlp (LaunchWorkflowTemplate c req) (\<lambda>res (cache', h').
       cache_ok cache' \<and> (\<forall>e. res = Inl e \<longrightarrow> untyped_error e)) (cache, h)"
  unfolding LaunchJobTemplate_def LaunchWorkflowTemplate_def wlp_bnd
  by (rule wlp_mono [OF doTemplateRequest_ok [OF assms]], auto simp: wp_simps split: sum.split)+

lemma GetJob_ok:
  "wlp (GetJob c jobID) (\<lambda>res (cache', h'). cache' = cache \<and> (\<forall>e. res = Inl e \<longrightarrow> untyped_error e)) (cache, h)"
  unfolding GetJob_def wlp_bnd wlp_on_world prod.case
  by (intro wlp_mono [OF doRequest_errors]) (auto simp: wp_simps split: sum.split)

lemma CancelJob_ok:
  "wlp (CancelJob c jobID) (\<lambda>res (cache', h'). cache' = cache \<and> (\<forall>e. res = Some e \<longrightarrow> untyped_error e)) (cache, h)"
  unfolding CancelJob_def wlp_bnd wlp_on_world prod.case
  by (intro wlp_mono [OF doRequest_errors]) (auto simp: wp_simps split: sum.split)

text \<open>No operation fails with a rate-limit error, whatever the cache holds.\<close>

lemma GetTemplate_errors:
  "wlp (GetTemplate c n) (\<lambda>res s. \<forall>e. res = Inl e \<longrightarrow> untyped_error e) s"
  by (cases s)
    (auto simp: GetTemplate_def wp_simps split: option.split sum.split intro!: wlp_mono [OF GetTemplateByName_type])

lemma doTemplateRequest_errors:
  "wlp (doTemplateRequest c m u p n) (\<lambda>res s. \<forall>e. res = Inl e \<longrightarrow> untyped_error e) s"
  unfolding doTemplateRequest_def wlp_bnd wlp_on_world
  by (cases s)
    (auto simp: wp_simps invalidateTemplateCache_def split: sum.split intro!: wlp_mono [OF doRequest_errors])

lemma Launch_errors:
  "wlp (LaunchJobTemplate c req) (\<lambda>res s. \<forall>e. res = Inl e \<longrightarrow> untyped_error e) s"
  "wlp (LaunchWorkflowTemplate c req) (\<lambda>res s. \<forall>e. res = Inl e \<longrightarrow> untyped_error e) s"
  unfolding LaunchJobTemplate_def LaunchWorkflowTemplate_def wlp_bnd
  by (rule wlp_mono [OF doTemplateRequest_errors], auto simp: wp_simps split: sum.split)+

lemma GetJob_errors: "wlp (GetJob c x) (\<lambda>res s. \<forall>e. res = Inl e \<longrightarrow> untyped_error e) s"
  using GetJob_ok [of c x "fst s" "snd s"] by (auto elim: wlp_mono)

lemma CancelJob_errors: "wlp (CancelJob c x) (\<lambda>res s. \<forall>e. res = Some e \<longrightarrow> untyped_error e) s"
  using CancelJob_ok [of c x "fst s" "snd s"] by (auto elim: wlp_mono)

lemma doRequest_typed:
  assumes "httpClient c m u (bearer c) p h = (out, h')"
  obtains res where "doRequest c m u p h = Some (res, h')"
    and "(\<exists>e. res = Inl e \<and> errors_As is_NotFoundError e \<noteq> None) \<longleftrightarrow> (\<exists>t b. out = Response 404 t b)"
    and "(\<exists>e. res = Inl e \<and> errors_As is_MethodNotAllowedError e \<noteq> None) \<longleftrightarrow> (\<exists>t b. out = Response 405 t b)"
    and "(\<exists>b. res = Inr b) \<longleftrightarrow> (\<exists>code t b. out = Response code t b \<and> 200 \<le> code \<and> code < 300)"
  using assms that
  by (cases out) (auto simp: doRequest_def bearer_def)

section \<open>Properties\<close>

text \<open>
  A template found by \<open>GetTemplate\<close> is cached: asking again gives the same template and changes
  nothing, whatever has become of the server and the network in the meantime.
\<close>

theorem GetTemplate_cached:
  assumes "GetTemplate c n (cache, h) = Some (Inr t, (cache', h'))"
  shows "GetTemplate c n (cache', h'') = Some (Inr t, (cache', h''))"
  using assms by (auto simp: GetTemplate_def go_simps split: option.splits sum.splits prod.splits)

theorem GetTemplate_cached_witness:
  "GetTemplate (answering (Response 200 '''' (Inr (JObj [(''count'', JNum 1), (''results'', JArr [JObj [(''id'', JNum 7), (''name'', JStr ''a'')]])]))))
      ''a'' ([''a'' \<mapsto> \<lparr>Template_ID = 7, Template_Name = ''a'', Template_Type = TemplateTypeJob\<rparr>], ()) =
   Some (Inr \<lparr>Template_ID = 7, Template_Name = ''a'', Template_Type = TemplateTypeJob\<rparr>,
     ([''a'' \<mapsto> \<lparr>Template_ID = 7, Template_Name = ''a'', Template_Type = TemplateTypeJob\<rparr>], ()))"
proof (rule GetTemplate_cached)
  show "GetTemplate (answering (Response 200 '''' (Inr (JObj [(''count'', JNum 1), (''results'', JArr [JObj [(''id'', JNum 7), (''name'', JStr ''a'')]])]))))
      ''a'' (Map.empty, ()) =
    Some (Inr \<lparr>Template_ID = 7, Template_Name = ''a'', Template_Type = TemplateTypeJob\<rparr>,
     ([''a'' \<mapsto> \<lparr>Template_ID = 7, Template_Name = ''a'', Template_Type = TemplateTypeJob\<rparr>], ()))"
    by (simp add: GetTemplate_def GetTemplateByName_def getTemplateFromEndpoint_def doRequest_def answering_def go_simps
        decode_body_def decode_TemplateList_def decode_Template_def dec_struct_def dec_int_def dec_string_def
        key_matches_def lower_char_def Let_def min_int64_def max_int64_def)
qed

text \<open>
  C27: a launch of a job template answered with 404 drops the template from the cache, so that the next lookup asks the server
  again, and the caller can tell this error from the others through the wrapping; after any other
  answer the cache is as before.
\<close>

theorem launch_invalidates_stale_template:
  assumes "httpClient c ''POST'' (launch_url c JobTemplatesEndpoint req) (bearer c)
      (Some (JObj [(''extra_vars'', ExtraVars req)])) h = (out, h')"
  shows "\<exists>res. LaunchJobTemplate c req (cache, h) =
       Some (res, (if \<exists>t b. out = Response 404 t b then cache(TemplateName req := None) else cache, h')) \<and>
     ((\<exists>e. res = Inl e \<and> errors_As is_NotFoundError e \<noteq> None) \<longleftrightarrow> (\<exists>t b. out = Response 404 t b))"
proof -
  obtain r where r: "doRequest c ''POST'' (launch_url c JobTemplatesEndpoint req)
      (Some (JObj [(''extra_vars'', ExtraVars req)])) h = Some (r, h')"
    and nf: "(\<exists>e. r = Inl e \<and> errors_As is_NotFoundError e \<noteq> None) \<longleftrightarrow> (\<exists>t b. out = Response 404 t b)"
    using assms by (rule doRequest_typed)
  show ?thesis
  proof (cases r)
    case (Inl e)
    with r nf show ?thesis
      by (auto simp: LaunchJobTemplate_def doTemplateRequest_def invalidateTemplateCache_def go_simps fun_upd_def)
  next
    case (Inr body)
    with r nf show ?thesis
      by (auto simp: LaunchJobTemplate_def doTemplateRequest_def go_simps split: sum.split)
  qed
qed

theorem launch_invalidates_stale_template_witness:
  "\<exists>res. LaunchJobTemplate (answering (Response 404 '''' (Inl ''''))) \<lparr>TemplateID = 7, TemplateName = ''a'', ExtraVars = JNull\<rparr>
      ([''a'' \<mapsto> \<lparr>Template_ID = 7, Template_Name = ''a'', Template_Type = TemplateTypeJob\<rparr>], ()) =
      Some (res, (Map.empty, ())) \<and> (\<exists>e. res = Inl e \<and> errors_As is_NotFoundError e \<noteq> None)"
  using launch_invalidates_stale_template [of "answering (Response 404 '''' (Inl ''''))"
      "\<lparr>TemplateID = 7, TemplateName = ''a'', ExtraVars = JNull\<rparr>" "()" "Response 404 '''' (Inl '''')" "()"
      "[''a'' \<mapsto> \<lparr>Template_ID = 7, Template_Name = ''a'', Template_Type = TemplateTypeJob\<rparr>]"]
  by (simp add: answering_def)

end
