(* ===== verification/Aap_Provider.thy ===== *)
theory Aap_Provider
  imports Lifecycle_Laws Aap_Client
begin

text \<open>
  The provisioning provider that talks to the automation platform
  (\<^verbatim>\<open>pkg/provisioning/aap_provider.go\<close>, \<^verbatim>\<open>extra_vars_context.go\<close>, \<^verbatim>\<open>factory.go\<close>). It works through the
  interface \<^verbatim>\<open>AAPClient\<close>, a record of operations on the client's world. What it needs of a resource
  (its kind and its JSON form) and the third-party \<^verbatim>\<open>strcase.KebabCase\<close> are parameters (\<open>obj_view\<close>).
  The values a caller puts into the context are a record (\<open>Ctx\<close>), nil and the empty value being the
  same to the code.

  The locales \<open>untyped_client\<close> and \<open>typed_client\<close> are the contract of the interface; both are
  interpreted on the REST client. Their lemmas show that the provider insists on successful
  deprovisioning (the contract \<open>blocking_deprovisioning\<close> of the lifecycle), that the jobs it starts
  have non-empty identifiers, and that the fall-through for unknown template types is unreachable.
\<close>

section \<open>Values carried by the context\<close>

record ResolvedStorageClass =
  rsc_Name :: string
  rsc_Tier :: string

record TierQosLimits =
  MaxReadBandwidthMBs :: int
  MaxWriteBandwidthMBs :: int

record TierDefinition =
  td_Name :: string
  td_Protocol :: string
  td_Provider :: string
  td_BackendID :: string
  td_QosLimits :: TierQosLimits
  td_QuotaGiB :: int

record BackendConnection =
  bc_Endpoint :: string
  bc_Username :: string
  bc_Password :: string

record Ctx =
  ctx_TenantStorageClasses :: "ResolvedStorageClass list"
  ctx_AdminKubeconfig :: string
  ctx_StorageTierDefinitions :: "TierDefinition list"
  ctx_StorageBackendConnections :: "(string \<times> BackendConnection) list"

definition background :: Ctx where
  "background = \<lparr>ctx_TenantStorageClasses = [], ctx_AdminKubeconfig = '''',
     ctx_StorageTierDefinitions = [], ctx_StorageBackendConnections = []\<rparr>"

definition WithTenantStorageClasses :: "Ctx \<Rightarrow> ResolvedStorageClass list \<Rightarrow> Ctx" where
  "WithTenantStorageClasses ctx scs = ctx\<lparr>ctx_TenantStorageClasses := scs\<rparr>"

definition WithAdminKubeconfig :: "Ctx \<Rightarrow> string \<Rightarrow> Ctx" where
  "WithAdminKubeconfig ctx kc = ctx\<lparr>ctx_AdminKubeconfig := kc\<rparr>"

definition WithStorageTierDefinitions :: "Ctx \<Rightarrow> TierDefinition list \<Rightarrow> Ctx" where
  "WithStorageTierDefinitions ctx tiers = ctx\<lparr>ctx_StorageTierDefinitions := tiers\<rparr>"

definition WithStorageBackendConnections :: "Ctx \<Rightarrow> (string \<times> BackendConnection) list \<Rightarrow> Ctx" where
  "WithStorageBackendConnections ctx conns = ctx\<lparr>ctx_StorageBackendConnections := conns\<rparr>"

section \<open>Extra variables\<close>

text \<open>
  \<open>obj_JSON\<close> is what \<^verbatim>\<open>json.Marshal\<close> makes of the resource (\<open>Inl\<close> the text of its error). Maps are
  association lists here: the order of their keys carries no meaning.
\<close>

record 'r obj_view =
  obj_Kind :: "'r \<Rightarrow> string"
  obj_JSON :: "'r \<Rightarrow> string + json"
  KebabCase :: "string \<Rightarrow> string"

definition serializeResource :: "'r obj_view \<Rightarrow> 'r \<Rightarrow> gerror + json" where
  "serializeResource view resource =
     (case obj_JSON view resource of
        Inl err \<Rightarrow> Inl (Wrapf ''failed to marshal resource to JSON: %w'' [] (Errorf err []))
      | Inr (JObj kvs) \<Rightarrow> Inr (JObj kvs)
      | Inr JNull \<Rightarrow> Inr JNull
      | Inr j \<Rightarrow>
          Inl (Wrapf ''failed to unmarshal JSON to map: %w'' []
                 (Errorf ''json: cannot unmarshal value into Go value of type map[string]interface {}'' [])))"

definition bytesPerGiB :: int where
  "bytesPerGiB = 2 ^ 30"

definition tierDefinitionsToExtraVars :: "TierDefinition list \<Rightarrow> json" where
  "tierDefinitionsToExtraVars tiers =
     JArr (map (\<lambda>tier. JObj
       [(''name'', JStr (td_Name tier)),
        (''protocol'', JStr (td_Protocol tier)),
        (''provider'', JStr (td_Provider tier)),
        (''backend_id'', JStr (td_BackendID tier)),
        (''qos_limits'', JObj [(''static_limits'', JObj
           [(''max_reads_bw_mbps'', JNum (MaxReadBandwidthMBs (td_QosLimits tier))),
            (''max_writes_bw_mbps'', JNum (MaxWriteBandwidthMBs (td_QosLimits tier)))])]),
        (''quota_bytes'', JNum (wrap64 (td_QuotaGiB tier * bytesPerGiB)))]) tiers)"

definition backendConnectionsToExtraVars :: "(string \<times> BackendConnection) list \<Rightarrow> json" where
  "backendConnectionsToExtraVars conns =
     JObj (map (\<lambda>(backendID, conn). (backendID, JObj
       [(''endpoint'', JStr (bc_Endpoint conn)),
        (''username'', JStr (bc_Username conn)),
        (''password'', JStr (bc_Password conn))])) conns)"

definition extractExtraVars :: "'r obj_view \<Rightarrow> Ctx \<Rightarrow> 'r \<Rightarrow> gerror + json" where
  "extractExtraVars view ctx resource =
     (case serializeResource view resource of
        Inl err \<Rightarrow> Inl (Wrapf ''failed to serialize resource: %w'' [] err)
      | Inr resourceMap \<Rightarrow>
          (let event =
             [(''payload'', resourceMap)] @
             (if ctx_TenantStorageClasses ctx \<noteq> [] then
                [(''tenant_storage_classes'', JArr (map (\<lambda>sc. JObj
                   [(''name'', JStr (rsc_Name sc)), (''tier'', JStr (rsc_Tier sc))])
                   (ctx_TenantStorageClasses ctx)))] else []) @
             (if ctx_AdminKubeconfig ctx \<noteq> '''' then
                [(''admin_kubeconfig'', JStr (ctx_AdminKubeconfig ctx))] else []) @
             (if ctx_StorageTierDefinitions ctx \<noteq> [] then
                [(''storage_tier_definitions'',
                  tierDefinitionsToExtraVars (ctx_StorageTierDefinitions ctx))] else []) @
             (if ctx_StorageBackendConnections ctx \<noteq> [] then
                [(''storage_backend_connections'',
                  backendConnectionsToExtraVars (ctx_StorageBackendConnections ctx))] else [])
           in Inr (JObj [(''ansible_eda'', JObj [(''event'', JObj event)])])))"

section \<open>The provider\<close>

record 'w AAPClient =
  ac_GetTemplate :: "string \<Rightarrow> ('w, gerror + Template) go"
  ac_LaunchJobTemplate :: "LaunchRequest \<Rightarrow> ('w, gerror + int) go"
  ac_LaunchWorkflowTemplate :: "LaunchRequest \<Rightarrow> ('w, gerror + int) go"
  ac_GetJob :: "string \<Rightarrow> ('w, gerror + Job) go"
  ac_CancelJob :: "string \<Rightarrow> ('w, gerror option) go"

record 'w AAPProvider =
  aap_client :: "'w AAPClient"
  provisionTemplate :: string
  deprovisionTemplate :: string
  templatePrefix :: string

definition NewAAPProvider :: "'w AAPClient \<Rightarrow> string \<Rightarrow> string \<Rightarrow> 'w AAPProvider" where
  "NewAAPProvider client provision deprovision =
     \<lparr>aap_client = client, provisionTemplate = provision, deprovisionTemplate = deprovision,
      templatePrefix = ''''\<rparr>"

definition NewAAPProviderWithPrefix :: "'w AAPClient \<Rightarrow> string \<Rightarrow> 'w AAPProvider" where
  "NewAAPProviderWithPrefix client prefix =
     \<lparr>aap_client = client, provisionTemplate = '''', deprovisionTemplate = '''',
      templatePrefix = prefix\<rparr>"

definition NewProvider ::
  "'w AAPClient option \<Rightarrow> string \<Rightarrow> string \<Rightarrow> string \<Rightarrow> gerror + 'w AAPProvider"
where
  "NewProvider client provision deprovision prefix =
     (case client of
        None \<Rightarrow> Inl (Errorf ''AAP provider requires AAPClient'' [])
      | Some c \<Rightarrow>
          Inr \<lparr>aap_client = c, provisionTemplate = provision, deprovisionTemplate = deprovision,
               templatePrefix = prefix\<rparr>)"

definition kindToTemplateSuffix :: "string \<rightharpoonup> string" where
  "kindToTemplateSuffix = [''ClusterOrder'' \<mapsto> ''hosted-cluster'']"

definition resolveTemplateName :: "'w AAPProvider \<Rightarrow> 'r obj_view \<Rightarrow> string \<Rightarrow> 'r \<Rightarrow> gerror + string" where
  "resolveTemplateName p view action resource =
     (if action = ''create'' \<and> provisionTemplate p \<noteq> '''' then Inr (provisionTemplate p)
      else if action = ''delete'' \<and> deprovisionTemplate p \<noteq> '''' then Inr (deprovisionTemplate p)
      else if templatePrefix p \<noteq> '''' then
        (let kind = obj_Kind view resource in
         if kind = '''' then
           Inl (Errorf ''resource has no Kind set; cannot derive template name from prefix'' [])
         else
           (let suffix = (case kindToTemplateSuffix kind of
                            Some s \<Rightarrow> s | None \<Rightarrow> KebabCase view kind)
            in Inr (templatePrefix p @ ''-'' @ action @ ''-'' @ suffix)))
      else Inl (Errorf ''%s template not configured'' [action]))"

definition launchTemplate ::
  "'w AAPProvider \<Rightarrow> 'r obj_view \<Rightarrow> Ctx \<Rightarrow> string \<Rightarrow> 'r \<Rightarrow> ('w, gerror + string) go"
where
  "launchTemplate p view ctx templateName resource =
     bnd (ac_GetTemplate (aap_client p) templateName) (\<lambda>res.
       case res of
         Inl err \<Rightarrow> ret (Inl (Wrapf ''failed to get template: %w'' [] err))
       | Inr template \<Rightarrow>
           (case extractExtraVars view ctx resource of
              Inl err \<Rightarrow> ret (Inl (Wrapf ''failed to extract extra vars: %w'' [] err))
            | Inr extraVars \<Rightarrow>
                (let req = \<lparr>TemplateID = Template_ID template, TemplateName = templateName,
                            ExtraVars = extraVars\<rparr> in
                 case Template_Type template of
                   TemplateTypeJob \<Rightarrow>
                     bnd (ac_LaunchJobTemplate (aap_client p) req) (\<lambda>resp.
                       case resp of
                         Inl err \<Rightarrow> ret (Inl (Wrapf ''failed to launch job template: %w'' [] err))
                       | Inr jobID \<Rightarrow> ret (Inr (Itoa jobID)))
                 | TemplateTypeWorkflow \<Rightarrow>
                     bnd (ac_LaunchWorkflowTemplate (aap_client p) req) (\<lambda>resp.
                       case resp of
                         Inl err \<Rightarrow> ret (Inl (Wrapf ''failed to launch workflow template: %w'' [] err))
                       | Inr jobID \<Rightarrow> ret (Inr (Itoa jobID)))
                 | TemplateTypeNone \<Rightarrow>
                     ret (Inl (Errorf ''unknown template type: %s''
                                 [TemplateType_String (Template_Type template)])))))"

definition launchProvisionJob ::
  "'w AAPProvider \<Rightarrow> 'r obj_view \<Rightarrow> Ctx \<Rightarrow> 'r \<Rightarrow> ('w, gerror + string) go"
where
  "launchProvisionJob p view ctx resource =
     (case resolveTemplateName p view ''create'' resource of
        Inl err \<Rightarrow> ret (Inl err)
      | Inr templateName \<Rightarrow> launchTemplate p view ctx templateName resource)"

definition launchDeprovisionJob ::
  "'w AAPProvider \<Rightarrow> 'r obj_view \<Rightarrow> Ctx \<Rightarrow> 'r \<Rightarrow> ('w, gerror + string) go"
where
  "launchDeprovisionJob p view ctx resource =
     (case resolveTemplateName p view ''delete'' resource of
        Inl err \<Rightarrow> ret (Inl err)
      | Inr templateName \<Rightarrow> launchTemplate p view ctx templateName resource)"

definition AAP_TriggerProvision ::
  "'w AAPProvider \<Rightarrow> 'r obj_view \<Rightarrow> Ctx \<Rightarrow> 'r \<Rightarrow> ('w, gerror + ProvisionResult) go"
where
  "AAP_TriggerProvision p view ctx resource =
     bnd (launchProvisionJob p view ctx resource) (\<lambda>res.
       case res of
         Inl err \<Rightarrow> ret (Inl err)
       | Inr jobID \<Rightarrow>
           ret (Inr \<lparr>pr_JobID = jobID, pr_InitialState = JobStatePending,
                     pr_Message = ''Provisioning job triggered''\<rparr>))"

definition mapAAPStatusToJobState :: "string \<Rightarrow> JobState" where
  "mapAAPStatusToJobState aapStatus =
     (if aapStatus = ''successful'' then JobStateSucceeded
      else if aapStatus = ''failed'' \<or> aapStatus = ''error'' then JobStateFailed
      else if aapStatus = ''canceled'' then JobStateCanceled
      else if aapStatus = ''pending'' then JobStatePending
      else if aapStatus = ''waiting'' then JobStateWaiting
      else if aapStatus = ''running'' then JobStateRunning
      else JobStateUnknown)"

definition getJobStatus :: "'w AAPProvider \<Rightarrow> string \<Rightarrow> ('w, gerror + ProvisionStatus) go" where
  "getJobStatus p jobID =
     bnd (ac_GetJob (aap_client p) jobID) (\<lambda>res.
       case res of
         Inl err \<Rightarrow> ret (Inl (Wrapf ''failed to get job: %w'' [] err))
       | Inr job \<Rightarrow>
           (let state = mapAAPStatusToJobState (Job_Status job) in
            ret (Inr \<lparr>ps_JobID = jobID, ps_State = state, ps_Message = Job_Status job,
                      ps_Progress = 0, ps_StartTime = Job_Started job, ps_EndTime = Job_Finished job,
                      ps_ReconciledVersion = '''',
                      ps_ErrorDetails =
                        (if state = JobStateFailed \<and> Job_ResultTraceback job \<noteq> ''''
                         then Job_ResultTraceback job else '''')\<rparr>)))"

definition cancelProvisionJob :: "'w AAPProvider \<Rightarrow> string \<Rightarrow> ('w, gerror option) go" where
  "cancelProvisionJob p jobID =
     bnd (ac_CancelJob (aap_client p) jobID) (\<lambda>res.
       case res of
         None \<Rightarrow> ret None
       | Some err \<Rightarrow>
           if errors_As is_MethodNotAllowedError err \<noteq> None then ret (Some err)
           else ret (Some (Wrapf ''failed to cancel job: %w'' [] err)))"

text \<open>The result \<open>Inr (ready, status)\<close> stands for a nil error.\<close>

definition isReadyForDeprovision ::
  "'w AAPProvider \<Rightarrow> JobStatus list \<Rightarrow> ('w, gerror + bool \<times> ProvisionStatus option) go"
where
  "isReadyForDeprovision p provisionJobs =
     (case FindLatestJobByType provisionJobs JobTypeProvision of
        None \<Rightarrow> ret (Inr (True, None))
      | Some latestProvisionJob \<Rightarrow>
          bnd (getJobStatus p (JobID latestProvisionJob)) (\<lambda>res.
            case res of
              Inl err \<Rightarrow>
                if errors_As is_NotFoundError err \<noteq> None then ret (Inr (True, None))
                else ret (Inl (Wrapf ''failed to get provision job status: %w'' [] err))
            | Inr status \<Rightarrow>
                if IsTerminal (ps_State status) then ret (Inr (True, Some status))
                else
                  bnd (cancelProvisionJob p (JobID latestProvisionJob)) (\<lambda>cancelErr.
                    case cancelErr of
                      Some err \<Rightarrow>
                        if errors_As is_MethodNotAllowedError err = None then
                          ret (Inl (Wrapf ''failed to cancel provision job: %w'' [] err))
                        else ret (Inr (True, Some status))
                    | None \<Rightarrow> ret (Inr (False, Some status)))))"

definition AAP_TriggerDeprovision ::
  "'w AAPProvider \<Rightarrow> 'r obj_view \<Rightarrow> Ctx \<Rightarrow> 'r \<Rightarrow> JobStatus list \<Rightarrow> ('w, gerror + DeprovisionResult) go"
where
  "AAP_TriggerDeprovision p view ctx resource provisionJobs =
     bnd (isReadyForDeprovision p provisionJobs) (\<lambda>res.
       case res of
         Inl err \<Rightarrow> ret (Inl err)
       | Inr (ready, provisionStatus) \<Rightarrow>
           if \<not> ready then
             ret (Inr \<lparr>dr_Action = DeprovisionWaiting, dr_JobID = '''',
                       dr_BlockDeletionOnFailure = True, dr_ProvisionJobStatus = provisionStatus\<rparr>)
           else
             bnd (launchDeprovisionJob p view ctx resource) (\<lambda>launched.
               case launched of
                 Inl err \<Rightarrow> ret (Inl err)
               | Inr jobID \<Rightarrow>
                   ret (Inr \<lparr>dr_Action = DeprovisionTriggered, dr_JobID = jobID,
                             dr_BlockDeletionOnFailure = True,
                             dr_ProvisionJobStatus = provisionStatus\<rparr>)))"

definition AAP_provider :: "'w AAPProvider \<Rightarrow> 'r obj_view \<Rightarrow> Ctx \<Rightarrow> ('r, 'w) ProvisioningProvider" where
  "AAP_provider p view ctx =
     \<lparr>TriggerProvision = AAP_TriggerProvision p view ctx,
      GetProvisionStatus = (\<lambda>resource jobID. getJobStatus p jobID),
      TriggerDeprovision = AAP_TriggerDeprovision p view ctx,
      GetDeprovisionStatus = (\<lambda>resource jobID. getJobStatus p jobID)\<rparr>"

text \<open>The interface implemented by the REST client.\<close>

definition rest_client :: "'h Client \<Rightarrow> (template_cache \<times> 'h) AAPClient" where
  "rest_client c =
     \<lparr>ac_GetTemplate = GetTemplate c,
      ac_LaunchJobTemplate = LaunchJobTemplate c,
      ac_LaunchWorkflowTemplate = LaunchWorkflowTemplate c,
      ac_GetJob = GetJob c,
      ac_CancelJob = CancelJob c\<rparr>"

text \<open>
  The client's state (its cache and the network) is one part of the world a reconciler runs in;
  \<open>mounted\<close> is the client in such a world, read by \<open>gt\<close> and written back by \<open>pt\<close>.
\<close>

definition zoom :: "('w \<Rightarrow> 'v) \<Rightarrow> ('v \<Rightarrow> 'w \<Rightarrow> 'w) \<Rightarrow> ('v, 'a) go \<Rightarrow> ('w, 'a) go" where
  "zoom gt pt m = (\<lambda>w. case m (gt w) of None \<Rightarrow> None | Some (x, v) \<Rightarrow> Some (x, pt v w))"

definition mounted :: "('w \<Rightarrow> 'v) \<Rightarrow> ('v \<Rightarrow> 'w \<Rightarrow> 'w) \<Rightarrow> 'v AAPClient \<Rightarrow> 'w AAPClient" where
  "mounted gt pt c =
     \<lparr>ac_GetTemplate = (\<lambda>n. zoom gt pt (ac_GetTemplate c n)),
      ac_LaunchJobTemplate = (\<lambda>req. zoom gt pt (ac_LaunchJobTemplate c req)),
      ac_LaunchWorkflowTemplate = (\<lambda>req. zoom gt pt (ac_LaunchWorkflowTemplate c req)),
      ac_GetJob = (\<lambda>jobID. zoom gt pt (ac_GetJob c jobID)),
      ac_CancelJob = (\<lambda>jobID. zoom gt pt (ac_CancelJob c jobID))\<rparr>"

section \<open>Specification\<close>

text \<open>
  What the platform's answers to the query for the provisioning job and to its cancellation mean for
  deprovisioning: go ahead or wait, with the state of the job if there is one, or \<open>None\<close> for an error.
\<close>

definition ready_answer :: "(json \<Rightarrow> string + Job) \<Rightarrow> http_outcome \<Rightarrow> http_outcome \<Rightarrow> (bool \<times> JobState option) option" where
  "ready_answer dec queried cancelled =
     (case queried of
        Response code t b \<Rightarrow>
          if code = 404 then Some (True, None)
          else if 200 \<le> code \<and> code < 300 then
            (case decode_body dec b of
               Inl e \<Rightarrow> None
             | Inr j \<Rightarrow>
                 if IsTerminal (mapAAPStatusToJobState (Job_Status j))
                 then Some (True, Some (mapAAPStatusToJobState (Job_Status j)))
                 else
                   (case cancelled of
                      Response code' t' b' \<Rightarrow>
                        if 200 \<le> code' \<and> code' < 300 then Some (False, Some (mapAAPStatusToJobState (Job_Status j)))
                        else if code' = 405 then Some (True, Some (mapAAPStatusToJobState (Job_Status j)))
                        else None
                    | _ \<Rightarrow> None))
          else None
      | _ \<Rightarrow> None)"

text \<open>The answer to the query says that the job has not ended: only then a cancellation is due.\<close>

definition answer_running :: "(json \<Rightarrow> string + Job) \<Rightarrow> http_outcome \<Rightarrow> bool" where
  "answer_running dec queried =
     (case queried of
        Response code t b \<Rightarrow> 200 \<le> code \<and> code < 300 \<and>
          (case decode_body dec b of
             Inl e \<Rightarrow> False
           | Inr j \<Rightarrow> Job_Status j \<notin> {''successful'', ''failed'', ''error'', ''canceled''})
      | _ \<Rightarrow> False)"

section \<open>The contract of the client and what the provider makes of it\<close>

text \<open>
  \<open>untyped_client\<close> asks that the client's errors are never rate-limit errors. \<open>typed_client\<close> adds an
  invariant of the client's state under which a template has one of the two known types.
\<close>

lemma wlp_zoom [wp_simps]: "wlp (zoom gt pt m) Q = (\<lambda>w. wlp m (\<lambda>x v. Q x (pt v w)) (gt w))"
  by (simp add: fun_eq_iff wlp_def zoom_def split: option.splits prod.splits)

lemma NewAAPProviders:
  "aap_client (NewAAPProvider client a b) = client" "aap_client (NewAAPProviderWithPrefix client x) = client"
  by (simp_all add: NewAAPProvider_def NewAAPProviderWithPrefix_def)

lemma resolveTemplateName_errors:
  "resolveTemplateName p view action r = Inl e \<Longrightarrow> untyped_error e"
  by (auto simp: resolveTemplateName_def Let_def split: if_splits)

lemma extractExtraVars_errors: "extractExtraVars view ctx r = Inl e \<Longrightarrow> untyped_error e"
  by (auto simp: extractExtraVars_def serializeResource_def Let_def split: sum.splits json.splits)

locale untyped_client =
  fixes client :: "'w AAPClient"
  assumes GetTemplate_err: "wlp (ac_GetTemplate client n) (\<lambda>res w'. \<forall>e. res = Inl e \<longrightarrow> untyped_error e) w"
    and LaunchJob_err: "wlp (ac_LaunchJobTemplate client req) (\<lambda>res w'. \<forall>e. res = Inl e \<longrightarrow> untyped_error e) w"
    and LaunchWorkflow_err:
      "wlp (ac_LaunchWorkflowTemplate client req) (\<lambda>res w'. \<forall>e. res = Inl e \<longrightarrow> untyped_error e) w"
    and GetJob_err: "wlp (ac_GetJob client jobID) (\<lambda>res w'. \<forall>e. res = Inl e \<longrightarrow> untyped_error e) w"
    and CancelJob_err: "wlp (ac_CancelJob client jobID) (\<lambda>res w'. \<forall>e. res = Some e \<longrightarrow> untyped_error e) w"
begin

lemma launchTemplate_result:
  assumes "aap_client p = client"
  shows "wlp (launchTemplate p view ctx n r)
     (\<lambda>res w'. (\<forall>e. res = Inl e \<longrightarrow> untyped_error e) \<and> (\<forall>x. res = Inr x \<longrightarrow> x \<noteq> '''')) w"
proof -
  have launch: "wlp (bnd m (\<lambda>resp. case resp of Inl err \<Rightarrow> ret (Inl (Wrapf f [] err)) | Inr jobID \<Rightarrow> ret (Inr (Itoa jobID))))
     (\<lambda>res w'. (\<forall>e. res = Inl e \<longrightarrow> untyped_error e) \<and> (\<forall>x. res = Inr x \<longrightarrow> x \<noteq> '''')) v"
    if "\<And>v. wlp m (\<lambda>res w'. \<forall>e. res = Inl e \<longrightarrow> untyped_error e) v" for m :: "('w, gerror + int) go" and f v
    unfolding wlp_bnd by (rule wlp_mono [OF that]) (auto simp: wlp_ret Itoa_nonempty split: sum.split)
  show ?thesis
    unfolding launchTemplate_def wlp_bnd [of "ac_GetTemplate _ _"] assms
    by (rule wlp_mono [OF GetTemplate_err])
      (auto simp: wlp_ret Let_def extractExtraVars_errors split: sum.split TemplateType.split
         intro!: launch LaunchJob_err LaunchWorkflow_err)
qed

lemma getJobStatus_err:
  assumes "aap_client p = client"
  shows "wlp (getJobStatus p x) (\<lambda>res w'. \<forall>e. res = Inl e \<longrightarrow> untyped_error e) w"
  unfolding getJobStatus_def wlp_bnd assms
  by (rule wlp_mono [OF GetJob_err]) (auto simp: wlp_ret Let_def split: sum.split)

lemma cancelProvisionJob_err:
  assumes "aap_client p = client"
  shows "wlp (cancelProvisionJob p x) (\<lambda>res w'. \<forall>e. res = Some e \<longrightarrow> untyped_error e) w"
  unfolding cancelProvisionJob_def wlp_bnd assms
  by (rule wlp_mono [OF CancelJob_err]) (auto simp: wlp_ret split: option.split)

lemma isReadyForDeprovision_err:
  assumes "aap_client p = client"
  shows "wlp (isReadyForDeprovision p js) (\<lambda>res w'. \<forall>e. res = Inl e \<longrightarrow> untyped_error e) w"
proof (cases "FindLatestJobByType js JobTypeProvision")
  case (Some l)
  have cancel: "wlp (bnd (cancelProvisionJob p (JobID l)) (\<lambda>cancelErr. case cancelErr of
        Some err \<Rightarrow> if errors_As is_MethodNotAllowedError err = None
          then ret (Inl (Wrapf ''failed to cancel provision job: %w'' [] err)) else ret (Inr (True, Some st))
      | None \<Rightarrow> ret (Inr (False, Some st)))) (\<lambda>res w'. \<forall>e. res = Inl e \<longrightarrow> untyped_error e) v" for st v
    unfolding wlp_bnd by (rule wlp_mono [OF cancelProvisionJob_err [OF assms]]) (auto simp: wlp_ret split: option.split)
  show ?thesis
    using Some unfolding isReadyForDeprovision_def
    by (simp add: wlp_bnd [of "getJobStatus _ _"], intro wlp_mono [OF getJobStatus_err [OF assms]])
      (auto simp: wlp_ret split: sum.split intro: cancel)
qed (simp add: isReadyForDeprovision_def wlp_ret)

lemma TriggerProvision_id:
  assumes "aap_client p = client"
  shows "wlp (AAP_TriggerProvision p view ctx r) (\<lambda>res w'. \<forall>x. res = Inr x \<longrightarrow> pr_JobID x \<noteq> '''') w"
  unfolding AAP_TriggerProvision_def launchProvisionJob_def wlp_bnd
  by (cases "resolveTemplateName p view ''create'' r")
    (auto simp: wlp_ret split: sum.split intro: wlp_mono [OF launchTemplate_result [OF assms]])

lemma TriggerDeprovision_insists:
  assumes "aap_client p = client"
  shows "wlp (TriggerDeprovision (AAP_provider p view ctx) r js)
    (\<lambda>res w'. (\<forall>e. res = Inl e \<longrightarrow> AsRateLimitError e = None) \<and>
       (\<forall>d. res = Inr d \<longrightarrow> dr_Action d \<noteq> DeprovisionSkipped \<and> dr_BlockDeletionOnFailure d)) w"
  unfolding AAP_provider_def AAP_TriggerDeprovision_def launchDeprovisionJob_def ProvisioningProvider.simps wlp_bnd [of "isReadyForDeprovision p js"]
  by (rule wlp_mono [OF isReadyForDeprovision_err [OF assms]], cases "resolveTemplateName p view ''delete'' r")
    (auto simp: wlp_ret wlp_bnd AsRateLimitError_def untyped_no_rate_limit resolveTemplateName_errors
       split: sum.split intro: wlp_mono [OF launchTemplate_result [OF assms]])

end

text \<open>
  Under the invariant \<open>inv\<close> the launch ends in one of the two launch calls, so the only errors are those
  of the lookup, of the serialization and of the launch.
\<close>

locale typed_client = untyped_client client for client :: "'w AAPClient" +
  fixes inv :: "'w \<Rightarrow> bool"
  assumes GetTemplate_typed: "inv w \<Longrightarrow> wlp (ac_GetTemplate client n)
      (\<lambda>res w'. inv w' \<and> (\<forall>t. res = Inr t \<longrightarrow> Template_Type t \<noteq> TemplateTypeNone)) w"
    and LaunchJob_inv: "inv w \<Longrightarrow> wlp (ac_LaunchJobTemplate client req) (\<lambda>res. inv) w"
    and LaunchWorkflow_inv: "inv w \<Longrightarrow> wlp (ac_LaunchWorkflowTemplate client req) (\<lambda>res. inv) w"
    and GetJob_inv: "inv w \<Longrightarrow> wlp (ac_GetJob client jobID) (\<lambda>res. inv) w"
    and CancelJob_inv: "inv w \<Longrightarrow> wlp (ac_CancelJob client jobID) (\<lambda>res. inv) w"
begin

lemma launchTemplate_typed:
  assumes "aap_client p = client" and "inv w"
  shows "wlp (launchTemplate p view ctx n r)
     (\<lambda>res w'. inv w' \<and> (\<forall>f as. res \<noteq> Inl (Errorf f as))) w"
proof -
  have launch: "wlp (bnd m (\<lambda>resp. case resp of Inl err \<Rightarrow> ret (Inl (Wrapf f [] err)) | Inr jobID \<Rightarrow> ret (Inr (Itoa jobID))))
     (\<lambda>res w'. inv w' \<and> (\<forall>f as. res \<noteq> Inl (Errorf f as))) v"
    if "wlp m (\<lambda>res. inv) v" for m :: "('w, gerror + int) go" and f v
    unfolding wlp_bnd by (rule wlp_mono [OF that]) (auto simp: wlp_ret split: sum.split)
  show ?thesis
    unfolding launchTemplate_def wlp_bnd [of "ac_GetTemplate _ _"] assms(1)
    by (rule wlp_mono [OF GetTemplate_typed [OF assms(2)]])
      (auto simp: wlp_ret Let_def split: sum.split TemplateType.split
         intro!: launch LaunchJob_inv LaunchWorkflow_inv)
qed

lemma getJobStatus_inv:
  assumes "aap_client p = client" and "inv w"
  shows "wlp (getJobStatus p x) (\<lambda>res. inv) w"
  unfolding getJobStatus_def wlp_bnd assms(1)
  by (rule wlp_mono [OF GetJob_inv [OF assms(2)]]) (auto simp: wlp_ret Let_def split: sum.split)

lemma isReadyForDeprovision_inv:
  assumes "aap_client p = client" and "inv w"
  shows "wlp (isReadyForDeprovision p js) (\<lambda>res. inv) w"
proof -
  have cancel: "wlp (cancelProvisionJob p x) (\<lambda>res. inv) v" if "inv v" for x v
    unfolding cancelProvisionJob_def wlp_bnd assms(1)
    by (rule wlp_mono [OF CancelJob_inv [OF that]]) (auto simp: wlp_ret split: option.split)
  show ?thesis
    using assms(2) unfolding isReadyForDeprovision_def
    by (auto simp: wlp_ret wlp_bnd split: option.split sum.split
        intro!: wlp_mono [OF getJobStatus_inv [OF assms]] wlp_mono [OF cancel])
qed

lemma provider_inv:
  assumes "aap_client p = client" and "inv w"
  shows "wlp (TriggerProvision (AAP_provider p view ctx) r) (\<lambda>res. inv) w"
    and "wlp (GetProvisionStatus (AAP_provider p view ctx) r x) (\<lambda>res. inv) w"
    and "wlp (TriggerDeprovision (AAP_provider p view ctx) r js) (\<lambda>res. inv) w"
    and "wlp (GetDeprovisionStatus (AAP_provider p view ctx) r x) (\<lambda>res. inv) w"
proof -
  have launch: "wlp (case resolveTemplateName p view a r of Inl err \<Rightarrow> ret (Inl err)
      | Inr n \<Rightarrow> launchTemplate p view ctx n r) (\<lambda>res. inv) v" if "inv v" for a v
    using that by (auto simp: wlp_ret split: sum.split intro!: wlp_mono [OF launchTemplate_typed [OF assms(1) that]])
  show "wlp (TriggerProvision (AAP_provider p view ctx) r) (\<lambda>res. inv) w"
    unfolding AAP_provider_def AAP_TriggerProvision_def launchProvisionJob_def ProvisioningProvider.simps wlp_bnd
    by (rule wlp_mono [OF launch [OF assms(2)]]) (auto simp: wlp_ret split: sum.split)
  have deprov: "wlp (bnd (launchDeprovisionJob p view ctx r) (\<lambda>launched. case launched of Inl err \<Rightarrow> ret (Inl err)
      | Inr jobID \<Rightarrow> ret (Inr (f jobID)))) (\<lambda>res. inv) v" if "inv v" for v and f :: "string \<Rightarrow> DeprovisionResult"
    unfolding launchDeprovisionJob_def wlp_bnd
    by (rule wlp_mono [OF launch [OF that]]) (auto simp: wlp_ret split: sum.split)
  show "wlp (TriggerDeprovision (AAP_provider p view ctx) r js) (\<lambda>res. inv) w"
    unfolding AAP_provider_def AAP_TriggerDeprovision_def ProvisioningProvider.simps
      wlp_bnd [of "isReadyForDeprovision p js"]
    by (rule wlp_mono [OF isReadyForDeprovision_inv [OF assms]]) (auto simp: wlp_ret split: sum.split intro: deprov)
qed (simp_all add: AAP_provider_def getJobStatus_inv [OF assms])

end

interpretation rc: untyped_client "mounted gt pt (rest_client c)"
  for gt :: "'w \<Rightarrow> template_cache \<times> 'h" and pt :: "template_cache \<times> 'h \<Rightarrow> 'w \<Rightarrow> 'w" and c :: "'h Client"
  by unfold_locales
    (simp_all add: mounted_def rest_client_def wlp_zoom GetTemplate_errors Launch_errors GetJob_errors CancelJob_errors)


interpretation trc: typed_client "rest_client c" "\<lambda>s. cache_ok (fst s)"
  for c :: "'h Client"
proof (unfold_locales, goal_cases)
  case (6 s n)
  then show ?case
    by (cases s) (auto simp: rest_client_def elim: wlp_mono [OF GetTemplate_ok])
next
  case (7 s req)
  then show ?case
    by (cases s) (auto simp: rest_client_def elim: wlp_mono [OF Launch_ok(1)])
next
  case (8 s req)
  then show ?case
    by (cases s) (auto simp: rest_client_def elim: wlp_mono [OF Launch_ok(2)])
next
  case (9 s x)
  then show ?case
    by (cases s) (auto simp: rest_client_def intro!: wlp_mono [OF GetJob_ok])
next
  case (10 s x)
  then show ?case
    by (cases s) (auto simp: rest_client_def intro!: wlp_mono [OF CancelJob_ok])
qed (simp_all add: rest_client_def GetTemplate_errors Launch_errors GetJob_errors CancelJob_errors)

lemma getJobStatus_rest:
  assumes "aap_client p = rest_client c"
    and "httpClient c ''GET'' (sprintf ''%s/%s/jobs/%s/'' [baseURL c, APIVersion, x]) (bearer c) None h = (out, h1)"
  shows "\<exists>res. getJobStatus p x (cache, h) = Some (res, (cache, h1)) \<and>
     (\<forall>e. res = Inl e \<longrightarrow> (errors_As is_NotFoundError e \<noteq> None \<longleftrightarrow> (\<exists>t b. out = Response 404 t b)) \<and>
        \<not> answer_running (decode_Job (parse_time c)) out \<and>
        ready_answer (decode_Job (parse_time c)) out out' = (if \<exists>t b. out = Response 404 t b then Some (True, None) else None)) \<and>
     (\<forall>st. res = Inr st \<longrightarrow> (\<exists>code t b j. out = Response code t b \<and> 200 \<le> code \<and> code < 300 \<and>
        decode_body (decode_Job (parse_time c)) b = Inr j \<and> ps_State st = mapAAPStatusToJobState (Job_Status j)))"
  using assms
  by (cases out)
    (auto simp: getJobStatus_def rest_client_def GetJob_def doRequest_def bearer_def go_simps Let_def ready_answer_def
      answer_running_def split: sum.split)

lemma cancelProvisionJob_rest:
  assumes "aap_client p = rest_client c"
    and "httpClient c ''POST'' (sprintf ''%s/%s/jobs/%s/cancel/'' [baseURL c, APIVersion, x]) (bearer c) None h = (out, h1)"
  shows "\<exists>res. cancelProvisionJob p x (cache, h) = Some (res, (cache, h1)) \<and>
     (res = None \<longleftrightarrow> (\<exists>code t b. out = Response code t b \<and> 200 \<le> code \<and> code < 300)) \<and>
     (\<forall>e. res = Some e \<longrightarrow> (errors_As is_MethodNotAllowedError e \<noteq> None \<longleftrightarrow> (\<exists>t b. out = Response 405 t b)))"
  using assms
  by (cases out) (auto simp: cancelProvisionJob_def rest_client_def CancelJob_def doRequest_def bearer_def go_simps)

lemma terminal_status:
  "IsTerminal (mapAAPStatusToJobState s) \<longleftrightarrow> s \<in> {''successful'', ''failed'', ''error'', ''canceled''}"
  by (auto simp: mapAAPStatusToJobState_def IsTerminal_def)

lemma isReadyForDeprovision_rest:
  assumes "FindLatestJobByType jobs JobTypeProvision = Some l" and "aap_client p = rest_client c"
    and "httpClient c ''GET'' (sprintf ''%s/%s/jobs/%s/'' [baseURL c, APIVersion, JobID l]) (bearer c) None h = (out, h1)"
    and "httpClient c ''POST'' (sprintf ''%s/%s/jobs/%s/cancel/'' [baseURL c, APIVersion, JobID l]) (bearer c) None h1 = (out', h2)"
  shows "\<exists>res. isReadyForDeprovision p jobs (cache, h) =
       Some (res, (cache, if answer_running (decode_Job (parse_time c)) out then h2 else h1)) \<and>
     ready_answer (decode_Job (parse_time c)) out out' =
       (case res of Inl e \<Rightarrow> None | Inr (ready, st) \<Rightarrow> Some (ready, map_option ps_State st))"
proof -
  obtain res where g: "getJobStatus p (JobID l) (cache, h) = Some (res, (cache, h1))"
    and err: "\<And>e. res = Inl e \<Longrightarrow> (errors_As is_NotFoundError e \<noteq> None \<longleftrightarrow> (\<exists>t b. out = Response 404 t b)) \<and>
        \<not> answer_running (decode_Job (parse_time c)) out \<and>
        ready_answer (decode_Job (parse_time c)) out out' = (if \<exists>t b. out = Response 404 t b then Some (True, None) else None)"
    and ok: "\<And>st. res = Inr st \<Longrightarrow> \<exists>code t b j. out = Response code t b \<and> 200 \<le> code \<and> code < 300 \<and>
        decode_body (decode_Job (parse_time c)) b = Inr j \<and> ps_State st = mapAAPStatusToJobState (Job_Status j)"
    using getJobStatus_rest [OF assms(2,3), of cache out'] by blast
  show ?thesis
  proof (cases res)
    case (Inl e)
    with g err [OF Inl] assms(1) show ?thesis by (auto simp: isReadyForDeprovision_def go_simps)
  next
    case (Inr st)
    then have run: "answer_running (decode_Job (parse_time c)) out \<longleftrightarrow> \<not> IsTerminal (ps_State st)"
      using ok [OF Inr] by (auto simp: answer_running_def terminal_status)
    obtain cr where cr: "cancelProvisionJob p (JobID l) (cache, h1) = Some (cr, (cache, h2))"
      "cr = None \<longleftrightarrow> (\<exists>code t b. out' = Response code t b \<and> 200 \<le> code \<and> code < 300)"
      "\<And>e. cr = Some e \<Longrightarrow> errors_As is_MethodNotAllowedError e \<noteq> None \<longleftrightarrow> (\<exists>t b. out' = Response 405 t b)"
      using cancelProvisionJob_rest [OF assms(2,4), of cache] by blast
    show ?thesis
    proof (cases cr)
      case None
      with g Inr ok [OF Inr] cr assms(1) show ?thesis
        unfolding run by (auto simp: isReadyForDeprovision_def go_simps ready_answer_def)
    next
      case (Some e)
      with g Inr ok [OF Inr] cr(1,2) cr(3) [OF Some] assms(1) show ?thesis
        unfolding run by (cases out') (auto simp: isReadyForDeprovision_def go_simps ready_answer_def)
    qed
  qed
qed

section \<open>Properties\<close>
text \<open>
  C28: before deprovisioning, the provider deals with the latest provisioning job according to what the
  platform answers. A job that is gone (404), has ended, or ended before it could be cancelled (405) does
  not hold up deprovisioning; a job that has not ended is cancelled and waited for; any other answer is an error.
  The platform is left as the query leaves it, and only where the query says that the job has not ended, as
  the one cancellation after the query leaves it: no other request is sent. While the provider waits, and on an error,
  this is all that happens: no deprovisioning job is launched. Otherwise the launch follows from there, and it alone
  decides the outcome. The template cache is not touched before the launch.
\<close>

theorem deprovision_waits_for_running_job:
  assumes "FindLatestJobByType jobs JobTypeProvision = Some l" and "aap_client p = rest_client c"
    and "httpClient c ''GET'' (sprintf ''%s/%s/jobs/%s/'' [baseURL c, APIVersion, JobID l]) (bearer c) None h = (out, h1)"
    and "httpClient c ''POST'' (sprintf ''%s/%s/jobs/%s/cancel/'' [baseURL c, APIVersion, JobID l]) (bearer c) None h1 = (out', h2)"
  shows "let h' = (if answer_running (decode_Job (parse_time c)) out then h2 else h1) in
     \<exists>res. isReadyForDeprovision p jobs (cache, h) = Some (res, (cache, h')) \<and>
     ready_answer (decode_Job (parse_time c)) out out' =
       (case res of Inl e \<Rightarrow> None | Inr (ready, st) \<Rightarrow> Some (ready, map_option ps_State st)) \<and>
     (\<forall>e. res = Inl e \<longrightarrow> AAP_TriggerDeprovision p view ctx resource jobs (cache, h) = Some (Inl e, (cache, h'))) \<and>
     (\<forall>st. res = Inr (False, st) \<longrightarrow> AAP_TriggerDeprovision p view ctx resource jobs (cache, h) =
        Some (Inr \<lparr>dr_Action = DeprovisionWaiting, dr_JobID = '''', dr_BlockDeletionOnFailure = True,
          dr_ProvisionJobStatus = st\<rparr>, (cache, h'))) \<and>
     (\<forall>st launched s'. res = Inr (True, st) \<longrightarrow>
        launchDeprovisionJob p view ctx resource (cache, h') = Some (launched, s') \<longrightarrow>
        AAP_TriggerDeprovision p view ctx resource jobs (cache, h) =
          Some (map_sum id (\<lambda>jobID. \<lparr>dr_Action = DeprovisionTriggered, dr_JobID = jobID, dr_BlockDeletionOnFailure = True,
            dr_ProvisionJobStatus = st\<rparr>) launched, s'))"
proof -
  obtain res where "isReadyForDeprovision p jobs (cache, h) =
       Some (res, (cache, if answer_running (decode_Job (parse_time c)) out then h2 else h1))"
    "ready_answer (decode_Job (parse_time c)) out out' =
       (case res of Inl e \<Rightarrow> None | Inr (ready, st) \<Rightarrow> Some (ready, map_option ps_State st))"
    using isReadyForDeprovision_rest [OF assms] by blast
  then show ?thesis
    unfolding Let_def
    by (intro exI [of _ res]) (auto simp: AAP_TriggerDeprovision_def go_simps split: sum.splits)
qed

text \<open>A platform that gives one answer to everything and records the requests sent to it.\<close>

definition recording :: "http_outcome \<Rightarrow> (string \<times> string) list Client" where
  "recording out =
     \<lparr>baseURL = ''http://aap'', token = ''t'', httpClient = (\<lambda>method url auth payload h. (out, h @ [(method, url)])),
      parse_time = (\<lambda>s. Inl ''bad time'')\<rparr>"

definition no_view :: "'r obj_view" where
  "no_view = \<lparr>obj_Kind = (\<lambda>r. ''Subnet''), obj_JSON = (\<lambda>r. Inr (JObj [])), KebabCase = (\<lambda>s. s)\<rparr>"

lemma running_answer:
  "ready_answer (decode_Job pt) (Response 200 '''' (Inr (JObj [(''status'', JStr ''running'')])))
      (Response 200 '''' (Inr (JObj [(''status'', JStr ''running'')]))) = Some (False, Some JobStateRunning)"
  by (simp add: ready_answer_def decode_body_def decode_Job_def dec_struct_def dec_string_def key_matches_def
      lower_char_def Let_def mapAAPStatusToJobState_def IsTerminal_def)

lemma running_is_running:
  "answer_running (decode_Job pt) (Response 200 '''' (Inr (JObj [(''status'', JStr ''running'')])))"
  by (simp add: answer_running_def decode_body_def decode_Job_def dec_struct_def dec_string_def key_matches_def
      lower_char_def Let_def)

theorem deprovision_waits_for_running_job_witness:
  "\<exists>st. AAP_TriggerDeprovision
       (NewAAPProviderWithPrefix (rest_client (recording (Response 200 '''' (Inr (JObj [(''status'', JStr ''running'')]))))) ''osac'')
       no_view background () [sample_job ''12'' JobTypeProvision 1 JobStateRunning ''v''] (Map.empty, []) =
     Some (Inr \<lparr>dr_Action = DeprovisionWaiting, dr_JobID = '''', dr_BlockDeletionOnFailure = True,
       dr_ProvisionJobStatus = st\<rparr>, (Map.empty, [(''GET'', sprintf ''%s/%s/jobs/%s/'' [''http://aap'', APIVersion, ''12'']),
         (''POST'', sprintf ''%s/%s/jobs/%s/cancel/'' [''http://aap'', APIVersion, ''12''])])) \<and>
     map_option ps_State st = Some JobStateRunning"
proof -
  let ?o = "Response 200 '''' (Inr (JObj [(''status'', JStr ''running'')]))"
  let ?c = "recording ?o"
  let ?p = "NewAAPProviderWithPrefix (rest_client ?c) ''osac''"
  let ?l = "sample_job ''12'' JobTypeProvision 1 JobStateRunning ''v''"
  let ?get = "sprintf ''%s/%s/jobs/%s/'' [baseURL ?c, APIVersion, JobID ?l]"
  let ?cancel = "sprintf ''%s/%s/jobs/%s/cancel/'' [baseURL ?c, APIVersion, JobID ?l]"
  have "FindLatestJobByType [?l] JobTypeProvision = Some ?l" by (simp add: sample_job_def FindLatestJobByType_def)
  note run = deprovision_waits_for_running_job [OF this, of ?p ?c "[]" ?o "[(''GET'', ?get)]" ?o
      "[(''GET'', ?get), (''POST'', ?cancel)]" Map.empty no_view background "()", OF NewAAPProviders(2)]
  have "httpClient ?c m u b x h = (?o, h @ [(m, u)])" for m u b x h by (simp add: recording_def)
  with run obtain res :: "gerror + bool \<times> ProvisionStatus option" where
    res: "Some (False, Some JobStateRunning) =
       (case res of Inl e \<Rightarrow> None | Inr (ready, st) \<Rightarrow> Some (ready, map_option ps_State st))"
    "\<And>st. res = Inr (False, st) \<Longrightarrow> AAP_TriggerDeprovision ?p no_view background () [?l] (Map.empty, []) =
        Some (Inr \<lparr>dr_Action = DeprovisionWaiting, dr_JobID = '''', dr_BlockDeletionOnFailure = True,
          dr_ProvisionJobStatus = st\<rparr>, (Map.empty, [(''GET'', ?get), (''POST'', ?cancel)]))"
    unfolding Let_def by (auto simp: running_answer running_is_running)
  from res(1) obtain st where "res = Inr (False, st)" "map_option ps_State st = Some JobStateRunning"
    by (auto simp: eq_commute [of "Some _" "map_option _ _"] split: sum.splits)
  with res(2) show ?thesis by (auto simp: recording_def sample_job_def)
qed

text \<open>
  The provider of the automation platform insists on deprovisioning. Whatever the platform answers, a
  deprovisioning request either fails with an error that is not a rate limit, or it waits for the
  provisioning job, or it has started a job; it is never skipped, and its failure blocks the deletion.
\<close>

theorem AAP_insists_on_deprovisioning:
  assumes "aap_client p = mounted gt pt (rest_client c)"
    and "TriggerDeprovision (AAP_provider p view ctx) r js w = Some (res, w')"
  shows "case res of
      Inl e \<Rightarrow> AsRateLimitError e = None
    | Inr d \<Rightarrow> dr_Action d \<noteq> DeprovisionSkipped \<and> dr_BlockDeletionOnFailure d"
  using wlpD [OF rc.TriggerDeprovision_insists [OF assms(1)] assms(2)] by (simp split: sum.split)

theorem AAP_insists_on_deprovisioning_witness:
  "\<exists>res w'. TriggerDeprovision (AAP_provider (NewAAPProvider (mounted (\<lambda>w. w) (\<lambda>v w. v) (rest_client (answering
        (Response 200 '''' (Inr (JObj [(''count'', JNum 1), (''id'', JNum 9), (''results'', JArr [JObj [(''id'', JNum 7)]])])))))) ''a'' ''b'')
        \<lparr>obj_Kind = (\<lambda>r. ''Subnet''), obj_JSON = (\<lambda>r. Inr (JObj [])), KebabCase = id\<rparr> background) () [] (Map.empty, ()) =
      Some (Inr res, w') \<and> dr_JobID res = ''9'' \<and> dr_Action res \<noteq> DeprovisionSkipped \<and> dr_BlockDeletionOnFailure res"
proof -
  let ?c = "answering (Response 200 '''' (Inr (JObj [(''count'', JNum 1), (''id'', JNum 9), (''results'', JArr [JObj [(''id'', JNum 7)]])])))"
  let ?p = "NewAAPProvider (mounted (\<lambda>w. w) (\<lambda>v w. v) (rest_client ?c)) ''a'' ''b''"
  let ?v = "\<lparr>obj_Kind = (\<lambda>r. ''Subnet''), obj_JSON = (\<lambda>r. Inr (JObj [])), KebabCase = id\<rparr> :: unit obj_view"
  obtain res w' where run: "TriggerDeprovision (AAP_provider ?p ?v background) () [] (Map.empty, ()) = Some (Inr res, w')"
    and x: "dr_JobID res = ''9''"
    by (simp add: AAP_provider_def AAP_TriggerDeprovision_def isReadyForDeprovision_def FindLatestJobByType_def
        launchDeprovisionJob_def resolveTemplateName_def launchTemplate_def NewAAPProvider_def mounted_def zoom_def rest_client_def
        GetTemplate_def GetTemplateByName_def getTemplateFromEndpoint_def doRequest_def answering_def go_simps
        decode_body_def decode_TemplateList_def decode_Template_def dec_struct_def dec_int_def dec_string_def
        key_matches_def lower_char_def Let_def min_int64_def max_int64_def extractExtraVars_def serializeResource_def background_def
        LaunchJobTemplate_def doTemplateRequest_def decode_launch_def Itoa_def dec_nat.simps char_of_def bit_iff_odd)
  have "dr_Action res \<noteq> DeprovisionSkipped \<and> dr_BlockDeletionOnFailure res"
    using AAP_insists_on_deprovisioning [OF NewAAPProviders(1) run] by simp
  with run x show ?thesis by blast
qed

text \<open>
  C29: with a cache that holds only templates of the two known types, which is what every lookup puts there,
  a launch never ends in the error for an unknown template type, and the cache stays that way.
\<close>

theorem template_type_always_known:
  assumes "cache_ok cache" and "aap_client p = rest_client c"
    and "launchTemplate p view ctx n r (cache, h) = Some (res, (cache', h'))"
  shows "cache_ok cache' \<and> (\<forall>t. res \<noteq> Inl (Errorf ''unknown template type: %s'' [t]))"
  using wlpD [OF trc.launchTemplate_typed [OF assms(2)] assms(3)] assms(1) by simp

theorem template_type_always_known_witness:
  "\<exists>res cache' h'. launchTemplate (NewAAPProvider (rest_client (answering (SendFailed ''no route''))) ''a'' ''b'')
       \<lparr>obj_Kind = (\<lambda>r. ''Subnet''), obj_JSON = (\<lambda>r. Inr (JObj [])), KebabCase = id\<rparr> background ''a'' () (Map.empty, ()) =
     Some (res, (cache', h')) \<and> cache_ok cache' \<and> (\<forall>t. res \<noteq> Inl (Errorf ''unknown template type: %s'' [t]))"
proof -
  let ?p = "NewAAPProvider (rest_client (answering (SendFailed ''no route''))) ''a'' ''b''"
  let ?v = "\<lparr>obj_Kind = (\<lambda>r. ''Subnet''), obj_JSON = (\<lambda>r. Inr (JObj [])), KebabCase = id\<rparr> :: unit obj_view"
  obtain res cache' h' where run: "launchTemplate ?p ?v background ''a'' () (Map.empty, ()) = Some (res, (cache', h'))"
    by (simp add: launchTemplate_def NewAAPProvider_def rest_client_def GetTemplate_def GetTemplateByName_def
        getTemplateFromEndpoint_def doRequest_def answering_def go_simps)
  have "cache_ok Map.empty" by (simp add: cache_ok_def)
  from template_type_always_known [OF this NewAAPProviders(1) run] run show ?thesis by blast
qed

text \<open>
  The quota of a storage tier reaches the playbooks in bytes exactly when it is at most 2^33 - 1 GiB in
  absolute value (or -2^33); beyond, the 64-bit product wraps.
\<close>

theorem quota_bytes_exact:
  "tierDefinitionsToExtraVars [tier] =
     JArr [JObj [(''name'', JStr (td_Name tier)), (''protocol'', JStr (td_Protocol tier)),
       (''provider'', JStr (td_Provider tier)), (''backend_id'', JStr (td_BackendID tier)),
       (''qos_limits'', JObj [(''static_limits'', JObj
         [(''max_reads_bw_mbps'', JNum (MaxReadBandwidthMBs (td_QosLimits tier))),
          (''max_writes_bw_mbps'', JNum (MaxWriteBandwidthMBs (td_QosLimits tier)))])]),
       (''quota_bytes'', JNum (td_QuotaGiB tier * 2 ^ 30))]] \<longleftrightarrow>
   - (2 ^ 33) \<le> td_QuotaGiB tier \<and> td_QuotaGiB tier < 2 ^ 33"
proof -
  have "wrap64 (q * 2 ^ 30) = q * 2 ^ 30 \<longleftrightarrow> - (2 ^ 33) \<le> q \<and> q < 2 ^ 33" for q :: int
    using signed_take_bit_int_eq_self_iff [of 63 "q * 2 ^ 30"] by (simp add: wrap64_def)
  then show ?thesis by (simp add: tierDefinitionsToExtraVars_def bytesPerGiB_def)
qed

end
