(* ===== verification/Network_Manager.thy ===== *)
theory Network_Manager
  imports Config_Version "HOL-Library.List_Lexorder" "HOL-Library.Char_ord"
begin

text \<open>
  Network manager registrations (\<^verbatim>\<open>pkg/networkmanager/types.go\<close> and \<^verbatim>\<open>discovery.go\<close>): ConfigMaps are
  parsed into managers, listed by label and looked up by name. The reader of the API server is a
  parameter. Strings are UTF-8 byte strings; \<^verbatim>\<open>strings.TrimSpace\<close> is modelled with the white space of
  Unicode.

  The lemmas characterise the accepted capability lists, and show that discovery returns managers of the
  requested type with pairwise different names, so that a lookup by name is unambiguous.
\<close>

section \<open>Strings\<close>

text \<open>The length in bytes of a white-space character at the beginning of a string, 0 if there is none.\<close>

definition space1 :: "nat list \<Rightarrow> bool" where
  "space1 b \<longleftrightarrow> b \<in> set [[9], [10], [11], [12], [13], [32]]"

definition space2 :: "nat list \<Rightarrow> bool" where
  "space2 b \<longleftrightarrow> b \<in> set [[194, 133], [194, 160]]"

definition space3 :: "nat list \<Rightarrow> bool" where
  "space3 b \<longleftrightarrow>
     b \<in> set ([[225, 154, 128], [226, 129, 159], [227, 128, 128], [226, 128, 168], [226, 128, 169], [226, 128, 175]]
              @ map (\<lambda>n. [226, 128, n]) [128..<139])"

definition bytes_of :: "string \<Rightarrow> nat list" where
  "bytes_of s = map of_char s"

definition space_len :: "string \<Rightarrow> nat" where
  "space_len s =
     (if space1 (bytes_of (take 1 s)) then 1
      else if space2 (bytes_of (take 2 s)) then 2
      else if space3 (bytes_of (take 3 s)) then 3 else 0)"

definition space_len_rev :: "string \<Rightarrow> nat" where
  "space_len_rev s =
     (if space1 (bytes_of (take 1 s)) then 1
      else if space2 (rev (bytes_of (take 2 s))) then 2
      else if space3 (rev (bytes_of (take 3 s))) then 3 else 0)"

function drop_spaces :: "(string \<Rightarrow> nat) \<Rightarrow> string \<Rightarrow> string" where
  "drop_spaces len s = (if len s = 0 \<or> s = [] then s else drop_spaces len (drop (len s) s))"
  by pat_completeness auto
termination
  by (relation "measure (\<lambda>(len, s). length s)") auto

declare drop_spaces.simps [simp del]

definition TrimSpace :: "string \<Rightarrow> string" where
  "TrimSpace s = rev (drop_spaces space_len_rev (rev (drop_spaces space_len s)))"

fun split_comma :: "string \<Rightarrow> string list" where
  "split_comma [] = [[]]"
| "split_comma (c # s) =
     (if c = CHR '','' then [] # split_comma s
      else (case split_comma s of p # ps \<Rightarrow> (c # p) # ps | [] \<Rightarrow> [[c]]))"

section \<open>Managers\<close>

datatype ManagerType = FabricManagerType | K8sManagerType

definition ManagerType_String :: "ManagerType \<Rightarrow> string" where
  "ManagerType_String t = (case t of FabricManagerType \<Rightarrow> ''fabric'' | K8sManagerType \<Rightarrow> ''k8s'')"

type_synonym Capability = string

definition CapabilityIPv4 :: Capability where
  "CapabilityIPv4 = ''ipv4''"

definition CapabilityIPv6 :: Capability where
  "CapabilityIPv6 = ''ipv6''"

definition CapabilityDualStack :: Capability where
  "CapabilityDualStack = ''dualStack''"

definition CapabilityDPUSupport :: Capability where
  "CapabilityDPUSupport = ''dpuSupport''"

definition validCapabilities :: "Capability list" where
  "validCapabilities = [CapabilityIPv4, CapabilityIPv6, CapabilityDualStack, CapabilityDPUSupport]"

record ConfigMap =
  cm_Namespace :: string
  cm_Name :: string
  cm_Data :: "string \<rightharpoonup> string"

record Manager =
  mgr_Name :: string
  mgr_Description :: string
  mgr_Capabilities :: "Capability list"
  mgr_Type :: ManagerType
  mgr_ConfigMapRef :: "string \<times> string"

fun HasCapability_loop :: "Capability list \<Rightarrow> Capability \<Rightarrow> bool" where
  "HasCapability_loop [] capability = False"
| "HasCapability_loop (c # cs) capability = (if c = capability then True else HasCapability_loop cs capability)"

definition HasCapability :: "Manager \<Rightarrow> Capability \<Rightarrow> bool" where
  "HasCapability m capability = HasCapability_loop (mgr_Capabilities m) capability"

definition validCapabilityNames :: string where
  "validCapabilityNames = join_with '', '' (sort validCapabilities)"

text \<open>The loop over the parts; \<^verbatim>\<open>seen\<close> is the set of the capabilities collected so far.\<close>

fun parse_parts :: "string list \<Rightarrow> Capability list \<Rightarrow> gerror + Capability list" where
  "parse_parts [] caps = Inr caps"
| "parse_parts (p # ps) caps =
     (let c = TrimSpace p in
      if c = '''' then parse_parts ps caps
      else if c \<notin> set validCapabilities then
        Inl (Errorf ''invalid capability %q: must be one of %s'' [c, validCapabilityNames])
      else if c \<in> set caps then parse_parts ps caps
      else parse_parts ps (caps @ [c]))"

definition add_implied :: "Capability \<Rightarrow> Capability list \<Rightarrow> Capability list" where
  "add_implied implied caps = (if implied \<in> set caps then caps else caps @ [implied])"

definition parseCapabilities :: "string \<Rightarrow> gerror + Capability list" where
  "parseCapabilities raw0 =
     (let raw = TrimSpace raw0 in
      if raw = '''' then Inl (Errorf ''capabilities field must not be empty'' [])
      else
        (case parse_parts (split_comma raw) [] of
           Inl err \<Rightarrow> Inl err
         | Inr caps \<Rightarrow>
             if caps = [] then Inl (Errorf ''capabilities field must not be empty'' [])
             else if CapabilityDualStack \<in> set caps then
               Inr (add_implied CapabilityIPv6 (add_implied CapabilityIPv4 caps))
             else Inr caps))"

text \<open>\<open>None\<close> stands for a nil ConfigMap.\<close>

definition ParseConfigMap :: "ConfigMap option \<Rightarrow> ManagerType \<Rightarrow> gerror + Manager" where
  "ParseConfigMap cmp managerType =
     (case cmp of
        None \<Rightarrow> Inl (Errorf ''ConfigMap is nil'' [])
      | Some cm \<Rightarrow>
          (let value = (\<lambda>k. case cm_Data cm k of None \<Rightarrow> '''' | Some v \<Rightarrow> v) in
           if TrimSpace (value ''name'') = '''' then
             Inl (Errorf ''ConfigMap %s/%s: missing or empty required field data.%s''
                    [cm_Namespace cm, cm_Name cm, ''name''])
           else
             (case parseCapabilities (value ''capabilities'') of
                Inl err \<Rightarrow> Inl (Wrapf ''ConfigMap %s/%s: %w'' [cm_Namespace cm, cm_Name cm] err)
              | Inr caps \<Rightarrow>
                  Inr \<lparr>mgr_Name = TrimSpace (value ''name''),
                       mgr_Description = TrimSpace (value ''description''),
                       mgr_Capabilities = caps, mgr_Type = managerType,
                       mgr_ConfigMapRef = (cm_Namespace cm, cm_Name cm)\<rparr>)))"

section \<open>Discovery\<close>

record 'w Discovery =
  reader_List :: "string \<Rightarrow> string \<times> string \<Rightarrow> ('w, gerror + ConfigMap list) go"
  disc_namespace :: string

definition NewDiscovery ::
  "(string \<Rightarrow> string \<times> string \<Rightarrow> ('w, gerror + ConfigMap list) go) \<Rightarrow> string \<Rightarrow> gerror + 'w Discovery"
where
  "NewDiscovery reader namespace =
     (if namespace = '''' then Inl (Errorf ''networkmanager: namespace must not be empty'' [])
      else Inr \<lparr>reader_List = reader, disc_namespace = namespace\<rparr>)"

definition LabelFabricManager :: string where
  "LabelFabricManager = ''osac.openshift.io/network/fabric-manager''"

definition LabelK8sManager :: string where
  "LabelK8sManager = ''osac.openshift.io/network/k8s-manager''"

text \<open>The loop over the ConfigMaps; \<open>seen\<close> maps a manager's name to the ConfigMap that registered it.\<close>

fun collect_managers ::
  "ManagerType \<Rightarrow> ConfigMap list \<Rightarrow> (string \<rightharpoonup> string) \<Rightarrow> Manager list \<Rightarrow> gerror + Manager list"
where
  "collect_managers mtype [] seen managers = Inr managers"
| "collect_managers mtype (cm # cms) seen managers =
     (case ParseConfigMap (Some cm) mtype of
        Inl err \<Rightarrow> Inl err
      | Inr mgr \<Rightarrow>
          (case seen (mgr_Name mgr) of
             Some prev \<Rightarrow>
               Inl (Errorf ''duplicate %s manager name %q: registered by both %s and %s''
                      [ManagerType_String mtype, mgr_Name mgr, prev, cm_Name cm])
           | None \<Rightarrow>
               collect_managers mtype cms (seen(mgr_Name mgr \<mapsto> cm_Name cm)) (managers @ [mgr])))"

definition listManagers :: "'w Discovery \<Rightarrow> string \<Rightarrow> ManagerType \<Rightarrow> ('w, gerror + Manager list) go" where
  "listManagers d labelKey mtype =
     bnd (reader_List d (disc_namespace d) (labelKey, ''true'')) (\<lambda>res.
       case res of
         Inl err \<Rightarrow> ret (Inl (Wrapf ''listing %s manager ConfigMaps: %w'' [ManagerType_String mtype] err))
       | Inr items \<Rightarrow> ret (collect_managers mtype items Map.empty []))"

definition ListFabricManagers :: "'w Discovery \<Rightarrow> ('w, gerror + Manager list) go" where
  "ListFabricManagers d = listManagers d LabelFabricManager FabricManagerType"

definition ListK8sManagers :: "'w Discovery \<Rightarrow> ('w, gerror + Manager list) go" where
  "ListK8sManagers d = listManagers d LabelK8sManager K8sManagerType"

definition getManager ::
  "'w Discovery \<Rightarrow> string \<Rightarrow> string \<Rightarrow> ManagerType \<Rightarrow> ('w, gerror + Manager) go"
where
  "getManager d name labelKey mtype =
     bnd (listManagers d labelKey mtype) (\<lambda>res.
       case res of
         Inl err \<Rightarrow> ret (Inl err)
       | Inr managers \<Rightarrow>
           (case find (\<lambda>m. mgr_Name m = name) managers of
              Some m \<Rightarrow> ret (Inr m)
            | None \<Rightarrow> ret (Inl (ManagerNotFoundError name (ManagerType_String mtype)))))"

definition GetFabricManager :: "'w Discovery \<Rightarrow> string \<Rightarrow> ('w, gerror + Manager) go" where
  "GetFabricManager d name = getManager d name LabelFabricManager FabricManagerType"

definition GetK8sManager :: "'w Discovery \<Rightarrow> string \<Rightarrow> ('w, gerror + Manager) go" where
  "GetK8sManager d name = getManager d name LabelK8sManager K8sManagerType"

definition IsManagerNotFound :: "gerror \<Rightarrow> bool" where
  "IsManagerNotFound err \<longleftrightarrow> errors_As is_ManagerNotFoundError err \<noteq> None"

section \<open>Lemmas\<close>

text \<open>What a capability list means: the parts, trimmed and without the empty ones.\<close>

definition named_capabilities :: "string \<Rightarrow> Capability set" where
  "named_capabilities raw = set (filter (\<lambda>c. c \<noteq> '''') (map TrimSpace (split_comma (TrimSpace raw))))"

definition dual_closure :: "Capability set \<Rightarrow> Capability set" where
  "dual_closure cs = (if CapabilityDualStack \<in> cs then cs \<union> {CapabilityIPv4, CapabilityIPv6} else cs)"

lemma parse_parts_spec:
  "distinct caps \<Longrightarrow>
     (let named = set (filter (\<lambda>c. c \<noteq> '''') (map TrimSpace ps)) in
      case parse_parts ps caps of
        Inl e \<Rightarrow> \<not> named \<subseteq> set validCapabilities
      | Inr cs \<Rightarrow> named \<subseteq> set validCapabilities \<and> distinct cs \<and> set cs = set caps \<union> named)"
proof (induction ps arbitrary: caps)
  case (Cons p ps)
  note IH = Cons.IH [OF Cons.prems] Cons.IH [of "caps @ [TrimSpace p]"]
  consider "TrimSpace p = ''''" | "TrimSpace p \<noteq> ''''" "TrimSpace p \<notin> set validCapabilities"
    | "TrimSpace p \<noteq> ''''" "TrimSpace p \<in> set validCapabilities" "TrimSpace p \<in> set caps"
    | "TrimSpace p \<noteq> ''''" "TrimSpace p \<in> set validCapabilities" "TrimSpace p \<notin> set caps" by blast
  then show ?case
    by cases (use IH Cons.prems in \<open>auto simp: Let_def split: sum.splits\<close>)
qed simp

lemma split_comma_nonempty: "split_comma s \<noteq> []"
  by (induction s) (auto split: list.split)

lemma distinct_add_implied: "distinct caps \<Longrightarrow> distinct (add_implied c caps)"
  by (simp add: add_implied_def)

lemma set_add_implied: "set (add_implied c caps) = insert c (set caps)"
  by (auto simp: add_implied_def)

lemma drop_spaces_Nil [simp]: "drop_spaces len [] = []"
  by (simp add: drop_spaces.simps)

lemma TrimSpace_Nil [simp]: "TrimSpace '''' = ''''"
  by (simp add: TrimSpace_def)

lemma parseCapabilities_spec:
  "parseCapabilities raw = Inr caps \<Longrightarrow>
     distinct caps \<and> set caps = dual_closure (named_capabilities raw) \<and>
     named_capabilities raw \<subseteq> set validCapabilities \<and> named_capabilities raw \<noteq> {}"
proof -
  assume ok: "parseCapabilities raw = Inr caps"
  then obtain cs where cs: "parse_parts (split_comma (TrimSpace raw)) [] = Inr cs" "cs \<noteq> []"
    "caps = (if CapabilityDualStack \<in> set cs then add_implied CapabilityIPv6 (add_implied CapabilityIPv4 cs) else cs)"
    by (auto simp: parseCapabilities_def Let_def split: sum.splits if_splits)
  then have "distinct cs \<and> set cs = named_capabilities raw \<and> named_capabilities raw \<subseteq> set validCapabilities"
    using parse_parts_spec [of "[]" "split_comma (TrimSpace raw)"] by (simp add: named_capabilities_def Let_def)
  with cs show ?thesis
    by (auto simp: dual_closure_def set_add_implied distinct_add_implied)
qed

lemma parseCapabilities_accepts:
  "(\<exists>caps. parseCapabilities raw = Inr caps) \<longleftrightarrow>
     named_capabilities raw \<subseteq> set validCapabilities \<and> named_capabilities raw \<noteq> {}"
proof
  assume "\<exists>caps. parseCapabilities raw = Inr caps"
  then show "named_capabilities raw \<subseteq> set validCapabilities \<and> named_capabilities raw \<noteq> {}"
    using parseCapabilities_spec by blast
next
  assume a: "named_capabilities raw \<subseteq> set validCapabilities \<and> named_capabilities raw \<noteq> {}"
  then have "TrimSpace raw \<noteq> ''''" by (auto simp: named_capabilities_def)
  with a parse_parts_spec [of "[]" "split_comma (TrimSpace raw)"]
  show "\<exists>caps. parseCapabilities raw = Inr caps"
    by (auto simp: parseCapabilities_def Let_def named_capabilities_def split: sum.splits)
qed

lemma dual_closure_valid: "cs \<subseteq> set validCapabilities \<Longrightarrow> dual_closure cs \<subseteq> set validCapabilities"
  by (auto simp: dual_closure_def validCapabilities_def)

lemma HasCapability_iff: "HasCapability m c \<longleftrightarrow> c \<in> set (mgr_Capabilities m)"
proof -
  have "HasCapability_loop cs c \<longleftrightarrow> c \<in> set cs" for cs
    by (induction cs) auto
  then show ?thesis by (simp add: HasCapability_def)
qed

lemma ParseConfigMap_type: "ParseConfigMap cm t = Inr m \<Longrightarrow> mgr_Type m = t \<and> mgr_Name m \<noteq> ''''"
  by (auto simp: ParseConfigMap_def Let_def split: option.splits if_splits sum.splits)

lemma collect_managers_spec:
  assumes "collect_managers t cms seen ms = Inr out"
    and "dom seen = mgr_Name ` set ms" and "distinct (map mgr_Name ms)"
    and "\<forall>m \<in> set ms. mgr_Type m = t"
  shows "distinct (map mgr_Name out) \<and> (\<forall>m \<in> set out. mgr_Type m = t) \<and>
    length out = length ms + length cms"
  using assms
proof (induction t cms seen ms rule: collect_managers.induct)
  case (2 t cm cms seen ms)
  from 2(2) obtain m where m: "ParseConfigMap (Some cm) t = Inr m" "seen (mgr_Name m) = None"
    by (auto split: sum.splits option.splits)
  have new: "mgr_Name m \<notin> mgr_Name ` set ms" using m(2) 2(3) by auto
  have "distinct (map mgr_Name out) \<and> (\<forall>m \<in> set out. mgr_Type m = t) \<and>
      length out = length (ms @ [m]) + length cms"
  proof (rule 2(1) [OF m])
    show "collect_managers t cms (seen(mgr_Name m \<mapsto> cm_Name cm)) (ms @ [m]) = Inr out"
      using 2(2) m by simp
    show "dom (seen(mgr_Name m \<mapsto> cm_Name cm)) = mgr_Name ` set (ms @ [m])" using 2(3) by auto
    show "distinct (map mgr_Name (ms @ [m]))" using 2(4) new by simp
    show "\<forall>x \<in> set (ms @ [m]). mgr_Type x = t" using 2(5) ParseConfigMap_type [OF m(1)] by simp
  qed
  then show ?case by simp
qed auto

lemma listManagers_spec:
  "wlp (listManagers d l t) (\<lambda>res w'. \<forall>ms. res = Inr ms \<longrightarrow>
      distinct (map mgr_Name ms) \<and> (\<forall>m \<in> set ms. mgr_Type m = t)) w"
  unfolding listManagers_def wlp_bnd
  by (rule wlp_mono [OF wlp_True]) (auto simp: wlp_ret split: sum.split dest!: collect_managers_spec)

lemma getManager_spec:
  "wlp (getManager d n l t) (\<lambda>res w'. \<forall>m. res = Inr m \<longrightarrow> mgr_Name m = n \<and> mgr_Type m = t) w"
  unfolding getManager_def wlp_bnd
  by (rule wlp_mono [OF listManagers_spec])
    (auto simp: wlp_ret find_Some_iff split: sum.split option.split)

lemma getManager_listed:
  assumes "listManagers d l t w = Some (Inr ms, w')"
  shows "getManager d n l t w =
     Some (case find (\<lambda>m. mgr_Name m = n) ms of Some m \<Rightarrow> Inr m | None \<Rightarrow> Inl (ManagerNotFoundError n (ManagerType_String t)), w')"
  using assms by (simp add: getManager_def go_simps split: option.split)

lemma find_distinct:
  "distinct (map f xs) \<Longrightarrow> x \<in> set xs \<Longrightarrow> find (\<lambda>y. f y = f x) xs = Some x"
  by (induction xs) (auto simp: image_iff)

section \<open>Properties\<close>

text \<open>
  A capability list is accepted exactly when it names at least one capability and only known ones; the
  result lists each of them once, and a manager with \<^verbatim>\<open>dualStack\<close> has \<^verbatim>\<open>ipv4\<close> and \<^verbatim>\<open>ipv6\<close> too.
\<close>

theorem parseCapabilities_exact:
  "case parseCapabilities raw of
     Inl e \<Rightarrow> \<not> (named_capabilities raw \<subseteq> set validCapabilities \<and> named_capabilities raw \<noteq> {})
   | Inr caps \<Rightarrow> named_capabilities raw \<subseteq> set validCapabilities \<and> named_capabilities raw \<noteq> {} \<and>
       distinct caps \<and>
       set caps = named_capabilities raw \<union>
         (if CapabilityDualStack \<in> named_capabilities raw then {CapabilityIPv4, CapabilityIPv6} else {})"
  using parseCapabilities_spec [of raw] parseCapabilities_accepts [of raw]
  by (cases "parseCapabilities raw") (auto simp: dual_closure_def)

text \<open>
  Discovery and lookup agree. A successful listing has one manager per ConfigMap, all of the requested
  type and with pairwise different names; looking up the name of a listed manager gives that manager,
  and looking up any other name fails with the error the callers test for.
\<close>

theorem discovery_lookup_agree:
  assumes "listManagers d l t w = Some (Inr ms, w')"
    and "reader_List d (disc_namespace d) (l, ''true'') w = Some (Inr cms, w')"
  shows "length ms = length cms \<and> distinct (map mgr_Name ms) \<and> (\<forall>m \<in> set ms. mgr_Type m = t) \<and>
     (\<forall>m \<in> set ms. getManager d (mgr_Name m) l t w = Some (Inr m, w')) \<and>
     (\<forall>n. n \<notin> mgr_Name ` set ms \<longrightarrow> (\<exists>e. getManager d n l t w = Some (Inl e, w') \<and> IsManagerNotFound e))"
proof -
  have "collect_managers t cms Map.empty [] = Inr ms"
    using assms by (simp add: listManagers_def go_simps)
  note spec = collect_managers_spec [OF this]
  then have dist: "distinct (map mgr_Name ms)" by simp
  have "getManager d n l t w = Some (Inl (ManagerNotFoundError n (ManagerType_String t)), w')"
    if "n \<notin> mgr_Name ` set ms" for n
  proof -
    have "find (\<lambda>m. mgr_Name m = n) ms = None" using that by (auto simp: find_None_iff)
    then show ?thesis by (simp add: getManager_listed [OF assms(1)])
  qed
  moreover have "getManager d (mgr_Name m) l t w = Some (Inr m, w')" if "m \<in> set ms" for m
    using find_distinct [OF dist that] by (simp add: getManager_listed [OF assms(1)])
  ultimately show ?thesis
    using spec by (auto simp: IsManagerNotFound_def)
qed

text \<open>A namespace with one registration.\<close>

definition sample_config_map :: ConfigMap where
  "sample_config_map = \<lparr>cm_Namespace = ''ns'', cm_Name = ''cm'',
     cm_Data = [''name'' \<mapsto> ''netris'', ''capabilities'' \<mapsto> ''ipv4'']\<rparr>"

definition sample_manager :: Manager where
  "sample_manager = \<lparr>mgr_Name = ''netris'', mgr_Description = '''', mgr_Capabilities = [''ipv4''],
     mgr_Type = FabricManagerType, mgr_ConfigMapRef = (''ns'', ''cm'')\<rparr>"

definition sample_discovery :: "unit Discovery" where
  "sample_discovery = \<lparr>reader_List = (\<lambda>ns sel w. Some (Inr [sample_config_map], w)), disc_namespace = ''ns''\<rparr>"

lemma sample_trim [simp]: "TrimSpace ''netris'' = ''netris''" "TrimSpace ''ipv4'' = ''ipv4''"
  by (simp_all add: TrimSpace_def drop_spaces.simps [of _ "_ # _"] space_len_def space_len_rev_def bytes_of_def space1_def space2_def
      space3_def)

lemma sample_parse: "ParseConfigMap (Some sample_config_map) FabricManagerType = Inr sample_manager"
  by (simp add: ParseConfigMap_def sample_config_map_def sample_manager_def parseCapabilities_def Let_def
      validCapabilities_def CapabilityIPv4_def CapabilityDualStack_def)

theorem discovery_lookup_agree_witness:
  "getManager sample_discovery ''netris'' LabelFabricManager FabricManagerType () = Some (Inr sample_manager, ()) \<and>
   (\<exists>e. getManager sample_discovery ''other'' LabelFabricManager FabricManagerType () = Some (Inl e, ()) \<and> IsManagerNotFound e)"
proof -
  have l: "listManagers sample_discovery LabelFabricManager FabricManagerType () = Some (Inr [sample_manager], ())"
    by (simp add: listManagers_def sample_discovery_def go_simps sample_parse)
  have r: "reader_List sample_discovery (disc_namespace sample_discovery) (LabelFabricManager, ''true'') () =
      Some (Inr [sample_config_map], ())"
    by (simp add: sample_discovery_def)
  from discovery_lookup_agree [OF l r] show ?thesis by (simp add: sample_manager_def)
qed

end
