(* ===== verification/Dispatcher.thy ===== *)
theory Dispatcher
  imports Network_Manager
begin

text \<open>
  Dispatching of networking resources to managers (\<^verbatim>\<open>pkg/dispatcher\<close>): the table of roles per kind, the
  resolver that turns a NetworkClass of the fulfillment service into registered managers, its cache for
  the length of one reconciliation, and the dispatcher that builds a plan. The gRPC client is a
  parameter; the state is the cache together with the world.

  The locale \<open>manager_resolver\<close> is what the dispatcher needs of a resolver; it is interpreted on the
  cached one. Its lemmas say which plan a kind gets and that the branch for unknown roles is dead. The
  cache is transparent: a second resolution returns the first answer without touching the world.
\<close>

section \<open>Plans\<close>

datatype ManagerRole = ManagerRoleFabric | ManagerRoleK8s | OtherRole string

definition ManagerRole_String :: "ManagerRole \<Rightarrow> string" where
  "ManagerRole_String role =
     (case role of ManagerRoleFabric \<Rightarrow> ''fabric'' | ManagerRoleK8s \<Rightarrow> ''k8s'' | OtherRole s \<Rightarrow> s)"

record DispatchTarget =
  Role :: ManagerRole
  TargetManager :: Manager

record DispatchPlan =
  Targets :: "DispatchTarget list"

text \<open>A nil plan is \<open>None\<close>.\<close>

definition HasRole :: "DispatchPlan option \<Rightarrow> ManagerRole \<Rightarrow> bool" where
  "HasRole p role = (case p of None \<Rightarrow> False | Some plan \<Rightarrow> list_ex (\<lambda>t. Role t = role) (Targets plan))"

definition FabricTarget :: "DispatchPlan option \<Rightarrow> DispatchTarget option" where
  "FabricTarget p =
     (case p of None \<Rightarrow> None | Some plan \<Rightarrow> find (\<lambda>t. Role t = ManagerRoleFabric) (Targets plan))"

definition K8sTarget :: "DispatchPlan option \<Rightarrow> DispatchTarget option" where
  "K8sTarget p =
     (case p of None \<Rightarrow> None | Some plan \<Rightarrow> find (\<lambda>t. Role t = ManagerRoleK8s) (Targets plan))"

record ResourceDispatchConfig =
  Roles :: "ManagerRole list"

definition dispatchTable :: "(string \<times> ResourceDispatchConfig) list" where
  "dispatchTable =
     [(''VirtualNetwork'', \<lparr>Roles = [ManagerRoleFabric]\<rparr>),
      (''Subnet'', \<lparr>Roles = [ManagerRoleFabric, ManagerRoleK8s]\<rparr>),
      (''SecurityGroup'', \<lparr>Roles = [ManagerRoleFabric]\<rparr>),
      (''ExternalIP'', \<lparr>Roles = [ManagerRoleFabric]\<rparr>),
      (''ExternalIPPool'', \<lparr>Roles = [ManagerRoleFabric]\<rparr>),
      (''ExternalIPAttachment'', \<lparr>Roles = [ManagerRoleFabric]\<rparr>),
      (''NATGateway'', \<lparr>Roles = [ManagerRoleFabric]\<rparr>)]"

definition LookupDispatchConfig :: "string \<Rightarrow> ResourceDispatchConfig option" where
  "LookupDispatchConfig kind = map_of dispatchTable kind"

text \<open>Go iterates over the table in an unspecified order; this is one of them.\<close>

definition KnownKinds :: "string list" where
  "KnownKinds = map fst dispatchTable"

section \<open>Resolution\<close>

record NetworkClass =
  nc_FabricManager :: string
  nc_K8SManager :: string

record ResolvedManagers =
  FabricManager :: Manager
  K8sManager :: "Manager option"

text \<open>The response of the fulfillment service may contain no object.\<close>

record 'w Resolver =
  NetworkClasses_Get :: "string \<Rightarrow> ('w, gerror + NetworkClass option) go"
  discovery :: "'w Discovery"

definition Resolver_Resolve :: "'w Resolver \<Rightarrow> string \<Rightarrow> ('w, gerror + ResolvedManagers) go" where
  "Resolver_Resolve r networkClassID =
     bnd (NetworkClasses_Get r networkClassID) (\<lambda>resp.
       case resp of
         Inl err \<Rightarrow> ret (Inl (Wrapf ''fetching NetworkClass %q: %w'' [networkClassID] err))
       | Inr None \<Rightarrow> ret (Inl (Errorf ''NetworkClass %q: response contains no object'' [networkClassID]))
       | Inr (Some nc) \<Rightarrow>
           if nc_FabricManager nc = '''' then
             ret (Inl (Errorf ''NetworkClass %q: fabricManager is required but not set'' [networkClassID]))
           else
             bnd (GetFabricManager (discovery r) (nc_FabricManager nc)) (\<lambda>fab.
               case fab of
                 Inl err \<Rightarrow>
                   ret (Inl (Wrapf ''NetworkClass %q: resolving fabricManager %q: %w''
                               [networkClassID, nc_FabricManager nc] err))
               | Inr fabricMgr \<Rightarrow>
                   if nc_K8SManager nc \<noteq> '''' then
                     bnd (GetK8sManager (discovery r) (nc_K8SManager nc)) (\<lambda>k8s.
                       case k8s of
                         Inl err \<Rightarrow>
                           ret (Inl (Wrapf ''NetworkClass %q: resolving k8sManager %q: %w''
                                       [networkClassID, nc_K8SManager nc] err))
                       | Inr k8sMgr \<Rightarrow>
                           ret (Inr \<lparr>FabricManager = fabricMgr, K8sManager = Some k8sMgr\<rparr>))
                   else ret (Inr \<lparr>FabricManager = fabricMgr, K8sManager = None\<rparr>)))"

type_synonym resolver_cache = "string \<rightharpoonup> ResolvedManagers"

definition newCachedResolver :: resolver_cache where
  "newCachedResolver = Map.empty"

definition cachedResolver_Resolve ::
  "'w Resolver \<Rightarrow> string \<Rightarrow> (resolver_cache \<times> 'w, gerror + ResolvedManagers) go"
where
  "cachedResolver_Resolve inner networkClassID =
     bnd get_res (\<lambda>cache.
       case cache networkClassID of
         Some cached \<Rightarrow> ret (Inr cached)
       | None \<Rightarrow>
           bnd (on_world (Resolver_Resolve inner networkClassID)) (\<lambda>res.
             case res of
               Inl err \<Rightarrow> ret (Inl err)
             | Inr managers \<Rightarrow>
                 bnd (mod_res (\<lambda>cache. cache(networkClassID \<mapsto> managers))) (\<lambda>_. ret (Inr managers))))"

section \<open>Dispatch\<close>

text \<open>The loop over the roles of a kind.\<close>

fun build_plan ::
  "string \<Rightarrow> ResolvedManagers \<Rightarrow> ManagerRole list \<Rightarrow> DispatchTarget list \<Rightarrow> gerror + DispatchPlan"
where
  "build_plan kind resolved [] targets = Inr \<lparr>Targets = targets\<rparr>"
| "build_plan kind resolved (role # roles) targets =
     (case role of
        ManagerRoleFabric \<Rightarrow>
          build_plan kind resolved roles
            (targets @ [\<lparr>Role = ManagerRoleFabric, TargetManager = FabricManager resolved\<rparr>])
      | ManagerRoleK8s \<Rightarrow>
          (case K8sManager resolved of
             None \<Rightarrow> build_plan kind resolved roles targets
           | Some m \<Rightarrow>
               build_plan kind resolved roles (targets @ [\<lparr>Role = ManagerRoleK8s, TargetManager = m\<rparr>]))
      | OtherRole s \<Rightarrow>
          Inl (Errorf ''no dispatch handling for manager role %q (kind %q)'' [s, kind]))"

definition Dispatch_with ::
  "(string \<Rightarrow> ('s, gerror + ResolvedManagers) go) \<Rightarrow> string \<Rightarrow> string \<Rightarrow> ('s, gerror + DispatchPlan) go"
where
  "Dispatch_with resolve kind networkClassID =
     (case LookupDispatchConfig kind of
        None \<Rightarrow> ret (Inl (Errorf ''no dispatch configuration for resource kind %q'' [kind]))
      | Some cfg \<Rightarrow>
          bnd (resolve networkClassID) (\<lambda>res.
            case res of
              Inl err \<Rightarrow> ret (Inl (Wrapf ''resolving managers for %s: %w'' [kind] err))
            | Inr resolved \<Rightarrow> ret (build_plan kind resolved (Roles cfg) [])))"

definition Dispatch ::
  "'w Resolver \<Rightarrow> string \<Rightarrow> string \<Rightarrow> (resolver_cache \<times> 'w, gerror + DispatchPlan) go"
where
  "Dispatch r = Dispatch_with (cachedResolver_Resolve r)"

section \<open>Lemmas\<close>

definition typed_managers :: "ResolvedManagers \<Rightarrow> bool" where
  "typed_managers rm \<longleftrightarrow>
     mgr_Type (FabricManager rm) = FabricManagerType \<and>
     (\<forall>m. K8sManager rm = Some m \<longrightarrow> mgr_Type m = K8sManagerType)"

definition cache_typed :: "resolver_cache \<Rightarrow> bool" where
  "cache_typed cache \<longleftrightarrow> (\<forall>i rm. cache i = Some rm \<longrightarrow> typed_managers rm)"

text \<open>The manager a role stands for.\<close>

definition role_type :: "ManagerRole \<Rightarrow> ManagerType option" where
  "role_type role =
     (case role of ManagerRoleFabric \<Rightarrow> Some FabricManagerType | ManagerRoleK8s \<Rightarrow> Some K8sManagerType
      | OtherRole s \<Rightarrow> None)"

definition expected_targets :: "string \<Rightarrow> ResolvedManagers \<Rightarrow> DispatchTarget list" where
  "expected_targets kind rm =
     \<lparr>Role = ManagerRoleFabric, TargetManager = FabricManager rm\<rparr> #
     (if kind = ''Subnet''
      then (case K8sManager rm of None \<Rightarrow> [] | Some m \<Rightarrow> [\<lparr>Role = ManagerRoleK8s, TargetManager = m\<rparr>])
      else [])"

lemma Resolver_Resolve_typed:
  "wlp (Resolver_Resolve r i) (\<lambda>res w'. \<forall>rm. res = Inr rm \<longrightarrow> typed_managers rm) w"
  unfolding Resolver_Resolve_def wlp_bnd [of "NetworkClasses_Get _ _"]
proof (rule wlp_mono [OF wlp_True], goal_cases)
  case (1 resp w1)
  have k: "wlp (GetK8sManager (discovery r) k) (\<lambda>res w'. \<forall>m. res = Inr m \<longrightarrow> mgr_Type m = K8sManagerType) v" for k v
    unfolding GetK8sManager_def by (rule wlp_mono [OF getManager_spec]) simp
  have f: "wlp (GetFabricManager (discovery r) k) (\<lambda>res w'. \<forall>m. res = Inr m \<longrightarrow> mgr_Type m = FabricManagerType) v" for k v
    unfolding GetFabricManager_def by (rule wlp_mono [OF getManager_spec]) simp
  show ?case
    by (auto simp: wlp_ret wlp_bnd typed_managers_def split: sum.split option.split
        intro!: wlp_mono [OF f] wlp_mono [OF k])
qed

lemma cachedResolver_typed:
  assumes "cache_typed cache"
  shows "wlp (cachedResolver_Resolve r i) (\<lambda>res s. cache_typed (fst s) \<and>
     (\<forall>rm. res = Inr rm \<longrightarrow> typed_managers rm)) (cache, w)"
proof (cases "cache i")
  case None
  with assms show ?thesis
    unfolding cachedResolver_Resolve_def wlp_bnd wlp_get_res prod.case
    by (simp add: wlp_bnd wlp_on_world, intro wlp_mono [OF Resolver_Resolve_typed])
      (auto simp: wlp_ret wlp_bnd wlp_mod_res cache_typed_def split: sum.split)
next
  case (Some rm)
  with assms show ?thesis
    by (auto simp: cachedResolver_Resolve_def wlp_bnd wlp_get_res wlp_ret cache_typed_def)
qed

lemma LookupDispatchConfig_roles:
  "LookupDispatchConfig kind = Some cfg \<Longrightarrow>
     Roles cfg = (if kind = ''Subnet'' then [ManagerRoleFabric, ManagerRoleK8s] else [ManagerRoleFabric])"
  by (auto simp: LookupDispatchConfig_def dispatchTable_def split: if_splits)

lemma LookupDispatchConfig_known: "(\<exists>cfg. LookupDispatchConfig kind = Some cfg) \<longleftrightarrow> kind \<in> set KnownKinds"
  by (simp add: LookupDispatchConfig_def KnownKinds_def map_of_eq_Some_iff dispatchTable_def)

lemma build_plan_expected:
  assumes "LookupDispatchConfig kind = Some cfg"
  shows "build_plan kind rm (Roles cfg) [] = Inr \<lparr>Targets = expected_targets kind rm\<rparr>"
  by (simp add: LookupDispatchConfig_roles [OF assms] expected_targets_def split: option.split)

locale manager_resolver =
  fixes resolve :: "string \<Rightarrow> ('s, gerror + ResolvedManagers) go" and inv :: "'s \<Rightarrow> bool"
  assumes resolve_typed: "inv s \<Longrightarrow> wlp (resolve i) (\<lambda>res s'. inv s' \<and> (\<forall>rm. res = Inr rm \<longrightarrow> typed_managers rm)) s"
begin

lemma Dispatch_known:
  assumes "inv s" and "kind \<in> set KnownKinds"
  shows "wlp (Dispatch_with resolve kind i) (\<lambda>res s'. inv s' \<and>
     (\<forall>p. res = Inr p \<longrightarrow> (\<exists>rm. typed_managers rm \<and> Targets p = expected_targets kind rm)) \<and>
     (\<forall>e. res = Inl e \<longrightarrow> (\<exists>e'. e = Wrapf ''resolving managers for %s: %w'' [kind] e'))) s"
proof -
  obtain cfg where cfg: "LookupDispatchConfig kind = Some cfg"
    using assms(2) LookupDispatchConfig_known by blast
  show ?thesis
    unfolding Dispatch_with_def cfg option.case wlp_bnd
    by (rule wlp_mono [OF resolve_typed [OF assms(1)]])
      (auto simp: wlp_ret build_plan_expected [OF cfg] split: sum.split)
qed

end

interpretation cres: manager_resolver "cachedResolver_Resolve r" "\<lambda>s. cache_typed (fst s)"
  for r :: "'w Resolver"
proof unfold_locales
  fix s :: "resolver_cache \<times> 'w" and i
  assume "cache_typed (fst s)"
  then show "wlp (cachedResolver_Resolve r i) (\<lambda>res s'. cache_typed (fst s') \<and>
      (\<forall>rm. res = Inr rm \<longrightarrow> typed_managers rm)) s"
    using cachedResolver_typed [of "fst s" r i "snd s"] by simp
qed

text \<open>
  What a network class asks for, by role, name and type of the manager; and when its managers cannot be found: the
  service has no such class, the class names no fabric manager, or a manager it names is not registered.
\<close>

definition class_targets :: "string \<Rightarrow> NetworkClass \<Rightarrow> (ManagerRole \<times> string \<times> ManagerType) list" where
  "class_targets kind nc =
     (ManagerRoleFabric, nc_FabricManager nc, FabricManagerType) #
     (if kind = ''Subnet'' \<and> nc_K8SManager nc \<noteq> '''' then [(ManagerRoleK8s, nc_K8SManager nc, K8sManagerType)] else [])"

definition named_target :: "DispatchTarget \<Rightarrow> ManagerRole \<times> string \<times> ManagerType" where
  "named_target t = (Role t, mgr_Name (TargetManager t), mgr_Type (TargetManager t))"

definition unresolvable :: "'w Resolver \<Rightarrow> string \<Rightarrow> 'w \<Rightarrow> bool" where
  "unresolvable r i w =
     (case NetworkClasses_Get r i w of
        Some (Inr (Some nc), w1) \<Rightarrow>
          nc_FabricManager nc = '''' \<or>
          (case GetFabricManager (discovery r) (nc_FabricManager nc) w1 of
             Some (Inr f, w2) \<Rightarrow>
               nc_K8SManager nc \<noteq> '''' \<and>
               (\<forall>k w3. GetK8sManager (discovery r) (nc_K8SManager nc) w2 \<noteq> Some (Inr k, w3))
           | _ \<Rightarrow> True)
      | _ \<Rightarrow> True)"

lemma Resolver_Resolve_class:
  assumes "Resolver_Resolve r i w = Some (res, w')"
  shows "case res of
      Inl e \<Rightarrow> unresolvable r i w
    | Inr rm \<Rightarrow> \<not> unresolvable r i w \<and> typed_managers rm \<and>
        (\<exists>nc w1. NetworkClasses_Get r i w = Some (Inr (Some nc), w1) \<and>
           (\<forall>kind. map named_target (expected_targets kind rm) = class_targets kind nc))"
proof -
  have f: "mgr_Name m = n" "mgr_Type m = FabricManagerType"
    if "GetFabricManager d n v = Some (Inr m, v')" for d :: "'a Discovery" and n v m v'
    using wlpD [OF getManager_spec that [unfolded GetFabricManager_def]] by simp_all
  have k: "mgr_Name m = n" "mgr_Type m = K8sManagerType"
    if "GetK8sManager d n v = Some (Inr m, v')" for d :: "'a Discovery" and n v m v'
    using wlpD [OF getManager_spec that [unfolded GetK8sManager_def]] by simp_all
  show ?thesis
    using assms
    by (auto simp: Resolver_Resolve_def go_simps unresolvable_def typed_managers_def expected_targets_def class_targets_def
        named_target_def f k split: option.splits sum.splits prod.splits if_splits)
qed

section \<open>Properties\<close>

text \<open>
  C30: the plan of a dispatch. A kind outside the table is refused without asking anybody. For a kind of the table
  whose network class is not in the cache there is a plan exactly when the class can be resolved: the service knows
  the class, it names a fabric manager, and every manager it names is registered. The plan then has the fabric manager
  the class names and, second, for a Subnet whose class names a manager for Kubernetes, that manager, each of the type
  its role asks for, and nothing else; the managers are put into the cache. Otherwise the error is that of the
  resolution and the cache stays. For a network class in the cache the plan has the cached managers, in the same way,
  and neither the cache nor the world is touched. The cache keeps managers of the right types only.
\<close>

theorem Dispatch_plan:
  assumes "cache_typed cache" and "Dispatch r kind i (cache, w) = Some (res, (cache', w'))"
  shows "(kind \<notin> set KnownKinds \<longrightarrow>
       res = Inl (Errorf ''no dispatch configuration for resource kind %q'' [kind]) \<and> cache' = cache \<and> w' = w) \<and>
     (kind \<in> set KnownKinds \<longrightarrow> cache_typed cache' \<and>
       (case cache i of
          Some rm \<Rightarrow> res = Inr \<lparr>Targets = expected_targets kind rm\<rparr> \<and> cache' = cache \<and> w' = w
        | None \<Rightarrow>
            (case res of
               Inl e \<Rightarrow> unresolvable r i w \<and> cache' = cache \<and>
                 (\<exists>e'. e = Wrapf ''resolving managers for %s: %w'' [kind] e' \<and> Resolver_Resolve r i w = Some (Inl e', w'))
             | Inr p \<Rightarrow> \<not> unresolvable r i w \<and>
                 (\<exists>nc w1. NetworkClasses_Get r i w = Some (Inr (Some nc), w1) \<and>
                    map named_target (Targets p) = class_targets kind nc) \<and>
                 (\<exists>rm. cache' = cache(i \<mapsto> rm) \<and> typed_managers rm \<and> Targets p = expected_targets kind rm))))"
proof (cases "kind \<in> set KnownKinds")
  case True
  then obtain cfg where cfg: "LookupDispatchConfig kind = Some cfg" using LookupDispatchConfig_known by blast
  have "cache_typed cache'"
    using wlpD [OF cres.Dispatch_known [of "(cache, w)" kind] assms(2) [unfolded Dispatch_def]] assms(1) True by simp
  moreover note run = assms(2) [unfolded Dispatch_def Dispatch_with_def cfg option.case cachedResolver_Resolve_def]
  show ?thesis
  proof (cases "cache i")
    case (Some rm)
    with run True calculation show ?thesis by (simp add: go_simps build_plan_expected [OF cfg])
  next
    case None
    with run obtain res0 where r0: "Resolver_Resolve r i w = Some (res0, w')"
      and res0: "case res0 of
          Inl e \<Rightarrow> res = Inl (Wrapf ''resolving managers for %s: %w'' [kind] e) \<and> cache' = cache
        | Inr rm \<Rightarrow> res = Inr \<lparr>Targets = expected_targets kind rm\<rparr> \<and> cache' = cache(i \<mapsto> rm)"
      by (auto simp: go_simps build_plan_expected [OF cfg] split: option.splits prod.splits sum.splits)
    from Resolver_Resolve_class [OF r0] res0 r0 None True calculation show ?thesis
      by (auto split: sum.splits)
  qed
next
  case False
  then have "LookupDispatchConfig kind = None" using LookupDispatchConfig_known [of kind] by auto
  with assms(2) False show ?thesis by (auto simp: Dispatch_def Dispatch_with_def go_simps)
qed

text \<open>A class with two managers: both are registered under the label of their role.\<close>

definition two_managers :: "unit Resolver" where
  "two_managers = \<lparr>NetworkClasses_Get = (\<lambda>i w. Some (Inr (Some \<lparr>nc_FabricManager = ''netris'', nc_K8SManager = ''netris''\<rparr>), w)),
     discovery = sample_discovery\<rparr>"

lemma sample_parse_k8s:
  "ParseConfigMap (Some sample_config_map) K8sManagerType = Inr (sample_manager\<lparr>mgr_Type := K8sManagerType\<rparr>)"
  by (simp add: ParseConfigMap_def sample_config_map_def sample_manager_def parseCapabilities_def Let_def
      validCapabilities_def CapabilityIPv4_def CapabilityDualStack_def)

lemma two_managers_resolve:
  "Resolver_Resolve two_managers i () =
     Some (Inr \<lparr>FabricManager = sample_manager, K8sManager = Some (sample_manager\<lparr>mgr_Type := K8sManagerType\<rparr>)\<rparr>, ())"
  by (simp add: Resolver_Resolve_def two_managers_def GetFabricManager_def GetK8sManager_def getManager_def listManagers_def
      sample_discovery_def sample_parse sample_parse_k8s go_simps) (simp add: sample_manager_def)

theorem Dispatch_plan_witness:
  "\<exists>p cache' w'. Dispatch two_managers ''Subnet'' ''nc'' (Map.empty, ()) = Some (Inr p, (cache', w')) \<and>
     map named_target (Targets p) =
       [(ManagerRoleFabric, ''netris'', FabricManagerType), (ManagerRoleK8s, ''netris'', K8sManagerType)]"
proof -
  obtain p cache' w' where run: "Dispatch two_managers ''Subnet'' ''nc'' (Map.empty, ()) = Some (Inr p, (cache', w'))"
    by (simp add: Dispatch_def Dispatch_with_def LookupDispatchConfig_def dispatchTable_def cachedResolver_Resolve_def
        two_managers_resolve go_simps)
  have "cache_typed Map.empty" and "''Subnet'' \<in> set KnownKinds"
    by (simp_all add: cache_typed_def KnownKinds_def dispatchTable_def)
  with Dispatch_plan [OF _ run] run show ?thesis by (auto simp: two_managers_def class_targets_def)
qed

definition sample_resolver :: "unit Resolver" where
  "sample_resolver = \<lparr>NetworkClasses_Get = (\<lambda>i w. Some (Inr (Some \<lparr>nc_FabricManager = ''netris'', nc_K8SManager = ''''\<rparr>), w)),
     discovery = sample_discovery\<rparr>"

lemma sample_resolve:
  "Resolver_Resolve sample_resolver i () = Some (Inr \<lparr>FabricManager = sample_manager, K8sManager = None\<rparr>, ())"
  by (simp add: Resolver_Resolve_def sample_resolver_def GetFabricManager_def getManager_def listManagers_def
      sample_discovery_def sample_parse go_simps) (simp add: sample_manager_def)

text \<open>
  The cache of a reconciliation. Once a network class is resolved, resolving it again gives the same
  managers and touches neither the service nor the API server, whatever has changed there; a failed
  resolution is not remembered.
\<close>

theorem resolver_cache_stable:
  assumes "cachedResolver_Resolve r i (cache, w) = Some (res, (cache', w'))"
  shows "case res of
      Inl e \<Rightarrow> cache' = cache
    | Inr rm \<Rightarrow> \<forall>w''. cachedResolver_Resolve r i (cache', w'') = Some (Inr rm, (cache', w''))"
  using assms by (auto simp: cachedResolver_Resolve_def go_simps split: option.splits sum.splits prod.splits)

theorem resolver_cache_stable_witness:
  "\<exists>rm cache'. cachedResolver_Resolve sample_resolver ''nc'' (Map.empty, ()) = Some (Inr rm, (cache', ())) \<and>
     cachedResolver_Resolve sample_resolver ''nc'' (cache', ()) = Some (Inr rm, (cache', ()))"
proof -
  obtain rm cache' where run: "cachedResolver_Resolve sample_resolver ''nc'' (Map.empty, ()) = Some (Inr rm, (cache', ()))"
    by (simp add: cachedResolver_Resolve_def sample_resolve go_simps)
  from resolver_cache_stable [OF this] run show ?thesis by auto
qed

end
