(* ===== verification/Feedback_Bridge.thy ===== *)
theory Feedback_Bridge
  imports Kube
begin

text \<open>
  The bridge that reports the state of custom resources back to the fulfillment service
  (\<^verbatim>\<open>internal/controller/feedback/bridge.go\<close>). A resource supplies callbacks; the bridge owns the feedback
  finalizer, the handling of missing remote records, the comparison before saving and the signal sent
  when the last finalizer goes away. Comparison of protocol buffers and gRPC status codes are library
  functions, hence parameters.

  The properties are about the order of the calls. \<open>logged\<close> wraps any bridge so that the world records each
  call with its outcome, and \<open>trace_ok\<close> says which sequences of calls are allowed.
\<close>

record ('sp, 'st, 'r, 'w) Bridge =
  b_Lib :: "'w k8s"
  b_Get :: "ObjectKey \<Rightarrow> ('w, gerror + ('sp, 'st) resource) go"
  b_Update :: "('sp, 'st) resource \<Rightarrow> ('w, gerror + ('sp, 'st) resource) go"
  b_Finalizer :: string
  b_IDLabel :: string
  b_Fetch :: "string \<Rightarrow> ('w, gerror + 'r) go"
  b_Save :: "'r \<Rightarrow> ('w, gerror option) go"
  b_Signal :: "string \<Rightarrow> ('w, gerror option) go"
  b_SyncUpdate :: "('sp, 'st) resource \<Rightarrow> 'r \<Rightarrow> ('w, 'r \<times> gerror option) go"
  b_SyncDelete :: "('sp, 'st) resource \<Rightarrow> 'r \<Rightarrow> ('w, 'r \<times> gerror option) go"
  b_PostSaveOnDelete :: "(('sp, 'st) resource \<Rightarrow> ('w, gerror option) go) option"
  b_IsNotFound :: "(gerror \<Rightarrow> bool) option"
  b_status_Code :: "gerror \<Rightarrow> nat"
  b_proto_Equal :: "'r \<Rightarrow> 'r \<Rightarrow> bool"

text \<open>\<^verbatim>\<open>codes.NotFound\<close> is 5.\<close>

definition isNotFound :: "('sp, 'st, 'r, 'w) Bridge \<Rightarrow> gerror \<Rightarrow> bool" where
  "isNotFound b err =
     (case b_IsNotFound b of
        Some f \<Rightarrow> f err
      | None \<Rightarrow> b_status_Code b err = 5)"

text \<open>Removing the finalizer from the object and writing it, if that changed it.\<close>

definition remove_and_update ::
  "('sp, 'st, 'r, 'w) Bridge \<Rightarrow> ('sp, 'st) resource \<Rightarrow> ('w, gerror option) go"
where
  "remove_and_update b object =
     (case RemoveFinalizer (b_Lib b) (Finalizers (Meta object)) (b_Finalizer b) of
        (fs, changed) \<Rightarrow>
          if changed then
            bnd (b_Update b (set_finalizers fs object)) (\<lambda>res.
              case res of Inl err \<Rightarrow> ret (Some err) | Inr _ \<Rightarrow> ret None)
          else ret None)"

text \<open>The last two steps: the side effects after saving, and the finalizer with the signal.\<close>

definition finish_delete ::
  "('sp, 'st, 'r, 'w) Bridge \<Rightarrow> string \<Rightarrow> ('sp, 'st) resource \<Rightarrow> ('w, outcome) go"
where
  "finish_delete b i object =
     (if DeletionTimestamp (Meta object) \<noteq> None \<and>
         ContainsFinalizer (b_Lib b) (Finalizers (Meta object)) (b_Finalizer b) then
        (if length (Finalizers (Meta object)) = 1 then
           bnd (remove_and_update b object) (\<lambda>e.
             case e of
               Some err \<Rightarrow> ret (no_requeue, Some err)
             | None \<Rightarrow> bnd (b_Signal b i) (\<lambda>signalErr. ret (no_requeue, None)))
         else ret (no_requeue, None))
      else ret (no_requeue, None))"

definition save_and_finish ::
  "('sp, 'st, 'r, 'w) Bridge \<Rightarrow> string \<Rightarrow> 'r \<Rightarrow> ('sp, 'st) resource \<Rightarrow> 'r \<Rightarrow> ('w, outcome) go"
where
  "save_and_finish b i before object remote =
     bnd (if \<not> b_proto_Equal b before remote then b_Save b remote else ret None) (\<lambda>saveErr.
       case saveErr of
         Some err \<Rightarrow> ret (no_requeue, Some err)
       | None \<Rightarrow>
           (case (DeletionTimestamp (Meta object) \<noteq> None, b_PostSaveOnDelete b) of
              (True, Some post) \<Rightarrow>
                bnd (post object) (\<lambda>postErr.
                  case postErr of
                    Some err \<Rightarrow> ret (no_requeue, Some err)
                  | None \<Rightarrow> finish_delete b i object)
            | _ \<Rightarrow> finish_delete b i object))"

definition Bridge_Reconcile :: "('sp, 'st, 'r, 'w) Bridge \<Rightarrow> ObjectKey \<Rightarrow> ('w, outcome) go" where
  "Bridge_Reconcile b key =
     bnd (b_Get b key) (\<lambda>got.
       case got of
         Inl err \<Rightarrow> ret (no_requeue, IgnoreNotFound (b_Lib b) err)
       | Inr object \<Rightarrow>
           (case Labels (Meta object) (b_IDLabel b) of
              None \<Rightarrow>
                if DeletionTimestamp (Meta object) \<noteq> None \<and>
                   ContainsFinalizer (b_Lib b) (Finalizers (Meta object)) (b_Finalizer b)
                then bnd (remove_and_update b object) (\<lambda>e. ret (no_requeue, e))
                else ret (no_requeue, None)
            | Some i \<Rightarrow>
                bnd (b_Fetch b i) (\<lambda>fetched.
                  case fetched of
                    Inl err \<Rightarrow>
                      if DeletionTimestamp (Meta object) \<noteq> None \<and> isNotFound b err
                      then bnd (remove_and_update b object) (\<lambda>e. ret (no_requeue, e))
                      else ret (no_requeue, Some err)
                  | Inr remote \<Rightarrow>
                      if DeletionTimestamp (Meta object) = None then
                        (case AddFinalizer (b_Lib b) (Finalizers (Meta object)) (b_Finalizer b) of
                           (fs, changed) \<Rightarrow>
                             bnd (if changed then b_Update b (set_finalizers fs object)
                                  else ret (Inr (set_finalizers fs object))) (\<lambda>upd.
                               case upd of
                                 Inl err \<Rightarrow> ret (no_requeue, Some err)
                               | Inr object' \<Rightarrow>
                                   bnd (b_SyncUpdate b object' remote) (\<lambda>(remote', syncErr).
                                     case syncErr of
                                       Some err \<Rightarrow> ret (no_requeue, Some err)
                                     | None \<Rightarrow> save_and_finish b i remote object' remote')))
                      else
                        bnd (b_SyncDelete b object remote) (\<lambda>(remote', syncErr).
                          case syncErr of
                            Some err \<Rightarrow> ret (no_requeue, Some err)
                          | None \<Rightarrow> save_and_finish b i remote object remote'))))"

section \<open>Traces\<close>

datatype fetch_outcome = Fetch_ok | Fetch_missing | Fetch_failed

datatype ('sp, 'st) event =
    Fetched string fetch_outcome
  | Synced_update bool
  | Synced_delete bool
  | Saved bool
  | Post_saved bool
  | Updated "('sp, 'st) resource" bool
  | Signaled string

text \<open>\<open>relog\<close> carries the library over to the logging world; none of its functions used here look at it.\<close>

definition relog :: "'w k8s \<Rightarrow> ('e list \<times> 'w) k8s" where
  "relog lib =
     \<lparr>AddFinalizer = AddFinalizer lib, RemoveFinalizer = RemoveFinalizer lib,
      ContainsFinalizer = ContainsFinalizer lib, IgnoreNotFound = IgnoreNotFound lib,
      IsNotFound = IsNotFound lib, SetStatusCondition = SetStatusCondition lib,
      FindStatusCondition = FindStatusCondition lib, IsStatusConditionTrue = IsStatusConditionTrue lib,
      IsStatusConditionFalse = IsStatusConditionFalse lib,
      RetryOnConflict = id, k8s_now = (\<lambda>s. k8s_now lib (snd s))\<rparr>"

definition log_bridge ::
  "('sp, 'st, 'r, 'w) Bridge \<Rightarrow> ('sp, 'st, 'r, ('sp, 'st) event list \<times> 'w) Bridge"
where
  "log_bridge b =
     \<lparr>b_Lib = relog (b_Lib b),
      b_Get = (\<lambda>key. unlogged (b_Get b key)),
      b_Update = (\<lambda>obj. logged (\<lambda>res. Updated obj (case res of Inl _ \<Rightarrow> False | Inr _ \<Rightarrow> True)) (b_Update b obj)),
      b_Finalizer = b_Finalizer b, b_IDLabel = b_IDLabel b,
      b_Fetch = (\<lambda>i. logged (\<lambda>res. Fetched i (case res of Inr _ \<Rightarrow> Fetch_ok
         | Inl e \<Rightarrow> if isNotFound b e then Fetch_missing else Fetch_failed)) (b_Fetch b i)),
      b_Save = (\<lambda>remote. logged (\<lambda>e. Saved (e = None)) (b_Save b remote)),
      b_Signal = (\<lambda>i. logged (\<lambda>e. Signaled i) (b_Signal b i)),
      b_SyncUpdate = (\<lambda>obj remote. logged (\<lambda>(_, e). Synced_update (e = None)) (b_SyncUpdate b obj remote)),
      b_SyncDelete = (\<lambda>obj remote. logged (\<lambda>(_, e). Synced_delete (e = None)) (b_SyncDelete b obj remote)),
      b_PostSaveOnDelete =
        map_option (\<lambda>post obj. logged (\<lambda>e. Post_saved (e = None)) (post obj)) (b_PostSaveOnDelete b),
      b_IsNotFound = b_IsNotFound b, b_status_Code = b_status_Code b, b_proto_Equal = b_proto_Equal b\<rparr>"

text \<open>
  \<open>removal_ok\<close>: what must have happened before the finalizer of an object is given up. Either the object
  has no identifier, or the service says that it has no record, or the deletion was synchronised and no
  save and no side effect failed. \<open>last\<close>: no other finalizer is left.
\<close>

definition synced_ok :: "('sp, 'st) event list \<Rightarrow> bool" where
  "synced_ok before \<longleftrightarrow>
     Synced_delete True \<in> set before \<and> Saved False \<notin> set before \<and> Post_saved False \<notin> set before"

definition removal_ok ::
  "string \<Rightarrow> string \<Rightarrow> ('sp, 'st) event list \<Rightarrow> ('sp, 'st) resource \<Rightarrow> bool"
where
  "removal_ok idLabel finalizer before obj \<longleftrightarrow>
     finalizer \<in> set (Finalizers (Meta obj)) \<or>
     (DeletionTimestamp (Meta obj) \<noteq> None \<and>
      (case Labels (Meta obj) idLabel of
         None \<Rightarrow> before = []
       | Some i \<Rightarrow>
           before = [Fetched i Fetch_missing] \<or>
           (synced_ok before \<and> Finalizers (Meta obj) = [])))"

definition signal_ok :: "('sp, 'st) event list \<Rightarrow> string \<Rightarrow> bool" where
  "signal_ok before i \<longleftrightarrow>
     synced_ok before \<and> (\<exists>obj. last before = Updated obj True \<and> Finalizers (Meta obj) = [])"

text \<open>Every write and every signal of a trace is preceded by what it needs.\<close>

definition step_ok :: "string \<Rightarrow> string \<Rightarrow> ('sp, 'st) event list \<Rightarrow> ('sp, 'st) event \<Rightarrow> bool" where
  "step_ok idLabel finalizer before e \<longleftrightarrow>
     (case e of
        Updated obj okay \<Rightarrow> removal_ok idLabel finalizer before obj
      | Signaled i \<Rightarrow> signal_ok before i
      | _ \<Rightarrow> True)"

definition trace_ok :: "string \<Rightarrow> string \<Rightarrow> ('sp, 'st) event list \<Rightarrow> bool" where
  "trace_ok idLabel finalizer evs \<longleftrightarrow>
     (\<forall>k < length evs. step_ok idLabel finalizer (take k evs) (evs ! k))"

lemma trace_ok_Nil [simp]: "trace_ok l f []"
  by (simp add: trace_ok_def)

lemma trace_ok_snoc:
  "trace_ok l f (evs @ [e]) \<longleftrightarrow> trace_ok l f evs \<and> step_ok l f evs e"
  by (auto simp: trace_ok_def nth_append less_Suc_eq)

text \<open>
  The server's answer to a write has the deletion timestamp and the labels that were written: an object
  changed meanwhile is a conflict.
\<close>

definition update_keeps_identity :: "('sp, 'st, 'r, 'w) Bridge \<Rightarrow> bool" where
  "update_keeps_identity b \<longleftrightarrow>
     (\<forall>obj w. wlp (b_Update b obj) (\<lambda>res w'. \<forall>obj'. res = Inr obj' \<longrightarrow>
        DeletionTimestamp (Meta obj') = DeletionTimestamp (Meta obj) \<and> Labels (Meta obj') = Labels (Meta obj)) w)"

text \<open>The finalizer helpers behave as documented.\<close>

definition bridge_finalizers :: "('sp, 'st, 'r, 'w) Bridge \<Rightarrow> bool" where
  "bridge_finalizers b \<longleftrightarrow>
     (\<forall>fs f. AddFinalizer (b_Lib b) fs f = (if f \<in> set fs then (fs, False) else (fs @ [f], True))) \<and>
     (\<forall>fs f. RemoveFinalizer (b_Lib b) fs f = (filter (\<lambda>x. x \<noteq> f) fs, f \<in> set fs)) \<and>
     (\<forall>fs f. ContainsFinalizer (b_Lib b) fs f \<longleftrightarrow> f \<in> set fs)"

lemma log_bridge_simps [simp]:
  "b_Finalizer (log_bridge b) = b_Finalizer b" "b_IDLabel (log_bridge b) = b_IDLabel b"
  "isNotFound (log_bridge b) = isNotFound b" "b_proto_Equal (log_bridge b) = b_proto_Equal b"
  "b_Lib (log_bridge b) = relog (b_Lib b)" "RemoveFinalizer (relog lib) = RemoveFinalizer lib"
  "AddFinalizer (relog lib) = AddFinalizer lib" "ContainsFinalizer (relog lib) = ContainsFinalizer lib"
  by (simp_all add: log_bridge_def relog_def isNotFound_def fun_eq_iff split: option.split)

lemma log_bridge_post:
  "b_PostSaveOnDelete (log_bridge b) =
     map_option (\<lambda>post obj. logged (\<lambda>e. Post_saved (e = None)) (post obj)) (b_PostSaveOnDelete b)"
  by (simp add: log_bridge_def)

lemma wlp_log_ops:
  "wlp (b_Get (log_bridge b) key) Q1 = (\<lambda>(log, w). wlp (b_Get b key) (\<lambda>x w'. Q1 x (log, w')) w)"
  "wlp (b_Update (log_bridge b) obj) Q2 = (\<lambda>(log, w). wlp (b_Update b obj) (\<lambda>x w'.
     Q2 x (log @ [Updated obj (case x of Inl _ \<Rightarrow> False | Inr _ \<Rightarrow> True)], w')) w)"
  "wlp (b_Fetch (log_bridge b) i) Q3 = (\<lambda>(log, w). wlp (b_Fetch b i) (\<lambda>x w'.
     Q3 x (log @ [Fetched i (case x of Inr _ \<Rightarrow> Fetch_ok
         | Inl e \<Rightarrow> if isNotFound b e then Fetch_missing else Fetch_failed)], w')) w)"
  "wlp (b_Save (log_bridge b) remote) Q4 = (\<lambda>(log, w). wlp (b_Save b remote) (\<lambda>x w'. Q4 x (log @ [Saved (x = None)], w')) w)"
  "wlp (b_Signal (log_bridge b) i) Q5 = (\<lambda>(log, w). wlp (b_Signal b i) (\<lambda>x w'. Q5 x (log @ [Signaled i], w')) w)"
  "wlp (b_SyncUpdate (log_bridge b) obj remote) Q6 = (\<lambda>(log, w). wlp (b_SyncUpdate b obj remote) (\<lambda>x w'.
     Q6 x (log @ [Synced_update (snd x = None)], w')) w)"
  "wlp (b_SyncDelete (log_bridge b) obj remote) Q7 = (\<lambda>(log, w). wlp (b_SyncDelete b obj remote) (\<lambda>x w'.
     Q7 x (log @ [Synced_delete (snd x = None)], w')) w)"
  by (simp_all add: log_bridge_def wlp_logged wlp_unlogged case_prod_unfold)

lemma remove_and_update_trace:
  assumes "bridge_finalizers b" and "trace_ok l f evs" and "f = b_Finalizer b"
    and "f \<in> set (Finalizers (Meta obj)) \<Longrightarrow>
      removal_ok l f evs (set_finalizers (filter (\<lambda>x. x \<noteq> f) (Finalizers (Meta obj))) obj)"
  shows "wlp (remove_and_update (log_bridge b) obj) (\<lambda>e (log, w'). trace_ok l f log \<and>
     (f \<in> set (Finalizers (Meta obj)) \<longrightarrow> e = None \<longrightarrow>
        log = evs @ [Updated (set_finalizers (filter (\<lambda>x. x \<noteq> f) (Finalizers (Meta obj))) obj) True])) (evs, w)"
proof -
  let ?obj = "set_finalizers (filter (\<lambda>x. x \<noteq> f) (Finalizers (Meta obj))) obj"
  have "wlp (bnd (b_Update (log_bridge b) ?obj) (\<lambda>res. case res of Inl err \<Rightarrow> ret (Some err) | Inr _ \<Rightarrow> ret None))
      (\<lambda>e (log, w'). trace_ok l f log \<and> (e = None \<longrightarrow> log = evs @ [Updated ?obj True])) (evs, w)"
    if "f \<in> set (Finalizers (Meta obj))"
    unfolding wlp_bnd wlp_log_ops prod.case
    by (rule wlp_mono [OF wlp_True])
      (use assms(2,4) that in \<open>auto simp: wlp_ret trace_ok_snoc step_ok_def split: sum.split\<close>)
  then show ?thesis
    using assms(1-3) by (simp add: remove_and_update_def bridge_finalizers_def wlp_ret)
qed

lemma finish_delete_trace:
  assumes "bridge_finalizers b" and "trace_ok (b_IDLabel b) (b_Finalizer b) evs"
    and "DeletionTimestamp (Meta obj) \<noteq> None \<Longrightarrow> synced_ok evs" and "Labels (Meta obj) (b_IDLabel b) = Some i"
  shows "wlp (finish_delete (log_bridge b) i obj) (\<lambda>_ (log, w'). trace_ok (b_IDLabel b) (b_Finalizer b) log) (evs, w)"
proof -
  let ?f = "b_Finalizer b"
  let ?obj = "set_finalizers (filter (\<lambda>x. x \<noteq> ?f) (Finalizers (Meta obj))) obj"
  have "wlp (bnd (remove_and_update (log_bridge b) obj) (\<lambda>e. case e of Some err \<Rightarrow> ret (no_requeue, Some err)
       | None \<Rightarrow> bnd (b_Signal (log_bridge b) i) (\<lambda>signalErr. ret (no_requeue, None))))
      (\<lambda>_ (log, w'). trace_ok (b_IDLabel b) ?f log) (evs, w)"
    if d: "DeletionTimestamp (Meta obj) \<noteq> None" and fs: "?f \<in> set (Finalizers (Meta obj))" "length (Finalizers (Meta obj)) = 1"
  proof -
    have fins: "Finalizers (Meta obj) = [?f]" using fs by (cases "Finalizers (Meta obj)") auto
    have rem: "removal_ok (b_IDLabel b) ?f evs ?obj"
      using assms(3) [OF d] assms(4) d by (auto simp: removal_ok_def fins set_finalizers_def)
    have sig: "step_ok (b_IDLabel b) ?f (evs @ [Updated ?obj True]) (Signaled i)"
      using assms(3) [OF d] by (simp add: step_ok_def signal_ok_def synced_ok_def fins set_finalizers_def)
    show ?thesis
      unfolding wlp_bnd [of "remove_and_update _ _"]
    proof (rule wlp_mono [OF remove_and_update_trace [OF assms(1,2) refl rem]], goal_cases)
      case (1 e s)
      then show ?case
        using fs sig by (cases s) (auto simp: wlp_ret wlp_bnd wlp_log_ops trace_ok_snoc split: option.split)
    qed
  qed
  then show ?thesis
    using assms(1,2) by (auto simp: finish_delete_def wlp_ret bridge_finalizers_def)
qed

lemma save_and_finish_trace:
  assumes "bridge_finalizers b" and "trace_ok (b_IDLabel b) (b_Finalizer b) evs"
    and sync: "DeletionTimestamp (Meta obj) \<noteq> None \<Longrightarrow> synced_ok evs"
    and "Labels (Meta obj) (b_IDLabel b) = Some i"
  shows "wlp (save_and_finish (log_bridge b) i before obj remote)
     (\<lambda>_ (log, w'). trace_ok (b_IDLabel b) (b_Finalizer b) log) (evs, w)"
proof -
  let ?ok = "\<lambda>log. trace_ok (b_IDLabel b) (b_Finalizer b) log \<and> (DeletionTimestamp (Meta obj) \<noteq> None \<longrightarrow> synced_ok log)"
  have fin: "wlp (finish_delete (log_bridge b) i obj) (\<lambda>_ (log, w'). trace_ok (b_IDLabel b) (b_Finalizer b) log) (log, w')"
    if "?ok log" for log w'
    using that assms(4) by (intro finish_delete_trace [OF assms(1)]) auto
  have post: "wlp (case (DeletionTimestamp (Meta obj) \<noteq> None, b_PostSaveOnDelete (log_bridge b)) of
        (True, Some post) \<Rightarrow> bnd (post obj) (\<lambda>postErr. case postErr of
           Some err \<Rightarrow> ret (no_requeue, Some err) | None \<Rightarrow> finish_delete (log_bridge b) i obj)
      | _ \<Rightarrow> finish_delete (log_bridge b) i obj)
     (\<lambda>_ (log, w'). trace_ok (b_IDLabel b) (b_Finalizer b) log) (log, w')"
    if "?ok log" for log w'
  proof (cases "DeletionTimestamp (Meta obj) \<noteq> None \<and> b_PostSaveOnDelete b \<noteq> None")
    case True
    then obtain p where p: "b_PostSaveOnDelete b = Some p" by blast
    have "wlp (bnd (logged (\<lambda>e. Post_saved (e = None)) (p obj)) (\<lambda>postErr. case postErr of
           Some err \<Rightarrow> ret (no_requeue, Some err) | None \<Rightarrow> finish_delete (log_bridge b) i obj))
        (\<lambda>_ (log, w'). trace_ok (b_IDLabel b) (b_Finalizer b) log) (log, w')"
      unfolding wlp_bnd wlp_logged prod.case
      by (rule wlp_mono [OF wlp_True])
        (use that True in \<open>auto simp: wlp_ret trace_ok_snoc step_ok_def synced_ok_def split: option.split intro!: fin\<close>)
    with True p show ?thesis by (simp add: log_bridge_post)
  next
    case False
    with fin [OF that] show ?thesis by (auto simp: log_bridge_post split: option.split bool.split)
  qed
  show ?thesis
  proof (cases "b_proto_Equal b before remote")
    case True
    with post [of evs w] assms(2) sync show ?thesis by (simp add: save_and_finish_def wlp_bnd wlp_ret)
  next
    case False
    have saved: "wlp (b_Save (log_bridge b) remote) (\<lambda>e (log, w'). trace_ok (b_IDLabel b) (b_Finalizer b) log \<and> (e = None \<longrightarrow> ?ok log)) (evs, w)"
      unfolding wlp_log_ops prod.case
      by (rule wlp_mono [OF wlp_True]) (use assms(2) sync in \<open>auto simp: trace_ok_snoc step_ok_def synced_ok_def\<close>)
    have eq: "(if \<not> b_proto_Equal (log_bridge b) before remote then b_Save (log_bridge b) remote else ret None)
        = b_Save (log_bridge b) remote" using False by simp
    show ?thesis
      unfolding save_and_finish_def eq wlp_bnd [of "b_Save _ _"]
    proof (rule wlp_mono [OF saved], goal_cases)
      case (1 e s)
      obtain log v where s: "s = (log, v)" by (cases s)
      show ?case
      proof (cases e)
        case None
        then show ?thesis using 1 post [of log v] by (simp only: s option.case prod.case) blast
      qed (use 1 s in \<open>simp add: wlp_ret\<close>)
    qed
  qed
qed

lemma give_up_trace:
  assumes "bridge_finalizers b" and "trace_ok (b_IDLabel b) (b_Finalizer b) evs"
    and "DeletionTimestamp (Meta obj) \<noteq> None"
    and "case Labels (Meta obj) (b_IDLabel b) of None \<Rightarrow> evs = [] | Some i \<Rightarrow> evs = [Fetched i Fetch_missing]"
  shows "wlp (bnd (remove_and_update (log_bridge b) obj) (\<lambda>e. ret (no_requeue, e)))
     (\<lambda>_ (log, w'). trace_ok (b_IDLabel b) (b_Finalizer b) log) (evs, w)"
  unfolding wlp_bnd wlp_ret
  by (rule wlp_mono [OF remove_and_update_trace [OF assms(1,2) refl]])
    (use assms(3,4) in \<open>auto simp: removal_ok_def set_finalizers_def split: option.splits\<close>)

lemma update_path_trace:
  assumes b: "bridge_finalizers b" and keeps: "update_keeps_identity b" and "DeletionTimestamp (Meta obj) = None"
    and "Labels (Meta obj) (b_IDLabel b) = Some i"
    and evs: "trace_ok (b_IDLabel b) (b_Finalizer b) evs"
  shows "wlp (case AddFinalizer (b_Lib (log_bridge b)) (Finalizers (Meta obj)) (b_Finalizer (log_bridge b)) of
       (fs, changed) \<Rightarrow> bnd (if changed then b_Update (log_bridge b) (set_finalizers fs obj)
            else ret (Inr (set_finalizers fs obj))) (\<lambda>upd. case upd of
          Inl err \<Rightarrow> ret (no_requeue, Some err)
        | Inr obj' \<Rightarrow> bnd (b_SyncUpdate (log_bridge b) obj' remote) (\<lambda>(remote', syncErr). case syncErr of
             Some err \<Rightarrow> ret (no_requeue, Some err)
           | None \<Rightarrow> save_and_finish (log_bridge b) i remote obj' remote')))
     (\<lambda>_ (log, w'). trace_ok (b_IDLabel b) (b_Finalizer b) log) (evs, w)"
proof -
  let ?ok = "\<lambda>log. trace_ok (b_IDLabel b) (b_Finalizer b) log"
  have sync: "wlp (bnd (b_SyncUpdate (log_bridge b) obj' remote) (\<lambda>(remote', syncErr). case syncErr of
        Some err \<Rightarrow> ret (no_requeue, Some err) | None \<Rightarrow> save_and_finish (log_bridge b) i remote obj' remote'))
      (\<lambda>_ (log, w'). ?ok log) (log, w')"
    if "?ok log" "DeletionTimestamp (Meta obj') = None" "Labels (Meta obj') (b_IDLabel b) = Some i" for obj' log w'
    unfolding wlp_bnd wlp_log_ops prod.case
    by (rule wlp_mono [OF wlp_True])
      (use that in \<open>auto simp: wlp_ret trace_ok_snoc step_ok_def split: prod.split option.split
         intro!: save_and_finish_trace [OF b]\<close>)
  have upd: "wlp (b_Update b x) (\<lambda>res w'. \<forall>obj'. res = Inr obj' \<longrightarrow>
      DeletionTimestamp (Meta obj') = DeletionTimestamp (Meta x) \<and> Labels (Meta obj') = Labels (Meta x)) v" for x v
    using keeps unfolding update_keeps_identity_def by blast
  have "wlp (bnd (b_Update (log_bridge b) x) (\<lambda>upd. case upd of Inl err \<Rightarrow> ret (no_requeue, Some err)
        | Inr obj' \<Rightarrow> bnd (b_SyncUpdate (log_bridge b) obj' remote) (\<lambda>(remote', syncErr). case syncErr of
             Some err \<Rightarrow> ret (no_requeue, Some err)
           | None \<Rightarrow> save_and_finish (log_bridge b) i remote obj' remote')))
      (\<lambda>_ (log, w'). ?ok log) (evs, w)"
    if "b_Finalizer b \<in> set (Finalizers (Meta x))" "DeletionTimestamp (Meta x) = None" "Labels (Meta x) (b_IDLabel b) = Some i" for x
    unfolding wlp_bnd [of "b_Update _ _"] wlp_log_ops(2) prod.case
    by (rule wlp_mono [OF upd])
      (use that evs in \<open>auto simp: wlp_ret trace_ok_snoc step_ok_def removal_ok_def split: sum.split intro!: sync\<close>)
  then show ?thesis
    using b assms(3,4) sync evs by (auto simp: bridge_finalizers_def wlp_bnd wlp_ret set_finalizers_def)
qed

lemma trace_ok_start:
  "trace_ok l f [Fetched i x]" "trace_ok l f [Fetched i x, Synced_delete y]"
  by (auto simp: trace_ok_def step_ok_def less_Suc_eq)

lemma Reconcile_trace:
  fixes b :: "('sp, 'st, 'r, 'w) Bridge"
  assumes b: "bridge_finalizers b" and keeps: "update_keeps_identity b"
  shows "wlp (Bridge_Reconcile (log_bridge b) key) (\<lambda>_ (log, w'). trace_ok (b_IDLabel b) (b_Finalizer b) log) ([], w)"
proof -
  let ?post = "\<lambda>_ (log, w'). trace_ok (b_IDLabel b) (b_Finalizer b) log"
  have one: "trace_ok (b_IDLabel b) (b_Finalizer b) [Fetched i x :: ('sp, 'st) event]" for i x by (rule trace_ok_start)
  have delete: "wlp (bnd (b_SyncDelete (log_bridge b) obj remote) (\<lambda>(remote', syncErr). case syncErr of
        Some err \<Rightarrow> ret (no_requeue, Some err) | None \<Rightarrow> save_and_finish (log_bridge b) i remote obj remote'))
      ?post ([Fetched i Fetch_ok], w')" if "Labels (Meta obj) (b_IDLabel b) = Some i" for obj remote i w'
    unfolding wlp_bnd wlp_log_ops prod.case
    by (rule wlp_mono [OF wlp_True])
      (use that in \<open>auto simp: wlp_ret trace_ok_start synced_ok_def split: prod.split option.split
         intro!: save_and_finish_trace [OF b]\<close>)
  have fetched: "wlp (case fetched of
        Inl err \<Rightarrow> if DeletionTimestamp (Meta obj) \<noteq> None \<and> isNotFound (log_bridge b) err
          then bnd (remove_and_update (log_bridge b) obj) (\<lambda>e. ret (no_requeue, e)) else ret (no_requeue, Some err)
      | Inr remote \<Rightarrow> if DeletionTimestamp (Meta obj) = None then
          (case AddFinalizer (b_Lib (log_bridge b)) (Finalizers (Meta obj)) (b_Finalizer (log_bridge b)) of
            (fs, changed) \<Rightarrow> bnd (if changed then b_Update (log_bridge b) (set_finalizers fs obj)
                else ret (Inr (set_finalizers fs obj))) (\<lambda>upd. case upd of
              Inl err \<Rightarrow> ret (no_requeue, Some err)
            | Inr obj' \<Rightarrow> bnd (b_SyncUpdate (log_bridge b) obj' remote) (\<lambda>(remote', syncErr). case syncErr of
                 Some err \<Rightarrow> ret (no_requeue, Some err)
               | None \<Rightarrow> save_and_finish (log_bridge b) i remote obj' remote')))
          else bnd (b_SyncDelete (log_bridge b) obj remote) (\<lambda>(remote', syncErr). case syncErr of
            Some err \<Rightarrow> ret (no_requeue, Some err) | None \<Rightarrow> save_and_finish (log_bridge b) i remote obj remote'))
      ?post ([Fetched i (case fetched of Inr _ \<Rightarrow> Fetch_ok
         | Inl e \<Rightarrow> if isNotFound b e then Fetch_missing else Fetch_failed)], w')"
    if "Labels (Meta obj) (b_IDLabel b) = Some i" for obj i fetched w'
    using that one give_up_trace [OF b one, of obj i Fetch_missing w']
      update_path_trace [OF b keeps _ that one] delete [OF that]
    by (cases fetched) (simp_all add: wlp_ret)
  show ?thesis
    unfolding Bridge_Reconcile_def wlp_bnd [of "b_Get _ _"] wlp_log_ops(1) prod.case
  proof (rule wlp_mono [OF wlp_True], goal_cases)
    case (1 got w')
    have "wlp (bnd (b_Fetch (log_bridge b) i) k) ?post ([], w')"
      if "\<And>fetched w''. wlp (k fetched) ?post ([Fetched i (case fetched of Inr _ \<Rightarrow> Fetch_ok
         | Inl e \<Rightarrow> if isNotFound b e then Fetch_missing else Fetch_failed)], w'')" for i k
      unfolding wlp_bnd wlp_log_ops(3) prod.case by (rule wlp_mono [OF wlp_True]) (simp add: that)
    note fetch = this
    show ?case
    proof (cases got)
      case (Inr obj)
      show ?thesis
      proof (cases "Labels (Meta obj) (b_IDLabel b)")
        case None
        then show ?thesis
          using give_up_trace [OF b, of "[]" obj w'] by (simp add: Inr wlp_ret)
      next
        case (Some i)
        then show ?thesis
          unfolding Inr sum.case log_bridge_simps(2) Some option.case
          by (intro fetch fetched [OF Some])
      qed
    qed (simp add: wlp_ret)
  qed
qed

section \<open>The log is a ghost\<close>

text \<open>A bridge that logs its calls reconciles exactly as the bridge itself.\<close>

lemma ghost_ops [simp]:
  "ghost (b_Get (log_bridge b) key) (b_Get b key)" "ghost (b_Update (log_bridge b) obj) (b_Update b obj)"
  "ghost (b_Fetch (log_bridge b) i) (b_Fetch b i)" "ghost (b_Save (log_bridge b) remote) (b_Save b remote)"
  "ghost (b_Signal (log_bridge b) i) (b_Signal b i)"
  "ghost (b_SyncUpdate (log_bridge b) obj remote) (b_SyncUpdate b obj remote)"
  "ghost (b_SyncDelete (log_bridge b) obj remote) (b_SyncDelete b obj remote)"
  by (simp_all add: log_bridge_def)

lemma ghost_remove: "ghost (remove_and_update (log_bridge b) obj) (remove_and_update b obj)"
  by (auto simp: remove_and_update_def split: prod.split sum.split intro!: ghost_bnd)

lemma ghost_finish: "ghost (finish_delete (log_bridge b) i obj) (finish_delete b i obj)"
  by (auto simp: finish_delete_def ghost_remove split: option.split intro!: ghost_bnd)

lemma ghost_save: "ghost (save_and_finish (log_bridge b) i before obj remote) (save_and_finish b i before obj remote)"
  unfolding save_and_finish_def
  by (rule ghost_bnd)
    (auto simp: ghost_finish log_bridge_post split: option.split bool.split intro!: ghost_bnd)

lemma relog_ignore [simp]: "IgnoreNotFound (relog lib) = IgnoreNotFound lib"
  by (simp add: relog_def)

lemma ghost_Reconcile: "ghost (Bridge_Reconcile (log_bridge b) key) (Bridge_Reconcile b key)"
  unfolding Bridge_Reconcile_def
  by (rule ghost_bnd)
    (auto simp: ghost_remove ghost_save split: option.split sum.split prod.split intro!: ghost_bnd)

section \<open>Properties\<close>

text \<open>
  C36: the order of the calls of a feedback reconciliation. The calls it makes can be recorded in a log that
  changes nothing else, and in that log every write of the object keeps the feedback finalizer unless the
  object is being deleted and either has no identifier, or the service has just said that it has no record,
  or the deletion was synchronised, neither a save nor the side effects after it failed and no other
  finalizer is left; and the service is signalled only right after a successful write of that last kind.
\<close>

theorem feedback_order:
  assumes "bridge_finalizers b" and "update_keeps_identity b" and "Bridge_Reconcile b key w = Some (out, w')"
  shows "\<exists>log. Bridge_Reconcile (log_bridge b) key ([], w) = Some (out, (log, w')) \<and>
     trace_ok (b_IDLabel b) (b_Finalizer b) log"
proof -
  obtain log where run: "Bridge_Reconcile (log_bridge b) key ([], w) = Some (out, (log, w'))"
    using ghostD [OF ghost_Reconcile assms(3)] by blast
  with wlpD [OF Reconcile_trace [OF assms(1,2)] run] show ?thesis by auto
qed

text \<open>
  A bridge whose resource is being deleted with only the feedback finalizer left; the world is the number
  of calls made.
\<close>

definition sample_deleted :: "(unit, unit) resource" where
  "sample_deleted = \<lparr>Meta = \<lparr>Name = ''n'', Namespace = ''ns'', Labels = [''id'' \<mapsto> ''7''], Annotations = Map.empty,
     Finalizers = [''feedback''], DeletionTimestamp = Some 1\<rparr>, Spec = (), Status = ()\<rparr>"

definition sample_bridge :: "(unit, unit, nat, nat) Bridge" where
  "sample_bridge =
     \<lparr>b_Lib = sample_lib int, b_Get = (\<lambda>key n. Some (Inr sample_deleted, Suc n)),
      b_Update = (\<lambda>obj n. Some (Inr obj, Suc n)), b_Finalizer = ''feedback'', b_IDLabel = ''id'',
      b_Fetch = (\<lambda>i n. Some (Inr 0, Suc n)), b_Save = (\<lambda>r n. Some (None, Suc n)),
      b_Signal = (\<lambda>i n. Some (None, Suc n)),
      b_SyncUpdate = (\<lambda>obj r n. Some ((r, None), Suc n)), b_SyncDelete = (\<lambda>obj r n. Some ((Suc r, None), Suc n)),
      b_PostSaveOnDelete = None, b_IsNotFound = None, b_status_Code = (\<lambda>e. 2), b_proto_Equal = (=)\<rparr>"

theorem feedback_order_witness:
  "\<exists>log. Bridge_Reconcile (log_bridge sample_bridge) (''ns'', ''n'') ([], 0) = Some ((no_requeue, None), (log, 6)) \<and>
     trace_ok ''id'' ''feedback'' log"
proof -
  have b: "bridge_finalizers sample_bridge" and k: "update_keeps_identity sample_bridge"
    by (auto simp: bridge_finalizers_def update_keeps_identity_def sample_bridge_def sample_lib_def wlp_def)
  have "Bridge_Reconcile sample_bridge (''ns'', ''n'') 0 = Some ((no_requeue, None), 6)"
    by (simp add: Bridge_Reconcile_def save_and_finish_def finish_delete_def remove_and_update_def sample_bridge_def
        sample_lib_def sample_deleted_def set_finalizers_def go_simps)
  from feedback_order [OF b k this] show ?thesis by (simp add: sample_bridge_def)
qed

end
