(* ===== verification/Feedback_Kinds.thy ===== *)
theory Feedback_Kinds
  imports Feedback_Bridge Networks External_IPs
begin

text \<open>
  The feedback controllers of the networking kinds that use the bridge (\<^verbatim>\<open>subnet_feedback_controller.go\<close>,
  \<^verbatim>\<open>virtualnetwork_feedback_controller.go\<close>, \<^verbatim>\<open>securitygroup_feedback_controller.go\<close>, \<^verbatim>\<open>natgateway_feedback_controller.go\<close>,
  \<^verbatim>\<open>externalippool_feedback_controller.go\<close>) and the one of the external IPs, which repeats the bridge by hand
  (\<^verbatim>\<open>externalip_feedback_controller.go\<close>).

  A record of the fulfillment service is a protocol buffer whose spec and status may be missing; a setter called on a
  missing status panics. Only the fields of a status that some code here touches are named, the others are the
  extension of the record. The gRPC clients with \<^verbatim>\<open>status.Code\<close> and \<^verbatim>\<open>proto.Equal\<close> are parameters.
\<close>

section \<open>Records of the fulfillment service\<close>

text \<open>The states of all kinds; the generated enumerations differ in their prefixes and in which of the states they have.\<close>

datatype remote_state =
    STATE_UNSPECIFIED | STATE_PENDING | STATE_READY | STATE_FAILED | STATE_DELETING | STATE_DELETE_FAILED | STATE_ALLOCATED

record remote_status =
  rs_State :: remote_state
  rs_Message :: "string option"

record ('ps, 'pt) remote =
  ro_Id :: string
  ro_Spec :: "'ps option"
  ro_Status :: "'pt option"

record ('ps, 'pt, 'w) grpc_client =
  gc_Get :: "string \<Rightarrow> ('w, gerror + ('ps, 'pt) remote option) go"
  gc_Update :: "('ps, 'pt) remote \<Rightarrow> ('w, gerror option) go"
  gc_Signal :: "string \<Rightarrow> ('w, gerror option) go"
  gc_status_Code :: "gerror \<Rightarrow> nat"
  gc_proto_Equal :: "('ps, 'pt) remote \<Rightarrow> ('ps, 'pt) remote \<Rightarrow> bool"

text \<open>An empty spec or status is put where there is none; \<open>sp0\<close> and \<open>st0\<close> are the empty messages.\<close>

definition fill_remote :: "'ps \<Rightarrow> 'pt \<Rightarrow> ('ps, 'pt) remote \<Rightarrow> ('ps, 'pt) remote" where
  "fill_remote sp0 st0 r =
     r\<lparr>ro_Spec := Some (case ro_Spec r of None \<Rightarrow> sp0 | Some x \<Rightarrow> x),
       ro_Status := Some (case ro_Status r of None \<Rightarrow> st0 | Some x \<Rightarrow> x)\<rparr>"

definition fetch_remote ::
  "('ps, 'pt, 'w) grpc_client \<Rightarrow> string \<Rightarrow> 'ps \<Rightarrow> 'pt \<Rightarrow> string \<Rightarrow> ('w, gerror + ('ps, 'pt) remote) go"
where
  "fetch_remote c nil_message sp0 st0 i =
     bnd (gc_Get c i) (\<lambda>response.
       case response of
         Inl err \<Rightarrow> ret (Inl err)
       | Inr None \<Rightarrow> ret (Inl (Errorf nil_message []))
       | Inr (Some obj) \<Rightarrow> ret (Inr (fill_remote sp0 st0 obj)))"

text \<open>\<^verbatim>\<open>remote.GetStatus().Set\<dots>\<close>: a panic if there is no status.\<close>

definition on_status :: "('pt \<Rightarrow> 'pt) \<Rightarrow> ('ps, 'pt) remote \<Rightarrow> ('w, ('ps, 'pt) remote) go" where
  "on_status f r = (case ro_Status r of None \<Rightarrow> panic | Some st \<Rightarrow> ret (r\<lparr>ro_Status := Some (f st)\<rparr>))"

definition SetState ::
  "remote_state \<Rightarrow> ('ps, 'm remote_status_scheme) remote \<Rightarrow> ('w, ('ps, 'm remote_status_scheme) remote) go"
where
  "SetState s = on_status (\<lambda>st. st\<lparr>rs_State := s\<rparr>)"

definition no_sync_error :: "('w, 'r) go \<Rightarrow> ('w, 'r \<times> gerror option) go" where
  "no_sync_error m = bnd m (\<lambda>r. ret (r, None))"

text \<open>The client of the hub as the reconcilers use it.\<close>

record ('sp, 'st, 'w) hub_client =
  hub_Lib :: "'w k8s"
  hub_Get :: "ObjectKey \<Rightarrow> ('w, gerror + ('sp, 'st) resource) go"
  hub_Update :: "('sp, 'st) resource \<Rightarrow> ('w, gerror + ('sp, 'st) resource) go"

definition make_bridge ::
  "('sp, 'st, 'w) hub_client \<Rightarrow> ('ps, 'pt, 'w) grpc_client \<Rightarrow> string \<Rightarrow> string \<Rightarrow>
   (string \<Rightarrow> ('w, gerror + ('ps, 'pt) remote) go) \<Rightarrow>
   (('sp, 'st) resource \<Rightarrow> ('ps, 'pt) remote \<Rightarrow> ('w, ('ps, 'pt) remote \<times> gerror option) go) \<Rightarrow>
   (('sp, 'st) resource \<Rightarrow> ('ps, 'pt) remote \<Rightarrow> ('w, ('ps, 'pt) remote \<times> gerror option) go) \<Rightarrow>
   ('sp, 'st, ('ps, 'pt) remote, 'w) Bridge"
where
  "make_bridge hubClient c finalizer idLabel fetch syncUpdate syncDelete =
     \<lparr>b_Lib = hub_Lib hubClient, b_Get = hub_Get hubClient, b_Update = hub_Update hubClient,
      b_Finalizer = finalizer, b_IDLabel = idLabel, b_Fetch = fetch, b_Save = gc_Update c, b_Signal = gc_Signal c,
      b_SyncUpdate = syncUpdate, b_SyncDelete = syncDelete, b_PostSaveOnDelete = None, b_IsNotFound = None,
      b_status_Code = gc_status_Code c, b_proto_Equal = gc_proto_Equal c\<rparr>"

section \<open>Subnet\<close>

definition osacSubnetFeedbackFinalizer :: string where
  "osacSubnetFeedbackFinalizer = ''osac.openshift.io/subnet-feedback''"

definition osacSubnetIDLabel :: string where
  "osacSubnetIDLabel = ''osac.openshift.io/subnet-uuid''"

definition syncSubnetPhase ::
  "Subnet \<Rightarrow> ('ps, 'm remote_status_scheme) remote \<Rightarrow> ('w, ('ps, 'm remote_status_scheme) remote) go"
where
  "syncSubnetPhase obj remote =
     (case Phase (Status obj) of
        PhaseProgressing \<Rightarrow> SetState STATE_PENDING remote
      | PhaseFailed \<Rightarrow> SetState STATE_FAILED remote
      | PhaseReady \<Rightarrow> SetState STATE_READY remote
      | PhaseDeleting \<Rightarrow> SetState STATE_DELETING remote
      | _ \<Rightarrow> ret remote)"

definition syncSubnetBackendNetworkID ::
  "Subnet \<Rightarrow> ('ps, 'm remote_status_scheme) remote \<Rightarrow> ('w, ('ps, 'm remote_status_scheme) remote) go"
where
  "syncSubnetBackendNetworkID obj remote =
     (if sn_BackendNetworkID (Status obj) \<noteq> ''''
      then on_status (\<lambda>st. st\<lparr>rs_Message := Some (sn_BackendNetworkID (Status obj))\<rparr>) remote else ret remote)"

definition syncSubnetUpdate ::
  "Subnet \<Rightarrow> ('ps, 'm remote_status_scheme) remote \<Rightarrow> ('w, ('ps, 'm remote_status_scheme) remote \<times> gerror option) go"
where
  "syncSubnetUpdate obj remote = no_sync_error (bnd (syncSubnetPhase obj remote) (syncSubnetBackendNetworkID obj))"

definition syncSubnetDelete ::
  "Subnet \<Rightarrow> ('ps, 'm remote_status_scheme) remote \<Rightarrow> ('w, ('ps, 'm remote_status_scheme) remote \<times> gerror option) go"
where
  "syncSubnetDelete obj remote =
     no_sync_error (SetState (if Phase (Status obj) = PhaseFailed then STATE_DELETE_FAILED else STATE_DELETING) remote)"

definition NewSubnetFeedbackReconciler ::
  "(SubnetSpec, SubnetStatus, 'w) hub_client \<Rightarrow> ('ps, 'm remote_status_scheme, 'w) grpc_client \<Rightarrow> 'ps \<Rightarrow> 'm remote_status_scheme \<Rightarrow>
   (SubnetSpec, SubnetStatus, ('ps, 'm remote_status_scheme) remote, 'w) Bridge"
where
  "NewSubnetFeedbackReconciler hubClient subnetsClient sp0 st0 =
     make_bridge hubClient subnetsClient osacSubnetFeedbackFinalizer osacSubnetIDLabel
       (fetch_remote subnetsClient ''subnet response contained nil object'' sp0 st0) syncSubnetUpdate syncSubnetDelete"

section \<open>VirtualNetwork\<close>

definition osacVirtualNetworkFeedbackFinalizer :: string where
  "osacVirtualNetworkFeedbackFinalizer = ''osac.openshift.io/virtualnetwork-feedback''"

definition syncVirtualNetworkPhase ::
  "VirtualNetwork \<Rightarrow> ('ps, 'm remote_status_scheme) remote \<Rightarrow> ('w, ('ps, 'm remote_status_scheme) remote) go"
where
  "syncVirtualNetworkPhase obj remote =
     (case Phase (Status obj) of
        PhaseProgressing \<Rightarrow> SetState STATE_PENDING remote
      | PhaseFailed \<Rightarrow> SetState STATE_FAILED remote
      | PhaseReady \<Rightarrow> SetState STATE_READY remote
      | PhaseDeleting \<Rightarrow> SetState STATE_PENDING remote
      | _ \<Rightarrow> ret remote)"

definition syncVirtualNetworkUpdate ::
  "VirtualNetwork \<Rightarrow> ('ps, 'm remote_status_scheme) remote \<Rightarrow> ('w, ('ps, 'm remote_status_scheme) remote \<times> gerror option) go"
where
  "syncVirtualNetworkUpdate obj remote = no_sync_error (syncVirtualNetworkPhase obj remote)"

definition syncVirtualNetworkDelete ::
  "VirtualNetwork \<Rightarrow> ('ps, 'm remote_status_scheme) remote \<Rightarrow> ('w, ('ps, 'm remote_status_scheme) remote \<times> gerror option) go"
where
  "syncVirtualNetworkDelete obj remote =
     no_sync_error (SetState (if Phase (Status obj) = PhaseFailed then STATE_FAILED else STATE_PENDING) remote)"

definition NewVirtualNetworkFeedbackReconciler ::
  "(VirtualNetworkSpec, VirtualNetworkStatus, 'w) hub_client \<Rightarrow> ('ps, 'm remote_status_scheme, 'w) grpc_client \<Rightarrow> 'ps \<Rightarrow> 'm remote_status_scheme \<Rightarrow>
   (VirtualNetworkSpec, VirtualNetworkStatus, ('ps, 'm remote_status_scheme) remote, 'w) Bridge"
where
  "NewVirtualNetworkFeedbackReconciler hubClient vnClient sp0 st0 =
     make_bridge hubClient vnClient osacVirtualNetworkFeedbackFinalizer osacVirtualNetworkIDLabel
       (fetch_remote vnClient ''virtual network response contained nil object'' sp0 st0)
       syncVirtualNetworkUpdate syncVirtualNetworkDelete"

section \<open>SecurityGroup\<close>

definition osacSecurityGroupFeedbackFinalizer :: string where
  "osacSecurityGroupFeedbackFinalizer = ''osac.openshift.io/securitygroup-feedback''"

definition osacSecurityGroupIDLabel :: string where
  "osacSecurityGroupIDLabel = ''osac.openshift.io/securitygroup-uuid''"

definition syncSecurityGroupPhase ::
  "SecurityGroup \<Rightarrow> ('ps, 'm remote_status_scheme) remote \<Rightarrow> ('w, ('ps, 'm remote_status_scheme) remote) go"
where
  "syncSecurityGroupPhase obj remote =
     (case Phase (Status obj) of
        PhaseProgressing \<Rightarrow> SetState STATE_PENDING remote
      | PhaseFailed \<Rightarrow> SetState STATE_FAILED remote
      | PhaseReady \<Rightarrow> SetState STATE_READY remote
      | PhaseDeleting \<Rightarrow> SetState STATE_DELETING remote
      | _ \<Rightarrow> ret remote)"

definition syncSecurityGroupUpdate ::
  "SecurityGroup \<Rightarrow> ('ps, 'm remote_status_scheme) remote \<Rightarrow> ('w, ('ps, 'm remote_status_scheme) remote \<times> gerror option) go"
where
  "syncSecurityGroupUpdate obj remote = no_sync_error (syncSecurityGroupPhase obj remote)"

definition syncSecurityGroupDelete ::
  "SecurityGroup \<Rightarrow> ('ps, 'm remote_status_scheme) remote \<Rightarrow> ('w, ('ps, 'm remote_status_scheme) remote \<times> gerror option) go"
where
  "syncSecurityGroupDelete obj remote =
     no_sync_error (SetState (if Phase (Status obj) = PhaseFailed then STATE_DELETE_FAILED else STATE_DELETING) remote)"

definition NewSecurityGroupFeedbackReconciler ::
  "(SecurityGroupSpec, SecurityGroupStatus, 'w) hub_client \<Rightarrow> ('ps, 'm remote_status_scheme, 'w) grpc_client \<Rightarrow> 'ps \<Rightarrow> 'm remote_status_scheme \<Rightarrow>
   (SecurityGroupSpec, SecurityGroupStatus, ('ps, 'm remote_status_scheme) remote, 'w) Bridge"
where
  "NewSecurityGroupFeedbackReconciler hubClient sgClient sp0 st0 =
     make_bridge hubClient sgClient osacSecurityGroupFeedbackFinalizer osacSecurityGroupIDLabel
       (fetch_remote sgClient ''security group response contained nil object'' sp0 st0)
       syncSecurityGroupUpdate syncSecurityGroupDelete"

section \<open>NATGateway\<close>

definition osacNATGatewayFeedbackFinalizer :: string where
  "osacNATGatewayFeedbackFinalizer = ''osac.openshift.io/natgateway-feedback''"

definition osacNATGatewayIDLabel :: string where
  "osacNATGatewayIDLabel = ''osac.openshift.io/natgateway-uuid''"

definition syncNATGatewayPhase ::
  "NATGateway \<Rightarrow> ('ps, 'm remote_status_scheme) remote \<Rightarrow> ('w, ('ps, 'm remote_status_scheme) remote) go"
where
  "syncNATGatewayPhase obj remote =
     (case Phase (Status obj) of
        PhaseProgressing \<Rightarrow> SetState STATE_PENDING remote
      | PhaseFailed \<Rightarrow> SetState STATE_FAILED remote
      | PhaseReady \<Rightarrow> SetState STATE_READY remote
      | PhaseDeleting \<Rightarrow> SetState STATE_DELETING remote
      | _ \<Rightarrow> ret remote)"

definition syncNATGatewayUpdate ::
  "NATGateway \<Rightarrow> ('ps, 'm remote_status_scheme) remote \<Rightarrow> ('w, ('ps, 'm remote_status_scheme) remote \<times> gerror option) go"
where
  "syncNATGatewayUpdate obj remote = no_sync_error (syncNATGatewayPhase obj remote)"

definition syncNATGatewayDelete ::
  "NATGateway \<Rightarrow> ('ps, 'm remote_status_scheme) remote \<Rightarrow> ('w, ('ps, 'm remote_status_scheme) remote \<times> gerror option) go"
where
  "syncNATGatewayDelete obj remote =
     no_sync_error (SetState (if Phase (Status obj) = PhaseFailed then STATE_FAILED else STATE_DELETING) remote)"

definition NewNATGatewayFeedbackReconciler ::
  "(NATGatewaySpec, NATGatewayStatus, 'w) hub_client \<Rightarrow> ('ps, 'm remote_status_scheme, 'w) grpc_client \<Rightarrow> 'ps \<Rightarrow> 'm remote_status_scheme \<Rightarrow>
   (NATGatewaySpec, NATGatewayStatus, ('ps, 'm remote_status_scheme) remote, 'w) Bridge"
where
  "NewNATGatewayFeedbackReconciler hubClient ngClient sp0 st0 =
     make_bridge hubClient ngClient osacNATGatewayFeedbackFinalizer osacNATGatewayIDLabel
       (fetch_remote ngClient ''NAT gateway response contained nil object'' sp0 st0)
       syncNATGatewayUpdate syncNATGatewayDelete"

section \<open>ExternalIPPool\<close>

definition osacExternalIPPoolFeedbackFinalizer :: string where
  "osacExternalIPPoolFeedbackFinalizer = ''osac.openshift.io/externalippool-feedback''"

definition syncExternalIPPoolPhase ::
  "ExternalIPPool \<Rightarrow> ('ps, 'm remote_status_scheme) remote \<Rightarrow> ('w, ('ps, 'm remote_status_scheme) remote) go"
where
  "syncExternalIPPoolPhase obj remote =
     (case Phase (Status obj) of
        PhaseProgressing \<Rightarrow> SetState STATE_PENDING remote
      | PhaseFailed \<Rightarrow> SetState STATE_FAILED remote
      | PhaseReady \<Rightarrow> SetState STATE_READY remote
      | PhaseDeleting \<Rightarrow> SetState STATE_DELETING remote
      | _ \<Rightarrow> ret remote)"

definition syncExternalIPPoolUpdate ::
  "ExternalIPPool \<Rightarrow> ('ps, 'm remote_status_scheme) remote \<Rightarrow> ('w, ('ps, 'm remote_status_scheme) remote \<times> gerror option) go"
where
  "syncExternalIPPoolUpdate obj remote = no_sync_error (syncExternalIPPoolPhase obj remote)"

definition syncExternalIPPoolDelete ::
  "ExternalIPPool \<Rightarrow> ('ps, 'm remote_status_scheme) remote \<Rightarrow> ('w, ('ps, 'm remote_status_scheme) remote \<times> gerror option) go"
where
  "syncExternalIPPoolDelete obj remote =
     no_sync_error (SetState (if Phase (Status obj) = PhaseFailed then STATE_DELETE_FAILED else STATE_DELETING) remote)"

definition NewExternalIPPoolFeedbackReconciler ::
  "(ExternalIPPoolSpec, ExternalIPPoolStatus, 'w) hub_client \<Rightarrow> ('ps, 'm remote_status_scheme, 'w) grpc_client \<Rightarrow> 'ps \<Rightarrow> 'm remote_status_scheme \<Rightarrow>
   (ExternalIPPoolSpec, ExternalIPPoolStatus, ('ps, 'm remote_status_scheme) remote, 'w) Bridge"
where
  "NewExternalIPPoolFeedbackReconciler hubClient poolClient sp0 st0 =
     make_bridge hubClient poolClient osacExternalIPPoolFeedbackFinalizer osacExternalIPPoolIDLabel
       (fetch_remote poolClient ''external IP pool not found: response contained nil object'' sp0 st0)
       syncExternalIPPoolUpdate syncExternalIPPoolDelete"

section \<open>Code that the reconcilers written by hand share\<close>

definition drop_finalizer ::
  "('sp, 'st, 'w) hub_client \<Rightarrow> string \<Rightarrow> ('sp, 'st) resource \<Rightarrow> ('w, outcome) go"
where
  "drop_finalizer hubClient finalizer object =
     (case RemoveFinalizer (hub_Lib hubClient) (Finalizers (Meta object)) finalizer of
        (fs, True) \<Rightarrow>
          bnd (hub_Update hubClient (set_finalizers fs object)) (\<lambda>res.
            case res of Inl err \<Rightarrow> ret (no_requeue, Some err) | Inr _ \<Rightarrow> ret (no_requeue, None))
      | (fs, False) \<Rightarrow> ret (no_requeue, None))"

text \<open>The last step: the finalizer goes when it is the only one left, and the service is signalled.\<close>

definition remove_and_signal ::
  "('sp, 'st, 'w) hub_client \<Rightarrow> string \<Rightarrow> ('w, gerror option) go \<Rightarrow> ('sp, 'st) resource \<Rightarrow> ('w, outcome) go"
where
  "remove_and_signal hubClient finalizer signal object =
     (if DeletionTimestamp (Meta object) \<noteq> None \<and> ContainsFinalizer (hub_Lib hubClient) (Finalizers (Meta object)) finalizer \<and>
         length (Finalizers (Meta object)) = 1 then
        bnd (drop_finalizer hubClient finalizer object) (\<lambda>(res, err).
          case err of
            Some e \<Rightarrow> ret (no_requeue, Some e)
          | None \<Rightarrow> bnd signal (\<lambda>signalErr. ret (no_requeue, None)))
      else ret (no_requeue, None))"

section \<open>ExternalIP\<close>

definition osacExternalIPFeedbackFinalizer :: string where
  "osacExternalIPFeedbackFinalizer = ''osac.openshift.io/externalip-feedback''"

record remote_ip_status = remote_status +
  ri_Address :: string
  ri_Attached :: bool

type_synonym ('ps, 'm) remote_ip = "('ps, 'm remote_ip_status_scheme) remote"

text \<open>An error of the fetch, with whether it is \<^verbatim>\<open>ErrExternalIPNotFound\<close> in the sense of \<^verbatim>\<open>errors.Is\<close>.\<close>

definition fetchExternalIP ::
  "('ps, 'pt, 'w) grpc_client \<Rightarrow> 'ps \<Rightarrow> 'pt \<Rightarrow> string \<Rightarrow> ('w, (bool \<times> gerror) + ('ps, 'pt) remote) go"
where
  "fetchExternalIP c sp0 st0 i =
     bnd (gc_Get c i) (\<lambda>response.
       case response of
         Inl err \<Rightarrow>
           if gc_status_Code c err = 5
           then ret (Inl (True, Wrapf ''external IP not found in fulfillment service: %w'' [] err))
           else ret (Inl (False, err))
       | Inr None \<Rightarrow> ret (Inl (True, Errorf ''external IP not found in fulfillment service: response contained nil object'' []))
       | Inr (Some obj) \<Rightarrow> ret (Inr (fill_remote sp0 st0 obj)))"

definition saveExternalIP ::
  "('ps, 'pt, 'w) grpc_client \<Rightarrow> ('ps, 'pt) remote \<Rightarrow> ('ps, 'pt) remote \<Rightarrow> ('w, gerror option) go"
where
  "saveExternalIP c before after = (if \<not> gc_proto_Equal c after before then gc_Update c after else ret None)"

definition ExternalIP_syncState :: "ExternalIP \<Rightarrow> ('ps, 'm) remote_ip \<Rightarrow> ('w, ('ps, 'm) remote_ip) go" where
  "ExternalIP_syncState obj remote =
     (case eip_State (Status obj) of
        StatePending \<Rightarrow> SetState STATE_PENDING remote
      | StateAllocated \<Rightarrow> SetState STATE_ALLOCATED remote
      | StateFailed \<Rightarrow> SetState STATE_FAILED remote
      | _ \<Rightarrow> ret remote)"

definition ExternalIP_syncAddress :: "ExternalIP \<Rightarrow> ('ps, 'm) remote_ip \<Rightarrow> ('w, ('ps, 'm) remote_ip) go" where
  "ExternalIP_syncAddress obj remote =
     (if Address (Status obj) \<noteq> '''' then on_status (\<lambda>st. st\<lparr>ri_Address := Address (Status obj)\<rparr>) remote else ret remote)"

definition ExternalIPFeedback_handleDelete :: "ExternalIP \<Rightarrow> ('ps, 'm) remote_ip \<Rightarrow> ('w, ('ps, 'm) remote_ip) go" where
  "ExternalIPFeedback_handleDelete obj remote =
     SetState (if eip_State (Status obj) = StateFailed then STATE_FAILED else STATE_DELETING) remote"

text \<open>The object with the finalizer added, and the record with the state and the address.\<close>

definition ExternalIPFeedback_handleUpdate ::
  "(ExternalIPSpec, ExternalIPStatus, 'w) hub_client \<Rightarrow> ExternalIP \<Rightarrow> ('ps, 'm) remote_ip \<Rightarrow>
   ('w, gerror + ExternalIP \<times> ('ps, 'm) remote_ip) go"
where
  "ExternalIPFeedback_handleUpdate hubClient object remote =
     (case AddFinalizer (hub_Lib hubClient) (Finalizers (Meta object)) osacExternalIPFeedbackFinalizer of
        (fs, changed) \<Rightarrow>
          bnd (if changed then hub_Update hubClient (set_finalizers fs object) else ret (Inr (set_finalizers fs object))) (\<lambda>res.
            case res of
              Inl err \<Rightarrow> ret (Inl err)
            | Inr object' \<Rightarrow>
                bnd (ExternalIP_syncState object' remote) (\<lambda>remote1.
                bnd (ExternalIP_syncAddress object' remote1) (\<lambda>remote2.
                ret (Inr (object', remote2))))))"

definition ExternalIPFeedback_finish ::
  "(ExternalIPSpec, ExternalIPStatus, 'w) hub_client \<Rightarrow> ('ps, 'm remote_ip_status_scheme, 'w) grpc_client \<Rightarrow> string \<Rightarrow>
   ('ps, 'm) remote_ip \<Rightarrow> ExternalIP \<Rightarrow> ('ps, 'm) remote_ip \<Rightarrow> ('w, outcome) go"
where
  "ExternalIPFeedback_finish hubClient c externalIPID before object after =
     bnd (saveExternalIP c before after) (\<lambda>e.
       case e of
         Some err \<Rightarrow> ret (no_requeue, Some err)
       | None \<Rightarrow> remove_and_signal hubClient osacExternalIPFeedbackFinalizer (gc_Signal c externalIPID) object)"

definition ExternalIPFeedback_Reconcile ::
  "(ExternalIPSpec, ExternalIPStatus, 'w) hub_client \<Rightarrow> ('ps, 'm remote_ip_status_scheme, 'w) grpc_client \<Rightarrow>
   'ps \<Rightarrow> 'm remote_ip_status_scheme \<Rightarrow> ObjectKey \<Rightarrow> ('w, outcome) go"
where
  "ExternalIPFeedback_Reconcile hubClient c sp0 st0 key =
     bnd (hub_Get hubClient key) (\<lambda>got.
       case got of
         Inl err \<Rightarrow> ret (no_requeue, IgnoreNotFound (hub_Lib hubClient) err)
       | Inr object \<Rightarrow>
           (case Labels (Meta object) osacExternalIPIDLabel of
              None \<Rightarrow>
                if DeletionTimestamp (Meta object) \<noteq> None \<and>
                   ContainsFinalizer (hub_Lib hubClient) (Finalizers (Meta object)) osacExternalIPFeedbackFinalizer
                then drop_finalizer hubClient osacExternalIPFeedbackFinalizer object
                else ret (no_requeue, None)
            | Some externalIPID \<Rightarrow>
                bnd (fetchExternalIP c sp0 st0 externalIPID) (\<lambda>fetched.
                  case fetched of
                    Inl (missing, err) \<Rightarrow>
                      if DeletionTimestamp (Meta object) \<noteq> None \<and> missing
                      then drop_finalizer hubClient osacExternalIPFeedbackFinalizer object
                      else ret (no_requeue, Some err)
                  | Inr externalIP \<Rightarrow>
                      if DeletionTimestamp (Meta object) = None then
                        bnd (ExternalIPFeedback_handleUpdate hubClient object externalIP) (\<lambda>res.
                          case res of
                            Inl err \<Rightarrow> ret (no_requeue, Some err)
                          | Inr (object', after) \<Rightarrow> ExternalIPFeedback_finish hubClient c externalIPID externalIP object' after)
                      else
                        bnd (ExternalIPFeedback_handleDelete object externalIP) (\<lambda>after.
                          ExternalIPFeedback_finish hubClient c externalIPID externalIP object after))))"

end
