(* ===== verification/Feedback_Clusters.thy ===== *)
theory Feedback_Clusters
  imports Feedback_Kinds Attachments Cluster_Types Compute_Types
begin

text \<open>
  The feedback controllers of the external IP attachments (\<^verbatim>\<open>externalipattachment_feedback_controller.go\<close>), cluster orders
  (\<^verbatim>\<open>feedback_controller.go\<close>), compute instances (\<^verbatim>\<open>computeinstance_feedback_controller.go\<close>) and bare metal instances
  (\<^verbatim>\<open>baremetalinstance_feedback_controller.go\<close>). The first and the last are written by hand, the others use the bridge.

  Go iterates over a map in an order it chooses anew each time; where that matters the order is a parameter that
  depends on the world. \<^verbatim>\<open>timestamppb.Now\<close> reads the clock of the library record.
\<close>

section \<open>ExternalIPAttachment\<close>

definition osacExternalIPAttachmentIDLabel :: string where
  "osacExternalIPAttachmentIDLabel = ''osac.openshift.io/externalipattachment-uuid''"

definition osacExternalIPAttachmentFeedbackFinalizer :: string where
  "osacExternalIPAttachmentFeedbackFinalizer = ''osac.openshift.io/externalipattachment-feedback''"

record remote_attachment_spec =
  ra_ExternalIp :: string

record remote_attachment_status = remote_status +
  ra_ExternalIpAddress :: string

type_synonym ('s, 'm) remote_attachment =
  "('s remote_attachment_spec_scheme, 'm remote_attachment_status_scheme) remote"

record ('s, 'm, 'ps, 'n, 'w) ExternalIPAttachmentFeedbackReconciler =
  af_hubClient :: "(ExternalIPAttachmentSpec, ExternalIPAttachmentStatus, 'w) hub_client"
  af_attachments :: "('s remote_attachment_spec_scheme, 'm remote_attachment_status_scheme, 'w) grpc_client"
  af_externalIPs :: "('ps, 'n remote_ip_status_scheme, 'w) grpc_client"
  af_empty_spec :: "'s remote_attachment_spec_scheme"
  af_empty_status :: "'m remote_attachment_status_scheme"
  af_empty_ip_status :: "'n remote_ip_status_scheme"

definition fetchExternalIPAttachment ::
  "('s, 'm, 'ps, 'n, 'w) ExternalIPAttachmentFeedbackReconciler \<Rightarrow> string \<Rightarrow>
   ('w, (bool \<times> gerror) + ('s, 'm) remote_attachment) go"
where
  "fetchExternalIPAttachment r i =
     bnd (gc_Get (af_attachments r) i) (\<lambda>response.
       case response of
         Inl err \<Rightarrow>
           if gc_status_Code (af_attachments r) err = 5
           then ret (Inl (True, Wrapf ''external IP attachment not found in fulfillment service: %w'' [] err))
           else ret (Inl (False, err))
       | Inr None \<Rightarrow>
           ret (Inl (True, Errorf ''external IP attachment not found in fulfillment service: response contained nil object'' []))
       | Inr (Some obj) \<Rightarrow> ret (Inr (fill_remote (af_empty_spec r) (af_empty_status r) obj)))"

definition saveExternalIPAttachment ::
  "('s, 'm, 'ps, 'n, 'w) ExternalIPAttachmentFeedbackReconciler \<Rightarrow> ('s, 'm) remote_attachment \<Rightarrow> ('s, 'm) remote_attachment \<Rightarrow>
   ('w, gerror option) go"
where
  "saveExternalIPAttachment r before after =
     (if \<not> gc_proto_Equal (af_attachments r) after before then gc_Update (af_attachments r) after else ret None)"

definition Attachment_syncState ::
  "ExternalIPAttachment \<Rightarrow> ('s, 'm) remote_attachment \<Rightarrow> ('w, ('s, 'm) remote_attachment) go"
where
  "Attachment_syncState obj remote =
     (case Phase (Status obj) of
        PhaseProgressing \<Rightarrow> SetState STATE_PENDING remote
      | PhaseReady \<Rightarrow> SetState STATE_READY remote
      | PhaseFailed \<Rightarrow> SetState STATE_FAILED remote
      | _ \<Rightarrow> ret remote)"

text \<open>\<^verbatim>\<open>GetSpec().GetExternalIp()\<close>: the getters of a missing message answer with the zero value.\<close>

definition GetExternalIp :: "('s, 'm) remote_attachment \<Rightarrow> string" where
  "GetExternalIp remote = (case ro_Spec remote of None \<Rightarrow> '''' | Some sp \<Rightarrow> ra_ExternalIp sp)"

definition Attachment_syncAddress ::
  "('s, 'm, 'ps, 'n, 'w) ExternalIPAttachmentFeedbackReconciler \<Rightarrow> ('s, 'm) remote_attachment \<Rightarrow>
   ('w, ('s, 'm) remote_attachment) go"
where
  "Attachment_syncAddress r remote =
     (if GetExternalIp remote = '''' then ret remote
      else
        bnd (gc_Get (af_externalIPs r) (GetExternalIp remote)) (\<lambda>response.
          case response of
            Inr (Some obj) \<Rightarrow>
              (case ro_Status obj of
                 None \<Rightarrow> ret remote
               | Some st \<Rightarrow>
                   if ri_Address st \<noteq> ''''
                   then on_status (\<lambda>a. a\<lparr>ra_ExternalIpAddress := ri_Address st\<rparr>) remote else ret remote)
          | _ \<Rightarrow> ret remote))"

definition syncAttachedOnParentExternalIP ::
  "('s, 'm, 'ps, 'n, 'w) ExternalIPAttachmentFeedbackReconciler \<Rightarrow> ('s, 'm) remote_attachment \<Rightarrow> bool \<Rightarrow> ('w, gerror option) go"
where
  "syncAttachedOnParentExternalIP r remote attached =
     (if GetExternalIp remote = '''' then ret None
      else
        bnd (gc_Get (af_externalIPs r) (GetExternalIp remote)) (\<lambda>response.
          case response of
            Inl err \<Rightarrow> if gc_status_Code (af_externalIPs r) err = 5 then ret None else ret (Some err)
          | Inr None \<Rightarrow> ret (Some (Errorf ''parent ExternalIP %s: response contained nil object'' [GetExternalIp remote]))
          | Inr (Some externalIP) \<Rightarrow>
              (let st = (case ro_Status externalIP of None \<Rightarrow> af_empty_ip_status r | Some st \<Rightarrow> st) in
               if ri_Attached st = attached then ret None
               else gc_Update (af_externalIPs r) (externalIP\<lparr>ro_Status := Some (st\<lparr>ri_Attached := attached\<rparr>)\<rparr>))))"

definition AttachmentFeedback_handleUpdate ::
  "('s, 'm, 'ps, 'n, 'w) ExternalIPAttachmentFeedbackReconciler \<Rightarrow> ExternalIPAttachment \<Rightarrow> ('s, 'm) remote_attachment \<Rightarrow>
   ('w, gerror + ExternalIPAttachment \<times> ('s, 'm) remote_attachment) go"
where
  "AttachmentFeedback_handleUpdate r object remote =
     (case AddFinalizer (hub_Lib (af_hubClient r)) (Finalizers (Meta object)) osacExternalIPAttachmentFeedbackFinalizer of
        (fs, changed) \<Rightarrow>
          bnd (if changed then hub_Update (af_hubClient r) (set_finalizers fs object) else ret (Inr (set_finalizers fs object))) (\<lambda>res.
            case res of
              Inl err \<Rightarrow> ret (Inl err)
            | Inr object' \<Rightarrow>
                bnd (Attachment_syncState object' remote) (\<lambda>remote1.
                bnd (Attachment_syncAddress r remote1) (\<lambda>remote2.
                bnd (if Phase (Status object') = PhaseReady then syncAttachedOnParentExternalIP r remote2 True else ret None) (\<lambda>e.
                  case e of
                    Some err \<Rightarrow> ret (Inl err)
                  | None \<Rightarrow> ret (Inr (object', remote2)))))))"

definition AttachmentFeedback_handleDelete ::
  "ExternalIPAttachment \<Rightarrow> ('s, 'm) remote_attachment \<Rightarrow> ('w, ('s, 'm) remote_attachment) go"
where
  "AttachmentFeedback_handleDelete obj remote =
     SetState (if Phase (Status obj) = PhaseFailed then STATE_FAILED else STATE_DELETING) remote"

definition AttachmentFeedback_finish ::
  "('s, 'm, 'ps, 'n, 'w) ExternalIPAttachmentFeedbackReconciler \<Rightarrow> string \<Rightarrow> ('s, 'm) remote_attachment \<Rightarrow>
   ExternalIPAttachment \<Rightarrow> ('s, 'm) remote_attachment \<Rightarrow> ('w, outcome) go"
where
  "AttachmentFeedback_finish r attachmentID before object after =
     bnd (saveExternalIPAttachment r before after) (\<lambda>e.
       case e of
         Some err \<Rightarrow> ret (no_requeue, Some err)
       | None \<Rightarrow>
           bnd (if DeletionTimestamp (Meta object) \<noteq> None then syncAttachedOnParentExternalIP r after False else ret None) (\<lambda>e.
             case e of
               Some err \<Rightarrow> ret (no_requeue, Some err)
             | None \<Rightarrow>
                 remove_and_signal (af_hubClient r) osacExternalIPAttachmentFeedbackFinalizer
                   (gc_Signal (af_attachments r) attachmentID) object))"

definition AttachmentFeedback_Reconcile ::
  "('s, 'm, 'ps, 'n, 'w) ExternalIPAttachmentFeedbackReconciler \<Rightarrow> ObjectKey \<Rightarrow> ('w, outcome) go"
where
  "AttachmentFeedback_Reconcile r key =
     bnd (hub_Get (af_hubClient r) key) (\<lambda>got.
       case got of
         Inl err \<Rightarrow> ret (no_requeue, IgnoreNotFound (hub_Lib (af_hubClient r)) err)
       | Inr object \<Rightarrow>
           (case Labels (Meta object) osacExternalIPAttachmentIDLabel of
              None \<Rightarrow>
                if DeletionTimestamp (Meta object) \<noteq> None \<and>
                   ContainsFinalizer (hub_Lib (af_hubClient r)) (Finalizers (Meta object)) osacExternalIPAttachmentFeedbackFinalizer
                then drop_finalizer (af_hubClient r) osacExternalIPAttachmentFeedbackFinalizer object
                else ret (no_requeue, None)
            | Some attachmentID \<Rightarrow>
                bnd (fetchExternalIPAttachment r attachmentID) (\<lambda>fetched.
                  case fetched of
                    Inl (missing, err) \<Rightarrow>
                      if DeletionTimestamp (Meta object) \<noteq> None \<and> missing
                      then drop_finalizer (af_hubClient r) osacExternalIPAttachmentFeedbackFinalizer object
                      else ret (no_requeue, Some err)
                  | Inr externalIPAttachment \<Rightarrow>
                      if DeletionTimestamp (Meta object) = None then
                        bnd (AttachmentFeedback_handleUpdate r object externalIPAttachment) (\<lambda>res.
                          case res of
                            Inl err \<Rightarrow> ret (no_requeue, Some err)
                          | Inr (object', after) \<Rightarrow> AttachmentFeedback_finish r attachmentID externalIPAttachment object' after)
                      else
                        bnd (AttachmentFeedback_handleDelete object externalIPAttachment) (\<lambda>after.
                          AttachmentFeedback_finish r attachmentID externalIPAttachment object after))))"

section \<open>Conditions of records\<close>

datatype ConditionStatus = CONDITION_STATUS_UNSPECIFIED | CONDITION_STATUS_TRUE | CONDITION_STATUS_FALSE

record 'k remote_condition =
  rc_Type :: 'k
  rc_Status :: ConditionStatus
  rc_LastTransitionTime :: "instant option"
  rc_Reason :: "string option"
  rc_Message :: "string option"

definition mapConditionStatus :: "string \<Rightarrow> ConditionStatus" where
  "mapConditionStatus status =
     (if status = ''False'' then CONDITION_STATUS_FALSE
      else if status = ''True'' then CONDITION_STATUS_TRUE else CONDITION_STATUS_UNSPECIFIED)"

text \<open>The first condition of a kind is changed in place; if there is none, a new one with status False is appended first.\<close>

fun change_condition ::
  "'k \<Rightarrow> ('k remote_condition \<Rightarrow> 'k remote_condition) \<Rightarrow> 'k remote_condition list \<Rightarrow> 'k remote_condition list"
where
  "change_condition k f [] =
     [f \<lparr>rc_Type = k, rc_Status = CONDITION_STATUS_FALSE, rc_LastTransitionTime = None, rc_Reason = None, rc_Message = None\<rparr>]"
| "change_condition k f (c # cs) = (if rc_Type c = k then f c # cs else c # change_condition k f cs)"

definition copy_condition :: "instant \<Rightarrow> (string option \<Rightarrow> string option) \<Rightarrow> Condition \<Rightarrow> 'k remote_condition \<Rightarrow> 'k remote_condition" where
  "copy_condition t reason condition c =
     (let newStatus = mapConditionStatus (cond_Status condition) in
      c\<lparr>rc_Status := newStatus, rc_Reason := reason (rc_Reason c), rc_Message := Some (cond_Message condition),
        rc_LastTransitionTime := (if newStatus \<noteq> rc_Status c then Some t else rc_LastTransitionTime c)\<rparr>)"

section \<open>ClusterOrder\<close>

definition osacClusterOrderFeedbackFinalizer :: string where
  "osacClusterOrderFeedbackFinalizer = ''osac.openshift.io/clusterorder-feedback''"

datatype ClusterState =
    CLUSTER_STATE_UNSPECIFIED | CLUSTER_STATE_PROGRESSING | CLUSTER_STATE_READY | CLUSTER_STATE_FAILED
  | CLUSTER_STATE_DELETING | CLUSTER_STATE_DELETE_FAILED

datatype ClusterConditionType =
    CLUSTER_CONDITION_TYPE_UNSPECIFIED | CLUSTER_CONDITION_TYPE_PROGRESSING | CLUSTER_CONDITION_TYPE_READY
  | CLUSTER_CONDITION_TYPE_FAILED | CLUSTER_CONDITION_TYPE_DEGRADED

record ClusterNodeSet =
  ns_HostType :: string
  ns_Size :: int

text \<open>The node sets of the spec are a map, here the list of its entries.\<close>

record remote_cluster_spec =
  cl_spec_NodeSets :: "(string \<times> ClusterNodeSet) list"

record remote_cluster_status =
  cl_State :: ClusterState
  cl_Conditions :: "ClusterConditionType remote_condition list"
  cl_ApiUrl :: string
  cl_ConsoleUrl :: string
  cl_NodeSets :: "string \<rightharpoonup> ClusterNodeSet"

type_synonym ('s, 'm) Cluster = "('s remote_cluster_spec_scheme, 'm remote_cluster_status_scheme) remote"

record HostedClusterInfo =
  hci_Name :: string
  hci_Host :: string
  hci_Port :: int
  hci_BaseDomain :: string

definition wrap32 :: "int \<Rightarrow> int" where
  "wrap32 x = signed_take_bit 31 x"

definition syncClusterConditionFromCR ::
  "'w k8s \<Rightarrow> ('s, 'm) Cluster \<Rightarrow> ClusterConditionType \<Rightarrow> Condition \<Rightarrow> ('w, ('s, 'm) Cluster) go"
where
  "syncClusterConditionFromCR lib remote condType condition =
     bnd (gets (k8s_now lib)) (\<lambda>t.
     on_status (\<lambda>st. st\<lparr>cl_Conditions := change_condition condType (copy_condition t id condition) (cl_Conditions st)\<rparr>) remote)"

definition reported_condition :: "string \<Rightarrow> bool" where
  "reported_condition ty \<longleftrightarrow> ty \<in> {''Accepted'', ''Progressing'', ''ControlPlaneAvailable'', ''Available''}"

fun sync_cluster_conditions :: "'w k8s \<Rightarrow> Condition list \<Rightarrow> ('s, 'm) Cluster \<Rightarrow> ('w, ('s, 'm) Cluster) go" where
  "sync_cluster_conditions lib [] remote = ret remote"
| "sync_cluster_conditions lib (c # cs) remote =
     bnd (if reported_condition (cond_Type c)
          then syncClusterConditionFromCR lib remote CLUSTER_CONDITION_TYPE_PROGRESSING c else ret remote)
       (sync_cluster_conditions lib cs)"

definition syncClusterOrderConditions :: "'w k8s \<Rightarrow> ClusterOrder \<Rightarrow> ('s, 'm) Cluster \<Rightarrow> ('w, ('s, 'm) Cluster) go" where
  "syncClusterOrderConditions lib obj = sync_cluster_conditions lib (Conditions (Status obj))"

definition SetClusterState :: "ClusterState \<Rightarrow> ('s, 'm) Cluster \<Rightarrow> ('w, ('s, 'm) Cluster) go" where
  "SetClusterState s = on_status (\<lambda>st. st\<lparr>cl_State := s\<rparr>)"

definition syncClusterOrderPhase :: "ClusterOrder \<Rightarrow> ('s, 'm) Cluster \<Rightarrow> ('w, ('s, 'm) Cluster) go" where
  "syncClusterOrderPhase obj remote =
     (case Phase (Status obj) of
        PhaseProgressing \<Rightarrow> SetClusterState CLUSTER_STATE_PROGRESSING remote
      | PhaseFailed \<Rightarrow> SetClusterState CLUSTER_STATE_FAILED remote
      | PhaseReady \<Rightarrow> SetClusterState CLUSTER_STATE_READY remote
      | PhaseDeleting \<Rightarrow> SetClusterState CLUSTER_STATE_DELETING remote
      | _ \<Rightarrow> ret remote)"

definition fetchHostedCluster ::
  "'w k8s \<Rightarrow> (ObjectKey \<Rightarrow> ('w, gerror + HostedClusterInfo) go) \<Rightarrow> ClusterOrder \<Rightarrow> ('w, gerror + HostedClusterInfo option) go"
where
  "fetchHostedCluster lib get obj =
     (case ClusterReference (Status obj) of
        None \<Rightarrow> ret (Inr None)
      | Some ref \<Rightarrow>
          if ref_Namespace ref = '''' \<or> HostedClusterName ref = '''' then ret (Inr None)
          else
            bnd (get (ref_Namespace ref, HostedClusterName ref)) (\<lambda>res.
              case res of
                Inl err \<Rightarrow> if IsNotFound lib err then ret (Inr None) else ret (Inl err)
              | Inr hostedCluster \<Rightarrow> ret (Inr (Some hostedCluster))))"

definition calculateAPIURL :: "HostedClusterInfo \<Rightarrow> string" where
  "calculateAPIURL hc =
     (if hci_Host hc = '''' \<or> hci_Port hc = 0 then ''''
      else sprintf ''https://%s:%d'' [hci_Host hc, Itoa (hci_Port hc)])"

definition calculateConsoleURL :: "HostedClusterInfo \<Rightarrow> string" where
  "calculateConsoleURL hc = sprintf ''https://console-openshift-console.apps.%s.%s'' [hci_Name hc, hci_BaseDomain hc]"

definition syncClusterOrderURLs ::
  "'w k8s \<Rightarrow> (ObjectKey \<Rightarrow> ('w, gerror + HostedClusterInfo) go) \<Rightarrow> ClusterOrder \<Rightarrow> ('s, 'm) Cluster \<Rightarrow>
   ('w, ('s, 'm) Cluster \<times> gerror option) go"
where
  "syncClusterOrderURLs lib get obj remote =
     (if Phase (Status obj) \<noteq> PhaseReady then ret (remote, None)
      else
        bnd (fetchHostedCluster lib get obj) (\<lambda>res.
          case res of
            Inl err \<Rightarrow> ret (remote, Some err)
          | Inr None \<Rightarrow> ret (remote, None)
          | Inr (Some hc) \<Rightarrow>
              bnd (if calculateAPIURL hc \<noteq> '''' then on_status (\<lambda>st. st\<lparr>cl_ApiUrl := calculateAPIURL hc\<rparr>) remote else ret remote) (\<lambda>remote1.
              bnd (if calculateConsoleURL hc \<noteq> ''''
                   then on_status (\<lambda>st. st\<lparr>cl_ConsoleUrl := calculateConsoleURL hc\<rparr>) remote1 else ret remote1) (\<lambda>remote2.
              ret (remote2, None)))))"

text \<open>One node request; \<open>sets\<close> are the node sets of the spec in the order of this iteration. An empty identifier counts as no match.\<close>

definition sync_node_request :: "(string \<times> ClusterNodeSet) list \<Rightarrow> NodeRequest \<Rightarrow> ('s, 'm) Cluster \<Rightarrow> ('w, ('s, 'm) Cluster) go" where
  "sync_node_request sets nodeRequest remote =
     (case find (\<lambda>(i, ns). ns_HostType ns = ResourceClass nodeRequest) sets of
        None \<Rightarrow> ret remote
      | Some (nodeSetID, _) \<Rightarrow>
          if nodeSetID = '''' then ret remote
          else
            on_status (\<lambda>st.
              let nodeSet = (case cl_NodeSets st nodeSetID of
                    None \<Rightarrow> \<lparr>ns_HostType = ResourceClass nodeRequest, ns_Size = 0\<rparr> | Some ns \<Rightarrow> ns);
                  newValue = wrap32 (NumberOfNodes nodeRequest) in
              st\<lparr>cl_NodeSets := (cl_NodeSets st)(nodeSetID \<mapsto>
                (if newValue \<noteq> ns_Size nodeSet then nodeSet\<lparr>ns_Size := newValue\<rparr> else nodeSet))\<rparr>) remote)"

fun sync_node_requests ::
  "('w \<Rightarrow> (string \<times> ClusterNodeSet) list \<Rightarrow> (string \<times> ClusterNodeSet) list) \<Rightarrow> NodeRequest list \<Rightarrow> ('s, 'm) Cluster \<Rightarrow> ('w, ('s, 'm) Cluster) go"
where
  "sync_node_requests range_order [] remote = ret remote"
| "sync_node_requests range_order (n # ns) remote =
     bnd (gets (\<lambda>w. range_order w (case ro_Spec remote of None \<Rightarrow> [] | Some sp \<Rightarrow> cl_spec_NodeSets sp))) (\<lambda>sets.
     bnd (sync_node_request sets n remote) (sync_node_requests range_order ns))"

definition syncClusterOrderNodeRequests ::
  "('w \<Rightarrow> (string \<times> ClusterNodeSet) list \<Rightarrow> (string \<times> ClusterNodeSet) list) \<Rightarrow> ClusterOrder \<Rightarrow> ('s, 'm) Cluster \<Rightarrow> ('w, ('s, 'm) Cluster) go"
where
  "syncClusterOrderNodeRequests range_order obj = sync_node_requests range_order (status_NodeRequests (Status obj))"

definition newClusterOrderSyncUpdate ::
  "'w k8s \<Rightarrow> (ObjectKey \<Rightarrow> ('w, gerror + HostedClusterInfo) go) \<Rightarrow>
   ('w \<Rightarrow> (string \<times> ClusterNodeSet) list \<Rightarrow> (string \<times> ClusterNodeSet) list) \<Rightarrow>
   ClusterOrder \<Rightarrow> ('s, 'm) Cluster \<Rightarrow> ('w, ('s, 'm) Cluster \<times> gerror option) go"
where
  "newClusterOrderSyncUpdate lib get range_order obj remote =
     bnd (syncClusterOrderConditions lib obj remote) (\<lambda>remote1.
     bnd (syncClusterOrderPhase obj remote1) (\<lambda>remote2.
     bnd (syncClusterOrderURLs lib get obj remote2) (\<lambda>(remote3, e).
       case e of
         Some err \<Rightarrow> ret (remote3, Some err)
       | None \<Rightarrow> no_sync_error (syncClusterOrderNodeRequests range_order obj remote3))))"

definition syncClusterOrderDelete ::
  "'w k8s \<Rightarrow> ('w \<Rightarrow> (string \<times> ClusterNodeSet) list \<Rightarrow> (string \<times> ClusterNodeSet) list) \<Rightarrow>
   ClusterOrder \<Rightarrow> ('s, 'm) Cluster \<Rightarrow> ('w, ('s, 'm) Cluster \<times> gerror option) go"
where
  "syncClusterOrderDelete lib range_order obj remote =
     no_sync_error
       (bnd (syncClusterOrderConditions lib obj remote) (\<lambda>remote1.
        bnd (syncClusterOrderPhase obj remote1) (\<lambda>remote2.
        bnd (syncClusterOrderNodeRequests range_order obj remote2) (SetClusterState CLUSTER_STATE_DELETING))))"

definition newClusterOrderFeedbackBridge ::
  "(ClusterOrderSpec, ClusterOrderStatus, 'w) hub_client \<Rightarrow> (ObjectKey \<Rightarrow> ('w, gerror + HostedClusterInfo) go) \<Rightarrow>
   ('w \<Rightarrow> (string \<times> ClusterNodeSet) list \<Rightarrow> (string \<times> ClusterNodeSet) list) \<Rightarrow>
   ('s remote_cluster_spec_scheme, 'm remote_cluster_status_scheme, 'w) grpc_client \<Rightarrow>
   's remote_cluster_spec_scheme \<Rightarrow> 'm remote_cluster_status_scheme \<Rightarrow>
   (ClusterOrderSpec, ClusterOrderStatus, ('s, 'm) Cluster, 'w) Bridge"
where
  "newClusterOrderFeedbackBridge hubClient get range_order clustersClient sp0 st0 =
     make_bridge hubClient clustersClient osacClusterOrderFeedbackFinalizer osacClusterOrderIDLabel
       (fetch_remote clustersClient ''cluster response contained nil object'' sp0 st0)
       (newClusterOrderSyncUpdate (hub_Lib hubClient) get range_order) (syncClusterOrderDelete (hub_Lib hubClient) range_order)"

section \<open>ComputeInstance\<close>

definition osacComputeInstanceFeedbackFinalizer :: string where
  "osacComputeInstanceFeedbackFinalizer = ''osac.openshift.io/computeinstance-feedback''"

datatype ComputeInstanceState =
    CI_STATE_UNSPECIFIED | CI_STATE_STARTING | CI_STATE_RUNNING | CI_STATE_FAILED | CI_STATE_DELETING
  | CI_STATE_STOPPING | CI_STATE_STOPPED | CI_STATE_PAUSED

datatype ComputeInstanceConditionType =
    CI_CONDITION_UNSPECIFIED | CI_CONDITION_CONFIGURATION_APPLIED | CI_CONDITION_READY | CI_CONDITION_RESTART_IN_PROGRESS
  | CI_CONDITION_RESTART_FAILED | CI_CONDITION_PROVISIONED | CI_CONDITION_RESTART_REQUIRED

record remote_instance_status =
  cis_State :: ComputeInstanceState
  cis_Conditions :: "ComputeInstanceConditionType remote_condition list"
  cis_InternalIpAddress :: string
  cis_LastRestartedAt :: "instant option"
  cis_ExternalIpAddress :: string

type_synonym ('ps, 'm) remote_instance = "('ps, 'm remote_instance_status_scheme) remote"

definition conditionMappings :: "(string \<times> ComputeInstanceConditionType) list" where
  "conditionMappings =
     [(''ConfigurationApplied'', CI_CONDITION_CONFIGURATION_APPLIED), (''Ready'', CI_CONDITION_READY),
      (''RestartInProgress'', CI_CONDITION_RESTART_IN_PROGRESS), (''RestartFailed'', CI_CONDITION_RESTART_FAILED),
      (''Provisioned'', CI_CONDITION_PROVISIONED), (''RestartRequired'', CI_CONDITION_RESTART_REQUIRED)]"

definition syncCIConditionFromCR ::
  "'w k8s \<Rightarrow> ('ps, 'm) remote_instance \<Rightarrow> ComputeInstanceConditionType \<Rightarrow> Condition \<Rightarrow> ('w, ('ps, 'm) remote_instance) go"
where
  "syncCIConditionFromCR lib remote vmConditionType crCondition =
     bnd (gets (k8s_now lib)) (\<lambda>t.
     on_status (\<lambda>st. st\<lparr>cis_Conditions :=
       change_condition vmConditionType (copy_condition t (\<lambda>_. Some (cond_Reason crCondition)) crCondition) (cis_Conditions st)\<rparr>) remote)"

fun sync_ci_conditions ::
  "'w k8s \<Rightarrow> 'cs compute_instance \<Rightarrow> (string \<times> ComputeInstanceConditionType) list \<Rightarrow> ('ps, 'm) remote_instance \<Rightarrow>
   ('w, ('ps, 'm) remote_instance) go"
where
  "sync_ci_conditions lib obj [] remote = ret remote"
| "sync_ci_conditions lib obj ((crType, vmType) # ms) remote =
     bnd (case ComputeInstance_GetStatusCondition obj crType of
            None \<Rightarrow> ret remote
          | Some crCondition \<Rightarrow> syncCIConditionFromCR lib remote vmType crCondition)
       (sync_ci_conditions lib obj ms)"

definition syncCIConditions :: "'w k8s \<Rightarrow> 'cs compute_instance \<Rightarrow> ('ps, 'm) remote_instance \<Rightarrow> ('w, ('ps, 'm) remote_instance) go" where
  "syncCIConditions lib obj = sync_ci_conditions lib obj conditionMappings"

definition state_of_phase :: "Phase \<Rightarrow> ComputeInstanceState option" where
  "state_of_phase p =
     (case p of
        PhaseStarting \<Rightarrow> Some CI_STATE_STARTING | PhaseFailed \<Rightarrow> Some CI_STATE_FAILED | PhaseRunning \<Rightarrow> Some CI_STATE_RUNNING
      | PhaseDeleting \<Rightarrow> Some CI_STATE_DELETING | PhaseStopping \<Rightarrow> Some CI_STATE_STOPPING
      | PhaseStopped \<Rightarrow> Some CI_STATE_STOPPED | PhasePaused \<Rightarrow> Some CI_STATE_PAUSED | _ \<Rightarrow> None)"

definition syncCIPhase :: "'cs compute_instance \<Rightarrow> ('ps, 'm) remote_instance \<Rightarrow> ('w, ('ps, 'm) remote_instance) go" where
  "syncCIPhase obj remote =
     (case state_of_phase (Phase (Status obj)) of
        None \<Rightarrow> ret remote
      | Some s \<Rightarrow> on_status (\<lambda>st. st\<lparr>cis_State := s\<rparr>) remote)"

definition syncCIIPAddresses :: "'cs compute_instance \<Rightarrow> ('ps, 'm) remote_instance \<Rightarrow> ('w, ('ps, 'm) remote_instance) go" where
  "syncCIIPAddresses obj =
     on_status (\<lambda>st. st\<lparr>cis_ExternalIpAddress := ExternalIPAddress (Status obj), cis_InternalIpAddress := IPAddress (Status obj)\<rparr>)"

definition syncCILastRestartedAt :: "'cs compute_instance \<Rightarrow> ('ps, 'm) remote_instance \<Rightarrow> ('w, ('ps, 'm) remote_instance) go" where
  "syncCILastRestartedAt obj remote =
     (case LastRestartedAt (Status obj) of
        None \<Rightarrow> ret remote
      | Some t \<Rightarrow> on_status (\<lambda>st. st\<lparr>cis_LastRestartedAt := Some t\<rparr>) remote)"

definition syncComputeInstanceUpdate ::
  "'w k8s \<Rightarrow> 'cs compute_instance \<Rightarrow> ('ps, 'm) remote_instance \<Rightarrow> ('w, ('ps, 'm) remote_instance \<times> gerror option) go"
where
  "syncComputeInstanceUpdate lib obj remote =
     no_sync_error
       (bnd (syncCIConditions lib obj remote) (\<lambda>remote1.
        bnd (syncCIPhase obj remote1) (\<lambda>remote2.
        bnd (syncCIIPAddresses obj remote2) (syncCILastRestartedAt obj))))"

definition syncComputeInstanceDelete ::
  "'w k8s \<Rightarrow> 'cs compute_instance \<Rightarrow> ('ps, 'm) remote_instance \<Rightarrow> ('w, ('ps, 'm) remote_instance \<times> gerror option) go"
where
  "syncComputeInstanceDelete lib obj remote = syncComputeInstanceUpdate lib obj remote"

definition newComputeInstanceFeedbackBridge ::
  "('cs, ComputeInstanceStatus, 'w) hub_client \<Rightarrow> ('ps, 'm remote_instance_status_scheme, 'w) grpc_client \<Rightarrow>
   'ps \<Rightarrow> 'm remote_instance_status_scheme \<Rightarrow> ('cs, ComputeInstanceStatus, ('ps, 'm) remote_instance, 'w) Bridge"
where
  "newComputeInstanceFeedbackBridge hubClient ciClient sp0 st0 =
     make_bridge hubClient ciClient osacComputeInstanceFeedbackFinalizer osacComputeInstanceIDLabel
       (fetch_remote ciClient ''compute instance response contained nil object'' sp0 st0)
       (syncComputeInstanceUpdate (hub_Lib hubClient)) (syncComputeInstanceDelete (hub_Lib hubClient))"

section \<open>BareMetalInstance\<close>

text \<open>The kind belongs to another operator; only its metadata and whether its status changed matter here.\<close>

definition osacBareMetalInstanceIDLabel :: string where
  "osacBareMetalInstanceIDLabel = ''osac.openshift.io/baremetalinstance-uuid''"

definition osacBareMetalInstanceFeedbackFinalizer :: string where
  "osacBareMetalInstanceFeedbackFinalizer = ''osac.openshift.io/baremetalinstance-feedback''"

definition BareMetalInstanceNamespacePredicate :: "string \<Rightarrow> ('sp, 'st) resource \<Rightarrow> bool" where
  "BareMetalInstanceNamespacePredicate namespace obj \<longleftrightarrow> Namespace (Meta obj) = namespace"

text \<open>\<open>None\<close> stands for an object of another kind.\<close>

definition bareMetalInstanceStatusChangedPredicate ::
  "('st \<Rightarrow> 'st \<Rightarrow> bool) \<Rightarrow> ('sp, 'st) resource option \<Rightarrow> ('sp, 'st) resource option \<Rightarrow> bool"
where
  "bareMetalInstanceStatusChangedPredicate deepEqual oldObj newObj =
     (case (oldObj, newObj) of
        (Some old, Some new) \<Rightarrow>
          DeletionTimestamp (Meta new) \<noteq> None \<or> \<not> deepEqual (Status old) (Status new)
      | _ \<Rightarrow> True)"

definition signal_instance :: "('w, gerror option) go \<Rightarrow> ('sp, 'st) resource \<Rightarrow> ('w, outcome) go" where
  "signal_instance signal object =
     bnd signal (\<lambda>signalErr.
       if signalErr \<noteq> None \<and> DeletionTimestamp (Meta object) = None then ret (no_requeue, signalErr)
       else ret (no_requeue, None))"

definition BareMetalInstanceFeedback_Reconcile ::
  "('sp, 'st, 'w) hub_client \<Rightarrow> (string \<Rightarrow> ('w, gerror option) go) \<Rightarrow> ObjectKey \<Rightarrow> ('w, outcome) go"
where
  "BareMetalInstanceFeedback_Reconcile hubClient signal key =
     bnd (hub_Get hubClient key) (\<lambda>got.
       case got of
         Inl err \<Rightarrow> ret (no_requeue, if \<not> IsNotFound (hub_Lib hubClient) err then Some err else None)
       | Inr object \<Rightarrow>
           (case Labels (Meta object) osacBareMetalInstanceIDLabel of
              None \<Rightarrow>
                if DeletionTimestamp (Meta object) \<noteq> None \<and>
                   ContainsFinalizer (hub_Lib hubClient) (Finalizers (Meta object)) osacBareMetalInstanceFeedbackFinalizer
                then drop_finalizer hubClient osacBareMetalInstanceFeedbackFinalizer object
                else ret (no_requeue, None)
            | Some bmiID \<Rightarrow>
                if DeletionTimestamp (Meta object) = None then
                  (case AddFinalizer (hub_Lib hubClient) (Finalizers (Meta object)) osacBareMetalInstanceFeedbackFinalizer of
                     (fs, changed) \<Rightarrow>
                       bnd (if changed then hub_Update hubClient (set_finalizers fs object)
                            else ret (Inr (set_finalizers fs object))) (\<lambda>res.
                         case res of
                           Inl err \<Rightarrow> ret (no_requeue, Some err)
                         | Inr object' \<Rightarrow> signal_instance (signal bmiID) object'))
                else if \<not> ContainsFinalizer (hub_Lib hubClient) (Finalizers (Meta object)) osacBareMetalInstanceFeedbackFinalizer
                then ret (no_requeue, None)
                else if length (Finalizers (Meta object)) > 1 then ret (no_requeue, None)
                else
                  (case RemoveFinalizer (hub_Lib hubClient) (Finalizers (Meta object)) osacBareMetalInstanceFeedbackFinalizer of
                     (fs, changed) \<Rightarrow>
                       bnd (if changed then hub_Update hubClient (set_finalizers fs object)
                            else ret (Inr (set_finalizers fs object))) (\<lambda>res.
                         case res of
                           Inl err \<Rightarrow> ret (no_requeue, Some err)
                         | Inr object' \<Rightarrow> signal_instance (signal bmiID) object'))))"

end
