(* ===== verification/Feedback_Properties.thy ===== *)
theory Feedback_Properties
  imports Feedback_Clusters
begin

text \<open>
  Properties of the feedback controllers. \<open>settling_sync\<close> is the contract of a kind's synchronisation: what it has
  computed once it does not change again. From it follows for the bridge that a resource whose state is reported
  costs one read on either side and nothing more. The synchronisations of the networking kinds and of compute
  instances satisfy it; that of cluster orders does not. The controller of external IPs, written by hand, does
  exactly what the bridge does.
\<close>

section \<open>Reports that settle\<close>

locale settling_sync =
  fixes sync :: "('sp, 'st) resource \<Rightarrow> 'r \<Rightarrow> ('w, 'r \<times> gerror option) go"
  assumes settles: "sync obj remote w = Some ((remote', None), w1) \<Longrightarrow> sync obj remote' w2 = Some ((remote', None), w2)"
begin

lemma reported_quiet:
  assumes "b_SyncUpdate b = sync" and "b_Get b key w = Some (Inr obj, w1)"
    and "DeletionTimestamp (Meta obj) = None" and "Labels (Meta obj) (b_IDLabel b) = Some i"
    and "AddFinalizer (b_Lib b) (Finalizers (Meta obj)) (b_Finalizer b) = (Finalizers (Meta obj), False)"
    and "b_Fetch b i w1 = Some (Inr remote', w2)" and "sync obj remote u = Some ((remote', None), u')"
    and "b_proto_Equal b remote' remote'"
  shows "Bridge_Reconcile b key w = Some ((no_requeue, None), w2)"
  using assms settles [OF assms(7), of w2]
  by (simp add: Bridge_Reconcile_def save_and_finish_def finish_delete_def set_finalizers_def go_simps)

end

text \<open>A synchronisation that is a function of the status and the object, and idempotent.\<close>

lemma settling_on_status:
  assumes "\<And>obj remote w. sync obj remote w = (case ro_Status remote of
      None \<Rightarrow> if touches obj then None else Some ((remote, None), w)
    | Some st \<Rightarrow> Some ((remote\<lparr>ro_Status := Some (f obj st)\<rparr>, None), w))"
    and "\<And>obj st. f obj (f obj st) = f obj st"
  shows "settling_sync sync"
  using assms by unfold_locales (auto split: option.splits if_splits)

lemma sync_steps [simp]:
  "on_status f x w = (case ro_Status x of None \<Rightarrow> None | Some y \<Rightarrow> Some (x\<lparr>ro_Status := Some (f y)\<rparr>, w))"
  "no_sync_error m w = (case m w of None \<Rightarrow> None | Some (r, w') \<Rightarrow> Some ((r, None), w'))"
  "SetState s remote w = (case ro_Status remote of None \<Rightarrow> None | Some st \<Rightarrow> Some (remote\<lparr>ro_Status := Some (st\<lparr>rs_State := s\<rparr>)\<rparr>, w))"
  by (auto simp: on_status_def no_sync_error_def SetState_def go_simps split: option.split)

text \<open>The state a phase is reported as; \<open>del\<close> is that of a deletion.\<close>

definition state_for :: "remote_state \<Rightarrow> Phase \<Rightarrow> remote_state \<Rightarrow> remote_state" where
  "state_for del p old =
     (case p of PhaseProgressing \<Rightarrow> STATE_PENDING | PhaseFailed \<Rightarrow> STATE_FAILED | PhaseReady \<Rightarrow> STATE_READY
      | PhaseDeleting \<Rightarrow> del | _ \<Rightarrow> old)"

definition reports :: "Phase \<Rightarrow> bool" where
  "reports p \<longleftrightarrow> p \<in> {PhaseProgressing, PhaseFailed, PhaseReady, PhaseDeleting}"

lemma state_for_idem [simp]: "state_for del p (state_for del p s) = state_for del p s"
  by (simp add: state_for_def split: Phase.split)

interpretation vn: settling_sync syncVirtualNetworkUpdate
  by (rule settling_on_status [where f = "\<lambda>obj st. st\<lparr>rs_State := state_for STATE_PENDING (Phase (Status obj)) (rs_State st)\<rparr>"
        and touches = "\<lambda>obj. reports (Phase (Status obj))"])
    (auto simp: syncVirtualNetworkUpdate_def syncVirtualNetworkPhase_def state_for_def reports_def ret_def
      split: Phase.split option.split)

interpretation sg: settling_sync syncSecurityGroupUpdate
  by (rule settling_on_status [where f = "\<lambda>obj st. st\<lparr>rs_State := state_for STATE_DELETING (Phase (Status obj)) (rs_State st)\<rparr>"
        and touches = "\<lambda>obj. reports (Phase (Status obj))"])
    (auto simp: syncSecurityGroupUpdate_def syncSecurityGroupPhase_def state_for_def reports_def ret_def
      split: Phase.split option.split)

interpretation ng: settling_sync syncNATGatewayUpdate
  by (rule settling_on_status [where f = "\<lambda>obj st. st\<lparr>rs_State := state_for STATE_DELETING (Phase (Status obj)) (rs_State st)\<rparr>"
        and touches = "\<lambda>obj. reports (Phase (Status obj))"])
    (auto simp: syncNATGatewayUpdate_def syncNATGatewayPhase_def state_for_def reports_def ret_def
      split: Phase.split option.split)

interpretation pool: settling_sync syncExternalIPPoolUpdate
  by (rule settling_on_status [where f = "\<lambda>obj st. st\<lparr>rs_State := state_for STATE_DELETING (Phase (Status obj)) (rs_State st)\<rparr>"
        and touches = "\<lambda>obj. reports (Phase (Status obj))"])
    (auto simp: syncExternalIPPoolUpdate_def syncExternalIPPoolPhase_def state_for_def reports_def ret_def
      split: Phase.split option.split)

interpretation subnet: settling_sync syncSubnetUpdate
  by (rule settling_on_status [where touches = "\<lambda>obj. reports (Phase (Status obj)) \<or> sn_BackendNetworkID (Status obj) \<noteq> ''''"
        and f = "\<lambda>obj st. st\<lparr>rs_State := state_for STATE_DELETING (Phase (Status obj)) (rs_State st),
          rs_Message := (if sn_BackendNetworkID (Status obj) \<noteq> '''' then Some (sn_BackendNetworkID (Status obj)) else rs_Message st)\<rparr>"])
    (auto simp: syncSubnetUpdate_def syncSubnetPhase_def syncSubnetBackendNetworkID_def state_for_def reports_def go_simps
      split: Phase.split option.split)

section \<open>Compute instances\<close>

lemma find_change:
  assumes "\<And>c. rc_Type (f c) = rc_Type c"
  shows "find (\<lambda>c. rc_Type c = k') (change_condition k f cs) =
    (if k' = k then Some (f (case find (\<lambda>c. rc_Type c = k) cs of Some c \<Rightarrow> c
       | None \<Rightarrow> \<lparr>rc_Type = k, rc_Status = CONDITION_STATUS_FALSE, rc_LastTransitionTime = None, rc_Reason = None, rc_Message = None\<rparr>))
     else find (\<lambda>c. rc_Type c = k') cs)"
  by (induction cs) (use assms in auto)

lemma change_fixed: "find (\<lambda>c. rc_Type c = k) cs = Some x \<Longrightarrow> f x = x \<Longrightarrow> change_condition k f cs = cs"
  by (induction cs) (auto split: if_splits)

lemma copy_type [simp]: "rc_Type (copy_condition t g c x) = rc_Type x"
  by (simp add: copy_condition_def Let_def)

lemma copy_again: "copy_condition t' (\<lambda>_. v) c (copy_condition t (\<lambda>_. v) c x) = copy_condition t (\<lambda>_. v) c x"
  by (simp add: copy_condition_def Let_def)

text \<open>The conditions of a record after those of an instance were copied at time \<open>t\<close>.\<close>

fun ci_conditions ::
  "instant \<Rightarrow> 'cs compute_instance \<Rightarrow> (string \<times> ComputeInstanceConditionType) list \<Rightarrow>
   ComputeInstanceConditionType remote_condition list \<Rightarrow> ComputeInstanceConditionType remote_condition list"
where
  "ci_conditions t obj [] cs = cs"
| "ci_conditions t obj ((cr, vm) # ms) cs = ci_conditions t obj ms
     (case ComputeInstance_GetStatusCondition obj cr of None \<Rightarrow> cs
      | Some c \<Rightarrow> change_condition vm (copy_condition t (\<lambda>_. Some (cond_Reason c)) c) cs)"

definition mirrored ::
  "'cs compute_instance \<Rightarrow> string \<times> ComputeInstanceConditionType \<Rightarrow> ComputeInstanceConditionType remote_condition list \<Rightarrow> bool"
where
  "mirrored obj m cs \<longleftrightarrow>
     (\<forall>c. ComputeInstance_GetStatusCondition obj (fst m) = Some c \<longrightarrow>
        (\<exists>t x. find (\<lambda>x. rc_Type x = snd m) cs = Some (copy_condition t (\<lambda>_. Some (cond_Reason c)) c x)))"

lemma ci_conditions_other:
  "k \<notin> snd ` set ms \<Longrightarrow> find (\<lambda>x. rc_Type x = k) (ci_conditions t obj ms cs) = find (\<lambda>x. rc_Type x = k) cs"
  by (induction ms arbitrary: cs) (auto simp: find_change split: option.split)

text \<open>The condition of a kind that is changed: the one there is, or a new one.\<close>

definition old_condition :: "'k \<Rightarrow> 'k remote_condition list \<Rightarrow> 'k remote_condition" where
  "old_condition k cs =
     (case find (\<lambda>c. rc_Type c = k) cs of Some c \<Rightarrow> c
      | None \<Rightarrow> \<lparr>rc_Type = k, rc_Status = CONDITION_STATUS_FALSE, rc_LastTransitionTime = None, rc_Reason = None, rc_Message = None\<rparr>)"

lemma old_condition_type [simp]: "rc_Type (old_condition k cs) = k"
  by (auto simp: old_condition_def find_Some_iff split: option.split)

lemma ci_conditions_exact:
  "distinct (map snd ms) \<Longrightarrow> (cr, vm) \<in> set ms \<Longrightarrow> ComputeInstance_GetStatusCondition obj cr = Some c \<Longrightarrow>
   find (\<lambda>x. rc_Type x = vm) (ci_conditions t obj ms cs) =
     Some (copy_condition t (\<lambda>_. Some (cond_Reason c)) c (old_condition vm cs))"
proof (induction ms arbitrary: cs)
  case (Cons a ms)
  obtain cr' vm' where a: "a = (cr', vm')" by (cases a)
  show ?case
  proof (cases "(cr, vm) = a")
    case True
    then show ?thesis
      using Cons.prems by (auto simp: a ci_conditions_other find_change old_condition_def)
  next
    case False
    then have "vm \<noteq> vm'" and "(cr, vm) \<in> set ms" using Cons.prems by (force simp: a)+
    with Cons.IH Cons.prems show ?thesis by (auto simp: a find_change old_condition_def split: option.split)
  qed
qed simp

lemma ci_conditions_mirror:
  "distinct (map snd ms) \<Longrightarrow> m \<in> set ms \<Longrightarrow> mirrored obj m (ci_conditions t obj ms cs)"
  using ci_conditions_exact [of ms "fst m" "snd m" obj] by (fastforce simp: mirrored_def)

lemma ci_conditions_fixed:
  "(\<And>m. m \<in> set ms \<Longrightarrow> mirrored obj m cs) \<Longrightarrow> ci_conditions t obj ms cs = cs"
proof (induction ms)
  case (Cons a ms)
  obtain cr vm where a: "a = (cr, vm)" by (cases a)
  have "change_condition vm (copy_condition t (\<lambda>_. Some (cond_Reason c)) c) cs = cs"
    if "ComputeInstance_GetStatusCondition obj cr = Some c" for c
    using Cons.prems [of a] that by (auto simp: a mirrored_def copy_again intro: change_fixed)
  with Cons show ?case by (simp add: a split: option.split)
qed simp

lemma sync_ci_conditions_eq:
  assumes "ro_Status remote = Some st"
  shows "sync_ci_conditions lib obj ms remote w =
    Some (remote\<lparr>ro_Status := Some (st\<lparr>cis_Conditions := ci_conditions (k8s_now lib w) obj ms (cis_Conditions st)\<rparr>)\<rparr>, w)"
  using assms
proof (induction ms arbitrary: remote st)
  case (Cons a ms)
  obtain cr vm where a: "a = (cr, vm)" by (cases a)
  show ?case
  proof (cases "ComputeInstance_GetStatusCondition obj cr")
    case None
    with Cons show ?thesis by (simp add: a go_simps)
  next
    case (Some c)
    let ?st = "st\<lparr>cis_Conditions := change_condition vm (copy_condition (k8s_now lib w) (\<lambda>_. Some (cond_Reason c)) c) (cis_Conditions st)\<rparr>"
    from Cons.IH [of "remote\<lparr>ro_Status := Some ?st\<rparr>" ?st] Cons.prems Some
    show ?thesis by (simp add: a go_simps syncCIConditionFromCR_def)
  qed
qed (simp add: go_simps)

definition ci_status :: "instant \<Rightarrow> 'cs compute_instance \<Rightarrow> 'm remote_instance_status_scheme \<Rightarrow> 'm remote_instance_status_scheme" where
  "ci_status t obj st = st
     \<lparr>cis_Conditions := ci_conditions t obj conditionMappings (cis_Conditions st),
      cis_State := (case state_of_phase (Phase (Status obj)) of None \<Rightarrow> cis_State st | Some s \<Rightarrow> s),
      cis_ExternalIpAddress := ExternalIPAddress (Status obj), cis_InternalIpAddress := IPAddress (Status obj),
      cis_LastRestartedAt := (case LastRestartedAt (Status obj) of None \<Rightarrow> cis_LastRestartedAt st | Some r \<Rightarrow> Some r)\<rparr>"

lemma sync_ci_eq:
  "ro_Status remote = Some st \<Longrightarrow> syncComputeInstanceUpdate lib obj remote w =
     Some ((remote\<lparr>ro_Status := Some (ci_status (k8s_now lib w) obj st)\<rparr>, None), w)"
  by (simp add: syncComputeInstanceUpdate_def syncCIConditions_def sync_ci_conditions_eq syncCIPhase_def syncCIIPAddresses_def
      syncCILastRestartedAt_def ci_status_def go_simps split: option.split)

lemma sync_ci_missing:
  assumes "ro_Status remote = None"
  shows "syncComputeInstanceUpdate lib obj remote w = None"
proof -
  have step: "sync_ci_conditions lib obj ms remote w \<in> {None, Some (remote, w)}" for ms
  proof (induction ms)
    case (Cons a ms)
    obtain cr vm where a: "a = (cr, vm)" by (cases a)
    from Cons show ?case
      by (cases "ComputeInstance_GetStatusCondition obj cr") (simp_all add: a go_simps syncCIConditionFromCR_def assms)
  qed (simp add: go_simps)
  have "syncCIConditions lib obj remote w = None \<or> syncCIConditions lib obj remote w = Some (remote, w)"
    using step [of conditionMappings] by (auto simp: syncCIConditions_def)
  then show ?thesis
    using assms
    by (cases "state_of_phase (Phase (Status obj))")
      (auto simp: syncComputeInstanceUpdate_def syncCIPhase_def syncCIIPAddresses_def go_simps)
qed

lemma mappings_mirror: "m \<in> set conditionMappings \<Longrightarrow> mirrored obj m (ci_conditions t obj conditionMappings cs)"
  by (rule ci_conditions_mirror) (simp add: conditionMappings_def)

lemma ci_status_idem: "ci_status t' obj (ci_status t obj st) = ci_status t obj st"
  by (simp add: ci_status_def ci_conditions_fixed [OF mappings_mirror] split: option.split)

interpretation ci: settling_sync "syncComputeInstanceUpdate lib"
proof
  fix obj :: "'b compute_instance" and remote remote' :: "('c, 'd) remote_instance" and w w1 w2 :: 'a
  assume run: "syncComputeInstanceUpdate lib obj remote w = Some ((remote', None), w1)"
  then obtain st where st: "ro_Status remote = Some st" by (cases "ro_Status remote") (auto simp: sync_ci_missing)
  then have "ro_Status remote' = Some (ci_status (k8s_now lib w) obj st)" using run by (auto simp: sync_ci_eq)
  then show "syncComputeInstanceUpdate lib obj remote' w2 = Some ((remote', None), w2)"
    by (simp add: sync_ci_eq ci_status_idem)
qed

section \<open>External IPs\<close>

text \<open>The bridge that the controller of the external IPs could have used; \<open>is_missing\<close> recognises \<^verbatim>\<open>ErrExternalIPNotFound\<close>.\<close>

definition external_ip_bridge ::
  "(ExternalIPSpec, ExternalIPStatus, 'w) hub_client \<Rightarrow> ('ps, 'm remote_ip_status_scheme, 'w) grpc_client \<Rightarrow>
   'ps \<Rightarrow> 'm remote_ip_status_scheme \<Rightarrow> (gerror \<Rightarrow> bool) \<Rightarrow>
   (ExternalIPSpec, ExternalIPStatus, ('ps, 'm) remote_ip, 'w) Bridge"
where
  "external_ip_bridge hubClient c sp0 st0 is_missing =
     (make_bridge hubClient c osacExternalIPFeedbackFinalizer osacExternalIPIDLabel
        (\<lambda>i. bnd (fetchExternalIP c sp0 st0 i) (\<lambda>res. ret (case res of Inl (_, err) \<Rightarrow> Inl err | Inr x \<Rightarrow> Inr x)))
        (\<lambda>obj remote. no_sync_error (bnd (ExternalIP_syncState obj remote) (ExternalIP_syncAddress obj)))
        (\<lambda>obj remote. no_sync_error (ExternalIPFeedback_handleDelete obj remote)))
     \<lparr>b_IsNotFound := Some is_missing\<rparr>"

definition recognises_missing :: "('ps, 'pt, 'w) grpc_client \<Rightarrow> (gerror \<Rightarrow> bool) \<Rightarrow> bool" where
  "recognises_missing c is_missing \<longleftrightarrow>
     is_missing (Errorf ''external IP not found in fulfillment service: response contained nil object'' []) \<and>
     (\<forall>err. is_missing (Wrapf ''external IP not found in fulfillment service: %w'' [] err)) \<and>
     (\<forall>i w err w'. gc_Get c i w = Some (Inl err, w') \<longrightarrow> gc_status_Code c err \<noteq> 5 \<longrightarrow> \<not> is_missing err)"

lemma external_ip_bridge_simps [simp]:
  "b_Lib (external_ip_bridge hubClient c sp0 st0 m) = hub_Lib hubClient"
  "b_Get (external_ip_bridge hubClient c sp0 st0 m) = hub_Get hubClient"
  "b_Update (external_ip_bridge hubClient c sp0 st0 m) = hub_Update hubClient"
  "b_Finalizer (external_ip_bridge hubClient c sp0 st0 m) = osacExternalIPFeedbackFinalizer"
  "b_IDLabel (external_ip_bridge hubClient c sp0 st0 m) = osacExternalIPIDLabel"
  "b_Save (external_ip_bridge hubClient c sp0 st0 m) = gc_Update c"
  "b_Signal (external_ip_bridge hubClient c sp0 st0 m) = gc_Signal c"
  "b_PostSaveOnDelete (external_ip_bridge hubClient c sp0 st0 m) = None"
  "b_proto_Equal (external_ip_bridge hubClient c sp0 st0 m) = gc_proto_Equal c"
  "isNotFound (external_ip_bridge hubClient c sp0 st0 m) err = m err"
  "b_SyncUpdate (external_ip_bridge hubClient c sp0 st0 m) obj remote =
     no_sync_error (bnd (ExternalIP_syncState obj remote) (ExternalIP_syncAddress obj))"
  "b_SyncDelete (external_ip_bridge hubClient c sp0 st0 m) obj remote = no_sync_error (ExternalIPFeedback_handleDelete obj remote)"
  "b_Fetch (external_ip_bridge hubClient c sp0 st0 m) i =
     bnd (fetchExternalIP c sp0 st0 i) (\<lambda>res. ret (case res of Inl (_, err) \<Rightarrow> Inl err | Inr x \<Rightarrow> Inr x))"
  by (simp_all add: external_ip_bridge_def make_bridge_def isNotFound_def)

lemma bnd_laws: "bnd (bnd m f) g = bnd m (\<lambda>x. bnd (f x) g)" "bnd (ret x) k = k x"
  by (auto simp: fun_eq_iff go_simps split: option.split)

lemma drop_is_remove:
  "hub_Lib hubClient = b_Lib b \<Longrightarrow> hub_Update hubClient = b_Update b \<Longrightarrow>
   drop_finalizer hubClient (b_Finalizer b) obj = bnd (remove_and_update b obj) (\<lambda>e. ret (no_requeue, e))"
  by (auto simp: drop_finalizer_def remove_and_update_def bnd_laws fun_eq_iff go_simps split: prod.split bool.split option.split sum.split)

lemma remove_and_signal_is_finish:
  assumes "hub_Lib hubClient = b_Lib b" and "hub_Update hubClient = b_Update b"
  shows "remove_and_signal hubClient (b_Finalizer b) (b_Signal b i) obj = finish_delete b i obj"
  by (simp add: remove_and_signal_def finish_delete_def drop_is_remove [OF assms] assms(1) bnd_laws)

lemma finish_is_bridge:
  assumes "\<And>a b. gc_proto_Equal c a b = gc_proto_Equal c b a"
  shows "ExternalIPFeedback_finish hubClient c i before obj after
     = save_and_finish (external_ip_bridge hubClient c sp0 st0 m) i before obj after"
  using remove_and_signal_is_finish [of hubClient "external_ip_bridge hubClient c sp0 st0 m" i obj]
  unfolding ExternalIPFeedback_finish_def save_and_finish_def saveExternalIP_def external_ip_bridge_simps assms [of after]
  by (intro ext bnd_cong_at) (auto split: option.split bool.split)

lemma fetch_missing:
  assumes "recognises_missing c is_missing" and "fetchExternalIP c sp0 st0 i w = Some (Inl (missing, err), w')"
  shows "is_missing err = missing"
  using assms
  by (auto simp: recognises_missing_def fetchExternalIP_def go_simps split: option.splits sum.splits prod.splits if_splits)
    blast+

text \<open>
  C15: the feedback controller of the external IPs, which does not use the bridge, does what the bridge does with
  the same callbacks, whatever the hub and the service answer. The service's client must not return the
  controller's own sentinel error, and the comparison of records must be symmetric.
\<close>

theorem ExternalIP_feedback_is_bridge:
  assumes "recognises_missing c is_missing" and "\<And>a b. gc_proto_Equal c a b = gc_proto_Equal c b a"
  shows "ExternalIPFeedback_Reconcile hubClient c sp0 st0 key w =
    Bridge_Reconcile (external_ip_bridge hubClient c sp0 st0 is_missing) key w"
proof -
  let ?b = "external_ip_bridge hubClient c sp0 st0 is_missing"
  have drop: "drop_finalizer hubClient osacExternalIPFeedbackFinalizer obj
      = bnd (remove_and_update ?b obj) (\<lambda>e. ret (no_requeue, e))" for obj
    using drop_is_remove [of hubClient ?b obj] by simp
  note fin = finish_is_bridge [OF assms(2), of hubClient _ _ _ _ sp0 st0 is_missing]
  note sum_fun = sum.case_distrib [of "\<lambda>m. bnd m k" for k] if_distrib [of "\<lambda>m. bnd m k" for k]
  show ?thesis
    unfolding ExternalIPFeedback_Reconcile_def Bridge_Reconcile_def external_ip_bridge_simps drop fin bnd_laws no_sync_error_def
      ExternalIPFeedback_handleUpdate_def
    by (intro bnd_cong_at)
      (auto simp: fetch_missing [OF assms(1)] bnd_laws split: sum.split option.split prod.split intro!: bnd_cong_at)
qed

section \<open>Attachments\<close>

definition answers :: "('w, 'a) go \<Rightarrow> ('a \<Rightarrow> 'w \<Rightarrow> 'w \<Rightarrow> bool) \<Rightarrow> bool" where
  "answers m Q \<longleftrightarrow> (\<forall>w x w'. m w = Some (x, w') \<longrightarrow> Q x w w')"

text \<open>
  What the fulfillment service holds, as functions of the world: whether an external IP is marked attached, and the
  external IP of an attachment record, empty if there is no record or it names none. Its answers are truthful, its
  records carry the identifiers they are asked for, an update stores what it is given, and a write to the hub changes
  neither the records of the service nor the labels of the object.
\<close>

definition truthful_services ::
  "(string \<Rightarrow> 'w \<Rightarrow> bool) \<Rightarrow> (string \<Rightarrow> 'w \<Rightarrow> string) \<Rightarrow> ('s, 'm, 'ps, 'n, 'w) ExternalIPAttachmentFeedbackReconciler \<Rightarrow> bool"
where
  "truthful_services attached parent r \<longleftrightarrow>
     ra_ExternalIp (af_empty_spec r) = '''' \<and> \<not> ri_Attached (af_empty_ip_status r) \<and>
     (\<forall>i. answers (gc_Get (af_attachments r) i) (\<lambda>res w w'. case res of
        Inr (Some rec) \<Rightarrow> ro_Id rec = i \<and> parent i w' = GetExternalIp rec
      | Inr None \<Rightarrow> parent i w' = ''''
      | Inl err \<Rightarrow> gc_status_Code (af_attachments r) err = 5 \<longrightarrow> parent i w' = '''')) \<and>
     (\<forall>rec. answers (gc_Update (af_attachments r) rec) (\<lambda>err w w'. err = None \<longrightarrow>
        parent (ro_Id rec) w' = GetExternalIp rec)) \<and>
     (\<forall>i. answers (gc_Get (af_externalIPs r) i) (\<lambda>res w w'. (\<forall>j. parent j w' = parent j w) \<and> (case res of
        Inr (Some ip) \<Rightarrow> ro_Id ip = i \<and> attached i w' = (case ro_Status ip of None \<Rightarrow> False | Some st \<Rightarrow> ri_Attached st)
      | Inr None \<Rightarrow> True
      | Inl err \<Rightarrow> gc_status_Code (af_externalIPs r) err = 5 \<longrightarrow> \<not> attached i w'))) \<and>
     (\<forall>ip st. ro_Status ip = Some st \<longrightarrow> answers (gc_Update (af_externalIPs r) ip) (\<lambda>err w w'. (\<forall>j. parent j w' = parent j w) \<and>
        (err = None \<longrightarrow> attached (ro_Id ip) w' = ri_Attached st))) \<and>
     (\<forall>obj. answers (hub_Update (af_hubClient r) obj) (\<lambda>res w w'. (\<forall>j. parent j w' = parent j w) \<and> (case res of
        Inr obj' \<Rightarrow> Labels (Meta obj') = Labels (Meta obj) | Inl _ \<Rightarrow> True)))"

text \<open>Writing this object would give up an attachment whose external IP is still marked attached.\<close>

definition gives_up_attached :: "(string \<Rightarrow> 'w \<Rightarrow> bool) \<Rightarrow> (string \<Rightarrow> 'w \<Rightarrow> string) \<Rightarrow> ExternalIPAttachment \<Rightarrow> 'w \<Rightarrow> bool" where
  "gives_up_attached attached parent obj w \<longleftrightarrow>
     DeletionTimestamp (Meta obj) \<noteq> None \<and> osacExternalIPAttachmentFeedbackFinalizer \<notin> set (Finalizers (Meta obj)) \<and>
     (case Labels (Meta obj) osacExternalIPAttachmentIDLabel of
        None \<Rightarrow> False
      | Some i \<Rightarrow> parent i w \<noteq> '''' \<and> attached (parent i w) w)"

definition careful_attachments ::
  "(string \<Rightarrow> 'w \<Rightarrow> bool) \<Rightarrow> (string \<Rightarrow> 'w \<Rightarrow> string) \<Rightarrow> ('s, 'm, 'ps, 'n, 'w) ExternalIPAttachmentFeedbackReconciler \<Rightarrow>
   ('s, 'm, 'ps, 'n, 'w) ExternalIPAttachmentFeedbackReconciler"
where
  "careful_attachments attached parent r = r\<lparr>af_hubClient := (af_hubClient r)\<lparr>hub_Update := (\<lambda>obj w.
     if gives_up_attached attached parent obj w then None else hub_Update (af_hubClient r) obj w)\<rparr>\<rparr>"

lemma careful_attachments_simps [simp]:
  "af_attachments (careful_attachments attached parent r) = af_attachments r"
  "af_externalIPs (careful_attachments attached parent r) = af_externalIPs r"
  "af_empty_spec (careful_attachments attached parent r) = af_empty_spec r"
  "af_empty_status (careful_attachments attached parent r) = af_empty_status r"
  "af_empty_ip_status (careful_attachments attached parent r) = af_empty_ip_status r"
  "hub_Lib (af_hubClient (careful_attachments attached parent r)) = hub_Lib (af_hubClient r)"
  "hub_Get (af_hubClient (careful_attachments attached parent r)) = hub_Get (af_hubClient r)"
  by (simp_all add: careful_attachments_def)

lemma careful_attachments_ops [simp]:
  "fetchExternalIPAttachment (careful_attachments attached parent r) = fetchExternalIPAttachment r"
  "saveExternalIPAttachment (careful_attachments attached parent r) = saveExternalIPAttachment r"
  "Attachment_syncAddress (careful_attachments attached parent r) = Attachment_syncAddress r"
  "syncAttachedOnParentExternalIP (careful_attachments attached parent r) = syncAttachedOnParentExternalIP r"
  unfolding fun_eq_iff fetchExternalIPAttachment_def saveExternalIPAttachment_def Attachment_syncAddress_def
    syncAttachedOnParentExternalIP_def careful_attachments_simps by simp_all

lemma hub_Update_careful:
  "\<not> gives_up_attached attached parent obj w \<Longrightarrow>
   hub_Update (af_hubClient (careful_attachments attached parent r)) obj w = hub_Update (af_hubClient r) obj w"
  by (simp add: careful_attachments_def)

text \<open>Nothing of the attachment is left to clear on its external IP.\<close>

definition nothing_attached :: "(string \<Rightarrow> 'w \<Rightarrow> bool) \<Rightarrow> (string \<Rightarrow> 'w \<Rightarrow> string) \<Rightarrow> ExternalIPAttachment \<Rightarrow> 'w \<Rightarrow> bool" where
  "nothing_attached attached parent obj w \<longleftrightarrow>
     (case Labels (Meta obj) osacExternalIPAttachmentIDLabel of
        None \<Rightarrow> True | Some i \<Rightarrow> parent i w = '''' \<or> \<not> attached (parent i w) w)"

lemma hub_Update_nothing_attached:
  "nothing_attached attached parent obj w \<Longrightarrow>
   hub_Update (af_hubClient (careful_attachments attached parent r)) (set_finalizers fs obj) w =
   hub_Update (af_hubClient r) (set_finalizers fs obj) w"
  by (auto simp: hub_Update_careful gives_up_attached_def nothing_attached_def set_finalizers_def split: option.splits)

lemma drop_careful:
  "nothing_attached attached parent obj w \<Longrightarrow>
   drop_finalizer (af_hubClient (careful_attachments attached parent r)) f obj w = drop_finalizer (af_hubClient r) f obj w"
  by (simp add: drop_finalizer_def bnd_apply hub_Update_nothing_attached split: prod.split bool.split)

lemma remove_and_signal_careful:
  "DeletionTimestamp (Meta obj) \<noteq> None \<longrightarrow> nothing_attached attached parent obj w \<Longrightarrow>
   remove_and_signal (af_hubClient (careful_attachments attached parent r)) f sig obj w = remove_and_signal (af_hubClient r) f sig obj w"
  by (auto simp: remove_and_signal_def bnd_apply drop_careful split: option.split)

lemma truthful_keeps:
  assumes "truthful_services attached parent r"
  shows "gc_Get (af_externalIPs r) j w = Some (res, w') \<Longrightarrow> parent i w' = parent i w"
    and "ro_Status ip = Some st \<Longrightarrow> gc_Update (af_externalIPs r) ip w = Some (e, w') \<Longrightarrow> parent i w' = parent i w"
    and "hub_Update (af_hubClient r) obj w = Some (Inr obj', w') \<Longrightarrow> parent i w' = parent i w \<and> Labels (Meta obj') = Labels (Meta obj)"
proof -
  assume "hub_Update (af_hubClient r) obj w = Some (Inr obj', w')"
  moreover have "answers (hub_Update (af_hubClient r) obj) (\<lambda>res w w'. (\<forall>j. parent j w' = parent j w) \<and> (case res of
      Inr obj' \<Rightarrow> Labels (Meta obj') = Labels (Meta obj) | Inl _ \<Rightarrow> True))"
    using assms by (simp add: truthful_services_def)
  ultimately show "parent i w' = parent i w \<and> Labels (Meta obj') = Labels (Meta obj)" by (fastforce simp: answers_def)
next
  assume "ro_Status ip = Some st" and "gc_Update (af_externalIPs r) ip w = Some (e, w')"
  with assms show "parent i w' = parent i w" unfolding truthful_services_def answers_def by blast
next
  assume "gc_Get (af_externalIPs r) j w = Some (res, w')"
  with assms show "parent i w' = parent i w" by (simp add: truthful_services_def answers_def)
qed

lemma cleared_parent:
  assumes "truthful_services attached parent r" and "syncAttachedOnParentExternalIP r remote False w = Some (None, w')"
    and "parent i w = GetExternalIp remote"
  shows "parent i w' = '''' \<or> \<not> attached (parent i w') w'"
proof (cases "GetExternalIp remote = ''''")
  case True
  with assms(2,3) show ?thesis by (auto simp: syncAttachedOnParentExternalIP_def go_simps)
next
  case False
  obtain res w1 where g: "gc_Get (af_externalIPs r) (GetExternalIp remote) w = Some (res, w1)"
    using assms(2) False by (auto simp: syncAttachedOnParentExternalIP_def go_simps split: option.splits)
  then have w1: "parent i w1 = GetExternalIp remote"
    and res: "case res of Inr (Some ip) \<Rightarrow> ro_Id ip = GetExternalIp remote \<and>
        attached (GetExternalIp remote) w1 = (case ro_Status ip of None \<Rightarrow> False | Some st \<Rightarrow> ri_Attached st)
      | Inr None \<Rightarrow> True
      | Inl err \<Rightarrow> gc_status_Code (af_externalIPs r) err = 5 \<longrightarrow> \<not> attached (GetExternalIp remote) w1"
    using assms(1,3) by (simp_all add: truthful_services_def answers_def)
  have upd: "parent i w' = GetExternalIp remote \<and> \<not> attached (ro_Id ip) w'"
    if "gc_Update (af_externalIPs r) ip w1 = Some (None, w')" "ro_Status ip = Some st" "\<not> ri_Attached st" for ip st
    using assms(1) that w1 by (simp add: truthful_services_def answers_def)
  from assms(2) False g res w1 assms(1) show ?thesis
    by (auto simp: syncAttachedOnParentExternalIP_def go_simps Let_def truthful_services_def
        split: sum.splits option.splits if_splits dest!: upd)
qed

lemma fill_remote_keeps [simp]:
  "ro_Id (fill_remote sp0 st0 x) = ro_Id x"
  "ra_ExternalIp sp1 = [] \<Longrightarrow> GetExternalIp (fill_remote sp1 st1 y) = GetExternalIp y"
  by (simp_all add: fill_remote_def GetExternalIp_def split: option.split)

lemma fetched_parent:
  assumes "truthful_services attached parent r" and "fetchExternalIPAttachment r i w = Some (res, w')"
  shows "case res of Inr rec \<Rightarrow> ro_Id rec = i \<and> parent i w' = GetExternalIp rec
    | Inl (missing, _) \<Rightarrow> missing \<longrightarrow> parent i w' = ''''"
proof -
  have "ra_ExternalIp (af_empty_spec r) = []" using assms(1) by (simp add: truthful_services_def)
  moreover obtain out w1 where "gc_Get (af_attachments r) i w = Some (out, w1)"
    using assms(2) by (auto simp: fetchExternalIPAttachment_def go_simps split: option.splits)
  moreover from this have "case out of Inr (Some rec) \<Rightarrow> ro_Id rec = i \<and> parent i w1 = GetExternalIp rec
      | Inr None \<Rightarrow> parent i w1 = [] | Inl err \<Rightarrow> gc_status_Code (af_attachments r) err = 5 \<longrightarrow> parent i w1 = []"
    using assms(1) by (simp add: truthful_services_def answers_def)
  ultimately show ?thesis
    using assms(2) by (auto simp: fetchExternalIPAttachment_def go_simps split: sum.splits option.splits if_splits)
qed

lemma saved_parent:
  assumes "truthful_services attached parent r" and "saveExternalIPAttachment r before after w = Some (None, w')"
    and "parent i w = GetExternalIp after" and "ro_Id after = i"
  shows "parent i w' = GetExternalIp after"
  using assms(2-) assms(1) [unfolded truthful_services_def answers_def, THEN conjunct2, THEN conjunct2, THEN conjunct2, THEN conjunct1]
  by (auto simp: saveExternalIPAttachment_def go_simps split: if_splits)

text \<open>None of the setters changes what an attachment record says about its external IP.\<close>

definition same_parent :: "('s, 'm) remote_attachment \<Rightarrow> ('s, 'm) remote_attachment \<Rightarrow> bool" where
  "same_parent remote remote' \<longleftrightarrow> ro_Id remote' = ro_Id remote \<and> ro_Spec remote' = ro_Spec remote"

lemma SetState_parent: "SetState st remote w = Some (remote', w') \<Longrightarrow> same_parent remote remote' \<and> w' = w"
  by (auto simp: same_parent_def split: option.splits)

lemma syncState_parent: "Attachment_syncState obj remote w = Some (remote', w') \<Longrightarrow> same_parent remote remote' \<and> w' = w"
  by (auto simp: Attachment_syncState_def go_simps same_parent_def split: Phase.splits option.splits)

lemma syncAddress_parent: "answers (Attachment_syncAddress r remote) (\<lambda>remote' w w'. same_parent remote remote')"
  by (auto simp: answers_def Attachment_syncAddress_def go_simps same_parent_def split: option.splits sum.splits if_splits)

lemma parent_kept:
  assumes "truthful_services attached parent r"
  shows "answers (Attachment_syncAddress r remote) (\<lambda>_ w w'. parent i w' = parent i w)"
    and "answers (syncAttachedOnParentExternalIP r remote a) (\<lambda>_ w w'. parent i w' = parent i w)"
proof -
  note get = truthful_keeps(1) [OF assms, where i = i]
  have upd: "gc_Update (af_externalIPs r) (ip\<lparr>ro_Status := Some st\<rparr>) w = Some (e, w') \<Longrightarrow> parent i w' = parent i w" for ip st w e w'
    by (rule truthful_keeps(2) [OF assms]) simp_all
  show "answers (Attachment_syncAddress r remote) (\<lambda>_ w w'. parent i w' = parent i w)"
    by (auto simp: answers_def Attachment_syncAddress_def go_simps split: option.splits sum.splits if_splits dest: get)
  show "answers (syncAttachedOnParentExternalIP r remote a) (\<lambda>_ w w'. parent i w' = parent i w)"
    by (auto simp: answers_def syncAttachedOnParentExternalIP_def go_simps Let_def split: option.splits sum.splits if_splits
        dest!: get upd)
qed

lemma finish_careful:
  assumes "truthful_services attached parent r" and "Labels (Meta obj) osacExternalIPAttachmentIDLabel = Some i"
    and "ro_Id after = i" and "parent i w = GetExternalIp after"
  shows "AttachmentFeedback_finish (careful_attachments attached parent r) i before obj after w =
    AttachmentFeedback_finish r i before obj after w"
  unfolding AttachmentFeedback_finish_def careful_attachments_simps careful_attachments_ops
proof (rule bnd_cong_at, goal_cases)
  case (1 e w1)
  have "remove_and_signal (af_hubClient (careful_attachments attached parent r)) f sig obj w2 = remove_and_signal (af_hubClient r) f sig obj w2"
    if "e = None" and "(if DeletionTimestamp (Meta obj) \<noteq> None then syncAttachedOnParentExternalIP r after False else ret None) w1 = Some (None, w2)"
    for f sig w2
  proof (rule remove_and_signal_careful, rule impI)
    assume "DeletionTimestamp (Meta obj) \<noteq> None"
    with that 1 cleared_parent [OF assms(1) _ saved_parent [OF assms(1) _ assms(4,3)]]
    show "nothing_attached attached parent obj w2" by (auto simp: nothing_attached_def assms(2))
  qed
  then show ?case by (cases e) (auto intro!: bnd_cong_at split: option.split)
qed

lemma handleUpdate_parent:
  assumes t: "truthful_services attached parent r"
    and run: "AttachmentFeedback_handleUpdate r obj remote w = Some (Inr (obj', after), w')"
    and at: "ro_Id remote = i" "parent i w = GetExternalIp remote"
  shows "ro_Id after = i \<and> parent i w' = GetExternalIp after \<and> Labels (Meta obj') = Labels (Meta obj)"
proof -
  obtain fs changed where f: "AddFinalizer (hub_Lib (af_hubClient r)) (Finalizers (Meta obj)) osacExternalIPAttachmentFeedbackFinalizer = (fs, changed)"
    by fastforce
  obtain w1 where w1: "(if changed then hub_Update (af_hubClient r) (set_finalizers fs obj) else ret (Inr (set_finalizers fs obj))) w = Some (Inr obj', w1)"
    and rest: "bnd (Attachment_syncState obj' remote) (\<lambda>remote1. bnd (Attachment_syncAddress r remote1) (\<lambda>remote2.
        bnd (if Phase (Status obj') = PhaseReady then syncAttachedOnParentExternalIP r remote2 True else ret None) (\<lambda>e.
          case e of Some err \<Rightarrow> ret (Inl err) | None \<Rightarrow> ret (Inr (obj', remote2))))) w1 = Some (Inr (obj', after), w')"
    using run f
    by (auto simp: AttachmentFeedback_handleUpdate_def bnd_apply [of "If _ _ _"] ret_apply split: option.splits sum.splits)
      (auto simp: go_simps split: option.splits sum.splits)
  have 1: "parent i w1 = parent i w" "Labels (Meta obj') = Labels (Meta obj)"
    using w1 truthful_keeps(3) [OF t, of _ w obj' w1 i] by (auto simp: set_finalizers_def ret_apply split: if_splits)
  obtain remote1 where r1: "Attachment_syncState obj' remote w1 = Some (remote1, w1)" "same_parent remote remote1"
    using rest syncState_parent [of obj' remote w1] by (auto simp: bnd_apply split: option.splits)
  obtain w2 where r2: "Attachment_syncAddress r remote1 w1 = Some (after, w2)"
    and w': "(if Phase (Status obj') = PhaseReady then syncAttachedOnParentExternalIP r after True else ret None) w2 = Some (None, w')"
    using rest r1 by (auto simp: go_simps split: option.splits if_splits)
  have "same_parent remote1 after" "parent i w2 = parent i w1"
    using r2 syncAddress_parent [of r remote1] parent_kept(1) [OF t] by (auto simp: answers_def)
  moreover have "parent i w' = parent i w2"
    using w' parent_kept(2) [OF t] by (auto simp: answers_def ret_apply split: if_splits)
  ultimately show ?thesis using 1 r1(2) at by (auto simp: same_parent_def GetExternalIp_def)
qed

lemma handleDelete_parent:
  "AttachmentFeedback_handleDelete obj remote w = Some (after, w') \<Longrightarrow> ro_Id remote = i \<Longrightarrow> parent i w = GetExternalIp remote \<Longrightarrow>
   ro_Id after = i \<and> parent i w' = GetExternalIp after"
  by (auto simp: AttachmentFeedback_handleDelete_def same_parent_def GetExternalIp_def dest!: SetState_parent simp del: sync_steps)

lemma handleUpdate_careful:
  assumes "DeletionTimestamp (Meta obj) = None"
  shows "AttachmentFeedback_handleUpdate (careful_attachments attached parent r) obj remote = AttachmentFeedback_handleUpdate r obj remote"
proof -
  have h: "hub_Update (af_hubClient (careful_attachments attached parent r)) (set_finalizers fs obj) =
      hub_Update (af_hubClient r) (set_finalizers fs obj)" for fs
    using assms by (auto simp: fun_eq_iff hub_Update_careful gives_up_attached_def set_finalizers_def)
  show ?thesis
    unfolding AttachmentFeedback_handleUpdate_def careful_attachments_simps careful_attachments_ops h ..
qed

lemma fetched_careful:
  assumes t: "truthful_services attached parent r" and f: "fetchExternalIPAttachment r i w1 = Some (fetched, w2)"
    and lab: "Labels (Meta obj) osacExternalIPAttachmentIDLabel = Some i"
  shows "(case fetched of
        Inl (missing, err) \<Rightarrow> if DeletionTimestamp (Meta obj) \<noteq> None \<and> missing
          then drop_finalizer (af_hubClient (careful_attachments attached parent r)) osacExternalIPAttachmentFeedbackFinalizer obj else ret (no_requeue, Some err)
      | Inr remote \<Rightarrow> if DeletionTimestamp (Meta obj) = None then
          bnd (AttachmentFeedback_handleUpdate (careful_attachments attached parent r) obj remote) (\<lambda>res. case res of Inl err \<Rightarrow> ret (no_requeue, Some err)
            | Inr (obj', after) \<Rightarrow> AttachmentFeedback_finish (careful_attachments attached parent r) i remote obj' after)
        else bnd (AttachmentFeedback_handleDelete obj remote) (\<lambda>after. AttachmentFeedback_finish (careful_attachments attached parent r) i remote obj after)) w2 =
      (case fetched of
        Inl (missing, err) \<Rightarrow> if DeletionTimestamp (Meta obj) \<noteq> None \<and> missing
          then drop_finalizer (af_hubClient r) osacExternalIPAttachmentFeedbackFinalizer obj else ret (no_requeue, Some err)
      | Inr remote \<Rightarrow> if DeletionTimestamp (Meta obj) = None then
          bnd (AttachmentFeedback_handleUpdate r obj remote) (\<lambda>res. case res of Inl err \<Rightarrow> ret (no_requeue, Some err)
            | Inr (obj', after) \<Rightarrow> AttachmentFeedback_finish r i remote obj' after)
        else bnd (AttachmentFeedback_handleDelete obj remote) (\<lambda>after. AttachmentFeedback_finish r i remote obj after)) w2"
proof (cases fetched)
  case (Inl e)
  with fetched_parent [OF t f] lab show ?thesis
    by (auto simp: nothing_attached_def intro!: drop_careful split: prod.splits)
next
  case (Inr remote)
  with fetched_parent [OF t f] have at: "ro_Id remote = i" "parent i w2 = GetExternalIp remote" by auto
  have "AttachmentFeedback_finish (careful_attachments attached parent r) i remote obj' after w3 = AttachmentFeedback_finish r i remote obj' after w3"
    if "AttachmentFeedback_handleUpdate r obj remote w2 = Some (Inr (obj', after), w3)" for obj' after w3
    using finish_careful [OF t] handleUpdate_parent [OF t that at] lab by metis
  moreover have "AttachmentFeedback_finish (careful_attachments attached parent r) i remote obj after w3 = AttachmentFeedback_finish r i remote obj after w3"
    if "AttachmentFeedback_handleDelete obj remote w2 = Some (after, w3)" for after w3
    using finish_careful [OF t lab] handleDelete_parent [OF that, of i parent] at by metis
  ultimately show ?thesis
    using handleUpdate_careful [of obj attached parent r remote] by (auto simp: Inr intro!: bnd_cong_at split: sum.split)
qed

text \<open>
  C14: an attachment is given up only when its external IP is free. The feedback controller does exactly the same with a
  hub that panics when an attachment under deletion is written without the feedback finalizer while the record of
  its external IP is still marked attached, if the fulfillment service tells the truth and stores what it is given.
\<close>

theorem attachment_released_last:
  assumes t: "truthful_services attached parent r"
  shows "AttachmentFeedback_Reconcile (careful_attachments attached parent r) key w = AttachmentFeedback_Reconcile r key w"
proof -
  show ?thesis
    unfolding AttachmentFeedback_Reconcile_def careful_attachments_simps careful_attachments_ops
  proof (rule bnd_cong_at, goal_cases)
    case (1 got w1)
    show ?case
    proof (cases got)
      case (Inr obj)
      show ?thesis
      proof (cases "Labels (Meta obj) osacExternalIPAttachmentIDLabel")
        case None
        with Inr show ?thesis by (auto simp: nothing_attached_def intro!: drop_careful)
      next
        case (Some i)
        then show ?thesis using fetched_careful [OF t, of i w1 _ _ obj] unfolding Inr sum.case Some option.case by (intro bnd_cong_at) simp
      qed
    qed simp
  qed
qed

section \<open>A sample hub and service\<close>

text \<open>One object on the hub, one record in the service, and the number of writes to either.\<close>

type_synonym ('sp, 'st, 'ps, 'pt) feedback_world = "('sp, 'st) resource \<times> ('ps, 'pt) remote \<times> nat"

definition feedback_hub :: "('sp, 'st, ('sp, 'st, 'ps, 'pt) feedback_world) hub_client" where
  "feedback_hub =
     \<lparr>hub_Lib = sample_lib (\<lambda>(obj, rec, n). int n), hub_Get = (\<lambda>key (obj, rec, n). Some (Inr obj, (obj, rec, n))),
      hub_Update = (\<lambda>obj' (obj, rec, n). Some (Inr obj', (obj', rec, Suc n)))\<rparr>"

definition rpc_not_found :: gerror where
  "rpc_not_found = Errorf ''rpc error: code = NotFound'' []"

definition feedback_service :: "('ps, 'pt, ('sp, 'st, 'ps, 'pt) feedback_world) grpc_client" where
  "feedback_service =
     \<lparr>gc_Get = (\<lambda>i (obj, rec, n). Some (if ro_Id rec = i then Inr (Some rec) else Inl rpc_not_found, (obj, rec, n))),
      gc_Update = (\<lambda>rec' (obj, rec, n). Some (None, (obj, rec', Suc n))),
      gc_Signal = (\<lambda>i s. Some (None, s)),
      gc_status_Code = (\<lambda>e. if e = rpc_not_found then 5 else 2), gc_proto_Equal = (=)\<rparr>"

definition reported_meta :: "string \<Rightarrow> string \<Rightarrow> instant option \<Rightarrow> ObjectMeta" where
  "reported_meta label finalizer d =
     \<lparr>Name = ''o1'', Namespace = ''ns'', Labels = [label \<mapsto> ''7''], Annotations = Map.empty,
      Finalizers = [finalizer], DeletionTimestamp = d\<rparr>"

definition sample_ip :: ExternalIP where
  "sample_ip =
     \<lparr>Meta = reported_meta osacExternalIPIDLabel osacExternalIPFeedbackFinalizer (Some 1), Spec = \<lparr>Pool = ''p''\<rparr>,
      Status = \<lparr>Phase = PhaseDeleting, DesiredConfigVersion = '''', ProvisioningJobs = [], Conditions = [],
        Address = ''192.0.2.7'', eip_State = StateAllocated, Attached = False\<rparr>\<rparr>"

definition sample_ip_record :: "(unit, unit) remote_ip" where
  "sample_ip_record = \<lparr>ro_Id = ''7'', ro_Spec = None,
     ro_Status = Some \<lparr>rs_State = STATE_ALLOCATED, rs_Message = None, ri_Address = ''192.0.2.7'', ri_Attached = False, \<dots> = ()\<rparr>\<rparr>"

text \<open>The sentinel error of the controller, by its text.\<close>

fun is_missing_ip :: "gerror \<Rightarrow> bool" where
  "is_missing_ip (Errorf s args) \<longleftrightarrow> s = ''external IP not found in fulfillment service: response contained nil object''"
| "is_missing_ip (Wrapf s args err) \<longleftrightarrow> s = ''external IP not found in fulfillment service: %w''"
| "is_missing_ip _ \<longleftrightarrow> False"

theorem ExternalIP_feedback_is_bridge_witness:
  "ExternalIPFeedback_Reconcile feedback_hub feedback_service () (the (ro_Status sample_ip_record)) (''ns'', ''o1'') (sample_ip, sample_ip_record, 0) =
   Bridge_Reconcile (external_ip_bridge feedback_hub feedback_service () (the (ro_Status sample_ip_record)) is_missing_ip)
     (''ns'', ''o1'') (sample_ip, sample_ip_record, 0) \<and>
   map_option (\<lambda>(out, obj, rec, n). (out, Finalizers (Meta obj), map_option rs_State (ro_Status rec), n))
     (ExternalIPFeedback_Reconcile feedback_hub feedback_service () (the (ro_Status sample_ip_record)) (''ns'', ''o1'') (sample_ip, sample_ip_record, 0)) =
   Some ((no_requeue, None), [], Some STATE_DELETING, 2)"
proof
  have r: "recognises_missing feedback_service is_missing_ip"
    by (auto simp: recognises_missing_def feedback_service_def rpc_not_found_def split: if_splits)
  show "ExternalIPFeedback_Reconcile feedback_hub feedback_service () (the (ro_Status sample_ip_record)) (''ns'', ''o1'') (sample_ip, sample_ip_record, 0) =
    Bridge_Reconcile (external_ip_bridge feedback_hub feedback_service () (the (ro_Status sample_ip_record)) is_missing_ip)
     (''ns'', ''o1'') (sample_ip, sample_ip_record, 0)"
    by (rule ExternalIP_feedback_is_bridge [OF r]) (auto simp: feedback_service_def)
qed code_simp

type_synonym attachment_world = "ExternalIPAttachment \<times> (unit, unit) remote_attachment \<times> (unit, unit) remote_ip"

definition attachment_services :: "(unit, unit, unit, unit, attachment_world) ExternalIPAttachmentFeedbackReconciler" where
  "attachment_services =
     \<lparr>af_hubClient = \<lparr>hub_Lib = sample_lib (\<lambda>_. 0), hub_Get = (\<lambda>key (obj, rec, ip). Some (Inr obj, (obj, rec, ip))),
        hub_Update = (\<lambda>obj' (obj, rec, ip). Some (Inr obj', (obj', rec, ip)))\<rparr>,
      af_attachments = \<lparr>gc_Get = (\<lambda>i (obj, rec, ip). Some (if ro_Id rec = i then Inr (Some rec) else Inl rpc_not_found, (obj, rec, ip))),
        gc_Update = (\<lambda>rec' (obj, rec, ip). Some (None, (obj, rec', ip))), gc_Signal = (\<lambda>i s. Some (None, s)),
        gc_status_Code = (\<lambda>e. if e = rpc_not_found then 5 else 2), gc_proto_Equal = (=)\<rparr>,
      af_externalIPs = \<lparr>gc_Get = (\<lambda>i (obj, rec, ip). Some (if ro_Id ip = i then Inr (Some ip) else Inl rpc_not_found, (obj, rec, ip))),
        gc_Update = (\<lambda>ip' (obj, rec, ip). Some (None, (obj, rec, ip'))), gc_Signal = (\<lambda>i s. Some (None, s)),
        gc_status_Code = (\<lambda>e. if e = rpc_not_found then 5 else 2), gc_proto_Equal = (=)\<rparr>,
      af_empty_spec = \<lparr>ra_ExternalIp = ''''\<rparr>,
      af_empty_status = \<lparr>rs_State = STATE_UNSPECIFIED, rs_Message = None, ra_ExternalIpAddress = ''''\<rparr>,
      af_empty_ip_status = \<lparr>rs_State = STATE_UNSPECIFIED, rs_Message = None, ri_Address = '''', ri_Attached = False\<rparr>\<rparr>"

definition sample_attached :: "string \<Rightarrow> attachment_world \<Rightarrow> bool" where
  "sample_attached i = (\<lambda>(obj, rec, ip). ro_Id ip = i \<and> (case ro_Status ip of None \<Rightarrow> False | Some st \<Rightarrow> ri_Attached st))"

definition sample_parent :: "string \<Rightarrow> attachment_world \<Rightarrow> string" where
  "sample_parent i = (\<lambda>(obj, rec, ip). if ro_Id rec = i then GetExternalIp rec else '''')"

definition reported_attachment :: attachment_world where
  "reported_attachment =
     (\<lparr>Meta = reported_meta osacExternalIPAttachmentIDLabel osacExternalIPAttachmentFeedbackFinalizer (Some 1),
       Spec = \<lparr>att_ExternalIP = ''ip'', att_ComputeInstance = Some ''vm'', att_Cluster = None, att_TargetEndpoint = None\<rparr>,
       Status = \<lparr>Phase = PhaseDeleting, DesiredConfigVersion = '''', ProvisioningJobs = [], Conditions = []\<rparr>\<rparr>,
      \<lparr>ro_Id = ''7'', ro_Spec = Some \<lparr>ra_ExternalIp = ''9''\<rparr>, ro_Status = None\<rparr>,
      \<lparr>ro_Id = ''9'', ro_Spec = None,
       ro_Status = Some \<lparr>rs_State = STATE_ALLOCATED, rs_Message = None, ri_Address = ''192.0.2.7'', ri_Attached = True\<rparr>\<rparr>)"

theorem attachment_released_last_witness:
  "AttachmentFeedback_Reconcile (careful_attachments sample_attached sample_parent attachment_services) (''ns'', ''o1'') reported_attachment =
     AttachmentFeedback_Reconcile attachment_services (''ns'', ''o1'') reported_attachment \<and>
   map_option (\<lambda>(out, w). (out, Finalizers (Meta (fst w)), sample_attached ''9'' w))
     (AttachmentFeedback_Reconcile attachment_services (''ns'', ''o1'') reported_attachment) = Some ((no_requeue, None), [], False)"
proof
  have "truthful_services sample_attached sample_parent attachment_services"
    by (auto simp: truthful_services_def answers_def attachment_services_def sample_attached_def sample_parent_def rpc_not_found_def
        split: if_splits option.split)
  then show "AttachmentFeedback_Reconcile (careful_attachments sample_attached sample_parent attachment_services) (''ns'', ''o1'') reported_attachment =
     AttachmentFeedback_Reconcile attachment_services (''ns'', ''o1'') reported_attachment"
    by (rule attachment_released_last)
qed code_simp

section \<open>Reports of compute instances\<close>


definition sample_instance :: "unit compute_instance" where
  "sample_instance =
     \<lparr>Meta = reported_meta osacComputeInstanceIDLabel osacComputeInstanceFeedbackFinalizer None, Spec = (),
      Status = \<lparr>Phase = PhaseRunning, DesiredConfigVersion = '''', ProvisioningJobs = [],
        Conditions = [\<lparr>cond_Type = ''Ready'', cond_Status = ''True'', cond_Reason = ''Up'', cond_Message = ''m'', cond_LastTransitionTime = None\<rparr>],
        VirtualMachineReference = None, TenantReference = None, LastRestartedAt = None, IPAddress = ''10.0.0.4'', ExternalIPAddress = ''''\<rparr>\<rparr>"

definition sample_instance_record :: "(unit, unit) remote_instance" where
  "sample_instance_record = \<lparr>ro_Id = ''7'', ro_Spec = Some (), ro_Status = Some
     \<lparr>cis_State = CI_STATE_STARTING, cis_Conditions = [], cis_InternalIpAddress = '''', cis_LastRestartedAt = Some 3, cis_ExternalIpAddress = ''''\<rparr>\<rparr>"


text \<open>
  C7: a report settles. Take a compute instance that is not being deleted, carries its identifier label and already has
  the feedback finalizer, and let the record of it in the fulfillment service, which has a spec, be what some earlier
  synchronisation of the same instance computed, at whatever time and from whatever record. Then a reconciliation of
  the feedback controller reads the instance and the record and leaves the world as these two reads leave it: no write
  to the hub, no update of the record, no error, no requeue. Of the protobuf library it needs only that the record is
  equal to itself.
\<close>

theorem instance_report_settles:
  assumes "syncComputeInstanceUpdate (hub_Lib hubClient) obj remote u = Some ((remote', None), u')"
    and "hub_Get hubClient key w = Some (Inr obj, v)" and "DeletionTimestamp (Meta obj) = None"
    and "Labels (Meta obj) osacComputeInstanceIDLabel = Some i"
    and "AddFinalizer (hub_Lib hubClient) (Finalizers (Meta obj)) osacComputeInstanceFeedbackFinalizer = (Finalizers (Meta obj), False)"
    and "gc_Get c i v = Some (Inr (Some remote'), v')" and "ro_Spec remote' = Some sp" and "gc_proto_Equal c remote' remote'"
  shows "Bridge_Reconcile (newComputeInstanceFeedbackBridge hubClient c sp0 st0) key w = Some ((no_requeue, None), v')"
proof -
  obtain st where "ro_Status remote = Some st"
    using assms(1) by (cases "ro_Status remote") (auto simp: sync_ci_missing)
  then have "ro_Status remote' \<noteq> None" using assms(1) by (auto simp: sync_ci_eq)
  then have "fetch_remote c msg sp0 st0 i v = Some (Inr remote', v')" for msg
    using assms(6,7) by (auto simp: fetch_remote_def fill_remote_def go_simps)
  then show ?thesis
    using assms by (intro ci.reported_quiet) (auto simp: newComputeInstanceFeedbackBridge_def make_bridge_def)
qed

theorem instance_report_settles_witness:
  "let remote' = fst (fst (the (syncComputeInstanceUpdate (sample_lib (\<lambda>_ :: nat. 9)) sample_instance sample_instance_record 0)))
   in Bridge_Reconcile (newComputeInstanceFeedbackBridge feedback_hub feedback_service () (the (ro_Status sample_instance_record)))
        (''ns'', ''o1'') (sample_instance, remote', 5) = Some ((no_requeue, None), (sample_instance, remote', 5))"
proof -
  define remote' where "remote' = fst (fst (the (syncComputeInstanceUpdate (sample_lib (\<lambda>_ :: nat. 9)) sample_instance sample_instance_record 0)))"
  have st: "ro_Status sample_instance_record = Some (the (ro_Status sample_instance_record))" by (simp add: sample_instance_record_def)
  let ?st = "ci_status 9 sample_instance (the (ro_Status sample_instance_record))"
  have r: "remote' = sample_instance_record\<lparr>ro_Status := Some ?st\<rparr>"
    using sync_ci_eq [OF st, of "sample_lib (\<lambda>_ :: nat. 9)" sample_instance 0] by (simp add: remote'_def sample_lib_def)
  have run: "syncComputeInstanceUpdate (hub_Lib feedback_hub) sample_instance remote' (sample_instance, remote', 0)
      = Some ((remote', None), (sample_instance, remote', 0))"
    by (simp add: r sync_ci_eq ci_status_idem)
  show ?thesis
    unfolding Let_def remote'_def [symmetric]
    by (rule instance_report_settles [OF run, where i = "''7''" and w = "(sample_instance, remote', 5)" and
        v = "(sample_instance, remote', 5)" and v' = "(sample_instance, remote', 5)" and sp = "()"])
      (simp_all add: feedback_hub_def feedback_service_def sample_lib_def sample_instance_def reported_meta_def r sample_instance_record_def)
qed

section \<open>Cluster orders\<close>

lemma change_change:
  "(\<And>c. rc_Type (g c) = rc_Type c) \<Longrightarrow> change_condition k f (change_condition k g cs) = change_condition k (\<lambda>c. f (g c)) cs"
  by (induction cs) auto

lemma fold_copy_type [simp]: "rc_Type (fold (copy_condition t id) ds c) = rc_Type c"
  by (induction ds arbitrary: c) auto

lemma sync_cluster_conditions_eq:
  assumes "ro_Status remote = Some st"
  shows "sync_cluster_conditions lib cs remote w =
    Some (case filter (\<lambda>c. reported_condition (cond_Type c)) cs of [] \<Rightarrow> remote
      | ds \<Rightarrow> remote\<lparr>ro_Status := Some (st\<lparr>cl_Conditions :=
          change_condition CLUSTER_CONDITION_TYPE_PROGRESSING (fold (copy_condition (k8s_now lib w) id) ds) (cl_Conditions st)\<rparr>)\<rparr>, w)"
  using assms
proof (induction cs arbitrary: remote st)
  case (Cons c cs)
  show ?case
  proof (cases "reported_condition (cond_Type c)")
    case True
    let ?st = "st\<lparr>cl_Conditions := change_condition CLUSTER_CONDITION_TYPE_PROGRESSING (copy_condition (k8s_now lib w) id c) (cl_Conditions st)\<rparr>"
    from Cons.IH [of "remote\<lparr>ro_Status := Some ?st\<rparr>" ?st] Cons.prems True
    show ?thesis
      by (auto simp: go_simps syncClusterConditionFromCR_def change_change comp_def split: list.split)
  qed (use Cons in \<open>simp add: go_simps\<close>)
qed (simp add: go_simps)

lemma fold_copy_status: "rc_Status (fold (copy_condition t id) (ds @ [d]) c) = mapConditionStatus (cond_Status d)"
  by (simp add: copy_condition_def Let_def)

lemma fold_copy_rest:
  "rc_Reason (fold (copy_condition t id) ds c) = rc_Reason c"
  "rc_Message (fold (copy_condition t id) ds c) = (if ds = [] then rc_Message c else Some (cond_Message (last ds)))"
  by (induction ds rule: rev_induct) (auto simp: copy_condition_def Let_def)

lemma fold_copy_time:
  "rc_LastTransitionTime (fold (copy_condition t id) ds c) =
     (if \<forall>d \<in> set ds. mapConditionStatus (cond_Status d) = rc_Status c then rc_LastTransitionTime c else Some t)"
  by (induction ds arbitrary: c) (auto simp: copy_condition_def Let_def)

text \<open>
  C17: what is reported of the conditions of a cluster order. All conditions that are looked at are copied onto the one
  condition PROGRESSING of the record, in the order of the list, so the last of them decides its status and
  message; its reason and every other condition of the record stay as they were. Its transition time becomes the
  current time whenever any of them differs from the status reported before: as soon as two of them differ from each
  other the time moves at every synchronisation, although nothing has changed.
\<close>

theorem cluster_conditions_collapse:
  assumes "ro_Status remote = Some st"
  shows "case filter (\<lambda>c. reported_condition (cond_Type c)) (Conditions (Status obj)) of
     [] \<Rightarrow> syncClusterOrderConditions lib obj remote w = Some (remote, w)
   | ds \<Rightarrow> \<exists>cs. syncClusterOrderConditions lib obj remote w = Some (remote\<lparr>ro_Status := Some (st\<lparr>cl_Conditions := cs\<rparr>)\<rparr>, w) \<and>
       (\<forall>k. k \<noteq> CLUSTER_CONDITION_TYPE_PROGRESSING \<longrightarrow>
          find (\<lambda>c. rc_Type c = k) cs = find (\<lambda>c. rc_Type c = k) (cl_Conditions st)) \<and>
       (let old = old_condition CLUSTER_CONDITION_TYPE_PROGRESSING (cl_Conditions st) in
        find (\<lambda>c. rc_Type c = CLUSTER_CONDITION_TYPE_PROGRESSING) cs =
          Some \<lparr>rc_Type = CLUSTER_CONDITION_TYPE_PROGRESSING, rc_Status = mapConditionStatus (cond_Status (last ds)),
            rc_LastTransitionTime = (if \<forall>d \<in> set ds. mapConditionStatus (cond_Status d) = rc_Status old
              then rc_LastTransitionTime old else Some (k8s_now lib w)),
            rc_Reason = rc_Reason old, rc_Message = Some (cond_Message (last ds))\<rparr>)"
proof (cases "filter (\<lambda>c. reported_condition (cond_Type c)) (Conditions (Status obj))")
  case Nil
  with assms show ?thesis by (simp add: syncClusterOrderConditions_def sync_cluster_conditions_eq)
next
  case (Cons d ds)
  let ?old = "old_condition CLUSTER_CONDITION_TYPE_PROGRESSING (cl_Conditions st)"
  let ?new = "fold (copy_condition (k8s_now lib w) id) (d # ds) ?old"
  let ?cs = "change_condition CLUSTER_CONDITION_TYPE_PROGRESSING (fold (copy_condition (k8s_now lib w) id) (d # ds)) (cl_Conditions st)"
  have "rc_Status ?new = mapConditionStatus (cond_Status (last (d # ds)))"
    using fold_copy_status [of _ "butlast (d # ds)" "last (d # ds)"] by (metis append_butlast_last_id list.discI)
  then have "?new = \<lparr>rc_Type = CLUSTER_CONDITION_TYPE_PROGRESSING, rc_Status = mapConditionStatus (cond_Status (last (d # ds))),
      rc_LastTransitionTime = (if \<forall>d' \<in> set (d # ds). mapConditionStatus (cond_Status d') = rc_Status ?old
        then rc_LastTransitionTime ?old else Some (k8s_now lib w)),
      rc_Reason = rc_Reason ?old, rc_Message = Some (cond_Message (last (d # ds)))\<rparr>"
    by (intro remote_condition.equality) (simp_all only: fold_copy_type fold_copy_rest fold_copy_time old_condition_type remote_condition.simps list.discI if_False, simp)
  then show ?thesis
    using sync_cluster_conditions_eq [OF assms, of lib "Conditions (Status obj)" w]
    by (auto simp: Cons syncClusterOrderConditions_def Let_def find_change old_condition_def [symmetric] simp del: fold.simps
        intro!: exI [of _ ?cs])
qed

definition reported_order :: ClusterOrder where
  "reported_order =
     \<lparr>Meta = reported_meta osacClusterOrderIDLabel osacClusterOrderFeedbackFinalizer None,
      Spec = \<lparr>co_TemplateID = ''t'', TemplateParameters = '''', spec_NodeRequests = [], PullSecret = '''', SSHPublicKey = '''',
        ReleaseImage = '''', Network = None\<rparr>,
      Status = \<lparr>Phase = PhaseProgressing, DesiredConfigVersion = '''', ProvisioningJobs = [],
        Conditions = map (\<lambda>(ty, s). \<lparr>cond_Type = ty, cond_Status = s, cond_Reason = ''r'', cond_Message = ty, cond_LastTransitionTime = None\<rparr>)
          [(''Accepted'', ''True''), (''Deleting'', ''True''), (''Progressing'', ''False'')],
        ClusterReference = None, status_NodeRequests = [], ClusterStorageJobs = [], ApiEndpoint = '''', IngressEndpoint = ''''\<rparr>\<rparr>"

definition reported_cluster :: "(unit, unit) Cluster" where
  "reported_cluster = \<lparr>ro_Id = ''7'', ro_Spec = None, ro_Status = Some
     \<lparr>cl_State = CLUSTER_STATE_PROGRESSING,
      cl_Conditions = [\<lparr>rc_Type = CLUSTER_CONDITION_TYPE_PROGRESSING, rc_Status = CONDITION_STATUS_FALSE,
        rc_LastTransitionTime = Some 3, rc_Reason = None, rc_Message = Some ''Progressing''\<rparr>],
      cl_ApiUrl = '''', cl_ConsoleUrl = '''', cl_NodeSets = Map.empty\<rparr>\<rparr>"

theorem cluster_conditions_collapse_witness:
  "\<exists>cs st. ro_Status reported_cluster = Some st \<and>
     syncClusterOrderConditions (sample_lib (\<lambda>_ :: nat. 9)) reported_order reported_cluster 0 =
       Some (reported_cluster\<lparr>ro_Status := Some (st\<lparr>cl_Conditions := cs\<rparr>)\<rparr>, 0) \<and>
     find (\<lambda>c. rc_Type c = CLUSTER_CONDITION_TYPE_PROGRESSING) cs =
       Some \<lparr>rc_Type = CLUSTER_CONDITION_TYPE_PROGRESSING, rc_Status = CONDITION_STATUS_FALSE,
         rc_LastTransitionTime = Some 9, rc_Reason = None, rc_Message = Some ''Progressing''\<rparr>"
proof -
  obtain st where st: "ro_Status reported_cluster = Some st" by (simp add: reported_cluster_def)
  have "filter (\<lambda>c. reported_condition (cond_Type c)) (Conditions (Status reported_order)) =
      map (\<lambda>(ty, s). \<lparr>cond_Type = ty, cond_Status = s, cond_Reason = ''r'', cond_Message = ty, cond_LastTransitionTime = None\<rparr>)
        [(''Accepted'', ''True''), (''Progressing'', ''False'')]"
    by (simp add: reported_order_def reported_condition_def)
  moreover have "old_condition CLUSTER_CONDITION_TYPE_PROGRESSING (cl_Conditions st) =
      \<lparr>rc_Type = CLUSTER_CONDITION_TYPE_PROGRESSING, rc_Status = CONDITION_STATUS_FALSE,
        rc_LastTransitionTime = Some 3, rc_Reason = None, rc_Message = Some ''Progressing''\<rparr>"
    using st by (auto simp: reported_cluster_def old_condition_def)
  ultimately show ?thesis
    using cluster_conditions_collapse [OF st, where obj = reported_order and lib = "sample_lib (\<lambda>_ :: nat. 9)" and w = 0] st
    by (auto simp: mapConditionStatus_def sample_lib_def Let_def)
qed

end
