(* ===== verification/Frames.thy ===== *)
theory Frames
  imports Reconcile_Laws
begin

text \<open>
  What a program leaves alone. \<open>within R V m\<close>: wherever the invariant of the world holds, \<open>m\<close> advances the world
  and changes the object in memory only as the relation \<open>R\<close> allows. The rules follow the structure of programs;
  the lifecycle functions change an object only through their pointer to its jobs. The second part compares
  programs that ask for a condition of the object before they call out (\<open>demanding\<close>) with those that do not: where
  the condition holds, they do the same. Both carry the proofs about controllers that keep several histories in
  one object.
\<close>

section \<open>Definitions\<close>

definition within :: "('r \<Rightarrow> 'r \<Rightarrow> bool) \<Rightarrow> 'w world_view \<Rightarrow> ('r \<times> 'w, 'a) go \<Rightarrow> bool" where
  "within R V m \<longleftrightarrow>
     (\<forall>r w. wv_inv V w \<longrightarrow> wlp m (\<lambda>_ (r', w'). R r r' \<and> advances V w w') (r, w))"

definition demanding :: "('r \<Rightarrow> bool) \<Rightarrow> ('r \<times> 'w, 'a) go \<Rightarrow> ('r \<times> 'w, 'a) go" where
  "demanding P m = (\<lambda>(r, w). if P r then m (r, w) else None)"

text \<open>A provider whose deprovisioning side refuses objects that do not satisfy \<open>P\<close>.\<close>

definition demanding_provider :: "('r \<Rightarrow> bool) \<Rightarrow> ('r, 'w) ProvisioningProvider \<Rightarrow> ('r, 'w) ProvisioningProvider" where
  "demanding_provider P p =
     p\<lparr>TriggerDeprovision := (\<lambda>r js. if P r then TriggerDeprovision p r js else panic),
       GetDeprovisionStatus := (\<lambda>r x. if P r then GetDeprovisionStatus p r x else panic)\<rparr>"

section \<open>Calls that only advance the world\<close>

lemma steadyD: "steady V m \<Longrightarrow> wv_inv V w \<Longrightarrow> wlp m (\<lambda>_. advances V w) w"
  by (simp add: steady_def)

lemma advances_inv: "advances V w w' \<Longrightarrow> wv_inv V w \<Longrightarrow> wv_inv V w'"
  by (simp add: advances_def)

lemma steady_gets [simp]: "steady V (gets f)"
  by (simp add: steady_def wp_simps)

lemma steady_panic [simp]: "steady V panic"
  by (simp add: steady_def wp_simps)

declare steady_bnd [intro!]

lemma steady_CheckAPIServer [intro]:
  "steady V m \<Longrightarrow> steady V (CheckAPIServerForNonTerminalProvisionJob m f)"
  unfolding CheckAPIServerForNonTerminalProvisionJob_def by (auto split: sum.split option.split)

lemma honest_steady:
  assumes "honest V p"
  shows "steady V (TriggerProvision p r)" "steady V (GetProvisionStatus p r x)"
    "steady V (TriggerDeprovision p r js)" "steady V (GetDeprovisionStatus p r x)"
  unfolding steady_def
  by (auto intro: wlp_mono [OF honestD(1) [OF assms]] wlp_mono [OF honestD(2) [OF assms]]
      wlp_mono [OF honestD(3) [OF assms]] wlp_mono [OF honestD(4) [OF assms]])

section \<open>Changes of the object in memory\<close>

lemma withinD: "within R V m \<Longrightarrow> wv_inv V w \<Longrightarrow> wlp m (\<lambda>_ (r', w'). R r r' \<and> advances V w w') (r, w)"
  by (simp add: within_def)

lemma within_basic [simp]:
  assumes "reflp R"
  shows "within R V (ret x)" "within R V get_res" "within R V (gets g)" "within R V panic"
    "within R V (read_jobs ref)" "within R V (read_clock now)"
  using assms by (auto simp: within_def wp_simps reflp_def)

lemma within_on_world:
  assumes "reflp R" and "steady V m"
  shows "within R V (on_world m)"
  unfolding within_def wlp_on_world
proof (clarsimp)
  fix r w assume "wv_inv V w"
  then show "wlp m (\<lambda>_ w'. R r r \<and> advances V w w') w"
    using assms by (intro wlp_mono [OF steadyD [OF assms(2)]]) (auto simp: reflp_def)
qed

lemma within_mod_res: "(\<And>r. R r (f r)) \<Longrightarrow> within R V (mod_res f)"
  by (simp add: within_def wp_simps)

lemma within_bnd:
  assumes "transp R" and "within R V m" and "\<And>x. within R V (f x)"
  shows "within R V (bnd m f)"
  unfolding within_def wlp_bnd
proof (intro allI impI)
  fix r w assume "wv_inv V w"
  then show "wlp m (\<lambda>x. wlp (f x) (\<lambda>_ (r', w'). R r r' \<and> advances V w w')) (r, w)"
  proof (intro wlp_mono [OF withinD [OF assms(2)]], goal_cases)
    case (2 x s)
    then obtain r1 w1 where s: "s = (r1, w1)" "R r r1" "advances V w w1" by (cases s) auto
    with 2 show ?case
      using transpD [OF assms(1)]
      by (auto intro!: wlp_mono [OF withinD [OF assms(3), of w1 x r1]] dest: advances_inv intro: advances_trans)
  qed
qed

text \<open>Reading the object first lets the rest speak about it.\<close>

lemma within_read: "(\<And>r. within R V (f r)) \<Longrightarrow> within R V (bnd get_res f)"
  by (simp add: within_def wp_simps)

lemma within_mono: "within R V m \<Longrightarrow> (\<And>r r'. R r r' \<Longrightarrow> S r r') \<Longrightarrow> within S V m"
  unfolding within_def by (fast intro: wlp_mono)

lemma within_with_object:
  assumes "within R V m"
  shows "steady V (with_object obj m)"
  unfolding steady_def
proof (intro allI impI)
  fix w assume "wv_inv V w"
  then have "wlp m (\<lambda>_ (r', w'). advances V w w') (obj, w)"
    by (intro wlp_mono [OF withinD [OF assms]]) auto
  then show "wlp (with_object obj m) (\<lambda>_. advances V w) w"
    by (auto simp: wlp_def with_object_def split: option.splits)
qed

lemma system_ok_within:
  assumes "within R V m" and "\<And>r r'. R r r' \<Longrightarrow> Jobs_get ref r' = Jobs_get ref r"
    and "system_ok mh ref V s"
  shows "wlp m (\<lambda>_. system_ok mh ref V) s"
proof -
  obtain r w where s: "s = (r, w)" by (cases s)
  have "wv_inv V w" using assms(3) by (simp add: s system_ok_def)
  then show ?thesis
    using assms(2,3) unfolding s
    by (intro wlp_mono [OF withinD [OF assms(1)]]) (auto intro: system_ok_frame)
qed

lemma within_quiet:
  assumes "within R V m" and "\<And>r r'. R r r' \<Longrightarrow> Jobs_get ref r' = Jobs_get ref r"
  shows "quiet mh ref V m"
  unfolding quiet_def
proof (intro allI impI)
  fix r w assume "system_ok mh ref V (r, w)"
  then have "wv_inv V w" by (simp add: system_ok_def)
  then show "wlp m (\<lambda>_ (r', w'). Jobs_get ref r' = Jobs_get ref r \<and> advances V w w') (r, w)"
    using assms(2) by (intro wlp_mono [OF withinD [OF assms(1)]]) auto
qed

section \<open>The lifecycle on one of several histories\<close>

text \<open>
  The contract: writing through the pointer \<open>ref\<close> is a change that \<open>R\<close> allows. Then so is everything the
  lifecycle does to the object, if the provider is honest and what the caller hands in behaves.
\<close>

locale jobs_frame = jobs_ref ref for ref :: "'r JobsRef" +
  fixes R :: "'r \<Rightarrow> 'r \<Rightarrow> bool"
  assumes refl: "reflp R" and trans: "transp R" and set_within: "R r (Jobs_set ref js r)"
begin

lemmas frame_basic = within_basic [OF refl] within_bnd [OF trans] within_read within_on_world [OF refl]

lemma write_within [simp]: "within R V (write_jobs ref js)" "within R V (update_job ref u)"
  by (simp_all add: write_jobs_def update_job_def frame_basic within_mod_res set_within)

lemma TriggerJob_within:
  assumes "honest V provider" and "State_Jobs st = ref"
  shows "within R V (TriggerJob now provider st mh poll)"
  unfolding TriggerJob_def assms(2)
  by (intro frame_basic) (auto simp: frame_basic honest_steady [OF assms(1)] split: sum.split option.split)

lemma PollJob_within:
  assumes "honest V provider" and "State_Jobs st = ref"
  shows "within R V (PollJob provider st l poll None)"
  unfolding PollJob_def assms(2)
  by (intro frame_basic) (auto simp: frame_basic honest_steady [OF assms(1)] split: sum.split)

lemma trigger_and_flush_within:
  assumes "honest V provider" and "State_Jobs st = ref" and "within R V flush"
  shows "within R V (trigger_and_flush now provider st mh poll (Some flush))"
  unfolding trigger_and_flush_def Let_def
  by (intro frame_basic TriggerJob_within assms)
    (auto simp: frame_basic assms(3) split: prod.split option.split)

lemma EvaluateAction_within:
  assumes "within R V chk"
  shows "within R V (EvaluateAction st chk)"
  unfolding EvaluateAction_def Let_def
  by (intro frame_basic) (auto simp: frame_basic assms split: option.split)

lemma RunProvisioningLifecycle_within:
  assumes "honest V provider" and "State_Jobs st = ref" and "within R V chk" and "within R V flush"
  shows "within R V (RunProvisioningLifecycle now provider st mh poll None chk (Some flush))"
proof -
  note trig = trigger_and_flush_within [OF assms(1,2,4)]
  have "within R V (HandleBackoff now' js v j (trigger_and_flush now provider st mh poll (Some flush)))" for now' js v j
    unfolding HandleBackoff_def Let_def by (intro frame_basic) (auto simp: frame_basic trig)
  then show ?thesis
    unfolding RunProvisioningLifecycle_def Let_def
    by (intro frame_basic EvaluateAction_within assms)
      (auto simp: frame_basic trig PollJob_within [OF assms(1,2)] split: prod.split Action.split option.split)
qed

lemma TriggerDeprovisionJob_within:
  assumes "honest V provider"
  shows "within R V (TriggerDeprovisionJob now provider ref mh poll)"
proof -
  have "within R V (updateProvisionJobFromDeprovisionResult ref d)" for d
    by (auto simp: updateProvisionJobFromDeprovisionResult_def frame_basic split: option.split)
  then show ?thesis
    unfolding TriggerDeprovisionJob_def
    by (intro frame_basic)
      (auto simp: frame_basic honest_steady [OF assms] split: sum.split option.split DeprovisionAction.split)
qed

lemma RunDeprovisioningLifecycle_within:
  assumes "honest V provider"
  shows "within R V (RunDeprovisioningLifecycle now provider ref mh poll)"
proof -
  have trig: "within R V (bnd (TriggerDeprovisionJob now provider ref mh poll) (\<lambda>(res, err). ret (res, False, err)))"
    by (intro frame_basic TriggerDeprovisionJob_within assms) (simp add: frame_basic split: prod.split)
  have retry: "within R V (handleDeprovisionBackoff now provider ref l mh poll)" for l
    unfolding handleDeprovisionBackoff_def Let_def by (intro frame_basic) (auto simp: frame_basic trig)
  have "within R V (PollDeprovisionJob now provider ref l mh poll)" for l
    unfolding PollDeprovisionJob_def Let_def
    by (auto simp: frame_basic retry honest_steady [OF assms] split: sum.split)
  then show ?thesis
    unfolding RunDeprovisioningLifecycle_def
    by (intro frame_basic) (auto simp: frame_basic trig split: option.split)
qed

end

section \<open>Programs that agree where a condition holds\<close>

definition agrees :: "('r \<Rightarrow> bool) \<Rightarrow> ('r \<times> 'w, 'a) go \<Rightarrow> ('r \<times> 'w, 'a) go \<Rightarrow> bool" where
  "agrees P m m' \<longleftrightarrow> (\<forall>r w. P r \<longrightarrow> m (r, w) = m' (r, w))"

definition keeps :: "('r \<Rightarrow> bool) \<Rightarrow> ('r \<times> 'w, 'a) go \<Rightarrow> bool" where
  "keeps P m \<longleftrightarrow> (\<forall>r w. P r \<longrightarrow> wlp m (\<lambda>_ (r', w'). P r') (r, w))"

lemma keeps_basic [simp]:
  "keeps P (ret x)" "keeps P get_res" "keeps P (gets g)" "keeps P panic" "keeps P (read_jobs ref)"
  "keeps P (read_clock now)" "keeps P (on_world m)"
  by (auto simp: keeps_def wp_simps)

lemma keeps_bnd:
  assumes "keeps P m" and "\<And>x. keeps P (f x)"
  shows "keeps P (bnd m f)"
  unfolding keeps_def wlp_bnd
proof (intro allI impI)
  fix r w assume "P r"
  then have "wlp m (\<lambda>_ (r', w'). P r') (r, w)" using assms(1) by (simp add: keeps_def)
  then show "wlp m (\<lambda>x. wlp (f x) (\<lambda>_ (r', w'). P r')) (r, w)"
    using assms(2) by (auto simp: keeps_def elim!: wlp_mono)
qed

lemma keeps_mod_res: "(\<And>r. P r \<Longrightarrow> P (f r)) \<Longrightarrow> keeps P (mod_res f)"
  by (simp add: keeps_def wp_simps)

lemma agreesD: "agrees P m m' \<Longrightarrow> P r \<Longrightarrow> m (r, w) = m' (r, w)"
  by (simp add: agrees_def)

lemma agrees_refl [simp]: "agrees P m m"
  by (simp add: agrees_def)

lemma agrees_read: "(\<And>r. P r \<Longrightarrow> agrees P (f r) (f' r)) \<Longrightarrow> agrees P (bnd get_res f) (bnd get_res f')"
  by (simp add: agrees_def go_simps)

lemma agrees_bnd:
  assumes "agrees P m m'" and "keeps P m" and "\<And>x. agrees P (f x) (f' x)"
  shows "agrees P (bnd m f) (bnd m' f')"
  unfolding agrees_def
proof (intro allI impI)
  fix r w assume "P r"
  then have "m (r, w) = m' (r, w)" and "wlp m (\<lambda>_ (r', w'). P r') (r, w)"
    using assms(1,2) by (auto simp: agrees_def keeps_def)
  then show "bnd m f (r, w) = bnd m' f' (r, w)"
    using assms(3) by (auto simp: bnd_def agrees_def dest: wlpD split: option.split)
qed

lemma agrees_demanding: "agrees P (demanding P m) m"
  by (simp add: agrees_def demanding_def)

lemma demanding_wlp: "(\<And>r w. P r \<Longrightarrow> s = (r, w) \<Longrightarrow> wlp m Q s) \<Longrightarrow> wlp (demanding P m) Q s"
  by (cases s) (simp add: demanding_def wlp_def)

lemma demanding_provider_simps [simp]:
  "P r \<Longrightarrow> TriggerDeprovision (demanding_provider P p) r js = TriggerDeprovision p r js"
  "P r \<Longrightarrow> GetDeprovisionStatus (demanding_provider P p) r x = GetDeprovisionStatus p r x"
  by (simp_all add: demanding_provider_def)

text \<open>The contract: the condition does not look at the history behind \<open>ref\<close>.\<close>

locale jobs_condition = jobs_ref ref for ref :: "'r JobsRef" +
  fixes P :: "'r \<Rightarrow> bool"
  assumes stable: "P r \<Longrightarrow> P (Jobs_set ref js r)"
begin

lemma write_keeps [simp]: "keeps P (write_jobs ref js)" "keeps P (update_job ref u)"
  by (simp_all add: write_jobs_def update_job_def keeps_bnd keeps_mod_res stable)

lemma TriggerJob_keeps: "State_Jobs st = ref \<Longrightarrow> keeps P (TriggerJob now provider st mh poll)"
  unfolding TriggerJob_def
  by (intro keeps_bnd) (auto simp: keeps_bnd split: sum.split option.split)

lemma trigger_and_flush_agrees:
  assumes "State_Jobs st = ref"
  shows "agrees P (trigger_and_flush now provider st mh poll (Some (demanding P flush)))
    (trigger_and_flush now provider st mh poll (Some flush))"
proof -
  have "agrees P (bnd (demanding P flush) (\<lambda>e. ret x)) (bnd flush (\<lambda>e. ret x))" for x
    by (simp add: agrees_def demanding_def bnd_def)
  then show ?thesis
    unfolding trigger_and_flush_def Let_def
    by (intro agrees_bnd TriggerJob_keeps assms)
      (auto intro!: agrees_bnd [of _ "read_jobs (State_Jobs st)" "read_jobs (State_Jobs st)"] split: prod.split option.split)
qed

lemma PollJob_keeps:
  assumes "State_Jobs st = ref"
  shows "keeps P (PollJob provider st l poll None)"
  unfolding PollJob_def assms by (intro keeps_bnd) (auto intro!: keeps_bnd split: sum.split)

lemma EvaluateAction_keeps: "keeps P chk \<Longrightarrow> keeps P (EvaluateAction st chk)"
  unfolding EvaluateAction_def Let_def by (intro keeps_bnd) (auto intro!: keeps_bnd split: option.split)

lemma RunProvisioningLifecycle_keeps:
  assumes "State_Jobs st = ref" and "keeps P chk" and "keeps P flush"
  shows "keeps P (RunProvisioningLifecycle now provider st mh poll None chk (Some flush))"
proof -
  have trig: "keeps P (trigger_and_flush now provider st mh poll (Some flush))"
    unfolding trigger_and_flush_def Let_def
    by (intro keeps_bnd TriggerJob_keeps assms) (auto intro!: keeps_bnd assms split: prod.split option.split)
  then have "keeps P (HandleBackoff now' js v j (trigger_and_flush now provider st mh poll (Some flush)))" for now' js v j
    unfolding HandleBackoff_def Let_def by (intro keeps_bnd) auto
  then show ?thesis
    unfolding RunProvisioningLifecycle_def Let_def
    by (intro keeps_bnd EvaluateAction_keeps assms)
      (auto simp: trig PollJob_keeps [OF assms(1)] intro!: keeps_bnd split: prod.split Action.split option.split)
qed

lemma RunProvisioningLifecycle_agrees:
  assumes "State_Jobs st = ref" and "keeps P chk"
  shows "agrees P (RunProvisioningLifecycle now provider st mh poll cb chk (Some (demanding P flush)))
    (RunProvisioningLifecycle now provider st mh poll cb chk (Some flush))"
proof -
  note trig = trigger_and_flush_agrees [OF assms(1)]
  note eval = EvaluateAction_keeps [OF assms(2)]
  have "agrees P (HandleBackoff now' js v j (trigger_and_flush now provider st mh poll (Some (demanding P flush))))
      (HandleBackoff now' js v j (trigger_and_flush now provider st mh poll (Some flush)))" for now' js v j
    unfolding HandleBackoff_def Let_def by (intro agrees_bnd) (auto simp: trig)
  then show ?thesis
    unfolding RunProvisioningLifecycle_def Let_def
    by (intro agrees_bnd eval)
      (auto simp: trig agrees_bnd split: prod.split Action.split option.split)
qed

lemma TriggerDeprovisionJob_agrees:
  "agrees P (TriggerDeprovisionJob now (demanding_provider P provider) ref mh poll)
     (TriggerDeprovisionJob now provider ref mh poll)"
  unfolding TriggerDeprovisionJob_def by (intro agrees_read) simp

lemma TriggerDeprovisionJob_keeps: "keeps P (TriggerDeprovisionJob now provider ref mh poll)"
proof -
  have "keeps P (updateProvisionJobFromDeprovisionResult ref d)" for d
    by (auto simp: updateProvisionJobFromDeprovisionResult_def keeps_bnd split: option.split)
  then show ?thesis
    unfolding TriggerDeprovisionJob_def
    by (intro keeps_bnd) (auto intro!: keeps_bnd split: sum.split option.split DeprovisionAction.split)
qed

lemma RunDeprovisioningLifecycle_keeps: "keeps P (RunDeprovisioningLifecycle now provider ref mh poll)"
proof -
  have trig: "keeps P (bnd (TriggerDeprovisionJob now provider ref mh poll) (\<lambda>(res, err). ret (res, False, err)))"
    by (intro keeps_bnd TriggerDeprovisionJob_keeps) (simp split: prod.split)
  have retry: "keeps P (handleDeprovisionBackoff now provider ref l mh poll)" for l
    unfolding handleDeprovisionBackoff_def Let_def by (intro keeps_bnd) (auto simp: trig)
  have "keeps P (PollDeprovisionJob now provider ref l mh poll)" for l
    unfolding PollDeprovisionJob_def Let_def by (auto simp: keeps_bnd retry split: sum.split)
  then show ?thesis
    unfolding RunDeprovisioningLifecycle_def by (intro keeps_bnd) (auto simp: trig split: option.split)
qed

lemma RunDeprovisioningLifecycle_agrees:
  "agrees P (RunDeprovisioningLifecycle now (demanding_provider P provider) ref mh poll)
     (RunDeprovisioningLifecycle now provider ref mh poll)"
proof -
  let ?p = "demanding_provider P provider"
  have trig: "agrees P (bnd (TriggerDeprovisionJob now ?p ref mh poll) (\<lambda>(res, err). ret (res, False, err)))
      (bnd (TriggerDeprovisionJob now provider ref mh poll) (\<lambda>(res, err). ret (res, False, err)))"
    by (intro agrees_bnd TriggerDeprovisionJob_agrees TriggerDeprovisionJob_keeps) simp
  have retry: "agrees P (handleDeprovisionBackoff now ?p ref l mh poll) (handleDeprovisionBackoff now provider ref l mh poll)" for l
    unfolding handleDeprovisionBackoff_def Let_def by (intro agrees_bnd) (auto simp: trig)
  have "agrees P (PollDeprovisionJob now ?p ref l mh poll) (PollDeprovisionJob now provider ref l mh poll)" for l
    unfolding PollDeprovisionJob_def Let_def
    by (auto simp: retry intro!: agrees_read agrees_bnd split: sum.split)
  then show ?thesis
    unfolding RunDeprovisioningLifecycle_def by (intro agrees_bnd) (auto simp: trig split: option.split)
qed

end

section \<open>Two histories in one object\<close>

text \<open>The view that also remembers where the world stood at a certain point.\<close>

definition since :: "'w world_view \<Rightarrow> 'w \<Rightarrow> 'w world_view" where
  "since V w0 = V\<lparr>wv_inv := (\<lambda>w. wv_inv V w \<and> advances V w0 w)\<rparr>"

lemma since_simps [simp]:
  "wv_now (since V w0) = wv_now V" "wv_issued (since V w0) = wv_issued V" "wv_strict (since V w0) = wv_strict V"
  "wv_inv (since V w0) w \<longleftrightarrow> wv_inv V w \<and> advances V w0 w"
  by (simp_all add: since_def)

lemma advances_since: "advances V w w' \<Longrightarrow> advances (since V w0) w w'"
  using advances_trans [of V w0 w w'] by (auto simp: advances_def since_def)

lemma system_ok_since: "system_ok mh ref (since V w0) (r, w) \<longleftrightarrow> system_ok mh ref V (r, w) \<and> advances V w0 w"
  by (auto simp: system_ok_def)

lemma steady_since: "steady V m \<Longrightarrow> steady (since V w0) m"
  unfolding steady_def since_simps by (auto intro: wlp_mono advances_since)

lemma honest_since:
  assumes "honest V p"
  shows "honest (since V w0) p"
  unfolding honest_def starts_job_def since_simps
  by (intro conjI allI wlp_mono [OF honestD(1) [OF assms]] wlp_mono [OF honestD(2) [OF assms]]
      wlp_mono [OF honestD(3) [OF assms]] wlp_mono [OF honestD(4) [OF assms]])
    (auto simp: starts_job_def intro: advances_since)

definition both_ok :: "int \<Rightarrow> 'r JobsRef \<Rightarrow> 'r JobsRef \<Rightarrow> 'w world_view \<Rightarrow> 'r \<times> 'w \<Rightarrow> bool" where
  "both_ok mh ref other V s \<longleftrightarrow> system_ok mh ref V s \<and> system_ok mh other V s"

lemma both_ok_sym: "both_ok mh ref other V s \<longleftrightarrow> both_ok mh other ref V s"
  by (auto simp: both_ok_def)

lemma both_ok_inv: "both_ok mh ref other V (r, w) \<Longrightarrow> wv_inv V w"
  by (simp add: both_ok_def system_ok_def)

lemma both_ok_frame:
  "both_ok mh ref other V (r, w) \<Longrightarrow> Jobs_get ref r' = Jobs_get ref r \<Longrightarrow> Jobs_get other r' = Jobs_get other r \<Longrightarrow>
     advances V w w' \<Longrightarrow> both_ok mh ref other V (r', w')"
  by (auto simp: both_ok_def intro: system_ok_frame)

text \<open>
  The contract of two pointers into one object: writing through \<open>ref\<close> leaves the history behind \<open>other\<close>
  alone. A lifecycle on \<open>ref\<close> then keeps both histories well-formed, and the flush in its middle may rely on both.
\<close>

locale two_histories = jobs_ref ref for ref :: "'r JobsRef" +
  fixes other :: "'r JobsRef"
  assumes independent: "Jobs_get other (Jobs_set ref js r) = Jobs_get other r"

sublocale two_histories \<subseteq> frame: jobs_frame ref "\<lambda>r r'. Jobs_get other r' = Jobs_get other r"
  by unfold_locales (auto simp: reflp_def transp_def independent)

sublocale two_histories \<subseteq> cond: jobs_condition ref "\<lambda>r. Jobs_get other r = js" for js
  by unfold_locales (simp add: independent)

context two_histories
begin

lemma demanding_flush_quiet:
  assumes ok: "both_ok mh ref other V (r0, w0)"
    and flush: "\<And>r w. both_ok mh ref other V (r, w) \<Longrightarrow> wlp (flush r) (\<lambda>_. advances V w) w"
  shows "quiet mh ref (since V w0)
    (demanding (\<lambda>r. Jobs_get other r = Jobs_get other r0) (bnd get_res (\<lambda>cur. on_world (flush cur))))"
  unfolding quiet_def
proof (intro allI impI demanding_wlp)
  fix r w r' w'
  assume s: "system_ok mh ref (since V w0) (r, w)" "Jobs_get other r' = Jobs_get other r0" "(r, w) = (r', w')"
  have "system_ok mh other V (r, w)"
    using ok s system_ok_frame [of mh other V r0 w0 r w] by (simp add: both_ok_def system_ok_since)
  then have "both_ok mh ref other V (r, w)" using s(1) by (simp add: both_ok_def system_ok_since)
  from flush [OF this]
  show "wlp (bnd get_res (\<lambda>cur. on_world (flush cur)))
      (\<lambda>_ (r', w'). Jobs_get ref r' = Jobs_get ref r \<and> advances (since V w0) w w') (r, w)"
    by (auto simp: wp_simps intro: advances_since elim!: wlp_mono)
qed

lemma both_post:
  assumes ok: "both_ok mh ref other V (r, w)" and "keeps (\<lambda>q. Jobs_get other q = Jobs_get other r) m"
    and "wlp m (\<lambda>_. system_ok mh ref (since V w)) (r, w)"
  shows "wlp m (\<lambda>_ (r', w'). both_ok mh ref other V (r', w') \<and> advances V w w') (r, w)"
proof -
  have "wlp m (\<lambda>_ (r', w'). Jobs_get other r' = Jobs_get other r) (r, w)"
    using assms(2) by (simp add: keeps_def)
  from wlp_conj [OF assms(3) this] show ?thesis
    using ok by (elim wlp_mono) (auto simp: both_ok_def system_ok_since intro: system_ok_frame)
qed

lemma RunProvisioningLifecycle_both:
  assumes ok: "both_ok mh ref other V (r, w)" and pos: "0 < mh" and hon: "honest V provider"
    and chk: "\<And>r. steady V (apicheck r)"
    and flush: "\<And>r w. both_ok mh ref other V (r, w) \<Longrightarrow> wlp (flush r) (\<lambda>_. advances V w) w"
  shows "wlp (RunProvisioningLifecycle (wv_now V) provider \<lparr>State_Jobs = ref, State_DesiredConfigVersion = v\<rparr> mh poll None
      (bnd get_res (\<lambda>cur. on_world (apicheck cur))) (Some (bnd get_res (\<lambda>cur. on_world (flush cur)))))
    (\<lambda>_ (r', w'). both_ok mh ref other V (r', w') \<and> advances V w w') (r, w)"
    (is "wlp ?m _ _")
proof (rule both_post [OF ok])
  let ?P = "\<lambda>q. Jobs_get other q = Jobs_get other r" and ?V = "since V w"
  let ?chk = "bnd get_res (\<lambda>cur. on_world (apicheck cur))" and ?flush = "bnd get_res (\<lambda>cur. on_world (flush cur))"
  let ?st = "\<lparr>State_Jobs = ref, State_DesiredConfigVersion = v\<rparr>"
  show "keeps ?P ?m"
    by (rule cond.RunProvisioningLifecycle_keeps) (simp_all add: keeps_bnd)
  have "within (=) ?V ?chk"
    by (intro within_read within_on_world steady_since chk) (simp add: reflp_def)
  then have "quiet mh ref ?V ?chk" by (rule within_quiet) simp
  moreover have "system_ok mh ref ?V (r, w)" using ok by (simp add: both_ok_def system_ok_since)
  ultimately have "wlp (RunProvisioningLifecycle (wv_now ?V) provider ?st mh poll None ?chk (Some (demanding ?P ?flush)))
      (\<lambda>_. system_ok mh ref ?V) (r, w)"
    by (intro RunProvisioningLifecycle_ok pos honest_since hon)
      (simp_all add: quiet_callbacks_def demanding_flush_quiet [OF ok flush])
  moreover have "RunProvisioningLifecycle (wv_now ?V) provider ?st mh poll None ?chk (Some (demanding ?P ?flush)) (r, w) = ?m (r, w)"
    unfolding since_simps by (rule agreesD [OF cond.RunProvisioningLifecycle_agrees]) (simp_all add: keeps_bnd)
  ultimately show "wlp ?m (\<lambda>_. system_ok mh ref ?V) (r, w)" by (simp add: wlp_def)
qed

lemma RunDeprovisioningLifecycle_both:
  assumes ok: "both_ok mh ref other V (r, w)" and pos: "0 < mh" and hon: "honest V provider"
  shows "wlp (RunDeprovisioningLifecycle (wv_now V) provider ref mh poll)
    (\<lambda>_ (r', w'). both_ok mh ref other V (r', w') \<and> advances V w w') (r, w)"
proof (rule both_post [OF ok cond.RunDeprovisioningLifecycle_keeps])
  have "system_ok mh ref (since V w) (r, w)" using ok by (simp add: both_ok_def system_ok_since)
  from RunDeprovisioningLifecycle_ok [OF this pos honest_since [OF hon], of poll]
  show "wlp (RunDeprovisioningLifecycle (wv_now V) provider ref mh poll) (\<lambda>_. system_ok mh ref (since V w)) (r, w)"
    unfolding since_simps by (rule wlp_mono) (auto simp: deprov_post_def)
qed

lemma PollJob_both:
  assumes ok: "both_ok mh ref other V (r, w)" and hon: "honest V provider"
    and l: "FindLatestJobByType (Jobs_get ref r) JobTypeProvision = Some l"
  shows "wlp (PollJob provider \<lparr>State_Jobs = ref, State_DesiredConfigVersion = v\<rparr> l poll None)
    (\<lambda>_ (r', w'). both_ok mh ref other V (r', w') \<and> advances V w w') (r, w)"
proof (rule both_post [OF ok])
  have "system_ok mh ref (since V w) (r, w)" using ok by (simp add: both_ok_def system_ok_since)
  from PollJob_ok [OF this honest_since [OF hon] _ _ l]
  show "wlp (PollJob provider \<lparr>State_Jobs = ref, State_DesiredConfigVersion = v\<rparr> l poll None)
      (\<lambda>_. system_ok mh ref (since V w)) (r, w)"
    by (simp add: quiet_callbacks_def)
qed (simp add: cond.PollJob_keeps)

end

section \<open>Programs that keep a history well-formed\<close>

definition orderly :: "int \<Rightarrow> 'r JobsRef \<Rightarrow> 'w world_view \<Rightarrow> ('r \<times> 'w, 'a) go \<Rightarrow> bool" where
  "orderly mh ref V m \<longleftrightarrow> (\<forall>s. system_ok mh ref V s \<longrightarrow> wlp m (\<lambda>_. system_ok mh ref V) s)"

lemma orderlyD: "orderly mh ref V m \<Longrightarrow> system_ok mh ref V s \<Longrightarrow> wlp m (\<lambda>_. system_ok mh ref V) s"
  unfolding orderly_def by blast

lemma orderlyI: "(\<And>obj w. system_ok mh ref V (obj, w) \<Longrightarrow> wlp m (\<lambda>_. system_ok mh ref V) (obj, w)) \<Longrightarrow> orderly mh ref V m"
  by (simp add: orderly_def)

lemma orderly_basic [simp]:
  "orderly mh ref V (ret x)" "orderly mh ref V get_res" "orderly mh ref V panic" "orderly mh ref V (read_clock now)"
  by (auto simp: orderly_def wp_simps read_clock_def)

lemma orderly_bnd [intro!]:
  "orderly mh ref V m \<Longrightarrow> (\<And>x. orderly mh ref V (f x)) \<Longrightarrow> orderly mh ref V (bnd m f)"
  unfolding orderly_def by (blast intro: wlp_bnd_inv)

lemma orderly_mod_res: "(\<And>obj. Jobs_get ref (f obj) = Jobs_get ref obj) \<Longrightarrow> orderly mh ref V (mod_res f)"
  by (simp add: orderly_def wp_simps system_ok_def)

lemma orderly_on_world:
  assumes "steady V m"
  shows "orderly mh ref V (on_world m)"
proof (rule orderlyI)
  fix obj w assume ok: "system_ok mh ref V (obj, w)"
  then have "wlp m (\<lambda>_. advances V w) w" using steadyD [OF assms] by (simp add: system_ok_def)
  then show "wlp (on_world m) (\<lambda>_. system_ok mh ref V) (obj, w)"
    unfolding wlp_on_world prod.case by (rule wlp_mono) (rule system_ok_advance [OF ok])
qed

lemma orderly_with_object:
  assumes "orderly mh ref V m" and "system_ok mh ref V (obj, w)"
  shows "wlp (with_object obj m) (\<lambda>(out, obj'). \<lambda>w'. system_ok mh ref V (obj', w')) w"
  using orderlyD [OF assms] by (auto simp: wlp_def with_object_def split: option.splits)

section \<open>Controllers that write objects with a well-formed history\<close>

text \<open>
  What a controller relies on that may also release objects that are not settled (those managed by hand): the clients
  read and keep objects whose history is well-formed, and the provider, if there is one, is honest.
\<close>

definition reads_tidy :: "int \<Rightarrow> 'w world_view \<Rightarrow> ('w, gerror + ('sp, 'm) net_resource) go \<Rightarrow> bool" where
  "reads_tidy mh V m \<longleftrightarrow>
     (\<forall>w. wv_inv V w \<longrightarrow> wlp m (\<lambda>res w'. advances V w w' \<and>
        (\<forall>obj. res = Inr obj \<longrightarrow> system_ok mh status_jobs V (obj, w'))) w)"

definition tidy :: "('sp, 'm net_status_scheme, 'w, 'x) Reconciler_scheme \<Rightarrow> 'w world_view \<Rightarrow> bool" where
  "tidy r V \<longleftrightarrow>
     0 < MaxJobHistory r \<and> k8s_now (Lib r) = wv_now V \<and> retry_law (Lib r) V \<and>
     (\<forall>key. reads_tidy (MaxJobHistory r) V (Get (Client r) key)) \<and>
     (\<forall>key. reads_tidy (MaxJobHistory r) V (APIReader_Get (Client r) key)) \<and>
     (\<forall>obj w. system_ok (MaxJobHistory r) status_jobs V (obj, w) \<longrightarrow>
        wlp (Update (Client r) obj) (\<lambda>res w'. advances V w w' \<and>
          (\<forall>obj'. res = Inr obj' \<longrightarrow> system_ok (MaxJobHistory r) status_jobs V (obj', w'))) w) \<and>
     (\<forall>p. ProvisioningProvider r = Some p \<longrightarrow> honest V p)"

lemma tidyD:
  assumes "tidy r V"
  shows "0 < MaxJobHistory r" "k8s_now (Lib r) = wv_now V" "retry_law (Lib r) V"
    "reads_tidy (MaxJobHistory r) V (Get (Client r) key)" "reads_tidy (MaxJobHistory r) V (APIReader_Get (Client r) key)"
    "ProvisioningProvider r = Some p \<Longrightarrow> honest V p"
    "system_ok (MaxJobHistory r) status_jobs V (obj, w) \<Longrightarrow>
       wlp (Update (Client r) obj) (\<lambda>res w'. advances V w w' \<and>
         (\<forall>obj'. res = Inr obj' \<longrightarrow> system_ok (MaxJobHistory r) status_jobs V (obj', w'))) w"
  using assms unfolding tidy_def by blast+

lemma reads_tidy_steady: "reads_tidy mh V m \<Longrightarrow> steady V m"
  unfolding reads_tidy_def steady_def by (blast intro: wlp_mono)

lemma reads_tidyD: "reads_tidy mh V m \<Longrightarrow> wv_inv V w \<Longrightarrow>
   wlp m (\<lambda>res w'. advances V w w' \<and> (\<forall>obj. res = Inr obj \<longrightarrow> system_ok mh status_jobs V (obj, w'))) w"
  by (simp add: reads_tidy_def)

lemma tidy_update:
  fixes r :: "('sp, 'm net_status_scheme, 'w, 'x) Reconciler_scheme"
  assumes "tidy r V"
  shows "orderly (MaxJobHistory r) status_jobs V (update_object r)"
proof (rule orderlyI)
  fix obj :: "('sp, 'm) net_resource" and w assume ok: "system_ok (MaxJobHistory r) status_jobs V (obj, w)"
  show "wlp (update_object r) (\<lambda>_. system_ok (MaxJobHistory r) status_jobs V) (obj, w)"
    unfolding update_object_def wp_simps prod.case
    by (rule wlp_mono [OF tidyD(7) [OF assms ok]]) (use ok in \<open>auto simp: wp_simps split: sum.split intro: system_ok_advance\<close>)
qed

lemma system_ok_finalizers [simp]:
  "system_ok mh status_jobs V (set_finalizers fs obj, w) = system_ok mh status_jobs V (obj, w)"
  by (simp add: system_ok_def)

lemma tidy_release:
  fixes r :: "('sp, 'm net_status_scheme, 'w, 'x) Reconciler_scheme"
  assumes "tidy r V"
  shows "orderly (MaxJobHistory r) status_jobs V (release_if_present r f)"
proof (rule orderlyI)
  fix obj :: "('sp, 'm) net_resource" and w assume ok: "system_ok (MaxJobHistory r) status_jobs V (obj, w)"
  have "orderly (MaxJobHistory r) status_jobs V
      (if b then bnd (update_object r) (\<lambda>e. ret (no_requeue, e)) else ret (no_requeue, None))" for b
    using tidy_update [OF assms] by auto
  from orderlyD [OF this] ok
  show "wlp (release_if_present r f) (\<lambda>_. system_ok (MaxJobHistory r) status_jobs V) (obj, w)"
    unfolding release_if_present_def wlp_bnd [of get_res] wlp_get_res prod.case
    by (cases "RemoveFinalizer (Lib r) (Finalizers (Meta obj)) f") (simp add: wlp_bnd [of "put_res _"] wlp_put_res)
qed

lemma tidy_add_finalizer:
  fixes r :: "('sp, 'm net_status_scheme, 'w, 'x) Reconciler_scheme"
  assumes "tidy r V" and "orderly (MaxJobHistory r) status_jobs V cont"
  shows "orderly (MaxJobHistory r) status_jobs V (add_finalizer r f False cont)"
proof (rule orderlyI)
  fix obj :: "('sp, 'm) net_resource" and w assume ok: "system_ok (MaxJobHistory r) status_jobs V (obj, w)"
  have "orderly (MaxJobHistory r) status_jobs V (if b then bnd (update_object r) (\<lambda>e. case e of Some err \<Rightarrow> ret (no_requeue, Some err)
      | None \<Rightarrow> if False then bnd (refetch_object r) (\<lambda>e'. case e' of Some err \<Rightarrow> ret (no_requeue, Some err) | None \<Rightarrow> cont)
        else cont) else cont)" for b
    using assms(2) tidy_update [OF assms(1)] by (auto split: option.split)
  from orderlyD [OF this] ok
  show "wlp (add_finalizer r f False cont) (\<lambda>_. system_ok (MaxJobHistory r) status_jobs V) (obj, w)"
    unfolding add_finalizer_def wlp_bnd [of get_res] wlp_get_res prod.case
    by (cases "AddFinalizer (Lib r) (Finalizers (Meta obj)) f")
      (simp only: prod.case wlp_bnd [of "put_res _"] wlp_put_res system_ok_finalizers)
qed

lemma tidy_deprovisioning:
  fixes r :: "('sp, 'm net_status_scheme, 'w, 'x) Reconciler_scheme"
  assumes t: "tidy r V"
  shows "orderly (MaxJobHistory r) status_jobs V (handleDeprovisioning r)"
proof (rule orderlyI)
  fix obj :: "('sp, 'm) net_resource" and w assume ok: "system_ok (MaxJobHistory r) status_jobs V (obj, w)"
  show "wlp (handleDeprovisioning r) (\<lambda>_. system_ok (MaxJobHistory r) status_jobs V) (obj, w)"
  proof (cases "ProvisioningProvider r")
    case (Some p)
    from sj.RunDeprovisioningLifecycle_ok [OF ok tidyD(1) [OF t] tidyD(6) [OF t Some]]
    show ?thesis
      unfolding handleDeprovisioning_def Some option.case wlp_bnd tidyD(2) [OF t]
      by (rule wlp_mono) (auto simp: wlp_ret deprov_post_def)
  qed (use ok in \<open>simp add: handleDeprovisioning_def wlp_ret\<close>)
qed

lemma tidy_provisioning:
  fixes r :: "('sp, 'm net_status_scheme, 'w, 'x) Reconciler_scheme"
  assumes t: "tidy r V" and cb: "quiet_callbacks (MaxJobHistory r) status_jobs V (Some callbacks)"
    and writes: "\<And>obj w. system_ok (MaxJobHistory r) status_jobs V (obj, w) \<Longrightarrow> wlp (writeStatus obj) (\<lambda>_. advances V w) w"
  shows "orderly (MaxJobHistory r) status_jobs V (run_provisioning r callbacks writeStatus)"
  using tidyD(6) [OF t] reads_tidy_steady [OF tidyD(5) [OF t]]
  by (intro orderlyI run_provisioning_keeps [OF tidyD(1,2) [OF t] _ _ _ cb writes]) auto

text \<open>Deprovisioning leaves everything of the object but its jobs alone, and ends with a succeeded job.\<close>

interpretation status_meta: jobs_frame "status_jobs :: ('sp, 'm) net_resource JobsRef" "\<lambda>obj obj'. Meta obj' = Meta obj"
  by unfold_locales (auto simp: status_jobs_def map_status_def reflp_def transp_def)

lemma tidy_deprovisioning_clears:
  fixes r :: "('sp, 'm net_status_scheme, 'w, 'x) Reconciler_scheme"
  assumes t: "tidy r V" and strict: "wv_strict V" and poll: "0 < StatusPollInterval r"
    and ins: "\<And>p. ProvisioningProvider r = Some p \<Longrightarrow> blocking_deprovisioning status_jobs p"
    and ok: "system_ok (MaxJobHistory r) status_jobs V (obj, w)"
  shows "wlp (handleDeprovisioning r) (\<lambda>(res, err) (obj', w'). Meta obj' = Meta obj \<and>
     (err = None \<longrightarrow> RequeueAfter res \<le> 0 \<longrightarrow>
        ProvisioningProvider r = None \<or> succeeded_deprovision (ProvisioningJobs (Status obj')))) (obj, w)"
proof (cases "ProvisioningProvider r")
  case (Some p)
  note hon = tidyD(6) [OF t Some]
  have "wlp (RunDeprovisioningLifecycle (wv_now V) p status_jobs (MaxJobHistory r) (StatusPollInterval r))
      (\<lambda>_ (obj', w'). Meta obj' = Meta obj) (obj, w)"
    using ok by (intro wlp_mono [OF withinD [OF status_meta.RunDeprovisioningLifecycle_within [OF hon]]])
      (auto simp: system_ok_def)
  then have "wlp (handleDeprovisioning r) (\<lambda>_ (obj', w'). Meta obj' = Meta obj) (obj, w)"
    unfolding handleDeprovisioning_def Some option.case wlp_bnd tidyD(2) [OF t]
    by (rule wlp_mono) (auto simp: wlp_ret split: prod.splits)
  from wlp_conj [OF this handleDeprovisioning_ends [OF tidyD(1) [OF t] poll tidyD(2) [OF t] strict Some hon ins [OF Some] ok]]
  show ?thesis by (rule wlp_mono) auto
qed (simp add: handleDeprovisioning_def wp_simps)

text \<open>The tail of a reconciliation: the handler's object is written if its status changed and \<open>b\<close> allows it.\<close>

lemma tidy_tail:
  assumes "orderly mh ref V m" and "system_ok mh ref V (obj, w)"
    and writes: "\<And>obj w. system_ok mh ref V (obj, w) \<Longrightarrow> wlp (writeStatus obj) (\<lambda>_. advances V w) w"
  shows "wlp (bnd (with_object obj m) (\<lambda>((res, err), obj').
       if b err obj' then bnd (writeStatus obj') (\<lambda>e. case e of Some e \<Rightarrow> ret (res, Some e) | None \<Rightarrow> ret (res, err))
       else ret (res, err))) (\<lambda>_. wv_inv V) w"
  unfolding wlp_bnd [of "with_object _ _"]
proof (rule wlp_mono [OF orderly_with_object [OF assms(1,2)]], clarsimp, goal_cases)
  case (1 res err obj' w')
  then have inv: "wv_inv V w'" by (simp add: system_ok_def)
  have "wlp (writeStatus obj') (\<lambda>_. wv_inv V) w'"
    using inv by (intro wlp_mono [OF writes [OF 1]]) (auto simp: advances_def)
  with inv show ?case by (auto simp: wp_simps split: option.split intro: wlp_mono)
qed

end
