(* ===== verification/Cluster_Orders.thy ===== *)
theory Cluster_Orders
  imports Cluster_Types Frames
begin

text \<open>
  The controller of ClusterOrders (\<^verbatim>\<open>internal/controller/clusterorder_controller.go\<close> with the objects it creates,
  \<^verbatim>\<open>clusterorder_resources.go\<close>, and the names, \<^verbatim>\<open>clusterorder_names.go\<close>). For an order it creates a namespace with a
  service account and two role bindings, has the cluster provisioned by a job, and copies into the status what the
  hosted cluster and its node pools show; a deletion deprovisions, waits for the hosted cluster to go away, deletes
  the namespace, waits for that too, and gives up the finalizer.

  The client's typed lists, \<^verbatim>\<open>Delete\<close>, the status patch and controller-runtime's \<^verbatim>\<open>CreateOrUpdate\<close> are parameters.
\<close>

section \<open>Names\<close>

definition defaultServiceAccountName :: string where
  "defaultServiceAccountName = ''osac''"

definition defaultRoleBindingName :: string where
  "defaultRoleBindingName = ''osac''"

definition hubAccessServiceAccountName :: string where
  "hubAccessServiceAccountName = ''hub-access''"

definition hubAccessRoleBindingName :: string where
  "hubAccessRoleBindingName = ''hub-access''"

definition hubAccessClusterRoleBaseName :: string where
  "hubAccessClusterRoleBaseName = ''hub-access-hosted-clusters''"

definition subjectKindServiceAccount :: string where
  "subjectKindServiceAccount = ''ServiceAccount''"

definition osacClusterOrderNameLabel :: string where
  "osacClusterOrderNameLabel = ''osac.openshift.io/clusterorder''"

definition osacFinalizer :: string where
  "osacFinalizer = ''osac.openshift.io/finalizer''"

definition osacAppName :: string where
  "osacAppName = ''osac-operator''"

definition generateNamespaceName :: "ClusterOrder \<Rightarrow> string" where
  "generateNamespaceName instance = Namespace (Meta instance) @ ''-'' @ Name (Meta instance)"

section \<open>Objects on the hub\<close>

record Subject =
  sub_Kind :: string
  sub_Name :: string
  sub_Namespace :: string

record RoleRef =
  rr_APIGroup :: string
  rr_Kind :: string
  rr_Name :: string

text \<open>A Namespace, a ServiceAccount or a RoleBinding; the last two fields are those of a RoleBinding.\<close>

record hub_object =
  ho_Kind :: string
  ho_Namespace :: string
  ho_Name :: string
  ho_Labels :: "string \<rightharpoonup> string"
  ho_Subjects :: "Subject list"
  ho_RoleRef :: "RoleRef option"

text \<open>
  \<^verbatim>\<open>appResource\<close>: the object and the mutate function, split into what it does to the object and what it does to the
  order in memory.
\<close>

record appResource =
  ar_object :: hub_object
  mutate_object :: "hub_object \<Rightarrow> hub_object"
  mutate_instance :: "ClusterOrder \<Rightarrow> ClusterOrder"

record HostedCluster =
  hc_Name :: string
  hc_Namespace :: string
  hc_Conditions :: "Condition list"

record NodePool =
  np_Name :: string
  np_Replicas :: int

section \<open>The reconciler\<close>

text \<open>
  \<open>CreateOrUpdate\<close> says, besides the error or result, whether the library got as far as calling the mutate function.
\<close>

record 'w ClusterOrderReconciler = "(ClusterOrderSpec, ClusterOrderStatus, 'w) Reconciler" +
  co_Status_Patch :: "ClusterOrder \<Rightarrow> ClusterOrder \<Rightarrow> ('w, gerror option) go"
  co_CreateOrUpdate :: "hub_object \<Rightarrow> (hub_object \<Rightarrow> hub_object) \<Rightarrow> ('w, gerror option \<times> bool) go"
  co_List_Namespaces :: "string \<times> string \<Rightarrow> ('w, gerror + string list) go"
  co_List_HostedClusters :: "string \<Rightarrow> string \<times> string \<Rightarrow> ('w, gerror + HostedCluster list) go"
  co_List_NodePools :: "string \<Rightarrow> string \<times> string \<Rightarrow> ('w, gerror + NodePool list) go"
  co_Delete_Namespace :: "string \<Rightarrow> ('w, gerror option) go"
  co_ClusterOrderNamespace :: string

text \<open>\<open>base\<close> carries the client and the reader the caller hands in.\<close>

definition NewClusterOrderReconciler ::
  "'w ClusterOrderReconciler \<Rightarrow> string \<Rightarrow> (ClusterOrder, 'w) ProvisioningProvider option \<Rightarrow> duration \<Rightarrow> int \<Rightarrow>
   'w ClusterOrderReconciler"
where
  "NewClusterOrderReconciler base clusterOrderNamespace provisioningProvider statusPollInterval maxJobHistory =
     base\<lparr>co_ClusterOrderNamespace := (if clusterOrderNamespace = '''' then defaultClusterOrderNamespace else clusterOrderNamespace),
       ProvisioningProvider := provisioningProvider, StatusPollInterval := default_poll statusPollInterval,
       MaxJobHistory := default_history maxJobHistory\<rparr>"

definition hubAccessClusterRoleName :: "'w ClusterOrderReconciler \<Rightarrow> string" where
  "hubAccessClusterRoleName r = co_ClusterOrderNamespace r @ ''-'' @ hubAccessClusterRoleBaseName"

definition NamespacePredicate :: "string \<Rightarrow> ('sp, 'st) resource \<Rightarrow> bool" where
  "NamespacePredicate namespace obj \<longleftrightarrow> Namespace (Meta obj) = namespace"

definition labelSelectorFromInstance :: "ClusterOrder \<Rightarrow> string \<times> string" where
  "labelSelectorFromInstance instance = (osacClusterOrderNameLabel, Name (Meta instance))"

definition commonLabelsFromOrder :: "ClusterOrder \<Rightarrow> (string \<rightharpoonup> string)" where
  "commonLabelsFromOrder instance =
     [''app.kubernetes.io/name'' \<mapsto> osacAppName, osacClusterOrderNameLabel \<mapsto> Name (Meta instance)]"

definition ensureCommonLabels :: "ClusterOrder \<Rightarrow> hub_object \<Rightarrow> hub_object" where
  "ensureCommonLabels instance obj = obj\<lparr>ho_Labels := ho_Labels obj ++ commonLabelsFromOrder instance\<rparr>"

section \<open>The components\<close>

definition new_object :: "ClusterOrder \<Rightarrow> string \<Rightarrow> string \<Rightarrow> string \<Rightarrow> hub_object" where
  "new_object instance kind ns n =
     \<lparr>ho_Kind = kind, ho_Namespace = ns, ho_Name = n, ho_Labels = commonLabelsFromOrder instance,
      ho_Subjects = [], ho_RoleRef = None\<rparr>"

definition newNamespace :: "'w ClusterOrderReconciler \<Rightarrow> ClusterOrder \<Rightarrow> ('w, gerror + appResource) go" where
  "newNamespace r instance =
     bnd (co_List_Namespaces r (labelSelectorFromInstance instance)) (\<lambda>res.
       case res of
         Inl err \<Rightarrow> ret (Inl err)
       | Inr items \<Rightarrow>
           if length items > 1 then ret (Inl (Errorf ''found multiple matching namespaces for %s'' [Name (Meta instance)]))
           else
             (let namespaceName = (case items of [] \<Rightarrow> generateNamespaceName instance | n # _ \<Rightarrow> n) in
              if items = [] \<and> namespaceName = '''' then ret (Inl (Errorf ''failed to generate namespace name'' []))
              else
                ret (Inr \<lparr>ar_object = new_object instance ''Namespace'' '''' namespaceName,
                          mutate_object = ensureCommonLabels instance,
                          mutate_instance = SetClusterReferenceNamespace namespaceName\<rparr>)))"

definition no_reference :: gerror where
  "no_reference = Errorf ''unable to retrieve required information from spec.clusterReference'' []"

definition newServiceAccount :: "'w ClusterOrderReconciler \<Rightarrow> ClusterOrder \<Rightarrow> ('w, gerror + appResource) go" where
  "newServiceAccount r instance =
     (let namespaceName = GetClusterReferenceNamespace instance in
      if namespaceName = '''' then ret (Inl no_reference)
      else
        ret (Inr \<lparr>ar_object = new_object instance ''ServiceAccount'' namespaceName defaultServiceAccountName,
                  mutate_object = ensureCommonLabels instance,
                  mutate_instance = SetClusterReferenceServiceAccountName defaultServiceAccountName\<rparr>))"

definition set_role :: "Subject \<Rightarrow> string \<Rightarrow> hub_object \<Rightarrow> hub_object" where
  "set_role subject role obj =
     obj\<lparr>ho_Subjects := [subject],
         ho_RoleRef := Some \<lparr>rr_APIGroup = ''rbac.authorization.k8s.io'', rr_Kind = ''ClusterRole'', rr_Name = role\<rparr>\<rparr>"

definition newAdminRoleBinding :: "'w ClusterOrderReconciler \<Rightarrow> ClusterOrder \<Rightarrow> ('w, gerror + appResource) go" where
  "newAdminRoleBinding r instance =
     (let namespaceName = GetClusterReferenceNamespace instance;
          serviceAccountName = GetClusterReferenceServiceAccountName instance in
      if namespaceName = '''' \<or> serviceAccountName = '''' then ret (Inl no_reference)
      else
        ret (Inr \<lparr>ar_object = new_object instance ''RoleBinding'' namespaceName defaultRoleBindingName,
                  mutate_object = set_role \<lparr>sub_Kind = subjectKindServiceAccount, sub_Name = serviceAccountName,
                      sub_Namespace = namespaceName\<rparr> ''admin'' \<circ> ensureCommonLabels instance,
                  mutate_instance = SetClusterReferenceRoleBindingName defaultRoleBindingName\<rparr>))"

definition newHubAccessRoleBinding :: "'w ClusterOrderReconciler \<Rightarrow> ClusterOrder \<Rightarrow> ('w, gerror + appResource) go" where
  "newHubAccessRoleBinding r instance =
     (let namespaceName = GetClusterReferenceNamespace instance in
      if namespaceName = '''' then ret (Inl no_reference)
      else
        ret (Inr \<lparr>ar_object = new_object instance ''RoleBinding'' namespaceName hubAccessRoleBindingName,
                  mutate_object = set_role \<lparr>sub_Kind = subjectKindServiceAccount, sub_Name = hubAccessServiceAccountName,
                      sub_Namespace = co_ClusterOrderNamespace r\<rparr> (hubAccessClusterRoleName r) \<circ> ensureCommonLabels instance,
                  mutate_instance = (\<lambda>co. co)\<rparr>))"

definition components :: "(string \<times> ('w ClusterOrderReconciler \<Rightarrow> ClusterOrder \<Rightarrow> ('w, gerror + appResource) go)) list" where
  "components =
     [(''Namespace'', newNamespace), (''ServiceAccount'', newServiceAccount),
      (''RoleBinding'', newAdminRoleBinding), (''HubAccessRoleBinding'', newHubAccessRoleBinding)]"

fun component_loop ::
  "'w ClusterOrderReconciler \<Rightarrow> (string \<times> ('w ClusterOrderReconciler \<Rightarrow> ClusterOrder \<Rightarrow> ('w, gerror + appResource) go)) list \<Rightarrow>
   (ClusterOrder \<times> 'w, gerror option) go"
where
  "component_loop r [] = ret None"
| "component_loop r ((n, fn) # cs) =
     bnd get_res (\<lambda>instance.
     bnd (on_world (fn r instance)) (\<lambda>res.
       case res of
         Inl err \<Rightarrow> ret (Some err)
       | Inr resource \<Rightarrow>
           bnd (on_world (co_CreateOrUpdate r (ar_object resource) (mutate_object resource))) (\<lambda>(e, mutated).
           bnd (if mutated then mod_res (mutate_instance resource) else ret ()) (\<lambda>_.
             case e of
               Some err \<Rightarrow> ret (Some err)
             | None \<Rightarrow> component_loop r cs))))"

section \<open>Conditions and status\<close>

definition initializeStatusCondition ::
  "'w k8s \<Rightarrow> string \<Rightarrow> string \<Rightarrow> string \<Rightarrow> (ClusterOrder \<times> 'w, unit) go"
where
  "initializeStatusCondition lib conditionType status reason =
     bnd get_res (\<lambda>instance.
       case FindStatusCondition lib (Conditions (Status instance)) conditionType of
         Some _ \<Rightarrow> ret ()
       | None \<Rightarrow> set_order_condition lib conditionType status '''' reason)"

definition initializeStatusConditions :: "'w k8s \<Rightarrow> (ClusterOrder \<times> 'w, unit) go" where
  "initializeStatusConditions lib =
     bnd (initializeStatusCondition lib ''Accepted'' ''True'' ''Initialized'') (\<lambda>_.
     bnd (initializeStatusCondition lib ''Deleting'' ''False'' ''Initialized'') (\<lambda>_.
     bnd (initializeStatusCondition lib ''Progressing'' ''True'' ''Progressing'') (\<lambda>_.
     bnd (initializeStatusCondition lib ''NamespaceCreated'' ''False'' ''Initialized'') (\<lambda>_.
     bnd (initializeStatusCondition lib ''ControlPlaneCreated'' ''False'' ''Initialized'') (\<lambda>_.
     initializeStatusCondition lib ''ControlPlaneAvailable'' ''False'' ''Initialized'')))))"

text \<open>What \<^verbatim>\<open>patchStatusWithRetry\<close> writes into the latest object; the fields of others stay.\<close>

definition merge_order_status :: "'w k8s \<Rightarrow> instant \<Rightarrow> ClusterOrderStatus \<Rightarrow> ClusterOrder \<Rightarrow> ClusterOrder" where
  "merge_order_status lib t computed =
     map_status (\<lambda>st. st
       \<lparr>Phase := Phase computed, ClusterReference := ClusterReference computed,
        status_NodeRequests := status_NodeRequests computed, ProvisioningJobs := ProvisioningJobs computed,
        DesiredConfigVersion := DesiredConfigVersion computed,
        Conditions := merge_conditions lib t (Conditions computed) (Conditions st)\<rparr>)"

definition patchStatusWithRetry ::
  "'w ClusterOrderReconciler \<Rightarrow> ObjectKey \<Rightarrow> ClusterOrderStatus \<Rightarrow> ('w, gerror option) go"
where
  "patchStatusWithRetry r key computed =
     RetryOnConflict (Lib r)
       (bnd (APIReader_Get (Client r) key) (\<lambda>res.
          case res of
            Inl err \<Rightarrow> ret (Some err)
          | Inr latest \<Rightarrow>
              bnd (gets (k8s_now (Lib r))) (\<lambda>t.
              co_Status_Patch r latest (merge_order_status (Lib r) t computed latest))))"

section \<open>Provisioning and deprovisioning\<close>

definition provisioningCallbacks :: "'w k8s \<Rightarrow> (ClusterOrder, 'w) PollCallbacks" where
  "provisioningCallbacks lib =
     \<lparr>OnFailed = Some (\<lambda>message.
        bnd get_res (\<lambda>instance.
          if GetClusterReferenceHostedClusterName instance = '''' then
            bnd (mod_res (set_phase PhaseFailed)) (\<lambda>_.
            set_order_condition lib ''Progressing'' ''False'' message ''ProvisioningFailed'')
          else ret ())),
      OnSuccess = Some (\<lambda>status.
        bnd (mod_res (set_phase PhaseReady)) (\<lambda>_.
        set_order_condition lib ''Progressing'' ''False'' '''' ''AsExpected''))\<rparr>"

definition ClusterOrder_handleProvisioning :: "'w ClusterOrderReconciler \<Rightarrow> (ClusterOrder \<times> 'w, outcome) go" where
  "ClusterOrder_handleProvisioning r =
     bnd get_res (\<lambda>instance.
       if manually_managed instance then ret (no_requeue, None)
       else
         run_provisioning
           (r\<lparr>ProvisioningProvider := Some (case ProvisioningProvider r of None \<Rightarrow> nil_provider | Some p \<Rightarrow> p)\<rparr>)
           (provisioningCallbacks (Lib r))
           (\<lambda>cur. patchStatusWithRetry r (ObjectKeyFromObject cur) (Status cur)))"

definition ClusterOrder_handleDesiredConfigVersion :: "(ClusterOrder \<times> 'w, gerror option) go" where
  "ClusterOrder_handleDesiredConfigVersion =
     bnd get_res (\<lambda>instance.
       case ComputeDesiredConfigVersion (Inr (json_Marshal (ClusterOrderSpec_JSON (Spec instance)))) of
         Inl err \<Rightarrow> ret (Some err)
       | Inr version \<Rightarrow> bnd (set_desired_version version) (\<lambda>_. ret None))"

definition ClusterOrder_handleDeprovisioning :: "'w ClusterOrderReconciler \<Rightarrow> (ClusterOrder \<times> 'w, outcome) go" where
  "ClusterOrder_handleDeprovisioning r =
     bnd get_res (\<lambda>instance.
       if manually_managed instance then ret (no_requeue, None) else handleDeprovisioning r)"

section \<open>Lookups on the hub\<close>

definition findHostedCluster ::
  "'w ClusterOrderReconciler \<Rightarrow> ClusterOrder \<Rightarrow> string \<Rightarrow> ('w, gerror + HostedCluster option) go"
where
  "findHostedCluster r instance nsName =
     bnd (co_List_HostedClusters r nsName (labelSelectorFromInstance instance)) (\<lambda>res.
       case res of
         Inl err \<Rightarrow> ret (Inl err)
       | Inr items \<Rightarrow>
           if length items > 1 then
             ret (Inl (Errorf ''found too many (%d) matching hosted clusters for %s''
               [Itoa (int (length items)), Name (Meta instance)]))
           else (case items of [] \<Rightarrow> ret (Inr None) | hc # _ \<Rightarrow> ret (Inr (Some hc))))"

definition findNamespace ::
  "'w ClusterOrderReconciler \<Rightarrow> ClusterOrder \<Rightarrow> ('w, gerror + string option) go"
where
  "findNamespace r instance =
     bnd (co_List_Namespaces r (labelSelectorFromInstance instance)) (\<lambda>res.
       case res of
         Inl err \<Rightarrow> ret (Inl err)
       | Inr items \<Rightarrow>
           if length items > 1 then
             ret (Inl (Errorf ''found too many (%d) matching namespaces for %s''
               [Itoa (int (length items)), Name (Meta instance)]))
           else (case items of [] \<Rightarrow> ret (Inr None) | ns # _ \<Rightarrow> ret (Inr (Some ns))))"

definition hostedClusterControlPlaneIsAvailable :: "'w k8s \<Rightarrow> HostedCluster \<Rightarrow> bool" where
  "hostedClusterControlPlaneIsAvailable lib hc \<longleftrightarrow>
     IsStatusConditionTrue lib (hc_Conditions hc) ''Available'' \<and>
     IsStatusConditionFalse lib (hc_Conditions hc) ''Degraded''"

definition hostedClusterIsReady :: "'w k8s \<Rightarrow> HostedCluster \<Rightarrow> bool" where
  "hostedClusterIsReady lib hc \<longleftrightarrow>
     IsStatusConditionTrue lib (hc_Conditions hc) ''ClusterVersionSucceeding'' \<and>
     IsStatusConditionFalse lib (hc_Conditions hc) ''Degraded''"

section \<open>Node pools\<close>

text \<open>The loop keeps a pointer to the last entry of the resource class.\<close>

fun last_match :: "nat \<Rightarrow> string \<Rightarrow> NodeRequest list \<Rightarrow> nat option \<Rightarrow> nat option" where
  "last_match i c [] found = found"
| "last_match i c (n # ns) found = last_match (Suc i) c ns (if ResourceClass n = c then Some i else found)"

definition set_nodes :: "nat \<Rightarrow> int \<Rightarrow> NodeRequest list \<Rightarrow> NodeRequest list" where
  "set_nodes i v ns = ns[i := (ns ! i)\<lparr>NumberOfNodes := v\<rparr>]"

definition handleNodePool :: "NodePool \<Rightarrow> (ClusterOrder \<times> 'w, gerror option) go" where
  "handleNodePool nodePool =
     bnd get_res (\<lambda>instance.
       case spec_NodeRequests (Spec instance) of
         [n] \<Rightarrow>
           bnd (case last_match 0 (ResourceClass n) (status_NodeRequests (Status instance)) None of
              Some i \<Rightarrow> mod_res (map_status (\<lambda>st. st
                \<lparr>status_NodeRequests := set_nodes i (np_Replicas nodePool) (status_NodeRequests st)\<rparr>))
            | None \<Rightarrow> mod_res (\<lambda>co. co\<lparr>Spec := (Spec co)\<lparr>spec_NodeRequests :=
                [n, \<lparr>ResourceClass = ResourceClass n, NumberOfNodes = np_Replicas nodePool\<rparr>]\<rparr>\<rparr>)) (\<lambda>_. ret None)
       | _ \<Rightarrow> ret None)"

fun node_pool_loop :: "nat \<Rightarrow> NodePool list \<Rightarrow> (ClusterOrder \<times> 'w, gerror option) go" where
  "node_pool_loop i [] = ret None"
| "node_pool_loop i (p # ps) =
     bnd (handleNodePool p) (\<lambda>e.
       case e of
         Some err \<Rightarrow> ret (Some (Wrapf ''failed to handle node pool %d: %w'' [Itoa (int i)] err))
       | None \<Rightarrow> node_pool_loop (Suc i) ps)"

definition handleNodePools :: "NodePool list \<Rightarrow> (ClusterOrder \<times> 'w, gerror option) go" where
  "handleNodePools = node_pool_loop 0"

section \<open>Handlers\<close>

definition handleHostedCluster ::
  "'w ClusterOrderReconciler \<Rightarrow> HostedCluster \<Rightarrow> (ClusterOrder \<times> 'w, gerror option) go"
where
  "handleHostedCluster r hc =
     bnd (mod_res (SetClusterReferenceHostedClusterName (hc_Name hc))) (\<lambda>_.
     bnd (set_order_condition (Lib r) ''ControlPlaneCreated'' ''True'' '''' ''AsExpected'') (\<lambda>_.
     bnd (if hostedClusterControlPlaneIsAvailable (Lib r) hc then
            bnd (set_order_condition (Lib r) ''ControlPlaneAvailable'' ''True'' '''' ''AsExpected'') (\<lambda>_.
              if hostedClusterIsReady (Lib r) hc
              then set_order_condition (Lib r) ''ClusterAvailable'' ''True'' '''' ''AsExpected''
              else ret ())
          else ret ()) (\<lambda>_.
     bnd get_res (\<lambda>instance.
     bnd (on_world (co_List_NodePools r (hc_Namespace hc) (labelSelectorFromInstance instance))) (\<lambda>res.
       case res of
         Inl err \<Rightarrow> ret (Some err)
       | Inr nodePools \<Rightarrow>
           bnd (handleNodePools nodePools) (\<lambda>e.
             case e of Some err \<Rightarrow> ret (Some err) | None \<Rightarrow> ret None))))))"

text \<open>
  The hosted cluster is looked up in the namespace found; the error of that lookup is dropped. With no namespace
  found \<^verbatim>\<open>ns.GetName()\<close> dereferences a nil pointer.
\<close>

definition observe_cluster :: "'w ClusterOrderReconciler \<Rightarrow> outcome \<Rightarrow> (ClusterOrder \<times> 'w, outcome) go" where
  "observe_cluster r provisionOutcome =
     bnd get_res (\<lambda>instance.
     bnd (on_world (findNamespace r instance)) (\<lambda>nsRes.
       case nsRes of
         Inl err \<Rightarrow> ret (no_requeue, Some err)
       | Inr None \<Rightarrow> panic
       | Inr (Some ns) \<Rightarrow>
           bnd (on_world (findHostedCluster r instance ns)) (\<lambda>hcRes.
           bnd (case hcRes of
                  Inr (Some hc) \<Rightarrow> handleHostedCluster r hc
                | _ \<Rightarrow> ret None) (\<lambda>e.
             case e of
               Some err \<Rightarrow> ret (no_requeue, Some err)
             | None \<Rightarrow>
                 if RequeueAfter (fst provisionOutcome) > 0 then ret (fst provisionOutcome, None)
                 else ret (no_requeue, None)))))"

definition ensure_cluster :: "'w ClusterOrderReconciler \<Rightarrow> (ClusterOrder \<times> 'w, outcome) go" where
  "ensure_cluster r =
     bnd (component_loop r components) (\<lambda>e.
       case e of
         Some err \<Rightarrow> ret (no_requeue, Some err)
       | None \<Rightarrow>
           bnd (set_order_condition (Lib r) ''NamespaceCreated'' ''True'' '''' ''AsExpected'') (\<lambda>_.
           bnd ClusterOrder_handleDesiredConfigVersion (\<lambda>e.
             case e of
               Some err \<Rightarrow> ret (no_requeue, Some err)
             | None \<Rightarrow>
                 bnd (ClusterOrder_handleProvisioning r) (\<lambda>(provisionResult, err).
                   case err of
                     Some err \<Rightarrow> ret (no_requeue, Some err)
                   | None \<Rightarrow> observe_cluster r (provisionResult, None)))))"

definition ClusterOrder_handleUpdate :: "'w ClusterOrderReconciler \<Rightarrow> (ClusterOrder \<times> 'w, outcome) go" where
  "ClusterOrder_handleUpdate r =
     bnd (initializeStatusConditions (Lib r)) (\<lambda>_.
     bnd phase_progressing_if_unset (\<lambda>_.
     add_finalizer r osacFinalizer False (ensure_cluster r)))"

definition release_order_finalizer :: "'w ClusterOrderReconciler \<Rightarrow> (ClusterOrder \<times> 'w, outcome) go" where
  "release_order_finalizer r =
     bnd get_res (\<lambda>instance.
       if ContainsFinalizer (Lib r) (Finalizers (Meta instance)) osacFinalizer
       then release_if_present r osacFinalizer else ret (no_requeue, None))"

definition ClusterOrder_handleDelete :: "'w ClusterOrderReconciler \<Rightarrow> (ClusterOrder \<times> 'w, outcome) go" where
  "ClusterOrder_handleDelete r =
     bnd (mod_res (set_phase PhaseDeleting)) (\<lambda>_.
     bnd (ClusterOrder_handleDeprovisioning r) (\<lambda>(deprovisionResult, err).
       case err of
         Some err \<Rightarrow> ret (no_requeue, Some err)
       | None \<Rightarrow>
           if RequeueAfter deprovisionResult > 0 then ret (deprovisionResult, None)
           else
             bnd get_res (\<lambda>instance.
             bnd (on_world (findNamespace r instance)) (\<lambda>nsRes.
               case nsRes of
                 Inl err \<Rightarrow> ret (no_requeue, Some err)
               | Inr None \<Rightarrow> release_order_finalizer r
               | Inr (Some ns) \<Rightarrow>
                   bnd (on_world (findHostedCluster r instance ns)) (\<lambda>hcRes.
                     case hcRes of
                       Inl err \<Rightarrow> ret (no_requeue, Some err)
                     | Inr (Some _) \<Rightarrow> ret (no_requeue, None)
                     | Inr None \<Rightarrow>
                         bnd (on_world (co_Delete_Namespace r ns)) (\<lambda>e. ret (no_requeue, e)))))))"

definition ClusterOrder_Reconcile :: "'w ClusterOrderReconciler \<Rightarrow> ObjectKey \<Rightarrow> ('w, outcome) go" where
  "ClusterOrder_Reconcile r key =
     bnd (Get (Client r) key) (\<lambda>got.
       case got of
         Inl err \<Rightarrow> ret (no_requeue, IgnoreNotFound (Lib r) err)
       | Inr instance \<Rightarrow>
           if DeletionTimestamp (Meta instance) = None \<and>
              Annotations (Meta instance) osacManagementStateAnnotation = Some ManagementStateUnmanaged
           then ret (no_requeue, None)
           else
             bnd (with_object instance
                    (if DeletionTimestamp (Meta instance) = None
                     then ClusterOrder_handleUpdate r else ClusterOrder_handleDelete r))
               (\<lambda>((res, err), instance').
                  if err = None \<and> \<not> DeepEqual (Client r) (Status instance') (Status instance) then
                    bnd (patchStatusWithRetry r key (Status instance')) (\<lambda>e.
                      case e of Some patchErr \<Rightarrow> ret (res, Some patchErr) | None \<Rightarrow> ret (res, err))
                  else ret (res, err)))"

definition mapObjectToCluster :: "'w ClusterOrderReconciler \<Rightarrow> hub_object \<Rightarrow> ('w, ObjectKey list) go" where
  "mapObjectToCluster r obj =
     (case ho_Labels obj osacClusterOrderNameLabel of
        None \<Rightarrow> ret []
      | Some clusterOrderName \<Rightarrow>
          (let key = (co_ClusterOrderNamespace r, clusterOrderName) in
           bnd (Get (Client r) key) (\<lambda>res. case res of Inl err \<Rightarrow> ret [] | Inr clusterOrder \<Rightarrow> ret [key])))"

end
