(* ===== verification/Storage_Tiers.thy ===== *)
theory Storage_Tiers
  imports Aap_Provider Kube "HOL-Library.List_Lexorder" "HOL-Library.Char_ord" "HOL-Library.Multiset"
begin

text \<open>
  Storage tiers: which StorageClass serves a tier for a tenant
  (\<^verbatim>\<open>internal/controller/storage_tier_resolution.go\<close>), the definitions of the tiers and the connections of
  their backends from the fulfillment service, and the gap between the two
  (\<^verbatim>\<open>storage_tier_definitions.go\<close>). The clients of the target cluster and of the fulfillment service are
  parameters.

  Go strings are byte lists. \<^verbatim>\<open>strings.ToLower\<close> is written out as far as it can produce ASCII: besides
  the letters A to Z these are the letters U+0130 and U+212A, whose lower case is i and k; every other
  byte sequence outside ASCII stays outside ASCII and is left as it is. That decides the matching here, because
  only ASCII tier labels pass the pattern.
\<close>

section \<open>Tier labels\<close>

record StorageClass =
  sc_Name :: string
  sc_Labels :: "string \<rightharpoonup> string"

definition osacTenantKey :: string where
  "osacTenantKey = ''osac.openshift.io/tenant''"

definition osacStorageTierLabel :: string where
  "osacStorageTierLabel = ''osac.openshift.io/storage-tier''"

definition defaultStorageClassSentinel :: string where
  "defaultStorageClassSentinel = ''Default''"

definition ascii_lower :: "char \<Rightarrow> char" where
  "ascii_lower c = (let n = (of_char c :: nat) in if 65 \<le> n \<and> n \<le> 90 then char_of (n + 32) else c)"

definition dotted_I :: string where
  "dotted_I = [char_of (196::nat), char_of (176::nat)]"

definition kelvin_sign :: string where
  "kelvin_sign = [char_of (226::nat), char_of (132::nat), char_of (170::nat)]"

fun ToLower :: "string \<Rightarrow> string" where
  "ToLower [] = []"
| "ToLower [a] = [ascii_lower a]"
| "ToLower [a, b] = (if [a, b] = dotted_I then ''i'' else ascii_lower a # ToLower [b])"
| "ToLower (a # b # c # cs) =
     (if [a, b] = dotted_I then CHR ''i'' # ToLower (c # cs)
      else if [a, b, c] = kelvin_sign then CHR ''k'' # ToLower cs
      else ascii_lower a # ToLower (b # c # cs))"

definition tier_alnum :: "char \<Rightarrow> bool" where
  "tier_alnum c \<longleftrightarrow> (let n = (of_char c :: nat) in (97 \<le> n \<and> n \<le> 122) \<or> (48 \<le> n \<and> n \<le> 57))"

text \<open>\<^verbatim>\<open>^[a-z0-9]([a-z0-9._-]*[a-z0-9])?$\<close>\<close>

definition tierLabelPattern :: "string \<Rightarrow> bool" where
  "tierLabelPattern s \<longleftrightarrow>
     s \<noteq> [] \<and> tier_alnum (hd s) \<and> tier_alnum (last s) \<and>
     (\<forall>c \<in> set s. tier_alnum c \<or> c \<in> {CHR ''.'', CHR ''_'', CHR ''-''})"

section \<open>Resolution of storage classes\<close>

record tierResolutionResult =
  resolved :: "ResolvedStorageClass list"
  resolvedMessages :: "string list"
  errorMessages :: "string list"
  duplicateMessages :: "string list"
  ambiguousTiers :: "string list"

definition conditionMessage :: "tierResolutionResult \<Rightarrow> string" where
  "conditionMessage r = join_with ''; '' (resolvedMessages r @ errorMessages r)"

definition joinStorageClassNames :: "StorageClass list \<Rightarrow> string" where
  "joinStorageClassNames items = join_with '', '' (map sc_Name items)"

text \<open>A Go map from tiers to groups: each key once, in any order.\<close>

fun add_to_group :: "string \<Rightarrow> 'a \<Rightarrow> (string \<times> 'a list) list \<Rightarrow> (string \<times> 'a list) list" where
  "add_to_group k x [] = [(k, [x])]"
| "add_to_group k x ((k', xs) # groups) =
     (if k' = k then (k', xs @ [x]) # groups else (k', xs) # add_to_group k x groups)"

definition group_of :: "(string \<times> 'a list) list \<Rightarrow> string \<Rightarrow> 'a list" where
  "group_of groups k = (case map_of groups k of None \<Rightarrow> [] | Some xs \<Rightarrow> xs)"

fun group_loop ::
  "StorageClass list \<Rightarrow> (string \<times> StorageClass list) list \<Rightarrow> (string \<times> StorageClass list) list"
where
  "group_loop [] groups = groups"
| "group_loop (sc # scs) groups =
     (case sc_Labels sc osacStorageTierLabel of
        None \<Rightarrow> group_loop scs groups
      | Some raw \<Rightarrow>
          if raw = '''' then group_loop scs groups
          else
            (let tier = ToLower raw in
             if \<not> tierLabelPattern tier then group_loop scs groups
             else group_loop scs (add_to_group tier sc groups)))"

definition groupByTier :: "StorageClass list \<Rightarrow> (string \<times> StorageClass list) list" where
  "groupByTier scList = group_loop scList []"

definition empty_result :: tierResolutionResult where
  "empty_result = \<lparr>resolved = [], resolvedMessages = [], errorMessages = [], duplicateMessages = [], ambiguousTiers = []\<rparr>"

definition resolve_class :: "string \<Rightarrow> string \<Rightarrow> string \<Rightarrow> tierResolutionResult \<Rightarrow> tierResolutionResult" where
  "resolve_class fmt tier scName result =
     result\<lparr>resolved := resolved result @ [\<lparr>rsc_Name = scName, rsc_Tier = tier\<rparr>],
            resolvedMessages := resolvedMessages result @ [sprintf fmt [tier, scName]]\<rparr>"

definition report_ambiguous :: "string \<Rightarrow> string \<Rightarrow> StorageClass list \<Rightarrow> tierResolutionResult \<Rightarrow> tierResolutionResult" where
  "report_ambiguous fmt tier scs result =
     (let msg = sprintf fmt [tier, joinStorageClassNames scs] in
      result\<lparr>errorMessages := errorMessages result @ [msg],
             duplicateMessages := duplicateMessages result @ [msg],
             ambiguousTiers := ambiguousTiers result @ [tier]\<rparr>)"

text \<open>One round of the loop: \<open>tenantSCs\<close> and \<open>defaultSCs\<close> are the two groups of the tier.\<close>

definition tier_step ::
  "string \<Rightarrow> StorageClass list \<Rightarrow> StorageClass list \<Rightarrow> tierResolutionResult \<Rightarrow> tierResolutionResult"
where
  "tier_step tier tenantSCs defaultSCs result =
     (case tenantSCs of
        [sc] \<Rightarrow> resolve_class ''tier %q: StorageClass %q (tenant-specific)'' tier (sc_Name sc) result
      | [] \<Rightarrow>
          (case defaultSCs of
             [sc] \<Rightarrow> resolve_class ''tier %q: StorageClass %q (shared Default)'' tier (sc_Name sc) result
           | [] \<Rightarrow> result
           | _ \<Rightarrow> report_ambiguous ''tier %q: multiple shared Default StorageClasses [%s]'' tier defaultSCs result)
      | _ \<Rightarrow> report_ambiguous ''tier %q: multiple tenant StorageClasses [%s]'' tier tenantSCs result)"

fun tier_loop ::
  "(string \<times> StorageClass list) list \<Rightarrow> (string \<times> StorageClass list) list \<Rightarrow> string list \<Rightarrow>
   tierResolutionResult \<Rightarrow> tierResolutionResult"
where
  "tier_loop tenantByTier defaultByTier [] result = result"
| "tier_loop tenantByTier defaultByTier (tier # tiers) result =
     tier_loop tenantByTier defaultByTier tiers
       (tier_step tier (group_of tenantByTier tier) (group_of defaultByTier tier) result)"

definition resolve_all ::
  "string \<Rightarrow> (string \<times> StorageClass list) list \<Rightarrow> (string \<times> StorageClass list) list \<Rightarrow> tierResolutionResult"
where
  "resolve_all tenantName tenantByTier defaultByTier =
     (let sortedTiers = sort (remdups (map fst tenantByTier @ map fst defaultByTier));
          result = tier_loop tenantByTier defaultByTier sortedTiers empty_result
      in if resolved result = [] \<and> errorMessages result = [] then
           result\<lparr>errorMessages := errorMessages result @
             [sprintf ''no StorageClasses with %s label found for tenant %q'' [osacStorageTierLabel, tenantName]]\<rparr>
         else result)"

text \<open>The client of the target cluster lists the classes with a label.\<close>

type_synonym 'w class_lister = "string \<times> string \<Rightarrow> ('w, gerror + StorageClass list) go"

definition getTenantStorageClasses ::
  "'w class_lister \<Rightarrow> string \<Rightarrow> ('w, gerror + tierResolutionResult) go"
where
  "getTenantStorageClasses targetClient_List tenantName =
     bnd (targetClient_List (osacTenantKey, tenantName)) (\<lambda>res.
       case res of
         Inl err \<Rightarrow> ret (Inl err)
       | Inr tenantSCList \<Rightarrow>
           bnd (targetClient_List (osacTenantKey, defaultStorageClassSentinel)) (\<lambda>res'.
             case res' of
               Inl err \<Rightarrow> ret (Inl err)
             | Inr defaultSCList \<Rightarrow>
                 ret (Inr (resolve_all tenantName (groupByTier tenantSCList) (groupByTier defaultSCList)))))"

section \<open>Tier definitions of the fulfillment service\<close>

text \<open>
  The messages of the fulfillment service as far as the code reads them; the getters of a nil message give
  zero values, which the records hold then. \<open>sb_status_Code\<close> is \<^verbatim>\<open>status.Code\<close> of gRPC; 5 is \<^verbatim>\<open>codes.NotFound\<close>.
\<close>

datatype StorageProtocol = STORAGE_PROTOCOL_UNSPECIFIED | STORAGE_PROTOCOL_NFS | STORAGE_PROTOCOL_BLOCK | STORAGE_PROTOCOL_OTHER int

record StorageTierBackend =
  stb_BackendId :: string
  stb_Protocol :: StorageProtocol
  stb_MaxReadBandwidthMbs :: int
  stb_MaxWriteBandwidthMbs :: int
  stb_QuotaGib :: int

record StorageTier =
  st_Name :: string
  st_Backends :: "StorageTierBackend list"

record StorageBackendSpec =
  sbs_Provider :: string
  sbs_Endpoint :: string
  sbs_Username :: string
  sbs_Password :: string

type_synonym 'w StorageTiersLister = "int \<Rightarrow> ('w, gerror + StorageTier list) go"

record 'w StorageBackendsClient =
  sb_List_Total :: "int \<Rightarrow> ('w, gerror + int) go"
  sb_Get :: "string \<Rightarrow> ('w, gerror + StorageBackendSpec) go"
  sb_status_Code :: "gerror \<Rightarrow> nat"

definition tierListLimit :: int where
  "tierListLimit = 1000"

definition storageProtocolToString :: "StorageProtocol \<Rightarrow> string" where
  "storageProtocolToString p =
     (case p of
        STORAGE_PROTOCOL_NFS \<Rightarrow> ''nfs''
      | STORAGE_PROTOCOL_BLOCK \<Rightarrow> ''block''
      | _ \<Rightarrow> '''')"

definition tier_definition :: "StorageTier \<Rightarrow> StorageTierBackend \<Rightarrow> string \<Rightarrow> TierDefinition" where
  "tier_definition tier assoc provider =
     \<lparr>td_Name = st_Name tier, td_Protocol = storageProtocolToString (stb_Protocol assoc),
      td_Provider = provider, td_BackendID = stb_BackendId assoc,
      td_QosLimits = \<lparr>MaxReadBandwidthMBs = stb_MaxReadBandwidthMbs assoc,
                      MaxWriteBandwidthMBs = stb_MaxWriteBandwidthMbs assoc\<rparr>,
      td_QuotaGiB = stb_QuotaGib assoc\<rparr>"

definition backend_connection :: "StorageBackendSpec \<Rightarrow> BackendConnection" where
  "backend_connection spec =
     \<lparr>bc_Endpoint = sbs_Endpoint spec, bc_Username = sbs_Username spec, bc_Password = sbs_Password spec\<rparr>"

text \<open>
  The loop over the tiers. \<open>backendCache\<close> maps a backend that was fetched to its provider, or to
  \<open>None\<close> when it does not exist.
\<close>

fun definition_loop ::
  "'w StorageBackendsClient \<Rightarrow> StorageTier list \<Rightarrow> (string \<rightharpoonup> string option) \<Rightarrow> (string \<times> BackendConnection) list \<Rightarrow>
   TierDefinition list \<Rightarrow> ('w, gerror + TierDefinition list \<times> (string \<times> BackendConnection) list) go"
where
  "definition_loop client [] backendCache connections definitions = ret (Inr (definitions, connections))"
| "definition_loop client (tier # tiers) backendCache connections definitions =
     (case st_Backends tier of
        [] \<Rightarrow> definition_loop client tiers backendCache connections definitions
      | assoc # _ \<Rightarrow>
          (let backendID = stb_BackendId assoc in
           case backendCache backendID of
             Some (Some provider) \<Rightarrow>
               definition_loop client tiers backendCache connections
                 (definitions @ [tier_definition tier assoc provider])
           | Some None \<Rightarrow> definition_loop client tiers backendCache connections definitions
           | None \<Rightarrow>
               bnd (sb_Get client backendID) (\<lambda>res.
                 case res of
                   Inl err \<Rightarrow>
                     if sb_status_Code client err = 5 then
                       definition_loop client tiers (backendCache(backendID \<mapsto> None)) connections definitions
                     else ret (Inl (Wrapf ''get storage backend %q: %w'' [backendID] err))
                 | Inr spec \<Rightarrow>
                     definition_loop client tiers (backendCache(backendID \<mapsto> Some (sbs_Provider spec)))
                       (connections @ [(backendID, backend_connection spec)])
                       (definitions @ [tier_definition tier assoc (sbs_Provider spec)]))))"

definition resolveTierDefinitions ::
  "'w StorageTiersLister \<Rightarrow> 'w StorageBackendsClient \<Rightarrow>
   ('w, gerror + TierDefinition list \<times> (string \<times> BackendConnection) list) go"
where
  "resolveTierDefinitions tiersClient_List backendsClient =
     bnd (tiersClient_List tierListLimit) (\<lambda>res.
       case res of
         Inl err \<Rightarrow> ret (Inl (Wrapf ''list storage tiers: %w'' [] err))
       | Inr items \<Rightarrow> definition_loop backendsClient items Map.empty [] [])"

definition resolveAndInjectTierContext ::
  "Ctx \<Rightarrow> 'w StorageTiersLister option \<Rightarrow> 'w StorageBackendsClient option \<Rightarrow>
   ('w, Ctx \<times> TierDefinition list) go"
where
  "resolveAndInjectTierContext ctx tiersClient backendsClient =
     bnd (case (tiersClient, backendsClient) of
            (Some tiers, Some backends) \<Rightarrow>
              bnd (resolveTierDefinitions tiers backends) (\<lambda>res.
                case res of Inl err \<Rightarrow> ret ([], []) | Inr found \<Rightarrow> ret found)
          | _ \<Rightarrow> ret ([], [])) (\<lambda>(tierDefinitions, backendConnections).
     ret (WithStorageBackendConnections (WithStorageTierDefinitions ctx tierDefinitions) backendConnections,
          tierDefinitions))"

section \<open>Missing tiers\<close>

definition missingTierNames :: "TierDefinition list \<Rightarrow> ResolvedStorageClass list \<Rightarrow> string list \<Rightarrow> string list" where
  "missingTierNames defined res ambiguous =
     (let covered = map rsc_Tier res @ ambiguous
      in sort (map td_Name (filter (\<lambda>tier. ToLower (td_Name tier) \<notin> set covered) defined)))"

text \<open>\<open>eventf\<close> is \<^verbatim>\<open>Recorder.Eventf\<close> for a warning about the instance: reason, action and message.\<close>

type_synonym 'w event_recorder = "string \<Rightarrow> string \<Rightarrow> string \<Rightarrow> ('w, unit) go"

fun record_events :: "'w event_recorder \<Rightarrow> string \<Rightarrow> string \<Rightarrow> string list \<Rightarrow> ('w, unit) go" where
  "record_events eventf reason action [] = ret ()"
| "record_events eventf reason action (msg # msgs) =
     bnd (eventf reason action msg) (\<lambda>_. record_events eventf reason action msgs)"

definition appendMissingTierWarnings ::
  "'w event_recorder \<Rightarrow> TierDefinition list \<Rightarrow> ResolvedStorageClass list \<Rightarrow> string list \<Rightarrow> string \<Rightarrow> ('w, string) go"
where
  "appendMissingTierWarnings eventf defined res ambiguous condMsg =
     (let messages = map (\<lambda>n. sprintf ''tier %q has no StorageClass'' [n]) (missingTierNames defined res ambiguous) in
      if messages = [] then ret condMsg
      else
        bnd (record_events eventf ''MissingStorageTier'' ''DetectMissingTier'' messages) (\<lambda>_.
        if condMsg = '''' then ret (join_with ''; '' messages)
        else ret (condMsg @ ''; '' @ join_with ''; '' messages)))"

section \<open>Groups\<close>

text \<open>The tier a class declares, if its label is valid.\<close>

definition tier_of :: "StorageClass \<Rightarrow> string option" where
  "tier_of sc =
     (case sc_Labels sc osacStorageTierLabel of
        None \<Rightarrow> None
      | Some raw \<Rightarrow> if raw \<noteq> '''' \<and> tierLabelPattern (ToLower raw) then Some (ToLower raw) else None)"

definition classes_of_tier :: "StorageClass list \<Rightarrow> string \<Rightarrow> StorageClass list" where
  "classes_of_tier scs t = filter (\<lambda>sc. tier_of sc = Some t) scs"

lemma group_of_add: "group_of (add_to_group k x groups) t = group_of groups t @ (if t = k then [x] else [])"
  by (induction k x groups rule: add_to_group.induct) (auto simp: group_of_def)

lemma keys_add: "set (map fst (add_to_group k x groups)) = insert k (set (map fst groups))"
  by (induction k x groups rule: add_to_group.induct) auto

lemma distinct_add: "distinct (map fst groups) \<Longrightarrow> distinct (map fst (add_to_group k x groups))"
proof (induction k x groups rule: add_to_group.induct)
  case (2 k x k' xs groups)
  then show ?case using keys_add [of k x groups] by auto
qed simp

lemma group_loop_Cons:
  "group_loop (sc # scs) groups =
     group_loop scs (case tier_of sc of None \<Rightarrow> groups | Some t \<Rightarrow> add_to_group t sc groups)"
  by (simp add: tier_of_def Let_def split: option.split)

lemma classes_of_tier_simps [simp]:
  "classes_of_tier [] t = []"
  "classes_of_tier (sc # scs) t = (if tier_of sc = Some t then sc # classes_of_tier scs t else classes_of_tier scs t)"
  by (simp_all add: classes_of_tier_def)

lemma group_loop_spec:
  "group_of (group_loop scs groups) t = group_of groups t @ classes_of_tier scs t"
  by (induction scs arbitrary: groups)
    (auto simp: group_of_add group_loop_Cons simp del: group_loop.simps(2) split: option.split)

lemma group_loop_keys:
  "set (map fst (group_loop scs groups)) = set (map fst groups) \<union> {t. classes_of_tier scs t \<noteq> []}"
proof (induction scs arbitrary: groups)
  case (Cons sc scs)
  show ?case
    unfolding group_loop_Cons Cons.IH
    by (cases "tier_of sc") (auto simp: keys_add [simplified])
qed simp

lemma groupByTier_spec:
  "group_of (groupByTier scs) t = classes_of_tier scs t"
  "set (map fst (groupByTier scs)) = {t. classes_of_tier scs t \<noteq> []}"
  by (simp_all add: groupByTier_def group_loop_spec group_loop_keys [simplified])
    (simp add: group_of_def)

section \<open>What serves a tier\<close>

text \<open>
  The specification of the resolution: the class that serves a tier, given the classes of the tenant and
  the shared ones, and when a tier is ambiguous.
\<close>

definition served_by :: "StorageClass list \<Rightarrow> StorageClass list \<Rightarrow> string option" where
  "served_by own shared =
     (let candidates = (if own = [] then shared else own)
      in if length candidates = 1 then Some (sc_Name (hd candidates)) else None)"

definition ambiguous_tier :: "StorageClass list \<Rightarrow> StorageClass list \<Rightarrow> bool" where
  "ambiguous_tier own shared \<longleftrightarrow> 2 \<le> length (if own = [] then shared else own)"

definition served_tiers ::
  "(string \<Rightarrow> StorageClass list) \<Rightarrow> (string \<Rightarrow> StorageClass list) \<Rightarrow> string list \<Rightarrow> ResolvedStorageClass list"
where
  "served_tiers own shared tiers =
     map (\<lambda>t. \<lparr>rsc_Name = the (served_by (own t) (shared t)), rsc_Tier = t\<rparr>)
       (filter (\<lambda>t. served_by (own t) (shared t) \<noteq> None) tiers)"

lemma tier_step_cases:
  obtains fmt n where "served_by own shared = Some n" "\<not> ambiguous_tier own shared"
      "tier_step t own shared r = resolve_class fmt t n r"
    | fmt scs where "served_by own shared = None" "ambiguous_tier own shared"
      "tier_step t own shared r = report_ambiguous fmt t scs r"
    | "served_by own shared = None" "\<not> ambiguous_tier own shared" "tier_step t own shared r = r"
proof (cases own rule: remdups_adj.cases)
  case 1
  then show thesis
    by (cases shared rule: remdups_adj.cases) (auto simp: served_by_def ambiguous_tier_def tier_step_def intro: that)
qed (auto simp: served_by_def ambiguous_tier_def tier_step_def intro: that)

lemma tier_loop_spec:
  "let own = group_of tb; shared = group_of db; res = tier_loop tb db tiers r;
       amb = filter (\<lambda>t. ambiguous_tier (own t) (shared t)) tiers
   in resolved res = resolved r @ served_tiers own shared tiers \<and>
      ambiguousTiers res = ambiguousTiers r @ amb \<and>
      length (duplicateMessages res) = length (duplicateMessages r) + length amb \<and>
      length (errorMessages res) = length (errorMessages r) + length amb"
proof (induction tiers arbitrary: r)
  case Nil
  then show ?case by (simp add: served_tiers_def)
next
  case (Cons t tiers)
  note IH = Cons.IH [of "tier_step t (group_of tb t) (group_of db t) r", unfolded Let_def]
  show ?case
  proof (rule tier_step_cases [of "group_of tb t" "group_of db t" t r], goal_cases)
    case (1 fmt n)
    with IH show ?case by (auto simp: Let_def resolve_class_def served_tiers_def)
  next
    case (2 fmt scs)
    with IH show ?case by (auto simp: Let_def report_ambiguous_def served_tiers_def)
  next
    case 3
    with IH show ?case by (auto simp: Let_def served_tiers_def)
  qed
qed

lemma served_iff:
  "\<lparr>rsc_Name = n, rsc_Tier = t\<rparr> \<in> set (served_tiers own shared tiers) \<longleftrightarrow>
     t \<in> set tiers \<and> served_by (own t) (shared t) = Some n"
  by (force simp: served_tiers_def)

lemma map_tier_served:
  "map rsc_Tier (served_tiers own shared tiers) = filter (\<lambda>t. served_by (own t) (shared t) \<noteq> None) tiers"
  by (simp add: served_tiers_def comp_def)

section \<open>Fetching backends\<close>

text \<open>
  \<open>first_backends\<close> are the backends the code looks at; \<open>tier_found\<close> is the definition of a tier when the
  backends answer according to \<open>ans\<close>; \<open>fatal\<close> answers end the resolution.
\<close>

definition first_backends :: "StorageTier list \<Rightarrow> string set" where
  "first_backends tiers = {stb_BackendId a | a t as. t \<in> set tiers \<and> st_Backends t = a # as}"

definition tier_found :: "(string \<Rightarrow> gerror + StorageBackendSpec) \<Rightarrow> StorageTier \<Rightarrow> TierDefinition option" where
  "tier_found ans t =
     (case st_Backends t of
        [] \<Rightarrow> None
      | a # _ \<Rightarrow>
          (case ans (stb_BackendId a) of
             Inl _ \<Rightarrow> None
           | Inr spec \<Rightarrow> Some (tier_definition t a (sbs_Provider spec))))"

definition fatal :: "(gerror \<Rightarrow> nat) \<Rightarrow> gerror + StorageBackendSpec \<Rightarrow> bool" where
  "fatal code answer \<longleftrightarrow> (case answer of Inl e \<Rightarrow> code e \<noteq> 5 | Inr _ \<Rightarrow> False)"

definition connection_of :: "gerror + StorageBackendSpec \<Rightarrow> BackendConnection option" where
  "connection_of answer = (case answer of Inl _ \<Rightarrow> None | Inr spec \<Rightarrow> Some (backend_connection spec))"

definition provider_of :: "gerror + StorageBackendSpec \<Rightarrow> string option" where
  "provider_of answer = (case answer of Inl _ \<Rightarrow> None | Inr spec \<Rightarrow> Some (sbs_Provider spec))"

lemma first_backends_simps [simp]:
  "first_backends [] = {}"
  "first_backends (t # tiers) = (case st_Backends t of [] \<Rightarrow> {} | a # _ \<Rightarrow> {stb_BackendId a}) \<union> first_backends tiers"
  by (auto simp: first_backends_def split: list.splits)

text \<open>
  The cache holds what the backends answered, and the connections are those of the backends found so far.
\<close>

definition fetched_ok ::
  "(gerror \<Rightarrow> nat) \<Rightarrow> (string \<Rightarrow> gerror + StorageBackendSpec) \<Rightarrow> (string \<rightharpoonup> string option) \<Rightarrow> (string \<times> BackendConnection) list \<Rightarrow> bool"
where
  "fetched_ok code ans cache conns \<longleftrightarrow>
     (\<forall>i v. cache i = Some v \<longrightarrow> v = provider_of (ans i) \<and> \<not> fatal code (ans i)) \<and>
     distinct (map fst conns) \<and>
     (\<forall>i. map_of conns i = (if i \<in> dom cache then connection_of (ans i) else None))"

lemma fetched_ok_add:
  assumes "fetched_ok code ans cache conns" and "cache i = None" and "\<not> fatal code (ans i)"
  shows "fetched_ok code ans (cache(i \<mapsto> provider_of (ans i)))
    (conns @ (case connection_of (ans i) of None \<Rightarrow> [] | Some c \<Rightarrow> [(i, c)]))"
proof -
  have "i \<notin> fst ` set conns" using assms(1,2) by (auto simp: fetched_ok_def simp flip: map_of_eq_None_iff)
  with assms show ?thesis
    by (auto simp: fetched_ok_def map_add_def split: option.split)
qed

lemma definition_loop_cached:
  assumes "st_Backends t = a # as" and "cache (stb_BackendId a) = Some (provider_of (ans (stb_BackendId a)))"
  shows "definition_loop client (t # tiers) cache conns defs =
    definition_loop client tiers cache conns (defs @ (case tier_found ans t of None \<Rightarrow> [] | Some d \<Rightarrow> [d]))"
  using assms by (auto simp: tier_found_def provider_of_def split: sum.splits)

lemma definition_loop_failed:
  assumes "st_Backends t = a # as" and "cache (stb_BackendId a) = None"
    and "sb_Get client (stb_BackendId a) w = Some (ans (stb_BackendId a), w1)" and "fatal (sb_status_Code client) (ans (stb_BackendId a))"
  shows "\<exists>e. definition_loop client (t # tiers) cache conns defs w = Some (Inl e, w1)"
proof -
  obtain e where "ans (stb_BackendId a) = Inl e" "sb_status_Code client e \<noteq> 5"
    using assms(4) by (auto simp: fatal_def split: sum.splits)
  with assms(1-3) show ?thesis by (simp add: Let_def go_simps)
qed

lemma definition_loop_fetched:
  assumes "st_Backends t = a # as" and "cache (stb_BackendId a) = None"
    and "sb_Get client (stb_BackendId a) w = Some (ans (stb_BackendId a), w1)" and "\<not> fatal (sb_status_Code client) (ans (stb_BackendId a))"
  shows "definition_loop client (t # tiers) cache conns defs w =
    definition_loop client tiers (cache(stb_BackendId a \<mapsto> provider_of (ans (stb_BackendId a))))
      (conns @ (case connection_of (ans (stb_BackendId a)) of None \<Rightarrow> [] | Some c \<Rightarrow> [(stb_BackendId a, c)]))
      (defs @ (case tier_found ans t of None \<Rightarrow> [] | Some d \<Rightarrow> [d])) w1"
  using assms by (auto simp: tier_found_def provider_of_def connection_of_def fatal_def Let_def go_simps split: sum.splits)

lemma definition_loop_spec:
  assumes answers: "\<And>i w. \<exists>w'. sb_Get client i w = Some (ans i, w') \<and> calls w' = calls w @ [i]"
    and "fetched_ok (sb_status_Code client) ans cache conns"
  shows "\<exists>res w' ids. definition_loop client tiers cache conns defs w = Some (res, w') \<and>
     calls w' = calls w @ ids \<and> distinct ids \<and> set ids \<subseteq> first_backends tiers - dom cache \<and>
     (case res of
        Inl e \<Rightarrow> \<exists>i \<in> first_backends tiers - dom cache. fatal (sb_status_Code client) (ans i)
      | Inr (defs', conns') \<Rightarrow> defs' = defs @ List.map_filter (tier_found ans) tiers \<and>
          fetched_ok (sb_status_Code client) ans (\<lambda>i. if i \<in> first_backends tiers \<union> dom cache then Some (provider_of (ans i)) else None) conns')"
  using assms(2)
proof (induction tiers arbitrary: cache conns defs w)
  case Nil
  then have "(\<lambda>i. if i \<in> dom cache then Some (provider_of (ans i)) else None) = cache"
    by (auto simp: fetched_ok_def fun_eq_iff domIff)
  with Nil show ?case by (simp add: ret_def map_filter_simps)
next
  case (Cons t tiers)
  let ?code = "sb_status_Code client" and ?found = "case tier_found ans t of None \<Rightarrow> [] | Some d \<Rightarrow> [d]"
  have split: "List.map_filter (tier_found ans) (t # tiers) = ?found @ List.map_filter (tier_found ans) tiers"
    by (simp add: map_filter_simps split: option.split)
  show ?case
  proof (cases "st_Backends t")
    case Nil
    then have skip: "definition_loop client (t # tiers) cache conns defs = definition_loop client tiers cache conns defs"
        "first_backends (t # tiers) = first_backends tiers" "?found = []"
      by (simp_all add: tier_found_def)
    show ?thesis
      unfolding split skip append_Nil by (rule Cons.IH [OF Cons.prems])
  next
    case b: (Cons a as)
    let ?i = "stb_BackendId a"
    show ?thesis
    proof (cases "cache ?i")
      case (Some v)
      then have v: "v = provider_of (ans ?i)" using Cons.prems by (simp add: fetched_ok_def)
      note loop = definition_loop_cached [where ans = ans and cache = cache, OF b Some [unfolded v]]
      have dom: "insert ?i (first_backends tiers) \<union> dom cache = first_backends tiers \<union> dom cache"
        using Some by auto
      show ?thesis
        using Cons.IH [OF Cons.prems, of "defs @ ?found" w] Some
        unfolding loop split first_backends_simps(2) b list.case insert_is_Un [symmetric] dom
        by (force split: sum.splits)
    next
      case None
      obtain w1 where w1: "sb_Get client ?i w = Some (ans ?i, w1)" "calls w1 = calls w @ [?i]"
        using answers by blast
      show ?thesis
      proof (cases "fatal ?code (ans ?i)")
        case True
        with definition_loop_failed [where ans = ans and cache = cache, OF b None w1(1)] obtain e where
          "definition_loop client (t # tiers) cache conns defs w = Some (Inl e, w1)" by blast
        with True w1 b None show ?thesis by (auto intro!: exI [of _ "[?i]"])
      next
        case False
        note loop = definition_loop_fetched [where ans = ans and cache = cache, OF b None w1(1) False]
        have dom: "first_backends tiers \<union> dom (cache(?i \<mapsto> x)) = insert ?i (first_backends tiers) \<union> dom cache" for x
          by auto
        obtain res w' ids where IH: "definition_loop client (t # tiers) cache conns defs w = Some (res, w')"
          "calls w' = calls w1 @ ids" "distinct ids" "set ids \<subseteq> first_backends tiers - dom (cache(?i \<mapsto> provider_of (ans ?i)))"
          "case res of
             Inl e \<Rightarrow> \<exists>i \<in> first_backends tiers - dom (cache(?i \<mapsto> provider_of (ans ?i))). fatal ?code (ans i)
           | Inr (defs', conns') \<Rightarrow> defs' = (defs @ ?found) @ List.map_filter (tier_found ans) tiers \<and>
               fetched_ok ?code ans (\<lambda>i. if i \<in> insert ?i (first_backends tiers) \<union> dom cache then Some (provider_of (ans i)) else None) conns'"
          using Cons.IH [OF fetched_ok_add [OF Cons.prems None False], of "defs @ ?found" w1] unfolding loop dom by blast
        show ?thesis
          unfolding split first_backends_simps(2) b list.case insert_is_Un [symmetric]
          using IH w1(2) None
          by (intro exI [of _ res] exI [of _ w'] exI [of _ "?i # ids"]) (force split: sum.splits)
      qed
    qed
  qed
qed

section \<open>Properties\<close>

text \<open>
  C38: the storage classes of a tenant are resolved exactly. The lists come in strictly increasing order of
  the tiers, so no tier occurs twice. A tier is resolved to a class exactly when that is the tenant's only class
  of the tier, or the tenant has none and it is the only shared class; it is reported as ambiguous exactly when
  there are several candidates at the place that decides; and there is an error message unless something was
  resolved and nothing is ambiguous.
\<close>

theorem tenant_storage_classes_exact:
  assumes "L (osacTenantKey, tenant) w = Some (Inr own, w1)"
    and "L (osacTenantKey, defaultStorageClassSentinel) w1 = Some (Inr shared, w2)"
  shows "\<exists>res. getTenantStorageClasses L tenant w = Some (Inr res, w2) \<and>
     sorted_wrt (<) (map rsc_Tier (resolved res)) \<and> sorted_wrt (<) (ambiguousTiers res) \<and>
     (\<forall>n t. \<lparr>rsc_Name = n, rsc_Tier = t\<rparr> \<in> set (resolved res) \<longleftrightarrow>
        served_by (classes_of_tier own t) (classes_of_tier shared t) = Some n) \<and>
     (\<forall>t. t \<in> set (ambiguousTiers res) \<longleftrightarrow> ambiguous_tier (classes_of_tier own t) (classes_of_tier shared t)) \<and>
     length (duplicateMessages res) = length (ambiguousTiers res) \<and>
     (errorMessages res = [] \<longleftrightarrow> resolved res \<noteq> [] \<and> ambiguousTiers res = [])"
proof -
  let ?own = "classes_of_tier own" and ?shared = "classes_of_tier shared"
  let ?tiers = "sort (remdups (map fst (groupByTier own) @ map fst (groupByTier shared)))"
  let ?loop = "tier_loop (groupByTier own) (groupByTier shared) ?tiers empty_result"
  let ?res = "resolve_all tenant (groupByTier own) (groupByTier shared)"
  have run: "getTenantStorageClasses L tenant w = Some (Inr ?res, w2)"
    using assms by (simp add: getTenantStorageClasses_def go_simps)
  have groups: "group_of (groupByTier own) = ?own" "group_of (groupByTier shared) = ?shared"
    by (simp_all add: fun_eq_iff groupByTier_spec(1))
  have keys: "set ?tiers = {t. ?own t \<noteq> [] \<or> ?shared t \<noteq> []}"
    using groupByTier_spec(2) [of own] groupByTier_spec(2) [of shared] by auto
  have order: "sorted_wrt (<) ?tiers" by (simp add: strict_sorted_iff)
  note loop = tier_loop_spec [of "groupByTier own" "groupByTier shared" ?tiers empty_result,
      unfolded Let_def groups empty_result_def tierResolutionResult.simps append_Nil, folded empty_result_def]
  have res: "resolved ?res = served_tiers ?own ?shared ?tiers"
    "ambiguousTiers ?res = filter (\<lambda>t. ambiguous_tier (?own t) (?shared t)) ?tiers"
    "length (duplicateMessages ?res) = length (ambiguousTiers ?res)"
    "errorMessages ?res = [] \<longleftrightarrow> resolved ?res \<noteq> [] \<and> ambiguousTiers ?res = []"
    using loop by (auto simp: resolve_all_def Let_def)
  have known: "t \<in> set ?tiers" if "served_by (?own t) (?shared t) = Some n \<or> ambiguous_tier (?own t) (?shared t)" for t n
    using that unfolding keys by (auto simp: served_by_def ambiguous_tier_def)
  show ?thesis
    using known
    by (intro exI [of _ ?res]) (auto simp: run res map_tier_served served_iff sorted_wrt_filter order simp del: set_sort)
qed

text \<open>A tenant with a fast class of its own and two shared slow ones.\<close>

definition sample_own :: "StorageClass list" where
  "sample_own = [\<lparr>sc_Name = ''t1'', sc_Labels = [osacStorageTierLabel \<mapsto> ''Fast'']\<rparr>]"

definition sample_shared :: "StorageClass list" where
  "sample_shared =
     [\<lparr>sc_Name = ''d1'', sc_Labels = [osacStorageTierLabel \<mapsto> ''slow'']\<rparr>,
      \<lparr>sc_Name = ''d2'', sc_Labels = [osacStorageTierLabel \<mapsto> ''Slow'']\<rparr>,
      \<lparr>sc_Name = ''d3'', sc_Labels = [osacStorageTierLabel \<mapsto> ''fast'']\<rparr>]"

definition sample_classes :: "unit class_lister" where
  "sample_classes sel = ret (Inr (if snd sel = ''Default'' then sample_shared else sample_own))"

lemma sample_tiers:
  "served_by (classes_of_tier sample_own ''fast'') (classes_of_tier sample_shared ''fast'') = Some ''t1''"
  "ambiguous_tier (classes_of_tier sample_own ''slow'') (classes_of_tier sample_shared ''slow'')"
  by code_simp+

theorem tenant_storage_classes_exact_witness:
  "\<exists>res. getTenantStorageClasses sample_classes ''acme'' () = Some (Inr res, ()) \<and>
     \<lparr>rsc_Name = ''t1'', rsc_Tier = ''fast''\<rparr> \<in> set (resolved res) \<and> ''slow'' \<in> set (ambiguousTiers res) \<and>
     errorMessages res \<noteq> []"
proof -
  have lists: "sample_classes (osacTenantKey, ''acme'') () = Some (Inr sample_own, ())"
    "sample_classes (osacTenantKey, defaultStorageClassSentinel) () = Some (Inr sample_shared, ())"
    by (simp_all add: sample_classes_def ret_def defaultStorageClassSentinel_def)
  from tenant_storage_classes_exact [where L = sample_classes, OF lists] sample_tiers show ?thesis by auto
qed

text \<open>
  C39: resolving the tier definitions asks for each backend at most once, and only for the first backend of a
  tier. When the backends answer according to \<open>ans\<close>, the resolution fails exactly if one of these answers is an
  error other than not found; otherwise it gives, in the order of the tiers, the definition of every tier whose
  first backend exists, and the connections of exactly these backends, each once.
\<close>

theorem tier_definitions_exact:
  assumes "L tierListLimit w = Some (Inr tiers, w1)"
    and "\<And>i w. \<exists>w'. sb_Get client i w = Some (ans i, w') \<and> calls w' = calls w @ [i]"
  shows "\<exists>res w' ids. resolveTierDefinitions L client w = Some (res, w') \<and>
     calls w' = calls w1 @ ids \<and> distinct ids \<and> set ids \<subseteq> first_backends tiers \<and>
     (case res of
        Inl e \<Rightarrow> \<exists>i \<in> first_backends tiers. fatal (sb_status_Code client) (ans i)
      | Inr (defs, conns) \<Rightarrow>
          (\<forall>i \<in> first_backends tiers. \<not> fatal (sb_status_Code client) (ans i)) \<and>
          defs = List.map_filter (tier_found ans) tiers \<and> distinct (map fst conns) \<and>
          (\<forall>i. map_of conns i = (if i \<in> first_backends tiers then connection_of (ans i) else None)))"
proof -
  have "fetched_ok (sb_status_Code client) ans Map.empty []" by (simp add: fetched_ok_def)
  from definition_loop_spec [OF assms(2) this, of tiers "[]" w1, unfolded dom_empty Diff_empty Un_empty_right append_Nil]
  obtain res w' ids where run: "definition_loop client tiers Map.empty [] [] w1 = Some (res, w')"
    "calls w' = calls w1 @ ids" "distinct ids" "set ids \<subseteq> first_backends tiers"
    and post: "case res of
        Inl e \<Rightarrow> \<exists>i \<in> first_backends tiers. fatal (sb_status_Code client) (ans i)
      | Inr (defs', conns') \<Rightarrow> defs' = List.map_filter (tier_found ans) tiers \<and>
          fetched_ok (sb_status_Code client) ans (\<lambda>i. if i \<in> first_backends tiers then Some (provider_of (ans i)) else None) conns'"
    by blast
  have "case res of
        Inl e \<Rightarrow> \<exists>i \<in> first_backends tiers. fatal (sb_status_Code client) (ans i)
      | Inr (defs, conns) \<Rightarrow>
          (\<forall>i \<in> first_backends tiers. \<not> fatal (sb_status_Code client) (ans i)) \<and>
          defs = List.map_filter (tier_found ans) tiers \<and> distinct (map fst conns) \<and>
          (\<forall>i. map_of conns i = (if i \<in> first_backends tiers then connection_of (ans i) else None))"
    using post by (auto simp: fetched_ok_def dom_def split: sum.splits if_splits)
  with run show ?thesis
    by (intro exI [of _ res] exI [of _ w'] exI [of _ ids]) (simp add: resolveTierDefinitions_def go_simps assms(1))
qed

text \<open>Two tiers on one backend, and one on a backend that does not exist; the world is the list of calls.\<close>

definition sample_tier :: "string \<Rightarrow> string \<Rightarrow> StorageTier" where
  "sample_tier n i = \<lparr>st_Name = n, st_Backends = [\<lparr>stb_BackendId = i, stb_Protocol = STORAGE_PROTOCOL_NFS,
     stb_MaxReadBandwidthMbs = 1, stb_MaxWriteBandwidthMbs = 1, stb_QuotaGib = 1\<rparr>]\<rparr>"

definition sample_answer :: "string \<Rightarrow> gerror + StorageBackendSpec" where
  "sample_answer i =
     (if i = ''b1'' then Inr \<lparr>sbs_Provider = ''vast'', sbs_Endpoint = ''e'', sbs_Username = ''u'', sbs_Password = ''p''\<rparr>
      else Inl (GRPCStatusError 5 ''not found''))"

definition sample_backends :: "string list StorageBackendsClient" where
  "sample_backends = \<lparr>sb_List_Total = (\<lambda>limit. ret (Inr 1)), sb_Get = (\<lambda>i log. Some (sample_answer i, log @ [i])),
     sb_status_Code = (\<lambda>e. case e of GRPCStatusError c m \<Rightarrow> c | _ \<Rightarrow> 2)\<rparr>"

definition sample_tier_list :: "StorageTier list" where
  "sample_tier_list = [sample_tier ''fast'' ''b1'', sample_tier ''slow'' ''b1'', sample_tier ''lost'' ''b2'']"

theorem tier_definitions_exact_witness:
  "\<exists>defs conns log. resolveTierDefinitions (\<lambda>limit. ret (Inr sample_tier_list)) sample_backends [] = Some (Inr (defs, conns), log) \<and>
     map td_Name defs = [''fast'', ''slow''] \<and> map_of conns ''b2'' = None \<and> distinct log"
proof -
  obtain res w' ids where run: "resolveTierDefinitions (\<lambda>limit. ret (Inr sample_tier_list)) sample_backends [] = Some (res, w')"
    "w' = [] @ ids" "distinct ids"
    "case res of
        Inl e \<Rightarrow> \<exists>i \<in> first_backends sample_tier_list. fatal (sb_status_Code sample_backends) (sample_answer i)
      | Inr (defs, conns) \<Rightarrow>
          (\<forall>i \<in> first_backends sample_tier_list. \<not> fatal (sb_status_Code sample_backends) (sample_answer i)) \<and>
          defs = List.map_filter (tier_found sample_answer) sample_tier_list \<and> distinct (map fst conns) \<and>
          (\<forall>i. map_of conns i = (if i \<in> first_backends sample_tier_list then connection_of (sample_answer i) else None))"
    using tier_definitions_exact [of "\<lambda>limit. ret (Inr sample_tier_list)" "[]" sample_tier_list "[]" sample_backends sample_answer "\<lambda>w. w"]
    by (auto simp: ret_def sample_backends_def)
  have "\<not> fatal (sb_status_Code sample_backends) (sample_answer i)" for i
    by (simp add: fatal_def sample_answer_def sample_backends_def)
  moreover have "map td_Name (List.map_filter (tier_found sample_answer) sample_tier_list) = [''fast'', ''slow'']"
    by (simp add: sample_tier_list_def sample_tier_def tier_found_def sample_answer_def tier_definition_def map_filter_simps)
  moreover have "connection_of (sample_answer ''b2'') = None" by (simp add: connection_of_def sample_answer_def)
  ultimately show ?thesis using run by (cases res) auto
qed

text \<open>
  The tiers reported as missing are exactly the defined tiers that, in lower case, are neither resolved nor
  ambiguous, in sorted order and as often as they are defined; each of them leads to one warning event and
  to one part of the condition's message, and without missing tiers the message stays as it is.
\<close>

theorem missing_tiers_exact:
  "sorted (missingTierNames defined res amb) \<and>
   (\<forall>n. count_list (missingTierNames defined res amb) n =
      (if ToLower n \<in> rsc_Tier ` set res \<union> set amb then 0 else count_list (map td_Name defined) n)) \<and>
   map_option fst (appendMissingTierWarnings (\<lambda>reason action msg log. Some ((), log @ [msg])) defined res amb condMsg []) =
     Some (if missingTierNames defined res amb = [] then condMsg
       else join_with ''; '' ((if condMsg = '''' then [] else [condMsg]) @
         map (\<lambda>n. sprintf ''tier %q has no StorageClass'' [n]) (missingTierNames defined res amb))) \<and>
   map_option snd (appendMissingTierWarnings (\<lambda>reason action msg log. Some ((), log @ [msg])) defined res amb condMsg []) =
     Some (map (\<lambda>n. sprintf ''tier %q has no StorageClass'' [n]) (missingTierNames defined res amb))"
proof -
  have log: "record_events (\<lambda>reason action msg log. Some ((), log @ [msg])) reason action msgs l = Some ((), l @ msgs)"
    for reason action msgs and l :: "string list"
    by (induction msgs arbitrary: l) (simp_all add: go_simps)
  have "count_list (missingTierNames defined res amb) n =
      (if ToLower n \<in> rsc_Tier ` set res \<union> set amb then 0 else count_list (map td_Name defined) n)" for n
  proof -
    have "count_list (map td_Name (filter (\<lambda>t. ToLower (td_Name t) \<notin> S) ts)) n =
        (if ToLower n \<in> S then 0 else count_list (map td_Name ts) n)" for S ts
      by (induction ts) auto
    note counted = this
    have "count_list (sort xs) n = count_list xs n" for xs :: "string list"
      by (simp flip: count_mset)
    then show ?thesis
      by (simp only: missingTierNames_def Let_def counted) simp
  qed
  moreover have "sorted (missingTierNames defined res amb)" by (simp add: missingTierNames_def Let_def)
  moreover have "join_with ''; '' (condMsg # msgs) = condMsg @ ''; '' @ join_with ''; '' msgs" if "msgs \<noteq> []" for msgs
    using that by (cases msgs) simp_all
  ultimately show ?thesis
    by (simp add: appendMissingTierWarnings_def Let_def log go_simps)
qed

end
