(* ===== verification/Tenants.thy ===== *)
theory Tenants
  imports Storage_Tiers
begin

text \<open>
  Tenants: the resource (\<^verbatim>\<open>api/v1alpha1/tenant_types.go\<close>, \<^verbatim>\<open>tenant_conditions.go\<close>) and its controller
  (\<^verbatim>\<open>internal/controller/tenant_controller.go\<close>), which mirrors whether the tenant's namespace exists on the target
  cluster. The storage of a tenant is the business of the storage controller.
\<close>

section \<open>The resource\<close>

type_synonym TenantSpec = unit

record StorageBackendStatus =
  sbst_Name :: string
  sbst_Provider :: string
  sbst_Ready :: bool
  sbst_Message :: string

record ClusterStorageStatus =
  css_ClusterName :: string
  css_Ready :: bool
  css_Reason :: string

record TenantStatus =
  ten_Phase :: Phase
  ten_Namespace :: string
  ten_StorageClasses :: "ResolvedStorageClass list"
  ten_Conditions :: "Condition list"
  ten_ProvisioningJobs :: "JobStatus list"
  ten_StorageBackendJobs :: "JobStatus list"
  ten_ClusterStorageJobs :: "JobStatus list"
  ten_StorageBackends :: "StorageBackendStatus list"
  ten_ClusterStorage :: "ClusterStorageStatus list"

type_synonym Tenant = "(TenantSpec, TenantStatus) resource"

datatype TenantConditionType = TenantConditionNamespaceReady | TenantConditionStorageBackendReady | TenantConditionClusterStorageReady

definition TenantConditionType_String :: "TenantConditionType \<Rightarrow> string" where
  "TenantConditionType_String c =
     (case c of
        TenantConditionNamespaceReady \<Rightarrow> ''NamespaceReady''
      | TenantConditionStorageBackendReady \<Rightarrow> ''StorageBackendReady''
      | TenantConditionClusterStorageReady \<Rightarrow> ''ClusterStorageReady'')"

definition Tenant_SetStatusCondition ::
  "'w k8s \<Rightarrow> instant \<Rightarrow> TenantConditionType \<Rightarrow> string \<Rightarrow> string \<Rightarrow> string \<Rightarrow> Tenant \<Rightarrow> Tenant"
where
  "Tenant_SetStatusCondition lib t conditionType status reason message =
     map_status (\<lambda>st. st\<lparr>ten_Conditions := SetStatusCondition lib t (ten_Conditions st)
       \<lparr>cond_Type = TenantConditionType_String conditionType, cond_Status = status, cond_Reason = reason,
        cond_Message = message, cond_LastTransitionTime = None\<rparr>\<rparr>)"

text \<open>The condition is stamped by the library with the current time.\<close>

definition set_tenant_condition ::
  "'w k8s \<Rightarrow> TenantConditionType \<Rightarrow> string \<Rightarrow> string \<Rightarrow> string \<Rightarrow> (Tenant \<times> 'w, unit) go"
where
  "set_tenant_condition lib conditionType status reason message =
     bnd (read_clock (k8s_now lib)) (\<lambda>t.
     mod_res (Tenant_SetStatusCondition lib t conditionType status reason message))"

definition set_tenant_phase :: "Phase \<Rightarrow> Tenant \<Rightarrow> Tenant" where
  "set_tenant_phase p = map_status (\<lambda>st. st\<lparr>ten_Phase := p\<rparr>)"

definition set_tenant_namespace :: "string \<Rightarrow> Tenant \<Rightarrow> Tenant" where
  "set_tenant_namespace n = map_status (\<lambda>st. st\<lparr>ten_Namespace := n\<rparr>)"

section \<open>The controller\<close>

text \<open>The client of the target cluster reads a namespace by its name and gives the name back.\<close>

type_synonym 'w namespace_client = "string \<Rightarrow> ('w, gerror + string) go"

record 'w TenantReconciler =
  tr_Lib :: "'w k8s"
  tr_Client :: "(TenantSpec, TenantStatus, 'w) kclient"
  tr_tenantNamespace :: string
  tr_GetCluster :: "('w, gerror + 'w namespace_client) go"

definition tenantFinalizer :: string where
  "tenantFinalizer = ''osac.openshift.io/tenant''"

definition osacTenantRefLabel :: string where
  "osacTenantRefLabel = ''osac.openshift.io/tenant-ref''"

definition osacProjectRefLabel :: string where
  "osacProjectRefLabel = ''osac.openshift.io/project''"

definition NewTenantReconciler ::
  "('w k8s \<times> (TenantSpec, TenantStatus, 'w) kclient \<times> ('w, gerror + 'w namespace_client) go) option \<Rightarrow> string \<Rightarrow>
   'w TenantReconciler option"
where
  "NewTenantReconciler mgr tenantNamespace =
     (case mgr of
        None \<Rightarrow> None
      | Some (lib, client, cluster) \<Rightarrow>
          Some \<lparr>tr_Lib = lib, tr_Client = client, tr_tenantNamespace = tenantNamespace, tr_GetCluster = cluster\<rparr>)"

definition tenantNamespacePredicate :: "string \<Rightarrow> ('sp, 'st) resource \<Rightarrow> bool" where
  "tenantNamespacePredicate namespace obj \<longleftrightarrow> Namespace (Meta obj) = namespace"

text \<open>\<^verbatim>\<open>tenantLabelSelector\<close>: the tenant label exists and the project label has the project as value.\<close>

definition tenantLabelSelector :: "string \<Rightarrow> (string \<rightharpoonup> string) \<Rightarrow> bool" where
  "tenantLabelSelector project ls \<longleftrightarrow>
     ls osacTenantRefLabel \<noteq> None \<and> ls osacProjectRefLabel = Some project"

definition storageClassTenantPredicate :: "(string \<rightharpoonup> string) \<Rightarrow> bool" where
  "storageClassTenantPredicate ls \<longleftrightarrow> ls osacTenantKey \<noteq> None"

text \<open>\<^verbatim>\<open>r.Update(ctx, instance)\<close>: the server's answer replaces the object in memory.\<close>

definition write_object ::
  "('sp, 'st, 'w) kclient \<Rightarrow> (('sp, 'st) resource \<times> 'w, gerror option) go"
where
  "write_object client =
     bnd get_res (\<lambda>obj.
     bnd (on_world (Update client obj)) (\<lambda>res.
       case res of
         Inl err \<Rightarrow> ret (Some err)
       | Inr obj' \<Rightarrow> bnd (put_res obj') (\<lambda>_. ret None)))"

text \<open>The finalizer is added and the object written unless it is there.\<close>

definition ensure_finalizer ::
  "'w k8s \<Rightarrow> ('sp, 'st, 'w) kclient \<Rightarrow> string \<Rightarrow> (('sp, 'st) resource \<times> 'w, gerror option) go"
where
  "ensure_finalizer lib client finalizer =
     bnd get_res (\<lambda>obj.
       if \<not> ContainsFinalizer lib (Finalizers (Meta obj)) finalizer then
         bnd (put_res (set_finalizers (fst (AddFinalizer lib (Finalizers (Meta obj)) finalizer)) obj)) (\<lambda>_.
         write_object client)
       else ret None)"

definition Tenant_handleUpdate :: "'w TenantReconciler \<Rightarrow> (Tenant \<times> 'w, outcome) go" where
  "Tenant_handleUpdate r =
     bnd (ensure_finalizer (tr_Lib r) (tr_Client r) tenantFinalizer) (\<lambda>e.
       case e of
         Some err \<Rightarrow> ret (no_requeue, Some err)
       | None \<Rightarrow>
           bnd (mod_res (set_tenant_phase PhaseProgressing)) (\<lambda>_.
           bnd (mod_res (set_tenant_namespace '''')) (\<lambda>_.
           bnd (on_world (getTargetClient (tr_GetCluster r))) (\<lambda>cluster.
             case cluster of
               Inl err \<Rightarrow> ret (no_requeue, Some err)
             | Inr targetClient \<Rightarrow>
                 bnd get_res (\<lambda>instance.
                 bnd (on_world (targetClient (Name (Meta instance)))) (\<lambda>found.
                   case found of
                     Inl err \<Rightarrow>
                       bnd (set_tenant_condition (tr_Lib r) TenantConditionNamespaceReady ''False'' ''NotFound''
                              (sprintf ''Namespace %q not found on target cluster'' [Name (Meta instance)])) (\<lambda>_.
                       ret (no_requeue, Some err))
                   | Inr namespaceName \<Rightarrow>
                       bnd (set_tenant_condition (tr_Lib r) TenantConditionNamespaceReady ''True'' ''Found''
                              (sprintf ''Namespace %q found on target cluster'' [Name (Meta instance)])) (\<lambda>_.
                       bnd (mod_res (set_tenant_namespace namespaceName)) (\<lambda>_.
                       bnd (mod_res (set_tenant_phase PhaseReady)) (\<lambda>_.
                       ret (no_requeue, None)))))))))) "

definition Tenant_handleDelete :: "'w TenantReconciler \<Rightarrow> (Tenant \<times> 'w, outcome) go" where
  "Tenant_handleDelete r =
     bnd get_res (\<lambda>instance.
       if \<not> ContainsFinalizer (tr_Lib r) (Finalizers (Meta instance)) tenantFinalizer then ret (no_requeue, None)
       else
         bnd (mod_res (set_tenant_phase PhaseDeleting)) (\<lambda>_.
         bnd (mod_res (\<lambda>obj. set_finalizers (fst (RemoveFinalizer (tr_Lib r) (Finalizers (Meta obj)) tenantFinalizer)) obj)) (\<lambda>_.
         bnd (write_object (tr_Client r)) (\<lambda>e. ret (no_requeue, e)))))"

definition Tenant_Reconcile :: "'w TenantReconciler \<Rightarrow> ObjectKey \<Rightarrow> ('w, outcome) go" where
  "Tenant_Reconcile r key =
     bnd (Get (tr_Client r) key) (\<lambda>got.
       case got of
         Inl err \<Rightarrow> ret (no_requeue, IgnoreNotFound (tr_Lib r) err)
       | Inr obj \<Rightarrow>
           bnd (with_object obj
                  (if DeletionTimestamp (Meta obj) = None then Tenant_handleUpdate r else Tenant_handleDelete r))
             (\<lambda>((res, err), obj').
                if \<not> DeepEqual (tr_Client r) (Status obj') (Status obj) then
                  bnd (Status_Update (tr_Client r) obj') (\<lambda>updateErr.
                    case updateErr of
                      Some e \<Rightarrow> ret (no_requeue, Some e)
                    | None \<Rightarrow> ret (res, err))
                else ret (res, err)))"

text \<open>Watched namespaces and networks are mapped to the tenant they name in a label.\<close>

definition mapObjectToTenant :: "'w TenantReconciler \<Rightarrow> (string \<rightharpoonup> string) \<Rightarrow> ('w, ObjectKey list) go" where
  "mapObjectToTenant r ls =
     (case ls osacTenantRefLabel of
        None \<Rightarrow> ret []
      | Some tenantName \<Rightarrow>
          bnd (Get (tr_Client r) (tr_tenantNamespace r, tenantName)) (\<lambda>res.
            case res of
              Inl err \<Rightarrow> ret []
            | Inr tenant \<Rightarrow> ret [ObjectKeyFromObject tenant]))"

section \<open>What the phase says\<close>

text \<open>The condition that records whether the namespace was found.\<close>

definition namespace_condition :: "'w TenantReconciler \<Rightarrow> instant \<Rightarrow> bool \<Rightarrow> Tenant \<Rightarrow> Tenant" where
  "namespace_condition r t found tenant =
     Tenant_SetStatusCondition (tr_Lib r) t TenantConditionNamespaceReady (if found then ''True'' else ''False'')
       (if found then ''Found'' else ''NotFound'')
       (sprintf (if found then ''Namespace %q found on target cluster'' else ''Namespace %q not found on target cluster'')
          [Name (Meta tenant)]) tenant"

lemma set_tenant_simps [simp]:
  "Meta (set_tenant_phase p t) = Meta t" "Meta (set_tenant_namespace n t) = Meta t"
  by (simp_all add: set_tenant_phase_def set_tenant_namespace_def map_status_def)

text \<open>
  The phase of a tenant says whether its namespace was found on the target cluster. A tenant that carries the
  finalizer ends up, when the namespace is found, in phase Ready with the namespace and the condition true, and when it
  is not, in phase Progressing with no namespace, the condition false and the error returned; when the cluster cannot
  be reached, in phase Progressing with no namespace. No requeue is asked for, nothing is written by the handler.
\<close>

theorem tenant_phase_mirrors_namespace:
  assumes "ContainsFinalizer (tr_Lib r) (Finalizers (Meta t)) tenantFinalizer"
    and "tr_GetCluster r w = Some (cluster, w1)"
    and "\<And>client. cluster = Inr client \<Longrightarrow> client (Name (Meta t)) w1 = Some (found, w2)"
    and "waiting = set_tenant_namespace '''' (set_tenant_phase PhaseProgressing t)"
  shows "Tenant_handleUpdate r (t, w) =
     (case cluster of
        Inl err \<Rightarrow> Some ((no_requeue, Some err), (waiting, w1))
      | Inr _ \<Rightarrow>
          (case found of
             Inl err \<Rightarrow>
               Some ((no_requeue, Some err), (namespace_condition r (k8s_now (tr_Lib r) w2) False waiting, w2))
           | Inr n \<Rightarrow>
               Some ((no_requeue, None),
                 (set_tenant_phase PhaseReady (set_tenant_namespace n
                    (namespace_condition r (k8s_now (tr_Lib r) w2) True waiting)), w2))))"
  using assms
  by (auto simp: Tenant_handleUpdate_def ensure_finalizer_def getTargetClient_def set_tenant_condition_def
      namespace_condition_def read_clock_def go_simps split: sum.splits)

definition sample_tenant :: Tenant where
  "sample_tenant =
     \<lparr>Meta = \<lparr>Name = ''acme'', Namespace = ''tenants'', Labels = Map.empty, Annotations = Map.empty,
        Finalizers = [tenantFinalizer], DeletionTimestamp = None\<rparr>,
      Spec = (),
      Status = \<lparr>ten_Phase = PhaseUnset, ten_Namespace = '''', ten_StorageClasses = [], ten_Conditions = [],
        ten_ProvisioningJobs = [], ten_StorageBackendJobs = [], ten_ClusterStorageJobs = [],
        ten_StorageBackends = [], ten_ClusterStorage = []\<rparr>\<rparr>"

definition sample_tenants :: "bool \<Rightarrow> unit TenantReconciler" where
  "sample_tenants exists =
     \<lparr>tr_Lib = sample_lib (\<lambda>_. 0),
      tr_Client = \<lparr>Get = (\<lambda>key. ret (Inr sample_tenant)), APIReader_Get = (\<lambda>key. ret (Inr sample_tenant)),
        Update = (\<lambda>t. ret (Inr t)), Status_Update = (\<lambda>t. ret None), DeepEqual = (=)\<rparr>,
      tr_tenantNamespace = ''tenants'',
      tr_GetCluster = ret (Inr (\<lambda>n. ret (if exists then Inr n else Inl (APIStatusError ''NotFound'' ''''))))\<rparr>"

theorem tenant_phase_mirrors_namespace_witness:
  "(\<exists>t'. Tenant_handleUpdate (sample_tenants True) (sample_tenant, ()) = Some ((no_requeue, None), (t', ())) \<and>
      ten_Phase (Status t') = PhaseReady \<and> ten_Namespace (Status t') = ''acme'') \<and>
   (\<exists>t' err. Tenant_handleUpdate (sample_tenants False) (sample_tenant, ()) = Some ((no_requeue, Some err), (t', ())) \<and>
      ten_Phase (Status t') = PhaseProgressing \<and> ten_Namespace (Status t') = '''')"
proof -
  have fin: "ContainsFinalizer (tr_Lib (sample_tenants e)) (Finalizers (Meta sample_tenant)) tenantFinalizer" for e
    by (simp add: sample_tenants_def sample_lib_def sample_tenant_def)
  have run: "Tenant_handleUpdate (sample_tenants e) (sample_tenant, ()) =
     (case (if e then Inr ''acme'' else Inl (APIStatusError ''NotFound'' '''')) of
        Inl err \<Rightarrow> Some ((no_requeue, Some err), (namespace_condition (sample_tenants e) 0 False
          (set_tenant_namespace '''' (set_tenant_phase PhaseProgressing sample_tenant)), ()))
      | Inr n \<Rightarrow> Some ((no_requeue, None), (set_tenant_phase PhaseReady (set_tenant_namespace n
          (namespace_condition (sample_tenants e) 0 True
            (set_tenant_namespace '''' (set_tenant_phase PhaseProgressing sample_tenant)))), ())))" for e
    by (subst tenant_phase_mirrors_namespace [OF fin, where w = "()" and ?w1.0 = "()" and ?w2.0 = "()"
          and cluster = "Inr (\<lambda>n. ret (if e then Inr n else Inl (APIStatusError ''NotFound'' '''')))"
          and found = "if e then Inr ''acme'' else Inl (APIStatusError ''NotFound'' '''')", OF _ _ refl])
      (simp_all add: sample_tenants_def sample_lib_def sample_tenant_def go_simps)
  show ?thesis
    unfolding run
    by (simp add: namespace_condition_def Tenant_SetStatusCondition_def set_tenant_phase_def set_tenant_namespace_def
        map_status_def sample_tenant_def)
qed

end
