(* ===== verification/Storage_Controller.thy ===== *)
theory Storage_Controller
  imports Tenants Cluster_Types
begin

text \<open>
  The storage controller (\<^verbatim>\<open>internal/controller/storage_controller.go\<close>). It works on Tenants: in a first stage it
  provisions the storage backend of a tenant (a Secret on the hub), in a second one the StorageClasses on the
  target cluster, in a third one the storage of the clusters the tenant has ordered; deletion undoes them in the
  opposite order. A handler's state is the tenant in memory and the world; a cluster order is worked on inside, by
  \<open>with_object\<close>. The Kubernetes clients, the client made from a kubeconfig, the event recorder and the
  environment variable are parameters.
\<close>

section \<open>The reconciler\<close>

text \<open>One provider serves tenants and cluster orders; the context carries what the jobs need besides.\<close>

record 'w storage_provider =
  for_tenant :: "Ctx \<Rightarrow> (Tenant, 'w) ProvisioningProvider"
  for_order :: "Ctx \<Rightarrow> (ClusterOrder, 'w) ProvisioningProvider"

record KubeconfigSecretRef =
  kc_Name :: string
  kc_Key :: string

record 'w StorageReconciler =
  sr_Lib :: "'w k8s"
  sr_Client :: "(TenantSpec, TenantStatus, 'w) kclient"
  sr_Status_Patch :: "Tenant \<Rightarrow> Tenant \<Rightarrow> ('w, gerror option) go"
  sr_List_Tenants :: "string \<Rightarrow> ('w, gerror + Tenant list) go"
  sr_Orders :: "(ClusterOrderSpec, ClusterOrderStatus, 'w) kclient"
  sr_Order_Status_Patch :: "ClusterOrder \<Rightarrow> ClusterOrder \<Rightarrow> ('w, gerror option) go"
  sr_List_ClusterOrders :: "('w, gerror + ClusterOrder list) go"
  sr_List_Secrets :: "string \<Rightarrow> string \<times> string \<Rightarrow> ('w, gerror + string list) go"
  sr_Get_HostedControlPlane :: "ObjectKey \<Rightarrow> ('w, gerror + KubeconfigSecretRef option) go"
  sr_Get_Secret_Data :: "ObjectKey \<Rightarrow> ('w, gerror + (string \<rightharpoonup> string)) go"
  sr_RESTConfigFromKubeConfig :: "string \<Rightarrow> gerror + string"
  sr_client_New :: "string \<Rightarrow> ('w, gerror + 'w class_lister) go"
  sr_GetCluster :: "('w, gerror + 'w class_lister) go"
  sr_Eventf :: "string \<Rightarrow> ObjectKey \<Rightarrow> string \<Rightarrow> 'w event_recorder"
  sr_env_config_namespace :: string
  sr_tenantNamespace :: string
  sr_targetCluster :: string
  sr_BackendProvider :: "(Ctx \<Rightarrow> (Tenant, 'w) ProvisioningProvider) option"
  sr_ClusterStorageProvider :: "'w storage_provider option"
  sr_StatusPollInterval :: duration
  sr_MaxJobHistory :: int
  sr_BackendsClient :: "'w StorageBackendsClient option"
  sr_TiersClient :: "'w StorageTiersLister option"

definition storageFinalizer :: string where
  "storageFinalizer = ''osac.openshift.io/storage''"

definition clusterStorageFinalizer :: string where
  "clusterStorageFinalizer = ''osac.openshift.io/cluster-storage''"

text \<open>
  The constructor; \<open>base\<close> holds the clients the manager hands out (\<open>None\<close> for a nil manager). Only an interval
  of zero is replaced.
\<close>

definition NewStorageReconciler ::
  "'w StorageReconciler option \<Rightarrow> string \<Rightarrow> string \<Rightarrow> (Ctx \<Rightarrow> (Tenant, 'w) ProvisioningProvider) option \<Rightarrow>
   'w storage_provider option \<Rightarrow> duration \<Rightarrow> int \<Rightarrow> 'w StorageReconciler option"
where
  "NewStorageReconciler mgr tenantNamespace targetCluster backendProvider clusterStorageProvider statusPollInterval maxJobHistory =
     (case mgr of
        None \<Rightarrow> None
      | Some base \<Rightarrow>
          Some (base\<lparr>sr_tenantNamespace := tenantNamespace, sr_targetCluster := targetCluster,
            sr_BackendProvider := backendProvider, sr_ClusterStorageProvider := clusterStorageProvider,
            sr_StatusPollInterval := (if statusPollInterval = 0 then 30 * Second else statusPollInterval),
            sr_MaxJobHistory := default_history maxJobHistory,
            sr_BackendsClient := None, sr_TiersClient := None\<rparr>))"

definition backend_jobs :: "Tenant JobsRef" where
  "backend_jobs =
     \<lparr>Jobs_get = (\<lambda>obj. ten_StorageBackendJobs (Status obj)),
      Jobs_set = (\<lambda>js. map_status (\<lambda>st. st\<lparr>ten_StorageBackendJobs := js\<rparr>))\<rparr>"

definition class_jobs :: "Tenant JobsRef" where
  "class_jobs =
     \<lparr>Jobs_get = (\<lambda>obj. ten_ClusterStorageJobs (Status obj)),
      Jobs_set = (\<lambda>js. map_status (\<lambda>st. st\<lparr>ten_ClusterStorageJobs := js\<rparr>))\<rparr>"

section \<open>Status writes\<close>

definition patchTenantStorageStatus :: "'w StorageReconciler \<Rightarrow> ObjectKey \<Rightarrow> TenantStatus \<Rightarrow> ('w, gerror option) go" where
  "patchTenantStorageStatus r key computed =
     RetryOnConflict (sr_Lib r)
       (bnd (APIReader_Get (sr_Client r) key) (\<lambda>res.
          case res of
            Inl err \<Rightarrow> ret (Some err)
          | Inr latest \<Rightarrow>
              bnd (gets (k8s_now (sr_Lib r))) (\<lambda>t.
              sr_Status_Patch r latest (map_status (\<lambda>st. st
                \<lparr>ten_StorageClasses := ten_StorageClasses computed,
                 ten_ClusterStorage := ten_ClusterStorage computed,
                 ten_StorageBackendJobs := ten_StorageBackendJobs computed,
                 ten_ClusterStorageJobs := ten_ClusterStorageJobs computed,
                 ten_Conditions := merge_conditions (sr_Lib r) t (ten_Conditions computed) (ten_Conditions st)\<rparr>) latest))))"

text \<open>What the patch of a cluster order writes into the latest object; the fields of others stay.\<close>

definition merge_storage_status :: "'w k8s \<Rightarrow> instant \<Rightarrow> ClusterOrderStatus \<Rightarrow> ClusterOrder \<Rightarrow> ClusterOrder" where
  "merge_storage_status lib t computed =
     map_status (\<lambda>st. st
       \<lparr>ClusterStorageJobs := ClusterStorageJobs computed,
        Conditions := merge_conditions lib t (Conditions computed) (Conditions st)\<rparr>)"

definition patchClusterOrderStorageStatus ::
  "'w StorageReconciler \<Rightarrow> ObjectKey \<Rightarrow> ClusterOrderStatus \<Rightarrow> ('w, gerror option) go"
where
  "patchClusterOrderStorageStatus r key computed =
     RetryOnConflict (sr_Lib r)
       (bnd (APIReader_Get (sr_Orders r) key) (\<lambda>res.
          case res of
            Inl err \<Rightarrow> ret (Some err)
          | Inr latest \<Rightarrow>
              bnd (gets (k8s_now (sr_Lib r))) (\<lambda>t.
              sr_Order_Status_Patch r latest (merge_storage_status (sr_Lib r) t computed latest))))"

definition patch_order :: "'w StorageReconciler \<Rightarrow> (ClusterOrder \<times> 'w, gerror option) go" where
  "patch_order r =
     bnd get_res (\<lambda>co. on_world (patchClusterOrderStorageStatus r (ObjectKeyFromObject co) (Status co)))"

section \<open>Helpers\<close>

definition storageConfigNamespace :: "'w StorageReconciler \<Rightarrow> string" where
  "storageConfigNamespace r =
     (if sr_env_config_namespace r \<noteq> '''' then sr_env_config_namespace r else ''osac-system'')"

definition hubSecretExists :: "'w StorageReconciler \<Rightarrow> string \<Rightarrow> ('w, gerror + bool) go" where
  "hubSecretExists r tenantName =
     bnd (sr_List_Secrets r (storageConfigNamespace r) (osacTenantKey, tenantName)) (\<lambda>res.
       case res of
         Inl err \<Rightarrow> ret (Inl err)
       | Inr items \<Rightarrow> ret (Inr (length items > 0)))"

definition backendRegistered :: "'w StorageReconciler \<Rightarrow> ('w, gerror + bool) go" where
  "backendRegistered r =
     (case sr_BackendsClient r of
        None \<Rightarrow> ret (Inr False)
      | Some client \<Rightarrow>
          bnd (sb_List_Total client 1) (\<lambda>res.
            case res of
              Inl err \<Rightarrow> ret (Inl (Wrapf ''list storage backends: %w'' [] err))
            | Inr n \<Rightarrow> ret (Inr (n > 0))))"

definition getClusterKubeconfig :: "'w StorageReconciler \<Rightarrow> ClusterOrder \<Rightarrow> ('w, gerror + string option) go" where
  "getClusterKubeconfig r clusterOrder =
     (case ClusterReference (Status clusterOrder) of
        None \<Rightarrow> ret (Inr None)
      | Some ref \<Rightarrow>
          if ref_Namespace ref = '''' \<or> HostedClusterName ref = '''' then ret (Inr None)
          else
            (let hcpNamespace = ref_Namespace ref @ ''-'' @ HostedClusterName ref in
             bnd (sr_Get_HostedControlPlane r (hcpNamespace, HostedClusterName ref)) (\<lambda>res.
               case res of
                 Inl err \<Rightarrow>
                   if IgnoreNotFound (sr_Lib r) err \<noteq> None then
                     ret (Inl (Wrapf ''get HostedControlPlane %s/%s: %w'' [hcpNamespace, HostedClusterName ref] err))
                   else ret (Inr None)
               | Inr None \<Rightarrow> ret (Inr None)
               | Inr (Some kc) \<Rightarrow>
                   if kc_Name kc = '''' then ret (Inr None)
                   else
                     bnd (sr_Get_Secret_Data r (hcpNamespace, kc_Name kc)) (\<lambda>secret.
                       case secret of
                         Inl err \<Rightarrow>
                           if IgnoreNotFound (sr_Lib r) err \<noteq> None then
                             ret (Inl (Wrapf ''get kubeconfig Secret %s/%s: %w'' [hcpNamespace, kc_Name kc] err))
                           else ret (Inr None)
                       | Inr data \<Rightarrow>
                           (case data (kc_Key kc) of
                              None \<Rightarrow> ret (Inr None)
                            | Some kubeconfig \<Rightarrow>
                                if kubeconfig = '''' then ret (Inr None) else ret (Inr (Some kubeconfig)))))))"

definition buildClientFromKubeconfig :: "'w StorageReconciler \<Rightarrow> string \<Rightarrow> ('w, gerror + 'w class_lister) go" where
  "buildClientFromKubeconfig r kubeconfig =
     (case sr_RESTConfigFromKubeConfig r kubeconfig of
        Inl err \<Rightarrow> ret (Inl (Wrapf ''parse kubeconfig: %w'' [] err))
      | Inr restConfig \<Rightarrow>
          bnd (sr_client_New r restConfig) (\<lambda>res.
            case res of
              Inl err \<Rightarrow> ret (Inl (Wrapf ''create client: %w'' [] err))
            | Inr c \<Rightarrow> ret (Inr c)))"

text \<open>The classes of the tenant alone, and the message that lists them.\<close>

record tenantSpecificStorageClasses =
  ts_resolved :: "ResolvedStorageClass list"
  ts_duplicateMessages :: "string list"
  ts_ambiguousTiers :: "string list"

fun specific_loop ::
  "(string \<times> StorageClass list) list \<Rightarrow> string list \<Rightarrow> tenantSpecificStorageClasses \<Rightarrow> tenantSpecificStorageClasses"
where
  "specific_loop byTier [] result = result"
| "specific_loop byTier (tier # tiers) result =
     specific_loop byTier tiers
       (case group_of byTier tier of
          [sc] \<Rightarrow> result\<lparr>ts_resolved := ts_resolved result @ [\<lparr>rsc_Name = sc_Name sc, rsc_Tier = tier\<rparr>]\<rparr>
        | scs \<Rightarrow> result
            \<lparr>ts_duplicateMessages := ts_duplicateMessages result @
               [sprintf ''tier %q: multiple tenant StorageClasses [%s]'' [tier, joinStorageClassNames scs]],
             ts_ambiguousTiers := ts_ambiguousTiers result @ [tier]\<rparr>)"

definition resolveTenantSpecificStorageClasses ::
  "'w class_lister \<Rightarrow> string \<Rightarrow> ('w, gerror + tenantSpecificStorageClasses) go"
where
  "resolveTenantSpecificStorageClasses targetClient_List tenantName =
     bnd (targetClient_List (osacTenantKey, tenantName)) (\<lambda>res.
       case res of
         Inl err \<Rightarrow> ret (Inl err)
       | Inr scList \<Rightarrow>
           (let byTier = groupByTier scList in
            ret (Inr (specific_loop byTier (sort (map fst byTier))
              \<lparr>ts_resolved = [], ts_duplicateMessages = [], ts_ambiguousTiers = []\<rparr>))))"

definition formatResolvedStorageClasses :: "ResolvedStorageClass list \<Rightarrow> string" where
  "formatResolvedStorageClasses classes =
     join_with ''; '' (map (\<lambda>sc. sprintf ''tier %q: StorageClass %q (tenant-specific)'' [rsc_Tier sc, rsc_Name sc]) classes)"

definition tenant_eventf :: "'w StorageReconciler \<Rightarrow> Tenant \<Rightarrow> 'w event_recorder" where
  "tenant_eventf r instance = sr_Eventf r ''Tenant'' (ObjectKeyFromObject instance) ''Warning''"

text \<open>The warnings about duplicate classes and about missing tiers, recorded on the tenant in memory.\<close>

definition warn_duplicates :: "'w StorageReconciler \<Rightarrow> string list \<Rightarrow> (Tenant \<times> 'w, unit) go" where
  "warn_duplicates r msgs =
     bnd get_res (\<lambda>instance.
     on_world (record_events (tenant_eventf r instance) ''DuplicateStorageClass'' ''DetectDuplicate'' msgs))"

definition with_missing ::
  "'w StorageReconciler \<Rightarrow> TierDefinition list \<Rightarrow> ResolvedStorageClass list \<Rightarrow> string list \<Rightarrow> string \<Rightarrow> (Tenant \<times> 'w, string) go"
where
  "with_missing r tierDefinitions res ambiguous condMsg =
     bnd get_res (\<lambda>instance.
     on_world (appendMissingTierWarnings (tenant_eventf r instance) tierDefinitions res ambiguous condMsg))"

text \<open>The condition, the classes and the entry of the target cluster are set together.\<close>

definition set_class_status ::
  "'w StorageReconciler \<Rightarrow> string \<Rightarrow> bool \<Rightarrow> string \<Rightarrow> ResolvedStorageClass list \<Rightarrow> (Tenant \<times> 'w, unit) go"
where
  "set_class_status r condMsg ready reason classes =
     bnd (set_tenant_condition (sr_Lib r) TenantConditionClusterStorageReady
            (if ready then ''True'' else ''False'') reason condMsg) (\<lambda>_.
     mod_res (map_status (\<lambda>st. st\<lparr>ten_StorageClasses := classes,
       ten_ClusterStorage := [\<lparr>css_ClusterName = sr_targetCluster r, css_Ready = ready, css_Reason = reason\<rparr>]\<rparr>)))"

section \<open>Provisioning on the hub and on the target cluster\<close>

text \<open>The lifecycle on one of the tenant's histories; neither has a configuration version or callbacks.\<close>

definition tenant_lifecycle ::
  "'w StorageReconciler \<Rightarrow> (Tenant, 'w) ProvisioningProvider \<Rightarrow> Tenant JobsRef \<Rightarrow> (Tenant \<times> 'w, outcome) go"
where
  "tenant_lifecycle r provider ref =
     RunProvisioningLifecycle (k8s_now (sr_Lib r)) provider
       \<lparr>State_Jobs = ref, State_DesiredConfigVersion = ''''\<rparr>
       (sr_MaxJobHistory r) (sr_StatusPollInterval r) None
       (bnd get_res (\<lambda>cur. on_world
          (CheckAPIServerForNonTerminalProvisionJob (Get (sr_Client r) (ObjectKeyFromObject cur)) (Jobs_get ref))))
       (Some (bnd get_res (\<lambda>cur. on_world (patchTenantStorageStatus r (ObjectKeyFromObject cur) (Status cur)))))"

definition handleBackendProvisioning ::
  "'w StorageReconciler \<Rightarrow> (Tenant, 'w) ProvisioningProvider \<Rightarrow> (Tenant \<times> 'w, outcome) go"
where
  "handleBackendProvisioning r provider =
     bnd (read_jobs backend_jobs) (\<lambda>jobs.
       case FindLatestJobByType jobs JobTypeProvision of
         Some latestJob \<Rightarrow>
           if JobState latestJob = JobStateFailed then ret (no_requeue, None)
           else tenant_lifecycle r provider backend_jobs
       | None \<Rightarrow> tenant_lifecycle r provider backend_jobs)"

definition handleClusterStorageProvisioning ::
  "'w StorageReconciler \<Rightarrow> (Tenant, 'w) ProvisioningProvider \<Rightarrow> bool \<Rightarrow> (Tenant \<times> 'w, outcome) go"
where
  "handleClusterStorageProvisioning r provider hubSecretReady =
     bnd (read_jobs class_jobs) (\<lambda>jobs.
       case FindLatestJobByType jobs JobTypeProvision of
         Some latestJob \<Rightarrow>
           if JobState latestJob = JobStateFailed then
             (if hubSecretReady then ret (requeue_after (sr_StatusPollInterval r), None)
              else ret (no_requeue, None))
           else tenant_lifecycle r provider class_jobs
       | None \<Rightarrow> tenant_lifecycle r provider class_jobs)"

text \<open>
  The result is \<open>Inl out\<close> when the caller has to return \<open>out\<close> (the flag \<^verbatim>\<open>stop\<close> of the code), otherwise
  \<open>Inr hubSecretReady\<close>.
\<close>

definition handleBackendReadiness :: "'w StorageReconciler \<Rightarrow> Ctx \<Rightarrow> string \<Rightarrow> (Tenant \<times> 'w, outcome + bool) go" where
  "handleBackendReadiness r ctx tenantName =
     bnd (on_world (hubSecretExists r tenantName)) (\<lambda>hub.
       case hub of
         Inl err \<Rightarrow> ret (Inl (no_requeue, Some err))
       | Inr True \<Rightarrow>
           bnd (set_tenant_condition (sr_Lib r) TenantConditionStorageBackendReady ''True'' ''Found''
                  (sprintf ''Hub Secret for tenant %q exists'' [tenantName])) (\<lambda>_.
           ret (Inr True))
       | Inr False \<Rightarrow>
           bnd (on_world (backendRegistered r)) (\<lambda>registered.
             case registered of
               Inl err \<Rightarrow> ret (Inl (no_requeue, Some (Wrapf ''check backend registration: %w'' [] err)))
             | Inr True \<Rightarrow>
                 (case sr_BackendProvider r of
                    Some provider \<Rightarrow>
                      bnd (set_tenant_condition (sr_Lib r) TenantConditionStorageBackendReady ''False'' ''NotFound''
                             (sprintf ''Hub Secret for tenant %q not found'' [tenantName])) (\<lambda>_.
                      bnd (handleBackendProvisioning r (provider ctx)) (\<lambda>out. ret (Inl out)))
                  | None \<Rightarrow>
                      bnd (set_tenant_condition (sr_Lib r) TenantConditionStorageBackendReady ''False''
                             ''BackendConfiguredNoProvider''
                             (sprintf ''Storage backend is registered but no AAP is configured to provision the hub Secret for tenant %q''
                                [tenantName])) (\<lambda>_.
                      ret (Inl (no_requeue, None))))
             | Inr False \<Rightarrow>
                 bnd (set_tenant_condition (sr_Lib r) TenantConditionStorageBackendReady ''False'' ''NoProvider''
                        (if sr_BackendsClient r = None
                         then ''No fulfillment service connection configured; storage backend status unknown''
                         else ''No storage backend registered'')) (\<lambda>_.
                 ret (Inr False))))"

text \<open>
  The second stage of \<^verbatim>\<open>handleUpdate\<close>: with a provider, and without one. \<open>Some out\<close> ends the reconciliation.
\<close>

definition resolve_with_provider ::
  "'w StorageReconciler \<Rightarrow> (Tenant, 'w) ProvisioningProvider \<Rightarrow> 'w class_lister \<Rightarrow> TierDefinition list \<Rightarrow> string \<Rightarrow> bool \<Rightarrow>
   (Tenant \<times> 'w, outcome option) go"
where
  "resolve_with_provider r provider targetClient tierDefinitions tenantName hubSecretReady =
     bnd (on_world (resolveTenantSpecificStorageClasses targetClient tenantName)) (\<lambda>res.
       case res of
         Inl err \<Rightarrow> ret (Some (no_requeue, Some err))
       | Inr scResult \<Rightarrow>
           bnd (warn_duplicates r (ts_duplicateMessages scResult)) (\<lambda>_.
           if ts_resolved scResult = [] then
             (if ts_duplicateMessages scResult \<noteq> [] then
                bnd (with_missing r tierDefinitions [] (ts_ambiguousTiers scResult)
                       (join_with ''; '' (ts_duplicateMessages scResult))) (\<lambda>condMsg.
                bnd (set_class_status r condMsg False ''MultipleFound'' []) (\<lambda>_.
                ret (Some (no_requeue, None))))
              else
                bnd (on_world (getTenantStorageClasses targetClient tenantName)) (\<lambda>fallback.
                  case fallback of
                    Inl err \<Rightarrow> ret (Some (no_requeue, Some err))
                  | Inr defaultFallback \<Rightarrow>
                      bnd (warn_duplicates r (duplicateMessages defaultFallback)) (\<lambda>_.
                      bnd (if resolved defaultFallback \<noteq> [] then
                             bnd (with_missing r tierDefinitions (resolved defaultFallback) (ambiguousTiers defaultFallback)
                                    (conditionMessage defaultFallback @ ''; tenant-specific provisioning pending'')) (\<lambda>condMsg.
                             set_class_status r condMsg True ''Found'' (resolved defaultFallback))
                           else
                             bnd (with_missing r tierDefinitions [] (ambiguousTiers defaultFallback)
                                    (sprintf ''no StorageClass found for tenant %q'' [tenantName])) (\<lambda>condMsg.
                             set_class_status r condMsg False ''NotFound'' [])) (\<lambda>_.
                      bnd (handleClusterStorageProvisioning r provider hubSecretReady) (\<lambda>out. ret (Some out))))))
           else
             bnd (with_missing r tierDefinitions (ts_resolved scResult) (ts_ambiguousTiers scResult)
                    (formatResolvedStorageClasses (ts_resolved scResult) @
                     (if ts_duplicateMessages scResult \<noteq> []
                      then ''; '' @ join_with ''; '' (ts_duplicateMessages scResult) else ''''))) (\<lambda>condMsg.
             bnd (set_class_status r condMsg True ''Found'' (ts_resolved scResult)) (\<lambda>_.
             ret None))))"

definition resolve_without_provider ::
  "'w StorageReconciler \<Rightarrow> 'w class_lister \<Rightarrow> TierDefinition list \<Rightarrow> string \<Rightarrow> (Tenant \<times> 'w, outcome option) go"
where
  "resolve_without_provider r targetClient tierDefinitions tenantName =
     bnd (on_world (getTenantStorageClasses targetClient tenantName)) (\<lambda>res.
       case res of
         Inl err \<Rightarrow> ret (Some (no_requeue, Some err))
       | Inr result \<Rightarrow>
           bnd (warn_duplicates r (duplicateMessages result)) (\<lambda>_.
           bnd (with_missing r tierDefinitions (resolved result) (ambiguousTiers result) (conditionMessage result)) (\<lambda>condMsg.
           if resolved result = [] then
             bnd (set_class_status r condMsg False
                    (if duplicateMessages result \<noteq> [] then ''MultipleFound'' else ''NotFound'') []) (\<lambda>_.
             ret (Some (no_requeue, None)))
           else
             bnd (set_class_status r condMsg True ''Found'' (resolved result)) (\<lambda>_.
             ret None))))"

section \<open>Storage of the ordered clusters\<close>

text \<open>
  What the work on one cluster order tells the loop: go on with the next one, go on after entering the cluster
  into the tenant's status, or return.
\<close>

datatype order_step = Next_order | Stored_order | Return_order outcome

definition order_error :: "string \<Rightarrow> string \<Rightarrow> gerror \<Rightarrow> order_step" where
  "order_error fmt n err = Return_order (no_requeue, Some (Wrapf fmt [n] err))"

definition order_condition :: "'w StorageReconciler \<Rightarrow> string \<Rightarrow> string \<Rightarrow> string \<Rightarrow> (ClusterOrder \<times> 'w, unit) go" where
  "order_condition r = set_order_condition (sr_Lib r) ''ClusterStorageReady''"

definition patch_order_then :: "'w StorageReconciler \<Rightarrow> order_step \<Rightarrow> (ClusterOrder \<times> 'w, order_step) go" where
  "patch_order_then r step =
     bnd (patch_order r) (\<lambda>e.
     bnd get_res (\<lambda>co.
       case e of
         Some err \<Rightarrow> ret (order_error ''update ClusterOrder %s status: %w'' (Name (Meta co)) err)
       | None \<Rightarrow> ret step))"

text \<open>After provisioning: the classes found on the cluster decide the condition.\<close>

definition discover_order_classes ::
  "'w StorageReconciler \<Rightarrow> string \<Rightarrow> string \<Rightarrow> (ClusterOrder \<times> 'w, order_step) go"
where
  "discover_order_classes r tenantName kubeconfig =
     bnd get_res (\<lambda>co.
     bnd (on_world (buildClientFromKubeconfig r kubeconfig)) (\<lambda>built.
       case built of
         Inl err \<Rightarrow> ret (order_error ''build CaaS client for ClusterOrder %s: %w'' (Name (Meta co)) err)
       | Inr caasClient \<Rightarrow>
           bnd (on_world (getTenantStorageClasses caasClient tenantName)) (\<lambda>res.
             case res of
               Inl err \<Rightarrow> ret (order_error ''get StorageClasses on CaaS cluster %s: %w'' (Name (Meta co)) err)
             | Inr scResult \<Rightarrow>
                 bnd (on_world (record_events (sr_Eventf r ''ClusterOrder'' (ObjectKeyFromObject co) ''Warning'')
                        ''DuplicateStorageClass'' ''DetectDuplicate'' (duplicateMessages scResult))) (\<lambda>_.
                 bnd (if resolved scResult \<noteq> [] then
                        bnd (order_condition r ''True'' (conditionMessage scResult) ''Found'') (\<lambda>_.
                        on_world (sr_Eventf r ''ClusterOrder'' (ObjectKeyFromObject co) ''Normal'' ''ClusterStorageProvisioned''
                          ''Provision'' (sprintf ''Storage provisioned on CaaS cluster %s'' [Name (Meta co)])))
                      else
                        order_condition r ''False'' (conditionMessage scResult)
                          (if duplicateMessages scResult \<noteq> [] then ''MultipleFound'' else ''NotFound'')) (\<lambda>_.
                 patch_order_then r Stored_order)))))"

definition provision_order ::
  "'w StorageReconciler \<Rightarrow> Ctx \<Rightarrow> 'w storage_provider \<Rightarrow> string \<Rightarrow> string \<Rightarrow> (ClusterOrder \<times> 'w, order_step) go"
where
  "provision_order r ctx provider tenantName kubeconfig =
     bnd (RunProvisioningLifecycle (k8s_now (sr_Lib r)) (for_order provider (WithAdminKubeconfig ctx kubeconfig))
            \<lparr>State_Jobs = storage_jobs, State_DesiredConfigVersion = ''''\<rparr>
            (sr_MaxJobHistory r) (sr_StatusPollInterval r) None
            (bnd get_res (\<lambda>cur. on_world
               (CheckAPIServerForNonTerminalProvisionJob (Get (sr_Orders r) (ObjectKeyFromObject cur))
                  (\<lambda>fresh. ClusterStorageJobs (Status fresh)))))
            (Some (patch_order r))) (\<lambda>(provResult, provErr).
       case provErr of
         Some err \<Rightarrow>
           bnd (order_condition r ''False'' (sprintf ''Provisioning failed: %v'' [Error err]) ''ProvisionFailed'') (\<lambda>_.
           bnd (patch_order r) (\<lambda>updateErr. ret (Return_order (provResult, Some err))))
       | None \<Rightarrow>
           if RequeueAfter provResult > 0 then patch_order_then r (Return_order (provResult, None))
           else discover_order_classes r tenantName kubeconfig)"

definition caas_update_order ::
  "'w StorageReconciler \<Rightarrow> Ctx \<Rightarrow> 'w storage_provider \<Rightarrow> string \<Rightarrow> (ClusterOrder \<times> 'w, order_step) go"
where
  "caas_update_order r ctx provider tenantName =
     bnd get_res (\<lambda>co.
       if Annotations (Meta co) osacTenantKey \<noteq> Some tenantName then ret Next_order
       else if Phase (Status co) \<noteq> PhaseReady then ret Next_order
       else if ClusterOrder_IsStatusConditionTrue (sr_Lib r) co ''ClusterStorageReady'' then ret Next_order
       else if DeletionTimestamp (Meta co) \<noteq> None then ret Next_order
       else
         bnd (case AddFinalizer (sr_Lib r) (Finalizers (Meta co)) clusterStorageFinalizer of
                (fs, changed) \<Rightarrow>
                  bnd (put_res (set_finalizers fs co)) (\<lambda>_.
                  if changed then write_object (sr_Orders r) else ret None)) (\<lambda>e.
         bnd get_res (\<lambda>co.
           case e of
             Some err \<Rightarrow> ret (order_error ''add storage finalizer to ClusterOrder %s: %w'' (Name (Meta co)) err)
           | None \<Rightarrow>
               bnd (on_world (getClusterKubeconfig r co)) (\<lambda>kubeconfig.
                 case kubeconfig of
                   Inl err \<Rightarrow> ret (order_error ''get kubeconfig for ClusterOrder %s: %w'' (Name (Meta co)) err)
                 | Inr None \<Rightarrow>
                     bnd (order_condition r ''False'' ''Kubeconfig not yet available for CaaS cluster''
                            ''KubeConfigNotAvailable'') (\<lambda>_.
                     patch_order_then r Next_order)
                 | Inr (Some kc) \<Rightarrow> provision_order r ctx provider tenantName kc))))"

text \<open>The entry of a cluster in the tenant's status is updated, or appended.\<close>

fun set_cluster_entry :: "string \<Rightarrow> bool \<Rightarrow> string \<Rightarrow> ClusterStorageStatus list \<Rightarrow> ClusterStorageStatus list" where
  "set_cluster_entry clusterName ready reason [] =
     [\<lparr>css_ClusterName = clusterName, css_Ready = ready, css_Reason = reason\<rparr>]"
| "set_cluster_entry clusterName ready reason (cs # css) =
     (if css_ClusterName cs = clusterName then cs\<lparr>css_Ready := ready, css_Reason := reason\<rparr> # css
      else cs # set_cluster_entry clusterName ready reason css)"

definition updateTenantClusterStorage :: "'w k8s \<Rightarrow> ClusterOrder \<Rightarrow> Tenant \<Rightarrow> Tenant" where
  "updateTenantClusterStorage lib co tenant =
     (let ready = ClusterOrder_IsStatusConditionTrue lib co ''ClusterStorageReady'';
          reason = (if ready then ''Found''
                    else (case FindStatusCondition lib (Conditions (Status co)) ''ClusterStorageReady'' of
                            None \<Rightarrow> ''NotFound'' | Some cond \<Rightarrow> cond_Reason cond))
      in map_status (\<lambda>st. st\<lparr>ten_ClusterStorage := set_cluster_entry (Name (Meta co)) ready reason (ten_ClusterStorage st)\<rparr>) tenant)"

fun caas_update_loop ::
  "'w StorageReconciler \<Rightarrow> Ctx \<Rightarrow> 'w storage_provider \<Rightarrow> string \<Rightarrow> ClusterOrder list \<Rightarrow> (Tenant \<times> 'w, outcome) go"
where
  "caas_update_loop r ctx provider tenantName [] = ret (no_requeue, None)"
| "caas_update_loop r ctx provider tenantName (co # cos) =
     bnd (on_world (with_object co (caas_update_order r ctx provider tenantName))) (\<lambda>(step, co').
       case step of
         Next_order \<Rightarrow> caas_update_loop r ctx provider tenantName cos
       | Return_order out \<Rightarrow> ret out
       | Stored_order \<Rightarrow>
           bnd (mod_res (updateTenantClusterStorage (sr_Lib r) co')) (\<lambda>_.
           caas_update_loop r ctx provider tenantName cos))"

definition handleCaaSUpdate ::
  "'w StorageReconciler \<Rightarrow> Ctx \<Rightarrow> 'w storage_provider \<Rightarrow> (Tenant \<times> 'w, outcome) go"
where
  "handleCaaSUpdate r ctx provider =
     bnd get_res (\<lambda>instance.
     bnd (on_world (sr_List_ClusterOrders r)) (\<lambda>res.
       case res of
         Inl err \<Rightarrow> ret (no_requeue, Some (Wrapf ''list ClusterOrders: %w'' [] err))
       | Inr cos \<Rightarrow> caas_update_loop r ctx provider (Name (Meta instance)) cos))"

section \<open>Teardown on the ordered clusters\<close>

definition deprovision_order ::
  "'w StorageReconciler \<Rightarrow> Ctx \<Rightarrow> 'w storage_provider \<Rightarrow> string option \<Rightarrow> (ClusterOrder \<times> 'w, outcome option) go"
where
  "deprovision_order r ctx provider kubeconfig =
     (case kubeconfig of
        None \<Rightarrow>
          bnd get_res (\<lambda>co.
          bnd (on_world (sr_Eventf r ''ClusterOrder'' (ObjectKeyFromObject co) ''Warning'' ''KubeConfigNotAvailable'' ''Teardown''
                 ''HostedControlPlane not found during storage teardown, skipping cleanup'')) (\<lambda>_.
          ret None))
      | Some kc \<Rightarrow>
          bnd (RunDeprovisioningLifecycle (k8s_now (sr_Lib r)) (for_order provider (WithAdminKubeconfig ctx kc)) storage_jobs
                 (sr_MaxJobHistory r) (sr_StatusPollInterval r)) (\<lambda>(result, finished, err).
          if err \<noteq> None then bnd (patch_order r) (\<lambda>updateErr. ret (Some (result, err)))
          else if \<not> finished then bnd (patch_order r) (\<lambda>updateErr. ret (Some (result, None)))
          else ret None))"

text \<open>\<open>Stored_order\<close> says that nothing is left on the cluster.\<close>

definition teardown_order ::
  "'w StorageReconciler \<Rightarrow> Ctx \<Rightarrow> 'w storage_provider \<Rightarrow> string \<Rightarrow> bool \<Rightarrow> (ClusterOrder \<times> 'w, order_step) go"
where
  "teardown_order r ctx provider tenantName tenantDeleting =
     bnd get_res (\<lambda>co.
       if \<not> ContainsFinalizer (sr_Lib r) (Finalizers (Meta co)) clusterStorageFinalizer then ret Next_order
       else if Annotations (Meta co) osacTenantKey \<noteq> Some tenantName then ret Next_order
       else if \<not> tenantDeleting \<and> DeletionTimestamp (Meta co) = None then ret Next_order
       else
         bnd (on_world (getClusterKubeconfig r co)) (\<lambda>kubeconfig.
           case kubeconfig of
             Inl err \<Rightarrow> ret (order_error ''get kubeconfig for teardown of ClusterOrder %s: %w'' (Name (Meta co)) err)
           | Inr kc \<Rightarrow>
               bnd (deprovision_order r ctx provider kc) (\<lambda>out.
                 case out of
                   Some result \<Rightarrow> ret (Return_order result)
                 | None \<Rightarrow> ret Stored_order)))"

definition removeTenantClusterStorageEntry :: "string \<Rightarrow> Tenant \<Rightarrow> Tenant" where
  "removeTenantClusterStorageEntry clusterName =
     map_status (\<lambda>st. st\<lparr>ten_ClusterStorage := filter (\<lambda>cs. css_ClusterName cs \<noteq> clusterName) (ten_ClusterStorage st)\<rparr>)"

definition release_order :: "'w StorageReconciler \<Rightarrow> (ClusterOrder \<times> 'w, gerror option) go" where
  "release_order r =
     bnd (mod_res (\<lambda>co. set_finalizers (fst (RemoveFinalizer (sr_Lib r) (Finalizers (Meta co)) clusterStorageFinalizer)) co)) (\<lambda>_.
     write_object (sr_Orders r))"

fun caas_delete_loop ::
  "'w StorageReconciler \<Rightarrow> Ctx \<Rightarrow> 'w storage_provider \<Rightarrow> string \<Rightarrow> bool \<Rightarrow> ClusterOrder list \<Rightarrow> (Tenant \<times> 'w, outcome) go"
where
  "caas_delete_loop r ctx provider tenantName tenantDeleting [] = ret (no_requeue, None)"
| "caas_delete_loop r ctx provider tenantName tenantDeleting (co # cos) =
     bnd (on_world (with_object co (teardown_order r ctx provider tenantName tenantDeleting))) (\<lambda>(step, co').
       case step of
         Next_order \<Rightarrow> caas_delete_loop r ctx provider tenantName tenantDeleting cos
       | Return_order out \<Rightarrow> ret out
       | Stored_order \<Rightarrow>
           bnd (mod_res (removeTenantClusterStorageEntry (Name (Meta co')))) (\<lambda>_.
           bnd (on_world (with_object co' (release_order r))) (\<lambda>(e, co'').
             case e of
               Some err \<Rightarrow>
                 ret (no_requeue, Some (Wrapf ''remove storage finalizer from ClusterOrder %s: %w'' [Name (Meta co'')] err))
             | None \<Rightarrow> caas_delete_loop r ctx provider tenantName tenantDeleting cos)))"

definition handleCaaSDelete ::
  "'w StorageReconciler \<Rightarrow> Ctx \<Rightarrow> 'w storage_provider \<Rightarrow> bool \<Rightarrow> (Tenant \<times> 'w, outcome) go"
where
  "handleCaaSDelete r ctx provider tenantDeleting =
     bnd get_res (\<lambda>instance.
     bnd (on_world (sr_List_ClusterOrders r)) (\<lambda>res.
       case res of
         Inl err \<Rightarrow> ret (no_requeue, Some (Wrapf ''list ClusterOrders for CaaS teardown: %w'' [] err))
       | Inr cos \<Rightarrow> caas_delete_loop r ctx provider (Name (Meta instance)) tenantDeleting cos))"

section \<open>Update\<close>

text \<open>The third stage: the ordered clusters are provided with storage, and those being deleted are cleaned up.\<close>

definition caas_clusters :: "'w StorageReconciler \<Rightarrow> Ctx \<Rightarrow> 'w storage_provider \<Rightarrow> (Tenant \<times> 'w, outcome) go" where
  "caas_clusters r ctx provider =
     bnd (handleCaaSUpdate r ctx provider) (\<lambda>(caasResult, caasErr).
       if caasErr \<noteq> None \<or> RequeueAfter caasResult > 0 then ret (caasResult, caasErr)
       else
         bnd (handleCaaSDelete r ctx provider False) (\<lambda>(caasDelResult, caasDelErr).
           if caasDelErr \<noteq> None \<or> RequeueAfter caasDelResult > 0 then ret (caasDelResult, caasDelErr)
           else ret (no_requeue, None)))"

text \<open>The end of \<^verbatim>\<open>handleUpdate\<close>: a running class job is polled before the ordered clusters are looked after.\<close>

definition finish_update :: "'w StorageReconciler \<Rightarrow> Ctx \<Rightarrow> (Tenant \<times> 'w, outcome) go" where
  "finish_update r ctx =
     (case sr_ClusterStorageProvider r of
        None \<Rightarrow> ret (no_requeue, None)
      | Some provider \<Rightarrow>
          bnd (read_jobs class_jobs) (\<lambda>jobs.
            case FindLatestJobByType jobs JobTypeProvision of
              Some latestClassJob \<Rightarrow>
                if \<not> IsTerminal (JobState latestClassJob) then
                  PollJob (for_tenant provider ctx) \<lparr>State_Jobs = class_jobs, State_DesiredConfigVersion = ''''\<rparr>
                    latestClassJob (sr_StatusPollInterval r) None
                else caas_clusters r ctx provider
            | None \<Rightarrow> caas_clusters r ctx provider))"

definition Storage_handleUpdate :: "'w StorageReconciler \<Rightarrow> Ctx \<Rightarrow> (Tenant \<times> 'w, outcome) go" where
  "Storage_handleUpdate r ctx0 =
     bnd get_res (\<lambda>instance.
     let tenantName = Name (Meta instance) in
     bnd (ensure_finalizer (sr_Lib r) (sr_Client r) storageFinalizer) (\<lambda>e.
       case e of
         Some err \<Rightarrow> ret (no_requeue, Some err)
       | None \<Rightarrow>
           bnd (on_world (resolveAndInjectTierContext ctx0 (sr_TiersClient r) (sr_BackendsClient r))) (\<lambda>(ctx, tierDefinitions).
           bnd (handleBackendReadiness r ctx tenantName) (\<lambda>stage1.
             case stage1 of
               Inl out \<Rightarrow> ret out
             | Inr hubSecretReady \<Rightarrow>
                 bnd (on_world (getTargetClient (sr_GetCluster r))) (\<lambda>cluster.
                   case cluster of
                     Inl err \<Rightarrow> ret (no_requeue, Some err)
                   | Inr targetClient \<Rightarrow>
                       bnd (case sr_ClusterStorageProvider r of
                              Some provider \<Rightarrow>
                                resolve_with_provider r (for_tenant provider ctx) targetClient tierDefinitions tenantName hubSecretReady
                            | None \<Rightarrow> resolve_without_provider r targetClient tierDefinitions tenantName) (\<lambda>stage2.
                         case stage2 of
                           Some out \<Rightarrow> ret out
                         | None \<Rightarrow> finish_update r ctx))))))"

section \<open>Deletion\<close>

definition handleClusterStorageDeprovisioning :: "'w StorageReconciler \<Rightarrow> Ctx \<Rightarrow> (Tenant \<times> 'w, outcome) go" where
  "handleClusterStorageDeprovisioning r ctx =
     (case sr_ClusterStorageProvider r of
        None \<Rightarrow> ret (no_requeue, None)
      | Some provider \<Rightarrow>
          bnd (RunDeprovisioningLifecycle (k8s_now (sr_Lib r)) (for_tenant provider ctx) class_jobs
                 (sr_MaxJobHistory r) (sr_StatusPollInterval r)) (\<lambda>(result, finished, err).
          if err \<noteq> None \<or> \<not> finished then ret (result, err) else ret (no_requeue, None)))"

definition deprovJobActive :: "JobStatus list \<Rightarrow> bool" where
  "deprovJobActive jobs =
     (case FindLatestJobByType jobs JobTypeDeprovision of
        None \<Rightarrow> False
      | Some l \<Rightarrow> JobID l \<noteq> '''' \<and> \<not> IsTerminal (JobState l))"

definition deprovJobBlocking :: "JobStatus list \<Rightarrow> bool" where
  "deprovJobBlocking jobs =
     (case FindLatestJobByType jobs JobTypeDeprovision of
        None \<Rightarrow> False
      | Some l \<Rightarrow> IsTerminal (JobState l) \<and> \<not> IsSuccessful (JobState l) \<and> BlockDeletionOnFailure l)"

definition handleBackendDeprovisioning :: "'w StorageReconciler \<Rightarrow> Ctx \<Rightarrow> (Tenant \<times> 'w, outcome) go" where
  "handleBackendDeprovisioning r ctx =
     (case sr_BackendProvider r of
        None \<Rightarrow> ret (no_requeue, None)
      | Some provider \<Rightarrow>
          bnd get_res (\<lambda>instance.
          bnd (on_world (hubSecretExists r (Name (Meta instance)))) (\<lambda>hub.
            case hub of
              Inl err \<Rightarrow> ret (requeue_after (sr_StatusPollInterval r), None)
            | Inr hubSecretReady \<Rightarrow>
                bnd (read_jobs backend_jobs) (\<lambda>jobs.
                  if \<not> hubSecretReady \<and> \<not> deprovJobActive jobs \<and> \<not> deprovJobBlocking jobs then ret (no_requeue, None)
                  else
                    bnd (RunDeprovisioningLifecycle (k8s_now (sr_Lib r)) (provider ctx) backend_jobs
                           (sr_MaxJobHistory r) (sr_StatusPollInterval r)) (\<lambda>(result, finished, err).
                    if err \<noteq> None \<or> \<not> finished then ret (result, err) else ret (no_requeue, None))))))"

definition classCleanupDone :: "JobStatus list \<Rightarrow> bool" where
  "classCleanupDone jobs =
     (case FindLatestJobByType jobs JobTypeDeprovision of
        None \<Rightarrow> False
      | Some l \<Rightarrow> IsTerminal (JobState l) \<and> IsSuccessful (JobState l))"

definition release_tenant :: "'w StorageReconciler \<Rightarrow> (Tenant \<times> 'w, outcome) go" where
  "release_tenant r =
     bnd (mod_res (\<lambda>obj. set_finalizers (fst (RemoveFinalizer (sr_Lib r) (Finalizers (Meta obj)) storageFinalizer)) obj)) (\<lambda>_.
     bnd (write_object (sr_Client r)) (\<lambda>e. ret (no_requeue, e)))"

text \<open>One stage after the other: a stage that failed or asks to be called again ends the reconciliation.\<close>

definition stage_then :: "('s, outcome) go \<Rightarrow> ('s, outcome) go \<Rightarrow> ('s, outcome) go" where
  "stage_then m k =
     bnd m (\<lambda>(result, err). if err \<noteq> None \<or> RequeueAfter result > 0 then ret (result, err) else k)"

definition Storage_handleDelete :: "'w StorageReconciler \<Rightarrow> Ctx \<Rightarrow> (Tenant \<times> 'w, outcome) go" where
  "Storage_handleDelete r ctx0 =
     bnd get_res (\<lambda>instance.
       if \<not> ContainsFinalizer (sr_Lib r) (Finalizers (Meta instance)) storageFinalizer then ret (no_requeue, None)
       else
         bnd (on_world (resolveAndInjectTierContext ctx0 (sr_TiersClient r) (sr_BackendsClient r))) (\<lambda>(ctx, _).
         stage_then
           (case sr_ClusterStorageProvider r of
              None \<Rightarrow> ret (no_requeue, None)
            | Some provider \<Rightarrow> handleCaaSDelete r ctx provider True)
         (stage_then
           (bnd (read_jobs class_jobs) (\<lambda>jobs.
              if \<not> classCleanupDone jobs then handleClusterStorageDeprovisioning r ctx else ret (no_requeue, None)))
         (stage_then (handleBackendDeprovisioning r ctx)
           (release_tenant r)))))"

section \<open>Reconcile and watches\<close>

definition Storage_Reconcile :: "'w StorageReconciler \<Rightarrow> ObjectKey \<Rightarrow> ('w, outcome) go" where
  "Storage_Reconcile r key =
     bnd (Get (sr_Client r) key) (\<lambda>got.
       case got of
         Inl err \<Rightarrow> ret (no_requeue, IgnoreNotFound (sr_Lib r) err)
       | Inr obj \<Rightarrow>
           if DeletionTimestamp (Meta obj) = None \<and>
              Annotations (Meta obj) osacManagementStateAnnotation = Some ManagementStateUnmanaged
           then ret (no_requeue, None)
           else if ten_Phase (Status obj) \<noteq> PhaseReady \<and> DeletionTimestamp (Meta obj) = None then ret (no_requeue, None)
           else
             bnd (with_object obj
                    (if DeletionTimestamp (Meta obj) = None then Storage_handleUpdate r background
                     else Storage_handleDelete r background))
               (\<lambda>((res, err), obj').
                  if \<not> DeepEqual (sr_Client r) (Status obj') (Status obj) then
                    bnd (patchTenantStorageStatus r (ObjectKeyFromObject obj') (Status obj')) (\<lambda>updateErr.
                      case updateErr of
                        Some e \<Rightarrow> ret (no_requeue, Some e)
                      | None \<Rightarrow> ret (res, err))
                  else ret (res, err)))"

definition allTenantReconcileRequests :: "'w StorageReconciler \<Rightarrow> ('w, ObjectKey list) go" where
  "allTenantReconcileRequests r =
     bnd (sr_List_Tenants r (sr_tenantNamespace r)) (\<lambda>res.
       case res of
         Inl err \<Rightarrow> ret []
       | Inr tenants \<Rightarrow> ret (map ObjectKeyFromObject tenants))"

definition tenant_request :: "'w StorageReconciler \<Rightarrow> string \<Rightarrow> ('w, ObjectKey list) go" where
  "tenant_request r tenantName =
     bnd (Get (sr_Client r) (sr_tenantNamespace r, tenantName)) (\<lambda>res.
       case res of
         Inl err \<Rightarrow> ret []
       | Inr tenant \<Rightarrow> ret [ObjectKeyFromObject tenant])"

definition mapStorageClassToTenant :: "'w StorageReconciler \<Rightarrow> (string \<rightharpoonup> string) \<Rightarrow> ('w, ObjectKey list) go" where
  "mapStorageClassToTenant r ls =
     (case ls osacTenantKey of
        None \<Rightarrow> ret []
      | Some tenantName \<Rightarrow>
          if tenantName = '''' then ret []
          else if tenantName = defaultStorageClassSentinel then allTenantReconcileRequests r
          else tenant_request r tenantName)"

definition mapSecretToTenant :: "'w StorageReconciler \<Rightarrow> (string \<rightharpoonup> string) \<Rightarrow> ('w, ObjectKey list) go" where
  "mapSecretToTenant r ls =
     (case ls osacTenantKey of
        None \<Rightarrow> ret []
      | Some tenantName \<Rightarrow> if tenantName = '''' then ret [] else tenant_request r tenantName)"

definition mapClusterOrderToTenant :: "'w StorageReconciler \<Rightarrow> (string \<rightharpoonup> string) \<Rightarrow> ('w, ObjectKey list) go" where
  "mapClusterOrderToTenant r annotations =
     (case annotations osacTenantKey of
        None \<Rightarrow> ret []
      | Some tenantName \<Rightarrow> if tenantName = '''' then ret [] else tenant_request r tenantName)"

definition secretTenantPredicate :: "'w StorageReconciler \<Rightarrow> ObjectMeta \<Rightarrow> bool" where
  "secretTenantPredicate r obj \<longleftrightarrow>
     Namespace obj = storageConfigNamespace r \<and> Labels obj osacTenantKey \<noteq> None"

end
