(* ===== verification/Storage_Laws.thy ===== *)
theory Storage_Laws
  imports Storage_Controller Frames
begin

text \<open>
  Laws of the storage controller (\<^verbatim>\<open>internal/controller/storage_controller.go\<close>). A tenant carries two job histories,
  one for the storage backend and one for the classes; both stay well-formed whatever the controller does
  (\<open>tends\<close>), provided the API server, the other services and the providers behave (\<open>storage_system\<close>). The
  deletion goes through its stages in order.
\<close>

section \<open>What is assumed\<close>

abbreviation histories_ok :: "int \<Rightarrow> 'w world_view \<Rightarrow> Tenant \<times> 'w \<Rightarrow> bool" where
  "histories_ok mh V \<equiv> both_ok mh backend_jobs class_jobs V"

definition reads_tenant :: "int \<Rightarrow> 'w world_view \<Rightarrow> ('w, gerror + Tenant) go \<Rightarrow> bool" where
  "reads_tenant mh V m \<longleftrightarrow>
     (\<forall>w. wv_inv V w \<longrightarrow>
        wlp m (\<lambda>res w'. advances V w w' \<and> (\<forall>obj. res = Inr obj \<longrightarrow> histories_ok mh V (obj, w'))) w)"

text \<open>The API server gives out well-formed tenants and takes well-formed ones.\<close>

definition tenant_server :: "'w StorageReconciler \<Rightarrow> 'w world_view \<Rightarrow> bool" where
  "tenant_server r V \<longleftrightarrow>
     (\<forall>key. reads_tenant (sr_MaxJobHistory r) V (Get (sr_Client r) key)) \<and>
     (\<forall>key. reads_tenant (sr_MaxJobHistory r) V (APIReader_Get (sr_Client r) key)) \<and>
     (\<forall>obj w. histories_ok (sr_MaxJobHistory r) V (obj, w) \<longrightarrow>
        wlp (Update (sr_Client r) obj) (\<lambda>res w'. advances V w w' \<and>
          (\<forall>obj'. res = Inr obj' \<longrightarrow> histories_ok (sr_MaxJobHistory r) V (obj', w'))) w) \<and>
     (\<forall>old obj w. histories_ok (sr_MaxJobHistory r) V (obj, w) \<longrightarrow>
        wlp (sr_Status_Patch r old obj) (\<lambda>_. advances V w) w)"

text \<open>A call that hands out a client of a cluster: listing with that client only advances the world.\<close>

definition hands_out :: "'w world_view \<Rightarrow> ('w, gerror + 'w class_lister) go \<Rightarrow> bool" where
  "hands_out V m \<longleftrightarrow>
     (\<forall>w. wv_inv V w \<longrightarrow> wlp m (\<lambda>res w'. advances V w w' \<and> (\<forall>c sel. res = Inr c \<longrightarrow> steady V (c sel))) w)"

definition order_server :: "'w StorageReconciler \<Rightarrow> 'w world_view \<Rightarrow> bool" where
  "order_server r V \<longleftrightarrow>
     (\<forall>key. steady V (Get (sr_Orders r) key)) \<and> (\<forall>key. steady V (APIReader_Get (sr_Orders r) key)) \<and>
     (\<forall>co. steady V (Update (sr_Orders r) co)) \<and> (\<forall>old co. steady V (sr_Order_Status_Patch r old co)) \<and>
     steady V (sr_List_ClusterOrders r)"

definition services :: "'w StorageReconciler \<Rightarrow> 'w world_view \<Rightarrow> bool" where
  "services r V \<longleftrightarrow>
     (\<forall>ns sel. steady V (sr_List_Secrets r ns sel)) \<and> (\<forall>key. steady V (sr_Get_HostedControlPlane r key)) \<and>
     (\<forall>key. steady V (sr_Get_Secret_Data r key)) \<and> (\<forall>c. hands_out V (sr_client_New r c)) \<and>
     hands_out V (sr_GetCluster r) \<and> (\<forall>kind key sev reason action msg. steady V (sr_Eventf r kind key sev reason action msg)) \<and>
     (\<forall>b. sr_BackendsClient r = Some b \<longrightarrow> (\<forall>n. steady V (sb_List_Total b n)) \<and> (\<forall>i. steady V (sb_Get b i))) \<and>
     (\<forall>t n. sr_TiersClient r = Some t \<longrightarrow> steady V (t n))"

definition storage_providers :: "'w StorageReconciler \<Rightarrow> 'w world_view \<Rightarrow> bool" where
  "storage_providers r V \<longleftrightarrow>
     (\<forall>p ctx. sr_BackendProvider r = Some p \<longrightarrow> honest V (p ctx)) \<and>
     (\<forall>p ctx. sr_ClusterStorageProvider r = Some p \<longrightarrow> honest V (for_tenant p ctx) \<and> honest V (for_order p ctx))"

definition storage_system :: "'w StorageReconciler \<Rightarrow> 'w world_view \<Rightarrow> bool" where
  "storage_system r V \<longleftrightarrow>
     0 < sr_MaxJobHistory r \<and> k8s_now (sr_Lib r) = wv_now V \<and> retry_law (sr_Lib r) V \<and>
     tenant_server r V \<and> order_server r V \<and> services r V \<and> storage_providers r V"

text \<open>
  What every step on a tenant does: where both histories are well-formed they stay so, and the world advances.
\<close>

definition tends :: "int \<Rightarrow> 'w world_view \<Rightarrow> (Tenant \<times> 'w, 'a) go \<Rightarrow> bool" where
  "tends mh V m \<longleftrightarrow>
     (\<forall>t w. histories_ok mh V (t, w) \<longrightarrow> wlp m (\<lambda>_ (t', w'). histories_ok mh V (t', w') \<and> advances V w w') (t, w))"

section \<open>The pointers\<close>

lemma tenant_jobs_get [simp]:
  "Jobs_get backend_jobs t = ten_StorageBackendJobs (Status t)" "Jobs_get class_jobs t = ten_ClusterStorageJobs (Status t)"
  by (simp_all add: backend_jobs_def class_jobs_def)

lemma tenant_jobs_set [simp]:
  "ten_StorageBackendJobs (Status (Jobs_set backend_jobs js t)) = js"
  "ten_ClusterStorageJobs (Status (Jobs_set class_jobs js t)) = js"
  "ten_ClusterStorageJobs (Status (Jobs_set backend_jobs js t)) = ten_ClusterStorageJobs (Status t)"
  "ten_StorageBackendJobs (Status (Jobs_set class_jobs js t)) = ten_StorageBackendJobs (Status t)"
  by (simp_all add: backend_jobs_def class_jobs_def map_status_def)

interpretation backend: two_histories backend_jobs class_jobs
  by unfold_locales simp_all

interpretation classes: two_histories class_jobs backend_jobs
  by unfold_locales simp_all

interpretation order: jobs_frame storage_jobs "\<lambda>_ _. True"
  by unfold_locales (simp_all add: reflp_def transp_def)

section \<open>Rules\<close>

lemma tendsD:
  "tends mh V m \<Longrightarrow> histories_ok mh V (t, w) \<Longrightarrow>
     wlp m (\<lambda>_ (t', w'). histories_ok mh V (t', w') \<and> advances V w w') (t, w)"
  by (simp add: tends_def)

lemma tends_basic [simp]:
  "tends mh V (ret x)" "tends mh V get_res" "tends mh V panic" "tends mh V (read_jobs ref)" "tends mh V (read_clock now)"
  by (simp_all add: tends_def wp_simps)

lemma tends_read: "(\<And>t. tends mh V (f t)) \<Longrightarrow> tends mh V (bnd get_res f)"
  by (simp add: tends_def wp_simps)

lemma tends_bnd:
  assumes "tends mh V m" and "\<And>x. tends mh V (f x)"
  shows "tends mh V (bnd m f)"
  unfolding tends_def wlp_bnd
proof (intro allI impI)
  fix t w assume ok: "histories_ok mh V (t, w)"
  show "wlp m (\<lambda>x. wlp (f x) (\<lambda>_ (t', w'). histories_ok mh V (t', w') \<and> advances V w w')) (t, w)"
  proof (rule wlp_mono [OF tendsD [OF assms(1) ok]], goal_cases)
    case (1 x s)
    then obtain t1 w1 where "s = (t1, w1)" "histories_ok mh V (t1, w1)" "advances V w w1" by (cases s) auto
    then show ?case
      by (auto intro!: wlp_mono [OF tendsD [OF assms(2), of t1 w1 x]] intro: advances_trans)
  qed
qed

lemma tends_on_world:
  assumes "steady V m"
  shows "tends mh V (on_world m)"
  unfolding tends_def wlp_on_world prod.case
proof (intro allI impI)
  fix t w assume ok: "histories_ok mh V (t, w)"
  show "wlp m (\<lambda>_ w'. histories_ok mh V (t, w') \<and> advances V w w') w"
    using ok by (intro wlp_mono [OF steadyD [OF assms both_ok_inv [OF ok]]]) (auto intro: both_ok_frame)
qed

lemma tends_mod_res:
  assumes "\<And>t. ten_StorageBackendJobs (Status (f t)) = ten_StorageBackendJobs (Status t)"
    and "\<And>t. ten_ClusterStorageJobs (Status (f t)) = ten_ClusterStorageJobs (Status t)"
  shows "tends mh V (mod_res f)"
  using assms by (auto simp: tends_def wp_simps intro: both_ok_frame)

lemma tends_handed:
  assumes "hands_out V m" and "\<And>e. tends mh V (f (Inl e))"
    and "\<And>c. (\<And>sel. steady V (c sel)) \<Longrightarrow> tends mh V (f (Inr c))"
  shows "tends mh V (bnd (on_world m) f)"
  unfolding tends_def wlp_bnd wlp_on_world prod.case
proof (intro allI impI)
  fix t w assume ok: "histories_ok mh V (t, w)"
  have "wlp m (\<lambda>res w'. advances V w w' \<and> (\<forall>c sel. res = Inr c \<longrightarrow> steady V (c sel))) w"
    using assms(1) both_ok_inv [OF ok] by (simp add: hands_out_def)
  then show "wlp m (\<lambda>x w'. wlp (f x) (\<lambda>_ (t', w''). histories_ok mh V (t', w'') \<and> advances V w w'') (t, w')) w"
  proof (rule wlp_mono, goal_cases)
    case (1 res w1)
    then have "tends mh V (f res)" using assms(2,3) by (cases res) auto
    moreover have "histories_ok mh V (t, w1)" using ok 1 by (auto intro: both_ok_frame)
    ultimately show ?case
      using 1 by (auto intro!: wlp_mono [OF tendsD, of mh V "f res" t w1] intro: advances_trans)
  qed
qed

lemma steady_handed:
  assumes "hands_out V m" and "\<And>e. steady V (f (Inl e))" and "\<And>c. (\<And>sel. steady V (c sel)) \<Longrightarrow> steady V (f (Inr c))"
  shows "steady V (bnd m f)"
  unfolding steady_def wlp_bnd
proof (intro allI impI)
  fix w assume inv: "wv_inv V w"
  have "wlp m (\<lambda>res w'. advances V w w' \<and> (\<forall>c sel. res = Inr c \<longrightarrow> steady V (c sel))) w"
    using assms(1) inv by (simp add: hands_out_def)
  then show "wlp m (\<lambda>x. wlp (f x) (\<lambda>_. advances V w)) w"
  proof (rule wlp_mono, goal_cases)
    case (1 res w1)
    then have "steady V (f res)" using assms(2,3) by (cases res) auto
    then show ?case
      using 1 inv by (auto intro!: wlp_mono [OF steadyD, of V "f res" w1] intro: advances_trans dest: advances_inv)
  qed
qed

lemmas tends_rules = tends_basic tends_read tends_bnd tends_on_world

section \<open>Calls of the services\<close>

lemma storage_systemD:
  assumes "storage_system r V"
  shows "0 < sr_MaxJobHistory r" "k8s_now (sr_Lib r) = wv_now V" "retry_law (sr_Lib r) V"
    "tenant_server r V" "order_server r V" "services r V" "storage_providers r V"
  using assms by (simp_all add: storage_system_def)

lemma steady_calls:
  assumes "storage_system r V"
  shows "steady V (sr_List_Secrets r ns sel)" "steady V (sr_Get_HostedControlPlane r key)"
    "steady V (sr_Get_Secret_Data r key)" "hands_out V (sr_client_New r c)" "hands_out V (sr_GetCluster r)"
    "steady V (sr_Eventf r kind key sev reason action msg)"
    "sr_BackendsClient r = Some b \<Longrightarrow> steady V (sb_List_Total b n)"
    "sr_BackendsClient r = Some b \<Longrightarrow> steady V (sb_Get b i)"
    "sr_TiersClient r = Some t \<Longrightarrow> steady V (t n)"
    "steady V (Get (sr_Orders r) key)" "steady V (APIReader_Get (sr_Orders r) key)" "steady V (Update (sr_Orders r) co)"
    "steady V (sr_Order_Status_Patch r old co)" "steady V (sr_List_ClusterOrders r)"
  using storage_systemD(5,6) [OF assms] by (simp_all add: order_server_def services_def del: split_paired_All)

lemma steady_events: "(\<And>a b c. steady V (ev a b c)) \<Longrightarrow> steady V (record_events ev reason action msgs)"
  by (induction msgs) auto

lemma steady_missing:
  "(\<And>a b c. steady V (ev a b c)) \<Longrightarrow> steady V (appendMissingTierWarnings ev defs res amb msg)"
  unfolding appendMissingTierWarnings_def Let_def by (auto intro: steady_events)

lemma steady_classes:
  assumes "\<And>k v. steady V (c (k, v))"
  shows "steady V (getTenantStorageClasses c n)" "steady V (resolveTenantSpecificStorageClasses c n)"
  unfolding getTenantStorageClasses_def resolveTenantSpecificStorageClasses_def Let_def
  by (auto simp: assms split: sum.split)
lemma steady_definition_loop:
  "(\<And>i. steady V (sb_Get client i)) \<Longrightarrow> steady V (definition_loop client tiers cache conns defs)"
  by (induction tiers arbitrary: cache conns defs)
    (auto simp: Let_def split: list.split option.split sum.split)

lemma steady_helpers:
  assumes "storage_system r V"
  shows "steady V (hubSecretExists r n)" "steady V (backendRegistered r)" "steady V (getClusterKubeconfig r co)"
    "steady V (resolveAndInjectTierContext ctx (sr_TiersClient r) (sr_BackendsClient r))"
    "steady V (tenant_eventf r t a b c)"
proof -
  note calls = steady_calls [OF assms]
  show "steady V (hubSecretExists r n)"
    unfolding hubSecretExists_def by (auto simp: calls split: sum.split)
  show "steady V (backendRegistered r)"
    unfolding backendRegistered_def by (auto simp: calls split: sum.split option.split)
  show "steady V (getClusterKubeconfig r co)"
    unfolding getClusterKubeconfig_def Let_def by (auto simp: calls split: sum.split option.split)
  show "steady V (resolveAndInjectTierContext ctx (sr_TiersClient r) (sr_BackendsClient r))"
    unfolding resolveAndInjectTierContext_def resolveTierDefinitions_def
    by (auto simp: calls steady_definition_loop split: sum.split option.split prod.split)
  show "steady V (tenant_eventf r t a b c)" by (simp add: tenant_eventf_def calls)
qed

lemma hands_out_map:
  assumes "hands_out V m" and "\<And>e. \<exists>e'. f (Inl e) = ret (Inl e')" and "\<And>c. f (Inr c) = ret (Inr c)"
  shows "hands_out V (bnd m f)"
  unfolding hands_out_def wlp_bnd
proof (intro allI impI)
  fix w assume "wv_inv V w"
  then have "wlp m (\<lambda>res w'. advances V w w' \<and> (\<forall>c sel. res = Inr c \<longrightarrow> steady V (c sel))) w"
    using assms(1) by (simp add: hands_out_def)
  then show "wlp m (\<lambda>x. wlp (f x) (\<lambda>res w'. advances V w w' \<and> (\<forall>c sel. res = Inr c \<longrightarrow> steady V (c sel)))) w"
  proof (rule wlp_mono, goal_cases)
    case (1 res w')
    show ?case
    proof (cases res)
      case (Inl e)
      obtain e' where "f (Inl e) = ret (Inl e')" using assms(2) by blast
      with Inl 1 show ?thesis by (simp add: wlp_ret)
    qed (use 1 assms(3) in \<open>simp add: wlp_ret\<close>)
  qed
qed

lemma hands_out_helpers:
  assumes "storage_system r V"
  shows "hands_out V (getTargetClient (sr_GetCluster r))" "hands_out V (buildClientFromKubeconfig r kc)"
proof -
  show "hands_out V (getTargetClient (sr_GetCluster r))"
    unfolding getTargetClient_def by (rule hands_out_map [OF steady_calls(5) [OF assms]]) auto
  have "hands_out V (ret (Inl e))" for e by (simp add: hands_out_def wlp_ret)
  moreover have "hands_out V (bnd (sr_client_New r cfg) (\<lambda>res. case res of
      Inl err \<Rightarrow> ret (Inl (Wrapf ''create client: %w'' [] err)) | Inr c \<Rightarrow> ret (Inr c)))" for cfg
    by (rule hands_out_map [OF steady_calls(4) [OF assms]]) auto
  ultimately show "hands_out V (buildClientFromKubeconfig r kc)"
    unfolding buildClientFromKubeconfig_def by (simp split: sum.split)
qed

section \<open>Work on a cluster order\<close>

lemma patch_order_steady:
  assumes "storage_system r V"
  shows "steady V (patchClusterOrderStorageStatus r key st)"
  unfolding patchClusterOrderStorageStatus_def
  by (intro steady_retry storage_systemD(3) [OF assms]) (auto simp: steady_calls [OF assms] split: sum.split)

abbreviation works_on_order :: "'w world_view \<Rightarrow> (ClusterOrder \<times> 'w, 'a) go \<Rightarrow> bool" where
  "works_on_order V m \<equiv> within (\<lambda>_ _. True) V m"

lemma order_edits [simp]:
  "works_on_order V (mod_res f)" "works_on_order V (put_res co)" "works_on_order V (order_condition r a b c)"
  by (auto simp: within_def order_condition_def set_order_condition_def wp_simps)

lemma works_write:
  assumes "storage_system r V"
  shows "works_on_order V (write_object (sr_Orders r))" "works_on_order V (patch_order r)"
  unfolding write_object_def patch_order_def
  by (intro order.frame_basic; auto simp: order.frame_basic steady_calls [OF assms] patch_order_steady [OF assms] split: sum.split)+

lemmas order_rules = order.frame_basic order_edits

lemma works_handed:
  assumes "hands_out V m" and "\<And>e. works_on_order V (f (Inl e))"
    and "\<And>c. (\<And>sel. steady V (c sel)) \<Longrightarrow> works_on_order V (f (Inr c))"
  shows "works_on_order V (bnd (on_world m) f)"
  unfolding within_def wlp_bnd wlp_on_world prod.case
proof (intro allI impI)
  fix co :: ClusterOrder and w assume inv: "wv_inv V w"
  then have "wlp m (\<lambda>res w'. advances V w w' \<and> (\<forall>c sel. res = Inr c \<longrightarrow> steady V (c sel))) w"
    using assms(1) by (simp add: hands_out_def)
  then show "wlp m (\<lambda>x w'. wlp (f x) (\<lambda>_ (r', w'). True \<and> advances V w w') (co, w')) w"
  proof (rule wlp_mono, goal_cases)
    case (1 res w1)
    then have "works_on_order V (f res)" using assms(2,3) by (cases res) auto
    moreover have "wv_inv V w1" using 1 inv by (auto dest: advances_inv)
    ultimately show ?case
      using 1 by (auto intro: advances_trans intro!: wlp_mono [OF withinD [where r = co]])
  qed
qed

lemma works_patch_then:
  assumes "storage_system r V"
  shows "works_on_order V (patch_order_then r step)"
  unfolding patch_order_then_def
  by (intro order_rules works_write assms) (simp add: order_rules split: option.split)

lemma works_discover:
  assumes s: "storage_system r V"
  shows "works_on_order V (discover_order_classes r n kc)"
proof -
  have ev: "steady V (sr_Eventf r k key sev a b c)" for k key sev a b c by (rule steady_calls [OF s])
  show ?thesis
    unfolding discover_order_classes_def
    by (intro within_read works_handed [OF hands_out_helpers(2) [OF s]])
      (auto simp: order_rules steady_classes steady_events ev works_patch_then [OF s]
        intro!: order.frame_basic split: sum.split)
qed

lemma works_provision:
  assumes s: "storage_system r V" and p: "sr_ClusterStorageProvider r = Some p"
  shows "works_on_order V (provision_order r ctx p n kc)"
proof -
  have hon: "honest V (for_order p (WithAdminKubeconfig ctx kc))"
    using storage_systemD(7) [OF s] p by (simp add: storage_providers_def)
  have chk: "works_on_order V (bnd get_res (\<lambda>cur. on_world (CheckAPIServerForNonTerminalProvisionJob
      (Get (sr_Orders r) (ObjectKeyFromObject cur)) (\<lambda>fresh. ClusterStorageJobs (Status fresh)))))"
    by (intro order_rules steady_CheckAPIServer steady_calls [OF s])
  note life = order.RunProvisioningLifecycle_within [OF hon _ chk works_write(2) [OF s]]
  show ?thesis
    unfolding provision_order_def
    by (intro order_rules life)
      (auto simp: order_rules works_patch_then [OF s] works_write [OF s] works_discover [OF s]
        split: prod.split option.split intro!: order.frame_basic)
qed

lemma works_update_order:
  assumes s: "storage_system r V" and p: "sr_ClusterStorageProvider r = Some p"
  shows "works_on_order V (caas_update_order r ctx p n)"
  unfolding caas_update_order_def
  by (intro within_read)
    (auto simp: order_rules works_write [OF s] steady_helpers [OF s] works_patch_then [OF s] works_provision [OF s p]
      split: prod.split option.split sum.split intro!: order.frame_basic)

lemma works_teardown:
  assumes s: "storage_system r V" and p: "sr_ClusterStorageProvider r = Some p"
  shows "works_on_order V (teardown_order r ctx p n deleting)" "works_on_order V (release_order r)"
proof -
  have hon: "honest V (for_order p c)" for c
    using storage_systemD(7) [OF s] p by (simp add: storage_providers_def)
  have "works_on_order V (deprovision_order r ctx p kc)" for kc
    unfolding deprovision_order_def
    by (auto simp: order_rules works_write [OF s] steady_calls [OF s] order.RunDeprovisioningLifecycle_within [OF hon]
        split: option.split prod.split intro!: order.frame_basic)
  then show "works_on_order V (teardown_order r ctx p n deleting)"
    unfolding teardown_order_def
    by (intro within_read)
      (auto simp: order_rules steady_helpers [OF s] split: option.split sum.split intro!: order.frame_basic)
  show "works_on_order V (release_order r)"
    unfolding release_order_def by (intro order_rules works_write [OF s])
qed

section \<open>Work on a tenant\<close>

lemma tenant_serverD:
  assumes "tenant_server r V"
  shows "reads_tenant (sr_MaxJobHistory r) V (Get (sr_Client r) key)"
    and "reads_tenant (sr_MaxJobHistory r) V (APIReader_Get (sr_Client r) key)"
    and "histories_ok (sr_MaxJobHistory r) V (obj, w) \<Longrightarrow>
        wlp (Update (sr_Client r) obj) (\<lambda>res w'. advances V w w' \<and>
          (\<forall>obj'. res = Inr obj' \<longrightarrow> histories_ok (sr_MaxJobHistory r) V (obj', w'))) w"
    and "histories_ok (sr_MaxJobHistory r) V (obj, w) \<Longrightarrow> wlp (sr_Status_Patch r old obj) (\<lambda>_. advances V w) w"
  using assms unfolding tenant_server_def by blast+

lemma reads_tenant_steady: "reads_tenant mh V m \<Longrightarrow> steady V m"
  unfolding reads_tenant_def steady_def by (blast intro: wlp_mono)

text \<open>Writing the storage status: whatever the server holds, the histories written are those computed.\<close>

lemma patchTenant_ok:
  assumes s: "storage_system r V" and ok: "histories_ok (sr_MaxJobHistory r) V (t, w)"
  shows "wlp (patchTenantStorageStatus r key (Status t)) (\<lambda>_. advances V w) w"
  unfolding patchTenantStorageStatus_def
proof (rule retry_lawD [OF storage_systemD(3) [OF s], where P = "\<lambda>w. histories_ok (sr_MaxJobHistory r) V (t, w)"], goal_cases)
  case (2 w)
  note server = tenant_serverD [OF storage_systemD(4) [OF s]]
  have get: "wlp (APIReader_Get (sr_Client r) key) (\<lambda>_. advances V w) w"
    using steadyD [OF reads_tenant_steady [OF server(2)]] both_ok_inv [OF 2] by blast
  show ?case
    unfolding wlp_bnd
  proof (rule wlp_mono [OF get], goal_cases)
    case (1 res w1)
    have "wlp (sr_Status_Patch r old t') (\<lambda>_. advances V w) w1"
      if "ten_StorageBackendJobs (Status t') = ten_StorageBackendJobs (Status t)"
        "ten_ClusterStorageJobs (Status t') = ten_ClusterStorageJobs (Status t)" for old t'
      using 1 2 that by (intro wlp_mono [OF server(4)]) (auto intro: both_ok_frame advances_trans)
    with 1 show ?case by (auto simp: wp_simps map_status_def split: sum.split)
  qed
qed (use ok both_ok_frame in \<open>auto intro: both_ok_frame\<close>)

lemma write_object_tends:
  assumes "storage_system r V"
  shows "tends (sr_MaxJobHistory r) V (write_object (sr_Client r))"
  unfolding tends_def
proof (intro allI impI)
  fix t w assume ok: "histories_ok (sr_MaxJobHistory r) V (t, w)"
  show "wlp (write_object (sr_Client r)) (\<lambda>_ (t', w'). histories_ok (sr_MaxJobHistory r) V (t', w') \<and> advances V w w') (t, w)"
    unfolding write_object_def wlp_bnd [of get_res] wlp_bnd [of "on_world _"] wlp_get_res wlp_on_world prod.case
    using ok by (intro wlp_mono [OF tenant_serverD(3) [OF storage_systemD(4) [OF assms] ok]])
      (auto simp: wp_simps intro: both_ok_frame split: sum.split)
qed

lemma lifecycle_tends:
  assumes s: "storage_system r V" and hon: "honest V p"
  shows "tends (sr_MaxJobHistory r) V (tenant_lifecycle r p backend_jobs)"
    and "tends (sr_MaxJobHistory r) V (tenant_lifecycle r p class_jobs)"
proof -
  note D = storage_systemD [OF s]
  note chk = steady_CheckAPIServer [OF reads_tenant_steady [OF tenant_serverD(1) [OF D(4)]]]
  show "tends (sr_MaxJobHistory r) V (tenant_lifecycle r p backend_jobs)"
    unfolding tends_def tenant_lifecycle_def D(2)
    by (intro allI impI backend.RunProvisioningLifecycle_both [OF _ D(1) hon chk patchTenant_ok [OF s]])
  show "tends (sr_MaxJobHistory r) V (tenant_lifecycle r p class_jobs)"
    unfolding tends_def tenant_lifecycle_def D(2) both_ok_sym [of _ backend_jobs]
    by (intro allI impI classes.RunProvisioningLifecycle_both [OF _ D(1) hon chk patchTenant_ok [OF s]])
      (assumption, rule both_ok_sym [THEN iffD1], assumption)
qed

lemma deprovisioning_tends:
  assumes s: "storage_system r V" and hon: "honest V p"
  shows "tends (sr_MaxJobHistory r) V
      (RunDeprovisioningLifecycle (wv_now V) p backend_jobs (sr_MaxJobHistory r) poll)"
    and "tends (sr_MaxJobHistory r) V
      (RunDeprovisioningLifecycle (wv_now V) p class_jobs (sr_MaxJobHistory r) poll)"
  using backend.RunDeprovisioningLifecycle_both [OF _ storage_systemD(1) [OF s] hon]
    classes.RunDeprovisioningLifecycle_both [OF _ storage_systemD(1) [OF s] hon]
  by (simp_all add: tends_def both_ok_sym [of _ backend_jobs])

lemma tends_edits [simp]:
  "tends mh V (set_tenant_condition lib c a b m)" "tends mh V (set_class_status r msg ready reason cl)"
  "tends mh V (mod_res (set_finalizers fs))" "tends mh V (mod_res (removeTenantClusterStorageEntry n))"
  "tends mh V (mod_res (\<lambda>t. set_finalizers (g t) t))" "tends mh V (mod_res (updateTenantClusterStorage lib co))"
  unfolding set_tenant_condition_def set_class_status_def
  by (intro tends_bnd tends_mod_res; simp add: Tenant_SetStatusCondition_def set_finalizers_def
      removeTenantClusterStorageEntry_def updateTenantClusterStorage_def Let_def map_status_def)+


lemma storage_honest:
  assumes "storage_system r V"
  shows "sr_BackendProvider r = Some p \<Longrightarrow> honest V (p ctx)"
    and "sr_ClusterStorageProvider r = Some q \<Longrightarrow> honest V (for_tenant q ctx)"
  using storage_systemD(7) [OF assms] by (simp_all add: storage_providers_def)

lemma provisioning_tends:
  assumes s: "storage_system r V" and "honest V p"
  shows "tends (sr_MaxJobHistory r) V (handleBackendProvisioning r p)"
    and "tends (sr_MaxJobHistory r) V (handleClusterStorageProvisioning r p ready)"
  unfolding handleBackendProvisioning_def handleClusterStorageProvisioning_def
  by (intro tends_bnd; simp add: lifecycle_tends [OF assms] split: option.split)+

lemma warn_tends:
  assumes s: "storage_system r V"
  shows "tends mh V (warn_duplicates r msgs)" "tends mh V (with_missing r defs res amb msg)"
  unfolding warn_duplicates_def with_missing_def
  by (intro tends_rules steady_events steady_missing steady_helpers [OF s])+

lemma handleBackendReadiness_tends:
  assumes s: "storage_system r V"
  shows "tends (sr_MaxJobHistory r) V (handleBackendReadiness r ctx n)"
  unfolding handleBackendReadiness_def
  by (intro tends_bnd tends_on_world steady_helpers [OF s])
    (auto simp: tends_on_world steady_helpers [OF s] provisioning_tends [OF s storage_honest(1) [OF s]]
      split: sum.split bool.split option.split intro!: tends_bnd)

lemma resolve_tends:
  assumes s: "storage_system r V" and c: "\<And>k v. steady V (c (k, v))"
  shows "honest V p \<Longrightarrow> tends (sr_MaxJobHistory r) V (resolve_with_provider r p c defs n ready)"
    and "tends (sr_MaxJobHistory r) V (resolve_without_provider r c defs n)"
  unfolding resolve_with_provider_def resolve_without_provider_def
  by (intro tends_bnd tends_on_world steady_classes c;
      auto simp: tends_on_world steady_classes c warn_tends [OF s] provisioning_tends [OF s]
        split: sum.split intro!: tends_bnd)+

lemma with_order_tends:
  "works_on_order V m \<Longrightarrow> tends mh V (on_world (with_object co m))"
  by (intro tends_on_world within_with_object)

lemma caas_loops_tend:
  assumes s: "storage_system r V" and p: "sr_ClusterStorageProvider r = Some p"
  shows "tends mh V (caas_update_loop r ctx p n cos)" "tends mh V (caas_delete_loop r ctx p n deleting cos)"
proof -
  note orders = with_order_tends [OF works_update_order [OF s p]] with_order_tends [OF works_teardown(1) [OF s p]]
    with_order_tends [OF works_teardown(2) [OF s p]]
  show "tends mh V (caas_update_loop r ctx p n cos)"
  proof (induction cos)
    case (Cons co cos)
    then show ?case
      unfolding caas_update_loop.simps
      by (intro tends_bnd orders) (auto intro!: tends_bnd split: prod.split order_step.split)
  qed simp
  show "tends mh V (caas_delete_loop r ctx p n deleting cos)"
  proof (induction cos)
    case (Cons co cos)
    then show ?case
      unfolding caas_delete_loop.simps
      by (intro tends_bnd orders)
        (auto simp: orders intro!: tends_bnd split: prod.split order_step.split option.split)
  qed simp
qed

lemma caas_tends:
  assumes s: "storage_system r V" and p: "sr_ClusterStorageProvider r = Some p"
  shows "tends mh V (handleCaaSUpdate r ctx p)" "tends mh V (handleCaaSDelete r ctx p deleting)"
  unfolding handleCaaSUpdate_def handleCaaSDelete_def
  by (intro tends_read tends_bnd tends_on_world steady_calls [OF s];
      simp add: caas_loops_tend [OF s p] split: sum.split)+

lemma ensure_finalizer_tends:
  assumes s: "storage_system r V"
  shows "tends (sr_MaxJobHistory r) V (ensure_finalizer (sr_Lib r) (sr_Client r) f)"
proof -
  have "wlp (write_object (sr_Client r)) (\<lambda>_ (t', w'). histories_ok (sr_MaxJobHistory r) V (t', w') \<and> advances V w w')
      (set_finalizers fs t, w)"
    if "histories_ok (sr_MaxJobHistory r) V (t, w)" for fs t w
    by (rule tendsD [OF write_object_tends [OF s]], rule both_ok_frame [OF that]) (simp_all add: set_finalizers_def)
  then show ?thesis
    by (simp add: tends_def ensure_finalizer_def wlp_get_res wlp_put_res wlp_bnd wlp_ret)
qed

lemma caas_clusters_tends:
  assumes "storage_system r V" and "sr_ClusterStorageProvider r = Some p"
  shows "tends mh V (caas_clusters r ctx p)"
  unfolding caas_clusters_def
  by (intro tends_bnd caas_tends assms) (auto intro!: tends_bnd caas_tends assms split: prod.split)

lemma finish_update_tends:
  assumes s: "storage_system r V"
  shows "tends (sr_MaxJobHistory r) V (finish_update r ctx)"
proof (cases "sr_ClusterStorageProvider r")
  case (Some p)
  have poll: "wlp (PollJob (for_tenant p ctx) \<lparr>State_Jobs = class_jobs, State_DesiredConfigVersion = ''''\<rparr> l
        (sr_StatusPollInterval r) None)
      (\<lambda>_ (t', w'). histories_ok (sr_MaxJobHistory r) V (t', w') \<and> advances V w w') (t, w)"
    if "histories_ok (sr_MaxJobHistory r) V (t, w)"
      "FindLatestJobByType (ten_ClusterStorageJobs (Status t)) JobTypeProvision = Some l" for t w l
    unfolding both_ok_sym [of _ backend_jobs]
    by (rule classes.PollJob_both [OF _ storage_honest(2) [OF s Some]])
      (use that in \<open>simp_all add: both_ok_sym [of _ backend_jobs]\<close>)
  note clusters = caas_clusters_tends [OF s Some, of "sr_MaxJobHistory r" ctx, THEN tendsD]
  show ?thesis
    unfolding finish_update_def Some tends_def option.case wlp_bnd [of "read_jobs _"] wlp_read_jobs prod.case
    by (auto simp: poll clusters split: option.split)
qed (simp add: finish_update_def)

lemma Storage_handleUpdate_tends:
  assumes s: "storage_system r V"
  shows "tends (sr_MaxJobHistory r) V (Storage_handleUpdate r ctx)"
proof -
  note target = tends_handed [OF hands_out_helpers(1) [OF s]]
  have second: "tends (sr_MaxJobHistory r) V (bnd (on_world (getTargetClient (sr_GetCluster r))) (\<lambda>cluster. case cluster of
      Inl err \<Rightarrow> ret (no_requeue, Some err)
    | Inr targetClient \<Rightarrow> bnd (case sr_ClusterStorageProvider r of
          Some provider \<Rightarrow> resolve_with_provider r (for_tenant provider ctx') targetClient defs n ready
        | None \<Rightarrow> resolve_without_provider r targetClient defs n) (\<lambda>stage2. case stage2 of
          Some out \<Rightarrow> ret out
        | None \<Rightarrow> finish_update r ctx')))" for ctx' defs n ready
    by (intro target)
      (auto simp: resolve_tends [OF s] storage_honest(2) [OF s] finish_update_tends [OF s] intro!: tends_bnd
        split: option.split)
  show ?thesis
    unfolding Storage_handleUpdate_def Let_def
    by (intro tends_read tends_bnd ensure_finalizer_tends [OF s])
      (auto simp: tends_on_world steady_helpers [OF s] handleBackendReadiness_tends [OF s] second
        intro!: tends_bnd split: option.split prod.split sum.split)
qed

section \<open>Deletion\<close>

lemma stage_then_tends: "tends mh V m \<Longrightarrow> tends mh V k \<Longrightarrow> tends mh V (stage_then m k)"
  unfolding stage_then_def by (intro tends_bnd) (auto split: prod.split)

lemma delete_stages_tend:
  assumes s: "storage_system r V"
  shows "tends (sr_MaxJobHistory r) V (handleClusterStorageDeprovisioning r ctx)"
    and "tends (sr_MaxJobHistory r) V (handleBackendDeprovisioning r ctx)"
    and "tends (sr_MaxJobHistory r) V (release_tenant r)"
proof -
  note life = deprovisioning_tends [OF s storage_honest(2) [OF s]] deprovisioning_tends [OF s storage_honest(1) [OF s]]
  show "tends (sr_MaxJobHistory r) V (handleClusterStorageDeprovisioning r ctx)"
    unfolding handleClusterStorageDeprovisioning_def storage_systemD(2) [OF s]
    by (auto simp: life intro!: tends_bnd split: option.split prod.split)
  show "tends (sr_MaxJobHistory r) V (handleBackendDeprovisioning r ctx)"
    unfolding handleBackendDeprovisioning_def storage_systemD(2) [OF s]
    by (auto simp: life tends_on_world steady_helpers [OF s] intro!: tends_bnd split: option.split prod.split sum.split)
  show "tends (sr_MaxJobHistory r) V (release_tenant r)"
    unfolding release_tenant_def by (intro tends_bnd write_object_tends [OF s]) simp_all
qed

lemma first_stages_tend:
  assumes s: "storage_system r V"
  shows "tends mh V (case sr_ClusterStorageProvider r of None \<Rightarrow> ret (no_requeue, None)
      | Some provider \<Rightarrow> handleCaaSDelete r ctx provider True)"
    and "tends (sr_MaxJobHistory r) V (bnd (read_jobs class_jobs) (\<lambda>jobs.
      if \<not> classCleanupDone jobs then handleClusterStorageDeprovisioning r ctx else ret (no_requeue, None)))"
  by (auto simp: caas_tends [OF s] delete_stages_tend [OF s] split: option.split intro!: tends_bnd)

lemma Storage_handleDelete_tends:
  assumes s: "storage_system r V"
  shows "tends (sr_MaxJobHistory r) V (Storage_handleDelete r ctx)"
  unfolding Storage_handleDelete_def
  by (intro tends_read)
    (auto simp: tends_on_world steady_helpers [OF s] split: prod.split
      intro!: tends_bnd [of _ _ "on_world _"] stage_then_tends first_stages_tend [OF s] delete_stages_tend [OF s])

lemma tends_state:
  assumes "tends mh V m" and "histories_ok mh V s" and "m s = Some (x, s')"
  shows "histories_ok mh V s'"
  using assms wlpD [OF tendsD [OF assms(1), of "fst s" "snd s"], of x s'] by (cases s') simp

section \<open>Reconciliation\<close>

lemma tends_with_object:
  assumes "tends mh V m" and "histories_ok mh V (obj, w)"
  shows "wlp (with_object obj m) (\<lambda>(_, obj') w'. histories_ok mh V (obj', w') \<and> advances V w w') w"
  using tendsD [OF assms] by (auto simp: wlp_def with_object_def split: option.splits prod.splits)

lemma Storage_Reconcile_steady:
  assumes s: "storage_system r V"
  shows "steady V (Storage_Reconcile r key)"
  unfolding steady_def
proof (intro allI impI)
  fix w assume inv: "wv_inv V w"
  let ?mh = "sr_MaxJobHistory r"
  have get: "wlp (Get (sr_Client r) key) (\<lambda>res w'. advances V w w' \<and> (\<forall>obj. res = Inr obj \<longrightarrow> histories_ok ?mh V (obj, w'))) w"
    using tenant_serverD(1) [OF storage_systemD(4) [OF s]] inv by (simp add: reads_tenant_def)
  have work: "wlp (bnd (with_object obj m) (\<lambda>((res, err), obj').
      if \<not> DeepEqual (sr_Client r) (Status obj') (Status obj) then
        bnd (patchTenantStorageStatus r (ObjectKeyFromObject obj') (Status obj')) (\<lambda>updateErr.
          case updateErr of Some e \<Rightarrow> ret (no_requeue, Some e) | None \<Rightarrow> ret (res, err))
      else ret (res, err))) (\<lambda>_. advances V w) w1"
    if "tends ?mh V m" "histories_ok ?mh V (obj, w1)" "advances V w w1" for m obj w1
    unfolding wlp_bnd [of "with_object _ _"]
  proof (rule wlp_mono [OF tends_with_object [OF that(1,2)]], goal_cases)
    case (1 x w2)
    obtain res err obj' where x: "x = ((res, err), obj')" by (metis surj_pair)
    have ok: "histories_ok ?mh V (obj', w2)" and adv: "advances V w w2"
      using 1 that(3) by (auto simp: x intro: advances_trans)
    have "wlp (patchTenantStorageStatus r (ObjectKeyFromObject obj') (Status obj')) (\<lambda>_. advances V w) w2"
      using adv by (auto intro: advances_trans intro!: wlp_mono [OF patchTenant_ok [OF s ok]])
    then show ?case
      using adv by (auto simp: x wlp_bnd wlp_ret elim!: wlp_mono split: option.split)
  qed
  show "wlp (Storage_Reconcile r key) (\<lambda>_. advances V w) w"
    unfolding Storage_Reconcile_def wlp_bnd [of "Get _ _"]
    by (rule wlp_mono [OF get])
      (auto simp: wlp_ret work [OF Storage_handleUpdate_tends [OF s]] work [OF Storage_handleDelete_tends [OF s]]
        split: sum.split)
qed

end
