(* ===== verification/Storage_Properties.thy ===== *)
theory Storage_Properties
  imports Storage_Laws Lifecycle_Properties
begin

text \<open>
  The properties of the storage controller (\<^verbatim>\<open>internal/controller/storage_controller.go\<close>) and of the tenant
  controller: the order of a deletion, the invariant of the histories, the table of the clusters in a tenant's
  status, and what a tenant's phase says.
\<close>

section \<open>The order of a deletion\<close>




















section \<open>A sample world\<close>

text \<open>One stored tenant and the number of jobs started so far.\<close>

record storage_world =
  sw_started :: nat
  sw_tenant :: Tenant

definition sw_bump :: "storage_world \<Rightarrow> storage_world" where
  "sw_bump w = w\<lparr>sw_started := Suc (sw_started w)\<rparr>"

definition history_fits :: "nat \<Rightarrow> JobStatus list \<Rightarrow> bool" where
  "history_fits n js \<longleftrightarrow>
     history_ok 10 (int n * Second) js \<and> set (map JobID js) \<subseteq> job_name ` {m. m \<le> n} \<and> all_blocking js"

definition sw_ok :: "storage_world \<Rightarrow> bool" where
  "sw_ok w \<longleftrightarrow>
     history_fits (sw_started w) (ten_StorageBackendJobs (Status (sw_tenant w))) \<and>
     history_fits (sw_started w) (ten_ClusterStorageJobs (Status (sw_tenant w)))"

definition sw_view :: "storage_world world_view" where
  "sw_view = sample_view sw_started (\<lambda>_. {}) sw_ok"

definition sw_client :: "(TenantSpec, TenantStatus, storage_world) kclient" where
  "sw_client =
     (let get = (\<lambda>key w. Some (if key = ObjectKeyFromObject (sw_tenant w) then Inr (sw_tenant w)
                   else Inl (APIStatusError ''NotFound'' ''''), w)) in
      \<lparr>Get = get, APIReader_Get = get,
       Update = (\<lambda>t w. Some (Inr t, w\<lparr>sw_tenant := t\<rparr>)),
       Status_Update = (\<lambda>t w. Some (None, w\<lparr>sw_tenant := t\<rparr>)), DeepEqual = (=)\<rparr>)"

definition sw_orders :: "(ClusterOrderSpec, ClusterOrderStatus, storage_world) kclient" where
  "sw_orders =
     \<lparr>Get = (\<lambda>key. ret (Inl (APIStatusError ''NotFound'' ''''))), APIReader_Get = (\<lambda>key. ret (Inl (APIStatusError ''NotFound'' ''''))),
      Update = (\<lambda>co. ret (Inr co)), Status_Update = (\<lambda>co. ret None), DeepEqual = (\<lambda>a b. True)\<rparr>"

definition sw_provider :: "('r, storage_world) ProvisioningProvider" where
  "sw_provider = sample_provider sw_started sw_bump JobStateRunning"

definition sw_reconciler :: "storage_world StorageReconciler" where
  "sw_reconciler =
     \<lparr>sr_Lib = sample_lib (\<lambda>w. int (sw_started w) * Second), sr_Client = sw_client,
      sr_Status_Patch = (\<lambda>old t w. Some (None, w\<lparr>sw_tenant := t\<rparr>)),
      sr_List_Tenants = (\<lambda>ns. gets (\<lambda>w. Inr [sw_tenant w])), sr_Orders = sw_orders,
      sr_Order_Status_Patch = (\<lambda>old co. ret None), sr_List_ClusterOrders = ret (Inr []),
      sr_List_Secrets = (\<lambda>ns sel. ret (Inr [''secret''])),
      sr_Get_HostedControlPlane = (\<lambda>key. ret (Inr None)), sr_Get_Secret_Data = (\<lambda>key. ret (Inr Map.empty)),
      sr_RESTConfigFromKubeConfig = (\<lambda>kc. Inr kc), sr_client_New = (\<lambda>c. ret (Inr (\<lambda>sel. ret (Inr [])))),
      sr_GetCluster = ret (Inr (\<lambda>sel. ret (Inr []))), sr_Eventf = (\<lambda>kind key sev reason action msg. ret ()),
      sr_env_config_namespace = '''', sr_tenantNamespace = ''tenants'', sr_targetCluster = '''',
      sr_BackendProvider = Some (\<lambda>ctx. sw_provider),
      sr_ClusterStorageProvider = Some \<lparr>for_tenant = (\<lambda>ctx. sw_provider), for_order = (\<lambda>ctx. sw_provider)\<rparr>,
      sr_StatusPollInterval = Minute, sr_MaxJobHistory = 10, sr_BackendsClient = None, sr_TiersClient = None\<rparr>"

definition sw_deleted :: Tenant where
  "sw_deleted =
     \<lparr>Meta = \<lparr>Name = ''acme'', Namespace = ''tenants'', Labels = Map.empty, Annotations = Map.empty,
        Finalizers = [storageFinalizer], DeletionTimestamp = Some 0\<rparr>,
      Spec = (),
      Status = \<lparr>ten_Phase = PhaseReady, ten_Namespace = ''acme'', ten_StorageClasses = [], ten_Conditions = [],
        ten_ProvisioningJobs = [], ten_StorageBackendJobs = [], ten_ClusterStorageJobs = [],
        ten_StorageBackends = [], ten_ClusterStorage = []\<rparr>\<rparr>"

lemma sw_view_simps [simp]:
  "wv_now sw_view w = int (sw_started w) * Second" "wv_issued sw_view w = job_name ` {n. n \<le> sw_started w}"
  "wv_released sw_view w = {}" "wv_inv sw_view = sw_ok" "wv_strict sw_view"
  by (simp_all add: sw_view_def sample_view_def)

lemma system_ok_sw:
  "system_ok 10 ref sw_view (t, w) \<longleftrightarrow> history_fits (sw_started w) (Jobs_get ref t) \<and> sw_ok w"
  by (auto simp: system_ok_def history_fits_def)

lemma history_fits_mono:
  assumes "history_fits n js" and "m = Suc n"
  shows "history_fits m js"
proof -
  have "job_name ` {k. k \<le> n} \<subseteq> job_name ` {k. k \<le> m}" using assms(2) by (intro image_mono) auto
  with assms show ?thesis unfolding history_fits_def by (auto intro: history_ok_clock)
qed

lemma sw_store:
  "histories_ok 10 sw_view (t, w) \<Longrightarrow> advances sw_view w (w\<lparr>sw_tenant := t\<rparr>) \<and> histories_ok 10 sw_view (t, w\<lparr>sw_tenant := t\<rparr>)"
  by (auto simp: both_ok_def system_ok_sw advances_def sw_ok_def)

lemma sw_honest: "honest sw_view sw_provider"
  unfolding sw_view_def sw_provider_def
  by (rule sample_honest) (auto simp: sw_bump_def sw_ok_def intro: history_fits_mono)

lemma sw_server: "tenant_server sw_reconciler sw_view"
  unfolding tenant_server_def
  by (auto simp: reads_tenant_def wlp_def sw_reconciler_def sw_client_def Let_def sw_store both_ok_def system_ok_sw sw_ok_def
      dest: sw_store)

lemma sw_system: "storage_system sw_reconciler sw_view"
proof -
  have "retry_law (sr_Lib sw_reconciler) sw_view"
    by (simp add: retry_law_def sw_reconciler_def sample_lib_def)
  moreover have "order_server sw_reconciler sw_view"
    by (simp add: order_server_def sw_reconciler_def sw_orders_def)
  moreover have "services sw_reconciler sw_view"
    by (simp add: services_def sw_reconciler_def hands_out_def wlp_ret)
  moreover have "storage_providers sw_reconciler sw_view"
    by (simp add: storage_providers_def sw_reconciler_def sw_honest)
  moreover have "0 < sr_MaxJobHistory sw_reconciler \<and> k8s_now (sr_Lib sw_reconciler) = wv_now sw_view"
    by (simp add: sw_reconciler_def sample_lib_def fun_eq_iff)
  ultimately show ?thesis using sw_server by (simp add: storage_system_def)
qed


lemma sw_start: "histories_ok 10 sw_view (sw_deleted, \<lparr>sw_started = 0, sw_tenant = sw_deleted\<rparr>)"
  by (simp add: both_ok_def system_ok_sw sw_ok_def sw_deleted_def history_fits_def history_ok_def older_terminal_def all_blocking_def)


section \<open>Reconciliations\<close>

text \<open>
  C4: a reconciliation of the storage controller, whatever the kind and state of the tenant, of the cluster orders and
  of the services, keeps every invariant of the world that is kept by writing tenants whose two job histories are
  well-formed: it writes no others. It does not turn the clock back or forget a job.
\<close>

theorem Storage_keeps_world:
  assumes "storage_system r V" and "wv_inv V w" and "Storage_Reconcile r key w = Some (out, w')"
  shows "wv_inv V w' \<and> wv_now V w \<le> wv_now V w' \<and> wv_issued V w \<subseteq> wv_issued V w'"
  using wlpD [OF steadyD [OF Storage_Reconcile_steady [OF assms(1)] assms(2)] assms(3)] assms(2)
  by (simp add: advances_def)

theorem Storage_keeps_world_witness:
  "\<exists>out w'. Storage_Reconcile sw_reconciler (''tenants'', ''acme'') \<lparr>sw_started = 0, sw_tenant = sw_deleted\<rparr> = Some (out, w') \<and>
     sw_ok w' \<and> sw_started w' = 1"
proof -
  let ?w = "\<lparr>sw_started = 0, sw_tenant = sw_deleted\<rparr>"
  have inv: "wv_inv sw_view ?w" using sw_start by (simp add: both_ok_def system_ok_def)
  have "case Storage_Reconcile sw_reconciler (''tenants'', ''acme'') ?w of None \<Rightarrow> False | Some (out, w') \<Rightarrow> sw_started w' = 1"
    by code_simp
  then obtain out w' where run: "Storage_Reconcile sw_reconciler (''tenants'', ''acme'') ?w = Some (out, w')" "sw_started w' = 1"
    by (auto split: option.splits)
  with Storage_keeps_world [OF sw_system inv run(1)] show ?thesis by auto
qed

section \<open>The table of clusters\<close>

definition cluster_entry :: "Tenant \<Rightarrow> string \<Rightarrow> ClusterStorageStatus option" where
  "cluster_entry t n = find (\<lambda>cs. css_ClusterName cs = n) (ten_ClusterStorage (Status t))"

definition cluster_names :: "Tenant \<Rightarrow> string list" where
  "cluster_names t = map css_ClusterName (ten_ClusterStorage (Status t))"

text \<open>What the conditions of an order say about its storage.\<close>

definition order_entry :: "'w k8s \<Rightarrow> ClusterOrder \<Rightarrow> ClusterStorageStatus" where
  "order_entry lib co =
     \<lparr>css_ClusterName = Name (Meta co), css_Ready = ClusterOrder_IsStatusConditionTrue lib co ''ClusterStorageReady'',
      css_Reason = (if ClusterOrder_IsStatusConditionTrue lib co ''ClusterStorageReady'' then ''Found''
        else (case FindStatusCondition lib (Conditions (Status co)) ''ClusterStorageReady'' of
                None \<Rightarrow> ''NotFound'' | Some cond \<Rightarrow> cond_Reason cond))\<rparr>"

lemma find_set_cluster_entry:
  "find (\<lambda>cs. css_ClusterName cs = m) (set_cluster_entry n ready reason css) =
     (if m = n then Some \<lparr>css_ClusterName = n, css_Ready = ready, css_Reason = reason\<rparr>
      else find (\<lambda>cs. css_ClusterName cs = m) css)"
  by (induction css) auto

lemma names_set_cluster_entry:
  "map css_ClusterName (set_cluster_entry n ready reason css) =
     (if n \<in> css_ClusterName ` set css then map css_ClusterName css else map css_ClusterName css @ [n])"
  by (induction css) auto

lemma find_filter_names:
  "find (\<lambda>cs. css_ClusterName cs = m) (filter (\<lambda>cs. css_ClusterName cs \<noteq> n) css) =
     (if m = n then None else find (\<lambda>cs. css_ClusterName cs = m) css)"
  by (induction css) auto

lemma filter_set_cluster_entry:
  "filter (\<lambda>cs. css_ClusterName cs \<noteq> n) (set_cluster_entry n ready reason css) = filter (\<lambda>cs. css_ClusterName cs \<noteq> n) css"
  by (induction css) auto

text \<open>
  C40: the table of clusters in a tenant's status behaves as a map from names to entries. After an update for a cluster
  order the entry of its cluster is what the order's conditions say, after a removal there is none, and no other
  entry is touched; a name never occurs twice, an update adds the name at most once and at the end, and
  removing an entry undoes adding it.
\<close>

theorem cluster_table:
  assumes "distinct (cluster_names t)"
  shows "cluster_entry (updateTenantClusterStorage lib co t) n =
      (if n = Name (Meta co) then Some (order_entry lib co) else cluster_entry t n) \<and>
    cluster_entry (removeTenantClusterStorageEntry m t) n = (if n = m then None else cluster_entry t n) \<and>
    distinct (cluster_names (updateTenantClusterStorage lib co t)) \<and>
    distinct (cluster_names (removeTenantClusterStorageEntry m t)) \<and>
    (\<exists>new. cluster_names (updateTenantClusterStorage lib co t) = cluster_names t @ new) \<and>
    (Name (Meta co) \<notin> set (cluster_names t) \<longrightarrow>
       removeTenantClusterStorageEntry (Name (Meta co)) (updateTenantClusterStorage lib co t) = t)"
proof -
  have "removeTenantClusterStorageEntry (Name (Meta co)) (updateTenantClusterStorage lib co t) = t"
    if "Name (Meta co) \<notin> set (cluster_names t)"
  proof -
    have "filter (\<lambda>cs. css_ClusterName cs \<noteq> Name (Meta co)) (ten_ClusterStorage (Status t)) = ten_ClusterStorage (Status t)"
      using that by (intro filter_True) (force simp: cluster_names_def)
    then show ?thesis
      by (cases t) (simp add: updateTenantClusterStorage_def removeTenantClusterStorageEntry_def map_status_def Let_def
          filter_set_cluster_entry)
  qed
  with assms show ?thesis
    by (auto simp: cluster_entry_def cluster_names_def updateTenantClusterStorage_def removeTenantClusterStorageEntry_def
        order_entry_def map_status_def Let_def find_set_cluster_entry find_filter_names names_set_cluster_entry
        distinct_map_filter)
qed

definition sw_two_clusters :: Tenant where
  "sw_two_clusters = map_status (\<lambda>st. st\<lparr>ten_ClusterStorage :=
     [\<lparr>css_ClusterName = ''c1'', css_Ready = True, css_Reason = ''Found''\<rparr>,
      \<lparr>css_ClusterName = ''c2'', css_Ready = False, css_Reason = ''NotFound''\<rparr>]\<rparr>) sw_deleted"

theorem cluster_table_witness:
  "distinct (cluster_names sw_two_clusters) \<and>
   (\<forall>(lib :: unit k8s) co. cluster_entry (updateTenantClusterStorage lib co sw_two_clusters) ''c2'' =
      (if ''c2'' = Name (Meta co) then Some (order_entry lib co)
       else Some \<lparr>css_ClusterName = ''c2'', css_Ready = False, css_Reason = ''NotFound''\<rparr>)) \<and>
   cluster_entry (removeTenantClusterStorageEntry ''c1'' sw_two_clusters) ''c1'' = None"
proof -
  have d: "distinct (cluster_names sw_two_clusters)"
    by (simp add: cluster_names_def sw_two_clusters_def map_status_def)
  have e: "cluster_entry sw_two_clusters ''c2'' = Some \<lparr>css_ClusterName = ''c2'', css_Ready = False, css_Reason = ''NotFound''\<rparr>"
    by (simp add: cluster_entry_def sw_two_clusters_def map_status_def)
  have "cluster_entry (updateTenantClusterStorage lib co sw_two_clusters) ''c2'' =
      (if ''c2'' = Name (Meta co) then Some (order_entry lib co) else cluster_entry sw_two_clusters ''c2'')"
    for lib :: "unit k8s" and co by (rule cluster_table [OF d, THEN conjunct1])
  moreover have "cluster_entry (removeTenantClusterStorageEntry ''c1'' sw_two_clusters) ''c1'' = None"
    by (simp add: cluster_table [OF d, THEN conjunct2, THEN conjunct1])
  ultimately show ?thesis using d unfolding e by blast
qed

end
