(* ===== verification/Cluster_Order_Properties.thy ===== *)
theory Cluster_Order_Properties
  imports Cluster_Orders Storage_Properties
begin

text \<open>
  Properties of the controller of cluster orders. \<open>order_hub\<close> says what it relies on: the clients read and keep
  orders whose job history is well-formed, the other calls only advance the world, and the provider, if there is one,
  is honest. Under it a reconciliation keeps the world in order; a deletion does its work in order: it deletes the
  namespace only when no hosted cluster is left in it and gives up the finalizer only when deprovisioning
  is over and the namespace gone. The last parts are about the status patches of the two controllers that write
  cluster orders, and about what an order shows of its hosted cluster and its node pools.
\<close>

section \<open>What is assumed of the hub\<close>

definition order_calls :: "'w ClusterOrderReconciler \<Rightarrow> 'w world_view \<Rightarrow> bool" where
  "order_calls r V \<longleftrightarrow>
     (\<forall>obj f. steady V (co_CreateOrUpdate r obj f)) \<and> (\<forall>sel. steady V (co_List_Namespaces r sel)) \<and>
     (\<forall>ns sel. steady V (co_List_HostedClusters r ns sel)) \<and> (\<forall>ns sel. steady V (co_List_NodePools r ns sel)) \<and>
     (\<forall>ns. steady V (co_Delete_Namespace r ns))"

definition order_hub :: "'w ClusterOrderReconciler \<Rightarrow> 'w world_view \<Rightarrow> bool" where
  "order_hub r V \<longleftrightarrow> tidy r V \<and> order_calls r V \<and>
     (\<forall>old co w. system_ok (MaxJobHistory r) status_jobs V (co, w) \<longrightarrow>
        wlp (co_Status_Patch r old co) (\<lambda>_. advances V w) w)"

lemma order_hubD:
  assumes "order_hub r V"
  shows "tidy r V" and "system_ok (MaxJobHistory r) status_jobs V (co, w) \<Longrightarrow> wlp (co_Status_Patch r old co) (\<lambda>_. advances V w) w"
  using assms unfolding order_hub_def by blast+

lemma order_callsD [simp]:
  assumes "order_hub r V"
  shows "steady V (co_CreateOrUpdate r obj f)" "steady V (co_List_Namespaces r sel)"
    "steady V (co_List_HostedClusters r ns sel)" "steady V (co_List_NodePools r ns sel)" "steady V (co_Delete_Namespace r ns)"
  using assms unfolding order_hub_def order_calls_def by blast+

section \<open>Every step keeps the history well-formed\<close>

abbreviation order_keeps :: "'w ClusterOrderReconciler \<Rightarrow> 'w world_view \<Rightarrow> (ClusterOrder \<times> 'w, 'a) go \<Rightarrow> bool" where
  "order_keeps r V m \<equiv> orderly (MaxJobHistory r) status_jobs V m"

lemma patch_writes:
  assumes h: "order_hub r V" and ok: "system_ok (MaxJobHistory r) status_jobs V (co, w)"
  shows "wlp (patchStatusWithRetry r key (Status co)) (\<lambda>_. advances V w) w"
proof -
  let ?P = "\<lambda>w. system_ok (MaxJobHistory r) status_jobs V (co, w)"
  let ?body = "bnd (APIReader_Get (Client r) key) (\<lambda>res. case res of Inl err \<Rightarrow> ret (Some err)
      | Inr latest \<Rightarrow> bnd (gets (k8s_now (Lib r))) (\<lambda>t. co_Status_Patch r latest (merge_order_status (Lib r) t (Status co) latest)))"
  have "wlp ?body (\<lambda>_. advances V w) w" if "?P w" for w
    unfolding wlp_bnd [of "APIReader_Get _ _"]
  proof (rule wlp_mono)
    show "wlp (APIReader_Get (Client r) key) (\<lambda>_. advances V w) w"
      using that by (intro steadyD [OF reads_tidy_steady [OF tidyD(5) [OF order_hubD(1) [OF h]]]]) (simp add: system_ok_def)
  next
    fix res w1 assume adv: "advances V w w1"
    have "system_ok (MaxJobHistory r) status_jobs V (merge_order_status (Lib r) t (Status co) latest, w1)" for t latest
      using system_ok_advance [OF that adv] by (simp add: system_ok_def merge_order_status_def map_status_def)
    from wlp_mono [OF order_hubD(2) [OF h this], of "\<lambda>_. advances V w"] adv
    show "wlp (case res of Inl err \<Rightarrow> ret (Some err) | Inr latest \<Rightarrow>
        bnd (gets (k8s_now (Lib r))) (\<lambda>t. co_Status_Patch r latest (merge_order_status (Lib r) t (Status co) latest)))
      (\<lambda>_. advances V w) w1"
      by (auto simp: wp_simps split: sum.split intro: advances_trans)
  qed
  then show ?thesis
    unfolding patchStatusWithRetry_def
    by (intro retry_lawD [OF tidyD(3) [OF order_hubD(1) [OF h]], of ?P]) (simp_all add: ok system_ok_advance)
qed

lemma order_edits_keep [simp]:
  "order_keeps r V (set_order_condition lib c s m x)" "order_keeps r V (mod_res (set_phase p))"
  "order_keeps r V (mod_res (SetClusterReferenceHostedClusterName n))"
  "order_keeps r V phase_progressing_if_unset" "order_keeps r V (set_desired_version v)"
  by (auto simp: set_order_condition_def phase_progressing_if_unset_def set_desired_version_def
      ClusterOrder_SetStatusCondition_def SetClusterReferenceHostedClusterName_def map_reference_def
      EnsureClusterReference_def map_status_def map_conditions_def set_phase_def
      split: option.split intro!: orderly_mod_res)

lemma order_lookups_steady:
  assumes "order_hub r V"
  shows "steady V (findNamespace r co)" "steady V (findHostedCluster r co ns)"
    "steady V (newNamespace r co)" "steady V (newServiceAccount r co)" "steady V (newAdminRoleBinding r co)"
    "steady V (newHubAccessRoleBinding r co)"
  using assms unfolding findNamespace_def findHostedCluster_def newNamespace_def newServiceAccount_def
    newAdminRoleBinding_def newHubAccessRoleBinding_def Let_def
  by (auto split: sum.split list.split)

text \<open>What the components do to the order in memory leaves its jobs alone.\<close>

definition mild :: "('w, gerror + appResource) go \<Rightarrow> bool" where
  "mild m \<longleftrightarrow> (\<forall>w. wlp m (\<lambda>res _. \<forall>a co. res = Inr a \<longrightarrow>
     ProvisioningJobs (Status (mutate_instance a co)) = ProvisioningJobs (Status co)) w)"

lemma reference_jobs [simp]:
  "ProvisioningJobs (Status (SetClusterReferenceNamespace n co)) = ProvisioningJobs (Status co)"
  "ProvisioningJobs (Status (SetClusterReferenceServiceAccountName n co)) = ProvisioningJobs (Status co)"
  "ProvisioningJobs (Status (SetClusterReferenceRoleBindingName n co)) = ProvisioningJobs (Status co)"
  "ProvisioningJobs (Status (SetClusterReferenceHostedClusterName n co)) = ProvisioningJobs (Status co)"
  by (simp_all add: SetClusterReferenceNamespace_def SetClusterReferenceServiceAccountName_def
      SetClusterReferenceRoleBindingName_def SetClusterReferenceHostedClusterName_def map_reference_def
      EnsureClusterReference_def map_status_def split: option.split)

lemma components_mild: "(n, fn) \<in> set components \<Longrightarrow> mild (fn r co)"
  by (auto simp: components_def mild_def newNamespace_def newServiceAccount_def newAdminRoleBinding_def
      newHubAccessRoleBinding_def wp_simps Let_def wlp_def go_simps split: sum.splits if_splits option.splits)

lemma components_steady: "order_hub r V \<Longrightarrow> (n, fn) \<in> set components \<Longrightarrow> steady V (fn r co)"
  by (auto simp: components_def order_lookups_steady)

lemma component_keeps:
  assumes "order_hub r V" and "steady V m" and "mild m" and "order_keeps r V rest"
  shows "order_keeps r V (bnd (on_world m) (\<lambda>res. case res of Inl err \<Rightarrow> ret (Some err)
     | Inr resource \<Rightarrow> bnd (on_world (co_CreateOrUpdate r (ar_object resource) (mutate_object resource))) (\<lambda>(e, mutated).
         bnd (if mutated then mod_res (mutate_instance resource) else ret ()) (\<lambda>_.
           case e of Some err \<Rightarrow> ret (Some err) | None \<Rightarrow> rest))))" (is "order_keeps r V (bnd _ ?k)")
proof (rule orderlyI)
  fix co :: ClusterOrder and w assume ok: "system_ok (MaxJobHistory r) status_jobs V (co, w)"
  have "wlp m (\<lambda>res w'. advances V w w' \<and> (\<forall>a co. res = Inr a \<longrightarrow>
      ProvisioningJobs (Status (mutate_instance a co)) = ProvisioningJobs (Status co))) w"
    using ok assms(2,3) by (intro wlp_conj steadyD) (auto simp: mild_def system_ok_def)
  then show "wlp (bnd (on_world m) ?k) (\<lambda>_. system_ok (MaxJobHistory r) status_jobs V) (co, w)"
    unfolding wlp_bnd [of "on_world m"] wlp_on_world prod.case
  proof (rule wlp_mono, goal_cases)
    case (1 res w')
    have "order_keeps r V (?k res)"
      using 1 assms(1,4) by (auto simp: orderly_on_world split: sum.split option.split intro!: orderly_mod_res)
    then show ?case using 1 by (intro orderlyD system_ok_advance [OF ok]) auto
  qed
qed

lemma component_loop_keeps:
  assumes "order_hub r V" and "set cs \<subseteq> set components"
  shows "order_keeps r V (component_loop r cs)"
  using assms(2)
proof (induction cs)
  case (Cons c cs)
  obtain n fn where c: "c = (n, fn)" by (cases c)
  with Cons.prems have "steady V (fn r co)" "mild (fn r co)" for co
    using components_steady [OF assms(1)] components_mild by auto
  then show ?case
    using Cons by (simp add: c) (intro orderly_bnd component_keeps [OF assms(1)]; simp)
qed simp

lemma initialize_keeps [simp]: "order_keeps r V (initializeStatusConditions lib)"
proof -
  have "order_keeps r V (initializeStatusCondition lib c s x)" for c s x
    by (auto simp: initializeStatusCondition_def split: option.split)
  then show ?thesis by (auto simp: initializeStatusConditions_def)
qed

lemma node_pools_keep [simp]: "order_keeps r V (handleNodePools ps)"
proof -
  have one: "order_keeps r V (handleNodePool p)" for p
    by (auto simp: handleNodePool_def map_status_def split: list.split option.split intro!: orderly_mod_res)
  have "order_keeps r V (node_pool_loop i ps)" for i
    by (induction ps arbitrary: i) (auto simp: one split: option.split)
  then show ?thesis by (simp add: handleNodePools_def)
qed

lemma handleHostedCluster_keeps: "order_hub r V \<Longrightarrow> order_keeps r V (handleHostedCluster r hc)"
  by (auto simp: handleHostedCluster_def orderly_on_world split: sum.split option.split)

lemma provisioningCallbacks_quiet: "quiet_callbacks mh status_jobs V (Some (provisioningCallbacks lib))"
  by (auto simp: quiet_callbacks_def provisioningCallbacks_def quiet_def set_order_condition_def
      ClusterOrder_SetStatusCondition_def wp_simps)

lemma nil_provider_honest [simp]: "honest V nil_provider"
  by (simp add: honest_def nil_provider_def wp_simps)

lemma order_provisioning_keeps:
  assumes h: "order_hub r V"
  shows "order_keeps r V (ClusterOrder_handleProvisioning r)"
proof -
  let ?r = "r\<lparr>ProvisioningProvider := Some (case ProvisioningProvider r of None \<Rightarrow> nil_provider | Some p \<Rightarrow> p)\<rparr>"
  have "tidy ?r V"
    using order_hubD(1) [OF h] unfolding tidy_def by (simp split: option.split)
  then have "orderly (MaxJobHistory ?r) status_jobs V (run_provisioning ?r (provisioningCallbacks (Lib r))
      (\<lambda>cur. patchStatusWithRetry r (ObjectKeyFromObject cur) (Status cur)))"
    by (rule tidy_provisioning [OF _ provisioningCallbacks_quiet]) (simp add: patch_writes [OF h])
  then show ?thesis
    unfolding ClusterOrder_handleProvisioning_def by (auto split del: option.split)
qed

lemma order_handlers_keep:
  assumes h: "order_hub r V"
  shows "order_keeps r V (ClusterOrder_handleUpdate r)" "order_keeps r V (ClusterOrder_handleDelete r)"
proof -
  note facts = orderly_on_world order_lookups_steady [OF h] handleHostedCluster_keeps [OF h]
    tidy_deprovisioning [OF order_hubD(1) [OF h]] tidy_release [OF order_hubD(1) [OF h]]
  have "order_keeps r V (observe_cluster r res)" for res
    unfolding observe_cluster_def by (auto simp: facts split: sum.split option.split)
  moreover have "order_keeps r V ClusterOrder_handleDesiredConfigVersion"
    unfolding ClusterOrder_handleDesiredConfigVersion_def by (auto split: sum.split)
  ultimately have "order_keeps r V (bnd (set_order_condition (Lib r) c s m x) (\<lambda>_. bnd ClusterOrder_handleDesiredConfigVersion (\<lambda>e.
      case e of Some err \<Rightarrow> ret (no_requeue, Some err) | None \<Rightarrow> bnd (ClusterOrder_handleProvisioning r) (\<lambda>(provisionResult, err).
        case err of Some err \<Rightarrow> ret (no_requeue, Some err) | None \<Rightarrow> observe_cluster r (provisionResult, None)))))" for c s m x
    using order_provisioning_keeps [OF h] by (auto split: option.split prod.split)
  then show "order_keeps r V (ClusterOrder_handleUpdate r)"
    unfolding ClusterOrder_handleUpdate_def ensure_cluster_def
    by (intro orderly_bnd tidy_add_finalizer [OF order_hubD(1) [OF h]]) (auto simp: component_loop_keeps [OF h] split: option.split)
  show "order_keeps r V (ClusterOrder_handleDelete r)"
    unfolding ClusterOrder_handleDelete_def release_order_finalizer_def ClusterOrder_handleDeprovisioning_def
    using h by (auto simp: facts split: sum.split option.split)
qed

lemma ClusterOrder_Reconcile_inv:
  assumes h: "order_hub r V" and inv: "wv_inv V w"
  shows "wlp (ClusterOrder_Reconcile r key) (\<lambda>_. wv_inv V) w"
proof -
  note tail = tidy_tail [where b = "\<lambda>err co'. err = None \<and> \<not> DeepEqual (Client r) (Status co') (Status co)" and obj = co
      and writeStatus = "\<lambda>co'. patchStatusWithRetry r key (Status co')" for co, OF _ _ patch_writes [OF h]]
  show ?thesis
    unfolding ClusterOrder_Reconcile_def wlp_bnd [of "Get _ _"]
    by (rule wlp_mono [OF reads_tidyD [OF tidyD(4) [OF order_hubD(1) [OF h]] inv]])
      (use inv order_handlers_keep [OF h] in \<open>auto simp: wlp_ret advances_def tail split: sum.split\<close>)
qed

section \<open>Deletion\<close>

text \<open>
  Surroundings that panic when an order is given up before deprovisioning is over (or was not asked for) or while it
  still has a namespace, and when a namespace is deleted that is not this order's or still has a hosted cluster.
  \<open>nss\<close> and \<open>hcs\<close> are the namespaces and hosted clusters with a label in a world.
\<close>

definition order_cleared :: "'w ClusterOrderReconciler \<Rightarrow> ClusterOrder \<Rightarrow> bool" where
  "order_cleared r co \<longleftrightarrow>
     ProvisioningProvider r = None \<or> manually_managed co \<or> succeeded_deprovision (ProvisioningJobs (Status co))"

definition careful_hub ::
  "(string \<times> string \<Rightarrow> 'w \<Rightarrow> string list) \<Rightarrow> (string \<Rightarrow> string \<times> string \<Rightarrow> 'w \<Rightarrow> HostedCluster list) \<Rightarrow> string \<Rightarrow>
   'w ClusterOrderReconciler \<Rightarrow> 'w ClusterOrderReconciler"
where
  "careful_hub nss hcs n r =
     r\<lparr>Client := (Client r)\<lparr>Update := (\<lambda>co w. if order_cleared r co \<and> nss (osacClusterOrderNameLabel, n) w = []
          then Update (Client r) co w else None)\<rparr>,
       co_Delete_Namespace := (\<lambda>ns w. if nss (osacClusterOrderNameLabel, n) w = [ns] \<and> hcs ns (osacClusterOrderNameLabel, n) w = []
          then co_Delete_Namespace r ns w else None)\<rparr>"

text \<open>Lists show what is there, and listing hosted clusters leaves the namespaces alone.\<close>

definition lists_truly ::
  "(string \<times> string \<Rightarrow> 'w \<Rightarrow> string list) \<Rightarrow> (string \<Rightarrow> string \<times> string \<Rightarrow> 'w \<Rightarrow> HostedCluster list) \<Rightarrow>
   'w ClusterOrderReconciler \<Rightarrow> bool"
where
  "lists_truly nss hcs r \<longleftrightarrow>
     (\<forall>sel w items w'. co_List_Namespaces r sel w = Some (Inr items, w') \<longrightarrow> items = nss sel w') \<and>
     (\<forall>ns sel w items w'. co_List_HostedClusters r ns sel w = Some (Inr items, w') \<longrightarrow>
        items = hcs ns sel w' \<and> (\<forall>sel. nss sel w' = nss sel w))"

lemma careful_simps [simp]:
  "Lib (careful_hub nss hcs n r) = Lib r" "ProvisioningProvider (careful_hub nss hcs n r) = ProvisioningProvider r"
  "StatusPollInterval (careful_hub nss hcs n r) = StatusPollInterval r" "MaxJobHistory (careful_hub nss hcs n r) = MaxJobHistory r"
  "co_List_Namespaces (careful_hub nss hcs n r) = co_List_Namespaces r"
  "co_List_HostedClusters (careful_hub nss hcs n r) = co_List_HostedClusters r"
  "co_Delete_Namespace (careful_hub nss hcs n r) ns w =
     (if nss (osacClusterOrderNameLabel, n) w = [ns] \<and> hcs ns (osacClusterOrderNameLabel, n) w = []
      then co_Delete_Namespace r ns w else None)"
  "Update (Client (careful_hub nss hcs n r)) co w =
     (if order_cleared r co \<and> nss (osacClusterOrderNameLabel, n) w = [] then Update (Client r) co w else None)"
  by (simp_all add: careful_hub_def)

lemma careful_lookups [simp]:
  "findNamespace (careful_hub nss hcs n r) = findNamespace r"
  "findHostedCluster (careful_hub nss hcs n r) = findHostedCluster r"
  "ClusterOrder_handleDeprovisioning (careful_hub nss hcs n r) = ClusterOrder_handleDeprovisioning r"
  unfolding findNamespace_def findHostedCluster_def ClusterOrder_handleDeprovisioning_def handleDeprovisioning_def careful_simps
  by simp_all

lemma findNamespace_truly:
  assumes "lists_truly nss hcs r" and "findNamespace r co w = Some (Inr found, w')"
  shows "nss (osacClusterOrderNameLabel, Name (Meta co)) w' = (case found of None \<Rightarrow> [] | Some ns \<Rightarrow> [ns])"
  using assms by (auto simp: findNamespace_def labelSelectorFromInstance_def lists_truly_def go_simps
      split: option.splits sum.splits if_splits list.splits)

lemma findHostedCluster_truly:
  assumes "lists_truly nss hcs r" and "findHostedCluster r co ns w = Some (Inr None, w')"
  shows "hcs ns (osacClusterOrderNameLabel, Name (Meta co)) w' = [] \<and> nss (k, v) w' = nss (k, v) w"
  using assms by (auto simp: findHostedCluster_def labelSelectorFromInstance_def lists_truly_def go_simps
      split: option.splits sum.splits if_splits list.splits)

lemma cleared_finalizers [simp]: "order_cleared r (set_finalizers fs co) = order_cleared r co"
  by (simp add: order_cleared_def manually_managed_def set_finalizers_def)

lemma release_careful:
  assumes "order_cleared r co" and "nss (osacClusterOrderNameLabel, n) w = []"
  shows "release_order_finalizer (careful_hub nss hcs n r) (co, w) = release_order_finalizer r (co, w)"
  using assms by (simp add: release_order_finalizer_def release_if_present_def update_object_def go_simps split: prod.split)

lemma order_deprovisioning_clears:
  assumes h: "order_hub r V" and strict: "wv_strict V" and poll: "0 < StatusPollInterval r"
    and ins: "\<And>p. ProvisioningProvider r = Some p \<Longrightarrow> blocking_deprovisioning status_jobs p"
    and ok: "system_ok (MaxJobHistory r) status_jobs V (co, w)"
  shows "wlp (ClusterOrder_handleDeprovisioning r) (\<lambda>(res, err) (co', w'). Meta co' = Meta co \<and>
     (err = None \<longrightarrow> RequeueAfter res \<le> 0 \<longrightarrow> order_cleared r co')) (co, w)"
proof (cases "manually_managed co")
  case False
  then show ?thesis
    using tidy_deprovisioning_clears [OF order_hubD(1) [OF h] strict poll ins ok]
    unfolding ClusterOrder_handleDeprovisioning_def wlp_bnd [of get_res] wlp_get_res prod.case
    by (auto simp: order_cleared_def elim!: wlp_mono)
qed (auto simp: ClusterOrder_handleDeprovisioning_def wp_simps order_cleared_def)

text \<open>
  C5: a cluster order is taken down in order. The deletion of an order does exactly the same in surroundings that
  panic when the order is written before its newest deprovisioning job has succeeded (unless it is managed by hand or
  there is no provider) or while a namespace with its label exists, and when a namespace is deleted that is not the one
  of this order or in which a hosted cluster of the order is left. So no such call is ever made, if lists
  show what is there and the provider is honest and insists on deprovisioning.
\<close>

theorem order_taken_down_in_order:
  assumes h: "order_hub r V" and strict: "wv_strict V" and poll: "0 < StatusPollInterval r"
    and ins: "\<And>p. ProvisioningProvider r = Some p \<Longrightarrow> blocking_deprovisioning status_jobs p"
    and truth: "lists_truly nss hcs r" and ok: "system_ok (MaxJobHistory r) status_jobs V (co, w)"
  shows "ClusterOrder_handleDelete (careful_hub nss hcs (Name (Meta co)) r) (co, w) = ClusterOrder_handleDelete r (co, w)"
proof -
  let ?r = "careful_hub nss hcs (Name (Meta co)) r"
  have ok': "system_ok (MaxJobHistory r) status_jobs V (set_phase PhaseDeleting co, w)"
    using ok by (simp add: system_ok_def)
  have rest: "bnd (on_world (findNamespace r co1)) (\<lambda>nsRes. case nsRes of Inl err \<Rightarrow> ret (no_requeue, Some err)
        | Inr None \<Rightarrow> release_order_finalizer ?r
        | Inr (Some ns) \<Rightarrow> bnd (on_world (findHostedCluster r co1 ns)) (\<lambda>hcRes. case hcRes of
              Inl err \<Rightarrow> ret (no_requeue, Some err) | Inr (Some _) \<Rightarrow> ret (no_requeue, None)
            | Inr None \<Rightarrow> bnd (on_world (co_Delete_Namespace ?r ns)) (\<lambda>e. ret (no_requeue, e)))) (co1, w1) =
      bnd (on_world (findNamespace r co1)) (\<lambda>nsRes. case nsRes of Inl err \<Rightarrow> ret (no_requeue, Some err)
        | Inr None \<Rightarrow> release_order_finalizer r
        | Inr (Some ns) \<Rightarrow> bnd (on_world (findHostedCluster r co1 ns)) (\<lambda>hcRes. case hcRes of
              Inl err \<Rightarrow> ret (no_requeue, Some err) | Inr (Some _) \<Rightarrow> ret (no_requeue, None)
            | Inr None \<Rightarrow> bnd (on_world (co_Delete_Namespace r ns)) (\<lambda>e. ret (no_requeue, e)))) (co1, w1)"
    if "Meta co1 = Meta co" "order_cleared r co1" for co1 w1
    using that
    by (auto simp: go_simps release_careful dest!: findNamespace_truly [OF truth] findHostedCluster_truly [OF truth, where k = osacClusterOrderNameLabel and v = "Name (Meta co)"]
        split: option.split sum.split)
  show ?thesis
    unfolding ClusterOrder_handleDelete_def careful_lookups bnd_apply [of "mod_res _"] mod_res_apply option.case prod.case
  proof (rule bnd_cong_at, goal_cases)
    case (1 x s)
    obtain res err co1 w1 where x: "x = (res, err)" "s = (co1, w1)" by (cases x, cases s)
    from wlpD [OF order_deprovisioning_clears [OF h strict poll ins ok'] 1] x
    have "Meta co1 = Meta co" and "err = None \<Longrightarrow> RequeueAfter res \<le> 0 \<Longrightarrow> order_cleared r co1" by auto
    then show ?case by (auto simp: x get_res_apply bnd_apply [of get_res] rest split: option.split)
  qed
qed

section \<open>A sample hub\<close>

text \<open>One stored order, the namespaces and hosted clusters of the hub, and the number of jobs started so far.\<close>

record order_world =
  ow_started :: nat
  ow_order :: ClusterOrder
  ow_namespaces :: "string list"
  ow_hosted :: "HostedCluster list"

definition ow_bump :: "order_world \<Rightarrow> order_world" where
  "ow_bump w = w\<lparr>ow_started := Suc (ow_started w)\<rparr>"

definition ow_ok :: "order_world \<Rightarrow> bool" where
  "ow_ok w \<longleftrightarrow> history_fits (ow_started w) (ProvisioningJobs (Status (ow_order w)))"

definition ow_view :: "order_world world_view" where
  "ow_view = sample_view ow_started (\<lambda>_. {}) ow_ok"

text \<open>An update keeps the stored status and answers with the object stored.\<close>

definition ow_client :: "(ClusterOrderSpec, ClusterOrderStatus, order_world) kclient" where
  "ow_client =
     (let get = (\<lambda>key w. Some (if key = ObjectKeyFromObject (ow_order w) then Inr (ow_order w)
                   else Inl (APIStatusError ''NotFound'' ''''), w)) in
      \<lparr>Get = get, APIReader_Get = get,
       Update = (\<lambda>co w. let co' = co\<lparr>Status := Status (ow_order w)\<rparr> in Some (Inr co', w\<lparr>ow_order := co'\<rparr>)),
       Status_Update = (\<lambda>co. ret None), DeepEqual = (=)\<rparr>)"

definition ow_create :: "hub_object \<Rightarrow> order_world \<Rightarrow> order_world" where
  "ow_create obj w =
     (if ho_Kind obj = ''Namespace'' then w\<lparr>ow_namespaces := List.insert (ho_Name obj) (ow_namespaces w)\<rparr> else w)"

definition ow_reconciler :: "JobState \<Rightarrow> order_world ClusterOrderReconciler" where
  "ow_reconciler st =
     \<lparr>Lib = sample_lib (\<lambda>w. int (ow_started w) * Second), Client = ow_client,
      ProvisioningProvider = Some (sample_provider ow_started ow_bump st),
      StatusPollInterval = Minute, MaxJobHistory = 10,
      co_Status_Patch = (\<lambda>old co w. Some (None, w\<lparr>ow_order := (ow_order w)\<lparr>Status := Status co\<rparr>\<rparr>)),
      co_CreateOrUpdate = (\<lambda>obj f w. Some ((None, True), ow_create (f obj) w)),
      co_List_Namespaces = (\<lambda>sel w. Some (Inr (ow_namespaces w), w)),
      co_List_HostedClusters = (\<lambda>ns sel w. Some (Inr (filter (\<lambda>hc. hc_Namespace hc = ns) (ow_hosted w)), w)),
      co_List_NodePools = (\<lambda>ns sel. ret (Inr [])),
      co_Delete_Namespace = (\<lambda>ns w. Some (None, w\<lparr>ow_namespaces := removeAll ns (ow_namespaces w)\<rparr>)),
      co_ClusterOrderNamespace = ''orders''\<rparr>"

definition sample_order :: "instant option \<Rightarrow> JobStatus list \<Rightarrow> ClusterOrder" where
  "sample_order d jobs =
     \<lparr>Meta = \<lparr>Name = ''c1'', Namespace = ''orders'', Labels = Map.empty, Annotations = Map.empty,
        Finalizers = (if d = None then [] else [osacFinalizer]), DeletionTimestamp = d\<rparr>,
      Spec = \<lparr>co_TemplateID = ''t'', TemplateParameters = '''', spec_NodeRequests = [\<lparr>ResourceClass = ''fc430'', NumberOfNodes = 3\<rparr>],
        PullSecret = '''', SSHPublicKey = '''', ReleaseImage = '''', Network = None\<rparr>,
      Status = \<lparr>Phase = PhaseUnset, DesiredConfigVersion = '''', ProvisioningJobs = jobs, Conditions = [],
        ClusterReference = None, status_NodeRequests = [], ClusterStorageJobs = [], ApiEndpoint = '''', IngressEndpoint = ''''\<rparr>\<rparr>"

definition sample_hub :: "instant option \<Rightarrow> JobStatus list \<Rightarrow> string list \<Rightarrow> order_world" where
  "sample_hub d jobs nss = \<lparr>ow_started = 2, ow_order = sample_order d jobs, ow_namespaces = nss, ow_hosted = []\<rparr>"

lemma ow_view_simps [simp]:
  "wv_now ow_view w = int (ow_started w) * Second" "wv_issued ow_view w = job_name ` {n. n \<le> ow_started w}"
  "wv_released ow_view w = {}" "wv_inv ow_view = ow_ok" "wv_strict ow_view"
  by (simp_all add: ow_view_def sample_view_def)

lemma system_ok_ow:
  "system_ok 10 status_jobs ow_view (co, w) \<longleftrightarrow> history_fits (ow_started w) (ProvisioningJobs (Status co)) \<and> ow_ok w"
  by (auto simp: system_ok_def history_fits_def)

lemma ow_honest: "honest ow_view (sample_provider ow_started ow_bump st)"
  unfolding ow_view_def by (rule sample_honest) (auto simp: ow_bump_def ow_ok_def intro: history_fits_mono)

lemma ow_hub: "order_hub (ow_reconciler st) ow_view"
proof -
  have "retry_law (Lib (ow_reconciler st)) ow_view"
    by (simp add: retry_law_def ow_reconciler_def sample_lib_def)
  moreover have "reads_tidy 10 ow_view (Get ow_client key)" "reads_tidy 10 ow_view (APIReader_Get ow_client key)" for key
    by (auto simp: reads_tidy_def wlp_def ow_client_def Let_def system_ok_ow ow_ok_def)
  moreover have "wlp (Update ow_client co) (\<lambda>res w'. advances ow_view w w' \<and>
      (\<forall>co'. res = Inr co' \<longrightarrow> system_ok 10 status_jobs ow_view (co', w'))) w"
    if "system_ok 10 status_jobs ow_view (co, w)" for co w
    using that by (auto simp: wlp_def ow_client_def Let_def system_ok_ow ow_ok_def advances_def)
  moreover have "wlp (co_Status_Patch (ow_reconciler st) old co) (\<lambda>_. advances ow_view w) w"
    if "system_ok 10 status_jobs ow_view (co, w)" for old co w
    using that by (auto simp: wlp_def ow_reconciler_def system_ok_ow ow_ok_def advances_def)
  moreover have "order_calls (ow_reconciler st) ow_view"
    by (auto simp: order_calls_def steady_def wlp_def ow_reconciler_def ow_create_def advances_def ow_ok_def ret_def)
  ultimately show ?thesis
    by (auto simp: order_hub_def tidy_def ow_honest ow_reconciler_def sample_lib_def fun_eq_iff)
qed

lemma ow_lists: "lists_truly (\<lambda>_. ow_namespaces) (\<lambda>ns _ w. filter (\<lambda>hc. hc_Namespace hc = ns) (ow_hosted w)) (ow_reconciler st)"
  by (auto simp: lists_truly_def ow_reconciler_def)

lemma ow_start: "st = JobStateSucceeded \<or> st = JobStateRunning \<Longrightarrow>
   system_ok 10 status_jobs ow_view (sample_order d (sample_history st), sample_hub d (sample_history st) nss)"
  by (auto simp: system_ok_ow ow_ok_def sample_hub_def sample_order_def history_fits_def history_ok_def older_terminal_def
      all_blocking_def sample_history_def sample_job_def IsTerminal_def)

theorem order_taken_down_in_order_witness:
  "let co = sample_order (Some 5) (sample_history JobStateRunning);
       w = sample_hub (Some 5) (sample_history JobStateRunning) [''orders-c1'']
   in ClusterOrder_handleDelete (careful_hub (\<lambda>_. ow_namespaces) (\<lambda>ns _ w. filter (\<lambda>hc. hc_Namespace hc = ns) (ow_hosted w))
        (Name (Meta co)) (ow_reconciler JobStateSucceeded)) (co, w) =
      ClusterOrder_handleDelete (ow_reconciler JobStateSucceeded) (co, w)"
  unfolding Let_def
  by (rule order_taken_down_in_order [OF ow_hub _ _ _ ow_lists])
    (use ow_start [of JobStateRunning "Some 5"] in \<open>simp_all add: ow_reconciler_def sample_blocking sj.jobs_ref_axioms\<close>)

section \<open>Reconciliations\<close>

text \<open>
  C6: a reconciliation of a cluster order, whatever its state, its annotations and what the hub answers, keeps every
  invariant of the world that is kept by writing orders whose job history is well-formed: at most as many jobs as are
  kept, in the order they were started, at most the newest of each kind still running, under identifiers the provider
  has issued.
\<close>

theorem ClusterOrder_keeps_world:
  assumes "order_hub r V" and "wv_inv V w" and "ClusterOrder_Reconcile r key w = Some (out, w')"
  shows "wv_inv V w'"
  using wlpD [OF ClusterOrder_Reconcile_inv [OF assms(1,2)] assms(3)] .

theorem ClusterOrder_keeps_world_witness:
  "\<exists>out w'. ClusterOrder_Reconcile (ow_reconciler JobStateSucceeded) (''orders'', ''c1'')
      (sample_hub (Some 5) (sample_history JobStateRunning) []) = Some (out, w') \<and> ow_ok w' \<and> Finalizers (Meta (ow_order w')) = []"
proof -
  have "wv_inv ow_view (sample_hub (Some 5) (sample_history JobStateRunning) [])"
    using ow_start [of JobStateRunning "Some 5" "[]"] by (simp add: system_ok_def)
  moreover obtain out w' where run: "ClusterOrder_Reconcile (ow_reconciler JobStateSucceeded) (''orders'', ''c1'')
      (sample_hub (Some 5) (sample_history JobStateRunning) []) = Some (out, w')" and "Finalizers (Meta (ow_order w')) = []"
  proof -
    have "map_option (\<lambda>(out, w'). Finalizers (Meta (ow_order w'))) (ClusterOrder_Reconcile (ow_reconciler JobStateSucceeded)
        (''orders'', ''c1'') (sample_hub (Some 5) (sample_history JobStateRunning) [])) = Some []"
      by code_simp
    then show ?thesis using that by auto
  qed
  ultimately show ?thesis using ClusterOrder_keeps_world [OF ow_hub _ run] by auto
qed

section \<open>Two controllers write the status\<close>

text \<open>
  What apimachinery's helpers do: setting a condition changes what is found for its type only, and there as a function
  of the condition found before.
\<close>

definition condition_laws :: "'w k8s \<Rightarrow> (instant \<Rightarrow> Condition \<Rightarrow> Condition option \<Rightarrow> Condition) \<Rightarrow> bool" where
  "condition_laws lib upd \<longleftrightarrow>
     (\<forall>t cs c ty. FindStatusCondition lib (SetStatusCondition lib t cs c) ty =
        (if ty = cond_Type c then Some (upd t c (FindStatusCondition lib cs ty)) else FindStatusCondition lib cs ty)) \<and>
     (\<forall>t c old. cond_Status (upd t c old) = cond_Status c)"

text \<open>The entry of one type after all conditions of a list were set.\<close>

definition after_merge ::
  "(instant \<Rightarrow> Condition \<Rightarrow> Condition option \<Rightarrow> Condition) \<Rightarrow> instant \<Rightarrow> string \<Rightarrow> Condition list \<Rightarrow> Condition option \<Rightarrow> Condition option"
where
  "after_merge upd t ty cs found = foldl (\<lambda>f c. Some (upd t c f)) found (filter (\<lambda>c. cond_Type c = ty) cs)"

lemma find_merge:
  assumes "condition_laws lib upd"
  shows "FindStatusCondition lib (merge_conditions lib t computed latest) ty =
    after_merge upd t ty computed (FindStatusCondition lib latest ty)"
  unfolding merge_conditions_def after_merge_def
  by (induction computed arbitrary: latest) (use assms in \<open>auto simp: condition_laws_def\<close>)

lemma after_merge_absent [simp]: "ty \<notin> cond_Type ` set cs \<Longrightarrow> after_merge upd t ty cs found = found"
  by (induction cs) (auto simp: after_merge_def)

text \<open>
  The status patches of the cluster order controller and of the storage controller have separate fields. In whichever
  order the two patches reach a cluster order, the history of the storage jobs is the one the storage controller
  computed; the phase, the reference to the cluster, the node requests, the provisioning jobs and the desired
  configuration are those the order controller computed; the two endpoints stay as they are stored. The conditions
  are the exception: they are merged, and the order does not matter for a type only if not both patches carry it.
\<close>

lemma status_patches_commute:
  assumes "condition_laws lib upd" and "ty \<notin> cond_Type ` set (Conditions a) \<or> ty \<notin> cond_Type ` set (Conditions b)"
  shows "let one = Status (merge_storage_status lib t' b (merge_order_status lib t a co));
             two = Status (merge_order_status lib t a (merge_storage_status lib t' b co))
         in one\<lparr>Conditions := []\<rparr> = two\<lparr>Conditions := []\<rparr> \<and>
            FindStatusCondition lib (Conditions one) ty = FindStatusCondition lib (Conditions two) ty \<and>
            ClusterStorageJobs one = ClusterStorageJobs b \<and> ProvisioningJobs one = ProvisioningJobs a \<and>
            Phase one = Phase a \<and> ClusterReference one = ClusterReference a \<and>
            status_NodeRequests one = status_NodeRequests a \<and> DesiredConfigVersion one = DesiredConfigVersion a \<and>
            ApiEndpoint one = ApiEndpoint (Status co) \<and> IngressEndpoint one = IngressEndpoint (Status co)"
  using assms(2)
  by (auto simp: Let_def merge_order_status_def merge_storage_status_def map_status_def find_merge [OF assms(1)])

lemma find_set_condition:
  "find (\<lambda>x. cond_Type x = ty) (if \<exists>c'\<in>set cs. cond_Type c' = cond_Type c
     then map (\<lambda>c'. if cond_Type c' = cond_Type c then c else c') cs else cs @ [c]) =
   (if ty = cond_Type c then Some c else find (\<lambda>x. cond_Type x = ty) cs)"
proof -
  have "find (\<lambda>x. cond_Type x = ty) (map (\<lambda>c'. if cond_Type c' = cond_Type c then c else c') cs) =
      find (\<lambda>x. cond_Type x = ty) cs" if "ty \<noteq> cond_Type c"
    using that by (induction cs) auto
  moreover have "find (\<lambda>x. cond_Type x = cond_Type c) (map (\<lambda>c'. if cond_Type c' = cond_Type c then c else c') cs) = Some c"
    if "\<exists>c'\<in>set cs. cond_Type c' = cond_Type c"
    using that by (induction cs) (auto simp del: bex_simps)
  moreover have "find (\<lambda>x. cond_Type x = ty) (cs @ [c]) =
      (if ty = cond_Type c then Some c else find (\<lambda>x. cond_Type x = ty) cs)"
    if "\<not> (\<exists>c'\<in>set cs. cond_Type c' = cond_Type c)"
    using that by (induction cs) auto
  ultimately show ?thesis by (cases "ty = cond_Type c") simp_all
qed

lemma sample_condition_laws: "condition_laws (sample_lib now) (\<lambda>t c old. c)"
  by (simp add: condition_laws_def sample_lib_def find_set_condition)

text \<open>A status with one condition.\<close>

definition status_with :: "string \<Rightarrow> string \<Rightarrow> ClusterOrderStatus" where
  "status_with ty s = (Status (sample_order None []))\<lparr>Conditions :=
     [\<lparr>cond_Type = ty, cond_Status = s, cond_Reason = ''r'', cond_Message = '''', cond_LastTransitionTime = None\<rparr>]\<rparr>"

text \<open>
  A condition both of them carry is the other's as well: the order controller writes back the conditions it has read,
  also the one of the storage controller, so that a stale value replaces a newer one.
\<close>

theorem stale_condition_wins:
  assumes "condition_laws lib upd" and "Conditions computed = before @ [c] @ rest"
    and "cond_Type c \<notin> cond_Type ` set rest"
  shows "map_option cond_Status (FindStatusCondition lib (Conditions (Status (merge_order_status lib t computed latest))) (cond_Type c)) =
    Some (cond_Status c)"
proof -
  have "filter (\<lambda>x. cond_Type x = cond_Type c) rest = []"
    using assms(3) by (metis (mono_tags, lifting) filter_False image_eqI)
  then show ?thesis
    using assms(1,2)
    by (simp add: merge_order_status_def map_status_def find_merge [OF assms(1)] after_merge_def condition_laws_def)
qed

section \<open>What an order shows of its cluster\<close>

lemma last_match_bound:
  "last_match i c ns found = Some k \<Longrightarrow> (\<And>j. found = Some j \<Longrightarrow> j < i) \<Longrightarrow> k < i + length ns"
proof (induction ns arbitrary: i found)
  case (Cons n ns)
  from Cons.IH [of "Suc i" "if ResourceClass n = c then Some i else found"] Cons.prems
  show ?case by (fastforce split: if_splits)
qed simp

lemma classes_set_nodes: "i < length ns \<Longrightarrow> map ResourceClass (set_nodes i v ns) = map ResourceClass ns"
  by (simp add: set_nodes_def map_update) (metis length_map list_update_id nth_map)

lemma handleNodePool_classes:
  "wlp (handleNodePool p) (\<lambda>e s. e = None \<and>
     map ResourceClass (status_NodeRequests (Status (fst s))) = map ResourceClass (status_NodeRequests (Status co))) (co, w)"
  using last_match_bound [where i = 0 and found = None]
  by (auto simp: handleNodePool_def wp_simps map_status_def classes_set_nodes split: list.split option.split)

text \<open>
  The node pools change the numbers of nodes in the status of an order, never the list of resource classes there: no
  entry is ever added.
\<close>

lemma node_classes_kept:
  "\<exists>co'. handleNodePools pools (co, w) = Some (None, (co', w)) \<and>
     map ResourceClass (status_NodeRequests (Status co')) = map ResourceClass (status_NodeRequests (Status co))"
proof -
  have "\<exists>co'. handleNodePool p (co, w) = Some (None, (co', w)) \<and>
      map ResourceClass (status_NodeRequests (Status co')) = map ResourceClass (status_NodeRequests (Status co))" for p co
    using handleNodePool_classes [of p co w]
    by (auto simp: wlp_def handleNodePool_def go_simps split: list.splits option.splits)
  then have one: "\<exists>co'. handleNodePool p (co, w) = Some (None, (co', w)) \<and>
      map ResourceClass (status_NodeRequests (Status co')) = map ResourceClass (status_NodeRequests (Status co))" for p co .
  have "\<exists>co'. node_pool_loop i pools (co, w) = Some (None, (co', w)) \<and>
      map ResourceClass (status_NodeRequests (Status co')) = map ResourceClass (status_NodeRequests (Status co))" for i
  proof (induction pools arbitrary: i co)
    case (Cons p pools)
    obtain co1 where co1: "handleNodePool p (co, w) = Some (None, (co1, w))"
      "map ResourceClass (status_NodeRequests (Status co1)) = map ResourceClass (status_NodeRequests (Status co))"
      using one by blast
    from Cons [of "Suc i" co1] co1 show ?case by (simp add: go_simps)
  qed (simp add: go_simps)
  then show ?thesis by (simp add: handleNodePools_def)
qed







text \<open>
  The phase and the conditions set before the finalizer is added are overwritten by the server's answer to the update:
  the rest of the first reconciliation works on the stored status.
\<close>

lemma initialize_shape:
  "\<exists>co1. initializeStatusConditions lib (co, w) = Some ((), (co1, w)) \<and> Meta co1 = Meta co"
proof -
  have one: "\<exists>co1. initializeStatusCondition lib ty st x (co, w) = Some ((), (co1, w)) \<and> Meta co1 = Meta co" for co ty st x
    by (auto simp: initializeStatusCondition_def set_order_condition_def ClusterOrder_SetStatusCondition_def read_clock_def
        go_simps split: option.split)
  have step: "\<exists>co1. bnd (initializeStatusCondition lib ty st x) (\<lambda>_. m) (co, w) = Some ((), (co1, w)) \<and> Meta co1 = Meta co"
    if m: "\<And>co. \<exists>co1. m (co, w) = Some ((), (co1, w)) \<and> Meta co1 = Meta co" for m co ty st x
  proof -
    obtain co1 where co1: "initializeStatusCondition lib ty st x (co, w) = Some ((), (co1, w))" "Meta co1 = Meta co"
      using one by blast
    then show ?thesis using m [of co1] by (simp add: bnd_apply)
  qed
  show ?thesis unfolding initializeStatusConditions_def by (intro step one)
qed

theorem first_status_lost:
  assumes "finalizer_laws (Lib r)" and "osacFinalizer \<notin> set (Finalizers (Meta co))"
    and answer: "\<And>co. \<exists>w'. Update (Client r) co w = Some (Inr (co\<lparr>Status := stored\<rparr>), w')"
  shows "\<exists>co1 w1. ClusterOrder_handleUpdate r (co, w) = ensure_cluster r (co1, w1) \<and> Status co1 = stored"
proof -
  from initialize_shape [of "Lib r" co w]
  obtain co1 where co1: "initializeStatusConditions (Lib r) (co, w) = Some ((), (co1, w))" "Meta co1 = Meta co" by auto
  obtain co2 where co2: "phase_progressing_if_unset (co1, w) = Some ((), (co2, w))" "Meta co2 = Meta co"
    using co1(2) by (simp add: phase_progressing_if_unset_def mod_res_apply)
  define co3 where "co3 = set_finalizers (Finalizers (Meta co) @ [osacFinalizer]) co2"
  obtain w' where w': "Update (Client r) co3 w = Some (Inr (co3\<lparr>Status := stored\<rparr>), w')" using answer by blast
  have fin: "AddFinalizer (Lib r) (Finalizers (Meta co)) osacFinalizer = (Finalizers (Meta co) @ [osacFinalizer], True)"
    using assms(1,2) by (simp add: finalizer_laws_def)
  have "add_finalizer r osacFinalizer False (ensure_cluster r) (co2, w) = ensure_cluster r (co3\<lparr>Status := stored\<rparr>, w')"
    using w' by (simp add: add_finalizer_def update_object_def fin co2(2) go_simps flip: co3_def)
  then have "ClusterOrder_handleUpdate r (co, w) = ensure_cluster r (co3\<lparr>Status := stored\<rparr>, w')"
    by (simp add: ClusterOrder_handleUpdate_def bnd_apply co1 co2)
  moreover have "Status (co3\<lparr>Status := stored\<rparr>) = stored" by simp
  ultimately show ?thesis by blast
qed

text \<open>If the namespace just created is not listed yet, the update panics.\<close>

theorem unlisted_namespace_panics:
  assumes "co_List_Namespaces r (osacClusterOrderNameLabel, Name (Meta co)) w = Some (Inr [], w')"
  shows "observe_cluster r res (co, w) = None"
  using assms by (simp add: observe_cluster_def findNamespace_def labelSelectorFromInstance_def go_simps)

definition availability :: "'w k8s \<Rightarrow> ClusterOrder \<Rightarrow> string \<Rightarrow> string option" where
  "availability lib co ty = map_option cond_Status (FindStatusCondition lib (Conditions (Status co)) ty)"

lemma wlp_set_order_condition:
  "wlp (set_order_condition lib ty s m x) Q =
     (\<lambda>(co, w). Q () (ClusterOrder_SetStatusCondition lib (k8s_now lib w) ty s m x co, w))"
  by (simp add: fun_eq_iff set_order_condition_def read_clock_def wp_simps)

lemma node_pools_conditions:
  "wlp (handleNodePools ps) (\<lambda>_ (co', w'). Conditions (Status co') = cs) (co, w)"
  if "Conditions (Status co) = cs"
proof -
  have one: "wlp (handleNodePool p) (\<lambda>_ (co', w'). Conditions (Status co') = cs) (co, w)"
    if "Conditions (Status co) = cs" for p co w
    using that by (auto simp: handleNodePool_def wp_simps map_status_def split: list.split option.split)
  have "wlp (node_pool_loop i ps) (\<lambda>_ (co', w'). Conditions (Status co') = cs) (co, w)" for i
    using that
  proof (induction ps arbitrary: i co w)
    case (Cons p ps)
    show ?case
      unfolding node_pool_loop.simps wlp_bnd
    proof (rule wlp_mono [OF one [OF Cons.prems]], goal_cases)
      case (1 e s)
      then show ?case using Cons.IH by (cases s) (simp add: wlp_ret split: option.split)
    qed
  qed (simp add: wlp_ret)
  then show ?thesis by (simp add: handleNodePools_def)
qed

text \<open>
  C8: the order says that its control plane or the cluster is available exactly as far as it has seen it. Looking
  at a hosted cluster sets the condition ControlPlaneAvailable if the hosted cluster is available and not degraded, and
  ClusterAvailable if moreover its version has rolled out, and otherwise leaves them as they were; so once set
  they stay, also when the hosted cluster degrades.
\<close>

theorem availability_sticks:
  assumes laws: "condition_laws (Lib r) upd" and run: "handleHostedCluster r hc (co, w) = Some (e, (co', w'))"
  shows "availability (Lib r) co' ''ControlPlaneAvailable'' =
      (if hostedClusterControlPlaneIsAvailable (Lib r) hc then Some ''True''
       else availability (Lib r) co ''ControlPlaneAvailable'') \<and>
    availability (Lib r) co' ''ClusterAvailable'' =
      (if hostedClusterControlPlaneIsAvailable (Lib r) hc \<and> hostedClusterIsReady (Lib r) hc then Some ''True''
       else availability (Lib r) co ''ClusterAvailable'')"
proof -
  define G where "G co1 \<longleftrightarrow> availability (Lib r) co1 ''ControlPlaneAvailable'' =
      (if hostedClusterControlPlaneIsAvailable (Lib r) hc then Some ''True''
       else availability (Lib r) co ''ControlPlaneAvailable'') \<and>
    availability (Lib r) co1 ''ClusterAvailable'' =
      (if hostedClusterControlPlaneIsAvailable (Lib r) hc \<and> hostedClusterIsReady (Lib r) hc then Some ''True''
       else availability (Lib r) co ''ClusterAvailable'')" for co1 :: ClusterOrder
  have same: "Conditions (Status co2) = Conditions (Status co1) \<Longrightarrow> G co1 \<Longrightarrow> G co2" for co1 co2
    by (simp add: G_def availability_def)
  have pools: "wlp (bnd (handleNodePools ps) (\<lambda>e. case e of Some err \<Rightarrow> ret (Some err) | None \<Rightarrow> ret None)) (\<lambda>_ (co', w'). G co') (co1, w1)"
    if "G co1" for ps co1 w1
    unfolding wlp_bnd
    by (rule wlp_mono [OF node_pools_conditions [OF refl]]) (use that same in \<open>auto simp: wlp_ret split: option.split\<close>)
  have get: "wlp (bnd get_res (\<lambda>instance. bnd (on_world (co_List_NodePools r ns (labelSelectorFromInstance instance))) (\<lambda>res. case res of
      Inl err \<Rightarrow> ret (Some err) | Inr ps \<Rightarrow> bnd (handleNodePools ps) (\<lambda>e. case e of Some err \<Rightarrow> ret (Some err) | None \<Rightarrow> ret None))))
      (\<lambda>_ (co', w'). G co') (co1, w1)" if "G co1" for ns co1 w1
    unfolding wlp_bnd [of get_res] wlp_get_res prod.case wlp_bnd [of "on_world _"] wlp_on_world
    by (rule wlp_mono [of _ "\<lambda>_ _. True"], simp add: wlp_def split: option.split)
      (use that pools in \<open>auto simp: wlp_ret split: sum.split\<close>)
  have set: "availability (Lib r) (map_conditions (\<lambda>cs. SetStatusCondition (Lib r) t cs c) co1) ty =
      (if ty = cond_Type c then Some (cond_Status c) else availability (Lib r) co1 ty)" for t c co1 ty
    using laws by (simp add: condition_laws_def availability_def map_conditions_def map_status_def)
  have ref: "availability (Lib r) (SetClusterReferenceHostedClusterName n co1) ty = availability (Lib r) co1 ty" for n co1 ty
    by (simp add: availability_def SetClusterReferenceHostedClusterName_def map_reference_def EnsureClusterReference_def
        map_status_def split: option.split)
  have "wlp (handleHostedCluster r hc) (\<lambda>_ (co', w'). G co') (co, w)"
    unfolding handleHostedCluster_def
    by (auto simp: wlp_bnd [of "mod_res _"] wlp_bnd [of "set_order_condition _ _ _ _ _"] wlp_bnd [of "if _ then _ else _"]
        wlp_set_order_condition wlp_mod_res wlp_ret ClusterOrder_SetStatusCondition_def intro!: get)
      (simp_all add: G_def set ref)
  from wlpD [OF this run] show ?thesis by (simp add: G_def)
qed

theorem availability_sticks_witness:
  "\<exists>e co' w'. handleHostedCluster (ow_reconciler JobStateRunning)
      \<lparr>hc_Name = ''c1'', hc_Namespace = ''orders-c1'', hc_Conditions = []\<rparr>
      ((sample_order None [])\<lparr>Status := status_with ''ClusterAvailable'' ''True''\<rparr>, sample_hub None [] []) = Some (e, (co', w')) \<and>
     availability (Lib (ow_reconciler JobStateRunning)) co' ''ClusterAvailable'' = Some ''True''"
proof -
  let ?r = "ow_reconciler JobStateRunning" and ?hc = "\<lparr>hc_Name = ''c1'', hc_Namespace = ''orders-c1'', hc_Conditions = []\<rparr>"
  let ?co = "(sample_order None [])\<lparr>Status := status_with ''ClusterAvailable'' ''True''\<rparr>" and ?w = "sample_hub None [] []"
  have "handleHostedCluster ?r ?hc (?co, ?w) \<noteq> None" by code_simp
  then obtain e co' w' where run: "handleHostedCluster ?r ?hc (?co, ?w) = Some (e, (co', w'))" by auto
  have "condition_laws (Lib ?r) (\<lambda>t c old. c)" by (simp add: ow_reconciler_def sample_condition_laws)
  from availability_sticks [OF this run] run show ?thesis
    by (simp add: hostedClusterControlPlaneIsAvailable_def availability_def ow_reconciler_def sample_lib_def status_with_def
        sample_order_def)
qed

end
