(* ===== verification/Compute_Instances.thy ===== *)
theory Compute_Instances
  imports Compute_Types Tenants Networks
begin

text \<open>
  The controller of ComputeInstances (\<^verbatim>\<open>internal/controller/computeinstance_controller.go\<close>, with
  \<^verbatim>\<open>computeinstance_resources.go\<close> and \<^verbatim>\<open>computeinstance_names.go\<close>). An instance belongs to a tenant and to a subnet; once
  its tenant is ready a job creates a KubeVirt virtual machine for it, and the controller copies what the machine
  shows into the instance's phase and conditions.

  Parameters are the clients of the hub and of the target cluster, the event recorder and the provider, which takes
  the context with the extra variables. The constants of KubeVirt are the constructors of two datatypes.
\<close>

section \<open>Names\<close>

definition osacComputeInstanceNameLabel :: string where
  "osacComputeInstanceNameLabel = ''osac.openshift.io/computeinstance''"

definition osacComputeInstanceFinalizer :: string where
  "osacComputeInstanceFinalizer = ''osac.openshift.io/computeinstance''"

definition osacComputeInstanceManagementStateAnnotation :: string where
  "osacComputeInstanceManagementStateAnnotation = ''osac.openshift.io/management-state''"

definition osacSubnetTargetNamespaceAnnotation :: string where
  "osacSubnetTargetNamespaceAnnotation = ''osac.openshift.io/subnet-target-namespace''"

definition eventActionReconcile :: string where
  "eventActionReconcile = ''Reconcile''"

section \<open>Virtual machines\<close>

datatype VirtualMachinePrintableStatus =
    NoPrintableStatus
  | StatusStopped | StatusProvisioning | StatusStarting | StatusRunning | StatusPaused | StatusStopping
  | StatusTerminating | StatusCrashLoopBackOff | StatusMigrating | StatusUnknown | StatusUnschedulable
  | StatusErrImagePull | StatusImagePullBackOff | StatusPvcNotFound | StatusDataVolumeError
  | StatusWaitingForVolumeBinding | StatusWaitingForReceiver
  | OtherPrintableStatus string

datatype VirtualMachineConditionType =
    VirtualMachineReady | VirtualMachineRestartRequired | VirtualMachinePaused | OtherVirtualMachineCondition string

record VirtualMachineCondition =
  kvc_Type :: VirtualMachineConditionType
  kvc_Status :: string
  kvc_Message :: string

record VirtualMachine =
  kv_Name :: string
  kv_Namespace :: string
  kv_PrintableStatus :: VirtualMachinePrintableStatus
  kv_Conditions :: "VirtualMachineCondition list"

definition kvVMGetCondition :: "VirtualMachine \<Rightarrow> VirtualMachineConditionType \<Rightarrow> VirtualMachineCondition option" where
  "kvVMGetCondition vm cond = find (\<lambda>c. kvc_Type c = cond) (kv_Conditions vm)"

definition kvVMHasConditionWithStatus :: "VirtualMachine \<Rightarrow> VirtualMachineConditionType \<Rightarrow> string \<Rightarrow> bool" where
  "kvVMHasConditionWithStatus vm cond status =
     (case kvVMGetCondition vm cond of None \<Rightarrow> False | Some c \<Rightarrow> kvc_Status c = status)"

text \<open>The first message of a condition that is False, empty if there is none.\<close>

fun first_detail :: "VirtualMachineCondition list \<Rightarrow> string" where
  "first_detail [] = ''''"
| "first_detail (c # cs) = (if kvc_Status c = ''False'' \<and> kvc_Message c \<noteq> '''' then kvc_Message c else first_detail cs)"

definition provisioningErrorMessage :: "VirtualMachine \<Rightarrow> string" where
  "provisioningErrorMessage kv =
     (let msg = (\<lambda>prefix. let detail = first_detail (kv_Conditions kv) in
        if detail \<noteq> '''' then sprintf ''%s: %s'' [prefix, detail] else prefix) in
      case kv_PrintableStatus kv of
        StatusDataVolumeError \<Rightarrow> msg ''Boot disk provisioning failed''
      | StatusPvcNotFound \<Rightarrow> msg ''Boot disk provisioning failed: PVC not found''
      | StatusCrashLoopBackOff \<Rightarrow> msg ''VM is in CrashLoopBackOff''
      | StatusErrImagePull \<Rightarrow> msg ''VM image pull failed''
      | StatusImagePullBackOff \<Rightarrow> msg ''VM image pull failed''
      | StatusTerminating \<Rightarrow> msg ''VM is terminating unexpectedly''
      | _ \<Rightarrow> '''')"

definition schedulingWaitMessage :: "VirtualMachine \<Rightarrow> string" where
  "schedulingWaitMessage kv =
     (let msg = ''VM is waiting for a schedulable node''; detail = first_detail (kv_Conditions kv) in
      if detail \<noteq> '''' then sprintf ''%s: %s'' [msg, detail] else msg)"

definition isOperationalStatus :: "VirtualMachinePrintableStatus \<Rightarrow> bool" where
  "isOperationalStatus status =
     (case status of
        StatusRunning \<Rightarrow> True | StatusStopped \<Rightarrow> True | StatusPaused \<Rightarrow> True | StatusStarting \<Rightarrow> True
      | StatusWaitingForVolumeBinding \<Rightarrow> True | StatusMigrating \<Rightarrow> True | StatusWaitingForReceiver \<Rightarrow> True
      | StatusStopping \<Rightarrow> True | StatusUnknown \<Rightarrow> True
      | _ \<Rightarrow> False)"

definition determinePhaseFromPrintableStatus :: "VirtualMachine \<Rightarrow> Phase \<Rightarrow> Phase" where
  "determinePhaseFromPrintableStatus kv currentPhase =
     (case kv_PrintableStatus kv of
        StatusProvisioning \<Rightarrow> PhaseStarting
      | StatusWaitingForVolumeBinding \<Rightarrow> PhaseStarting
      | StatusStarting \<Rightarrow> PhaseStarting
      | StatusUnschedulable \<Rightarrow> PhaseStarting
      | StatusPaused \<Rightarrow> PhasePaused
      | StatusRunning \<Rightarrow>
          (if kvVMHasConditionWithStatus kv VirtualMachinePaused ''True'' then PhasePaused else PhaseRunning)
      | StatusMigrating \<Rightarrow> PhaseRunning
      | StatusWaitingForReceiver \<Rightarrow> PhaseRunning
      | StatusStopping \<Rightarrow> PhaseStopping
      | StatusStopped \<Rightarrow> PhaseStopped
      | StatusUnknown \<Rightarrow> currentPhase
      | NoPrintableStatus \<Rightarrow> currentPhase
      | _ \<Rightarrow> PhaseFailed)"

section \<open>The reconciler\<close>

record 'w target_cluster =
  tc_List_VirtualMachines :: "string \<Rightarrow> string \<times> string \<Rightarrow> ('w, gerror + VirtualMachine list) go"
  tc_Get_Interfaces :: "ObjectKey \<Rightarrow> ('w, gerror + string list) go"

record 'w ComputeInstanceReconciler = "(ComputeInstanceSpec, ComputeInstanceStatus, 'w) Reconciler" +
  ci_Provider :: "(Ctx \<Rightarrow> (ComputeInstance, 'w) ProvisioningProvider) option"
  ci_Get_Subnet :: "ObjectKey \<Rightarrow> ('w, gerror + Subnet) go"
  ci_Get_Tenant :: "ObjectKey \<Rightarrow> ('w, gerror + Tenant) go"
  ci_List_ByTenant :: "string \<Rightarrow> string \<Rightarrow> ('w, gerror + ComputeInstance list) go"
  ci_GetCluster :: "('w, gerror + 'w target_cluster) go"
  ci_Eventf :: "ObjectKey \<Rightarrow> string \<Rightarrow> 'w event_recorder"
  ci_ComputeInstanceNamespace :: string
  ci_TenantNamespace :: string
  ci_NetworkingNamespace :: string
  ci_TiersClient :: "'w StorageTiersLister option"
  ci_BackendsClient :: "'w StorageBackendsClient option"

text \<open>
  The constructor; \<open>base\<close> holds the clients the manager hands out (\<open>None\<close> for a nil manager, on which it panics).
\<close>

definition NewComputeInstanceReconciler ::
  "'w ComputeInstanceReconciler option \<Rightarrow> string \<Rightarrow> string \<Rightarrow> string \<Rightarrow> (Ctx \<Rightarrow> (ComputeInstance, 'w) ProvisioningProvider) option \<Rightarrow>
   duration \<Rightarrow> int \<Rightarrow> 'w ComputeInstanceReconciler option"
where
  "NewComputeInstanceReconciler mgr computeInstanceNamespace tenantNamespace networkingNamespace
     provisioningProvider statusPollInterval maxJobHistory =
     (case mgr of
        None \<Rightarrow> None
      | Some base \<Rightarrow> Some (base
          \<lparr>ci_ComputeInstanceNamespace :=
             (if computeInstanceNamespace = '''' then defaultComputeInstanceNamespace else computeInstanceNamespace),
           ci_TenantNamespace := tenantNamespace, ci_NetworkingNamespace := networkingNamespace,
           ci_Provider := provisioningProvider, StatusPollInterval := default_poll statusPollInterval,
           MaxJobHistory := default_history maxJobHistory, ci_TiersClient := None, ci_BackendsClient := None\<rparr>))"

text \<open>The provider as the lifecycle calls it under a context.\<close>

definition at_ctx :: "'w ComputeInstanceReconciler \<Rightarrow> Ctx \<Rightarrow> 'w ComputeInstanceReconciler" where
  "at_ctx r ctx = r\<lparr>ProvisioningProvider := map_option (\<lambda>p. p ctx) (ci_Provider r)\<rparr>"

definition ComputeInstanceNamespacePredicate :: "string \<Rightarrow> ('sp, 'st) resource \<Rightarrow> bool" where
  "ComputeInstanceNamespacePredicate namespace obj \<longleftrightarrow> Namespace (Meta obj) = namespace"

text \<open>The values under which the cache indexes an instance, and the label predicate of the virtual machines.\<close>

definition tenant_index :: "ObjectMeta \<Rightarrow> string list" where
  "tenant_index obj = (case Annotations obj osacTenantKey of None \<Rightarrow> [] | Some v \<Rightarrow> [v])"

definition vm_label_predicate :: "ObjectMeta \<Rightarrow> bool" where
  "vm_label_predicate obj \<longleftrightarrow> Labels obj osacComputeInstanceNameLabel \<noteq> None"

definition mapObjectToComputeInstance ::
  "'w ComputeInstanceReconciler \<Rightarrow> ObjectMeta \<Rightarrow> ('w, ObjectKey list) go"
where
  "mapObjectToComputeInstance r obj =
     (case Labels obj osacComputeInstanceNameLabel of
        None \<Rightarrow> ret []
      | Some computeInstanceName \<Rightarrow>
          (let key = (ci_ComputeInstanceNamespace r, computeInstanceName) in
           bnd (Get (Client r) key) (\<lambda>res. case res of Inl err \<Rightarrow> ret [] | Inr _ \<Rightarrow> ret [key])))"

definition mapTenantToComputeInstances ::
  "'w ComputeInstanceReconciler \<Rightarrow> ObjectMeta \<Rightarrow> ('w, ObjectKey list) go"
where
  "mapTenantToComputeInstances r obj =
     bnd (ci_List_ByTenant r (ci_ComputeInstanceNamespace r) (Name obj)) (\<lambda>res.
       case res of
         Inl err \<Rightarrow> ret []
       | Inr computeInstances \<Rightarrow> ret (map ObjectKeyFromObject computeInstances))"

section \<open>Provisioning and deprovisioning\<close>

definition ci_callbacks :: "'w k8s \<Rightarrow> (ComputeInstance, 'w) PollCallbacks" where
  "ci_callbacks lib =
     \<lparr>OnFailed = Some (\<lambda>message.
        bnd (mod_res (\<lambda>instance.
          if VirtualMachineReference (Status instance) = None then set_phase PhaseFailed instance else instance)) (\<lambda>_.
        set_ci_condition lib ''Provisioned'' ''False'' message ''ProvisioningFailed'')),
      OnSuccess = None\<rparr>"

definition ComputeInstance_handleProvisioning ::
  "'w ComputeInstanceReconciler \<Rightarrow> Ctx \<Rightarrow> (ComputeInstance \<times> 'w, outcome) go"
where
  "ComputeInstance_handleProvisioning r ctx =
     bnd get_res (\<lambda>instance.
       if manually_managed instance then ret (no_requeue, None)
       else
         run_provisioning (at_ctx r ctx) (ci_callbacks (Lib r))
           (\<lambda>cur. updateStatusWithRetry r (ObjectKeyFromObject cur) (Status cur)))"

text \<open>There is no test for a nil provider here.\<close>

definition ComputeInstance_handleDeprovisioning ::
  "'w ComputeInstanceReconciler \<Rightarrow> Ctx \<Rightarrow> (ComputeInstance \<times> 'w, outcome) go"
where
  "ComputeInstance_handleDeprovisioning r ctx =
     bnd get_res (\<lambda>instance.
       if manually_managed instance then ret (no_requeue, None)
       else
         handleDeprovisioning
           (r\<lparr>ProvisioningProvider := Some (case ci_Provider r of None \<Rightarrow> nil_provider | Some p \<Rightarrow> p ctx)\<rparr>))"

section \<open>Metadata\<close>

definition resolveSubnetTargetNamespace ::
  "'w ComputeInstanceReconciler \<Rightarrow> ComputeInstance \<Rightarrow> ('w, gerror + string) go"
where
  "resolveSubnetTargetNamespace r instance =
     (let primarySubnetRef = PrimarySubnetRef (Spec instance) in
      if primarySubnetRef = '''' then ret (Inr '''')
      else
        bnd (ci_Get_Subnet r (Namespace (Meta instance), primarySubnetRef)) (\<lambda>res.
          case res of
            Inl err \<Rightarrow> ret (Inl (Wrapf ''failed to get Subnet CR %s: %w'' [primarySubnetRef] err))
          | Inr subnet \<Rightarrow> ret (Inr (Name (Meta subnet)))))"

text \<open>The sentinel \<^verbatim>\<open>errSubnetNotFound\<close> with what it wraps, or any other error.\<close>

datatype preflight_error = errSubnetNotFound gerror | OtherError gerror

definition syncSubnetTargetNamespaceAnnotation ::
  "'w ComputeInstanceReconciler \<Rightarrow> (ComputeInstance \<times> 'w, preflight_error + string \<times> bool) go"
where
  "syncSubnetTargetNamespaceAnnotation r =
     bnd get_res (\<lambda>instance.
       if PrimarySubnetRef (Spec instance) = '''' then ret (Inr ('''', False))
       else
         (case Annotations (Meta instance) osacSubnetTargetNamespaceAnnotation of
            Some ns \<Rightarrow> ret (Inr (ns, False))
          | None \<Rightarrow>
              bnd (on_world (resolveSubnetTargetNamespace r instance)) (\<lambda>res.
                case res of
                  Inl err \<Rightarrow> ret (Inl (if IsNotFound (Lib r) err then errSubnetNotFound err else OtherError err))
                | Inr subnetTargetNamespace \<Rightarrow>
                    bnd (mod_res (set_annotation osacSubnetTargetNamespaceAnnotation subnetTargetNamespace)) (\<lambda>_.
                    ret (Inr (subnetTargetNamespace, True))))))"

definition add_instance_finalizer :: "'w k8s \<Rightarrow> (ComputeInstance \<times> 'w, bool) go" where
  "add_instance_finalizer lib =
     bnd get_res (\<lambda>instance.
       case AddFinalizer lib (Finalizers (Meta instance)) osacComputeInstanceFinalizer of
         (fs, changed) \<Rightarrow> bnd (put_res (set_finalizers fs instance)) (\<lambda>_. ret changed))"

definition syncMetadataPreflight ::
  "'w ComputeInstanceReconciler \<Rightarrow> (ComputeInstance \<times> 'w, preflight_error + string) go"
where
  "syncMetadataPreflight r =
     bnd (add_instance_finalizer (Lib r)) (\<lambda>metadataChanged.
     bnd (syncSubnetTargetNamespaceAnnotation r) (\<lambda>res.
       case res of
         Inl err \<Rightarrow> ret (Inl err)
       | Inr (subnetTargetNamespace, changed) \<Rightarrow>
           if metadataChanged \<or> changed then
             bnd (update_object r) (\<lambda>e.
               case e of
                 Some err \<Rightarrow> ret (Inl (OtherError err))
               | None \<Rightarrow> ret (Inr subnetTargetNamespace))
           else ret (Inr subnetTargetNamespace)))"

section \<open>Tenant and conditions\<close>

definition ErrTenantBeingDeleted :: gerror where
  "ErrTenantBeingDeleted = Errorf ''tenant is being deleted'' []"

definition getTenant :: "'w ComputeInstanceReconciler \<Rightarrow> (ComputeInstance \<times> 'w, gerror + Tenant) go" where
  "getTenant r =
     bnd get_res (\<lambda>instance.
       case Annotations (Meta instance) osacTenantKey of
         None \<Rightarrow> ret (Inl (Errorf ''tenant information for compute instance %s not found'' [Name (Meta instance)]))
       | Some tenantName \<Rightarrow>
           if tenantName = ''''
           then ret (Inl (Errorf ''tenant information for compute instance %s not found'' [Name (Meta instance)]))
           else
             bnd (on_world (ci_Get_Tenant r (ci_TenantNamespace r, tenantName))) (\<lambda>res.
               case res of
                 Inl err \<Rightarrow> ret (Inl err)
               | Inr tenant \<Rightarrow>
                   if DeletionTimestamp (Meta tenant) \<noteq> None
                   then ret (Inl (Wrapf ''%w: %s'' [Name (Meta tenant)] ErrTenantBeingDeleted))
                   else
                     bnd (mod_res (SetTenantReferenceName (Name (Meta tenant)))) (\<lambda>_.
                     bnd (mod_res (SetTenantReferenceNamespace (Namespace (Meta tenant)))) (\<lambda>_.
                     ret (Inr tenant)))))"

definition labelSelectorFromComputeInstanceInstance :: "ComputeInstance \<Rightarrow> string \<times> string" where
  "labelSelectorFromComputeInstanceInstance instance = (osacComputeInstanceNameLabel, Name (Meta instance))"

definition conditionReason :: "ComputeInstance \<Rightarrow> string \<Rightarrow> string" where
  "conditionReason instance condType =
     (case ComputeInstance_GetStatusCondition instance condType of None \<Rightarrow> '''' | Some c \<Rightarrow> cond_Reason c)"

definition conditionStatus :: "ComputeInstance \<Rightarrow> string \<Rightarrow> string" where
  "conditionStatus instance condType =
     (case ComputeInstance_GetStatusCondition instance condType of None \<Rightarrow> ''Unknown'' | Some c \<Rightarrow> cond_Status c)"

definition ComputeInstance_initializeStatusCondition ::
  "'w k8s \<Rightarrow> string \<Rightarrow> string \<Rightarrow> string \<Rightarrow> (ComputeInstance \<times> 'w, unit) go"
where
  "ComputeInstance_initializeStatusCondition lib conditionType status reason =
     bnd get_res (\<lambda>instance.
       case ComputeInstance_GetStatusCondition instance conditionType of
         Some _ \<Rightarrow> ret ()
       | None \<Rightarrow> set_ci_condition lib conditionType status '''' reason)"

definition ComputeInstance_initializeStatusConditions :: "'w k8s \<Rightarrow> (ComputeInstance \<times> 'w, unit) go" where
  "ComputeInstance_initializeStatusConditions lib =
     bnd (ComputeInstance_initializeStatusCondition lib ''ConfigurationApplied'' ''False'' ''Initialized'') (\<lambda>_.
     bnd (ComputeInstance_initializeStatusCondition lib ''Ready'' ''False'' ''Initialized'') (\<lambda>_.
     bnd (ComputeInstance_initializeStatusCondition lib ''Provisioned'' ''False'' ''Initialized'') (\<lambda>_.
     ComputeInstance_initializeStatusCondition lib ''RestartRequired'' ''False'' ''Initialized'')))"

section \<open>The virtual machine\<close>

definition findKubeVirtVMs ::
  "'w target_cluster \<Rightarrow> ComputeInstance \<Rightarrow> string \<Rightarrow> ('w, gerror + VirtualMachine option) go"
where
  "findKubeVirtVMs targetClient instance nsName =
     bnd (tc_List_VirtualMachines targetClient nsName (labelSelectorFromComputeInstanceInstance instance)) (\<lambda>res.
       case res of
         Inl err \<Rightarrow> ret (Inl err)
       | Inr items \<Rightarrow>
           if length items > 1 then
             ret (Inl (Errorf ''found too many (%d) matching KubeVirt VMs for %s''
               [Itoa (int (length items)), Name (Meta instance)]))
           else (case items of [] \<Rightarrow> ret (Inr None) | vm # _ \<Rightarrow> ret (Inr (Some vm))))"

fun first_ip :: "string list \<Rightarrow> string" where
  "first_ip [] = ''''"
| "first_ip (ip # ips) = (if ip \<noteq> '''' then ip else first_ip ips)"

definition getFirstVMIIPAddress :: "'w target_cluster \<Rightarrow> string \<Rightarrow> string \<Rightarrow> ('w, string) go" where
  "getFirstVMIIPAddress targetClient namespace n =
     bnd (tc_Get_Interfaces targetClient (namespace, n)) (\<lambda>res.
       case res of Inl err \<Rightarrow> ret '''' | Inr interfaces \<Rightarrow> ret (first_ip interfaces))"

definition PrintableStatus_String :: "VirtualMachinePrintableStatus \<Rightarrow> string" where
  "PrintableStatus_String s =
     (case s of
        NoPrintableStatus \<Rightarrow> '''' | StatusStopped \<Rightarrow> ''Stopped'' | StatusProvisioning \<Rightarrow> ''Provisioning''
      | StatusStarting \<Rightarrow> ''Starting'' | StatusRunning \<Rightarrow> ''Running'' | StatusPaused \<Rightarrow> ''Paused''
      | StatusStopping \<Rightarrow> ''Stopping'' | StatusTerminating \<Rightarrow> ''Terminating''
      | StatusCrashLoopBackOff \<Rightarrow> ''CrashLoopBackOff'' | StatusMigrating \<Rightarrow> ''Migrating''
      | StatusUnknown \<Rightarrow> ''Unknown'' | StatusUnschedulable \<Rightarrow> ''ErrorUnschedulable''
      | StatusErrImagePull \<Rightarrow> ''ErrImagePull'' | StatusImagePullBackOff \<Rightarrow> ''ImagePullBackOff''
      | StatusPvcNotFound \<Rightarrow> ''ErrorPvcNotFound'' | StatusDataVolumeError \<Rightarrow> ''DataVolumeError''
      | StatusWaitingForVolumeBinding \<Rightarrow> ''WaitingForVolumeBinding''
      | StatusWaitingForReceiver \<Rightarrow> ''WaitingForReceiver'' | OtherPrintableStatus x \<Rightarrow> x)"

text \<open>A condition on the instance together with an event unless the reason was there before.\<close>

definition ci_event ::
  "'w ComputeInstanceReconciler \<Rightarrow> string \<Rightarrow> string \<Rightarrow> string \<Rightarrow> (ComputeInstance \<times> 'w, unit) go"
where
  "ci_event r eventtype reason msg =
     bnd get_res (\<lambda>instance. on_world (ci_Eventf r (ObjectKeyFromObject instance) eventtype reason eventActionReconcile msg))"

definition provisioned_with_event ::
  "'w ComputeInstanceReconciler \<Rightarrow> string \<Rightarrow> string \<Rightarrow> string \<Rightarrow> string \<Rightarrow> string \<Rightarrow> (ComputeInstance \<times> 'w, unit) go"
where
  "provisioned_with_event r oldProvisionedReason status msg reason eventtype =
     bnd (set_ci_condition (Lib r) ''Provisioned'' status msg reason) (\<lambda>_.
       if oldProvisionedReason \<noteq> reason then ci_event r eventtype reason msg else ret ())"

definition storage_message :: "ComputeInstanceSpec \<Rightarrow> string" where
  "storage_message spec =
     (let msg = sprintf ''Creating DataVolumes for boot disk (%dGiB)'' [Itoa (SizeGiB (ci_BootDisk spec))] in
      if ci_AdditionalDisks spec \<noteq> []
      then sprintf ''%s and %d additional disk(s)'' [msg, Itoa (int (length (ci_AdditionalDisks spec)))] else msg)"

definition sync_provisioned :: "'w ComputeInstanceReconciler \<Rightarrow> VirtualMachine \<Rightarrow> (ComputeInstance \<times> 'w, unit) go" where
  "sync_provisioned r kv =
     bnd get_res (\<lambda>instance.
       let oldProvisionedReason = conditionReason instance ''Provisioned'' in
       if kv_PrintableStatus kv = NoPrintableStatus then ret ()
       else if kv_PrintableStatus kv = StatusProvisioning then
         provisioned_with_event r oldProvisionedReason ''False'' (storage_message (Spec instance)) ''ProvisioningStorage'' ''Normal''
       else if kv_PrintableStatus kv = StatusUnschedulable then
         set_ci_condition (Lib r) ''Provisioned'' ''False'' (schedulingWaitMessage kv) ''Scheduling''
       else if provisioningErrorMessage kv \<noteq> '''' then
         provisioned_with_event r oldProvisionedReason ''False'' (provisioningErrorMessage kv) ''ProvisioningFailed'' ''Warning''
       else if isOperationalStatus (kv_PrintableStatus kv) then
         provisioned_with_event r oldProvisionedReason ''True'' ''All infrastructure resources provisioned successfully''
           ''InfrastructureReady'' ''Normal''
       else
         provisioned_with_event r oldProvisionedReason ''False''
           (sprintf ''VM entered unexpected status: %s'' [PrintableStatus_String (kv_PrintableStatus kv)])
           ''ProvisioningFailed'' ''Warning'')"

definition sync_ready ::
  "'w ComputeInstanceReconciler \<Rightarrow> 'w target_cluster \<Rightarrow> VirtualMachine \<Rightarrow> (ComputeInstance \<times> 'w, unit) go"
where
  "sync_ready r targetClient kv =
     bnd get_res (\<lambda>instance.
       let oldReadyStatus = conditionStatus instance ''Ready'' in
       if kvVMHasConditionWithStatus kv VirtualMachineReady ''True'' then
         bnd (on_world (getFirstVMIIPAddress targetClient (kv_Namespace kv) (kv_Name kv))) (\<lambda>ipAddress.
         bnd (set_ci_condition (Lib r) ''Ready'' ''True'' '''' ''AsExpected'') (\<lambda>_.
         bnd (mod_res (SetIPAddress ipAddress)) (\<lambda>_.
           if oldReadyStatus \<noteq> ''True''
           then ci_event r ''Normal'' ''Ready'' (sprintf ''VirtualMachine is ready, IP: %s'' [ipAddress])
           else ret ())))
       else set_ci_condition (Lib r) ''Ready'' ''False'' '''' ''AsExpected'')"

definition handleKubeVirtVM ::
  "'w ComputeInstanceReconciler \<Rightarrow> 'w target_cluster \<Rightarrow> VirtualMachine \<Rightarrow> (ComputeInstance \<times> 'w, gerror option) go"
where
  "handleKubeVirtVM r targetClient kv =
     bnd (mod_res (SetVirtualMachineReferenceKubeVirtVirtualMachineName (kv_Name kv))) (\<lambda>_.
     bnd (mod_res (SetVirtualMachineReferenceNamespace (kv_Namespace kv))) (\<lambda>_.
     bnd (sync_provisioned r kv) (\<lambda>_.
     bnd (sync_ready r targetClient kv) (\<lambda>_.
     bnd (set_ci_condition (Lib r) ''RestartRequired''
            (if kvVMHasConditionWithStatus kv VirtualMachineRestartRequired ''True'' then ''True'' else ''False'')
            '''' ''AsExpected'') (\<lambda>_.
     ret None)))))"

section \<open>Handlers\<close>

definition ComputeInstance_handleDesiredConfigVersion :: "(ComputeInstance \<times> 'w, gerror option) go" where
  "ComputeInstance_handleDesiredConfigVersion =
     bnd get_res (\<lambda>instance.
       case ComputeDesiredConfigVersion (Inr (json_Marshal (ComputeInstanceSpec_JSON (Spec instance)))) of
         Inl err \<Rightarrow> ret (Some err)
       | Inr version \<Rightarrow> bnd (set_desired_version version) (\<lambda>_. ret None))"

definition TenantPhase_String :: "Phase \<Rightarrow> string" where
  "TenantPhase_String p =
     (case p of
        PhaseProgressing \<Rightarrow> ''Progressing'' | PhaseReady \<Rightarrow> ''Ready'' | PhaseFailed \<Rightarrow> ''Failed''
      | PhaseDeleting \<Rightarrow> ''Deleting'' | _ \<Rightarrow> '''')"

definition tenant_message :: "'w k8s \<Rightarrow> Tenant \<Rightarrow> string" where
  "tenant_message lib tenant =
     (let msg = sprintf (''Tenant '' @ [CHR 0x27] @ ''%s'' @ [CHR 0x27] @ '' is not ready (phase: %s)'')
            [Name (Meta tenant), TenantPhase_String (ten_Phase (Status tenant))] in
      case FindStatusCondition lib (ten_Conditions (Status tenant)) (TenantConditionType_String TenantConditionClusterStorageReady) of
        None \<Rightarrow> msg
      | Some scCond \<Rightarrow>
          if cond_Message scCond \<noteq> ''''
          then sprintf ''%s. %s: %s'' [msg, cond_Type scCond, cond_Message scCond] else msg)"

definition tenant_not_ready :: "'w ComputeInstanceReconciler \<Rightarrow> Tenant \<Rightarrow> (ComputeInstance \<times> 'w, outcome) go" where
  "tenant_not_ready r tenant =
     (let msg = tenant_message (Lib r) tenant in
      bnd get_res (\<lambda>instance.
        let oldReason = conditionReason instance ''Provisioned'' in
        bnd (set_ci_condition (Lib r) ''Provisioned'' ''False'' msg ''TenantNotReady'') (\<lambda>_.
        bnd (if oldReason \<noteq> ''TenantNotReady'' then ci_event r ''Normal'' ''TenantNotReady'' msg else ret ()) (\<lambda>_.
        ret (\<lparr>RequeueAfter = defaultPreconditionRequeueInterval\<rparr>, None)))))"

definition sync_vm ::
  "'w ComputeInstanceReconciler \<Rightarrow> 'w target_cluster \<Rightarrow> VirtualMachine option \<Rightarrow> (ComputeInstance \<times> 'w, gerror option) go"
where
  "sync_vm r targetClient kv =
     (case kv of
        Some vm \<Rightarrow>
          bnd (handleKubeVirtVM r targetClient vm) (\<lambda>e.
            case e of
              Some err \<Rightarrow> ret (Some err)
            | None \<Rightarrow>
                bnd (mod_res (\<lambda>instance.
                       set_phase (determinePhaseFromPrintableStatus vm (Phase (Status instance))) instance)) (\<lambda>_. ret None))
      | None \<Rightarrow>
          bnd (mod_res (set_phase PhaseStarting)) (\<lambda>_.
          bnd (set_ci_condition (Lib r) ''Provisioned'' ''False''
                 ''VirtualMachine not yet created, waiting for provisioning'' ''WaitingForVM'') (\<lambda>_.
          bnd (set_ci_condition (Lib r) ''Ready'' ''False'' '''' ''AsExpected'') (\<lambda>_.
          bnd (set_ci_condition (Lib r) ''RestartRequired'' ''False'' '''' ''AsExpected'') (\<lambda>_.
          ret None)))))"

text \<open>The time of a requested restart that lies after the last one.\<close>

definition restart_pending :: "ComputeInstance \<Rightarrow> instant option" where
  "restart_pending instance =
     (case ci_RestartRequestedAt (Spec instance) of
        None \<Rightarrow> None
      | Some t \<Rightarrow>
          (case LastRestartedAt (Status instance) of
             None \<Rightarrow> Some t
           | Some lastRestarted \<Rightarrow> if t > lastRestarted then Some t else None))"

definition sync_configuration :: "'w k8s \<Rightarrow> (ComputeInstance \<times> 'w, unit) go" where
  "sync_configuration lib =
     bnd get_res (\<lambda>instance.
       if IsConfigApplied (ProvisioningJobs (Status instance)) (DesiredConfigVersion (Status instance)) then
         bnd (set_ci_condition lib ''ConfigurationApplied'' ''True'' '''' ''AsExpected'') (\<lambda>_.
           case restart_pending instance of
             None \<Rightarrow> ret ()
           | Some t \<Rightarrow>
               bnd (mod_res (map_status (\<lambda>st. st\<lparr>LastRestartedAt := Some t\<rparr>))) (\<lambda>_.
               set_ci_condition lib ''RestartInProgress'' ''False'' '''' ''AsExpected''))
       else
         bnd (set_ci_condition lib ''ConfigurationApplied'' ''False'' ''Applying configuration'' ''AsExpected'') (\<lambda>_.
           case restart_pending instance of
             None \<Rightarrow> ret ()
           | Some t \<Rightarrow>
               set_ci_condition lib ''RestartInProgress'' ''True''
                 (sprintf ''Restart initiated at %s'' [format_RFC3339 t]) ''RestartInProgress''))"

definition provision_for_tenant ::
  "'w ComputeInstanceReconciler \<Rightarrow> Ctx \<Rightarrow> Tenant \<Rightarrow> (ComputeInstance \<times> 'w, outcome) go"
where
  "provision_for_tenant r ctx tenant =
     (let ctx1 = (if ten_StorageClasses (Status tenant) \<noteq> []
                  then WithTenantStorageClasses ctx (ten_StorageClasses (Status tenant)) else ctx) in
      bnd (on_world (resolveAndInjectTierContext ctx1 (ci_TiersClient r) (ci_BackendsClient r))) (\<lambda>(ctx2, _).
      ComputeInstance_handleProvisioning r ctx2))"

definition on_target ::
  "'w ComputeInstanceReconciler \<Rightarrow> Ctx \<Rightarrow> Tenant \<Rightarrow> string \<Rightarrow> 'w target_cluster \<Rightarrow> (ComputeInstance \<times> 'w, outcome) go"
where
  "on_target r ctx tenant subnetTargetNamespace targetClient =
     (let targetNamespace = (if subnetTargetNamespace \<noteq> '''' then subnetTargetNamespace else ten_Namespace (Status tenant)) in
      bnd get_res (\<lambda>instance.
      bnd (on_world (findKubeVirtVMs targetClient instance targetNamespace)) (\<lambda>res.
        case res of
          Inl err \<Rightarrow> ret (no_requeue, Some err)
        | Inr kv \<Rightarrow>
            bnd (sync_vm r targetClient kv) (\<lambda>e.
              case e of
                Some err \<Rightarrow> ret (no_requeue, Some err)
              | None \<Rightarrow>
                  bnd ComputeInstance_handleDesiredConfigVersion (\<lambda>e.
                    case e of
                      Some err \<Rightarrow> ret (no_requeue, Some err)
                    | None \<Rightarrow>
                        bnd (sync_configuration (Lib r)) (\<lambda>_. provision_for_tenant r ctx tenant))))))"

definition ComputeInstance_handleUpdate :: "'w ComputeInstanceReconciler \<Rightarrow> Ctx \<Rightarrow> (ComputeInstance \<times> 'w, outcome) go" where
  "ComputeInstance_handleUpdate r ctx =
     bnd (syncMetadataPreflight r) (\<lambda>pre.
       case pre of
         Inl (errSubnetNotFound err) \<Rightarrow> ret (\<lparr>RequeueAfter = 30 * Second\<rparr>, None)
       | Inl (OtherError err) \<Rightarrow> ret (no_requeue, Some err)
       | Inr subnetTargetNamespace \<Rightarrow>
           bnd (ComputeInstance_initializeStatusConditions (Lib r)) (\<lambda>_.
           bnd (mod_res (\<lambda>instance. if Phase (Status instance) = PhaseUnset then set_phase PhaseStarting instance else instance)) (\<lambda>_.
           bnd (getTenant r) (\<lambda>res.
             case res of
               Inl err \<Rightarrow> ret (no_requeue, Some err)
             | Inr tenant \<Rightarrow>
                 if ten_Phase (Status tenant) \<noteq> PhaseReady then tenant_not_ready r tenant
                 else
                   bnd (on_world (getTargetClient (ci_GetCluster r))) (\<lambda>res.
                     case res of
                       Inl err \<Rightarrow> ret (no_requeue, Some err)
                     | Inr targetClient \<Rightarrow> on_target r ctx tenant subnetTargetNamespace targetClient)))))"

definition ComputeInstance_handleDelete :: "'w ComputeInstanceReconciler \<Rightarrow> Ctx \<Rightarrow> (ComputeInstance \<times> 'w, outcome) go" where
  "ComputeInstance_handleDelete r ctx =
     bnd (mod_res (set_phase PhaseDeleting)) (\<lambda>_.
     bnd get_res (\<lambda>instance.
       if \<not> ContainsFinalizer (Lib r) (Finalizers (Meta instance)) osacComputeInstanceFinalizer then ret (no_requeue, None)
       else
         bnd (ComputeInstance_handleDeprovisioning r ctx) (\<lambda>(result, err).
           if err \<noteq> None then ret (result, err)
           else if RequeueAfter result > 0 then ret (result, None)
           else release_if_present r osacComputeInstanceFinalizer)))"

definition ComputeInstance_Reconcile :: "'w ComputeInstanceReconciler \<Rightarrow> ObjectKey \<Rightarrow> ('w, outcome) go" where
  "ComputeInstance_Reconcile r key =
     reconcile_frame r (ComputeInstance_handleUpdate r background) (ComputeInstance_handleDelete r background)
       (\<lambda>instance. updateStatusWithRetry r key (Status instance)) key"

end
