(* ===== verification/Compute_Instance_Properties.thy ===== *)
theory Compute_Instance_Properties
  imports Compute_Instances Cluster_Order_Properties
begin

text \<open>
  Properties of the controller of compute instances. \<open>ci_hub\<close> says what it relies on; under it a reconciliation keeps
  every job history well-formed. An instance being deleted is written only after deprovisioning is over. What a
  virtual machine shows determines the phase and the condition Provisioned together, and a restart is
  recorded exactly when the configuration that asked for it has been applied.
\<close>

section \<open>What is assumed of the surroundings\<close>

definition ci_calls :: "'w ComputeInstanceReconciler \<Rightarrow> 'w world_view \<Rightarrow> bool" where
  "ci_calls r V \<longleftrightarrow>
     (\<forall>key. steady V (ci_Get_Subnet r key)) \<and> (\<forall>key. steady V (ci_Get_Tenant r key)) \<and>
     (\<forall>key t x a m. steady V (ci_Eventf r key t x a m)) \<and> steady V (ci_GetCluster r) \<and>
     (\<forall>w c w'. ci_GetCluster r w = Some (Inr c, w') \<longrightarrow>
        (\<forall>ns k v. steady V (tc_List_VirtualMachines c ns (k, v))) \<and> (\<forall>key. steady V (tc_Get_Interfaces c key))) \<and>
     (\<forall>list n. ci_TiersClient r = Some list \<longrightarrow> steady V (list n)) \<and>
     (\<forall>b i. ci_BackendsClient r = Some b \<longrightarrow> steady V (sb_Get b i))"

definition ci_hub :: "'w ComputeInstanceReconciler \<Rightarrow> 'w world_view \<Rightarrow> bool" where
  "ci_hub r V \<longleftrightarrow> tidy (r\<lparr>ProvisioningProvider := None\<rparr>) V \<and> ci_calls r V \<and>
     (\<forall>p ctx. ci_Provider r = Some p \<longrightarrow> honest V (p ctx)) \<and>
     (\<forall>obj w. system_ok (MaxJobHistory r) status_jobs V (obj, w) \<longrightarrow> wlp (Status_Update (Client r) obj) (\<lambda>_. advances V w) w)"

lemma ci_hubD:
  assumes "ci_hub r V"
  shows "tidy (r\<lparr>ProvisioningProvider := None\<rparr>) V" "ci_Provider r = Some p \<Longrightarrow> honest V (p ctx)"
    "system_ok (MaxJobHistory r) status_jobs V (obj, w) \<Longrightarrow> wlp (Status_Update (Client r) obj) (\<lambda>_. advances V w) w"
  using assms unfolding ci_hub_def by blast+

lemma ci_callsD [simp]:
  assumes "ci_hub r V"
  shows "steady V (ci_Get_Subnet r key)" "steady V (ci_Get_Tenant r key)" "steady V (ci_Eventf r key t x a m)"
    "steady V (ci_GetCluster r)"
    "ci_TiersClient r = Some list \<Longrightarrow> steady V (list n)" "ci_BackendsClient r = Some b \<Longrightarrow> steady V (sb_Get b i)"
  using assms unfolding ci_hub_def ci_calls_def by (simp_all del: split_paired_All)

definition target_steady :: "'w world_view \<Rightarrow> 'w target_cluster \<Rightarrow> bool" where
  "target_steady V c \<longleftrightarrow>
     (\<forall>ns k v. steady V (tc_List_VirtualMachines c ns (k, v))) \<and> (\<forall>key. steady V (tc_Get_Interfaces c key))"

lemma ci_target: "ci_hub r V \<Longrightarrow> ci_GetCluster r w = Some (Inr c, w') \<Longrightarrow> target_steady V c"
  unfolding ci_hub_def ci_calls_def target_steady_def by blast

lemma tidy_with_provider:
  "tidy (r\<lparr>ProvisioningProvider := None\<rparr>) V \<Longrightarrow> (\<And>q. p = Some q \<Longrightarrow> honest V q) \<Longrightarrow> tidy (r\<lparr>ProvisioningProvider := p\<rparr>) V"
  unfolding tidy_def by simp

lemma update_object_provider: "update_object (r\<lparr>ProvisioningProvider := p\<rparr>) = update_object r"
  by (simp add: update_object_def)

lemma release_provider: "release_if_present (r\<lparr>ProvisioningProvider := p\<rparr>) f = release_if_present r f"
  unfolding release_if_present_def update_object_provider by simp

section \<open>Every step keeps the history well-formed\<close>

abbreviation ci_keeps :: "'w ComputeInstanceReconciler \<Rightarrow> 'w world_view \<Rightarrow> (ComputeInstance \<times> 'w, 'a) go \<Rightarrow> bool" where
  "ci_keeps r V m \<equiv> orderly (MaxJobHistory r) status_jobs V m"

lemma ci_status_writes:
  assumes h: "ci_hub r V" and ok: "system_ok (MaxJobHistory r) status_jobs V (obj, w)"
  shows "wlp (updateStatusWithRetry r key (Status obj)) (\<lambda>_. advances V w) w"
  unfolding updateStatusWithRetry_def
  using tidyD(3) [OF ci_hubD(1) [OF h]] reads_tidy_steady [OF tidyD(4) [OF ci_hubD(1) [OF h]]] ok ci_hubD(3) [OF h]
  by (intro status_write_steady [where mh = "MaxJobHistory r"]) simp_all

lemma ci_accessor_jobs [simp]:
  "ProvisioningJobs (Status (SetVirtualMachineReferenceKubeVirtVirtualMachineName n ci)) = ProvisioningJobs (Status ci)"
  "ProvisioningJobs (Status (SetVirtualMachineReferenceNamespace n ci)) = ProvisioningJobs (Status ci)"
  "ProvisioningJobs (Status (SetTenantReferenceName n ci)) = ProvisioningJobs (Status ci)"
  "ProvisioningJobs (Status (SetTenantReferenceNamespace n ci)) = ProvisioningJobs (Status ci)"
  "ProvisioningJobs (Status (SetIPAddress ip ci)) = ProvisioningJobs (Status ci)"
  "ProvisioningJobs (Status (ComputeInstance_SetStatusCondition lib t c s m x ci)) = ProvisioningJobs (Status ci)"
  "ProvisioningJobs (Status (set_annotation k v ci)) = ProvisioningJobs (Status ci)"
  by (simp_all add: SetVirtualMachineReferenceKubeVirtVirtualMachineName_def SetVirtualMachineReferenceNamespace_def
      EnsureVirtualMachineReference_def SetTenantReferenceName_def SetTenantReferenceNamespace_def EnsureTenantReference_def
      SetIPAddress_def ComputeInstance_SetStatusCondition_def map_conditions_def map_status_def set_annotation_def split: option.split)

lemma ci_edits_keep [simp]:
  "ci_keeps r V (set_ci_condition lib c s m x)" "ci_keeps r V (mod_res (set_phase p))" "ci_keeps r V (set_desired_version v)"
  by (auto simp: set_ci_condition_def set_desired_version_def map_status_def set_phase_def intro!: orderly_mod_res)

lemma ci_event_keeps: "ci_hub r V \<Longrightarrow> ci_keeps r V (ci_event r a b c)"
  by (auto simp: ci_event_def intro!: orderly_on_world)

lemma ci_initialize_keeps [simp]: "ci_keeps r V (ComputeInstance_initializeStatusConditions lib)"
proof -
  have "ci_keeps r V (ComputeInstance_initializeStatusCondition lib c s x)" for c s x
    by (auto simp: ComputeInstance_initializeStatusCondition_def split: option.split)
  then show ?thesis by (auto simp: ComputeInstance_initializeStatusConditions_def)
qed

lemma ci_vm_keeps:
  assumes h: "ci_hub r V" and t: "target_steady V c"
  shows "ci_keeps r V (sync_vm r c kv)" "steady V (findKubeVirtVMs c ci ns)"
proof -
  have "steady V (getFirstVMIIPAddress c ns n)" for ns n
    using t by (auto simp: getFirstVMIIPAddress_def target_steady_def split: sum.split)
  then have "ci_keeps r V (sync_ready r c vm)" for vm
    using ci_event_keeps [OF h]
    by (auto simp: sync_ready_def Let_def intro!: orderly_on_world orderly_mod_res)
  moreover have "ci_keeps r V (sync_provisioned r vm)" for vm
    using ci_event_keeps [OF h] by (auto simp: sync_provisioned_def provisioned_with_event_def Let_def)
  ultimately have "ci_keeps r V (handleKubeVirtVM r c vm)" for vm
    by (auto simp: handleKubeVirtVM_def intro!: orderly_mod_res)
  then show "ci_keeps r V (sync_vm r c kv)"
    by (auto simp: sync_vm_def set_phase_def map_status_def split: option.split intro!: orderly_mod_res)
  show "steady V (findKubeVirtVMs c ci ns)"
    using t by (auto simp: findKubeVirtVMs_def target_steady_def labelSelectorFromComputeInstanceInstance_def
        split: sum.split list.split)
qed

lemma ci_provisioning_keeps:
  assumes h: "ci_hub r V"
  shows "ci_keeps r V (ComputeInstance_handleProvisioning r ctx)" "ci_keeps r V (ComputeInstance_handleDeprovisioning r ctx)"
proof -
  have cb: "quiet_callbacks mh status_jobs V (Some (ci_callbacks (Lib r)))" for mh
    by (auto simp: quiet_callbacks_def ci_callbacks_def quiet_def set_ci_condition_def wp_simps system_ok_def)
  have "tidy (at_ctx r ctx) V"
    unfolding at_ctx_def by (rule tidy_with_provider [OF ci_hubD(1) [OF h]]) (auto dest: ci_hubD(2) [OF h])
  then have "ci_keeps (at_ctx r ctx) V (run_provisioning (at_ctx r ctx) (ci_callbacks (Lib r))
      (\<lambda>cur. updateStatusWithRetry r (ObjectKeyFromObject cur) (Status cur)))"
    by (rule tidy_provisioning [OF _ cb]) (simp add: at_ctx_def ci_status_writes [OF h])
  then show "ci_keeps r V (ComputeInstance_handleProvisioning r ctx)"
    unfolding ComputeInstance_handleProvisioning_def by (auto simp: at_ctx_def)
  have "tidy (r\<lparr>ProvisioningProvider := Some (case ci_Provider r of None \<Rightarrow> nil_provider | Some p \<Rightarrow> p ctx)\<rparr>) V"
    by (rule tidy_with_provider [OF ci_hubD(1) [OF h]]) (auto dest: ci_hubD(2) [OF h] split: option.splits)
  from tidy_deprovisioning [OF this]
  show "ci_keeps r V (ComputeInstance_handleDeprovisioning r ctx)"
    unfolding ComputeInstance_handleDeprovisioning_def by (auto split del: option.split)
qed

lemma ci_preflight_keeps:
  assumes h: "ci_hub r V"
  shows "ci_keeps r V (syncMetadataPreflight r)"
proof -
  have "steady V (resolveSubnetTargetNamespace r ci)" for ci
    using h by (auto simp: resolveSubnetTargetNamespace_def Let_def split: sum.split)
  then have "ci_keeps r V (syncSubnetTargetNamespaceAnnotation r)"
    by (auto simp: syncSubnetTargetNamespaceAnnotation_def orderly_on_world split: option.split sum.split intro!: orderly_mod_res)
  moreover have "ci_keeps r V (add_instance_finalizer (Lib r))"
  proof (rule orderlyI)
    fix ci :: ComputeInstance and w assume "system_ok (MaxJobHistory r) status_jobs V (ci, w)"
    then show "wlp (add_instance_finalizer (Lib r)) (\<lambda>_. system_ok (MaxJobHistory r) status_jobs V) (ci, w)"
      by (simp add: add_instance_finalizer_def wp_simps split: prod.split)
  qed
  moreover have "ci_keeps r V (update_object r)"
    using tidy_update [OF ci_hubD(1) [OF h]] by (simp add: update_object_provider)
  ultimately show ?thesis by (auto simp: syncMetadataPreflight_def split: sum.split option.split)
qed

lemma ci_tenant_keeps:
  assumes h: "ci_hub r V"
  shows "ci_keeps r V (getTenant r)" "ci_keeps r V (tenant_not_ready r ten)"
    "ci_keeps r V (provision_for_tenant r ctx ten)" "ci_keeps r V (sync_configuration lib)"
    "ci_keeps r V ComputeInstance_handleDesiredConfigVersion"
proof -
  show "ci_keeps r V (getTenant r)"
    using h by (auto simp: getTenant_def orderly_on_world split: option.split sum.split intro!: orderly_mod_res)
  show "ci_keeps r V (tenant_not_ready r ten)"
    using ci_event_keeps [OF h] by (auto simp: tenant_not_ready_def Let_def)
  have "steady V (resolveAndInjectTierContext c (ci_TiersClient r) (ci_BackendsClient r))" for c
    using h unfolding resolveAndInjectTierContext_def resolveTierDefinitions_def
    by (auto simp: steady_definition_loop split: sum.split option.split prod.split)
  then show "ci_keeps r V (provision_for_tenant r ctx ten)"
    using ci_provisioning_keeps(1) [OF h] by (auto simp: provision_for_tenant_def Let_def orderly_on_world)
  show "ci_keeps r V (sync_configuration lib)"
    by (auto simp: sync_configuration_def map_status_def split: option.split intro!: orderly_mod_res)
  show "ci_keeps r V ComputeInstance_handleDesiredConfigVersion"
    by (auto simp: ComputeInstance_handleDesiredConfigVersion_def split: sum.split)
qed

lemma on_target_keeps:
  assumes "ci_hub r V" and "target_steady V c"
  shows "ci_keeps r V (on_target r ctx ten ns c)"
  using ci_vm_keeps [OF assms] ci_tenant_keeps [OF assms(1)]
  by (auto simp: on_target_def Let_def orderly_on_world split: sum.split option.split)

lemma target_client_keeps:
  assumes h: "ci_hub r V" and "\<And>c. target_steady V c \<Longrightarrow> ci_keeps r V (f (Inr c))" and "\<And>e. ci_keeps r V (f (Inl e))"
  shows "ci_keeps r V (bnd (on_world (getTargetClient (ci_GetCluster r))) f)"
proof (rule orderlyI)
  fix ci :: ComputeInstance and w assume ok: "system_ok (MaxJobHistory r) status_jobs V (ci, w)"
  then have inv: "wv_inv V w" by (simp add: system_ok_def)
  have "wlp (ci_GetCluster r) (\<lambda>res w'. advances V w w' \<and> (\<forall>c. res = Inr c \<longrightarrow> target_steady V c)) w"
    using steadyD [OF ci_callsD(4) [OF h] inv] ci_target [OF h] by (auto simp: wlp_def split: option.splits)
  then have "wlp (getTargetClient (ci_GetCluster r)) (\<lambda>res w'. advances V w w' \<and> (\<forall>c. res = Inr c \<longrightarrow> target_steady V c)) w"
    unfolding getTargetClient_def wlp_bnd by (rule wlp_mono) (auto simp: wlp_ret split: sum.split)
  then show "wlp (bnd (on_world (getTargetClient (ci_GetCluster r))) f) (\<lambda>_. system_ok (MaxJobHistory r) status_jobs V) (ci, w)"
    unfolding wlp_bnd wlp_on_world prod.case
  proof (rule wlp_mono, goal_cases)
    case (1 res w')
    then have "ci_keeps r V (f res)" using assms(2,3) by (cases res) auto
    then show ?case using 1 by (intro orderlyD system_ok_advance [OF ok]) auto
  qed
qed

lemma ci_handlers_keep:
  assumes h: "ci_hub r V"
  shows "ci_keeps r V (ComputeInstance_handleUpdate r ctx)" "ci_keeps r V (ComputeInstance_handleDelete r ctx)"
proof -
  have "ci_keeps r V (mod_res (\<lambda>ci. if Phase (Status ci) = PhaseUnset then set_phase p ci else ci))" for p
    by (rule orderly_mod_res) (simp add: set_phase_def map_status_def)
  moreover have "ci_keeps r V (bnd (on_world (getTargetClient (ci_GetCluster r))) (\<lambda>res. case res of
      Inl err \<Rightarrow> ret (no_requeue, Some err) | Inr c \<Rightarrow> on_target r ctx ten ns c))" for ten ns
    by (rule target_client_keeps [OF h]) (simp_all add: on_target_keeps [OF h])
  ultimately show "ci_keeps r V (ComputeInstance_handleUpdate r ctx)"
    unfolding ComputeInstance_handleUpdate_def
    using ci_preflight_keeps [OF h] ci_tenant_keeps [OF h]
    by (auto split: sum.split preflight_error.split)
  have "ci_keeps r V (release_if_present r f)" for f
    using tidy_release [OF ci_hubD(1) [OF h]] by (simp add: release_provider)
  then show "ci_keeps r V (ComputeInstance_handleDelete r ctx)"
    unfolding ComputeInstance_handleDelete_def using ci_provisioning_keeps(2) [OF h] by auto
qed

lemma ComputeInstance_Reconcile_inv:
  assumes h: "ci_hub r V" and inv: "wv_inv V w"
  shows "wlp (ComputeInstance_Reconcile r key) (\<lambda>_. wv_inv V) w"
proof -
  note tail = tidy_tail [where b = "\<lambda>err ci'. \<not> DeepEqual (Client r) (Status ci') (Status ci)" and obj = ci
      and writeStatus = "\<lambda>ci'. updateStatusWithRetry r key (Status ci')" for ci, OF _ _ ci_status_writes [OF h]]
  have "reads_tidy (MaxJobHistory r) V (Get (Client r) key)"
    using tidyD(4) [OF ci_hubD(1) [OF h]] by simp
  then show ?thesis
    unfolding ComputeInstance_Reconcile_def reconcile_frame_def wlp_bnd [of "Get _ _"]
    by (rule wlp_mono [OF reads_tidyD [OF _ inv]])
      (use inv ci_handlers_keep [OF h] in \<open>auto simp: wlp_ret advances_def split: sum.split intro!: tail\<close>)
qed

section \<open>Deletion\<close>

text \<open>A server that panics when an instance is written before deprovisioning is over, unless it is managed by hand.\<close>

definition ci_cleared :: "ComputeInstance \<Rightarrow> bool" where
  "ci_cleared ci \<longleftrightarrow> manually_managed ci \<or> succeeded_deprovision (ProvisioningJobs (Status ci))"

definition careful_server :: "'w ComputeInstanceReconciler \<Rightarrow> 'w ComputeInstanceReconciler" where
  "careful_server r =
     r\<lparr>Client := (Client r)\<lparr>Update := (\<lambda>ci w. if ci_cleared ci then Update (Client r) ci w else None)\<rparr>\<rparr>"

lemma careful_server_simps [simp]:
  "Lib (careful_server r) = Lib r" "ci_Provider (careful_server r) = ci_Provider r"
  "Update (Client (careful_server r)) ci w = (if ci_cleared ci then Update (Client r) ci w else None)"
  by (simp_all add: careful_server_def)

lemma careful_server_deprovisioning [simp]:
  "ComputeInstance_handleDeprovisioning (careful_server r) = ComputeInstance_handleDeprovisioning r"
proof -
  have same: "handleDeprovisioning (careful_server r\<lparr>ProvisioningProvider := p\<rparr>) = handleDeprovisioning (r\<lparr>ProvisioningProvider := p\<rparr>)" for p
    by (cases p) (simp_all add: handleDeprovisioning_def careful_server_def)
  show ?thesis
    unfolding ComputeInstance_handleDeprovisioning_def careful_server_simps same ..
qed

lemma release_careful_server:
  "ci_cleared ci \<Longrightarrow> release_if_present (careful_server r) f (ci, w) = release_if_present r f (ci, w)"
  by (simp add: release_if_present_def update_object_def go_simps ci_cleared_def manually_managed_def set_finalizers_def
      split: prod.split)

lemma nil_provider_blocking: "blocking_deprovisioning status_jobs nil_provider"
  by (intro blocking_deprovisioning.intro blocking_deprovisioning_axioms.intro sj.jobs_ref_axioms)
    (simp add: nil_provider_def wp_simps)

lemma ci_deprovisioning_clears:
  assumes h: "ci_hub r V" and strict: "wv_strict V" and poll: "0 < StatusPollInterval r"
    and ins: "\<And>p. ci_Provider r = Some p \<Longrightarrow> blocking_deprovisioning status_jobs (p ctx)"
    and ok: "system_ok (MaxJobHistory r) status_jobs V (ci, w)"
  shows "wlp (ComputeInstance_handleDeprovisioning r ctx) (\<lambda>(res, err) (ci', w'). Meta ci' = Meta ci \<and>
     (err = None \<longrightarrow> RequeueAfter res \<le> 0 \<longrightarrow> ci_cleared ci')) (ci, w)"
proof (cases "manually_managed ci")
  case False
  let ?r = "r\<lparr>ProvisioningProvider := Some (case ci_Provider r of None \<Rightarrow> nil_provider | Some p \<Rightarrow> p ctx)\<rparr>"
  have "tidy ?r V"
    by (rule tidy_with_provider [OF ci_hubD(1) [OF h]]) (auto dest: ci_hubD(2) [OF h] split: option.splits)
  from tidy_deprovisioning_clears [OF this strict, where obj = ci and w = w] ok poll ins
  have "wlp (handleDeprovisioning ?r) (\<lambda>(res, err) (ci', w'). Meta ci' = Meta ci \<and>
     (err = None \<longrightarrow> RequeueAfter res \<le> 0 \<longrightarrow> succeeded_deprovision (ProvisioningJobs (Status ci')))) (ci, w)"
    by (auto simp: nil_provider_blocking split: option.splits)
  then show ?thesis
    using False unfolding ComputeInstance_handleDeprovisioning_def wlp_bnd [of get_res] wlp_get_res prod.case
    by (auto simp: ci_cleared_def elim!: wlp_mono)
qed (auto simp: ComputeInstance_handleDeprovisioning_def wp_simps ci_cleared_def)

text \<open>
  C10: an instance is given up last. The deletion of a compute instance does exactly the same with a server that
  panics when the instance is written while its newest deprovisioning job has not succeeded, unless the instance is
  managed by hand. So its finalizer is never removed earlier. This holds if the poll interval is positive, the job
  history of the instance is well-formed with only blocking deprovisioning jobs, the provider, where there is one, is
  honest and insists on deprovisioning (it neither skips it nor answers with a rate limit, and its jobs block the
  deletion), and the hub keeps to the laws of the API server.
\<close>

theorem instance_given_up_last:
  assumes h: "ci_hub r V" and strict: "wv_strict V" and poll: "0 < StatusPollInterval r"
    and ins: "\<And>p. ci_Provider r = Some p \<Longrightarrow> blocking_deprovisioning status_jobs (p ctx)"
    and ok: "system_ok (MaxJobHistory r) status_jobs V (ci, w)"
  shows "ComputeInstance_handleDelete (careful_server r) ctx (ci, w) = ComputeInstance_handleDelete r ctx (ci, w)"
proof -
  let ?ci = "set_phase PhaseDeleting ci"
  have ok': "system_ok (MaxJobHistory r) status_jobs V (?ci, w)" using ok by (simp add: system_ok_def)
  have "bnd (ComputeInstance_handleDeprovisioning r ctx) (\<lambda>(result, err). if err \<noteq> None then ret (result, err)
         else if RequeueAfter result > 0 then ret (result, None) else release_if_present (careful_server r) f) (?ci, w) =
      bnd (ComputeInstance_handleDeprovisioning r ctx) (\<lambda>(result, err). if err \<noteq> None then ret (result, err)
         else if RequeueAfter result > 0 then ret (result, None) else release_if_present r f) (?ci, w)" for f
  proof (rule bnd_cong_at, goal_cases)
    case (1 x s)
    obtain res err ci1 w1 where x: "x = (res, err)" "s = (ci1, w1)" by (cases x, cases s)
    have "wlp (ComputeInstance_handleDeprovisioning r ctx) (\<lambda>(res, err) (ci', w'). Meta ci' = Meta ?ci \<and>
        (err = None \<longrightarrow> RequeueAfter res \<le> 0 \<longrightarrow> ci_cleared ci')) (?ci, w)"
      by (rule ci_deprovisioning_clears [OF h strict poll _ ok']) (rule ins)
    from wlpD [OF this 1] x show ?case by (auto simp: release_careful_server)
  qed
  then show ?thesis
    by (simp add: ComputeInstance_handleDelete_def bnd_apply [of "mod_res _"] mod_res_apply bnd_apply [of get_res] get_res_apply)
qed

text \<open>
  Without a provider the deletion of an instance that still carries the finalizer and has no deprovisioning job
  calls a method of a nil interface: the controller panics, though a reconciliation that provisions tolerates a missing
  provider.
\<close>

theorem deletion_without_provider_panics:
  assumes "ci_Provider r = None" and "\<not> manually_managed ci"
    and "ContainsFinalizer (Lib r) (Finalizers (Meta ci)) osacComputeInstanceFinalizer"
    and "FindLatestJobByType (ProvisioningJobs (Status ci)) JobTypeDeprovision = None"
  shows "ComputeInstance_handleDelete r ctx (ci, w) = None"
    and "\<not> manually_managed ci \<Longrightarrow> ComputeInstance_handleProvisioning r ctx (ci, w) = Some ((no_requeue, None), (ci, w))"
  using assms
  by (simp_all add: ComputeInstance_handleDelete_def ComputeInstance_handleDeprovisioning_def handleDeprovisioning_def
      RunDeprovisioningLifecycle_def TriggerDeprovisionJob_def nil_provider_def go_simps set_phase_def map_status_def
      manually_managed_def status_jobs_def read_jobs_def ComputeInstance_handleProvisioning_def run_provisioning_def at_ctx_def)

section \<open>A sample hub\<close>

record ci_world =
  ciw_started :: nat
  ciw_instance :: ComputeInstance
  ciw_vms :: "VirtualMachine list"
  ciw_events :: "string list"

definition ciw_bump :: "ci_world \<Rightarrow> ci_world" where
  "ciw_bump w = w\<lparr>ciw_started := Suc (ciw_started w)\<rparr>"

definition ciw_ok :: "ci_world \<Rightarrow> bool" where
  "ciw_ok w \<longleftrightarrow> history_fits (ciw_started w) (ProvisioningJobs (Status (ciw_instance w)))"

definition ciw_view :: "ci_world world_view" where
  "ciw_view = sample_view ciw_started (\<lambda>_. {}) ciw_ok"

definition ciw_client :: "(ComputeInstanceSpec, ComputeInstanceStatus, ci_world) kclient" where
  "ciw_client =
     (let get = (\<lambda>key w. Some (if key = ObjectKeyFromObject (ciw_instance w) then Inr (ciw_instance w)
                   else Inl (APIStatusError ''NotFound'' ''''), w)) in
      \<lparr>Get = get, APIReader_Get = get,
       Update = (\<lambda>ci w. let ci' = ci\<lparr>Status := Status (ciw_instance w)\<rparr> in Some (Inr ci', w\<lparr>ciw_instance := ci'\<rparr>)),
       Status_Update = (\<lambda>ci w. Some (None, w\<lparr>ciw_instance := (ciw_instance w)\<lparr>Status := Status ci\<rparr>\<rparr>)),
       DeepEqual = (=)\<rparr>)"

definition ciw_tenant :: Tenant where
  "ciw_tenant =
     \<lparr>Meta = \<lparr>Name = ''t1'', Namespace = ''tenants'', Labels = Map.empty, Annotations = Map.empty, Finalizers = [], DeletionTimestamp = None\<rparr>,
      Spec = (),
      Status = \<lparr>ten_Phase = PhaseReady, ten_Namespace = ''t1-ns'', ten_StorageClasses = [], ten_Conditions = [], ten_ProvisioningJobs = [],
        ten_StorageBackendJobs = [], ten_ClusterStorageJobs = [], ten_StorageBackends = [], ten_ClusterStorage = []\<rparr>\<rparr>"

definition ciw_reconciler :: "JobState \<Rightarrow> ci_world ComputeInstanceReconciler" where
  "ciw_reconciler st =
     \<lparr>Lib = sample_lib (\<lambda>w. int (ciw_started w) * Second), Client = ciw_client, ProvisioningProvider = None,
      StatusPollInterval = Minute, MaxJobHistory = 10,
      ci_Provider = Some (\<lambda>ctx. sample_provider ciw_started ciw_bump st),
      ci_Get_Subnet = (\<lambda>key. ret (Inl (APIStatusError ''NotFound'' ''''))),
      ci_Get_Tenant = (\<lambda>key. ret (Inr ciw_tenant)),
      ci_List_ByTenant = (\<lambda>ns n. ret (Inr [])),
      ci_GetCluster = ret (Inr \<lparr>tc_List_VirtualMachines = (\<lambda>ns sel w. Some (Inr (ciw_vms w), w)),
        tc_Get_Interfaces = (\<lambda>key. ret (Inr ['''', ''10.0.0.7'']))\<rparr>),
      ci_Eventf = (\<lambda>key t x a m w. Some ((), w\<lparr>ciw_events := x # ciw_events w\<rparr>)),
      ci_ComputeInstanceNamespace = ''cis'', ci_TenantNamespace = ''tenants'', ci_NetworkingNamespace = ''net'',
      ci_TiersClient = None, ci_BackendsClient = None\<rparr>"

definition ciw_sample :: "instant option \<Rightarrow> JobStatus list \<Rightarrow> ComputeInstance" where
  "ciw_sample d jobs =
     \<lparr>Meta = \<lparr>Name = ''vm1'', Namespace = ''cis'', Labels = Map.empty, Annotations = [osacTenantKey \<mapsto> ''t1''],
        Finalizers = (if d = None then [] else [osacComputeInstanceFinalizer]), DeletionTimestamp = d\<rparr>,
      Spec = \<lparr>ci_TemplateID = ''t'', ci_TemplateParameters = '''', ci_Image = \<lparr>SourceType = ''registry'', SourceRef = ''x''\<rparr>,
        ci_GuestOSFamily = '''', ci_Cores = 2, ci_MemoryGiB = 4, ci_BootDisk = \<lparr>SizeGiB = 20\<rparr>, ci_AdditionalDisks = [],
        ci_RunStrategy = ''Always'', ci_UserDataSecretRef = None, ci_SSHKey = '''', ci_NetworkAttachments = [],
        ci_RestartRequestedAt = Some 7\<rparr>,
      Status = \<lparr>Phase = PhaseStarting, DesiredConfigVersion = ''v'', ProvisioningJobs = jobs, Conditions = [],
        VirtualMachineReference = None, TenantReference = None, LastRestartedAt = Some 3, IPAddress = '''', ExternalIPAddress = ''''\<rparr>\<rparr>"

definition ciw_start :: "instant option \<Rightarrow> JobStatus list \<Rightarrow> ci_world" where
  "ciw_start d jobs = \<lparr>ciw_started = 2, ciw_instance = ciw_sample d jobs, ciw_vms = [], ciw_events = []\<rparr>"

lemma ciw_view_simps [simp]:
  "wv_now ciw_view w = int (ciw_started w) * Second" "wv_issued ciw_view w = job_name ` {n. n \<le> ciw_started w}"
  "wv_released ciw_view w = {}" "wv_inv ciw_view = ciw_ok" "wv_strict ciw_view"
  by (simp_all add: ciw_view_def sample_view_def)

lemma system_ok_ciw:
  "system_ok 10 status_jobs ciw_view (ci, w) \<longleftrightarrow> history_fits (ciw_started w) (ProvisioningJobs (Status ci)) \<and> ciw_ok w"
  by (auto simp: system_ok_def history_fits_def)

lemma ciw_honest: "honest ciw_view (sample_provider ciw_started ciw_bump st)"
  unfolding ciw_view_def by (rule sample_honest) (auto simp: ciw_bump_def ciw_ok_def intro: history_fits_mono)

lemma ciw_hub: "ci_hub (ciw_reconciler st) ciw_view"
proof -
  have "retry_law (Lib (ciw_reconciler st)) ciw_view"
    by (simp add: retry_law_def ciw_reconciler_def sample_lib_def)
  moreover have "reads_tidy 10 ciw_view (Get ciw_client key)" "reads_tidy 10 ciw_view (APIReader_Get ciw_client key)" for key
    by (auto simp: reads_tidy_def wlp_def ciw_client_def Let_def system_ok_ciw ciw_ok_def)
  moreover have "wlp (Update ciw_client ci) (\<lambda>res w'. advances ciw_view w w' \<and>
      (\<forall>ci'. res = Inr ci' \<longrightarrow> system_ok 10 status_jobs ciw_view (ci', w'))) w"
      "wlp (Status_Update ciw_client ci) (\<lambda>_. advances ciw_view w) w"
    if "system_ok 10 status_jobs ciw_view (ci, w)" for ci w
    using that by (auto simp: wlp_def ciw_client_def Let_def system_ok_ciw ciw_ok_def advances_def)
  moreover have "ci_calls (ciw_reconciler st) ciw_view"
    by (auto simp: ci_calls_def steady_def wlp_def ciw_reconciler_def advances_def ciw_ok_def ret_def)
  ultimately show ?thesis
    by (auto simp: ci_hub_def tidy_def ciw_honest ciw_reconciler_def sample_lib_def fun_eq_iff)
qed

lemma ciw_start_ok: "st = JobStateSucceeded \<or> st = JobStateRunning \<Longrightarrow>
   system_ok 10 status_jobs ciw_view (ciw_sample d (sample_history st), ciw_start d (sample_history st))"
  by (auto simp: system_ok_ciw ciw_ok_def ciw_start_def ciw_sample_def history_fits_def history_ok_def older_terminal_def
      all_blocking_def sample_history_def sample_job_def IsTerminal_def)

theorem instance_given_up_last_witness:
  "let ci = ciw_sample (Some 5) (sample_history JobStateRunning); w = ciw_start (Some 5) (sample_history JobStateRunning)
   in ComputeInstance_handleDelete (careful_server (ciw_reconciler JobStateSucceeded)) background (ci, w) =
      ComputeInstance_handleDelete (ciw_reconciler JobStateSucceeded) background (ci, w)"
  unfolding Let_def
  by (rule instance_given_up_last [OF ciw_hub])
    (use ciw_start_ok [of JobStateRunning "Some 5"] in \<open>auto simp: ciw_reconciler_def sample_blocking sj.jobs_ref_axioms\<close>)

section \<open>Reconciliations\<close>

text \<open>
  C11: a reconciliation of a compute instance, whatever its state and whatever the hub, the target cluster and the
  fulfillment service answer, keeps every invariant of the world that is kept by writing instances whose job history is
  well-formed: at most as many jobs as are kept, in the order they were started, at most the newest of each kind
  still running, under identifiers the provider has issued.
\<close>

theorem ComputeInstance_keeps_world:
  assumes "ci_hub r V" and "wv_inv V w" and "ComputeInstance_Reconcile r key w = Some (out, w')"
  shows "wv_inv V w'"
  using wlpD [OF ComputeInstance_Reconcile_inv [OF assms(1,2)] assms(3)] .

theorem ComputeInstance_keeps_world_witness:
  "\<exists>out w'. ComputeInstance_Reconcile (ciw_reconciler JobStateSucceeded) (''cis'', ''vm1'')
      (ciw_start (Some 5) (sample_history JobStateRunning)) = Some (out, w') \<and> ciw_ok w' \<and> Finalizers (Meta (ciw_instance w')) = []"
proof -
  have "wv_inv ciw_view (ciw_start (Some 5) (sample_history JobStateRunning))"
    using ciw_start_ok [of JobStateRunning "Some 5"] by (simp add: system_ok_def)
  moreover obtain out w' where run: "ComputeInstance_Reconcile (ciw_reconciler JobStateSucceeded) (''cis'', ''vm1'')
      (ciw_start (Some 5) (sample_history JobStateRunning)) = Some (out, w')" and "Finalizers (Meta (ciw_instance w')) = []"
  proof -
    have "map_option (\<lambda>(out, w'). Finalizers (Meta (ciw_instance w'))) (ComputeInstance_Reconcile (ciw_reconciler JobStateSucceeded)
        (''cis'', ''vm1'') (ciw_start (Some 5) (sample_history JobStateRunning))) = Some []"
      by code_simp
    then show ?thesis using that by auto
  qed
  ultimately show ?thesis using ComputeInstance_keeps_world [OF ciw_hub _ run] by auto
qed

section \<open>What a virtual machine shows\<close>

text \<open>
  What apimachinery documents of \<^verbatim>\<open>SetStatusCondition\<close>: the condition of the type given is found with the status, reason
  and message given, and no other changes.
\<close>

definition found_laws :: "'w k8s \<Rightarrow> bool" where
  "found_laws lib \<longleftrightarrow>
     (\<forall>t cs c. \<exists>c'. cond_Status c' = cond_Status c \<and> cond_Reason c' = cond_Reason c \<and> cond_Message c' = cond_Message c \<and>
        (\<forall>ty. find (\<lambda>x. cond_Type x = ty) (SetStatusCondition lib t cs c) =
           (if ty = cond_Type c then Some c' else find (\<lambda>x. cond_Type x = ty) cs)))"

lemma sample_found_laws: "found_laws (sample_lib now)"
  by (auto simp: found_laws_def sample_lib_def find_set_condition)

lemma set_condition_found:
  assumes "found_laws lib"
  shows "conditionReason (ComputeInstance_SetStatusCondition lib t ty s m x ci) ty' = (if ty' = ty then x else conditionReason ci ty')"
    and "conditionStatus (ComputeInstance_SetStatusCondition lib t ty s m x ci) ty' = (if ty' = ty then s else conditionStatus ci ty')"
proof -
  let ?c = "\<lparr>cond_Type = ty, cond_Status = s, cond_Reason = x, cond_Message = m, cond_LastTransitionTime = None\<rparr>"
  obtain c' where "cond_Status c' = s" "cond_Reason c' = x"
    "\<And>ty'. find (\<lambda>x. cond_Type x = ty') (SetStatusCondition lib t (Conditions (Status ci)) ?c) =
       (if ty' = ty then Some c' else find (\<lambda>x. cond_Type x = ty') (Conditions (Status ci)))"
    using assms unfolding found_laws_def by (metis Condition.select_convs(1-3))
  then show "conditionReason (ComputeInstance_SetStatusCondition lib t ty s m x ci) ty' = (if ty' = ty then x else conditionReason ci ty')"
    and "conditionStatus (ComputeInstance_SetStatusCondition lib t ty s m x ci) ty' = (if ty' = ty then s else conditionStatus ci ty')"
    by (simp_all add: conditionReason_def conditionStatus_def ComputeInstance_GetStatusCondition_def
        ComputeInstance_SetStatusCondition_def map_conditions_def map_status_def)
qed

text \<open>The rest of the instance: what conditions and addresses do not touch, and the conditions found.\<close>

lemma condition_frame [simp]:
  "Phase (Status (ComputeInstance_SetStatusCondition lib t ty s m x ci)) = Phase (Status ci)"
  "VirtualMachineReference (Status (ComputeInstance_SetStatusCondition lib t ty s m x ci)) = VirtualMachineReference (Status ci)"
  "LastRestartedAt (Status (ComputeInstance_SetStatusCondition lib t ty s m x ci)) = LastRestartedAt (Status ci)"
  "Spec (ComputeInstance_SetStatusCondition lib t ty s m x ci) = Spec ci"
  by (simp_all add: ComputeInstance_SetStatusCondition_def map_conditions_def map_status_def)

lemma address_frame [simp]:
  "Phase (Status (SetIPAddress ip ci)) = Phase (Status ci)"
  "VirtualMachineReference (Status (SetIPAddress ip ci)) = VirtualMachineReference (Status ci)"
  "conditionReason (SetIPAddress ip ci) = conditionReason ci" "conditionStatus (SetIPAddress ip ci) = conditionStatus ci"
  by (auto simp: SetIPAddress_def map_status_def conditionReason_def conditionStatus_def ComputeInstance_GetStatusCondition_def fun_eq_iff)

lemma phase_frame [simp]:
  "Phase (Status (set_phase p ci)) = p"
  "conditionReason (set_phase p ci) = conditionReason ci" "conditionStatus (set_phase p ci) = conditionStatus ci"
  "VirtualMachineReference (Status (set_phase p ci)) = VirtualMachineReference (Status ci)"
  by (auto simp: set_phase_def map_status_def conditionReason_def conditionStatus_def ComputeInstance_GetStatusCondition_def fun_eq_iff)

lemma reference_frame:
  "let ci' = SetVirtualMachineReferenceNamespace ns (SetVirtualMachineReferenceKubeVirtVirtualMachineName n ci) in
     Phase (Status ci') = Phase (Status ci) \<and> conditionReason ci' = conditionReason ci \<and> conditionStatus ci' = conditionStatus ci \<and>
     VirtualMachineReference (Status ci') = Some \<lparr>vm_Namespace = ns, KubeVirtVirtualMachineName = n\<rparr>"
  by (auto simp: SetVirtualMachineReferenceKubeVirtVirtualMachineName_def SetVirtualMachineReferenceNamespace_def Let_def
      EnsureVirtualMachineReference_def map_status_def conditionReason_def conditionStatus_def
      ComputeInstance_GetStatusCondition_def fun_eq_iff split: option.split)

lemma wlp_event: "(\<And>w'. Q () (ci, w')) \<Longrightarrow> wlp (ci_event r a b c) Q (ci, w)"
  by (auto simp: ci_event_def wp_simps wlp_def split: option.split)

lemma wlp_address: "(\<And>ip w'. Q ip (ci, w')) \<Longrightarrow> wlp (on_world m) Q (ci, w)"
  by (auto simp: wp_simps wlp_def split: option.split)

text \<open>Status and reason of the condition Provisioned after a machine was looked at, given those before.\<close>

definition provisioned_entry :: "VirtualMachine \<Rightarrow> string \<times> string \<Rightarrow> string \<times> string" where
  "provisioned_entry vm old =
     (case kv_PrintableStatus vm of
        NoPrintableStatus \<Rightarrow> old
      | StatusProvisioning \<Rightarrow> (''False'', ''ProvisioningStorage'')
      | StatusUnschedulable \<Rightarrow> (''False'', ''Scheduling'')
      | st \<Rightarrow> if isOperationalStatus st then (''True'', ''InfrastructureReady'') else (''False'', ''ProvisioningFailed''))"

definition provisioned :: "ComputeInstance \<Rightarrow> string \<times> string" where
  "provisioned ci = (conditionStatus ci ''Provisioned'', conditionReason ci ''Provisioned'')"

lemma error_message_cases:
  "provisioningErrorMessage vm \<noteq> '''' \<longleftrightarrow> kv_PrintableStatus vm \<in> {StatusDataVolumeError, StatusPvcNotFound,
     StatusCrashLoopBackOff, StatusErrImagePull, StatusImagePullBackOff, StatusTerminating}"
  by (auto simp: provisioningErrorMessage_def Let_def split: VirtualMachinePrintableStatus.splits if_splits)

lemma phase_fits_entry:
  "kv_PrintableStatus vm = NoPrintableStatus \<Longrightarrow> provisioned_entry vm old = old \<and> determinePhaseFromPrintableStatus vm p = p"
  "kv_PrintableStatus vm \<noteq> NoPrintableStatus \<Longrightarrow>
     fst (provisioned_entry vm old) = ''True'' \<longleftrightarrow> isOperationalStatus (kv_PrintableStatus vm)"
  "kv_PrintableStatus vm \<noteq> NoPrintableStatus \<Longrightarrow> kv_PrintableStatus vm \<noteq> StatusUnknown \<Longrightarrow>
     determinePhaseFromPrintableStatus vm p = PhaseFailed \<longleftrightarrow> snd (provisioned_entry vm old) = ''ProvisioningFailed''"
  by (simp_all add: provisioned_entry_def determinePhaseFromPrintableStatus_def isOperationalStatus_def
      split: VirtualMachinePrintableStatus.split)

lemma sync_provisioned_found:
  assumes l: "found_laws (Lib r)"
  shows "wlp (sync_provisioned r vm) (\<lambda>_ (ci', w'). Phase (Status ci') = Phase (Status ci) \<and>
     VirtualMachineReference (Status ci') = VirtualMachineReference (Status ci) \<and>
     provisioned ci' = provisioned_entry vm (provisioned ci)) (ci, w)"
proof -
  have one: "wlp (provisioned_with_event r old s m x et) (\<lambda>_ (ci', w'). Phase (Status ci') = Phase (Status ci) \<and>
      VirtualMachineReference (Status ci') = VirtualMachineReference (Status ci) \<and>
      provisioned ci' = (s, x)) (ci, w)" for old s m x et
    by (auto simp: provisioned_def provisioned_with_event_def set_ci_condition_def wp_simps set_condition_found [OF l] intro!: wlp_event)
  then show ?thesis
    unfolding sync_provisioned_def wlp_bnd [of get_res] wlp_get_res prod.case Let_def
    by (cases "kv_PrintableStatus vm")
      (auto simp: error_message_cases provisioned_entry_def provisioned_def isOperationalStatus_def set_ci_condition_def wp_simps set_condition_found [OF l])
qed

lemma sync_ready_found:
  assumes l: "found_laws (Lib r)"
  shows "wlp (sync_ready r c vm) (\<lambda>_ (ci', w'). Phase (Status ci') = Phase (Status ci) \<and>
     VirtualMachineReference (Status ci') = VirtualMachineReference (Status ci) \<and>
     provisioned ci' = provisioned ci \<and>
     conditionStatus ci' ''Ready'' = (if kvVMHasConditionWithStatus vm VirtualMachineReady ''True'' then ''True'' else ''False'')) (ci, w)"
  unfolding sync_ready_def wlp_bnd [of get_res] wlp_get_res prod.case Let_def
  by (auto simp: wlp_bnd set_ci_condition_def read_clock_def wlp_gets wlp_mod_res wlp_ret set_condition_found [OF l]
      provisioned_def intro!: wlp_event wlp_address)

text \<open>
  C12: the phase and the conditions of an instance mirror its virtual machine and do not contradict each other. After a
  machine was looked at, the instance refers to it, Ready and RestartRequired are those of the machine, Provisioned is
  True exactly for the operational states, and, except while the machine shows no state or an unknown one, the
  instance is Failed exactly if Provisioned names a failure. A machine that shows no state yet changes
  neither the phase nor Provisioned.
\<close>

theorem vm_mirrored:
  assumes l: "found_laws (Lib r)" and "sync_vm r c (Some vm) (ci, w) = Some (e, (ci', w'))"
  shows "e = None \<and>
    VirtualMachineReference (Status ci') = Some \<lparr>vm_Namespace = kv_Namespace vm, KubeVirtVirtualMachineName = kv_Name vm\<rparr> \<and>
    Phase (Status ci') = determinePhaseFromPrintableStatus vm (Phase (Status ci)) \<and>
    (conditionStatus ci' ''Ready'' = ''True'' \<longleftrightarrow> kvVMHasConditionWithStatus vm VirtualMachineReady ''True'') \<and>
    (conditionStatus ci' ''RestartRequired'' = ''True'' \<longleftrightarrow> kvVMHasConditionWithStatus vm VirtualMachineRestartRequired ''True'') \<and>
    (if kv_PrintableStatus vm = NoPrintableStatus
     then Phase (Status ci') = Phase (Status ci) \<and> conditionStatus ci' ''Provisioned'' = conditionStatus ci ''Provisioned'' \<and>
          conditionReason ci' ''Provisioned'' = conditionReason ci ''Provisioned''
     else (conditionStatus ci' ''Provisioned'' = ''True'' \<longleftrightarrow> isOperationalStatus (kv_PrintableStatus vm)) \<and>
          (kv_PrintableStatus vm \<noteq> StatusUnknown \<longrightarrow>
             (Phase (Status ci') = PhaseFailed \<longleftrightarrow> conditionReason ci' ''Provisioned'' = ''ProvisioningFailed'')))"
proof -
  let ?ci = "SetVirtualMachineReferenceNamespace (kv_Namespace vm) (SetVirtualMachineReferenceKubeVirtVirtualMachineName (kv_Name vm) ci)"
  define G where "G = (\<lambda>ci1 :: ComputeInstance. Phase (Status ci1) = Phase (Status ci) \<and>
      VirtualMachineReference (Status ci1) = Some \<lparr>vm_Namespace = kv_Namespace vm, KubeVirtVirtualMachineName = kv_Name vm\<rparr> \<and>
      provisioned ci1 = provisioned_entry vm (provisioned ci) \<and>
      conditionStatus ci1 ''Ready'' = (if kvVMHasConditionWithStatus vm VirtualMachineReady ''True'' then ''True'' else ''False''))"
  have ready: "wlp (sync_ready r c vm) (\<lambda>_ (ci2, w2). G ci2) (ci1, w1)"
    if "Phase (Status ci1) = Phase (Status ?ci) \<and> VirtualMachineReference (Status ci1) = VirtualMachineReference (Status ?ci) \<and>
      provisioned ci1 = provisioned_entry vm (provisioned ?ci)" for ci1 w1
    by (rule wlp_mono [OF sync_ready_found [OF l]])
      (use that reference_frame [of "kv_Namespace vm" "kv_Name vm" ci] in \<open>auto simp: G_def Let_def provisioned_def\<close>)
  have "wlp (bnd (sync_provisioned r vm) (\<lambda>_. sync_ready r c vm)) (\<lambda>_ (ci2, w2). G ci2) (?ci, w)"
    unfolding wlp_bnd by (rule wlp_mono [OF sync_provisioned_found [OF l]]) (use ready in auto)
  moreover have "G ci1 \<Longrightarrow> Phase (Status ci1) = Phase (Status ci)" for ci1 by (simp add: G_def)
  ultimately have "wlp (sync_vm r c (Some vm)) (\<lambda>e (ci', w'). e = None \<and>
      (\<exists>ci1. G ci1 \<and> (\<exists>t. ci' = set_phase (determinePhaseFromPrintableStatus vm (Phase (Status ci)))
         (ComputeInstance_SetStatusCondition (Lib r) t ''RestartRequired''
            (if kvVMHasConditionWithStatus vm VirtualMachineRestartRequired ''True'' then ''True'' else ''False'') '''' ''AsExpected'' ci1)))) (ci, w)"
    by (auto simp: sync_vm_def handleKubeVirtVM_def wlp_bnd wlp_mod_res wlp_ret set_ci_condition_def read_clock_def wlp_gets
        elim!: wlp_mono) blast+
  from wlpD [OF this assms(2)] obtain ci1 t where "e = None" "G ci1" "ci' = set_phase (determinePhaseFromPrintableStatus vm (Phase (Status ci)))
      (ComputeInstance_SetStatusCondition (Lib r) t ''RestartRequired''
         (if kvVMHasConditionWithStatus vm VirtualMachineRestartRequired ''True'' then ''True'' else ''False'') '''' ''AsExpected'' ci1)"
    by auto
  then have "e = None" "provisioned ci' = provisioned_entry vm (provisioned ci)"
    "Phase (Status ci') = determinePhaseFromPrintableStatus vm (Phase (Status ci))"
    "VirtualMachineReference (Status ci') = Some \<lparr>vm_Namespace = kv_Namespace vm, KubeVirtVirtualMachineName = kv_Name vm\<rparr>"
    "conditionStatus ci' ''Ready'' = ''True'' \<longleftrightarrow> kvVMHasConditionWithStatus vm VirtualMachineReady ''True''"
    "conditionStatus ci' ''RestartRequired'' = ''True'' \<longleftrightarrow> kvVMHasConditionWithStatus vm VirtualMachineRestartRequired ''True''"
    by (simp_all add: G_def provisioned_def set_condition_found [OF l])
  then show ?thesis
    using phase_fits_entry [where vm = vm and old = "provisioned ci"] by (auto simp: provisioned_def prod_eq_iff)
qed

definition ciw_vm :: "VirtualMachinePrintableStatus \<Rightarrow> VirtualMachine" where
  "ciw_vm st = \<lparr>kv_Name = ''vm1'', kv_Namespace = ''t1-ns'', kv_PrintableStatus = st,
     kv_Conditions = [\<lparr>kvc_Type = VirtualMachineReady, kvc_Status = ''True'', kvc_Message = ''''\<rparr>]\<rparr>"

definition ciw_target :: "ci_world target_cluster" where
  "ciw_target = \<lparr>tc_List_VirtualMachines = (\<lambda>ns sel w. Some (Inr (ciw_vms w), w)), tc_Get_Interfaces = (\<lambda>key. ret (Inr ['''', ''10.0.0.7'']))\<rparr>"

theorem vm_mirrored_witness:
  "\<exists>ci' w'. sync_vm (ciw_reconciler JobStateSucceeded) ciw_target (Some (ciw_vm StatusRunning)) (ciw_sample None [], ciw_start None []) =
       Some (None, (ci', w')) \<and> Phase (Status ci') = PhaseRunning \<and> conditionStatus ci' ''Provisioned'' = ''True'' \<and>
     ciw_events w' = [''Ready'', ''InfrastructureReady''] \<and> IPAddress (Status ci') = ''10.0.0.7''"
proof -
  have "map_option (\<lambda>(e, ci', w'). (ciw_events w', IPAddress (Status ci')))
      (sync_vm (ciw_reconciler JobStateSucceeded) ciw_target (Some (ciw_vm StatusRunning)) (ciw_sample None [], ciw_start None [])) =
    Some ([''Ready'', ''InfrastructureReady''], ''10.0.0.7'')"
    by code_simp
  then obtain e ci' w' where run: "sync_vm (ciw_reconciler JobStateSucceeded) ciw_target (Some (ciw_vm StatusRunning))
      (ciw_sample None [], ciw_start None []) = Some (e, (ci', w'))"
    and seen: "ciw_events w' = [''Ready'', ''InfrastructureReady'']" "IPAddress (Status ci') = ''10.0.0.7''" by auto
  have "found_laws (Lib (ciw_reconciler JobStateSucceeded))" by (simp add: ciw_reconciler_def sample_found_laws)
  from vm_mirrored [OF this run] run seen show ?thesis
    by (auto simp: ciw_vm_def determinePhaseFromPrintableStatus_def kvVMHasConditionWithStatus_def kvVMGetCondition_def
        isOperationalStatus_def)
qed

text \<open>
  With no machine found the phase is Starting again and Provisioned waits for the machine, whatever a failed job had left
  there: the failure of a first provisioning is visible until the next reconciliation only.
\<close>

theorem first_failure_hidden:
  assumes "found_laws (Lib r)" and "sync_vm r c None (ci, w) = Some (e, (ci', w'))"
  shows "Phase (Status ci') = PhaseStarting \<and> conditionReason ci' ''Provisioned'' = ''WaitingForVM''"
  using assms(2)
  by (auto simp: sync_vm_def set_ci_condition_def go_simps read_clock_def set_condition_found [OF assms(1)] set_phase_def map_status_def)

section \<open>Restarts\<close>

text \<open>
  C13: a restart is recorded exactly when it has been carried out. A restart is asked for if the spec has a time of
  request and the status either has no time of a last restart or an earlier one. If it is asked for and the desired
  configuration is applied, the time of the request becomes the time of the last restart, RestartInProgress turns
  False and no restart is pending any more; if it is asked for and the configuration is not applied yet, the time of
  the last restart stays and RestartInProgress turns True. If none is asked for, both the time and RestartInProgress
  stay as they were. ConfigurationApplied says whether the configuration is applied, and the spec is never changed.
  So the time of the last restart never moves back.
\<close>

theorem restart_recorded:
  assumes l: "found_laws lib" and "sync_configuration lib (ci, w) = Some (u, (ci', w'))"
  shows "let applied = IsConfigApplied (ProvisioningJobs (Status ci)) (DesiredConfigVersion (Status ci));
             asked = ci_RestartRequestedAt (Spec ci); last_restart = LastRestartedAt (Status ci);
             due = (\<exists>t. asked = Some t \<and> (\<forall>t'. last_restart = Some t' \<longrightarrow> t' < t)) in
    LastRestartedAt (Status ci') = (if due \<and> applied then asked else last_restart) \<and>
    conditionStatus ci' ''RestartInProgress'' =
      (if due then if applied then ''False'' else ''True'' else conditionStatus ci ''RestartInProgress'') \<and>
    conditionStatus ci' ''ConfigurationApplied'' = (if applied then ''True'' else ''False'') \<and>
    (applied \<longrightarrow> restart_pending ci' = None) \<and> (\<not> applied \<longrightarrow> restart_pending ci' = restart_pending ci) \<and>
    Spec ci' = Spec ci \<and>
    (\<forall>t. last_restart = Some t \<longrightarrow> (\<exists>t' \<ge> t. LastRestartedAt (Status ci') = Some t'))"
proof -
  have st: "conditionStatus (ci\<lparr>Status := Status ci\<lparr>LastRestartedAt := x\<rparr>\<rparr>) = conditionStatus ci" for ci :: ComputeInstance and x
    by (simp add: conditionStatus_def ComputeInstance_GetStatusCondition_def fun_eq_iff)
  show ?thesis
    using assms(2)
    by (auto simp: sync_configuration_def set_ci_condition_def go_simps read_clock_def map_status_def Let_def
        set_condition_found [OF l] restart_pending_def st split: if_splits option.splits)
qed

theorem restart_recorded_witness:
  "\<exists>ci' w'. sync_configuration (sample_lib (\<lambda>_ :: ci_world. 0))
       (ciw_sample None (sample_history JobStateRunning), ciw_start None []) = Some ((), (ci', w')) \<and>
     conditionStatus ci' ''RestartInProgress'' = ''False'' \<and> LastRestartedAt (Status ci') = Some 7"
proof -
  let ?ci = "ciw_sample None (sample_history JobStateRunning)"
  have "map_option (\<lambda>_. ()) (sync_configuration (sample_lib (\<lambda>_ :: ci_world. 0)) (?ci, ciw_start None [])) = Some ()"
    by code_simp
  then obtain u ci' w' where run: "sync_configuration (sample_lib (\<lambda>_ :: ci_world. 0)) (?ci, ciw_start None []) = Some (u, (ci', w'))"
    by auto
  have "IsConfigApplied (ProvisioningJobs (Status ?ci)) (DesiredConfigVersion (Status ?ci))" by code_simp
  moreover have "ci_RestartRequestedAt (Spec ?ci) = Some 7" "LastRestartedAt (Status ?ci) = Some 3"
    by (simp_all add: ciw_sample_def)
  ultimately show ?thesis using restart_recorded [OF sample_found_laws run] run by (auto simp: Let_def)
qed

text \<open>
  The status written back replaces the one stored: an external address that the controller of the attachments has put
  there since the instance was read is lost, because the retry reads a fresh version but writes the old status.
\<close>

theorem external_address_lost:
  "let ci = ciw_sample None []; w = (ciw_start None [])\<lparr>ciw_instance := SetExternalIPAddress ''192.0.2.1'' ci\<rparr>
   in GetExternalIPAddress (ciw_instance w) = ''192.0.2.1'' \<and>
      map_option (\<lambda>(e, w'). (e, GetExternalIPAddress (ciw_instance w')))
        (updateStatusWithRetry (ciw_reconciler JobStateSucceeded) (''cis'', ''vm1'') (Status ci) w) = Some (None, '''')"
  by code_simp

end
