(* ===== verification/Liveness.thy ===== *)
theory Liveness
  imports Lifecycle_Properties Reconcile_Laws
begin

text \<open>
  Deprovisioning comes to an end. The lifecycle is called again and again, each time after the delay it asked for.
  \<open>effort\<close> bounds the setbacks that the provider still has in store: calls that fail, ask to wait, report a job as
  unfinished or as failed. Every setback uses up some of it, so after finitely many calls the lifecycle lets the deletion
  through. The bound is explicit: three calls for each setback, one that waits for the backoff, one that starts
  a job and one that asks for its status, and three more.
\<close>

section \<open>Rounds\<close>

definition lets_through :: "deprov_outcome \<Rightarrow> bool" where
  "lets_through out \<longleftrightarrow> (case out of (res, finished, err) \<Rightarrow> err = None \<and> RequeueAfter res \<le> 0)"

text \<open>At most \<open>n\<close> calls; \<open>pause\<close> is what happens to the world between two of them.\<close>

primrec let_through_within ::
  "('r \<times> 'w, deprov_outcome) go \<Rightarrow> (ctrl_result \<Rightarrow> 'w \<Rightarrow> 'w) \<Rightarrow> nat \<Rightarrow> 'r \<times> 'w \<Rightarrow> bool"
where
  "let_through_within m pause 0 s = False"
| "let_through_within m pause (Suc n) s =
     (case m s of
        None \<Rightarrow> False
      | Some (out, (r, w)) \<Rightarrow> lets_through out \<or> let_through_within m pause n (r, pause (fst out) w))"

lemma let_through_ranked:
  assumes "\<And>r w. I (r, w) \<Longrightarrow> wp m (\<lambda>out (r', w'). lets_through out \<or>
      I (r', pause (fst out) w') \<and> rank (r', pause (fst out) w') < (rank (r, w) :: nat)) (r, w)"
  shows "I (r, w) \<Longrightarrow> rank (r, w) < n \<Longrightarrow> let_through_within m pause n (r, w)"
proof (induction n arbitrary: r w)
  case (Suc n)
  from assms [OF Suc.prems(1)] obtain out r' w' where run: "m (r, w) = Some (out, (r', w'))"
    and "lets_through out \<or> I (r', pause (fst out) w') \<and> rank (r', pause (fst out) w') < rank (r, w)"
    by (auto simp: wp_def split: option.splits)
  with Suc show ?case by auto
qed simp

section \<open>Progress\<close>

text \<open>A provider whose setbacks are bounded, and time that passes at least as long as the controller asked to wait.\<close>

definition progressing ::
  "('w, 'm) world_view_scheme \<Rightarrow> ('r, 'w) ProvisioningProvider \<Rightarrow> ('w \<Rightarrow> nat) \<Rightarrow> (ctrl_result \<Rightarrow> 'w \<Rightarrow> 'w) \<Rightarrow> bool"
where
  "progressing V provider effort pause \<longleftrightarrow>
     honest V provider \<and>
     (\<forall>r js w. wp (TriggerDeprovision provider r js) (\<lambda>res w'. effort w' < effort w \<or>
        effort w' \<le> effort w \<and> (\<exists>d. res = Inr d \<and> dr_Action d = DeprovisionTriggered)) w) \<and>
     (\<forall>r x w. wp (GetDeprovisionStatus provider r x) (\<lambda>res w'. effort w' < effort w \<or>
        effort w' \<le> effort w \<and> (\<exists>st. res = Inr st \<and> ps_State st = JobStateSucceeded)) w) \<and>
     (\<forall>res w. advances V w (pause res w) \<and> effort (pause res w) \<le> effort w \<and>
        wv_now V w + RequeueAfter res \<le> wv_now V (pause res w))"

definition deprovision_rank :: "('w, 'm) world_view_scheme \<Rightarrow> ('w \<Rightarrow> nat) \<Rightarrow> 'r JobsRef \<Rightarrow> 'r \<times> 'w \<Rightarrow> nat" where
  "deprovision_rank V effort ref = (\<lambda>(r, w).
     3 * effort w +
     (case FindLatestJobByType (Jobs_get ref r) JobTypeDeprovision of
        None \<Rightarrow> 2
      | Some l \<Rightarrow>
          if \<not> IsTerminal (JobState l) then 1
          else if ComputeDeprovisionBackoff (Jobs_get ref r) \<le> time_Sub (wv_now V w) (Timestamp l) then 2 else 3))"

lemma rank_le: "deprovision_rank V effort ref (r, w) \<le> 3 * effort w + 3"
  by (simp add: deprovision_rank_def split: option.split)

lemma rank_setback:
  assumes "effort w' < e" and "effort (pause res w') \<le> effort w'"
  shows "deprovision_rank V effort ref (r', pause res w') \<le> 3 * e"
  using rank_le [of V effort ref r' "pause res w'"] assms by simp

lemma due_after_wait:
  assumes "u \<le> t" and "time_Sub t u < computeBackoffFromFailedJobs jobs m"
    and "t + wrap64 (computeBackoffFromFailedJobs jobs m - time_Sub t u) \<le> t'"
  shows "computeBackoffFromFailedJobs jobs m \<le> time_Sub t' u"
proof -
  let ?b = "computeBackoffFromFailedJobs jobs m"
  have b: "?b \<le> 30 * Minute" using computeBackoff_bounds [of jobs m] by (simp add: BackoffMaxDelay_def)
  have "time_Sub t u = t - u"
    using assms(1,2) b by (auto simp: time_Sub_def sat64_def max_int64_def min_int64_def)
  moreover from this have "wrap64 (?b - time_Sub t u) = ?b - (t - u)"
    using assms(1,2) b by (auto intro!: wrap64_id simp: max_int64_def min_int64_def)
  ultimately have "?b \<le> t' - u" using assms(3) by simp
  with b show ?thesis by (auto simp: time_Sub_def sat64_def max_int64_def min_int64_def)
qed

context jobs_ref
begin

lemma appended_latest:
  assumes js: "AppendJob (Jobs_get ref r1) (deprovision_job d (wv_now V w')) mh = Some js" and pos: "0 < mh"
    and ok: "system_ok mh ref V (r1, w)" and later: "wv_now V w < wv_now V w'"
  shows "FindLatestJobByType js JobTypeDeprovision = Some (deprovision_job d (wv_now V w'))"
proof -
  from AppendJob_snoc [OF js pos] obtain n where "js = drop n (Jobs_get ref r1) @ [deprovision_job d (wv_now V w')]" by blast
  moreover have "Timestamp k < wv_now V w'" if "k \<in> set (drop n (Jobs_get ref r1))" for k
    using in_set_dropD [OF that] ok later by (force simp: system_ok_def history_ok_def)
  ultimately show ?thesis by (simp add: FindLatestJobByType_newest deprovision_job_def)
qed

lemma TriggerDeprovisionJob_progress:
  assumes ok: "system_ok mh ref V (r, w)" and pos: "0 < mh" and p: "progressing V provider effort pause"
  shows "wp (TriggerDeprovisionJob (wv_now V) provider ref mh poll) (\<lambda>(res, err) (r', w').
     effort w' < effort w \<or> effort w' \<le> effort w \<and>
       (\<exists>l. FindLatestJobByType (Jobs_get ref r') JobTypeDeprovision = Some l \<and> \<not> IsTerminal (JobState l))) (r, w)"
proof -
  have trig: "wp (TriggerDeprovision provider r js) (\<lambda>res w'. (effort w' < effort w \<or>
        effort w' \<le> effort w \<and> (\<exists>d. res = Inr d \<and> dr_Action d = DeprovisionTriggered)) \<and>
      (advances V w w' \<and> (\<forall>d. res = Inr d \<longrightarrow> dr_Action d = DeprovisionTriggered \<longrightarrow>
           starts_job V (dr_JobID d) w w' \<and> (wv_strict V \<longrightarrow> dr_BlockDeletionOnFailure d)))) w" for js
    using p by (intro wp_conj honestD(3)) (auto simp: progressing_def)
  have upd: "wp (updateProvisionJobFromDeprovisionResult ref d) (\<lambda>_ (r1, w1). w1 = w' \<and> system_ok mh ref V (r1, w)) (r, w')" for d w'
    using update_latest_ok [OF ok, of JobTypeProvision _ _ w] ok
    by (auto simp: updateProvisionJobFromDeprovisionResult_def wp_simps split: option.split)
  have append: "wp (bnd (updateProvisionJobFromDeprovisionResult ref d) (\<lambda>_. bnd (read_clock (wv_now V)) (\<lambda>t. bnd (read_jobs ref) (\<lambda>jobs.
        case AppendJob jobs (deprovision_job d t) mh of None \<Rightarrow> panic
        | Some jobs' \<Rightarrow> bnd (write_jobs ref jobs') (\<lambda>_. ret (requeue_after poll, None))))))
      (\<lambda>(res, err) (r', w''). w'' = w' \<and>
        (\<exists>l. FindLatestJobByType (Jobs_get ref r') JobTypeDeprovision = Some l \<and> \<not> IsTerminal (JobState l))) (r, w')"
    if "wv_now V w < wv_now V w'" for d w'
    unfolding wp_bnd [of "updateProvisionJobFromDeprovisionResult ref d"]
  proof (rule wp_mono [OF upd], goal_cases)
    case (1 u s)
    obtain r1 where s: "s = (r1, w')" and ok1: "system_ok mh ref V (r1, w)" using 1 by (cases s) auto
    obtain js where js: "AppendJob (Jobs_get ref r1) (deprovision_job d (wv_now V w')) mh = Some js"
      using AppendJob_total [of mh] pos by fastforce
    from appended_latest [OF js pos ok1 that] js show ?case
      by (simp add: s wp_simps) (simp add: deprovision_job_def IsTerminal_def)
  qed
  have wait: "wp (bnd (updateProvisionJobFromDeprovisionResult ref d) (\<lambda>_. ret (requeue_after poll, None)))
      (\<lambda>_ (r', w''). w'' = w') (r, w')" for d w'
    unfolding wp_simps by (rule wp_mono [OF upd]) auto
  show ?thesis
    unfolding TriggerDeprovisionJob_def wp_bnd [of get_res] wp_bnd [of "on_world _"] wp_get_res wp_on_world prod.case
  proof (rule wp_mono [OF trig], goal_cases)
    case (1 res w')
    show ?case
    proof (cases res)
      case (Inl e)
      with 1 show ?thesis by (auto simp: wp_ret split: option.split)
    next
      case (Inr d)
      show ?thesis
      proof (cases "dr_Action d")
        case DeprovisionTriggered
        then have "wv_now V w < wv_now V w'" and e: "effort w' \<le> effort w" using 1 Inr by (auto simp: starts_job_def)
        then show ?thesis
          unfolding Inr sum.case DeprovisionTriggered DeprovisionAction.case by (intro wp_mono [OF append]) (use e in auto)
      next
        case DeprovisionWaiting
        then have "effort w' < effort w" using 1 Inr by auto
        then show ?thesis
          unfolding Inr sum.case DeprovisionWaiting DeprovisionAction.case by (intro wp_mono [OF wait]) auto
      qed (use 1 Inr in \<open>auto simp: wp_ret\<close>)
    qed
  qed
qed

lemma Trigger_round:
  assumes ok: "system_ok mh ref V (r, w)" and pos: "0 < mh" and p: "progressing V provider effort pause"
  shows "wp (bnd (TriggerDeprovisionJob (wv_now V) provider ref mh poll) (\<lambda>(res, err). ret (res, False, err)))
     (\<lambda>out (r', w'). deprovision_rank V effort ref (r', pause (fst out) w') \<le> 3 * effort w + 1) (r, w)"
  unfolding wp_bnd
proof (rule wp_mono [OF TriggerDeprovisionJob_progress [OF assms]], goal_cases)
  case (1 x s)
  obtain res err r' w' where x: "x = (res, err)" "s = (r', w')" by (cases x, cases s)
  have e: "effort (pause res w') \<le> effort w'" using p by (simp add: progressing_def)
  have "deprovision_rank V effort ref (r', pause res w') \<le> 3 * effort w + 1"
  proof (cases "effort w' < effort w")
    case True
    with rank_setback [of effort w' "effort w" pause res V ref r'] e show ?thesis by simp
  next
    case False
    then show ?thesis using 1 e by (auto simp: x deprovision_rank_def)
  qed
  then show ?case by (simp add: x wp_ret)
qed

lemma backoff_round:
  assumes ok: "system_ok mh ref V (r, w)" and pos: "0 < mh" and p: "progressing V provider effort pause"
    and l: "FindLatestJobByType (Jobs_get ref r) JobTypeDeprovision = Some l" and fin: "IsTerminal (JobState l)"
  shows "wp (handleDeprovisionBackoff (wv_now V) provider ref l mh poll)
     (\<lambda>out (r', w'). deprovision_rank V effort ref (r', pause (fst out) w') < deprovision_rank V effort ref (r, w)) (r, w)"
proof (cases "ComputeDeprovisionBackoff (Jobs_get ref r) \<le> time_Sub (wv_now V w) (Timestamp l)")
  case True
  then have "deprovision_rank V effort ref (r, w) = 3 * effort w + 2" using l fin by (simp add: deprovision_rank_def)
  with True wp_mono [OF Trigger_round [OF ok pos p]] show ?thesis
    by (fastforce simp: handleDeprovisionBackoff_def Let_def wp_bnd [of "read_jobs ref"] wp_bnd [of "read_clock _"] wp_read_jobs wp_read_clock)
next
  case False
  let ?b = "ComputeDeprovisionBackoff (Jobs_get ref r)" and ?e = "time_Sub (wv_now V w) (Timestamp l)"
  let ?res = "requeue_after (wrap64 (?b - ?e))"
  have "Timestamp l \<le> wv_now V w"
    using ok FindLatestJobByType_Some [OF l] by (auto simp: system_ok_def history_ok_def)
  moreover have "wv_now V w + wrap64 (?b - ?e) \<le> wv_now V (pause ?res w)" "effort (pause ?res w) \<le> effort w"
    using p by (auto simp: progressing_def dest: spec [of _ ?res])
  ultimately have "?b \<le> time_Sub (wv_now V (pause ?res w)) (Timestamp l)" "effort (pause ?res w) \<le> effort w"
    using due_after_wait [of "Timestamp l" "wv_now V w"] False by (auto simp: ComputeDeprovisionBackoff_def)
  with False l fin show ?thesis
    by (simp add: handleDeprovisionBackoff_def Let_def wp_simps deprovision_rank_def)
qed

lemma backoff_any:
  assumes ok: "system_ok mh ref V (r, w)" and pos: "0 < mh" and p: "progressing V provider effort pause"
  shows "wp (handleDeprovisionBackoff (wv_now V) provider ref l mh poll)
     (\<lambda>out (r', w'). deprovision_rank V effort ref (r', pause (fst out) w') \<le> 3 * effort w + 3) (r, w)"
proof (cases "ComputeDeprovisionBackoff (Jobs_get ref r) \<le> time_Sub (wv_now V w) (Timestamp l)")
  case True
  with wp_mono [OF Trigger_round [OF ok pos p]] show ?thesis
    by (fastforce simp: handleDeprovisionBackoff_def Let_def wp_bnd [of "read_jobs ref"] wp_bnd [of "read_clock _"] wp_read_jobs wp_read_clock)
next
  case False
  have "effort (pause res w) \<le> effort w" for res using p by (simp add: progressing_def)
  then have "deprovision_rank V effort ref (r, pause res w) \<le> 3 * effort w + 3" for res
    using rank_le [of V effort ref r "pause res w"] by (meson add_le_mono1 le_trans mult_le_mono2)
  with False show ?thesis by (simp add: handleDeprovisionBackoff_def Let_def wp_simps)
qed

lemma poll_round:
  assumes ok: "system_ok mh ref V (r, w)" and pos: "0 < mh" and p: "progressing V provider effort pause"
    and l: "FindLatestJobByType (Jobs_get ref r) JobTypeDeprovision = Some l" and run: "\<not> IsTerminal (JobState l)"
  shows "wp (PollDeprovisionJob (wv_now V) provider ref l mh poll)
     (\<lambda>out (r', w'). lets_through out \<or> deprovision_rank V effort ref (r', pause (fst out) w') \<le> 3 * effort w) (r, w)"
proof -
  have stat: "wp (GetDeprovisionStatus provider r x) (\<lambda>res w'. (effort w' < effort w \<or>
        effort w' \<le> effort w \<and> (\<exists>st. res = Inr st \<and> ps_State st = JobStateSucceeded)) \<and> advances V w w') w" for x
    using p by (intro wp_conj honestD(4)) (auto simp: progressing_def)
  have set: "deprovision_rank V effort ref (r', pause res w') \<le> 3 * effort w" if "effort w' < effort w" for r' res w'
    using p that by (intro rank_setback) (auto simp: progressing_def)
  have retry: "wp (handleDeprovisionBackoff (wv_now V) provider ref l mh poll) (\<lambda>out (r', w'').
      lets_through out \<or> deprovision_rank V effort ref (r', pause (fst out) w'') \<le> 3 * effort w) (r1, w')"
    if "system_ok mh ref V (r1, w')" "effort w' < effort w" for r1 w'
    by (rule wp_mono [OF backoff_any [OF that(1) pos p]]) (use that(2) in auto)
  have upd: "system_ok mh ref V (Jobs_set ref (fst (UpdateJob (Jobs_get ref r) (l\<lparr>JobState := x, Message := y\<rparr>))) r, w')"
    if "advances V w w'" for x y w'
    using that by (intro update_latest_ok [OF ok l]) auto
  show ?thesis
    unfolding PollDeprovisionJob_def Let_def if_not_P [OF run] wp_bnd [of get_res] wp_bnd [of "on_world _"] wp_get_res wp_on_world prod.case
  proof (rule wp_mono [OF stat], goal_cases)
    case (1 res w')
    show ?case
    proof (cases res)
      case (Inl e)
      with 1 set show ?thesis by (auto simp: wp_simps)
    next
      case (Inr st)
      have ok': "system_ok mh ref V (r, w')" using ok 1 by (auto intro: system_ok_frame)
      show ?thesis
        using 1 set retry [OF ok'] retry [OF upd] by (auto simp: Inr wp_simps lets_through_def IsTerminal_def IsSuccessful_def)
    qed
  qed
qed

lemma deprovision_round:
  assumes ok: "system_ok mh ref V (r, w)" and pos: "0 < mh" and p: "progressing V provider effort pause"
  shows "wp (RunDeprovisioningLifecycle (wv_now V) provider ref mh poll) (\<lambda>out (r', w'). lets_through out \<or>
     deprovision_rank V effort ref (r', pause (fst out) w') < deprovision_rank V effort ref (r, w)) (r, w)"
proof (cases "FindLatestJobByType (Jobs_get ref r) JobTypeDeprovision")
  case None
  then have "deprovision_rank V effort ref (r, w) = 3 * effort w + 2" by (simp add: deprovision_rank_def)
  with None wp_mono [OF Trigger_round [OF assms]] show ?thesis
    by (fastforce simp: RunDeprovisioningLifecycle_def wp_bnd [of "read_jobs ref"] wp_read_jobs)
next
  case (Some l)
  have eq: "wp (RunDeprovisioningLifecycle (wv_now V) provider ref mh poll) Q (r, w) =
      wp (PollDeprovisionJob (wv_now V) provider ref l mh poll) Q (r, w)" for Q
    using Some system_ok_latest_id [OF ok Some] by (simp add: RunDeprovisioningLifecycle_def wp_bnd [of "read_jobs ref"] wp_read_jobs HasJobID_def)
  show ?thesis
  proof (cases "IsTerminal (JobState l)")
    case True
    with wp_mono [OF backoff_round [OF assms Some True]] show ?thesis
      unfolding eq by (fastforce simp: PollDeprovisionJob_def Let_def wp_ret lets_through_def)
  next
    case False
    then have "deprovision_rank V effort ref (r, w) = 3 * effort w + 1" using Some by (simp add: deprovision_rank_def)
    with wp_mono [OF poll_round [OF assms Some False]] show ?thesis unfolding eq by fastforce
  qed
qed

lemma deprovision_eventually:
  assumes "system_ok mh ref V (r, w)" and pos: "0 < mh" and p: "progressing V provider effort pause"
  shows "let_through_within (RunDeprovisioningLifecycle (wv_now V) provider ref mh poll) pause (3 * effort w + 4) (r, w)"
proof (rule let_through_ranked [where I = "system_ok mh ref V" and rank = "deprovision_rank V effort ref"], goal_cases)
  case (1 r w)
  have "wp (RunDeprovisioningLifecycle (wv_now V) provider ref mh poll) (\<lambda>out s. (case s of (r', w') \<Rightarrow> lets_through out \<or>
     deprovision_rank V effort ref (r', pause (fst out) w') < deprovision_rank V effort ref (r, w)) \<and> deprov_post mh ref V out s) (r, w)"
    using p by (intro wp_conj deprovision_round [OF 1 pos p] RunDeprovisioningLifecycle_ok [OF 1 pos]) (simp add: progressing_def)
  then show ?case
    by (rule wp_mono) (use p in \<open>auto simp: deprov_post_def progressing_def intro: system_ok_frame\<close>)
next
  case 3
  show ?case using rank_le [of V effort ref r w] by simp
qed (rule assms)

end

section \<open>Property\<close>

text \<open>
  C20: the deletion of a resource is eventually let through. If the provider is honest and has at most \<open>effort\<close> more
  setbacks in store, whatever they are, and the controller is called again no earlier than it asked for, then among the
  next \<open>3 * effort + 4\<close> calls of the deprovisioning lifecycle all return and one of them ends without an error
  and without asking to be called again. The exponential backoff after failed jobs is included.
\<close>

theorem deprovisioning_ends:
  assumes "system_ok mh status_jobs V (obj, w)" and "0 < mh" and "progressing V provider effort pause"
  shows "let_through_within (RunDeprovisioningLifecycle (wv_now V) provider status_jobs mh poll) pause (3 * effort w + 4) (obj, w)"
  using assms by (rule sj.deprovision_eventually)

text \<open>A platform on which jobs fail as long as there are failures left; the world is a clock and their number.\<close>

definition flaky_provider :: "('r, nat \<times> nat) ProvisioningProvider" where
  "flaky_provider = (sample_provider fst (\<lambda>(n, k). (Suc n, k)) JobStateRunning)
     \<lparr>GetDeprovisionStatus := (\<lambda>r x (n, k). Some (Inr \<lparr>ps_JobID = x, ps_State = (if k = 0 then JobStateSucceeded else JobStateFailed),
        ps_Message = '''', ps_Progress = 0, ps_StartTime = 0, ps_EndTime = 0, ps_ReconciledVersion = '''', ps_ErrorDetails = ''''\<rparr>,
        (n, k - 1)))\<rparr>"

definition wait_seconds :: "ctrl_result \<Rightarrow> nat \<times> nat \<Rightarrow> nat \<times> nat" where
  "wait_seconds res = (\<lambda>(n, k). (n + nat (RequeueAfter res), k))"

theorem deprovisioning_ends_witness:
  "let_through_within (RunDeprovisioningLifecycle (\<lambda>w. int (fst w) * Second) flaky_provider status_jobs 10 Minute) wait_seconds 10
     (sample_obj (Some 1) [''f''] (sample_history JobStateRunning), (2, 2))"
proof -
  let ?V = "sample_view fst (\<lambda>_. {}) (\<lambda>_. True) :: (nat \<times> nat) world_view"
  have "honest ?V (sample_provider fst (\<lambda>(n, k). (Suc n, k)) JobStateRunning)"
    by (rule sample_honest) auto
  then have "progressing ?V flaky_provider snd wait_seconds"
    by (auto simp: progressing_def honest_def wlp_def wp_def flaky_provider_def sample_provider_def Let_def wait_seconds_def
        advances_def sample_view_def split: option.splits)
  moreover have "system_ok 10 status_jobs ?V (sample_obj (Some 1) [''f''] (sample_history JobStateRunning), (2, 2))"
    by (auto simp: system_ok_def history_ok_def sample_view_def sample_obj_def sample_history_def sample_job_def
        older_terminal_def all_blocking_def)
  ultimately have "let_through_within (RunDeprovisioningLifecycle (wv_now ?V) flaky_provider status_jobs 10 Minute) wait_seconds (3 * snd (2 :: nat, 2) + 4)
      (sample_obj (Some 1) [''f''] (sample_history JobStateRunning), (2, 2))"
    by (intro deprovisioning_ends) simp_all
  then show ?thesis by (simp add: sample_view_def)
qed

end
