(* ===== verification/Console_Proxy.thy ===== *)
theory Console_Proxy
  imports Compute_Types
begin

text \<open>
  The console proxy (\<^verbatim>\<open>internal/consoleproxy\<close>, \<^verbatim>\<open>cmd/console-proxy/main.go\<close>): an aggregated API server that connects a client's
  WebSocket to the console of the virtual machine behind a compute instance. Modelled are the resolution of the
  configuration of the cluster with the virtual machines, of the reference to the virtual machine and of its URL, the
  handler of a request with every answer it gives, the construction of the server, its routes and its probes.

  Parameters: the client of the hub, the parser of kubeconfigs, \<^verbatim>\<open>net/url\<close>, the constructors of API status errors, and
  what a handler does with the two ends of a connection (\<open>exchange\<close>): dial, accept, copy in both directions until one
  ends, close, and write an answer. Authentication and authorization are filters around the routes,
  put on in \<^verbatim>\<open>Console_Server\<close>. Logging is left out.
\<close>

section \<open>Resolution of the cluster configuration\<close>

text \<open>
  Of a \<^verbatim>\<open>rest.Config\<close> the code reads the host and clears the two fields that make a client run a program or load a plugin;
  everything else is in the extension of the record.
\<close>

record rest_config =
  cfg_Host :: string
  cfg_ExecProvider :: "string option"
  cfg_AuthProvider :: "string option"

record Secret =
  sec_Name :: string
  sec_Data :: "string \<rightharpoonup> string"

record ('cs, 'w) proxy_hub =
  hub_List_Secrets :: "string \<Rightarrow> string \<times> string \<Rightarrow> ('w, gerror + Secret list) go"
  hub_Get_ComputeInstance :: "ObjectKey \<Rightarrow> ('w, gerror + 'cs compute_instance) go"

definition VMClusterModeRemote :: string where
  "VMClusterModeRemote = ''remote''"

definition VMClusterModeLocal :: string where
  "VMClusterModeLocal = ''local''"

definition VMClusterModeAuto :: string where
  "VMClusterModeAuto = ''auto''"

definition RemoteKubeconfigLabel :: string where
  "RemoteKubeconfigLabel = ''osac.openshift.io/remote-cluster-kubeconfig''"

definition remoteKubeconfigKey :: string where
  "remoteKubeconfigKey = ''kubeconfig''"

text \<open>The interface \<^verbatim>\<open>ConfigResolver\<close>.\<close>

type_synonym ('c, 'w) ConfigResolver = "string \<Rightarrow> ('w, gerror + 'c rest_config_scheme \<times> string) go"

definition secret_config ::
  "(string \<Rightarrow> gerror + 'c rest_config_scheme) \<Rightarrow> string \<Rightarrow> Secret \<Rightarrow> gerror + 'c rest_config_scheme \<times> string"
where
  "secret_config parse namespace secret =
     (case sec_Data secret remoteKubeconfigKey of
        None \<Rightarrow> Inl (Errorf ''secret %q in namespace %q has no %q key'' [sec_Name secret, namespace, remoteKubeconfigKey])
      | Some kubeconfigData \<Rightarrow>
          if kubeconfigData = '''' then
            Inl (Errorf ''secret %q in namespace %q has no %q key'' [sec_Name secret, namespace, remoteKubeconfigKey])
          else
            (case parse kubeconfigData of
               Inl err \<Rightarrow> Inl (Wrapf ''parsing kubeconfig from secret %q in namespace %q: %w'' [sec_Name secret, namespace] err)
             | Inr config \<Rightarrow>
                 Inr (config\<lparr>cfg_ExecProvider := None, cfg_AuthProvider := None\<rparr>,
                      ''remote (secret: '' @ sec_Name secret @ '')'')))"

definition RemoteConfigResolver_ResolveConfig ::
  "('cs, 'w) proxy_hub \<Rightarrow> (string \<Rightarrow> gerror + 'c rest_config_scheme) \<Rightarrow> ('c, 'w) ConfigResolver"
where
  "RemoteConfigResolver_ResolveConfig hub parse namespace =
     bnd (hub_List_Secrets hub namespace (RemoteKubeconfigLabel, ''true'')) (\<lambda>res.
       case res of
         Inl err \<Rightarrow> ret (Inl (Wrapf ''listing remote kubeconfig secrets in namespace %q: %w'' [namespace] err))
       | Inr [] \<Rightarrow> ret (Inl (NoRemoteSecretError namespace))
       | Inr (secret # _) \<Rightarrow> ret (secret_config parse namespace secret))"

definition LocalConfigResolver_ResolveConfig :: "'c rest_config_scheme \<Rightarrow> ('c, 'w) ConfigResolver" where
  "LocalConfigResolver_ResolveConfig config namespace = ret (Inr (config, ''local (in-cluster)''))"

fun is_NoRemoteSecretError :: "gerror \<Rightarrow> bool" where
  "is_NoRemoteSecretError (NoRemoteSecretError ns) = True"
| "is_NoRemoteSecretError e = False"

definition isNoRemoteSecretError :: "gerror \<Rightarrow> bool" where
  "isNoRemoteSecretError err \<longleftrightarrow> errors_As is_NoRemoteSecretError err \<noteq> None"

definition AutoConfigResolver_ResolveConfig ::
  "('c, 'w) ConfigResolver \<Rightarrow> ('c, 'w) ConfigResolver \<Rightarrow> ('c, 'w) ConfigResolver"
where
  "AutoConfigResolver_ResolveConfig remote local namespace =
     bnd (remote namespace) (\<lambda>res.
       case res of
         Inr r \<Rightarrow> ret (Inr r)
       | Inl err \<Rightarrow>
           if \<not> isNoRemoteSecretError err then
             ret (Inl (Wrapf ''remote kubeconfig lookup failed (no fallback for this error): %w'' [] err))
           else local namespace)"

definition buildConfigResolver ::
  "string \<Rightarrow> ('cs, 'w) proxy_hub \<Rightarrow> (string \<Rightarrow> gerror + 'c rest_config_scheme) \<Rightarrow> 'c rest_config_scheme \<Rightarrow>
   gerror + ('c, 'w) ConfigResolver"
where
  "buildConfigResolver mode hub parse hubConfig =
     (if mode = VMClusterModeRemote then Inr (RemoteConfigResolver_ResolveConfig hub parse)
      else if mode = VMClusterModeLocal then Inr (LocalConfigResolver_ResolveConfig hubConfig)
      else if mode = VMClusterModeAuto \<or> mode = '''' then
        Inr (AutoConfigResolver_ResolveConfig (RemoteConfigResolver_ResolveConfig hub parse)
               (LocalConfigResolver_ResolveConfig hubConfig))
      else Inl (Errorf ''invalid vm-cluster-mode %q: must be %s, %s, or %s''
                  [mode, VMClusterModeRemote, VMClusterModeLocal, VMClusterModeAuto]))"

section \<open>Errors as API statuses\<close>

record apierrors =
  api_IsNotFound :: "gerror \<Rightarrow> bool"
  NewServiceUnavailable :: "string \<Rightarrow> gerror"
  NewNotFound :: "string \<times> string \<Rightarrow> string \<Rightarrow> gerror"
  NewInternalError :: "gerror \<Rightarrow> gerror"

record 'b http_response =
  resp_Header :: "string \<Rightarrow> string"
  resp_StatusCode :: nat
  resp_Status :: string
  resp_Body :: "'b option"

definition apiGroup :: string where
  "apiGroup = ''console.osac.openshift.io''"

definition apiVersion :: string where
  "apiVersion = ''v1alpha1''"

definition computeInstanceGR :: "string \<times> string" where
  "computeInstanceGR = (apiGroup, ''computeinstances'')"

definition newResolveConfigStatusError :: "apierrors \<Rightarrow> gerror \<Rightarrow> gerror" where
  "newResolveConfigStatusError api err =
     NewServiceUnavailable api (sprintf ''failed to resolve cluster configuration: %v'' [Error err])"

definition newComputeInstanceLookupStatusError :: "apierrors \<Rightarrow> string \<Rightarrow> gerror \<Rightarrow> gerror" where
  "newComputeInstanceLookupStatusError api name err =
     (if api_IsNotFound api err then NewNotFound api computeInstanceGR name
      else NewInternalError api (Wrapf ''failed to get compute instance %q: %w'' [name] err))"

definition newVMReferenceStatusError :: "apierrors \<Rightarrow> string \<Rightarrow> string \<Rightarrow> gerror" where
  "newVMReferenceStatusError api name message =
     NewServiceUnavailable api (sprintf ''compute instance %q: %s'' [name, message])"

definition newConfigStatusError :: "apierrors \<Rightarrow> string \<Rightarrow> gerror \<Rightarrow> gerror" where
  "newConfigStatusError api message err = NewServiceUnavailable api (sprintf ''%s: %v'' [message, Error err])"

text \<open>
  What \<^verbatim>\<open>dialSubresource\<close> returns if it fails: an answer of the upstream server, to be forwarded, or a status error (whose
  chain holds no upstream error).
\<close>

datatype 'b dial_error = upstreamError "'b http_response" | status_error gerror

definition newConnectStatusError :: "apierrors \<Rightarrow> gerror \<Rightarrow> 'b http_response option \<Rightarrow> 'b dial_error" where
  "newConnectStatusError api dialErr resp =
     (case resp of
        Some r \<Rightarrow> upstreamError r
      | None \<Rightarrow> status_error (NewServiceUnavailable api (sprintf ''failed to connect to VM: %v'' [Error dialErr])))"

section \<open>A subresource request\<close>

record url =
  url_Scheme :: string

record 'u url_lib =
  url_Parse :: "string \<Rightarrow> gerror + 'u url_scheme"
  url_JoinPath :: "'u url_scheme \<Rightarrow> string \<Rightarrow> 'u url_scheme"
  url_String :: "'u url_scheme \<Rightarrow> string"
  apiStorageVersion :: string

record ('c, 't, 'k, 'b, 'w) exchange =
  ex_TransportFor :: "'c rest_config_scheme \<Rightarrow> gerror + 't"
  ex_Dial :: "'t \<Rightarrow> string \<Rightarrow> ('w, gerror \<times> 'b http_response option + 'k) go"
  ex_Accept :: "('w, gerror + 'k) go"
  ex_Proxy :: "'k \<Rightarrow> 'k \<Rightarrow> ('w, gerror option) go"
  ex_CloseNow :: "'k \<Rightarrow> ('w, unit) go"
  ex_Error :: "gerror \<Rightarrow> ('w, unit) go"
  ex_SetHeader :: "string \<Rightarrow> string \<Rightarrow> ('w, unit) go"
  ex_WriteHeader :: "nat \<Rightarrow> ('w, unit) go"
  ex_Copy :: "'b \<Rightarrow> ('w, gerror option) go"
  ex_CloseBody :: "'b \<Rightarrow> ('w, unit) go"

definition resolveVMReference ::
  "apierrors \<Rightarrow> ('cs, 'w) proxy_hub \<Rightarrow> string \<Rightarrow> string \<Rightarrow> ('w, gerror + string \<times> string) go"
where
  "resolveVMReference api hub namespace name =
     bnd (hub_Get_ComputeInstance hub (namespace, name)) (\<lambda>res.
       case res of
         Inl err \<Rightarrow> ret (Inl (newComputeInstanceLookupStatusError api name err))
       | Inr ci \<Rightarrow>
           (case VirtualMachineReference (Status ci) of
              None \<Rightarrow> ret (Inl (newVMReferenceStatusError api name ''virtual machine reference is not available yet''))
            | Some ref \<Rightarrow>
                if vm_Namespace ref = '''' \<or> KubeVirtVirtualMachineName ref = '''' then
                  ret (Inl (newVMReferenceStatusError api name ''virtual machine reference is incomplete''))
                else ret (Inr (vm_Namespace ref, KubeVirtVirtualMachineName ref))))"

definition kubevirtSubresourceURL ::
  "'u url_lib \<Rightarrow> 'c rest_config_scheme \<Rightarrow> string \<Rightarrow> string \<Rightarrow> string \<Rightarrow> gerror + 'u url_scheme"
where
  "kubevirtSubresourceURL url remoteConfig namespace vmName subresource =
     (case url_Parse url (cfg_Host remoteConfig) of
        Inl err \<Rightarrow> Inl (Wrapf ''failed to parse remote host: %w'' [] err)
      | Inr u \<Rightarrow>
          (let path = sprintf ''apis/subresources.kubevirt.io/%s/namespaces/%s/virtualmachineinstances/%s/%s''
                        [apiStorageVersion url, namespace, vmName, subresource] in
           if url_Scheme u = ''https'' then Inr (url_JoinPath url (u\<lparr>url_Scheme := ''wss''\<rparr>) path)
           else if url_Scheme u = ''http'' then Inr (url_JoinPath url (u\<lparr>url_Scheme := ''ws''\<rparr>) path)
           else Inl (Errorf ''unsupported remote host protocol %q'' [url_Scheme u])))"

definition dialSubresource ::
  "apierrors \<Rightarrow> 'u url_lib \<Rightarrow> ('c, 't, 'k, 'b, 'w) exchange \<Rightarrow> 'c rest_config_scheme \<Rightarrow> string \<Rightarrow> string \<Rightarrow> string \<Rightarrow>
   ('w, 'b dial_error + 'k) go"
where
  "dialSubresource api url ex remoteConfig namespace vmName subresource =
     (case kubevirtSubresourceURL url remoteConfig namespace vmName subresource of
        Inl err \<Rightarrow> ret (Inl (status_error (newConfigStatusError api ''failed to build VM subresource URL'' err)))
      | Inr subresourceURL \<Rightarrow>
          (case ex_TransportFor ex remoteConfig of
             Inl err \<Rightarrow> ret (Inl (status_error (newConfigStatusError api ''failed to create upstream transport'' err)))
           | Inr rt \<Rightarrow>
               bnd (ex_Dial ex rt (url_String url subresourceURL)) (\<lambda>res.
                 case res of
                   Inl (err, resp) \<Rightarrow> ret (Inl (newConnectStatusError api err resp))
                 | Inr conn \<Rightarrow> ret (Inr conn))))"

definition forwardUpstreamResponse ::
  "('c, 't, 'k, 'b, 'w) exchange \<Rightarrow> 'b http_response \<Rightarrow> ('w, gerror option) go"
where
  "forwardUpstreamResponse ex resp =
     bnd (let ct = resp_Header resp ''Content-Type'' in
          if ct \<noteq> '''' then ex_SetHeader ex ''Content-Type'' ct else ret ()) (\<lambda>_.
     bnd (ex_WriteHeader ex (resp_StatusCode resp)) (\<lambda>_.
     case resp_Body resp of
       None \<Rightarrow> ret None
     | Some body \<Rightarrow>
         bnd (ex_Copy ex body) (\<lambda>e.
         bnd (ex_CloseBody ex body) (\<lambda>_.
           ret (map_option (Wrapf ''writing upstream response body: %w'' []) e)))))"

record ('cs, 'c, 'w) Server =
  srv_hubConfig :: "'c rest_config_scheme"
  srv_hubClient :: "('cs, 'w) proxy_hub"
  srv_configResolver :: "('c, 'w) ConfigResolver"
  srv_port :: int
  srv_healthProbeBindAddress :: string
  srv_tlsCertFile :: string
  srv_tlsKeyFile :: string

text \<open>The end of the handler, from the dial on; the session between two open connections is closed in the reverse order of their opening.\<close>

definition run_session ::
  "('c, 't, 'k, 'b, 'w) exchange \<Rightarrow> 'k \<Rightarrow> ('w, unit) go"
where
  "run_session ex upstreamWS =
     bnd (ex_Accept ex) (\<lambda>res.
       case res of
         Inl err \<Rightarrow> ex_CloseNow ex upstreamWS
       | Inr clientWS \<Rightarrow>
           bnd (ex_Proxy ex upstreamWS clientWS) (\<lambda>_.
           bnd (ex_CloseNow ex clientWS) (\<lambda>_.
           ex_CloseNow ex upstreamWS)))"

definition connect_client ::
  "apierrors \<Rightarrow> 'u url_lib \<Rightarrow> ('c, 't, 'k, 'b, 'w) exchange \<Rightarrow> 'c rest_config_scheme \<Rightarrow> string \<Rightarrow> string \<Rightarrow> string \<Rightarrow>
   ('w, unit) go"
where
  "connect_client api url ex vmClusterConfig vmNamespace vmName subresource =
     bnd (dialSubresource api url ex vmClusterConfig vmNamespace vmName subresource) (\<lambda>dialled.
       case dialled of
         Inl (upstreamError resp) \<Rightarrow> bnd (forwardUpstreamResponse ex resp) (\<lambda>_. ret ())
       | Inl (status_error err) \<Rightarrow> ex_Error ex err
       | Inr upstreamWS \<Rightarrow> run_session ex upstreamWS)"

definition handleSubresource ::
  "apierrors \<Rightarrow> 'u url_lib \<Rightarrow> ('cs, 'c, 'w) Server \<Rightarrow> ('c, 't, 'k, 'b, 'w) exchange \<Rightarrow> string \<Rightarrow> string \<Rightarrow> string \<Rightarrow>
   ('w, unit) go"
where
  "handleSubresource api url s ex namespace name subresource =
     bnd (srv_configResolver s namespace) (\<lambda>resolved.
       case resolved of
         Inl err \<Rightarrow> ex_Error ex (newResolveConfigStatusError api err)
       | Inr (vmClusterConfig, configSource) \<Rightarrow>
           bnd (resolveVMReference api (srv_hubClient s) namespace name) (\<lambda>reference.
             case reference of
               Inl err \<Rightarrow> ex_Error ex err
             | Inr (vmNamespace, vmName) \<Rightarrow>
                 connect_client api url ex vmClusterConfig vmNamespace vmName subresource))"

section \<open>The server\<close>

record ('cs, 'c, 'w) Config =
  conf_HubConfig :: "'c rest_config_scheme option"
  conf_HubClient :: "('cs, 'w) proxy_hub option"
  conf_ConfigResolver :: "('c, 'w) ConfigResolver option"
  conf_Port :: int
  conf_HealthProbeBindAddress :: string
  conf_TLSCertFile :: string
  conf_TLSKeyFile :: string

definition NewServer :: "('cs, 'c, 'w) Config \<Rightarrow> gerror + ('cs, 'c, 'w) Server" where
  "NewServer cfg =
     (case conf_HubConfig cfg of
        None \<Rightarrow> Inl (Errorf ''hub config is required'' [])
      | Some hubConfig \<Rightarrow>
     (case conf_HubClient cfg of
        None \<Rightarrow> Inl (Errorf ''hub client is required'' [])
      | Some hubClient \<Rightarrow>
     (case conf_ConfigResolver cfg of
        None \<Rightarrow> Inl (Errorf ''config resolver is required'' [])
      | Some resolver \<Rightarrow>
          if conf_Port cfg = 0 then Inl (Errorf ''port is required'' [])
          else if conf_TLSCertFile cfg = '''' \<or> conf_TLSKeyFile cfg = '''' then
            Inl (Errorf ''TLS cert and key files are required'' [])
          else Inr \<lparr>srv_hubConfig = hubConfig, srv_hubClient = hubClient, srv_configResolver = resolver,
                    srv_port = conf_Port cfg,
                    srv_healthProbeBindAddress =
                      (if conf_HealthProbeBindAddress cfg = '''' then '':8081'' else conf_HealthProbeBindAddress cfg),
                    srv_tlsCertFile = conf_TLSCertFile cfg, srv_tlsKeyFile = conf_TLSKeyFile cfg\<rparr>)))"

text \<open>The routes, with what they serve.\<close>

definition subresources :: "string list" where
  "subresources = [''console'', ''vnc'']"

record APIResource =
  res_Name :: string
  res_Kind :: string
  res_Namespaced :: bool
  res_Verbs :: "string list"

record APIGroup =
  grp_Name :: string
  grp_Versions :: "(string \<times> string) list"
  grp_PreferredVersion :: "string \<times> string"

datatype route =
    Serve_APIGroupList "APIGroup list"
  | Serve_APIGroup APIGroup
  | Serve_APIResourceList string "APIResource list"
  | Serve_Subresource string

definition groupVersion :: string where
  "groupVersion = apiGroup @ ''/'' @ apiVersion"

definition console_group :: APIGroup where
  "console_group =
     \<lparr>grp_Name = apiGroup, grp_Versions = [(groupVersion, apiVersion)], grp_PreferredVersion = (groupVersion, apiVersion)\<rparr>"

definition handleAPIGroupList :: route where
  "handleAPIGroupList = Serve_APIGroupList [console_group]"

definition handleAPIGroup :: route where
  "handleAPIGroup = Serve_APIGroup console_group"

definition handleAPIResourceList :: "APIResource list \<Rightarrow> route" where
  "handleAPIResourceList resources = Serve_APIResourceList groupVersion resources"

definition api_resource :: "string \<Rightarrow> APIResource" where
  "api_resource sub =
     \<lparr>res_Name = ''computeinstances/'' @ sub, res_Kind = ''ComputeInstance'', res_Namespaced = True, res_Verbs = [''get'']\<rparr>"

definition subresource_route :: "string \<Rightarrow> string \<times> route" where
  "subresource_route sub =
     (''GET /apis/'' @ apiGroup @ ''/'' @ apiVersion @ ''/namespaces/{namespace}/computeinstances/{name}/'' @ sub,
      Serve_Subresource sub)"

definition newAPIMux :: "(string \<times> route) list" where
  "newAPIMux =
     [(''GET /apis'', handleAPIGroupList), (''GET /apis/'' @ apiGroup, handleAPIGroup)] @
     map subresource_route subresources @
     [(''GET /apis/'' @ apiGroup @ ''/'' @ apiVersion, handleAPIResourceList (map api_resource subresources))]"

text \<open>The probes: a status code and a body.\<close>

datatype probe_state = probeStateStarting | probeStateReady | probeStateShuttingDown

definition newProbeState :: probe_state where
  "newProbeState = probeStateStarting"

definition MarkReady :: "probe_state \<Rightarrow> probe_state" where
  "MarkReady p = probeStateReady"

definition MarkShuttingDown :: "probe_state \<Rightarrow> probe_state" where
  "MarkShuttingDown p = probeStateShuttingDown"

definition writeProbeOK :: "nat \<times> string" where
  "writeProbeOK = (200, ''ok'')"

definition handleLivez :: "probe_state \<Rightarrow> nat \<times> string" where
  "handleLivez p = writeProbeOK"

definition handleReadyz :: "probe_state \<Rightarrow> nat \<times> string" where
  "handleReadyz p = (if p \<noteq> probeStateReady then (503, ''not ready'' @ [char_of (10 :: nat)]) else writeProbeOK)"

definition newProbeMux :: "(string \<times> (probe_state \<Rightarrow> nat \<times> string)) list" where
  "newProbeMux = [(''GET /healthz'', handleLivez), (''GET /livez'', handleLivez), (''GET /readyz'', handleReadyz)]"

end
