(* ===== verification/Console_Properties.thy ===== *)
theory Console_Properties
  imports Console_Proxy
begin

text \<open>
  Properties of the console proxy. For the order of what a request does, the server and the exchange are run in a world that
  also logs an event for every call; for the configuration, the resolvers are compared with what the hub lists.
\<close>

section \<open>Where a configuration comes from\<close>

lemma secret_config_Inr:
  "secret_config parse ns secret = Inr (cfg, src) \<longleftrightarrow>
     (\<exists>k c. sec_Data secret remoteKubeconfigKey = Some k \<and> k \<noteq> '''' \<and> parse k = Inr c \<and>
        cfg = c\<lparr>cfg_ExecProvider := None, cfg_AuthProvider := None\<rparr> \<and> src = ''remote (secret: '' @ sec_Name secret @ '')'')"
  by (auto simp: secret_config_def split: option.splits sum.splits)

text \<open>No error of the resolver other than its own is taken for a missing secret, if those it wraps are not.\<close>

definition foreign :: "gerror \<Rightarrow> bool" where
  "foreign err \<longleftrightarrow> \<not> isNoRemoteSecretError err"

lemma foreign_simps [simp]:
  "foreign (Errorf f xs)" "foreign (Wrapf f xs e) = foreign e" "\<not> foreign (NoRemoteSecretError ns)"
  by (simp_all add: foreign_def isNoRemoteSecretError_def)

lemma secret_config_foreign:
  "\<forall>k err. parse k = Inl err \<longrightarrow> foreign err \<Longrightarrow> secret_config parse ns secret = Inl err \<Longrightarrow> foreign err"
  by (auto simp: secret_config_def split: option.splits sum.splits if_splits)

text \<open>
  What the automatic resolver does with the secrets the hub lists.
\<close>

definition resolved_from ::
  "(string \<Rightarrow> gerror + 'c rest_config_scheme) \<Rightarrow> 'c rest_config_scheme \<Rightarrow> string \<Rightarrow> Secret list \<Rightarrow>
   gerror + 'c rest_config_scheme \<times> string"
where
  "resolved_from parse hubConfig ns secrets =
     (case secrets of
        [] \<Rightarrow> Inr (hubConfig, ''local (in-cluster)'')
      | secret # _ \<Rightarrow>
          (case secret_config parse ns secret of
             Inr r \<Rightarrow> Inr r
           | Inl err \<Rightarrow> Inl (Wrapf ''remote kubeconfig lookup failed (no fallback for this error): %w'' [] err)))"

lemma resolved_from_Inr:
  assumes "resolved_from parse hubConfig ns secrets = Inr (cfg, src)"
  obtains "secrets = []" "cfg = hubConfig" "src = ''local (in-cluster)''"
  | secret rest where "secrets = secret # rest" "secret_config parse ns secret = Inr (cfg, src)"
proof (cases secrets)
  case (Cons secret rest)
  with assms show ?thesis
    by (intro that(2) [of secret rest]) (cases "secret_config parse ns secret"; simp add: resolved_from_def)+
qed (use assms that(1) in \<open>simp add: resolved_from_def\<close>)

lemma auto_resolves:
  assumes parse: "\<forall>k err. parse k = Inl err \<longrightarrow> foreign err"
    and l: "hub_List_Secrets hub ns (RemoteKubeconfigLabel, ''true'') w = Some (Inr secrets, w')"
  shows "AutoConfigResolver_ResolveConfig (RemoteConfigResolver_ResolveConfig hub parse)
     (LocalConfigResolver_ResolveConfig hubConfig) ns w = Some (resolved_from parse hubConfig ns secrets, w')"
proof (cases secrets)
  case Nil
  then show ?thesis
    by (simp add: l AutoConfigResolver_ResolveConfig_def RemoteConfigResolver_ResolveConfig_def resolved_from_def go_simps
        LocalConfigResolver_ResolveConfig_def foreign_simps(3) [unfolded foreign_def])
next
  case (Cons secret rest)
  then show ?thesis
    using secret_config_foreign [where parse = parse and ns = ns and secret = secret, OF parse]
    by (auto simp: l AutoConfigResolver_ResolveConfig_def RemoteConfigResolver_ResolveConfig_def resolved_from_def go_simps
        foreign_def split: sum.split)
qed

lemma auto_listed:
  assumes parse: "\<forall>k err. parse k = Inl err \<longrightarrow> foreign err"
    and list: "\<forall>err v. hub_List_Secrets hub ns (RemoteKubeconfigLabel, ''true'') w = Some (Inl err, v) \<longrightarrow> foreign err"
    and run: "AutoConfigResolver_ResolveConfig (RemoteConfigResolver_ResolveConfig hub parse)
      (LocalConfigResolver_ResolveConfig hubConfig) ns w = Some (Inr (cfg, src), w')"
  shows "\<exists>secrets. hub_List_Secrets hub ns (RemoteKubeconfigLabel, ''true'') w = Some (Inr secrets, w') \<and>
    resolved_from parse hubConfig ns secrets = Inr (cfg, src)"
proof (cases "hub_List_Secrets hub ns (RemoteKubeconfigLabel, ''true'') w")
  case None
  with run show ?thesis
    by (simp add: AutoConfigResolver_ResolveConfig_def RemoteConfigResolver_ResolveConfig_def go_simps)
next
  case (Some p)
  then obtain listed v where p: "hub_List_Secrets hub ns (RemoteKubeconfigLabel, ''true'') w = Some (listed, v)" by (cases p) auto
  show ?thesis
  proof (cases listed)
    case (Inl err)
    with p list have "foreign err" by blast
    with run p Inl show ?thesis
      by (simp add: AutoConfigResolver_ResolveConfig_def RemoteConfigResolver_ResolveConfig_def go_simps
          foreign_simps(2) [unfolded foreign_def, simplified] foreign_def)
  next
    case (Inr secrets)
    with p have "hub_List_Secrets hub ns (RemoteKubeconfigLabel, ''true'') w = Some (Inr secrets, v)" by simp
    from auto_resolves [OF parse this] run this show ?thesis by auto
  qed
qed

text \<open>
  C33: a configuration never comes from anywhere but where the mode of the proxy says. Whatever the mode, if the resolver built for it
  returns a configuration for a namespace, then either it is the hub's own configuration, the mode is not \<^verbatim>\<open>remote\<close> and in any mode
  but \<^verbatim>\<open>local\<close> the hub has just listed no labelled secret in that namespace (a failed listing, a secret without a kubeconfig and one
  that cannot be parsed do not count), or the mode is not \<^verbatim>\<open>local\<close>, the configuration is that of a kubeconfig in the first labelled
  secret of that namespace, and it can neither run a program nor load a plugin to authenticate.
\<close>

theorem console_configuration_source:
  assumes "buildConfigResolver mode hub parse hubConfig = Inr resolve"
    and "resolve ns w = Some (Inr (cfg, src), w')"
    and "\<forall>k err. parse k = Inl err \<longrightarrow> foreign err"
    and "\<forall>err v. hub_List_Secrets hub ns (RemoteKubeconfigLabel, ''true'') w = Some (Inl err, v) \<longrightarrow> foreign err"
  shows "(cfg = hubConfig \<and> src = ''local (in-cluster)'' \<and> mode \<noteq> ''remote'' \<and>
      (mode \<noteq> ''local'' \<longrightarrow> hub_List_Secrets hub ns (RemoteKubeconfigLabel, ''true'') w = Some (Inr [], w'))) \<or>
     (mode \<noteq> ''local'' \<and> cfg_ExecProvider cfg = None \<and> cfg_AuthProvider cfg = None \<and>
      (\<exists>secret rest k c. hub_List_Secrets hub ns (RemoteKubeconfigLabel, ''true'') w = Some (Inr (secret # rest), w') \<and>
         sec_Data secret ''kubeconfig'' = Some k \<and> k \<noteq> '''' \<and> parse k = Inr c \<and>
         cfg = c\<lparr>cfg_ExecProvider := None, cfg_AuthProvider := None\<rparr>))"
proof -
  let ?list = "hub_List_Secrets hub ns (RemoteKubeconfigLabel, ''true'')"
  note modes = VMClusterModeRemote_def VMClusterModeLocal_def VMClusterModeAuto_def
  consider (remote) "mode = ''remote''" "resolve = RemoteConfigResolver_ResolveConfig hub parse"
    | (local) "mode = ''local''" "resolve = LocalConfigResolver_ResolveConfig hubConfig"
    | (auto) "mode \<noteq> ''remote''" "mode \<noteq> ''local''" "resolve = AutoConfigResolver_ResolveConfig
        (RemoteConfigResolver_ResolveConfig hub parse) (LocalConfigResolver_ResolveConfig hubConfig)"
    using assms(1) by (auto simp: buildConfigResolver_def modes split: if_splits)
  then show ?thesis
  proof cases
    case remote
    with assms(2) obtain secret rest where l: "?list w = Some (Inr (secret # rest), w')"
      and c: "secret_config parse ns secret = Inr (cfg, src)"
      by (auto simp: RemoteConfigResolver_ResolveConfig_def go_simps split: option.splits sum.splits list.splits)
    from c remote(1) l show ?thesis by (auto simp: secret_config_Inr remoteKubeconfigKey_def)
  next
    case local
    with assms(2) show ?thesis by (simp add: LocalConfigResolver_ResolveConfig_def go_simps)
  next
    case auto
    obtain secrets where l: "?list w = Some (Inr secrets, w')" and r: "resolved_from parse hubConfig ns secrets = Inr (cfg, src)"
      using auto_listed [OF assms(3,4) assms(2) [unfolded auto(3)]] by blast
    from r show ?thesis
      by (rule resolved_from_Inr) (use auto l in \<open>auto simp: secret_config_Inr remoteKubeconfigKey_def\<close>)
  qed
qed

definition sample_hub_client :: "(unit, unit) proxy_hub" where
  "sample_hub_client =
     \<lparr>hub_List_Secrets = (\<lambda>ns l. ret (if ns = ''tenants'' \<and> l = (RemoteKubeconfigLabel, ''true'')
         then Inr [\<lparr>sec_Name = ''vms'', sec_Data = [''kubeconfig'' \<mapsto> ''server: https://vms'']\<rparr>] else Inr [])),
      hub_Get_ComputeInstance = (\<lambda>key. ret (Inl (APIStatusError ''NotFound'' ''not found'')))\<rparr>"

definition console_parse :: "string \<Rightarrow> gerror + rest_config" where
  "console_parse k = (if take 8 k = ''server: ''
     then Inr \<lparr>cfg_Host = drop 8 k, cfg_ExecProvider = Some ''kubelogin'', cfg_AuthProvider = None\<rparr>
     else Inl (Errorf ''no server'' []))"

theorem console_configuration_source_witness:
  "(let hubConfig = \<lparr>cfg_Host = ''https://hub'', cfg_ExecProvider = None, cfg_AuthProvider = None\<rparr>;
        cfg = \<lparr>cfg_Host = ''https://vms'', cfg_ExecProvider = None, cfg_AuthProvider = None\<rparr> in
    (\<exists>resolve. buildConfigResolver ''auto'' sample_hub_client console_parse hubConfig = Inr resolve \<and>
       resolve ''tenants'' () = Some (Inr (cfg, ''remote (secret: vms)''), ())) \<and> cfg \<noteq> hubConfig \<and>
    (\<exists>secret rest. hub_List_Secrets sample_hub_client ''tenants'' (RemoteKubeconfigLabel, ''true'') () = Some (Inr (secret # rest), ())))"
proof -
  let ?hubConfig = "\<lparr>cfg_Host = ''https://hub'', cfg_ExecProvider = None, cfg_AuthProvider = None\<rparr>"
  let ?cfg = "\<lparr>cfg_Host = ''https://vms'', cfg_ExecProvider = None, cfg_AuthProvider = None\<rparr>"
  let ?resolve = "AutoConfigResolver_ResolveConfig (RemoteConfigResolver_ResolveConfig sample_hub_client console_parse)
    (LocalConfigResolver_ResolveConfig ?hubConfig)"
  have b: "buildConfigResolver ''auto'' sample_hub_client console_parse ?hubConfig = Inr ?resolve"
    by (simp add: buildConfigResolver_def VMClusterModeRemote_def VMClusterModeLocal_def VMClusterModeAuto_def)
  have r: "?resolve ''tenants'' () = Some (Inr (?cfg, ''remote (secret: vms)''), ())"
    by (simp add: AutoConfigResolver_ResolveConfig_def RemoteConfigResolver_ResolveConfig_def go_simps secret_config_def
        sample_hub_client_def console_parse_def remoteKubeconfigKey_def)
  have "\<forall>k err. console_parse k = Inl err \<longrightarrow> foreign err" by (simp add: console_parse_def)
  moreover have "\<forall>err v. hub_List_Secrets sample_hub_client ''tenants'' (RemoteKubeconfigLabel, ''true'') () =
      Some (Inl err, v) \<longrightarrow> foreign err"
    by (simp add: sample_hub_client_def go_simps)
  ultimately show ?thesis
    using console_configuration_source [OF b r] b r by (auto simp: Let_def)
qed

section \<open>What a request does\<close>

datatype ('cs, 'c, 't, 'k) console_event =
    Resolved string "gerror + 'c rest_config_scheme \<times> string"
  | Looked_up ObjectKey "gerror + 'cs compute_instance"
  | Dialled 't string "'k option"
  | Accepted "'k option"
  | Proxied 'k 'k
  | Closed 'k
  | Refused gerror
  | Forwarded nat

definition success :: "'a + 'b \<Rightarrow> 'b option" where
  "success r = (case r of Inl _ \<Rightarrow> None | Inr x \<Rightarrow> Some x)"

definition log_server ::
  "('cs, 'c, 'w) Server \<Rightarrow> ('cs, 'c, ('cs, 'c, 't, 'k) console_event list \<times> 'w) Server"
where
  "log_server s =
     \<lparr>srv_hubConfig = srv_hubConfig s,
      srv_hubClient =
        \<lparr>hub_List_Secrets = (\<lambda>ns l. unlogged (hub_List_Secrets (srv_hubClient s) ns l)),
         hub_Get_ComputeInstance = (\<lambda>key. logged (Looked_up key) (hub_Get_ComputeInstance (srv_hubClient s) key))\<rparr>,
      srv_configResolver = (\<lambda>ns. logged (Resolved ns) (srv_configResolver s ns)),
      srv_port = srv_port s, srv_healthProbeBindAddress = srv_healthProbeBindAddress s,
      srv_tlsCertFile = srv_tlsCertFile s, srv_tlsKeyFile = srv_tlsKeyFile s\<rparr>"

definition log_exchange ::
  "('c, 't, 'k, 'b, 'w) exchange \<Rightarrow> ('c, 't, 'k, 'b, ('cs, 'c, 't, 'k) console_event list \<times> 'w) exchange"
where
  "log_exchange ex =
     \<lparr>ex_TransportFor = ex_TransportFor ex,
      ex_Dial = (\<lambda>t u. logged (\<lambda>r. Dialled t u (success r)) (ex_Dial ex t u)),
      ex_Accept = logged (\<lambda>r. Accepted (success r)) (ex_Accept ex),
      ex_Proxy = (\<lambda>a b. logged (\<lambda>_. Proxied a b) (ex_Proxy ex a b)),
      ex_CloseNow = (\<lambda>k. logged (\<lambda>_. Closed k) (ex_CloseNow ex k)),
      ex_Error = (\<lambda>e. logged (\<lambda>_. Refused e) (ex_Error ex e)),
      ex_SetHeader = (\<lambda>h v. unlogged (ex_SetHeader ex h v)),
      ex_WriteHeader = (\<lambda>c. logged (\<lambda>_. Forwarded c) (ex_WriteHeader ex c)),
      ex_Copy = (\<lambda>b. unlogged (ex_Copy ex b)),
      ex_CloseBody = (\<lambda>b. unlogged (ex_CloseBody ex b))\<rparr>"

text \<open>The ways in which a request may end, from the call of \<^verbatim>\<open>dialSubresource\<close> on; \<open>u\<close> is the URL and \<open>t\<close> the transport.\<close>

inductive session :: "'t \<Rightarrow> string \<Rightarrow> ('cs, 'c, 't, 'k) console_event list \<Rightarrow> bool" for t u where
  unreachable: "session t u [Dialled t u None, Refused err]"
| rejected: "session t u [Dialled t u None, Forwarded code]"
| abandoned: "session t u [Dialled t u (Some k), Accepted None, Closed k]"
| connected: "session t u [Dialled t u (Some k), Accepted (Some c), Proxied k c, Closed c, Closed k]"

text \<open>The ways in which a request of the subresource \<open>sub\<close> of the instance \<open>name\<close> in \<open>ns\<close> may end.\<close>

inductive request ::
  "'u url_lib \<Rightarrow> ('c, 't, 'k, 'b, 'w) exchange \<Rightarrow> string \<Rightarrow> string \<Rightarrow> string \<Rightarrow> ('cs, 'c, 't, 'k) console_event list \<Rightarrow> bool"
  for url ex ns name sub
where
  no_config: "request url ex ns name sub [Resolved ns (Inl err), Refused e]"
| no_instance: "request url ex ns name sub [Resolved ns (Inr (cfg, src)), Looked_up (ns, name) (Inl err), Refused e]"
| no_machine:
    "(case VirtualMachineReference (Status ci) of None \<Rightarrow> True | Some r \<Rightarrow> vm_Namespace r = '''' \<or> KubeVirtVirtualMachineName r = '''') \<Longrightarrow>
     request url ex ns name sub [Resolved ns (Inr (cfg, src)), Looked_up (ns, name) (Inr ci), Refused e]"
| unusable_config:
    "VirtualMachineReference (Status ci) = Some ref \<Longrightarrow>
     (\<forall>u t. kubevirtSubresourceURL url cfg (vm_Namespace ref) (KubeVirtVirtualMachineName ref) sub = Inr u \<longrightarrow>
        ex_TransportFor ex cfg \<noteq> Inr t) \<Longrightarrow>
     request url ex ns name sub [Resolved ns (Inr (cfg, src)), Looked_up (ns, name) (Inr ci), Refused e]"
| dialled:
    "VirtualMachineReference (Status ci) = Some ref \<Longrightarrow> vm_Namespace ref \<noteq> '''' \<Longrightarrow> KubeVirtVirtualMachineName ref \<noteq> '''' \<Longrightarrow>
     kubevirtSubresourceURL url cfg (vm_Namespace ref) (KubeVirtVirtualMachineName ref) sub = Inr u \<Longrightarrow>
     ex_TransportFor ex cfg = Inr t \<Longrightarrow> session t (url_String url u) evs \<Longrightarrow>
     request url ex ns name sub (Resolved ns (Inr (cfg, src)) # Looked_up (ns, name) (Inr ci) # evs)"

lemma log_simps [simp]:
  "srv_configResolver (log_server s) = (\<lambda>ns. logged (Resolved ns) (srv_configResolver s ns))"
  "hub_Get_ComputeInstance (srv_hubClient (log_server s)) =
     (\<lambda>key. logged (Looked_up key) (hub_Get_ComputeInstance (srv_hubClient s) key))"
  "ex_TransportFor (log_exchange ex) = ex_TransportFor ex"
  "ex_Dial (log_exchange ex) = (\<lambda>t u. logged (\<lambda>r. Dialled t u (success r)) (ex_Dial ex t u))"
  "ex_Accept (log_exchange ex) = logged (\<lambda>r. Accepted (success r)) (ex_Accept ex)"
  "ex_Proxy (log_exchange ex) = (\<lambda>a b. logged (\<lambda>_. Proxied a b) (ex_Proxy ex a b))"
  "ex_CloseNow (log_exchange ex) = (\<lambda>k. logged (\<lambda>_. Closed k) (ex_CloseNow ex k))"
  "ex_Error (log_exchange ex) = (\<lambda>e. logged (\<lambda>_. Refused e) (ex_Error ex e))"
  "ex_SetHeader (log_exchange ex) = (\<lambda>h v. unlogged (ex_SetHeader ex h v))"
  "ex_WriteHeader (log_exchange ex) = (\<lambda>c. logged (\<lambda>_. Forwarded c) (ex_WriteHeader ex c))"
  "ex_Copy (log_exchange ex) = (\<lambda>b. unlogged (ex_Copy ex b))"
  "ex_CloseBody (log_exchange ex) = (\<lambda>b. unlogged (ex_CloseBody ex b))"
  by (simp_all add: log_server_def log_exchange_def)

lemma forward_logged:
  "wlp (forwardUpstreamResponse (log_exchange ex) resp) (\<lambda>_ (log', _). log' = log @ [Forwarded (resp_StatusCode resp)]) (log, w)"
  by (auto simp: forwardUpstreamResponse_def wp_simps Let_def split: option.split intro!: wlp_all)

lemma run_session_logged:
  "wlp (run_session (log_exchange ex) k) (\<lambda>_ (log', _). \<exists>evs. log' = log @ evs \<and> session t u (Dialled t u (Some k) # evs)) (log, w)"
  by (simp add: run_session_def wp_simps)
    (rule wlp_all, simp add: success_def wp_simps split: sum.split, auto intro!: wlp_all session.intros)

text \<open>
  What follows the two look-ups.
\<close>

lemma dial_logged:
  assumes "kubevirtSubresourceURL url cfg ns vm sub = Inr u" and "ex_TransportFor ex cfg = Inr t"
  shows "wlp (dialSubresource api url (log_exchange ex) cfg ns vm sub) (\<lambda>r (log', _).
     log' = log @ [Dialled t (url_String url u) (success r)]) (log, w)"
  using assms by (simp add: dialSubresource_def wp_simps) (rule wlp_all, simp add: success_def wp_simps split: sum.split)

lemma dial_refused:
  assumes "\<forall>u t. kubevirtSubresourceURL url cfg ns vm sub = Inr u \<longrightarrow> ex_TransportFor ex cfg \<noteq> Inr t"
  shows "wlp (dialSubresource api url (log_exchange ex) cfg ns vm sub) (\<lambda>r (log', _).
     log' = log \<and> (\<exists>e. r = Inl (status_error e))) (log, w)"
  using assms by (auto simp: dialSubresource_def wp_simps split: sum.split)

lemma connect_client_logged:
  assumes "kubevirtSubresourceURL url cfg ns vm sub = Inr u" and "ex_TransportFor ex cfg = Inr t"
  shows "wlp (connect_client api url (log_exchange ex) cfg ns vm sub)
     (\<lambda>_ (log', _). \<exists>evs. log' = log @ evs \<and> session t (url_String url u) evs) (log, w)"
proof -
  let ?u = "url_String url u"
  let ?Q = "\<lambda>_ (log', _). \<exists>evs. log' = log @ evs \<and> session t ?u evs"
  have up: "wlp (forwardUpstreamResponse (log_exchange ex) resp) ?Q (log @ [Dialled t ?u None], v)" for resp v
    by (rule wlp_mono [OF forward_logged]) (auto intro: session.rejected)
  have st: "wlp (ex_Error (log_exchange ex) err) ?Q (log @ [Dialled t ?u None], v)" for err v
    by (simp add: wp_simps, rule wlp_all) (auto intro: session.unreachable)
  have conn: "wlp (run_session (log_exchange ex) k) ?Q (log @ [Dialled t ?u (Some k)], v)" for k v
    by (rule wlp_mono [OF run_session_logged [where t = t and u = ?u]]) auto
  show ?thesis
    unfolding connect_client_def wlp_bnd
    by (rule wlp_mono [OF dial_logged [OF assms]])
      (auto simp: success_def wlp_bnd wlp_ret up [simplified] st [simplified] conn [simplified] split: sum.split dial_error.split)
qed

lemma connect_client_refused:
  assumes "\<forall>u t. kubevirtSubresourceURL url cfg ns vm sub = Inr u \<longrightarrow> ex_TransportFor ex cfg \<noteq> Inr t"
  shows "wlp (connect_client api url (log_exchange ex) cfg ns vm sub) (\<lambda>_ (log', _). \<exists>e. log' = log @ [Refused e]) (log, w)"
  unfolding connect_client_def wlp_bnd
  by (rule wlp_mono [OF dial_refused [OF assms]]) (auto simp: logged_def wlp_def split: option.splits)

lemma handleSubresource_logged:
  "wlp (handleSubresource api url (log_server s) (log_exchange ex) ns name sub)
     (\<lambda>_ (evs, _). request url ex ns name sub evs) ([], w)"
proof -
  let ?Q = "\<lambda>_ (evs, _). request url ex ns name sub evs"
  have refused: "wlp (ex_Error (log_exchange ex) err) ?Q (log, v)" if "request url ex ns name sub (log @ [Refused err])" for err log v
    using that by (simp add: wlp_logged)
  have machine: "wlp (connect_client api url (log_exchange ex) cfg (vm_Namespace ref) (KubeVirtVirtualMachineName ref) sub) ?Q
      ([Resolved ns (Inr (cfg, src)), Looked_up (ns, name) (Inr ci)], v)"
    if ref: "VirtualMachineReference (Status ci) = Some ref" "vm_Namespace ref \<noteq> ''''" "KubeVirtVirtualMachineName ref \<noteq> ''''"
    for cfg src ci ref v
  proof (cases "\<exists>u t. kubevirtSubresourceURL url cfg (vm_Namespace ref) (KubeVirtVirtualMachineName ref) sub = Inr u \<and>
      ex_TransportFor ex cfg = Inr t")
    case True
    then obtain u t where ut: "kubevirtSubresourceURL url cfg (vm_Namespace ref) (KubeVirtVirtualMachineName ref) sub = Inr u"
      "ex_TransportFor ex cfg = Inr t" by blast
    show ?thesis
      by (rule wlp_mono [OF connect_client_logged [OF ut]]) (auto intro: dialled [OF ref ut])
  next
    case False
    then have no: "\<forall>u t. kubevirtSubresourceURL url cfg (vm_Namespace ref) (KubeVirtVirtualMachineName ref) sub = Inr u \<longrightarrow>
      ex_TransportFor ex cfg \<noteq> Inr t" by blast
    show ?thesis
      by (rule wlp_mono [OF connect_client_refused [OF no]]) (auto intro: unusable_config [OF ref(1) no])
  qed
  have body: "wlp (case resolved of
         Inl err \<Rightarrow> ex_Error (log_exchange ex) (newResolveConfigStatusError api err)
       | Inr (cfg, src) \<Rightarrow>
           bnd (resolveVMReference api (srv_hubClient (log_server s)) ns name) (\<lambda>reference.
             case reference of
               Inl err \<Rightarrow> ex_Error (log_exchange ex) err
             | Inr (vmNamespace, vmName) \<Rightarrow> connect_client api url (log_exchange ex) cfg vmNamespace vmName sub))
       ?Q ([Resolved ns resolved], v)" for resolved v
  proof (cases resolved)
    case (Inr p)
    show ?thesis
      unfolding Inr resolveVMReference_def
      by (cases p, simp add: wp_simps, rule wlp_all,
          auto simp: wlp_ret machine split: sum.split option.split intro!: refused [simplified] no_instance)
        (rule no_machine, simp)+
  qed (auto intro!: refused [simplified] no_config)
  show ?thesis
    unfolding handleSubresource_def
    by (simp only: log_simps(1) wlp_bnd wlp_logged prod.case append_Nil) (rule wlp_all, rule body)
qed

text \<open>
  C32: what a console request does. For a request of the subresource \<open>sub\<close> of the compute instance \<open>name\<close> in the namespace \<open>ns\<close>, the
  calls it makes can be recorded in a log that changes nothing else, and they are one of a few sequences (\<open>request\<close>). The
  configuration is the one resolved for \<open>ns\<close>. The only instance looked up is \<open>name\<close> in \<open>ns\<close>. At most one connection is dialled, with the
  transport of that configuration and to the URL of \<open>sub\<close> of the virtual machine that this instance refers to, if its reference is
  complete. The client gets exactly one answer: an error, the upstream's answer, or that to its attempt to connect, and the last only once the
  upstream is connected. Data is copied between those two connections only, and each connection opened is closed, once, the client's
  first.
\<close>

theorem console_request:
  assumes "handleSubresource api url s ex ns name sub w = Some ((), w')"
  shows "\<exists>evs. handleSubresource api url (log_server s) (log_exchange ex) ns name sub ([], w) = Some ((), (evs, w')) \<and>
    request url ex ns name sub evs"
proof -
  have dial: "ghost (dialSubresource api url (log_exchange ex) cfg n vm sub) (dialSubresource api url ex cfg n vm sub)" for cfg n vm
    by (auto simp: dialSubresource_def split: sum.split intro!: ghost_bnd)
  have forward: "ghost (forwardUpstreamResponse (log_exchange ex) resp) (forwardUpstreamResponse ex resp)" for resp
    by (auto simp: forwardUpstreamResponse_def Let_def split: option.split intro!: ghost_bnd)
  have sess: "ghost (run_session (log_exchange ex) k) (run_session ex k)" for k
    by (auto simp: run_session_def split: sum.split intro!: ghost_bnd)
  have "ghost (connect_client api url (log_exchange ex) cfg n vm sub) (connect_client api url ex cfg n vm sub)" for cfg n vm
    unfolding connect_client_def
    by (auto simp: dial forward sess split: sum.split dial_error.split intro!: ghost_bnd)
  then have "ghost (handleSubresource api url (log_server s) (log_exchange ex) ns name sub) (handleSubresource api url s ex ns name sub)"
    by (auto simp: handleSubresource_def resolveVMReference_def split: sum.split option.split intro!: ghost_bnd)
  from ghostD [OF this assms] obtain evs where
    "handleSubresource api url (log_server s) (log_exchange ex) ns name sub ([], w) = Some ((), (evs, w'))" by blast
  with wlpD [OF handleSubresource_logged this] show ?thesis by auto
qed

text \<open>An exchange with a running machine: two connections are opened, and the URL keeps the host and the path.\<close>

record host_url = url +
  url_rest :: string

definition console_api :: apierrors where
  "console_api =
     \<lparr>api_IsNotFound = (\<lambda>e. case e of APIStatusError r m \<Rightarrow> r = ''NotFound'' | _ \<Rightarrow> False),
      NewServiceUnavailable = APIStatusError ''ServiceUnavailable'',
      NewNotFound = (\<lambda>gr n. APIStatusError ''NotFound'' n), NewInternalError = (\<lambda>e. APIStatusError ''InternalError'' (Error e))\<rparr>"

definition console_url :: "\<lparr>url_rest :: string\<rparr> url_lib" where
  "console_url =
     \<lparr>url_Parse = (\<lambda>h. if take 8 h = ''https://'' then Inr \<lparr>url_Scheme = ''https'', url_rest = drop 8 h\<rparr>
        else Inl (Errorf ''bad host'' [])),
      url_JoinPath = (\<lambda>u p. u\<lparr>url_rest := url_rest u @ ''/'' @ p\<rparr>),
      url_String = (\<lambda>u. url_Scheme u @ ''://'' @ url_rest u), apiStorageVersion = ''v1''\<rparr>"

definition console_instance :: "unit compute_instance" where
  "console_instance =
     \<lparr>Meta = \<lparr>Name = ''vm1'', Namespace = ''cis'', Labels = Map.empty, Annotations = Map.empty, Finalizers = [],
        DeletionTimestamp = None\<rparr>, Spec = (),
      Status = \<lparr>Phase = PhaseRunning, DesiredConfigVersion = ''v'', ProvisioningJobs = [], Conditions = [],
        VirtualMachineReference = Some \<lparr>vm_Namespace = ''t1'', KubeVirtVirtualMachineName = ''kv1''\<rparr>, TenantReference = None,
        LastRestartedAt = None, IPAddress = '''', ExternalIPAddress = ''''\<rparr>\<rparr>"

definition console_server :: "(unit, unit, unit) Server" where
  "console_server =
     \<lparr>srv_hubConfig = \<lparr>cfg_Host = ''https://hub'', cfg_ExecProvider = None, cfg_AuthProvider = None\<rparr>,
      srv_hubClient = sample_hub_client\<lparr>hub_Get_ComputeInstance := \<lambda>key. ret (Inr console_instance)\<rparr>,
      srv_configResolver =
        LocalConfigResolver_ResolveConfig \<lparr>cfg_Host = ''https://hub'', cfg_ExecProvider = None, cfg_AuthProvider = None\<rparr>,
      srv_port = 8443, srv_healthProbeBindAddress = '':8081'', srv_tlsCertFile = ''crt'', srv_tlsKeyFile = ''key''\<rparr>"

definition console_exchange :: "(unit, string, nat, string, unit) exchange" where
  "console_exchange =
     \<lparr>ex_TransportFor = (\<lambda>c. Inr (cfg_Host c)), ex_Dial = (\<lambda>t u. ret (Inr 1)), ex_Accept = ret (Inr 2),
      ex_Proxy = (\<lambda>a b. ret None), ex_CloseNow = (\<lambda>k. ret ()), ex_Error = (\<lambda>e. ret ()), ex_SetHeader = (\<lambda>h v. ret ()),
      ex_WriteHeader = (\<lambda>c. ret ()), ex_Copy = (\<lambda>b. ret None), ex_CloseBody = (\<lambda>b. ret ())\<rparr>"

lemma console_run:
  "handleSubresource console_api console_url console_server console_exchange ''cis'' ''vm1'' ''vnc'' () = Some ((), ())"
  by (simp add: handleSubresource_def console_server_def LocalConfigResolver_ResolveConfig_def resolveVMReference_def
      console_instance_def connect_client_def dialSubresource_def kubevirtSubresourceURL_def console_url_def console_exchange_def
      run_session_def go_simps Let_def)

theorem console_request_witness:
  "\<exists>evs. handleSubresource console_api console_url (log_server console_server) (log_exchange console_exchange) ''cis'' ''vm1'' ''vnc''
      ([], ()) = Some ((), (evs, ())) \<and> request console_url console_exchange ''cis'' ''vm1'' ''vnc'' evs \<and>
     Dialled ''https://hub'' ''wss://hub/apis/subresources.kubevirt.io/v1/namespaces/t1/virtualmachineinstances/kv1/vnc'' (Some 1) \<in> set evs"
proof -
  obtain evs where evs: "handleSubresource console_api console_url (log_server console_server) (log_exchange console_exchange)
      ''cis'' ''vm1'' ''vnc'' ([], ()) = Some ((), (evs, ()))" "request console_url console_exchange ''cis'' ''vm1'' ''vnc'' evs"
    using console_request [OF console_run] by blast
  moreover have "handleSubresource console_api console_url (log_server console_server) (log_exchange console_exchange)
      ''cis'' ''vm1'' ''vnc'' ([], ()) = Some ((),
      ([Resolved ''cis'' (Inr (srv_hubConfig console_server, ''local (in-cluster)'')), Looked_up (''cis'', ''vm1'') (Inr console_instance),
        Dialled ''https://hub'' ''wss://hub/apis/subresources.kubevirt.io/v1/namespaces/t1/virtualmachineinstances/kv1/vnc'' (Some 1),
        Accepted (Some 2), Proxied 1 2, Closed 2, Closed 1], ()))"
    by (simp add: handleSubresource_def console_server_def LocalConfigResolver_ResolveConfig_def resolveVMReference_def
      console_instance_def connect_client_def dialSubresource_def kubevirtSubresourceURL_def console_url_def console_exchange_def
      run_session_def go_simps Let_def logged_def success_def)
  ultimately show ?thesis by auto
qed

section \<open>Any resolver of safe configurations\<close>

text \<open>
  The interface \<^verbatim>\<open>ConfigResolver\<close>: the handler relies on no more than that the configurations it gets are \<open>safe\<close>. All three resolvers
  keep that promise for configurations that are the hub's own or that can neither run a program nor load a plugin.
\<close>

definition appends :: "('e list \<times> 'w, 'a) go \<Rightarrow> bool" where
  "appends m \<longleftrightarrow> (\<forall>log w. wlp m (\<lambda>_ (log', _). \<exists>evs. log' = log @ evs) (log, w))"

lemma appends_basic [simp]: "appends (ret x)" "appends (logged f m)" "appends (unlogged m')"
  by (auto simp: appends_def wp_simps intro!: wlp_all)

lemma appends_bnd: "appends m \<Longrightarrow> (\<And>x. appends (f x)) \<Longrightarrow> appends (bnd m f)"
  unfolding appends_def wlp_bnd
proof (intro allI)
  fix log w
  assume m: "\<forall>log w. wlp m (\<lambda>_ (log', _). \<exists>evs. log' = log @ evs) (log, w)"
    and f: "\<And>x. \<forall>log w. wlp (f x) (\<lambda>_ (log', _). \<exists>evs. log' = log @ evs) (log, w)"
  show "wlp m (\<lambda>x. wlp (f x) (\<lambda>_ (log', _). \<exists>evs. log' = log @ evs)) (log, w)"
  proof (rule wlp_mono [OF m [rule_format]], clarify)
    fix x v evs
    show "wlp (f x) (\<lambda>_ (log', _). \<exists>evs. log' = log @ evs) (log @ evs, v)"
      by (rule wlp_mono [OF f [rule_format]]) auto
  qed
qed

lemma appends_connect: "appends (connect_client api url (log_exchange ex) cfg ns vm sub)"
  unfolding connect_client_def dialSubresource_def forwardUpstreamResponse_def run_session_def
  by (auto simp: Let_def split: sum.split dial_error.split option.split intro!: appends_bnd)

lemma bnd_logged_Some:
  "bnd (logged f m) k (log, w) = Some x \<Longrightarrow> \<exists>r w1. m w = Some (r, w1) \<and> k r (log @ [f r], w1) = Some x"
  by (auto simp: bnd_def logged_def split: option.splits)

lemma handleSubresource_resolved:
  assumes "handleSubresource api url (log_server s) (log_exchange ex) ns name sub ([], w) = Some ((), (evs, w'))"
  shows "\<exists>r w1 rest. srv_configResolver s ns w = Some (r, w1) \<and> evs = Resolved ns r # rest"
proof -
  let ?k = "\<lambda>resolved. case resolved of
       Inl err \<Rightarrow> ex_Error (log_exchange ex) (newResolveConfigStatusError api err)
     | Inr (cfg, src) \<Rightarrow>
         bnd (resolveVMReference api (srv_hubClient (log_server s)) ns name) (\<lambda>reference.
           case reference of
             Inl err \<Rightarrow> ex_Error (log_exchange ex) err
           | Inr (n, vm) \<Rightarrow> connect_client api url (log_exchange ex) cfg n vm sub)"
  have "bnd (logged (Resolved ns) (srv_configResolver s ns)) ?k ([], w) = Some ((), (evs, w'))"
    using assms unfolding handleSubresource_def log_simps(1) .
  then obtain r w1 where r: "srv_configResolver s ns w = Some (r, w1)" and k: "?k r ([Resolved ns r], w1) = Some ((), (evs, w'))"
    using bnd_logged_Some by fastforce
  have "appends (?k r)"
    by (auto simp: resolveVMReference_def appends_connect split: sum.split option.split intro!: appends_bnd)
  then have "wlp (?k r) (\<lambda>_ (log', _). \<exists>evs. log' = [Resolved ns r] @ evs) ([Resolved ns r], w1)"
    unfolding appends_def by blast
  from wlpD [OF this k] r show ?thesis by auto
qed

locale safe_resolver =
  fixes resolve :: "('c, 'w) ConfigResolver" and safe :: "'c rest_config_scheme \<Rightarrow> bool"
  assumes safe_config: "resolve ns w = Some (Inr (cfg, src), w') \<Longrightarrow> safe cfg"
begin

lemma dials_safely:
  assumes "srv_configResolver s = resolve"
    and run: "handleSubresource api url (log_server s) (log_exchange ex) ns name sub ([], w) = Some ((), (evs, w'))"
    and dial: "Dialled t u k \<in> set evs"
  shows "\<exists>cfg. safe cfg \<and> ex_TransportFor ex cfg = Inr t"
proof -
  obtain r w1 rest where r: "resolve ns w = Some (r, w1)" "evs = Resolved ns r # rest"
    using handleSubresource_resolved [OF run] assms(1) by auto
  from wlpD [OF handleSubresource_logged run] have "request url ex ns name sub evs" by simp
  then show ?thesis
  proof cases
    case (dialled ci ref cfg u' t' es src)
    then have "safe cfg" using safe_config r by auto
    moreover have "t = t'" using dialled(7) dial unfolding dialled(1) by (auto elim!: session.cases)
    ultimately show ?thesis using dialled by blast
  qed (use dial in auto)
qed

end

definition hub_or_plain :: "'c rest_config_scheme \<Rightarrow> 'c rest_config_scheme \<Rightarrow> bool" where
  "hub_or_plain hubConfig cfg \<longleftrightarrow> cfg = hubConfig \<or> cfg_ExecProvider cfg = None \<and> cfg_AuthProvider cfg = None"

interpretation local_resolver: safe_resolver "LocalConfigResolver_ResolveConfig hubConfig" "hub_or_plain hubConfig"
  for hubConfig :: "'c rest_config_scheme"
  by unfold_locales (simp add: LocalConfigResolver_ResolveConfig_def go_simps hub_or_plain_def)

interpretation remote_resolver: safe_resolver "RemoteConfigResolver_ResolveConfig hub parse" "hub_or_plain hubConfig"
  for hub :: "('cs, 'w) proxy_hub" and parse :: "string \<Rightarrow> gerror + 'c rest_config_scheme" and hubConfig :: "'c rest_config_scheme"
  by unfold_locales
    (auto simp: RemoteConfigResolver_ResolveConfig_def go_simps secret_config_Inr hub_or_plain_def
      split: option.splits sum.splits list.splits)

lemma auto_safe:
  "safe_resolver remote safe \<Longrightarrow> safe_resolver local safe \<Longrightarrow> safe_resolver (AutoConfigResolver_ResolveConfig remote local) safe"
  by (force simp: safe_resolver_def AutoConfigResolver_ResolveConfig_def go_simps split: option.splits sum.splits if_splits)

interpretation auto_resolver: safe_resolver
  "AutoConfigResolver_ResolveConfig (RemoteConfigResolver_ResolveConfig hub parse) (LocalConfigResolver_ResolveConfig hubConfig)"
  "hub_or_plain hubConfig"
  for hub :: "('cs, 'w) proxy_hub" and parse :: "string \<Rightarrow> gerror + 'c rest_config_scheme" and hubConfig :: "'c rest_config_scheme"
  by (intro auto_safe remote_resolver.safe_resolver_axioms local_resolver.safe_resolver_axioms)

lemma built_resolver_safe:
  "buildConfigResolver mode hub parse hubConfig = Inr resolve \<Longrightarrow> safe_resolver resolve (hub_or_plain hubConfig)"
  by (auto simp: buildConfigResolver_def split: if_splits
      intro: auto_resolver.safe_resolver_axioms remote_resolver.safe_resolver_axioms local_resolver.safe_resolver_axioms)

text \<open>Whatever its mode, the proxy connects only with the hub's own configuration or with one that runs no program to authenticate.\<close>

lemma console_dials_safely:
  assumes "buildConfigResolver mode hub parse hubConfig = Inr (srv_configResolver s)"
    and "handleSubresource api url (log_server s) (log_exchange ex) ns name sub ([], w) = Some ((), (evs, w'))"
    and "Dialled t u k \<in> set evs"
  shows "\<exists>cfg. hub_or_plain hubConfig cfg \<and> ex_TransportFor ex cfg = Inr t"
  by (rule safe_resolver.dials_safely [OF built_resolver_safe [OF assms(1)] refl assms(2,3)])

end
