(* ===== verification/Console_Server.thy ===== *)
theory Console_Server
  imports Console_Proxy
begin

text \<open>
  The life of the console proxy: its start (\<^verbatim>\<open>cmd/console-proxy/main.go\<close>), and \<^verbatim>\<open>Server.Run\<close> of \<^verbatim>\<open>internal/consoleproxy/server.go\<close>.
  \<^verbatim>\<open>Run\<close> builds the handler with the authentication and authorization filters of \<^verbatim>\<open>auth.go\<close>, opens two listeners, and then runs three goroutines until all have returned: one
  waits for the end of the group's context and shuts both servers down, the other two serve. Their interleavings are the
  step relation \<open>run_step\<close>, in which the results of \<^verbatim>\<open>Shutdown\<close> and \<^verbatim>\<open>Serve\<close> are arbitrary. Of the libraries it takes what they
  document: a server returns \<^verbatim>\<open>ErrServerClosed\<close> only after its \<^verbatim>\<open>Shutdown\<close> was called, and a group ends its context at the first
  error of a goroutine and returns that error once all goroutines are done.
\<close>

section \<open>Start\<close>

text \<open>The command line: a flag that is not given is \<open>None\<close>.\<close>

record console_flags =
  flag_port :: "int option"
  flag_health_probe_bind_address :: "string option"
  flag_tls_cert_file :: "string option"
  flag_tls_key_file :: "string option"
  flag_vm_cluster_mode :: "string option"

definition flag_or :: "'a option \<Rightarrow> 'a \<Rightarrow> 'a" where
  "flag_or f d = (case f of Some v \<Rightarrow> v | None \<Rightarrow> d)"

definition envOrDefault :: "(string \<Rightarrow> string) \<Rightarrow> string \<Rightarrow> string \<Rightarrow> string" where
  "envOrDefault getenv key fallback = (if getenv key \<noteq> '''' then getenv key else fallback)"

definition envPort :: string where
  "envPort = ''OSAC_CONSOLE_PROXY_PORT''"

definition console_port :: "(string \<Rightarrow> string) \<Rightarrow> console_flags \<Rightarrow> int" where
  "console_port getenv flags =
     (case flag_port flags of
        Some p \<Rightarrow> p
      | None \<Rightarrow>
          if getenv envPort \<noteq> '''' then (case Atoi (getenv envPort) of Inl err \<Rightarrow> 8443 | Inr n \<Rightarrow> n) else 8443)"

text \<open>The parts of \<^verbatim>\<open>main\<close> before the server runs; \<open>Inl\<close> is an exit with an error.\<close>

definition console_main ::
  "(string \<Rightarrow> string) \<Rightarrow> console_flags \<Rightarrow> gerror + 'c rest_config_scheme \<Rightarrow>
   ('c rest_config_scheme \<Rightarrow> gerror + ('cs, 'w) proxy_hub) \<Rightarrow> (string \<Rightarrow> gerror + 'c rest_config_scheme) \<Rightarrow>
   gerror + ('cs, 'c, 'w) Server"
where
  "console_main getenv flags inClusterConfig newHubClient parse =
     (case inClusterConfig of
        Inl err \<Rightarrow> Inl err
      | Inr hubConfig \<Rightarrow>
     (case newHubClient hubConfig of
        Inl err \<Rightarrow> Inl err
      | Inr hubClient \<Rightarrow>
     (case buildConfigResolver
             (flag_or (flag_vm_cluster_mode flags)
                (envOrDefault getenv ''OSAC_CONSOLE_PROXY_VM_CLUSTER_MODE'' VMClusterModeAuto)) hubClient parse hubConfig of
        Inl err \<Rightarrow> Inl err
      | Inr resolver \<Rightarrow>
          NewServer
            \<lparr>conf_HubConfig = Some hubConfig, conf_HubClient = Some hubClient, conf_ConfigResolver = Some resolver,
             conf_Port = console_port getenv flags,
             conf_HealthProbeBindAddress = flag_or (flag_health_probe_bind_address flags)
               (envOrDefault getenv ''OSAC_CONSOLE_PROXY_HEALTH_BIND_ADDRESS'' '':8081''),
             conf_TLSCertFile = flag_or (flag_tls_cert_file flags) (envOrDefault getenv ''OSAC_CONSOLE_PROXY_TLS_CERT_FILE'' ''''),
             conf_TLSKeyFile = flag_or (flag_tls_key_file flags) (envOrDefault getenv ''OSAC_CONSOLE_PROXY_TLS_KEY_FILE'' '''')\<rparr>)))"

section \<open>Authentication and authorization\<close>

text \<open>
  \<^verbatim>\<open>buildAuthHandler\<close> of \<^verbatim>\<open>auth.go\<close>. What it puts together is of \<^verbatim>\<open>k8s.io/apiserver\<close>: the clients, the two watchers of the
  authentication ConfigMap (of type \<open>'ca\<close> and \<open>'hp\<close>), the authenticator, the authorizer and the filters, all of them parameters.
\<close>

record ('kc, 'ca, 'hp, 'an, 'az, 'h, 'w) auth_ops =
  auth_NewForConfig :: "gerror + 'kc"
  auth_NewDynamicCA :: "'kc \<Rightarrow> string \<Rightarrow> string \<Rightarrow> string \<Rightarrow> string \<Rightarrow> gerror + 'ca"
  auth_NewRequestHeader :: "'kc \<Rightarrow> string \<Rightarrow> string \<Rightarrow> string list \<Rightarrow> 'hp"
  auth_ca_RunOnce :: "'ca \<Rightarrow> ('w, gerror option) go"
  auth_headers_RunOnce :: "'hp \<Rightarrow> ('w, gerror option) go"
  auth_NewAuthenticator :: "'ca \<times> 'hp \<Rightarrow> gerror + 'an"
  auth_NewAuthorizer :: "'kc \<Rightarrow> duration \<Rightarrow> duration \<Rightarrow> gerror + 'az"
  WithAuthorization :: "'az \<Rightarrow> 'h \<Rightarrow> 'h"
  WithAuthentication :: "'an \<Rightarrow> 'ca \<times> 'hp \<Rightarrow> 'h \<Rightarrow> 'h"
  WithRequestInfo :: "string list \<Rightarrow> string list \<Rightarrow> 'h \<Rightarrow> 'h"

definition authController_RunOnce ::
  "('kc, 'ca, 'hp, 'an, 'az, 'h, 'w) auth_ops \<Rightarrow> 'ca \<times> 'hp \<Rightarrow> ('w, gerror option) go"
where
  "authController_RunOnce ops ctrl =
     bnd (auth_ca_RunOnce ops (fst ctrl)) (\<lambda>e.
       case e of Some err \<Rightarrow> ret (Some err) | None \<Rightarrow> auth_headers_RunOnce ops (snd ctrl))"

text \<open>The last filter put on is the first to see a request.\<close>

definition wrapWithAuthFilters ::
  "('kc, 'ca, 'hp, 'an, 'az, 'h, 'w) auth_ops \<Rightarrow> 'h \<Rightarrow> 'an \<Rightarrow> 'az \<Rightarrow> 'ca \<times> 'hp \<Rightarrow> 'h"
where
  "wrapWithAuthFilters ops handler authn authz requestHeaderConfig =
     WithRequestInfo ops [''apis''] [''api'']
       (WithAuthentication ops authn requestHeaderConfig (WithAuthorization ops authz handler))"

definition buildAuthHandler ::
  "('kc, 'ca, 'hp, 'an, 'az, 'h, 'w) auth_ops \<Rightarrow> 'h \<Rightarrow> ('w, gerror + 'h \<times> 'ca \<times> 'hp) go"
where
  "buildAuthHandler ops handler =
     (case auth_NewForConfig ops of
        Inl err \<Rightarrow> ret (Inl err)
      | Inr kubeClient \<Rightarrow>
     (case auth_NewDynamicCA ops kubeClient ''client-ca'' ''kube-system'' ''extension-apiserver-authentication''
             ''requestheader-client-ca-file'' of
        Inl err \<Rightarrow> ret (Inl err)
      | Inr caProvider \<Rightarrow>
          (let headerProvider = auth_NewRequestHeader ops kubeClient ''extension-apiserver-authentication'' ''kube-system''
                 [''requestheader-username-headers'', ''requestheader-uid-headers'', ''requestheader-group-headers'',
                  ''requestheader-extra-headers-prefix'', ''requestheader-allowed-names''];
               ctrl = (caProvider, headerProvider) in
           bnd (authController_RunOnce ops ctrl) (\<lambda>e.
             case e of
               Some err \<Rightarrow> ret (Inl err)
             | None \<Rightarrow>
                 (case auth_NewAuthenticator ops ctrl of
                    Inl err \<Rightarrow> ret (Inl err)
                  | Inr authn \<Rightarrow>
                 (case auth_NewAuthorizer ops kubeClient (5 * Minute) (30 * Second) of
                    Inl err \<Rightarrow> ret (Inl err)
                  | Inr authz \<Rightarrow> ret (Inr (wrapWithAuthFilters ops handler authn authz ctrl, ctrl))))))))"

section \<open>Run\<close>

text \<open>
  \<open>Awaiting\<close> is the wait for the context, then \<^verbatim>\<open>Shutdown\<close> of the probe server and that of the API server are running, the
  latter with the error of the former.
\<close>

datatype closer = Awaiting | Closing_probe_server | Closing_api_server "gerror list" | Closer_done

record run_state =
  rs_ctx_done :: bool
  rs_probes :: probe_state
  rs_closer :: closer
  rs_probe_serving :: bool
  rs_api_serving :: bool
  rs_err :: "gerror option"

record ('l, 'ca, 'hp, 'w) run_ops =
  run_Listen :: "string \<Rightarrow> ('w, gerror + 'l) go"
  run_CloseListener :: "'l \<Rightarrow> ('w, unit) go"
  run_authCtrl_Run :: "'ca \<times> 'hp \<Rightarrow> ('w, unit) go"

definition run_started :: run_state where
  "run_started =
     \<lparr>rs_ctx_done = False, rs_probes = MarkReady newProbeState, rs_closer = Awaiting, rs_probe_serving = True,
      rs_api_serving = True, rs_err = None\<rparr>"

text \<open>Up to the start of the goroutines: the handler the API server gets, its listeners, and the state of the run; \<open>mux\<close> serves \<open>newAPIMux\<close>.\<close>

definition Run_start ::
  "('cs, 'c, 'w) Server \<Rightarrow> ('kc, 'ca, 'hp, 'an, 'az, 'h, 'w) auth_ops \<Rightarrow> ('l, 'ca, 'hp, 'w) run_ops \<Rightarrow>
   ((string \<times> route) list \<Rightarrow> 'h) \<Rightarrow> ('w, gerror + 'h \<times> 'l \<times> 'l \<times> run_state) go"
where
  "Run_start s auth ops mux =
     bnd (buildAuthHandler auth (mux newAPIMux)) (\<lambda>built.
       case built of
         Inl err \<Rightarrow> ret (Inl (Wrapf ''failed to build auth handler: %w'' [] err))
       | Inr (apiHandler, authCtrl) \<Rightarrow>
     bnd (run_Listen ops ('':'' @ Itoa (srv_port s))) (\<lambda>res.
       case res of
         Inl err \<Rightarrow> ret (Inl (Wrapf ''failed to listen for API server: %w'' [] err))
       | Inr apiListener \<Rightarrow>
     bnd (run_Listen ops (srv_healthProbeBindAddress s)) (\<lambda>res.
       case res of
         Inl err \<Rightarrow>
           bnd (run_CloseListener ops apiListener) (\<lambda>_.
           ret (Inl (Wrapf ''failed to listen for health probe server: %w'' [] err)))
       | Inr probeListener \<Rightarrow>
           bnd (run_authCtrl_Run ops authCtrl) (\<lambda>_. ret (Inr (apiHandler, apiListener, probeListener, run_started))))))"

text \<open>Whatever serves requests is behind both filters, authentication first.\<close>

lemma Run_start_protected:
  "wlp (Run_start s auth ops mux) (\<lambda>r _. \<forall>h al pl st. r = Inr (h, al, pl, st) \<longrightarrow> st = run_started \<and>
     (\<exists>authn authz cfg. h = WithRequestInfo auth [''apis''] [''api'']
        (WithAuthentication auth authn cfg (WithAuthorization auth authz (mux newAPIMux))))) w"
proof -
  have b: "wlp (buildAuthHandler auth (mux newAPIMux)) (\<lambda>r _. \<forall>h ctrl. r = Inr (h, ctrl) \<longrightarrow> (\<exists>authn authz cfg.
      h = WithRequestInfo auth [''apis''] [''api''] (WithAuthentication auth authn cfg (WithAuthorization auth authz (mux newAPIMux))))) w"
    by (auto simp: buildAuthHandler_def Let_def wrapWithAuthFilters_def wlp_def bnd_def ret_def split: option.splits sum.splits)
  show ?thesis
    unfolding Run_start_def wlp_bnd
    by (rule wlp_mono [OF b]) (auto simp: wlp_def bnd_def ret_def split: option.splits sum.splits)
qed

text \<open>The return of a goroutine: the first error is kept and ends the context.\<close>

definition goroutine_returns :: "gerror option \<Rightarrow> run_state \<Rightarrow> run_state" where
  "goroutine_returns e s =
     (case e of
        None \<Rightarrow> s
      | Some err \<Rightarrow>
          s\<lparr>rs_ctx_done := True, rs_err := (case rs_err s of None \<Rightarrow> Some err | Some err0 \<Rightarrow> Some err0)\<rparr>)"

text \<open>\<^verbatim>\<open>errors.Join\<close>: of the joined error only the text matters.\<close>

definition errors_Join :: "gerror list \<Rightarrow> gerror option" where
  "errors_Join errs = (case errs of [] \<Rightarrow> None | e # es \<Rightarrow> Some (Errorf (foldl (\<lambda>t x. t @ [char_of (10 :: nat)] @ Error x) (Error e) es) []))"

text \<open>The result of \<^verbatim>\<open>Shutdown\<close> and of \<^verbatim>\<open>Serve\<close>; \<open>closed\<close> recognises \<^verbatim>\<open>http.ErrServerClosed\<close>.\<close>

definition shutdown_errs :: "(gerror \<Rightarrow> bool) \<Rightarrow> string \<Rightarrow> gerror option \<Rightarrow> gerror list" where
  "shutdown_errs closed f res = (case res of None \<Rightarrow> [] | Some err \<Rightarrow> if closed err then [] else [Wrapf f [] err])"

definition serve_err :: "(gerror \<Rightarrow> bool) \<Rightarrow> string \<Rightarrow> gerror \<Rightarrow> gerror option" where
  "serve_err closed f err = (if closed err then None else Some (Wrapf f [] err))"

text \<open>The server whose \<^verbatim>\<open>Shutdown\<close> was called.\<close>

definition probe_shutdown_called :: "run_state \<Rightarrow> bool" where
  "probe_shutdown_called s \<longleftrightarrow> rs_closer s \<noteq> Awaiting"

definition api_shutdown_called :: "run_state \<Rightarrow> bool" where
  "api_shutdown_called s \<longleftrightarrow> (case rs_closer s of Awaiting \<Rightarrow> False | Closing_probe_server \<Rightarrow> False | _ \<Rightarrow> True)"

inductive run_step :: "(gerror \<Rightarrow> bool) \<Rightarrow> run_state \<Rightarrow> run_state \<Rightarrow> bool" for closed where
  interrupted: "\<not> rs_ctx_done s \<Longrightarrow> run_step closed s (s\<lparr>rs_ctx_done := True\<rparr>)"
| closer_wakes:
    "rs_closer s = Awaiting \<Longrightarrow> rs_ctx_done s \<Longrightarrow>
     run_step closed s (s\<lparr>rs_probes := MarkShuttingDown (rs_probes s), rs_closer := Closing_probe_server\<rparr>)"
| probe_server_shut:
    "rs_closer s = Closing_probe_server \<Longrightarrow>
     run_step closed s (s\<lparr>rs_closer := Closing_api_server (shutdown_errs closed ''shutdown health probe server: %w'' res)\<rparr>)"
| api_server_shut:
    "rs_closer s = Closing_api_server errs \<Longrightarrow>
     run_step closed s (goroutine_returns (errors_Join (errs @ shutdown_errs closed ''shutdown API server: %w'' res))
       (s\<lparr>rs_closer := Closer_done\<rparr>))"
| probe_server_returns:
    "rs_probe_serving s \<Longrightarrow> (closed err \<longrightarrow> probe_shutdown_called s) \<Longrightarrow>
     run_step closed s (goroutine_returns (serve_err closed ''health probe server failed: %w'' err) (s\<lparr>rs_probe_serving := False\<rparr>))"
| api_server_returns:
    "rs_api_serving s \<Longrightarrow> (closed err \<longrightarrow> api_shutdown_called s) \<Longrightarrow>
     run_step closed s (goroutine_returns (serve_err closed ''API server failed: %w'' err) (s\<lparr>rs_api_serving := False\<rparr>))"

inductive_cases run_stepE: "run_step closed s s'"

text \<open>\<^verbatim>\<open>group.Wait\<close>.\<close>

definition group_Wait :: "run_state \<Rightarrow> gerror option option" where
  "group_Wait s = (if rs_closer s = Closer_done \<and> \<not> rs_probe_serving s \<and> \<not> rs_api_serving s then Some (rs_err s) else None)"

section \<open>Invariant\<close>

definition run_ok :: "run_state \<Rightarrow> bool" where
  "run_ok s \<longleftrightarrow>
     rs_probes s = (if rs_closer s = Awaiting then probeStateReady else probeStateShuttingDown) \<and>
     (rs_closer s \<noteq> Awaiting \<longrightarrow> rs_ctx_done s) \<and> (rs_err s \<noteq> None \<longrightarrow> rs_ctx_done s) \<and>
     (\<not> rs_probe_serving s \<longrightarrow> probe_shutdown_called s \<or> rs_err s \<noteq> None) \<and>
     (\<not> rs_api_serving s \<longrightarrow> api_shutdown_called s \<or> rs_err s \<noteq> None)"

lemmas run_defs = goroutine_returns_def probe_shutdown_called_def api_shutdown_called_def serve_err_def

lemma run_step_ok: "run_step closed s s' \<Longrightarrow> run_ok s \<Longrightarrow> run_ok s'"
  by (induction rule: run_step.induct)
    (auto simp: run_ok_def run_defs MarkShuttingDown_def split: option.splits closer.splits if_splits)

lemma run_reaches_ok: "(run_step closed)\<^sup>*\<^sup>* run_started s \<Longrightarrow> run_ok s"
  by (induction rule: rtranclp_induct)
    (auto simp: run_started_def run_ok_def MarkReady_def probe_shutdown_called_def api_shutdown_called_def dest: run_step_ok)

text \<open>The number of steps left once the context is done.\<close>

definition run_rank :: "run_state \<Rightarrow> nat" where
  "run_rank s = (case rs_closer s of Awaiting \<Rightarrow> 3 | Closing_probe_server \<Rightarrow> 2 | Closing_api_server _ \<Rightarrow> 1 | Closer_done \<Rightarrow> 0) +
     of_bool (rs_probe_serving s) + of_bool (rs_api_serving s)"

lemma run_step_rank: "run_step closed s s' \<Longrightarrow> rs_ctx_done s \<Longrightarrow> rs_ctx_done s' \<and> run_rank s' < run_rank s"
  by (induction rule: run_step.induct)
    (auto simp: run_rank_def goroutine_returns_def split: option.split)

lemma run_steps_bounded: "(run_step closed ^^ n) s s' \<Longrightarrow> rs_ctx_done s \<Longrightarrow> n + run_rank s' \<le> run_rank s \<and> rs_ctx_done s'"
proof (induction n arbitrary: s')
  case (Suc n)
  then obtain v where "(run_step closed ^^ n) s v" "run_step closed v s'" by auto
  with Suc run_step_rank [of closed v s'] show ?case by fastforce
qed simp

lemma run_step_possible:
  assumes "rs_ctx_done s" and "group_Wait s = None" and "closed e"
  shows "\<exists>s'. run_step closed s s'"
proof (cases "rs_closer s")
  case Closer_done
  then have called: "probe_shutdown_called s" "api_shutdown_called s"
    by (simp_all add: probe_shutdown_called_def api_shutdown_called_def)
  from Closer_done assms(2) have "rs_probe_serving s \<or> rs_api_serving s" by (auto simp: group_Wait_def split: if_splits)
  then show ?thesis using probe_server_returns [of s closed e] api_server_returns [of s closed e] called by blast
qed (use assms in \<open>auto intro: run_step.intros\<close>)

lemma run_can_end:
  assumes "closed e"
  shows "rs_ctx_done s \<Longrightarrow> \<exists>s'. (run_step closed)\<^sup>*\<^sup>* s s' \<and> group_Wait s' \<noteq> None"
proof (induction "run_rank s" arbitrary: s rule: less_induct)
  case less
  show ?case
  proof (cases "group_Wait s")
    case None
    with run_step_possible [of s closed e] assms less(2) obtain v where v: "run_step closed s v" by blast
    with run_step_rank [OF v less(2)] less(1) [of v] show ?thesis by (meson converse_rtranclp_into_rtranclp)
  qed auto
qed

lemma run_err_kept: "(run_step closed)\<^sup>*\<^sup>* s s' \<Longrightarrow> rs_err s = Some e \<Longrightarrow> rs_err s' = Some e"
  by (induction rule: rtranclp_induct) (auto elim!: run_stepE simp: goroutine_returns_def split: option.splits)

section \<open>Property\<close>

text \<open>
  C34: the console proxy goes down in order, and always. In every state its goroutines can reach, the readiness probe answers 200 exactly
  as long as no server is being shut down, and none is before the context is done; a server that stops by itself is an error, and the
  first error is the one \<^verbatim>\<open>Run\<close> returns, whatever happens after it. Once the context is done, by a signal or by an error, the
  goroutines take at most five more steps in any order, and from any state on the way they can all come to an end (\<open>closed\<close>
  recognises the error that servers return after a shutdown), with the probe at not ready.
\<close>

theorem console_server_stops:
  assumes "(run_step closed)\<^sup>*\<^sup>* run_started s" and "closed e0"
  shows "(handleReadyz (rs_probes s) = (200, ''ok'') \<longleftrightarrow> \<not> probe_shutdown_called s \<and> \<not> api_shutdown_called s) \<and>
    (probe_shutdown_called s \<or> api_shutdown_called s \<longrightarrow> rs_ctx_done s) \<and>
    (\<not> rs_probe_serving s \<and> \<not> probe_shutdown_called s \<or> \<not> rs_api_serving s \<and> \<not> api_shutdown_called s \<longrightarrow> rs_err s \<noteq> None) \<and>
    (\<forall>e s' r. rs_err s = Some e \<longrightarrow> (run_step closed)\<^sup>*\<^sup>* s s' \<longrightarrow> group_Wait s' = Some r \<longrightarrow> r = Some e) \<and>
    (rs_ctx_done s \<longrightarrow>
       (\<forall>n s'. (run_step closed ^^ n) s s' \<longrightarrow> n \<le> 5) \<and>
       (\<exists>s' r. (run_step closed)\<^sup>*\<^sup>* s s' \<and> group_Wait s' = Some r \<and> fst (handleReadyz (rs_probes s')) = 503))"
proof (intro conjI impI allI)
  note ok = run_reaches_ok [OF assms(1), unfolded run_ok_def]
  show "handleReadyz (rs_probes s) = (200, ''ok'') \<longleftrightarrow> \<not> probe_shutdown_called s \<and> \<not> api_shutdown_called s"
    using ok by (auto simp: handleReadyz_def writeProbeOK_def probe_shutdown_called_def api_shutdown_called_def split: closer.splits)
  show "rs_ctx_done s" if "probe_shutdown_called s \<or> api_shutdown_called s"
    using ok that by (auto simp: probe_shutdown_called_def api_shutdown_called_def split: closer.splits)
  show "rs_err s \<noteq> None"
    if "\<not> rs_probe_serving s \<and> \<not> probe_shutdown_called s \<or> \<not> rs_api_serving s \<and> \<not> api_shutdown_called s"
    using ok that by auto
  show "r = Some e" if "rs_err s = Some e" "(run_step closed)\<^sup>*\<^sup>* s s'" "group_Wait s' = Some r" for e s' r
    using run_err_kept [OF that(2,1)] that(3) by (simp add: group_Wait_def split: if_splits)
  show "n \<le> 5" if "rs_ctx_done s" "(run_step closed ^^ n) s s'" for n s'
  proof -
    have "run_rank s \<le> 5" by (simp add: run_rank_def split: closer.split)
    with run_steps_bounded [OF that(2,1)] show ?thesis by linarith
  qed
  show "\<exists>s' r. (run_step closed)\<^sup>*\<^sup>* s s' \<and> group_Wait s' = Some r \<and> fst (handleReadyz (rs_probes s')) = 503"
    if d: "rs_ctx_done s"
  proof -
    obtain s' where s': "(run_step closed)\<^sup>*\<^sup>* s s'" "group_Wait s' \<noteq> None" using run_can_end [of closed e0 s] assms(2) d by blast
    have "run_ok s'" using run_reaches_ok [OF rtranclp_trans [OF assms(1) s'(1)]] .
    moreover obtain r where r: "group_Wait s' = Some r" using s'(2) by auto
    ultimately have "fst (handleReadyz (rs_probes s')) = 503"
      by (auto simp: run_ok_def group_Wait_def handleReadyz_def split: if_splits)
    with s'(1) r show ?thesis by blast
  qed
qed

text \<open>The API server fails, and the run ends with its error.\<close>

theorem console_server_stops_witness:
  "let closed = (\<lambda>e. e = Errorf ''http: Server closed'' []);
       s = run_started\<lparr>rs_api_serving := False, rs_ctx_done := True,
             rs_err := Some (Wrapf ''API server failed: %w'' [] (Errorf ''accept'' []))\<rparr> in
   (run_step closed)\<^sup>*\<^sup>* run_started s \<and> handleReadyz (rs_probes s) = (200, ''ok'') \<and>
   (\<exists>s'. (run_step closed)\<^sup>*\<^sup>* s s' \<and> group_Wait s' = Some (rs_err s))"
proof -
  let ?closed = "\<lambda>e. e = Errorf ''http: Server closed'' []"
  let ?s = "run_started\<lparr>rs_api_serving := False, rs_ctx_done := True,
    rs_err := Some (Wrapf ''API server failed: %w'' [] (Errorf ''accept'' []))\<rparr>"
  have "run_step ?closed run_started ?s"
    using api_server_returns [of run_started ?closed "Errorf ''accept'' []"]
    by (simp add: run_started_def serve_err_def goroutine_returns_def)
  then have reach: "(run_step ?closed)\<^sup>*\<^sup>* run_started ?s" by blast
  from console_server_stops [OF this, of "Errorf ''http: Server closed'' []"]
  obtain s' r where "(run_step ?closed)\<^sup>*\<^sup>* ?s s'" "group_Wait s' = Some r" "r = rs_err ?s" by auto
  moreover have "handleReadyz (rs_probes ?s) = (200, ''ok'')"
    by (simp add: run_started_def MarkReady_def handleReadyz_def writeProbeOK_def)
  ultimately show ?thesis using reach by (auto simp: Let_def)
qed

end
