(* ===== verification/Migrations.thy ===== *)
theory Migrations
  imports Config_Version "HOL-Library.AList"
begin

text \<open>
  The data migrations that run when an instance of the operator becomes leader (\<^verbatim>\<open>internal/migrations/migrations.go\<close>
  and \<^verbatim>\<open>migrate_subnetrefs.go\<close>). Objects are unstructured: their content is JSON. The environment is a function from
  names to values, empty if unset, and the client a record of its operations; the deadline of the migrations shows
  up as an error of any of its calls. Marshalling the patch cannot fail, since it holds a string only.
\<close>

section \<open>Operations\<close>

record unstructured =
  un_Namespace :: string
  un_Name :: string
  un_Object :: "(string \<times> json) list"

record 'w migration_client =
  mc_List :: "string option \<Rightarrow> ('w, gerror + unstructured list) go"
  mc_Patch :: "unstructured \<Rightarrow> json \<Rightarrow> ('w, gerror option) go"

definition envComputeInstanceNamespace :: string where
  "envComputeInstanceNamespace = ''OSAC_COMPUTE_INSTANCE_NAMESPACE''"

text \<open>The type assertions of Go with a zero value where the type is another one.\<close>

definition as_map :: "json option \<Rightarrow> (string \<times> json) list option" where
  "as_map v = (case v of Some (JObj kvs) \<Rightarrow> Some kvs | _ \<Rightarrow> None)"

definition as_string :: "json option \<Rightarrow> string" where
  "as_string v = (case v of Some (JStr s) \<Rightarrow> s | _ \<Rightarrow> '''')"

text \<open>The patch an object needs, if any.\<close>

definition subnet_patch :: "(string \<times> json) list \<Rightarrow> json option" where
  "subnet_patch obj =
     (case as_map (map_of obj ''spec'') of
        None \<Rightarrow> None
      | Some spec \<Rightarrow>
          (let subnetRef = as_string (map_of spec ''subnetRef'') in
           if subnetRef = '''' then None
           else
             (case map_of spec ''networkAttachments'' of
                Some (JArr (x # xs)) \<Rightarrow> None
              | _ \<Rightarrow> Some (JObj [(''spec'', JObj [(''networkAttachments'', JArr [JObj [(''subnetRef'', JStr subnetRef)]])])]))))"

fun migrate_items :: "'w migration_client \<Rightarrow> unstructured list \<Rightarrow> ('w, gerror option) go" where
  "migrate_items c [] = ret None"
| "migrate_items c (item # items) =
     (case subnet_patch (un_Object item) of
        None \<Rightarrow> migrate_items c items
      | Some mergePatch \<Rightarrow>
          bnd (mc_Patch c item mergePatch) (\<lambda>e.
            case e of
              Some err \<Rightarrow> ret (Some (Wrapf ''failed to migrate %s/%s: %w'' [un_Namespace item, un_Name item] err))
            | None \<Rightarrow> migrate_items c items))"

definition migrateSubnetRefs :: "(string \<Rightarrow> string) \<Rightarrow> 'w migration_client \<Rightarrow> ('w, gerror option) go" where
  "migrateSubnetRefs getenv c =
     (let namespace = getenv envComputeInstanceNamespace in
      bnd (mc_List c (if namespace \<noteq> '''' then Some namespace else None)) (\<lambda>res.
        case res of
          Inl err \<Rightarrow> ret (Some (Wrapf ''failed to list ComputeInstances for migration: %w'' [] err))
        | Inr items \<Rightarrow> migrate_items c items))"

record 'w Migration =
  mig_Name :: string
  mig_Fn :: "'w migration_client \<Rightarrow> ('w, gerror option) go"

definition all_migrations :: "(string \<Rightarrow> string) \<Rightarrow> 'w Migration list" where
  "all_migrations getenv = [\<lparr>mig_Name = ''migrate-subnetrefs'', mig_Fn = migrateSubnetRefs getenv\<rparr>]"

fun run_migrations :: "'w Migration list \<Rightarrow> 'w migration_client \<Rightarrow> ('w, gerror option) go" where
  "run_migrations [] c = ret None"
| "run_migrations (m # ms) c =
     bnd (mig_Fn m c) (\<lambda>e.
       case e of
         Some err \<Rightarrow> ret (Some (Wrapf ''migration %s failed: %w'' [mig_Name m] err))
       | None \<Rightarrow> run_migrations ms c)"

definition runAll :: "(string \<Rightarrow> string) \<Rightarrow> 'w migration_client \<Rightarrow> ('w, gerror option) go" where
  "runAll getenv c = run_migrations (all_migrations getenv) c"

definition leaderRunnable_Start :: "(string \<Rightarrow> string) \<Rightarrow> 'w migration_client \<Rightarrow> ('w, gerror option) go" where
  "leaderRunnable_Start getenv c = runAll getenv c"

definition NeedLeaderElection :: bool where
  "NeedLeaderElection = True"

section \<open>A server that applies merge patches\<close>

text \<open>
  A JSON merge patch sets the fields it has, descending into objects, deletes those it sets to null and keeps all
  others. \<open>objs\<close> is what the server stores. It lists what it stores, and a patch that succeeds is applied to the
  stored object.
\<close>

fun merge_patch :: "json \<Rightarrow> json option \<Rightarrow> json"
  and merge_fields :: "(string \<times> json) list \<Rightarrow> (string \<times> json) list \<Rightarrow> (string \<times> json) list" where
  "merge_patch (JObj kvs) target = JObj (merge_fields kvs (case target of Some (JObj t) \<Rightarrow> t | _ \<Rightarrow> []))"
| "merge_patch v target = v"
| "merge_fields [] t = t"
| "merge_fields ((k, JNull) # kvs) t = merge_fields kvs (AList.delete k t)"
| "merge_fields ((k, v) # kvs) t = merge_fields kvs (AList.update k (merge_patch v (map_of t k)) t)"

definition patched :: "json \<Rightarrow> (string \<times> json) list \<Rightarrow> (string \<times> json) list" where
  "patched p obj = (case merge_patch p (Some (JObj obj)) of JObj obj' \<Rightarrow> obj' | _ \<Rightarrow> [])"

type_synonym objects = "string \<times> string \<rightharpoonup> (string \<times> json) list"

definition un_key :: "unstructured \<Rightarrow> string \<times> string" where
  "un_key item = (un_Namespace item, un_Name item)"

definition in_scope :: "string option \<Rightarrow> string \<times> string \<Rightarrow> bool" where
  "in_scope ns k \<longleftrightarrow> (case ns of None \<Rightarrow> True | Some n \<Rightarrow> fst k = n)"

definition serves :: "('w \<Rightarrow> objects) \<Rightarrow> 'w migration_client \<Rightarrow> bool" where
  "serves objs c \<longleftrightarrow>
     (\<forall>ns w items w'. mc_List c ns w = Some (Inr items, w') \<longrightarrow>
        objs w' = objs w \<and> distinct (map un_key items) \<and>
        map_of (map (\<lambda>it. (un_key it, un_Object it)) items) = objs w |` {k. in_scope ns k}) \<and>
     (\<forall>item p w w'. mc_Patch c item p w = Some (None, w') \<longrightarrow>
        objs w' = (objs w)(un_key item := map_option (patched p) (objs w (un_key item))))"

text \<open>What becomes of an object.\<close>

definition migrated :: "(string \<times> json) list \<Rightarrow> (string \<times> json) list" where
  "migrated obj = (case subnet_patch obj of None \<Rightarrow> obj | Some p \<Rightarrow> patched p obj)"

lemma migrated_cases:
  obtains "subnet_patch obj = None" "migrated obj = obj"
  | spec s where "map_of obj ''spec'' = Some (JObj spec)" "map_of spec ''subnetRef'' = Some (JStr s)" "s \<noteq> ''''"
      "\<nexists>x xs. map_of spec ''networkAttachments'' = Some (JArr (x # xs))"
      "migrated obj = AList.update ''spec'' (JObj (AList.update ''networkAttachments''
         (JArr [JObj [(''subnetRef'', JStr s)]]) spec)) obj"
proof (cases "subnet_patch obj")
  case (Some p)
  then obtain spec where spec: "map_of obj ''spec'' = Some (JObj spec)"
    by (auto simp: subnet_patch_def as_map_def split: option.splits json.splits)
  let ?s = "as_string (map_of spec ''subnetRef'')"
  have s: "?s \<noteq> ''''" and p: "p = JObj [(''spec'', JObj [(''networkAttachments'', JArr [JObj [(''subnetRef'', JStr ?s)]])])]"
    and na: "\<nexists>x xs. map_of spec ''networkAttachments'' = Some (JArr (x # xs))"
    using Some spec by (auto simp: subnet_patch_def as_map_def Let_def split: option.splits if_splits json.splits list.splits)
  have "map_of spec ''subnetRef'' = Some (JStr ?s)"
    using s by (auto simp: as_string_def split: option.splits json.splits)
  with s na spec show ?thesis
    by (intro that(2) [of spec ?s]) (auto simp: migrated_def Some p patched_def)
qed (simp_all add: migrated_def)

text \<open>
  An object in the old form: its spec names a subnet and lists no network attachment, either because the field is
  missing, or because it is empty or not a list.
\<close>

definition old_form :: "(string \<times> json) list \<Rightarrow> bool" where
  "old_form obj \<longleftrightarrow>
     (\<exists>spec s. map_of obj ''spec'' = Some (JObj spec) \<and> map_of spec ''subnetRef'' = Some (JStr s) \<and> s \<noteq> [] \<and>
        (\<forall>x xs. map_of spec ''networkAttachments'' \<noteq> Some (JArr (x # xs))))"

lemma old_form_patched: "old_form obj \<longleftrightarrow> subnet_patch obj \<noteq> None"
  by (auto simp: old_form_def subnet_patch_def as_map_def as_string_def Let_def split: option.split json.split list.split)

lemma migrated_settled: "subnet_patch (migrated obj) = None"
  by (rule migrated_cases [of obj])
    (auto simp: subnet_patch_def as_map_def as_string_def update_conv' split: option.split json.split)

lemma migrate_items_exact:
  assumes s: "serves objs c"
  shows "distinct (map un_key items) \<Longrightarrow> (\<forall>it \<in> set items. objs w (un_key it) = Some (un_Object it)) \<Longrightarrow>
    migrate_items c items w = Some (None, w') \<Longrightarrow>
    objs w' = (\<lambda>k. if k \<in> un_key ` set items then map_option migrated (objs w k) else objs w k)"
proof (induction items arbitrary: w)
  case (Cons item items)
  show ?case
  proof (cases "subnet_patch (un_Object item)")
    case None
    with Cons have "objs w' = (\<lambda>k. if k \<in> un_key ` set items then map_option migrated (objs w k) else objs w k)" by auto
    with None Cons.prems(1,2) show ?thesis by (intro ext) (auto simp: migrated_def)
  next
    case (Some p)
    with Cons.prems(3) obtain w1 where w1: "mc_Patch c item p w = Some (None, w1)" "migrate_items c items w1 = Some (None, w')"
      by (auto simp: go_simps split: option.splits)
    with s have o1: "objs w1 = (objs w)(un_key item := map_option (patched p) (objs w (un_key item)))" by (simp add: serves_def)
    have "objs w1 (un_key it) = Some (un_Object it)" if "it \<in> set items" for it
      using Cons.prems(1,2) that by (auto simp: o1) (metis image_eqI)
    with Cons.IH [OF _ _ w1(2)] Cons.prems(1)
    have "objs w' = (\<lambda>k. if k \<in> un_key ` set items then map_option migrated (objs w1 k) else objs w1 k)" by auto
    with Cons.prems(1,2) o1 Some show ?thesis by (intro ext) (auto simp: migrated_def)
  qed
qed (simp add: ret_def)

lemma migrate_items_quiet:
  "(\<forall>it \<in> set items. subnet_patch (un_Object it) = None) \<Longrightarrow> migrate_items c items = ret None"
  by (induction items) auto

lemma listed:
  assumes "serves objs c" and "mc_List c ns w = Some (Inr items, w1)"
  shows "objs w1 = objs w" "distinct (map un_key items)"
    "it \<in> set items \<Longrightarrow> objs w (un_key it) = Some (un_Object it)"
    "un_key ` set items = {k \<in> dom (objs w). in_scope ns k}"
proof -
  let ?m = "map_of (map (\<lambda>it. (un_key it, un_Object it)) items)"
  from assms show "objs w1 = objs w" "distinct (map un_key items)" by (auto simp: serves_def)
  have m: "?m = objs w |` {k. in_scope ns k}" using assms by (simp add: serves_def)
  show "objs w (un_key it) = Some (un_Object it)" if "it \<in> set items"
  proof -
    have "?m (un_key it) = Some (un_Object it)"
      using that \<open>distinct (map un_key items)\<close> by (intro map_of_is_SomeI) (auto simp: comp_def)
    then show ?thesis by (auto simp: m restrict_map_def split: if_splits)
  qed
  have "dom ?m = un_key ` set items" by (force simp: dom_map_of_conv_image_fst)
  then show "un_key ` set items = {k \<in> dom (objs w). in_scope ns k}" by (auto simp: m)
qed

section \<open>Property\<close>

text \<open>
  C31: the migration of subnet references is exact and idempotent. If it returns no error, every instance in the configured
  namespace, or in all of them if none is configured, whose spec names a subnet and has no network attachments (the
  field is missing, empty or not a list) now has exactly one attachment, to that subnet, and is otherwise unchanged,
  every other stored instance is unchanged, and running the migration again writes nothing: it does the same with a
  client that cannot patch at all.
\<close>

theorem migration_exact:
  assumes "serves objs c" and "migrateSubnetRefs getenv c w = Some (None, w')"
    and "ns = (if getenv envComputeInstanceNamespace \<noteq> '''' then Some (getenv envComputeInstanceNamespace) else None)"
  shows "(\<forall>k obj. objs w k = Some obj \<longrightarrow> (\<exists>obj'. objs w' k = Some obj' \<and>
       (if in_scope ns k \<and> old_form obj
        then \<exists>spec spec' s. map_of obj ''spec'' = Some (JObj spec) \<and> map_of spec ''subnetRef'' = Some (JStr s) \<and>
          map_of obj' = (map_of obj)(''spec'' \<mapsto> JObj spec') \<and>
          map_of spec' = (map_of spec)(''networkAttachments'' \<mapsto> JArr [JObj [(''subnetRef'', JStr s)]])
        else obj' = obj))) \<and>
     (\<forall>k. objs w k = None \<longrightarrow> objs w' k = None) \<and>
     migrateSubnetRefs getenv (c\<lparr>mc_Patch := \<lambda>_ _ _. None\<rparr>) w' = migrateSubnetRefs getenv c w'"
proof -
  obtain items w1 where l: "mc_List c ns w = Some (Inr items, w1)" and run: "migrate_items c items w1 = Some (None, w')"
    using assms(2) by (auto simp: migrateSubnetRefs_def assms(3) Let_def go_simps split: option.splits sum.splits)
  have o: "objs w' = (\<lambda>k. if in_scope ns k then map_option migrated (objs w k) else objs w k)"
    using migrate_items_exact [OF assms(1) listed(2) [OF assms(1) l] _ run] listed(1,3,4) [OF assms(1) l]
    by (intro ext) auto
  have new: "\<exists>spec spec' s. map_of obj ''spec'' = Some (JObj spec) \<and> map_of spec ''subnetRef'' = Some (JStr s) \<and>
      map_of (migrated obj) = (map_of obj)(''spec'' \<mapsto> JObj spec') \<and>
      map_of spec' = (map_of spec)(''networkAttachments'' \<mapsto> JArr [JObj [(''subnetRef'', JStr s)]])"
    if "subnet_patch obj \<noteq> None" for obj
    using that by (cases rule: migrated_cases [of obj]) (auto simp: update_conv')
  have "migrate_items (c\<lparr>mc_Patch := \<lambda>_ _ _. None\<rparr>) items' = migrate_items c items'"
    if "mc_List c ns w' = Some (Inr items', w2)" for items' w2
  proof -
    have "subnet_patch (un_Object it) = None" if "it \<in> set items'" for it
    proof -
      have "in_scope ns (un_key it)" "objs w' (un_key it) = Some (un_Object it)"
        using listed(3,4) [OF assms(1) \<open>mc_List c ns w' = _\<close>] that by auto
      then show ?thesis using migrated_settled by (auto simp: o) metis
    qed
    then show ?thesis by (simp add: migrate_items_quiet)
  qed
  then have again: "migrateSubnetRefs getenv (c\<lparr>mc_Patch := \<lambda>_ _ _. None\<rparr>) w' = migrateSubnetRefs getenv c w'"
    by (auto simp: migrateSubnetRefs_def assms(3) [symmetric] Let_def intro!: bnd_cong_at split: sum.split)
  have "migrated obj = obj" if "subnet_patch obj = None" for obj using that by (simp add: migrated_def)
  with new again o show ?thesis by (auto simp: old_form_patched)
qed

text \<open>A server that keeps its objects in a list.\<close>

definition to_item :: "(string \<times> string) \<times> (string \<times> json) list \<Rightarrow> unstructured" where
  "to_item x = \<lparr>un_Namespace = fst (fst x), un_Name = snd (fst x), un_Object = snd x\<rparr>"

definition store_client :: "((string \<times> string) \<times> (string \<times> json) list) list migration_client" where
  "store_client =
     \<lparr>mc_List = (\<lambda>ns w. Some (Inr (map to_item (filter (\<lambda>x. in_scope ns (fst x)) (AList.clearjunk w))), w)),
      mc_Patch = (\<lambda>item p w. Some (None, case map_of w (un_key item) of
        None \<Rightarrow> w | Some obj \<Rightarrow> AList.update (un_key item) (patched p obj) w))\<rparr>"

lemma to_item_simps [simp]: "un_key (to_item x) = fst x" "un_Object (to_item x) = snd x"
  by (simp_all add: to_item_def un_key_def)

lemma store_serves: "serves map_of store_client"
proof -
  have "filter (\<lambda>x. in_scope ns (fst x)) xs = AList.restrict {k. in_scope ns k} xs" for ns and xs :: "((string \<times> string) \<times> (string \<times> json) list) list"
    by (simp add: AList.restrict_eq case_prod_beta')
  then show ?thesis
    by (auto simp: serves_def store_client_def comp_def restr_conv' map_of_clearjunk update_conv' distinct_restr split: option.split)
qed

definition sample_store :: "((string \<times> string) \<times> (string \<times> json) list) list" where
  "sample_store =
     [((''cis'', ''a''), [(''spec'', JObj [(''subnetRef'', JStr ''s1''), (''cores'', JNum 2)])]),
      ((''cis'', ''b''), [(''spec'', JObj [(''subnetRef'', JStr ''s1''), (''networkAttachments'', JArr [JObj [(''subnetRef'', JStr ''s2'')]])])])]"

theorem migration_exact_witness:
  "\<exists>w'. migrateSubnetRefs (\<lambda>_. '''') store_client sample_store = Some (None, w') \<and>
     map_of w' (''cis'', ''a'') = Some [(''spec'', JObj [(''subnetRef'', JStr ''s1''), (''cores'', JNum 2),
       (''networkAttachments'', JArr [JObj [(''subnetRef'', JStr ''s1'')]])])] \<and>
     map_of w' (''cis'', ''b'') = map_of sample_store (''cis'', ''b'') \<and>
     migrateSubnetRefs (\<lambda>_. '''') (store_client\<lparr>mc_Patch := \<lambda>_ _ _. None\<rparr>) w' = migrateSubnetRefs (\<lambda>_. '''') store_client w'"
proof -
  let ?run = "migrateSubnetRefs (\<lambda>_. '''') store_client sample_store"
  have "map_option (\<lambda>(e, w'). (e, map_of w' (''cis'', ''a''), map_of w' (''cis'', ''b''))) ?run =
      Some (None, Some [(''spec'', JObj [(''subnetRef'', JStr ''s1''), (''cores'', JNum 2),
       (''networkAttachments'', JArr [JObj [(''subnetRef'', JStr ''s1'')]])])], map_of sample_store (''cis'', ''b''))"
    by code_simp
  then obtain w' where run: "?run = Some (None, w')" and "map_of w' (''cis'', ''a'') = Some [(''spec'', JObj [(''subnetRef'', JStr ''s1''),
       (''cores'', JNum 2), (''networkAttachments'', JArr [JObj [(''subnetRef'', JStr ''s1'')]])])]"
     "map_of w' (''cis'', ''b'') = map_of sample_store (''cis'', ''b'')" by auto
  with migration_exact [OF store_serves run refl] show ?thesis by blast
qed

end
