(* ===== verification/Startup.thy ===== *)
theory Startup
  imports Aap_Provider Network_Manager Migrations Kube
begin

text \<open>
  The start of the operator (\<^verbatim>\<open>cmd/main.go\<close>, \<^verbatim>\<open>helpers/getenvwithdefault.go\<close>): which controllers are enabled, how the
  environment configures them, in which order they are set up with the manager, and when the program exits instead.

  Setting up a controller, \<^verbatim>\<open>New...Reconciler(...).SetupWithManager(mgr)\<close>, is one call of the model, with the arguments that
  \<^verbatim>\<open>main.go\<close> passes (\<open>registration\<close>); what the constructors make of them is in the theories of the controllers. Parameters: the
  environment variables, \<^verbatim>\<open>time.ParseDuration\<close> (which computes fractions in floating point), the HTTP transport, and the libraries
  that build clusters, managers and connections. Metrics, webhook and TLS options and logging are left out.
\<close>

section \<open>Environment\<close>

text \<open>\<^verbatim>\<open>strconv.ParseBool\<close>.\<close>

definition ParseBool :: "string \<Rightarrow> gerror + bool" where
  "ParseBool s =
     (if s \<in> set [''1'', ''t'', ''T'', ''TRUE'', ''true'', ''True''] then Inr True
      else if s \<in> set [''0'', ''f'', ''F'', ''FALSE'', ''false'', ''False''] then Inr False
      else Inl (Errorf ''strconv.ParseBool: parsing %q: invalid syntax'' [s]))"

text \<open>The conversion \<open>parse\<close> is that of the type at which the function is used.\<close>

definition GetEnvWithDefault ::
  "(string \<Rightarrow> gerror + 'a) \<Rightarrow> (string \<Rightarrow> string) \<Rightarrow> string \<Rightarrow> 'a \<Rightarrow> ('a \<Rightarrow> bool) list \<Rightarrow> 'a"
where
  "GetEnvWithDefault parse getenv name defaultValue validators =
     (if getenv name = '''' then defaultValue
      else
        (case parse (getenv name) of
           Inl err \<Rightarrow> defaultValue
         | Inr result \<Rightarrow> if list_all (\<lambda>v. v result) validators then result else defaultValue))"

record 'h start_env =
  os_Getenv :: "string \<Rightarrow> string"
  time_ParseDuration :: "string \<Rightarrow> gerror + duration"
  http_Transport :: "bool \<Rightarrow> 'h transport"
  json_time :: "string \<Rightarrow> string + instant"
  LocalCluster :: string
  context_Canceled :: gerror

abbreviation getenv_string :: "'h start_env \<Rightarrow> string \<Rightarrow> string \<Rightarrow> string" where
  "getenv_string env name d \<equiv> GetEnvWithDefault Inr (os_Getenv env) name d []"

abbreviation getenv_bool :: "'h start_env \<Rightarrow> string \<Rightarrow> bool" where
  "getenv_bool env name \<equiv> GetEnvWithDefault ParseBool (os_Getenv env) name False []"

section \<open>Flags\<close>

record controllerFlags =
  fl_Tenant :: bool
  fl_Storage :: bool
  fl_ComputeInstance :: bool
  fl_Cluster :: bool
  fl_Networking :: bool
  fl_BareMetalInstance :: bool

text \<open>The command line: a flag that is not given is \<open>None\<close>.\<close>

record command_line =
  cl_remote_cluster_kubeconfig :: "string option"
  cl_fulfillment_server_address :: "string option"
  cl_fulfillment_server_token_file :: "string option"
  cl_grpc_plaintext :: bool
  cl_grpc_insecure :: bool
  cl_tenant :: "bool option"
  cl_storage :: "bool option"
  cl_compute_instance :: "bool option"
  cl_cluster :: "bool option"
  cl_networking :: "bool option"
  cl_baremetal_instance :: "bool option"

definition given_or :: "'a option \<Rightarrow> 'a \<Rightarrow> 'a" where
  "given_or f d = (case f of Some v \<Rightarrow> v | None \<Rightarrow> d)"

definition registerControllerFlags :: "'h start_env \<Rightarrow> command_line \<Rightarrow> controllerFlags" where
  "registerControllerFlags env cl =
     \<lparr>fl_Tenant = given_or (cl_tenant cl) (getenv_bool env ''OSAC_ENABLE_TENANT_CONTROLLER''),
      fl_Storage = given_or (cl_storage cl) (getenv_bool env ''OSAC_ENABLE_STORAGE_CONTROLLER''),
      fl_ComputeInstance = given_or (cl_compute_instance cl) (getenv_bool env ''OSAC_ENABLE_COMPUTE_INSTANCE_CONTROLLER''),
      fl_Cluster = given_or (cl_cluster cl) (getenv_bool env ''OSAC_ENABLE_CLUSTER_CONTROLLER''),
      fl_Networking = given_or (cl_networking cl) (getenv_bool env ''OSAC_ENABLE_NETWORKING_CONTROLLER''),
      fl_BareMetalInstance = given_or (cl_baremetal_instance cl) (getenv_bool env ''OSAC_ENABLE_BAREMETAL_INSTANCE_CONTROLLER'')\<rparr>"

definition enableAllIfNoneSet :: "controllerFlags \<Rightarrow> controllerFlags" where
  "enableAllIfNoneSet f =
     (if \<not> fl_Tenant f \<and> \<not> fl_Storage f \<and> \<not> fl_ComputeInstance f \<and> \<not> fl_Cluster f \<and> \<not> fl_Networking f \<and> \<not> fl_BareMetalInstance f
      then \<lparr>fl_Tenant = True, fl_Storage = True, fl_ComputeInstance = True, fl_Cluster = True, fl_Networking = True,
            fl_BareMetalInstance = True\<rparr>
      else f)"

section \<open>Schemes and providers\<close>

datatype scheme = Scheme_clientgo | Scheme_osac | Scheme_hypershift | Scheme_kubevirt | Scheme_ovn | Scheme_bmfo

definition addSchemesForLocalControllers :: "bool \<Rightarrow> bool \<Rightarrow> bool \<Rightarrow> bool \<Rightarrow> bool \<Rightarrow> scheme list" where
  "addSchemesForLocalControllers enableCluster enableComputeInstance enableTenant enableNetworking enableBareMetalInstance =
     [Scheme_clientgo, Scheme_osac] @ (if enableCluster then [Scheme_hypershift] else []) @
     (if enableComputeInstance then [Scheme_kubevirt] else []) @ (if enableTenant then [Scheme_ovn] else []) @
     (if enableBareMetalInstance then [Scheme_bmfo] else [])"

definition addSchemesForRemoteControllers :: "bool \<Rightarrow> bool \<Rightarrow> scheme list \<times> scheme list" where
  "addSchemesForRemoteControllers enableComputeInstance enableTenant =
     ([Scheme_clientgo, Scheme_osac],
      [Scheme_clientgo] @ (if enableComputeInstance then [Scheme_kubevirt] else []) @ (if enableTenant then [Scheme_ovn] else []))"

type_synonym 'h aap_provider = "(template_cache \<times> 'h) AAPProvider"

definition NewClient :: "'h start_env \<Rightarrow> string \<Rightarrow> string \<Rightarrow> bool \<Rightarrow> 'h Client" where
  "NewClient env url tok insecureSkipVerify =
     \<lparr>baseURL = url, token = tok, httpClient = http_Transport env insecureSkipVerify, parse_time = json_time env\<rparr>"

definition statusPollInterval :: "'h start_env \<Rightarrow> duration" where
  "statusPollInterval env =
     GetEnvWithDefault (time_ParseDuration env) (os_Getenv env) ''OSAC_AAP_STATUS_POLL_INTERVAL'' DefaultStatusPollInterval []"

definition createAAPProvider ::
  "'h start_env \<Rightarrow> string \<Rightarrow> string \<Rightarrow> string \<Rightarrow> string \<Rightarrow> string \<Rightarrow> bool \<Rightarrow> gerror + 'h aap_provider \<times> duration"
where
  "createAAPProvider env aapURL aapToken provision deprovision prefix insecureSkipVerify =
     (case NewProvider (Some (rest_client (NewClient env aapURL aapToken insecureSkipVerify))) provision deprovision prefix of
        Inl err \<Rightarrow> Inl err
      | Inr provider \<Rightarrow> Inr (provider, statusPollInterval env))"

definition createAAPProviderFromEnv :: "'h start_env \<Rightarrow> string \<Rightarrow> string \<Rightarrow> gerror + 'h aap_provider \<times> duration" where
  "createAAPProviderFromEnv env provisionEnv deprovisionEnv =
     createAAPProvider env (os_Getenv env ''OSAC_AAP_URL'') (os_Getenv env ''OSAC_AAP_TOKEN'')
       (getenv_string env provisionEnv (os_Getenv env ''OSAC_AAP_PROVISION_TEMPLATE''))
       (getenv_string env deprovisionEnv (os_Getenv env ''OSAC_AAP_DEPROVISION_TEMPLATE''))
       (getenv_string env ''OSAC_AAP_TEMPLATE_PREFIX'' ''osac'') (getenv_bool env ''OSAC_AAP_INSECURE_SKIP_VERIFY'')"

section \<open>Registrations\<close>

text \<open>
  A controller and the arguments of its constructor: namespaces, provider, poll interval, length of the job history, target
  cluster, and whether the clients of the fulfillment service are set.
\<close>

datatype 'h registration =
    Reg_Feedback string string
  | Reg_ClusterOrder string "'h aap_provider" duration int
  | Reg_ComputeInstance string string string "'h aap_provider" duration int string bool
  | Reg_Tenant string string
  | Reg_Storage string string "'h aap_provider option" "'h aap_provider option" duration int bool
  | Reg_Networking string string "'h aap_provider" duration int string
  | Reg_Attachment string string string "'h aap_provider" duration int string

definition and_then :: "('w, gerror option) go \<Rightarrow> ('w, gerror option) go \<Rightarrow> ('w, gerror option) go" where
  "and_then a b = bnd a (\<lambda>e. case e of Some err \<Rightarrow> ret (Some err) | None \<Rightarrow> b)"

definition wrapped :: "string \<Rightarrow> ('w, gerror option) go \<Rightarrow> ('w, gerror option) go" where
  "wrapped f m = bnd m (\<lambda>e. ret (map_option (Wrapf f []) e))"

definition if_connected :: "bool \<Rightarrow> ('w, gerror option) go \<Rightarrow> ('w, gerror option) go" where
  "if_connected grpcConn m = (if grpcConn then m else ret None)"

definition targetClusterFromManager :: "'h start_env \<Rightarrow> bool \<Rightarrow> string" where
  "targetClusterFromManager env hasProvider = (if hasProvider then ''remote'' else LocalCluster env)"

type_synonym ('h, 'w) registrar = "'h registration \<Rightarrow> ('w, gerror option) go"

definition setupProvisioningController ::
  "'h start_env \<Rightarrow> string \<Rightarrow> string \<Rightarrow> ('w, gerror option) go \<Rightarrow> ('h aap_provider \<Rightarrow> duration \<Rightarrow> ('w, gerror option) go) \<Rightarrow>
   ('w, gerror option) go"
where
  "setupProvisioningController env provisionEnv deprovisionEnv setupFeedback setupReconciler =
     and_then setupFeedback
       (case createAAPProviderFromEnv env provisionEnv deprovisionEnv of
          Inl err \<Rightarrow> ret (Some err)
        | Inr (provider, poll) \<Rightarrow> setupReconciler provider poll)"

definition setupClusterControllers ::
  "'h start_env \<Rightarrow> ('h, 'w) registrar \<Rightarrow> bool \<Rightarrow> int \<Rightarrow> ('w, gerror option) go"
where
  "setupClusterControllers env reg grpcConn maxJobHistory =
     (let ns = os_Getenv env ''OSAC_CLUSTER_ORDER_NAMESPACE'' in
      setupProvisioningController env ''OSAC_CLUSTER_AAP_PROVISION_TEMPLATE'' ''OSAC_CLUSTER_AAP_DEPROVISION_TEMPLATE''
        (if_connected grpcConn (reg (Reg_Feedback ''ClusterOrder'' ns)))
        (\<lambda>provider poll. reg (Reg_ClusterOrder ns provider poll maxJobHistory)))"

definition setupComputeInstanceControllers ::
  "'h start_env \<Rightarrow> ('h, 'w) registrar \<Rightarrow> bool \<Rightarrow> bool \<Rightarrow> int \<Rightarrow> ('w, gerror option) go"
where
  "setupComputeInstanceControllers env reg remote grpcConn maxJobHistory =
     (let ns = os_Getenv env ''OSAC_COMPUTE_INSTANCE_NAMESPACE'' in
      case createAAPProviderFromEnv env '''' '''' of
        Inl err \<Rightarrow> ret (Some (Wrapf ''create provisioning provider: %w'' [] err))
      | Inr (provider, poll) \<Rightarrow>
          and_then (if_connected grpcConn (wrapped ''computeinstance feedback controller: %w'' (reg (Reg_Feedback ''ComputeInstance'' ns))))
            (wrapped ''computeinstance controller: %w''
               (reg (Reg_ComputeInstance ns (os_Getenv env ''OSAC_TENANT_NAMESPACE'') (os_Getenv env ''OSAC_NETWORKING_NAMESPACE'')
                  provider poll maxJobHistory (targetClusterFromManager env remote) grpcConn))))"

definition setupTenantController :: "'h start_env \<Rightarrow> ('h, 'w) registrar \<Rightarrow> bool \<Rightarrow> ('w, gerror option) go" where
  "setupTenantController env reg remote =
     wrapped ''tenant controller: %w''
       (reg (Reg_Tenant (os_Getenv env ''OSAC_TENANT_NAMESPACE'') (targetClusterFromManager env remote)))"

definition setupStorageController ::
  "'h start_env \<Rightarrow> ('h, 'w) registrar \<Rightarrow> bool \<Rightarrow> bool \<Rightarrow> int \<Rightarrow> ('w, gerror option) go"
where
  "setupStorageController env reg remote grpcConn maxJobHistory =
     (let register = (\<lambda>backend cluster poll. wrapped ''storage controller: %w''
            (reg (Reg_Storage (os_Getenv env ''OSAC_TENANT_NAMESPACE'') (targetClusterFromManager env remote) backend cluster poll
               maxJobHistory grpcConn)));
          aapURL = os_Getenv env ''OSAC_AAP_URL''; aapToken = os_Getenv env ''OSAC_AAP_TOKEN'' in
      if aapURL \<noteq> '''' \<and> aapToken \<noteq> '''' then
        (let insecure = getenv_bool env ''OSAC_AAP_INSECURE_SKIP_VERIFY'' in
         case createAAPProvider env aapURL aapToken
                (getenv_string env ''OSAC_STORAGE_BACKEND_AAP_PROVISION_TEMPLATE'' ''osac-create-tenant-storage-backend'')
                (getenv_string env ''OSAC_STORAGE_BACKEND_AAP_DEPROVISION_TEMPLATE'' ''osac-delete-tenant-storage-backend'') '''' insecure of
           Inl err \<Rightarrow> ret (Some (Wrapf ''storage backend provider: %w'' [] err))
         | Inr (backendProvider, pollInterval) \<Rightarrow>
         (case createAAPProvider env aapURL aapToken
                (getenv_string env ''OSAC_STORAGE_CLUSTER_AAP_PROVISION_TEMPLATE'' ''osac-create-tenant-cluster-storage'')
                (getenv_string env ''OSAC_STORAGE_CLUSTER_AAP_DEPROVISION_TEMPLATE'' ''osac-delete-tenant-cluster-storage'') '''' insecure of
           Inl err \<Rightarrow> ret (Some (Wrapf ''cluster storage provider: %w'' [] err))
         | Inr (clusterStorageProvider, _) \<Rightarrow> register (Some backendProvider) (Some clusterStorageProvider) pollInterval))
      else register None None 0)"

section \<open>Networking controllers\<close>

definition setupVirtualNetworkControllers ::
  "('h, 'w) registrar \<Rightarrow> bool \<Rightarrow> string \<Rightarrow> 'h aap_provider \<Rightarrow> duration \<Rightarrow> int \<Rightarrow> string \<Rightarrow> ('w, gerror option) go"
where
  "setupVirtualNetworkControllers reg grpcConn ns provider poll maxJobHistory target =
     and_then (if_connected grpcConn (wrapped ''virtualnetwork feedback controller: %w'' (reg (Reg_Feedback ''VirtualNetwork'' ns))))
       (wrapped ''virtualnetwork controller: %w'' (reg (Reg_Networking ''VirtualNetwork'' ns provider poll maxJobHistory target)))"

definition setupSubnetControllers ::
  "('h, 'w) registrar \<Rightarrow> bool \<Rightarrow> string \<Rightarrow> 'h aap_provider \<Rightarrow> duration \<Rightarrow> int \<Rightarrow> string \<Rightarrow> ('w, gerror option) go"
where
  "setupSubnetControllers reg grpcConn ns provider poll maxJobHistory target =
     and_then (if_connected grpcConn (wrapped ''subnet feedback controller: %w'' (reg (Reg_Feedback ''Subnet'' ns))))
       (wrapped ''subnet controller: %w'' (reg (Reg_Networking ''Subnet'' ns provider poll maxJobHistory target)))"

definition setupSecurityGroupControllers ::
  "('h, 'w) registrar \<Rightarrow> bool \<Rightarrow> string \<Rightarrow> 'h aap_provider \<Rightarrow> duration \<Rightarrow> int \<Rightarrow> string \<Rightarrow> ('w, gerror option) go"
where
  "setupSecurityGroupControllers reg grpcConn ns provider poll maxJobHistory target =
     and_then (if_connected grpcConn (wrapped ''securitygroup feedback controller: %w'' (reg (Reg_Feedback ''SecurityGroup'' ns))))
       (wrapped ''securitygroup controller: %w'' (reg (Reg_Networking ''SecurityGroup'' ns provider poll maxJobHistory target)))"

definition setupExternalIPPoolControllers ::
  "('h, 'w) registrar \<Rightarrow> bool \<Rightarrow> string \<Rightarrow> 'h aap_provider \<Rightarrow> duration \<Rightarrow> int \<Rightarrow> string \<Rightarrow> ('w, gerror option) go"
where
  "setupExternalIPPoolControllers reg grpcConn ns provider poll maxJobHistory target =
     and_then (if_connected grpcConn (wrapped ''externalippool feedback controller: %w'' (reg (Reg_Feedback ''ExternalIPPool'' ns))))
       (wrapped ''externalippool controller: %w'' (reg (Reg_Networking ''ExternalIPPool'' ns provider poll maxJobHistory target)))"

definition setupExternalIPControllers ::
  "('h, 'w) registrar \<Rightarrow> bool \<Rightarrow> string \<Rightarrow> 'h aap_provider \<Rightarrow> duration \<Rightarrow> int \<Rightarrow> string \<Rightarrow> ('w, gerror option) go"
where
  "setupExternalIPControllers reg grpcConn ns provider poll maxJobHistory target =
     and_then (wrapped ''externalip controller: %w'' (reg (Reg_Networking ''ExternalIP'' ns provider poll maxJobHistory target)))
       (if_connected grpcConn (wrapped ''externalip feedback controller: %w'' (reg (Reg_Feedback ''ExternalIP'' ns))))"

definition setupExternalIPAttachmentControllers ::
  "('h, 'w) registrar \<Rightarrow> bool \<Rightarrow> string \<Rightarrow> string \<Rightarrow> string \<Rightarrow> 'h aap_provider \<Rightarrow> duration \<Rightarrow> int \<Rightarrow> string \<Rightarrow>
   ('w, gerror option) go"
where
  "setupExternalIPAttachmentControllers reg grpcConn ns computeInstanceNamespace clusterOrderNamespace provider poll maxJobHistory target =
     and_then (wrapped ''externalipattachment controller: %w''
         (reg (Reg_Attachment ns computeInstanceNamespace clusterOrderNamespace provider poll maxJobHistory target)))
       (if_connected grpcConn (wrapped ''externalipattachment feedback controller: %w'' (reg (Reg_Feedback ''ExternalIPAttachment'' ns))))"

definition setupNATGatewayControllers ::
  "('h, 'w) registrar \<Rightarrow> bool \<Rightarrow> string \<Rightarrow> 'h aap_provider \<Rightarrow> duration \<Rightarrow> int \<Rightarrow> string \<Rightarrow> ('w, gerror option) go"
where
  "setupNATGatewayControllers reg grpcConn ns provider poll maxJobHistory target =
     and_then (if_connected grpcConn (wrapped ''natgateway feedback controller: %w'' (reg (Reg_Feedback ''NATGateway'' ns))))
       (wrapped ''natgateway controller: %w'' (reg (Reg_Networking ''NATGateway'' ns provider poll maxJobHistory target)))"

definition setupNetworkingControllers ::
  "'h start_env \<Rightarrow> ('h, 'w) registrar \<Rightarrow> bool \<Rightarrow> bool \<Rightarrow> int \<Rightarrow> ('w, gerror option) go"
where
  "setupNetworkingControllers env reg remote grpcConn maxJobHistory =
     (let target = targetClusterFromManager env remote; ns = os_Getenv env ''OSAC_NETWORKING_NAMESPACE'';
          poll = statusPollInterval env; prefix = getenv_string env ''OSAC_AAP_TEMPLATE_PREFIX'' ''osac'';
          aapClient = rest_client (NewClient env (os_Getenv env ''OSAC_AAP_URL'') (os_Getenv env ''OSAC_AAP_TOKEN'')
            (getenv_bool env ''OSAC_AAP_INSECURE_SKIP_VERIFY''));
          provider = NewAAPProviderWithPrefix aapClient prefix in
      case NewProvider (Some aapClient) (sprintf ''%s-attach-external-ip'' [prefix]) (sprintf ''%s-detach-external-ip'' [prefix]) '''' of
        Inl err \<Rightarrow> ret (Some (Wrapf ''externalip attachment provider: %w'' [] err))
      | Inr attachmentProvider \<Rightarrow>
          and_then (setupVirtualNetworkControllers reg grpcConn ns provider poll maxJobHistory target)
          (and_then (setupSubnetControllers reg grpcConn ns provider poll maxJobHistory target)
          (and_then (setupSecurityGroupControllers reg grpcConn ns provider poll maxJobHistory target)
          (and_then (setupExternalIPPoolControllers reg grpcConn ns provider poll maxJobHistory target)
          (and_then (setupExternalIPControllers reg grpcConn ns provider poll maxJobHistory target)
          (and_then (setupExternalIPAttachmentControllers reg grpcConn ns (os_Getenv env ''OSAC_COMPUTE_INSTANCE_NAMESPACE'')
             (os_Getenv env ''OSAC_CLUSTER_ORDER_NAMESPACE'') attachmentProvider poll maxJobHistory target)
          (setupNATGatewayControllers reg grpcConn ns provider poll maxJobHistory target)))))))"

definition DefaultBareMetalInstanceNamespace :: string where
  "DefaultBareMetalInstanceNamespace = ''osac-baremetalinstance''"

definition setupBareMetalInstanceControllers ::
  "'h start_env \<Rightarrow> ('h, 'w) registrar \<Rightarrow> bool \<Rightarrow> ('w, gerror option) go"
where
  "setupBareMetalInstanceControllers env reg grpcConn =
     (let ns = os_Getenv env ''OSAC_BARE_METAL_INSTANCE_NAMESPACE'' in
      if_connected grpcConn (wrapped ''baremetalinstance feedback controller: %w''
        (reg (Reg_Feedback ''BareMetalInstance'' (if ns = '''' then DefaultBareMetalInstanceNamespace else ns)))))"

section \<open>Connection to the fulfillment service\<close>

text \<open>TLS credentials carry whether the certificate of the server is left unchecked.\<close>

datatype transport_creds = Creds_insecure | Creds_TLS bool

datatype dial_option = WithTransportCredentials transport_creds | WithPerRPCCredentials string

definition createGrpcConn ::
  "(dial_option list \<Rightarrow> string \<Rightarrow> ('w, gerror option) go) \<Rightarrow> bool \<Rightarrow> bool \<Rightarrow> string \<Rightarrow> string \<Rightarrow> ('w, gerror option) go"
where
  "createGrpcConn grpc_NewClient plaintext insecure tokenFile serverAddress =
     grpc_NewClient
       ([WithTransportCredentials (if plaintext then Creds_insecure else Creds_TLS insecure)] @
        (if tokenFile \<noteq> '''' then [WithPerRPCCredentials tokenFile] else [])) serverAddress"

definition fileTokenSource_Token :: "(string \<Rightarrow> ('w, gerror + string) go) \<Rightarrow> string \<Rightarrow> ('w, gerror + string) go" where
  "fileTokenSource_Token os_ReadFile tokenFile =
     bnd (os_ReadFile tokenFile) (\<lambda>res.
       case res of
         Inl err \<Rightarrow> ret (Inl (Wrapf (''failed to read token from file '' @ [char_of (39 :: nat)] @ ''%s'' @ [char_of (39 :: nat)] @ '': %w'') [tokenFile] err))
       | Inr data \<Rightarrow> ret (Inr (TrimSpace data)))"

section \<open>Main\<close>

record ('h, 'c, 'w) start_ops =
  so_BuildConfigFromFlags :: "string \<Rightarrow> ('w, gerror + 'c) go"
  so_NewCluster :: "'c \<Rightarrow> scheme list \<Rightarrow> ('w, gerror option) go"
  so_GetConfig :: "('w, gerror option) go"
  so_NewManager :: "bool \<Rightarrow> scheme list \<Rightarrow> ('w, gerror option) go"
  so_grpc_NewClient :: "dial_option list \<Rightarrow> string \<Rightarrow> ('w, gerror option) go"
  so_SetupWithManager :: "'h registration \<Rightarrow> ('w, gerror option) go"
  so_NewMigrationClient :: "('w, gerror option) go"
  so_AddMigrations :: "('w, gerror option) go"
  so_AddHealthzCheck :: "('w, gerror option) go"
  so_AddReadyzCheck :: "('w, gerror option) go"
  so_RunGroup :: "string list \<Rightarrow> ('w, gerror option list) go"

definition newClusterFromKubeconfig ::
  "('h, 'c, 'w) start_ops \<Rightarrow> string \<Rightarrow> scheme list \<Rightarrow> ('w, gerror option) go"
where
  "newClusterFromKubeconfig ops kubeconfigPath schemes =
     bnd (so_BuildConfigFromFlags ops kubeconfigPath) (\<lambda>res.
       case res of
         Inl err \<Rightarrow> ret (Some (Wrapf ''build config from kubeconfig %q: %w'' [kubeconfigPath] err))
       | Inr config \<Rightarrow> wrapped ''create cluster from kubeconfig: %w'' (so_NewCluster ops config schemes))"

definition ignoreCanceled :: "'h start_env \<Rightarrow> gerror option \<Rightarrow> gerror option" where
  "ignoreCanceled env err = (if err = Some (context_Canceled env) then None else err)"

text \<open>
  The group runs its components and gives their results in the order in which they return; its own result is the first error
  that is left.
\<close>

fun first_error :: "gerror option list \<Rightarrow> gerror option" where
  "first_error [] = None"
| "first_error (Some err # es) = Some err"
| "first_error (None # es) = first_error es"

definition startComponents :: "'h start_env \<Rightarrow> ('h, 'c, 'w) start_ops \<Rightarrow> bool \<Rightarrow> ('w, gerror option) go" where
  "startComponents env ops remote =
     bnd (so_RunGroup ops ((if remote then [''cluster'', ''provider''] else []) @ [''manager''])) (\<lambda>results.
     ret (first_error (map (ignoreCanceled env) results)))"

text \<open>Exits with a message, or goes on.\<close>

definition or_exit :: "string \<Rightarrow> ('w, gerror option) go \<Rightarrow> ('w, string option) go \<Rightarrow> ('w, string option) go" where
  "or_exit message m rest = bnd m (\<lambda>e. case e of Some err \<Rightarrow> ret (Some message) | None \<Rightarrow> rest)"

definition when_enabled :: "bool \<Rightarrow> ('w, gerror option) go \<Rightarrow> ('w, gerror option) go" where
  "when_enabled b m = (if b then m else ret None)"

definition max_job_history :: "'h start_env \<Rightarrow> int" where
  "max_job_history env = GetEnvWithDefault Atoi (os_Getenv env) ''OSAC_MAX_JOB_HISTORY'' DefaultMaxJobHistory [\<lambda>v. v \<ge> 1]"

text \<open>The controllers, in the order in which they are set up.\<close>

definition main_controllers ::
  "'h start_env \<Rightarrow> ('h, 'w) registrar \<Rightarrow> controllerFlags \<Rightarrow> bool \<Rightarrow> bool \<Rightarrow> ('w, string option) go \<Rightarrow> ('w, string option) go"
where
  "main_controllers env reg ctrlFlags remote grpcConn rest =
     (let maxJobHistory = max_job_history env in
      or_exit ''unable to setup cluster controllers''
        (when_enabled (fl_Cluster ctrlFlags) (setupClusterControllers env reg grpcConn maxJobHistory))
      (or_exit ''unable to setup computeinstance controllers''
        (when_enabled (fl_ComputeInstance ctrlFlags) (setupComputeInstanceControllers env reg remote grpcConn maxJobHistory))
      (or_exit ''unable to setup tenant controller''
        (when_enabled (fl_Tenant ctrlFlags) (setupTenantController env reg remote))
      (or_exit ''unable to setup storage controller''
        (when_enabled (fl_Storage ctrlFlags) (setupStorageController env reg remote grpcConn maxJobHistory))
      (or_exit ''unable to setup networking controllers''
        (when_enabled (fl_Networking ctrlFlags) (setupNetworkingControllers env reg remote grpcConn maxJobHistory))
      (or_exit ''unable to setup baremetalinstance controllers''
        (when_enabled (fl_BareMetalInstance ctrlFlags) (setupBareMetalInstanceControllers env reg grpcConn))
      rest))))))"

definition main_manager ::
  "'h start_env \<Rightarrow> ('h, 'c, 'w) start_ops \<Rightarrow> command_line \<Rightarrow> controllerFlags \<Rightarrow> bool \<Rightarrow> scheme list \<Rightarrow> ('w, string option) go"
where
  "main_manager env ops cl ctrlFlags remote localScheme =
     (let address = given_or (cl_fulfillment_server_address cl) (os_Getenv env ''OSAC_FULFILLMENT_SERVER_ADDRESS'');
          tokenFile = given_or (cl_fulfillment_server_token_file cl) (os_Getenv env ''OSAC_FULFILLMENT_TOKEN_FILE'');
          grpcConn = (address \<noteq> '''') in
      or_exit ''unable to get kubeconfig'' (so_GetConfig ops)
      (or_exit ''unable to start manager'' (so_NewManager ops remote localScheme)
      (or_exit ''failed to create gRPC connection to fulfillment service''
        (when_enabled grpcConn (createGrpcConn (so_grpc_NewClient ops) (cl_grpc_plaintext cl) (cl_grpc_insecure cl) tokenFile address))
      (main_controllers env (so_SetupWithManager ops) ctrlFlags remote grpcConn
      (or_exit ''unable to create client for migrations'' (so_NewMigrationClient ops)
      (or_exit ''unable to register migrations'' (so_AddMigrations ops)
      (or_exit ''unable to set up health check'' (so_AddHealthzCheck ops)
      (or_exit ''unable to set up ready check'' (so_AddReadyzCheck ops)
      (or_exit ''problem running manager'' (startComponents env ops remote) (ret None))))))))))"

definition main :: "'h start_env \<Rightarrow> ('h, 'c, 'w) start_ops \<Rightarrow> command_line \<Rightarrow> ('w, string option) go" where
  "main env ops cl =
     (let kubeconfig = given_or (cl_remote_cluster_kubeconfig cl) (os_Getenv env ''OSAC_REMOTE_CLUSTER_KUBECONFIG'');
          ctrlFlags = enableAllIfNoneSet (registerControllerFlags env cl) in
      if kubeconfig \<noteq> '''' \<and> fl_Cluster ctrlFlags then
        ret (Some ''remote cluster kubeconfig option is not supported along with cluster controller'')
      else if kubeconfig \<noteq> '''' \<and> fl_BareMetalInstance ctrlFlags then
        ret (Some ''remote cluster kubeconfig option is not supported along with bare metal instance controller'')
      else if kubeconfig = '''' then
        main_manager env ops cl ctrlFlags False
          (addSchemesForLocalControllers (fl_Cluster ctrlFlags) (fl_ComputeInstance ctrlFlags) (fl_Tenant ctrlFlags)
             (fl_Networking ctrlFlags) (fl_BareMetalInstance ctrlFlags))
      else
        (case addSchemesForRemoteControllers (fl_ComputeInstance ctrlFlags) (fl_Tenant ctrlFlags) of
           (localScheme, remoteScheme) \<Rightarrow>
             or_exit ''unable to create remote cluster from kubeconfig'' (newClusterFromKubeconfig ops kubeconfig remoteScheme)
               (main_manager env ops cl ctrlFlags True localScheme)))"

end
