(* ===== verification/Startup_Properties.thy ===== *)
theory Startup_Properties
  imports Startup
begin

text \<open>
  Which controllers the operator sets up. The calls that set up a controller and the one that runs the manager are recorded in a
  log. \<open>registers m rs\<close> says that a part of the start sets up the controllers \<open>rs\<close> in this order, stopping at the first
  that fails; it composes the way the code does.
\<close>

section \<open>Log of the start\<close>

datatype 'h start_event = Set_up "'h registration" bool | Ran "string list"

definition log_registrar ::
  "('h, 'w) registrar \<Rightarrow> ('h, 'h start_event list \<times> 'w) registrar"
where
  "log_registrar reg = (\<lambda>r. logged (\<lambda>e. Set_up r (e = None)) (reg r))"

definition log_start :: "('h, 'c, 'w) start_ops \<Rightarrow> ('h, 'c, 'h start_event list \<times> 'w) start_ops" where
  "log_start ops =
     \<lparr>so_BuildConfigFromFlags = (\<lambda>p. unlogged (so_BuildConfigFromFlags ops p)),
      so_NewCluster = (\<lambda>c s. unlogged (so_NewCluster ops c s)),
      so_GetConfig = unlogged (so_GetConfig ops),
      so_NewManager = (\<lambda>b s. unlogged (so_NewManager ops b s)),
      so_grpc_NewClient = (\<lambda>os a. unlogged (so_grpc_NewClient ops os a)),
      so_SetupWithManager = log_registrar (so_SetupWithManager ops),
      so_NewMigrationClient = unlogged (so_NewMigrationClient ops),
      so_AddMigrations = unlogged (so_AddMigrations ops),
      so_AddHealthzCheck = unlogged (so_AddHealthzCheck ops),
      so_AddReadyzCheck = unlogged (so_AddReadyzCheck ops),
      so_RunGroup = (\<lambda>cs. logged (\<lambda>_. Ran cs) (so_RunGroup ops cs))\<rparr>"

definition attempted :: "'h registration list \<Rightarrow> 'h start_event list \<Rightarrow> bool" where
  "attempted rs evs \<longleftrightarrow> (\<forall>x \<in> set evs. case x of Set_up r b \<Rightarrow> r \<in> set rs | Ran cs \<Rightarrow> False)"

lemma attempted_simps [simp]:
  "attempted rs []" "attempted rs (xs @ ys) = (attempted rs xs \<and> attempted rs ys)"
  "attempted rs (map (\<lambda>r. Set_up r b) ss) = (set ss \<subseteq> set rs)" "attempted rs [Set_up r b'] = (r \<in> set rs)"
  by (auto simp: attempted_def)

lemma attempted_more: "attempted xs evs \<Longrightarrow> attempted (xs @ ys) evs" "attempted ys evs \<Longrightarrow> attempted (xs @ ys) evs"
  by (auto simp: attempted_def split: start_event.splits)

definition registers :: "('h start_event list \<times> 'w, gerror option) go \<Rightarrow> 'h registration list \<Rightarrow> bool" where
  "registers m rs \<longleftrightarrow> (\<forall>log w. wlp m (\<lambda>e (log', _).
     if e = None then log' = log @ map (\<lambda>r. Set_up r True) rs else \<exists>evs. log' = log @ evs \<and> attempted rs evs) (log, w))"

lemma registersD:
  "registers m rs \<Longrightarrow> wlp m (\<lambda>e (log', _). if e = None then log' = log @ map (\<lambda>r. Set_up r True) rs
     else \<exists>evs. log' = log @ evs \<and> attempted rs evs) (log, w)"
  by (simp add: registers_def)

lemma registers_ret [simp, intro]: "registers (ret e) []"
  by (simp add: registers_def wlp_ret)

lemma registers_logged [simp, intro]: "registers (log_registrar reg r) [r]"
  by (auto simp: registers_def log_registrar_def wlp_def logged_def split: option.splits)

lemma registers_wrapped [intro]: "registers m rs \<Longrightarrow> registers (wrapped f m) rs"
  unfolding registers_def wrapped_def wlp_bnd wlp_ret by (intro allI, erule allE, erule allE, erule wlp_mono) auto

lemma registers_and_then [intro]:
  assumes a: "registers a xs" and b: "registers b ys"
  shows "registers (and_then a b) (xs @ ys)"
  unfolding registers_def and_then_def wlp_bnd
proof (intro allI)
  fix log w
  let ?Q = "\<lambda>e (log', _). if e = None then log' = log @ map (\<lambda>r. Set_up r True) (xs @ ys)
      else \<exists>evs. log' = log @ evs \<and> attempted (xs @ ys) evs"
  have b': "wlp b ?Q (log @ map (\<lambda>r. Set_up r True) xs, v)" for v
    by (rule wlp_mono [OF registersD [OF b]]) (auto simp: attempted_more split: if_splits)
  show "wlp a (\<lambda>e. wlp (case e of None \<Rightarrow> b | Some err \<Rightarrow> ret (Some err)) ?Q) (log, w)"
    by (rule wlp_mono [OF registersD [OF a]]) (use b' in \<open>auto simp: wlp_ret attempted_more split: option.splits if_splits\<close>)
qed

lemma registers_if [intro]:
  "registers m rs \<Longrightarrow> registers (if_connected c m) (if c then rs else [])"
  "registers m rs \<Longrightarrow> registers (when_enabled c m) (if c then rs else [])"
  by (auto simp: if_connected_def when_enabled_def)

section \<open>What is set up\<close>

fun reg_label :: "'h registration \<Rightarrow> bool \<times> string" where
  "reg_label (Reg_Feedback kind ns) = (True, kind)"
| "reg_label (Reg_ClusterOrder ns p d h) = (False, ''ClusterOrder'')"
| "reg_label (Reg_ComputeInstance ns tns nns p d h t g) = (False, ''ComputeInstance'')"
| "reg_label (Reg_Tenant ns t) = (False, ''Tenant'')"
| "reg_label (Reg_Storage ns t p q d h g) = (False, ''Storage'')"
| "reg_label (Reg_Networking kind ns p d h t) = (False, kind)"
| "reg_label (Reg_Attachment ns cns ons p d h t) = (False, ''ExternalIPAttachment'')"

fun reg_history :: "'h registration \<Rightarrow> int option" where
  "reg_history (Reg_ClusterOrder ns p d h) = Some h"
| "reg_history (Reg_ComputeInstance ns tns nns p d h t g) = Some h"
| "reg_history (Reg_Storage ns t p q d h g) = Some h"
| "reg_history (Reg_Networking kind ns p d h t) = Some h"
| "reg_history (Reg_Attachment ns cns ons p d h t) = Some h"
| "reg_history r = None"

fun reg_target :: "'h registration \<Rightarrow> string option" where
  "reg_target (Reg_ComputeInstance ns tns nns p d h t g) = Some t"
| "reg_target (Reg_Tenant ns t) = Some t"
| "reg_target (Reg_Storage ns t p q d h g) = Some t"
| "reg_target (Reg_Networking kind ns p d h t) = Some t"
| "reg_target (Reg_Attachment ns cns ons p d h t) = Some t"
| "reg_target r = None"

text \<open>
  Every controller keeps at least one job, works on the cluster \<open>t\<close>, and is a feedback controller only if there is a connection.
\<close>

definition reg_ok :: "string \<Rightarrow> bool \<Rightarrow> 'h registration \<Rightarrow> bool" where
  "reg_ok t c r \<longleftrightarrow>
     (case reg_history r of None \<Rightarrow> True | Some h \<Rightarrow> 1 \<le> h) \<and> (case reg_target r of None \<Rightarrow> True | Some t' \<Rightarrow> t' = t) \<and>
     (fst (reg_label r) \<longrightarrow> c)"

definition sets_up :: "('h registration \<Rightarrow> bool) \<Rightarrow> ('h start_event list \<times> 'w, gerror option) go \<Rightarrow> (bool \<times> string) list \<Rightarrow> bool" where
  "sets_up P m ls \<longleftrightarrow> (\<exists>rs. registers m rs \<and> map reg_label rs = ls \<and> (\<forall>r \<in> set rs. P r))"

lemma sets_up_ret: "sets_up P (ret e) []"
  by (auto simp: sets_up_def)

lemma sets_up_reg: "P r \<Longrightarrow> ls = [reg_label r] \<Longrightarrow> sets_up P (wrapped f (log_registrar reg r)) ls"
  "P r \<Longrightarrow> ls = [reg_label r] \<Longrightarrow> sets_up P (log_registrar reg r) ls"
  unfolding sets_up_def by (force intro: registers_wrapped [OF registers_logged])+

lemma sets_up_and_then: "sets_up P a xs \<Longrightarrow> sets_up P b ys \<Longrightarrow> sets_up P (and_then a b) (xs @ ys)"
  unfolding sets_up_def
proof (elim exE conjE)
  fix rs qs assume "registers a rs" "map reg_label rs = xs" "\<forall>r\<in>set rs. P r" "registers b qs" "map reg_label qs = ys" "\<forall>r\<in>set qs. P r"
  then show "\<exists>rs. registers (and_then a b) rs \<and> map reg_label rs = xs @ ys \<and> (\<forall>r\<in>set rs. P r)"
    by (intro exI [of _ "rs @ qs"]) auto
qed

lemma sets_up_if:
  "(c \<Longrightarrow> sets_up P m ls) \<Longrightarrow> sets_up P (if_connected c m) (if c then ls else [])"
  "(c \<Longrightarrow> sets_up P m ls) \<Longrightarrow> sets_up P (when_enabled c m) (if c then ls else [])"
  by (auto simp: if_connected_def when_enabled_def sets_up_ret)

lemma max_job_history_positive: "1 \<le> max_job_history env"
  by (simp add: max_job_history_def GetEnvWithDefault_def DefaultMaxJobHistory_def split: sum.split)

definition both :: "bool \<Rightarrow> string \<Rightarrow> (bool \<times> string) list" where
  "both c k = (if c then [(True, k)] else []) @ [(False, k)]"

lemmas sets_up_rules = sets_up_and_then sets_up_if sets_up_reg

lemmas create_simps = createAAPProviderFromEnv_def createAAPProvider_def NewProvider_def option.case sum.case prod.case Let_def

lemma setup_cluster:
  "1 \<le> h \<Longrightarrow> sets_up (reg_ok t c) (setupClusterControllers env (log_registrar reg) c h) (both c ''ClusterOrder'')"
  unfolding both_def setupClusterControllers_def setupProvisioningController_def create_simps
  by (intro sets_up_rules) (simp_all add: reg_ok_def)

lemma setup_instances:
  "1 \<le> h \<Longrightarrow> sets_up (reg_ok (targetClusterFromManager env remote) c)
     (setupComputeInstanceControllers env (log_registrar reg) remote c h) (both c ''ComputeInstance'')"
  unfolding both_def setupComputeInstanceControllers_def create_simps
  by (intro sets_up_rules) (simp_all add: reg_ok_def)

lemma setup_tenant:
  "sets_up (reg_ok (targetClusterFromManager env remote) c) (setupTenantController env (log_registrar reg) remote) [(False, ''Tenant'')]"
  unfolding setupTenantController_def by (intro sets_up_rules) (simp_all add: reg_ok_def)

lemma setup_storage:
  "1 \<le> h \<Longrightarrow> sets_up (reg_ok (targetClusterFromManager env remote) c)
     (setupStorageController env (log_registrar reg) remote c h) [(False, ''Storage'')]"
  unfolding setupStorageController_def create_simps
  by (auto simp: reg_ok_def intro!: sets_up_reg)

definition networking_labels :: "bool \<Rightarrow> (bool \<times> string) list" where
  "networking_labels c =
     both c ''VirtualNetwork'' @ both c ''Subnet'' @ both c ''SecurityGroup'' @ both c ''ExternalIPPool'' @
     ([(False, ''ExternalIP'')] @ (if c then [(True, ''ExternalIP'')] else [])) @
     ([(False, ''ExternalIPAttachment'')] @ (if c then [(True, ''ExternalIPAttachment'')] else [])) @ both c ''NATGateway''"

lemmas setup_networking_defs =
  setupVirtualNetworkControllers_def setupSubnetControllers_def setupSecurityGroupControllers_def setupExternalIPPoolControllers_def
  setupExternalIPControllers_def setupExternalIPAttachmentControllers_def setupNATGatewayControllers_def

lemma setup_networking:
  "1 \<le> h \<Longrightarrow> sets_up (reg_ok (targetClusterFromManager env remote) c)
     (setupNetworkingControllers env (log_registrar reg) remote c h) (networking_labels c)"
  unfolding networking_labels_def both_def setupNetworkingControllers_def setup_networking_defs create_simps
  by (intro sets_up_rules) (simp_all add: reg_ok_def)

lemma setup_bare_metal:
  "sets_up (reg_ok t c) (setupBareMetalInstanceControllers env (log_registrar reg) c) (if c then [(True, ''BareMetalInstance'')] else [])"
  unfolding setupBareMetalInstanceControllers_def Let_def by (intro sets_up_rules) (simp_all add: reg_ok_def)

section \<open>The whole start\<close>

text \<open>The labels of all controllers that are set up, in order; a feedback controller's label begins with \<open>True\<close>.\<close>

definition start_labels :: "controllerFlags \<Rightarrow> bool \<Rightarrow> (bool \<times> string) list" where
  "start_labels f c =
     (if fl_Cluster f then both c ''ClusterOrder'' else []) @
     (if fl_ComputeInstance f then both c ''ComputeInstance'' else []) @
     (if fl_Tenant f then [(False, ''Tenant'')] else []) @
     (if fl_Storage f then [(False, ''Storage'')] else []) @
     (if fl_Networking f then networking_labels c else []) @
     (if fl_BareMetalInstance f then (if c then [(True, ''BareMetalInstance'')] else []) else [])"

text \<open>
  What the log may be: attempts at registrations that satisfy \<open>P\<close> and an exit with an error, or, if the group was run, the
  registrations with the labels \<open>ls\<close>, all of them successful, and then the group with the components \<open>cs\<close>.
\<close>

definition start_log ::
  "('h registration \<Rightarrow> bool) \<Rightarrow> (bool \<times> string) list \<Rightarrow> string list \<Rightarrow> string option \<Rightarrow> 'h start_event list \<Rightarrow> bool"
where
  "start_log P ls cs exit evs \<longleftrightarrow>
     (\<exists>rs. (\<forall>r \<in> set rs. P r) \<and>
        ((exit \<noteq> None \<and> attempted rs evs) \<or> (map reg_label rs = ls \<and> evs = map (\<lambda>r. Set_up r True) rs @ [Ran cs])))"

text \<open>Programs from a log with the successful registrations \<open>ks\<close> on.\<close>

definition continues ::
  "('h registration \<Rightarrow> bool) \<Rightarrow> (bool \<times> string) list \<Rightarrow> string list \<Rightarrow> (bool \<times> string) list \<Rightarrow> ('h start_event list \<times> 'w, string option) go \<Rightarrow> bool"
where
  "continues P ls cs ks m \<longleftrightarrow> (\<forall>rs w. (\<forall>r \<in> set rs. P r) \<longrightarrow> map reg_label rs = ks \<longrightarrow>
     wlp m (\<lambda>exit (evs, _). start_log P ls cs exit evs) (map (\<lambda>r. Set_up r True) rs, w))"

lemma continues_or_exit:
  assumes m: "sets_up P m ms" and rest: "continues P ls cs (ks @ ms) rest"
  shows "continues P ls cs ks (or_exit msg m rest)"
  unfolding continues_def or_exit_def wlp_bnd
proof (intro allI impI)
  fix rs w assume rs: "\<forall>r \<in> set rs. P r" "map reg_label rs = ks"
  from m obtain qs where qs: "registers m qs" "map reg_label qs = ms" "\<forall>r \<in> set qs. P r" by (auto simp: sets_up_def)
  have all: "\<forall>r \<in> set (rs @ qs). P r" and labels: "map reg_label (rs @ qs) = ks @ ms" using rs qs by auto
  have failed: "start_log P ls cs (Some msg) (map (\<lambda>r. Set_up r True) rs @ evs)" if "attempted qs evs" for evs
    unfolding start_log_def by (rule exI [of _ "rs @ qs"]) (use all that in \<open>simp add: attempted_more\<close>)
  have goes_on: "wlp rest (\<lambda>exit (evs, _). start_log P ls cs exit evs) (map (\<lambda>r. Set_up r True) (rs @ qs), v)" for v
    using rest all labels unfolding continues_def by blast
  show "wlp m (\<lambda>e. wlp (case e of None \<Rightarrow> rest | Some err \<Rightarrow> ret (Some msg)) (\<lambda>exit (evs, _). start_log P ls cs exit evs))
      (map (\<lambda>r. Set_up r True) rs, w)"
    by (rule wlp_mono [OF registersD [OF qs(1)]]) (use failed goes_on in \<open>auto simp: wlp_ret split: option.splits if_splits\<close>)
qed

lemma sets_up_unlogged: "sets_up P (unlogged m) []" "sets_up P (wrapped f (unlogged m)) []"
proof -
  have r: "registers (unlogged m) []"
    by (auto simp: registers_def unlogged_def on_world_def wlp_def split: option.splits intro!: exI [of _ "[]"])
  then show "sets_up P (unlogged m) []" by (auto simp: sets_up_def)
  from registers_wrapped [OF r] show "sets_up P (wrapped f (unlogged m)) []" by (auto simp: sets_up_def)
qed

lemma log_start_simps [simp]:
  "so_BuildConfigFromFlags (log_start ops) = (\<lambda>p. unlogged (so_BuildConfigFromFlags ops p))"
  "so_NewCluster (log_start ops) = (\<lambda>k s. unlogged (so_NewCluster ops k s))"
  "so_GetConfig (log_start ops) = unlogged (so_GetConfig ops)"
  "so_NewManager (log_start ops) = (\<lambda>b s. unlogged (so_NewManager ops b s))"
  "so_grpc_NewClient (log_start ops) = (\<lambda>os a. unlogged (so_grpc_NewClient ops os a))"
  "so_SetupWithManager (log_start ops) = log_registrar (so_SetupWithManager ops)"
  "so_NewMigrationClient (log_start ops) = unlogged (so_NewMigrationClient ops)"
  "so_AddMigrations (log_start ops) = unlogged (so_AddMigrations ops)"
  "so_AddHealthzCheck (log_start ops) = unlogged (so_AddHealthzCheck ops)"
  "so_AddReadyzCheck (log_start ops) = unlogged (so_AddReadyzCheck ops)"
  "so_RunGroup (log_start ops) = (\<lambda>cs. logged (\<lambda>_. Ran cs) (so_RunGroup ops cs))"
  by (simp_all add: log_start_def)

text \<open>A step that sets up nothing leaves the labels as they are.\<close>

lemma continues_quiet:
  "sets_up P m [] \<Longrightarrow> continues P ls cs ks rest \<Longrightarrow> continues P ls cs ks (or_exit msg m rest)"
  using continues_or_exit [of P m "[]" ls cs ks rest msg] by simp

lemma continues_run:
  "continues P ls ((if remote then [''cluster'', ''provider''] else []) @ [''manager'']) ls
     (or_exit msg (startComponents env (log_start ops) remote) (ret None))"
  unfolding continues_def or_exit_def startComponents_def wlp_bnd wlp_ret
proof (intro allI impI, simp only: log_start_simps wlp_logged prod.case, rule wlp_all)
  fix rs :: "'a registration list" and w x s'
  assume rs: "\<forall>r \<in> set rs. P r" "map reg_label rs = ls"
  let ?cs = "(if remote then [''cluster'', ''provider''] else []) @ [''manager'']"
  have "start_log P ls ?cs e (map (\<lambda>r. Set_up r True) rs @ [Ran ?cs])" for e
    unfolding start_log_def using rs by blast
  then show "wlp (case first_error (map (ignoreCanceled env) x) of None \<Rightarrow> ret None | Some err \<Rightarrow> ret (Some msg))
     (\<lambda>exit (evs, _). start_log P ls ?cs exit evs) (map (\<lambda>r. Set_up r True) rs @ [Ran ?cs], s')"
    by (cases "first_error (map (ignoreCanceled env) x)") (simp_all only: option.case wlp_ret prod.case)
qed

lemma main_controllers_log:
  assumes "continues (reg_ok (targetClusterFromManager env remote) c) ls cs (start_labels f c) rest"
  shows "continues (reg_ok (targetClusterFromManager env remote) c) ls cs []
    (main_controllers env (log_registrar reg) f remote c rest)"
proof -
  note h = max_job_history_positive [of env]
  show ?thesis
    unfolding main_controllers_def Let_def
    by (intro continues_or_exit [OF sets_up_if(2) [OF setup_cluster [OF h]]] continues_or_exit [OF sets_up_if(2) [OF setup_instances [OF h]]]
        continues_or_exit [OF sets_up_if(2) [OF setup_tenant]] continues_or_exit [OF sets_up_if(2) [OF setup_storage [OF h]]]
        continues_or_exit [OF sets_up_if(2) [OF setup_networking [OF h]]] continues_or_exit [OF sets_up_if(2) [OF setup_bare_metal]])
      (use assms in \<open>simp only: start_labels_def append_assoc append_Nil\<close>)
qed

text \<open>What the command line and the environment ask for.\<close>

definition remote_kubeconfig :: "'h start_env \<Rightarrow> command_line \<Rightarrow> string" where
  "remote_kubeconfig env cl = given_or (cl_remote_cluster_kubeconfig cl) (os_Getenv env ''OSAC_REMOTE_CLUSTER_KUBECONFIG'')"

definition server_address :: "'h start_env \<Rightarrow> command_line \<Rightarrow> string" where
  "server_address env cl = given_or (cl_fulfillment_server_address cl) (os_Getenv env ''OSAC_FULFILLMENT_SERVER_ADDRESS'')"

lemma main_manager_log:
  assumes "c = (server_address env cl \<noteq> '''')"
  shows "continues (reg_ok (targetClusterFromManager env remote) c) (start_labels f c)
    ((if remote then [''cluster'', ''provider''] else []) @ [''manager'']) [] (main_manager env (log_start ops) cl f remote schemes)"
proof -
  have q: "sets_up P (when_enabled b (unlogged m)) []" for P :: "'h registration \<Rightarrow> bool" and b and m :: "('w, gerror option) go"
    using sets_up_if(2) [of b P "unlogged m" "[]", OF sets_up_unlogged(1)] by simp
  show ?thesis
    unfolding main_manager_def Let_def createGrpcConn_def log_start_simps assms [unfolded server_address_def, symmetric]
    by (intro continues_quiet sets_up_unlogged q main_controllers_log continues_run)
qed

lemma continues_nil: "continues P ls cs [] m \<Longrightarrow> wlp m (\<lambda>exit (evs, _). start_log P ls cs exit evs) ([], w)"
  by (simp add: continues_def)

lemma main_log:
  fixes env :: "'h start_env" and ops :: "('h, 'c, 'w) start_ops"
  defines "f \<equiv> \<lambda>cl. enableAllIfNoneSet (registerControllerFlags env cl)"
    and "c \<equiv> \<lambda>cl. server_address env cl \<noteq> ''''" and "remote \<equiv> \<lambda>cl. remote_kubeconfig env cl \<noteq> ''''"
  shows "wlp (main env (log_start ops) cl) (\<lambda>exit (evs, _).
     if remote cl \<and> (fl_Cluster (f cl) \<or> fl_BareMetalInstance (f cl)) then evs = [] \<and> exit \<noteq> None
     else start_log (reg_ok (targetClusterFromManager env (remote cl)) (c cl)) (start_labels (f cl) (c cl))
       ((if remote cl then [''cluster'', ''provider''] else []) @ [''manager'']) exit evs) ([], w)"
proof -
  let ?cs = "(if remote cl then [''cluster'', ''provider''] else []) @ [''manager'']"
  let ?P = "reg_ok (targetClusterFromManager env (remote cl)) (c cl) :: 'h registration \<Rightarrow> bool"
  have m: "continues ?P (start_labels (f cl) (c cl)) ?cs [] (main_manager env (log_start ops) cl (f cl) (remote cl) schemes)" for schemes
    by (rule main_manager_log) (simp add: c_def)
  have k: "sets_up ?P (newClusterFromKubeconfig (log_start ops) p schemes) []" for p schemes
  proof -
    have "registers (newClusterFromKubeconfig (log_start ops) p schemes) []"
      by (auto simp: newClusterFromKubeconfig_def wrapped_def registers_def unlogged_def on_world_def wlp_def bnd_def ret_def
          split: option.splits sum.splits intro!: exI [of _ "[]"])
    then show ?thesis by (auto simp: sets_up_def)
  qed
  show ?thesis
  proof (cases "remote cl")
    case True
    have "continues ?P (start_labels (f cl) (c cl)) ?cs [] (or_exit msg (newClusterFromKubeconfig (log_start ops) p s)
        (main_manager env (log_start ops) cl (f cl) True schemes))" for msg p s schemes
      using continues_quiet [OF k m] True by simp
    from continues_nil [OF this] True show ?thesis
      by (auto simp: main_def Let_def remote_def remote_kubeconfig_def f_def addSchemesForRemoteControllers_def wlp_ret)
  next
    case False
    with continues_nil [OF m] show ?thesis
      by (auto simp: main_def Let_def remote_def remote_kubeconfig_def f_def)
  qed
qed

section \<open>The log is a ghost\<close>

lemma ghost_glue:
  "ghost a a' \<Longrightarrow> ghost b b' \<Longrightarrow> ghost (and_then a b) (and_then a' b')"
  "ghost a a' \<Longrightarrow> ghost (wrapped fmt a) (wrapped fmt a')"
  "ghost a a' \<Longrightarrow> ghost (if_connected c a) (if_connected c a')"
  "ghost a a' \<Longrightarrow> ghost (when_enabled c a) (when_enabled c a')"
  "ghost a a' \<Longrightarrow> ghost x x' \<Longrightarrow> ghost (or_exit msg a x) (or_exit msg a' x')"
  by (auto simp: and_then_def wrapped_def if_connected_def when_enabled_def or_exit_def split: option.split intro!: ghost_bnd)

lemma ghost_registrar: "ghost (log_registrar reg r) (reg r)"
  by (simp add: log_registrar_def)

lemma ghost_setup:
  "ghost (setupClusterControllers env (log_registrar reg) c h) (setupClusterControllers env reg c h)"
  "ghost (setupComputeInstanceControllers env (log_registrar reg) remote c h) (setupComputeInstanceControllers env reg remote c h)"
  "ghost (setupTenantController env (log_registrar reg) remote) (setupTenantController env reg remote)"
  "ghost (setupNetworkingControllers env (log_registrar reg) remote c h) (setupNetworkingControllers env reg remote c h)"
  "ghost (setupBareMetalInstanceControllers env (log_registrar reg) c) (setupBareMetalInstanceControllers env reg c)"
  unfolding setupClusterControllers_def setupProvisioningController_def setupComputeInstanceControllers_def setupTenantController_def
    setupNetworkingControllers_def setup_networking_defs setupBareMetalInstanceControllers_def create_simps
  by (intro ghost_glue ghost_registrar)+

lemma ghost_setup_storage:
  "ghost (setupStorageController env (log_registrar reg) remote c h) (setupStorageController env reg remote c h)"
  unfolding setupStorageController_def create_simps by (auto intro!: ghost_glue ghost_registrar)

lemma ghost_main: "ghost (main env (log_start ops) cl) (main env ops cl)"
proof -
  have run: "ghost (startComponents env (log_start ops) remote) (startComponents env ops remote)" for remote
    unfolding startComponents_def by (intro ghost_bnd) simp_all
  have mgr: "ghost (main_manager env (log_start ops) cl f remote schemes) (main_manager env ops cl f remote schemes)" for f remote schemes
    unfolding main_manager_def main_controllers_def createGrpcConn_def Let_def log_start_simps
    by (intro ghost_glue ghost_setup ghost_setup_storage ghost_logged run ghost_ret)
  have "ghost (newClusterFromKubeconfig (log_start ops) p s) (newClusterFromKubeconfig ops p s)" for p s
    unfolding newClusterFromKubeconfig_def by (auto split: sum.split intro!: ghost_bnd ghost_glue)
  with mgr show ?thesis
    by (auto simp: main_def Let_def addSchemesForRemoteControllers_def intro!: ghost_glue)
qed

section \<open>Property\<close>

definition enabled_kinds :: "controllerFlags \<Rightarrow> string set" where
  "enabled_kinds f =
     (if fl_Cluster f then {''ClusterOrder''} else {}) \<union> (if fl_ComputeInstance f then {''ComputeInstance''} else {}) \<union>
     (if fl_Tenant f then {''Tenant''} else {}) \<union> (if fl_Storage f then {''Storage''} else {}) \<union>
     (if fl_Networking f then {''VirtualNetwork'', ''Subnet'', ''SecurityGroup'', ''ExternalIPPool'', ''ExternalIP'',
        ''ExternalIPAttachment'', ''NATGateway''} else {})"

definition feedback_kinds :: "controllerFlags \<Rightarrow> string set" where
  "feedback_kinds f = enabled_kinds f - {''Tenant'', ''Storage''} \<union> (if fl_BareMetalInstance f then {''BareMetalInstance''} else {})"

lemmas label_defs = start_labels_def networking_labels_def both_def

lemma start_labels_kinds:
  "distinct (start_labels f c)" "(False, k) \<in> set (start_labels f c) \<longleftrightarrow> k \<in> enabled_kinds f"
  "(True, k) \<in> set (start_labels f c) \<longleftrightarrow> c \<and> k \<in> feedback_kinds f"
  by (simp add: label_defs) (auto simp: label_defs enabled_kinds_def feedback_kinds_def)

text \<open>
  C35: what the operator starts. The calls that set up a controller and the run of the manager can be recorded in a log
  that changes nothing else. Every controller it tries to set up keeps at least one job in its history, whatever the
  environment says, and is a feedback controller only if the fulfillment server has an address. Without a remote
  kubeconfig the controllers work on the local cluster; with one and with neither storage nor networking enabled, they
  work on the cluster named \<^verbatim>\<open>remote\<close>. In these two cases the program ends without an error only if the manager has run,
  and the manager runs only after all controllers of the enabled groups, and all their feedback controllers if there is
  an address, were set up without error, each once, and nothing else was; with a remote kubeconfig the remote cluster and
  its provider run beside it. With a remote kubeconfig and the cluster or bare metal group enabled, by its flag or because
  no flag is set, the program exits with an error before it sets up anything. What storage and networking do with a
  remote kubeconfig is left open here.
\<close>

theorem startup_controllers:
  assumes "main env ops cl w = Some (exit, w')"
  shows "let f = enableAllIfNoneSet (registerControllerFlags env cl); remote = remote_kubeconfig env cl \<noteq> '''';
       connected = server_address env cl \<noteq> ''''; covered = (\<not> remote \<or> \<not> (fl_Storage f \<or> fl_Networking f)) in
    \<exists>evs. main env (log_start ops) cl ([], w) = Some (exit, (evs, w')) \<and>
      (\<forall>r b. Set_up r b \<in> set evs \<longrightarrow> (\<forall>h. reg_history r = Some h \<longrightarrow> 1 \<le> h) \<and> (fst (reg_label r) \<longrightarrow> connected)) \<and>
      (covered \<longrightarrow>
         (\<forall>r b t. Set_up r b \<in> set evs \<longrightarrow> reg_target r = Some t \<longrightarrow> t = (if remote then ''remote'' else LocalCluster env)) \<and>
         (exit = None \<longrightarrow> (\<exists>cs. Ran cs \<in> set evs)) \<and>
         (\<forall>cs. Ran cs \<in> set evs \<longrightarrow> (\<exists>rs. evs = map (\<lambda>r. Set_up r True) rs @ [Ran cs] \<and> distinct (map reg_label rs) \<and>
            {k. (False, k) \<in> reg_label ` set rs} = enabled_kinds f \<and>
            {k. (True, k) \<in> reg_label ` set rs} = (if connected then feedback_kinds f else {}) \<and>
            cs = (if remote then [''cluster'', ''provider'', ''manager''] else [''manager''])))) \<and>
      (remote \<and> (fl_Cluster f \<or> fl_BareMetalInstance f) \<longrightarrow> evs = [] \<and> exit \<noteq> None)"
proof -
  let ?f = "enableAllIfNoneSet (registerControllerFlags env cl)"
  let ?remote = "remote_kubeconfig env cl \<noteq> ''''" and ?c = "server_address env cl \<noteq> ''''"
  let ?P = "reg_ok (targetClusterFromManager env ?remote) ?c :: 'b registration \<Rightarrow> bool"
  let ?cs = "(if ?remote then [''cluster'', ''provider''] else []) @ [''manager'']"
  obtain evs where run: "main env (log_start ops) cl ([], w) = Some (exit, (evs, w'))"
    using ghostD [OF ghost_main assms] by blast
  have log: "if ?remote \<and> (fl_Cluster ?f \<or> fl_BareMetalInstance ?f) then evs = [] \<and> exit \<noteq> None
      else start_log ?P (start_labels ?f ?c) ?cs exit evs"
    using wlpD [OF main_log run] by simp
  have ok: "?P r" if "Set_up r b \<in> set evs" for r b
    using log that by (auto simp: start_log_def attempted_def split: if_splits)
  have some_run: "\<exists>cs. Ran cs \<in> set evs" if "exit = None"
    using log that by (auto simp: start_log_def split: if_splits)
  have ran: "\<exists>rs. evs = map (\<lambda>r. Set_up r True) rs @ [Ran cs] \<and> distinct (map reg_label rs) \<and>
       {k. (False, k) \<in> reg_label ` set rs} = enabled_kinds ?f \<and>
       {k. (True, k) \<in> reg_label ` set rs} = (if ?c then feedback_kinds ?f else {}) \<and>
       cs = (if ?remote then [''cluster'', ''provider'', ''manager''] else [''manager''])" if "Ran cs \<in> set evs" for cs
  proof -
    from log that obtain rs where rs: "evs = map (\<lambda>r. Set_up r True) rs @ [Ran cs]" "map reg_label rs = start_labels ?f ?c" "cs = ?cs"
      by (auto simp: start_log_def attempted_def split: if_splits)
    have labels: "reg_label ` set rs = set (start_labels ?f ?c)" by (metis rs(2) set_map)
    show ?thesis by (rule exI [of _ rs]) (use rs in \<open>simp add: labels start_labels_kinds\<close>)
  qed
  show ?thesis
    unfolding Let_def
  proof (intro exI [of _ evs] conjI run allI impI)
    show "1 \<le> h" if "Set_up r b \<in> set evs" "reg_history r = Some h" for r b h
      using ok [OF that(1)] that(2) by (simp add: reg_ok_def)
    show "t = (if ?remote then ''remote'' else LocalCluster env)" if "Set_up r b \<in> set evs" "reg_target r = Some t" for r b t
      using ok [OF that(1)] that(2) by (simp add: reg_ok_def targetClusterFromManager_def)
    show "?c" if "Set_up r b \<in> set evs" "fst (reg_label r)" for r b
      using ok [OF that(1)] that(2) by (simp add: reg_ok_def)
    show "evs = []" "exit \<noteq> None" if "?remote \<and> (fl_Cluster ?f \<or> fl_BareMetalInstance ?f)"
      using log that by auto
  qed (use ran some_run in blast)+
qed

text \<open>A start with a connection and a useless history length, in a world in which every call succeeds.\<close>

definition sample_start :: "unit start_env" where
  "sample_start =
     \<lparr>os_Getenv = (\<lambda>n. if n = ''OSAC_MAX_JOB_HISTORY'' then ''-3''
        else if n = ''OSAC_ENABLE_TENANT_CONTROLLER'' then ''true'' else if n = ''OSAC_ENABLE_CLUSTER_CONTROLLER'' then ''t''
        else if n = ''OSAC_FULFILLMENT_SERVER_ADDRESS'' then ''api:8000'' else ''''),
      time_ParseDuration = (\<lambda>s. Inl (Errorf ''time: invalid duration'' [])),
      http_Transport = (\<lambda>b m u t p w. (SendFailed ''offline'', w)), json_time = (\<lambda>s. Inl ''bad time''), LocalCluster = '''',
      context_Canceled = Errorf ''context canceled'' []\<rparr>"

definition sample_start_ops :: "(unit, unit, unit) start_ops" where
  "sample_start_ops =
     \<lparr>so_BuildConfigFromFlags = (\<lambda>p. ret (Inr ())), so_NewCluster = (\<lambda>k s. ret None), so_GetConfig = ret None,
      so_NewManager = (\<lambda>b s. ret None), so_grpc_NewClient = (\<lambda>os a. ret None), so_SetupWithManager = (\<lambda>r. ret None),
      so_NewMigrationClient = ret None, so_AddMigrations = ret None, so_AddHealthzCheck = ret None, so_AddReadyzCheck = ret None,
      so_RunGroup = (\<lambda>cs. ret [Some (Errorf ''context canceled'' [])])\<rparr>"

definition sample_command_line :: command_line where
  "sample_command_line =
     \<lparr>cl_remote_cluster_kubeconfig = None, cl_fulfillment_server_address = None, cl_fulfillment_server_token_file = Some ''token'',
      cl_grpc_plaintext = False, cl_grpc_insecure = False, cl_tenant = None, cl_storage = None, cl_compute_instance = None,
      cl_cluster = Some True, cl_networking = None, cl_baremetal_instance = None\<rparr>"

lemma sample_flags:
  "registerControllerFlags sample_start sample_command_line =
     \<lparr>fl_Tenant = True, fl_Storage = False, fl_ComputeInstance = False, fl_Cluster = True, fl_Networking = False,
      fl_BareMetalInstance = False\<rparr>"
  by (simp add: registerControllerFlags_def sample_start_def sample_command_line_def given_or_def GetEnvWithDefault_def ParseBool_def)

lemmas sample_start_defs = main_def main_manager_def main_controllers_def or_exit_def when_enabled_def and_then_def wrapped_def
  if_connected_def createGrpcConn_def startComponents_def sample_flags enableAllIfNoneSet_def
  setupClusterControllers_def setupProvisioningController_def setupTenantController_def create_simps given_or_def

lemma sample_main: "main sample_start sample_start_ops sample_command_line () = Some (None, ())"
  unfolding sample_start_defs
  by (simp add: sample_command_line_def sample_start_ops_def go_simps sample_start_def ignoreCanceled_def)

theorem startup_controllers_witness:
  "\<exists>evs. main sample_start (log_start sample_start_ops) sample_command_line ([], ()) = Some (None, (evs, ())) \<and> Ran [''manager''] \<in> set evs \<and>
     (\<exists>rs. evs = map (\<lambda>r. Set_up r True) rs @ [Ran [''manager'']] \<and>
        {k. (False, k) \<in> reg_label ` set rs} = {''ClusterOrder'', ''Tenant''} \<and> {k. (True, k) \<in> reg_label ` set rs} = {''ClusterOrder''})"
proof -
  have ran: "\<exists>evs. main sample_start (log_start sample_start_ops) sample_command_line ([], ()) = Some (None, (evs, ())) \<and>
      Ran [''manager''] \<in> set evs"
    unfolding sample_start_defs
    by (simp add: sample_command_line_def sample_start_ops_def go_simps sample_start_def ignoreCanceled_def logged_def unlogged_def
        log_registrar_def log_start_def)
  then obtain evs where evs: "main sample_start (log_start sample_start_ops) sample_command_line ([], ()) = Some (None, (evs, ()))"
    "Ran [''manager''] \<in> set evs" by blast
  have f: "enableAllIfNoneSet (registerControllerFlags sample_start sample_command_line) =
      registerControllerFlags sample_start sample_command_line" by (simp add: sample_flags enableAllIfNoneSet_def)
  have c: "server_address sample_start sample_command_line \<noteq> ''''"
    by (simp add: server_address_def sample_command_line_def sample_start_def given_or_def)
  have l: "remote_kubeconfig sample_start sample_command_line = []"
    by (simp add: remote_kubeconfig_def sample_command_line_def sample_start_def given_or_def)
  have "\<exists>rs. evs = map (\<lambda>r. Set_up r True) rs @ [Ran [''manager'']] \<and>
     {k. (False, k) \<in> reg_label ` set rs} = enabled_kinds (registerControllerFlags sample_start sample_command_line) \<and>
     {k. (True, k) \<in> reg_label ` set rs} = feedback_kinds (registerControllerFlags sample_start sample_command_line)"
    using startup_controllers [OF sample_main] evs c l unfolding Let_def f by auto
  with evs show ?thesis by (auto simp: sample_flags enabled_kinds_def feedback_kinds_def)
qed

end
