(* ===== verification/Spec2Isabelle.thy ===== *)
theory Spec2Isabelle
  imports Networking_Properties Aap_Provider Dispatcher Feedback_Properties Cluster_Order_Properties Compute_Instance_Properties Liveness Console_Properties
    Console_Server Startup_Properties
begin

text \<open>
  The OSAC operator reconciles custom resources of a Kubernetes cluster with the infrastructure behind them.
  Every kind of resource has a controller that runs Ansible Automation Platform (AAP) jobs to provision and
  deprovision it and keeps the history of these jobs in the resource's status, and a feedback controller
  that copies the status to the fulfillment service. This library models the Go code under \<^verbatim>\<open>src/\<close> and
  proves what makes it correct.

  \<^bold>\<open>How Go is modelled.\<close> \<^verbatim>\<open>Prelude\<close> has the machine and library conventions. A function with effects is a value of
  \<open>('s, 'a) go\<close>, a function from a state to an optional result with the new state; \<open>None\<close> is a panic, so that a
  theorem about \<open>Some\<close> shows that the code returns. Errors are values of \<open>gerror\<close>, with the constructors of
  the typed errors and of \<^verbatim>\<open>fmt.Errorf\<close> with and without \<open>%w\<close>, and \<open>errors_As\<close> looks through the wrapping. Durations
  and instants are integers of nanoseconds, and the code's arithmetic on them is wrapped or saturated to
  64 bits where Go does so. \<open>wlp\<close> and \<open>wp\<close> are the weakest preconditions the proofs calculate with.

  \<^bold>\<open>The provisioning package\<close> (\<^verbatim>\<open>src/pkg/provisioning\<close>). \<^verbatim>\<open>Jobs\<close> is \<^verbatim>\<open>job_helpers.go\<close> and the job types: the history and its
  lookups, updates and truncation. \<^verbatim>\<open>Provision_Helpers\<close> is \<^verbatim>\<open>provision_helpers.go\<close>: backoff. \<^verbatim>\<open>Provision_Lifecycle\<close>
  is \<^verbatim>\<open>provider.go\<close> and \<^verbatim>\<open>provision_lifecycle.go\<close>: the decision what to do next, triggering, polling, retrying and
  deprovisioning, over a record of the provider's operations. \<^verbatim>\<open>Config_Version\<close> is the configuration version,
  the FNV-1a hash of the JSON text at 64 bit words. \<^verbatim>\<open>Aap_Client\<close> is \<^verbatim>\<open>src/pkg/aap/client.go\<close> over a transport that is
  a parameter, and \<^verbatim>\<open>Aap_Provider\<close> is \<^verbatim>\<open>aap_provider.go\<close> with the factory and the extra variables.
  \<^verbatim>\<open>Lifecycle_Laws\<close> states the contracts as locales: a reference to a job list that reads back what was written, a
  provider that is honest about the jobs it runs, and a provider that insists on deprovisioning; the lemmas of
  the lifecycle are proved once inside them. \<^verbatim>\<open>Lifecycle_Properties\<close> has the properties of the lifecycle.

  \<^bold>\<open>The networking controllers\<close> (\<^verbatim>\<open>src/internal/controller\<close>). \<^verbatim>\<open>Kube\<close> has resources, the client and library interfaces
  of Kubernetes as records of operations, and what the controllers share: the Reconcile frame, status writes
  with retry, the deletion frame. \<^verbatim>\<open>Networks\<close> is Subnet, VirtualNetwork, SecurityGroup and NATGateway;
  \<^verbatim>\<open>External_IPs\<close> is ExternalIPPool and ExternalIP; \<^verbatim>\<open>Attachments\<close> is ExternalIPAttachment with its detach
  finalizers on compute instances and cluster orders. \<^verbatim>\<open>Reconcile_Laws\<close> states what the API server and the
  library promise (\<open>controlled\<close>) and proves the frames once for every kind; \<^verbatim>\<open>Sample_World\<close> is a concrete API server
  that keeps the promises. \<^verbatim>\<open>Networking_Properties\<close> concludes, for every kind, that a reconciliation keeps the
  world in order, under these promises and with a provider that is honest and insists on deprovisioning: no job is
  started while another runs, and a finalizer is given up only when deprovisioning is over.

  \<^bold>\<open>Tenants and storage\<close> (\<^verbatim>\<open>src/internal/controller\<close>). \<^verbatim>\<open>Tenants\<close> is the resource Tenant and its controller;
  \<^verbatim>\<open>Cluster_Types\<close> the resource ClusterOrder; \<^verbatim>\<open>Storage_Tiers\<close> the choice of a storage class for every tier and the
  definitions of the tiers (\<^verbatim>\<open>storage_tier_resolution.go\<close>, \<^verbatim>\<open>storage_tier_definitions.go\<close>); \<^verbatim>\<open>Storage_Controller\<close> the
  controller that provisions a tenant's storage backend, its classes and the storage of its ordered clusters, and
  takes them down again (\<^verbatim>\<open>storage_controller.go\<close>). A tenant carries two job histories: \<^verbatim>\<open>Frames\<close> has the rules for what a
  program leaves alone and the locale of two histories in one object, \<^verbatim>\<open>Storage_Laws\<close> proves with them that every
  step keeps both well-formed, and \<^verbatim>\<open>Storage_Properties\<close> concludes that the storage is taken down in order, that a
  reconciliation keeps the world in order, and that the table of clusters in the status behaves as a map.

  \<^bold>\<open>Cluster orders\<close> (\<^verbatim>\<open>clusterorder_controller.go\<close>, \<^verbatim>\<open>clusterorder_resources.go\<close>). \<^verbatim>\<open>Cluster_Orders\<close> is the controller: the objects it
  creates on the hub, provisioning and deprovisioning, the mirroring of the hosted cluster and its node pools, and the patch of
  its part of the status. \<^verbatim>\<open>Cluster_Order_Properties\<close> shows that an order is taken down in order, that a reconciliation keeps
  the world in order, what it reports of the hosted cluster and its node pools, and which fields of the status its patches
  and those of the storage controller write.

  \<^bold>\<open>Compute instances\<close> (\<^verbatim>\<open>computeinstance_types.go\<close>, \<^verbatim>\<open>computeinstance_controller.go\<close>). \<^verbatim>\<open>Compute_Types\<close> is the resource,
  \<^verbatim>\<open>Compute_Instances\<close> the controller: look-ups, preflight checks, the mirroring of the virtual machine, restarts, provisioning.
  \<^verbatim>\<open>Compute_Instance_Properties\<close> shows that an instance is given up last, that the world stays in order, that phase and
  conditions are those of the virtual machine, and when a restart is recorded.

  \<^bold>\<open>Network managers and dispatch.\<close> \<^verbatim>\<open>Network_Manager\<close> is \<^verbatim>\<open>src/pkg/networkmanager\<close>, the registration of managers in
  ConfigMaps; \<^verbatim>\<open>Dispatcher\<close> is \<^verbatim>\<open>src/pkg/dispatcher\<close>, the plan which managers act on a resource.

  \<^bold>\<open>Feedback.\<close> \<^verbatim>\<open>Feedback_Bridge\<close> is \<^verbatim>\<open>src/internal/controller/feedback/bridge.go\<close>, the generic reconciler, with a log of
  its calls and the order they keep. \<^verbatim>\<open>Feedback_Kinds\<close> has the feedback controllers of the networking kinds, and
  \<^verbatim>\<open>Feedback_Clusters\<close> those of external IP attachments, cluster orders, compute instances and bare metal instances.
  \<^verbatim>\<open>Feedback_Properties\<close> shows what they report, that the one controller written without the bridge behaves as the bridge does,
  and that an attachment is released only after its external IP says so.

  \<^bold>\<open>Liveness.\<close> \<^verbatim>\<open>Liveness\<close> concludes that deprovisioning comes to an end: with a provider that has a bounded number of setbacks
  in store, one of a bounded number of calls of the lifecycle lets the deletion through.

  \<^bold>\<open>The processes.\<close> \<^verbatim>\<open>Startup\<close> is \<^verbatim>\<open>src/cmd/main.go\<close> with \<^verbatim>\<open>src/helpers\<close>: flags, environment, providers and the
  registration of every controller; \<^verbatim>\<open>Startup_Properties\<close> shows which controllers run, with which arguments, and when the
  program exits. \<^verbatim>\<open>Migrations\<close> is \<^verbatim>\<open>src/internal/migrations\<close>, with an exact and idempotent migration. \<^verbatim>\<open>Console_Proxy\<close> is
  \<^verbatim>\<open>src/internal/consoleproxy\<close>, the server that connects clients to consoles of virtual machines; \<^verbatim>\<open>Console_Properties\<close> shows
  which machine a request reaches with which configuration, and that it leaves no connection open; \<^verbatim>\<open>Console_Server\<close> has its
  start and its goroutines as a step relation, and shows that it stops.

  \<^bold>\<open>Bounds.\<close> No loop of the modelled code needs fuel: every loop runs over a finite list and is a structural
  recursion. \<^verbatim>\<open>RetryOnConflict\<close> is a parameter; its law says only that it runs its argument some number of times.

  \<^bold>\<open>Not modelled.\<close> Log output; \<^verbatim>\<open>SetupWithManager\<close> (registration of watches) but for the predicates and mappings it registers;
  the truncation of \<^verbatim>\<open>metav1.Time\<close> to seconds when a status is stored; concurrency inside one reconciliation (there is none:
  the work queue never hands one key to two workers; writes of other clients appear as the behaviour of the API server);
  metrics, webhook and TLS options of the processes; the copying of bytes between two connections, which is in libraries;
  generated code (deep copies and the messages of the fulfillment service, whose fields appear as records), which has no logic of
  its own.
\<close>

section \<open>The automation platform under the lifecycle\<close>





end
